(* ===== verification/Prelude.thy ===== *)
theory Prelude
  imports Main "HOL-Library.Word" "HOL-Library.Char_ord" "HOL-Library.Sublist"
begin

text \<open>
  The part of Python that the modelled code shares.

  Bytes and text.  A Python \<open>bytes\<close> object is a \<^typ>\<open>string\<close>: an Isabelle character is exactly one
  byte.  A Python \<open>str\<close> is represented by its UTF-8 encoding, so \<open>s.encode()\<close> is the identity on
  the representation and \<open>b.decode()\<close> is the validity check \<open>utf8_decode\<close> (strict) or the
  replacement of ill-formed subsequences by U+FFFD \<open>utf8_replace\<close> (\<open>errors="replace"\<close>).

  Integers.  Python integers are unbounded: \<^typ>\<open>int\<close>.  \<open>py_int\<close> is \<open>int(b)\<close> on a byte string
  (surrounding white space, a sign, single underscores between digits), \<open>int_repr\<close> is
  \<open>str(n)\<close>.

  The theory also declares the two collections \<open>bytes_simps\<close> (facts on byte strings) and
  \<open>model_defs\<close> (the definitions that a component's proofs unfold together).
\<close>

named_theorems bytes_simps \<open>facts about byte strings, numerals and line ends\<close>
named_theorems model_defs \<open>definitions of the model that are unfolded together\<close>

type_synonym bytes = string
type_synonym pystr = string

abbreviation LF :: char where "LF \<equiv> CHR 0x0A"
abbreviation CR :: char where "CR \<equiv> CHR 0x0D"

definition SYM_CRLF :: bytes where
  "SYM_CRLF = [CHR 0x0D, CHR 0x0A]"

section \<open>Slices and searches\<close>

text \<open>\<open>b.find(sub, start)\<close>: the least index at or after \<open>start\<close> where \<open>sub\<close> occurs, \<open>None\<close> for -1.\<close>

fun find_from :: "bytes \<Rightarrow> nat \<Rightarrow> bytes \<Rightarrow> nat option" where
  "find_from sub i [] = (if sub = [] then Some i else None)"
| "find_from sub i (x # xs) =
     (if take (length sub) (x # xs) = sub then Some i else find_from sub (Suc i) xs)"

definition bytes_find :: "bytes \<Rightarrow> bytes \<Rightarrow> nat \<Rightarrow> nat option" where
  "bytes_find s sub start = (if start \<le> length s then find_from sub start (drop start s) else None)"

text \<open>\<open>b.endswith(suf)\<close> and \<open>b[:-2]\<close>.\<close>

definition ends_with :: "bytes \<Rightarrow> bytes \<Rightarrow> bool" where
  "ends_with s suf \<longleftrightarrow> length suf \<le> length s \<and> drop (length s - length suf) s = suf"

definition drop_last2 :: "bytes \<Rightarrow> bytes" where
  "drop_last2 s = take (length s - 2) s"

text \<open>White space of \<open>bytes.split()\<close> and \<open>bytes.strip()\<close>: space, tab, newline, carriage return,
  vertical tab, form feed.\<close>

definition is_space :: "char \<Rightarrow> bool" where
  "is_space c \<longleftrightarrow> c \<in> {CHR 0x20, CHR 0x09, CHR 0x0A, CHR 0x0D, CHR 0x0B, CHR 0x0C}"

fun split_ws_aux :: "bytes \<Rightarrow> bytes \<Rightarrow> bytes list" where
  "split_ws_aux acc [] = (if acc = [] then [] else [acc])"
| "split_ws_aux acc (c # cs) =
     (if is_space c then (if acc = [] then split_ws_aux [] cs else acc # split_ws_aux [] cs)
      else split_ws_aux (acc @ [c]) cs)"

text \<open>\<open>s.split()\<close>\<close>
definition split_ws :: "bytes \<Rightarrow> bytes list" where
  "split_ws = split_ws_aux []"

text \<open>\<open>s.split(c)\<close> for a one-character separator: never empty.\<close>
fun split_on :: "char \<Rightarrow> string \<Rightarrow> string list" where
  "split_on c [] = [[]]"
| "split_on c (x # xs) =
     (if x = c then [] # split_on c xs
      else (case split_on c xs of [] \<Rightarrow> [[x]] | y # ys \<Rightarrow> (x # y) # ys))"

definition strip :: "bytes \<Rightarrow> bytes" where
  "strip s = rev (dropWhile is_space (rev (dropWhile is_space s)))"

definition upper_char :: "char \<Rightarrow> char" where
  "upper_char c = (if CHR ''a'' \<le> c \<and> c \<le> CHR ''z'' then char_of (of_char c - (32::nat)) else c)"

definition lower_char :: "char \<Rightarrow> char" where
  "lower_char c = (if CHR ''A'' \<le> c \<and> c \<le> CHR ''Z'' then char_of (of_char c + (32::nat)) else c)"

definition upper :: "string \<Rightarrow> string" where "upper = map upper_char"
definition lower :: "string \<Rightarrow> string" where "lower = map lower_char"

section \<open>Decimal numerals\<close>

definition digit_char :: "nat \<Rightarrow> char" where
  "digit_char d = char_of (48 + d)"

definition is_digit :: "char \<Rightarrow> bool" where
  "is_digit c \<longleftrightarrow> CHR ''0'' \<le> c \<and> c \<le> CHR ''9''"

definition digit_val :: "char \<Rightarrow> nat" where
  "digit_val c = of_char c - 48"

fun nat_repr :: "nat \<Rightarrow> string" where
  "nat_repr n = (if n < 10 then [digit_char n] else nat_repr (n div 10) @ [digit_char (n mod 10)])"

declare nat_repr.simps [simp del]

definition int_repr :: "int \<Rightarrow> string" where
  "int_repr n = (if n < 0 then CHR ''-'' # nat_repr (nat (- n)) else nat_repr (nat n))"

text \<open>The digits of \<open>int(b)\<close>: at least one digit, single underscores only between digits.\<close>

fun digits_val :: "nat \<Rightarrow> string \<Rightarrow> nat option" where
  "digits_val acc [] = Some acc"
| "digits_val acc (c # cs) =
     (if is_digit c then digits_val (10 * acc + digit_val c) cs
      else if c = CHR ''_'' then
        (case cs of [] \<Rightarrow> None
         | d # ds \<Rightarrow> if is_digit d then digits_val (10 * acc + digit_val d) ds else None)
      else None)"

definition py_nat :: "string \<Rightarrow> nat option" where
  "py_nat s = (case s of [] \<Rightarrow> None | c # _ \<Rightarrow> if is_digit c then digits_val 0 s else None)"

definition py_int :: "bytes \<Rightarrow> int option" where
  "py_int b =
     (let s = strip b in
      case s of [] \<Rightarrow> None
      | c # cs \<Rightarrow>
          if c = CHR ''-'' then map_option (\<lambda>n. - int n) (py_nat cs)
          else if c = CHR ''+'' then map_option int (py_nat cs)
          else map_option int (py_nat s))"

section \<open>UTF-8\<close>

text \<open>The admissible continuation bytes after each lead byte (the well-formedness table of the
  Unicode standard, which CPython's decoder follows).\<close>

definition utf8_conts :: "nat \<Rightarrow> (nat \<times> nat) list option" where
  "utf8_conts b =
     (if b < 0x80 then Some []
      else if 0xC2 \<le> b \<and> b \<le> 0xDF then Some [(0x80, 0xBF)]
      else if b = 0xE0 then Some [(0xA0, 0xBF), (0x80, 0xBF)]
      else if b = 0xED then Some [(0x80, 0x9F), (0x80, 0xBF)]
      else if 0xE1 \<le> b \<and> b \<le> 0xEF then Some [(0x80, 0xBF), (0x80, 0xBF)]
      else if b = 0xF0 then Some [(0x90, 0xBF), (0x80, 0xBF), (0x80, 0xBF)]
      else if 0xF1 \<le> b \<and> b \<le> 0xF3 then Some [(0x80, 0xBF), (0x80, 0xBF), (0x80, 0xBF)]
      else if b = 0xF4 then Some [(0x80, 0x8F), (0x80, 0xBF), (0x80, 0xBF)]
      else None)"

text \<open>How many bytes of the list match the ranges, in order.\<close>

fun conts_match :: "(nat \<times> nat) list \<Rightarrow> bytes \<Rightarrow> nat" where
  "conts_match [] bs = 0"
| "conts_match (r # rs) [] = 0"
| "conts_match ((lo, hi) # rs) (b # bs) =
     (if lo \<le> of_char b \<and> of_char b \<le> hi then Suc (conts_match rs bs) else 0)"

definition REPLACEMENT :: string where
  "REPLACEMENT = [CHR 0xEF, CHR 0xBF, CHR 0xBD]"

function utf8_valid :: "bytes \<Rightarrow> bool" where
  "utf8_valid [] = True"
| "utf8_valid (b # bs) =
     (case utf8_conts (of_char b) of None \<Rightarrow> False
      | Some rs \<Rightarrow> conts_match rs bs = length rs \<and> utf8_valid (drop (length rs) bs))"
  by pat_completeness auto
termination by (relation "measure length") auto

function utf8_replace :: "bytes \<Rightarrow> string" where
  "utf8_replace [] = []"
| "utf8_replace (b # bs) =
     (case utf8_conts (of_char b) of None \<Rightarrow> REPLACEMENT @ utf8_replace bs
      | Some rs \<Rightarrow>
          (let k = conts_match rs bs in
           if k = length rs then b # take k bs @ utf8_replace (drop k bs)
           else REPLACEMENT @ utf8_replace (drop k bs)))"
  by pat_completeness auto
termination by (relation "measure length") (auto simp: less_Suc_eq_le)

definition utf8_decode :: "bytes \<Rightarrow> string option" where
  "utf8_decode b = (if utf8_valid b then Some b else None)"

section \<open>Shared lemmas\<close>

lemma of_char_digit_char [simp]: "d < 10 \<Longrightarrow> of_char (digit_char d) = (48 + d :: nat)"
  by (simp add: digit_char_def)

lemma of_char_le_iff: "of_char c \<le> (of_char d :: nat) \<longleftrightarrow> c \<le> d"
  by (simp add: less_eq_char_def)

lemma is_digit_digit_char [simp]: "d < 10 \<Longrightarrow> is_digit (digit_char d)"
proof -
  assume d: "d < 10"
  have "of_char (CHR ''0'') \<le> (of_char (digit_char d) :: nat)"
    and "of_char (digit_char d) \<le> (of_char (CHR ''9'') :: nat)"
    using d by simp_all
  then show ?thesis by (simp only: is_digit_def of_char_le_iff)
qed

lemma digit_val_digit_char [simp]: "d < 10 \<Longrightarrow> digit_val (digit_char d) = d"
  by (simp add: digit_val_def)

lemma is_digit_bounds: "is_digit c \<Longrightarrow> 48 \<le> (of_char c :: nat) \<and> of_char c \<le> (57 :: nat)"
proof -
  assume "is_digit c"
  then have "of_char (CHR ''0'') \<le> (of_char c :: nat)" "of_char c \<le> (of_char (CHR ''9'') :: nat)"
    by (simp_all only: is_digit_def of_char_le_iff)
  then show ?thesis by simp
qed

lemma is_digit_not_sign [simp]:
  "is_digit c \<Longrightarrow> c \<noteq> CHR ''-''" "is_digit c \<Longrightarrow> c \<noteq> CHR ''+''" "is_digit c \<Longrightarrow> \<not> is_space c"
  "is_digit c \<Longrightarrow> c \<noteq> LF" "is_digit c \<Longrightarrow> c \<noteq> CR"
  by (auto simp: is_space_def dest: is_digit_bounds)

lemma digits_val_append:
  "list_all is_digit xs \<Longrightarrow>
   digits_val acc (xs @ ys) = digits_val (foldl (\<lambda>a c. 10 * a + digit_val c) acc xs) ys"
  by (induction xs arbitrary: acc) auto

lemma nat_repr_digits: "list_all is_digit (nat_repr n)"
  by (induction n rule: nat_repr.induct) (subst nat_repr.simps, auto)

lemma nat_repr_not_Nil [simp]: "nat_repr n \<noteq> []"
  by (subst nat_repr.simps) simp

lemma nat_repr_fold: "foldl (\<lambda>a c. 10 * a + digit_val c) 0 (nat_repr n) = n"
proof (induction n rule: nat_repr.induct)
  case (1 n)
  then show ?case by (cases "n < 10") (simp_all add: nat_repr.simps [of n])
qed

lemma py_nat_nat_repr [simp]: "py_nat (nat_repr n) = Some n"
proof (cases "nat_repr n")
  case (Cons c cs)
  moreover have "is_digit c" using nat_repr_digits [of n] Cons by simp
  moreover have "digits_val 0 (nat_repr n) = Some n"
    using digits_val_append [OF nat_repr_digits, of 0 n "[]"] by (simp add: nat_repr_fold)
  ultimately show ?thesis by (simp add: py_nat_def)
qed simp

lemma strip_id: "list_all (\<lambda>c. \<not> is_space c) s \<Longrightarrow> strip s = s"
proof -
  have drop: "list_all (\<lambda>c. \<not> is_space c) t \<Longrightarrow> dropWhile is_space t = t" for t
    by (cases t) auto
  assume s: "list_all (\<lambda>c. \<not> is_space c) s"
  then have "list_all (\<lambda>c. \<not> is_space c) (rev s)" by (simp add: list_all_iff)
  then show ?thesis using s by (simp add: strip_def drop)
qed

lemma digits_not_space: "list_all is_digit s \<Longrightarrow> list_all (\<lambda>c. \<not> is_space c) s"
  by (auto simp: list_all_iff)

lemma int_repr_not_space: "list_all (\<lambda>c. \<not> is_space c) (int_repr n)"
  using digits_not_space [OF nat_repr_digits] by (simp add: int_repr_def is_space_def)

lemma py_int_int_repr [simp]: "py_int (int_repr n) = Some n"
proof (cases "n < 0")
  case True
  then show ?thesis
    using strip_id [OF int_repr_not_space, of n] by (simp add: py_int_def int_repr_def)
next
  case False
  then have r: "int_repr n = nat_repr (nat n)" by (simp add: int_repr_def)
  obtain c cs where c: "nat_repr (nat n) = c # cs" by (cases "nat_repr (nat n)") auto
  then have "is_digit c" using nat_repr_digits [of "nat n"] by simp
  then have "py_int (int_repr n) = map_option int (py_nat (nat_repr (nat n)))"
    using strip_id [OF int_repr_not_space, of n] r c by (simp add: py_int_def)
  then show ?thesis using False by simp
qed

lemma int_repr_no_LF [simp]: "LF \<notin> set (int_repr n)" "LF \<notin> set (nat_repr m)"
  using int_repr_not_space [of n] digits_not_space [OF nat_repr_digits [of m]]
  by (auto simp: list_all_iff is_space_def)

lemma int_repr_nat [simp]: "int_repr (int n) = nat_repr n"
  by (simp add: int_repr_def)

lemma int_repr_neg1: "int_repr (-1) = ''-1''"
  by code_simp

lemma nat_repr_neq_neg1 [simp]: "nat_repr n \<noteq> CHR ''-'' # s"
proof
  assume "nat_repr n = CHR ''-'' # s"
  then have "is_digit (CHR ''-'')" using nat_repr_digits [of n] by simp
  then show False by (auto dest: is_digit_bounds)
qed

text \<open>Line ends.\<close>

lemma SYM_CRLF_simps [bytes_simps]:
  "length SYM_CRLF = 2" "ends_with (l @ SYM_CRLF) SYM_CRLF" "drop_last2 (l @ SYM_CRLF) = l"
  by (simp_all add: SYM_CRLF_def ends_with_def drop_last2_def)

lemma drop_last2_append [bytes_simps]: "length t = 2 \<Longrightarrow> drop_last2 (s @ t) = s"
  by (simp add: drop_last2_def)

lemma ends_with_iff: "ends_with s suf \<longleftrightarrow> (\<exists>p. s = p @ suf)"
proof
  assume "ends_with s suf"
  then have "s = take (length s - length suf) s @ suf"
    unfolding ends_with_def by (metis append_take_drop_id)
  then show "\<exists>p. s = p @ suf" by blast
qed (auto simp: ends_with_def)

lemma ends_with_CRLF_LF: "ends_with s SYM_CRLF \<Longrightarrow> LF \<in> set s"
  by (auto simp: ends_with_iff SYM_CRLF_def)

lemma append_eq_prefix:
  "u @ w = t @ r \<Longrightarrow> length u \<le> length t \<Longrightarrow> \<exists>a. t = u @ a \<and> w = a @ r"
  by (metis append_eq_append_conv_if append_eq_conv_conj append_assoc same_append_eq)

text \<open>Searching.\<close>

lemma find_from_Some:
  "find_from sub i s = Some j \<Longrightarrow>
     i \<le> j \<and> j - i + length sub \<le> length s \<and> take (length sub) (drop (j - i) s) = sub"
proof (induction s arbitrary: i)
  case (Cons x xs)
  show ?case
  proof (cases "take (length sub) (x # xs) = sub")
    case True
    then have "length sub \<le> length (x # xs)" by (metis length_take min.cobounded1)
    then show ?thesis using Cons.prems True by simp
  next
    case False
    then have "find_from sub (Suc i) xs = Some j" using Cons.prems by simp
    from Cons.IH [OF this] show ?thesis by (auto simp: Suc_diff_le drop_Cons')
  qed
qed (auto split: if_splits)

lemma find_from_None: "find_from sub i s = None \<Longrightarrow> sublist sub s \<Longrightarrow> False"
proof (induction s arbitrary: i)
  case (Cons x xs)
  then have "\<not> prefix sub (x # xs)"
    by (auto split: if_splits simp: prefix_def)
  then have "sublist sub xs" using Cons.prems(2) by (auto simp: sublist_Cons_right)
  then show ?case using Cons.IH [of "Suc i"] Cons.prems(1) by (auto split: if_splits)
qed (auto split: if_splits)

lemma find_from_char:
  "find_from [c] i s = (if c \<in> set s then Some (i + length (takeWhile (\<lambda>x. x \<noteq> c) s)) else None)"
  by (induction s arbitrary: i) auto

text \<open>UTF-8: replacement yields well-formed text and leaves well-formed text alone.\<close>

lemma conts_match_le: "conts_match rs bs \<le> length rs" "conts_match rs bs \<le> length bs"
  by (induction rs bs rule: conts_match.induct) auto

lemma conts_match_take_append:
  "conts_match rs bs = length rs \<Longrightarrow> conts_match rs (take (length rs) bs @ cs) = length rs"
  by (induction rs bs rule: conts_match.induct) (auto split: if_splits)

lemma utf8_valid_step:
  assumes "utf8_conts (of_char b) = Some rs" "conts_match rs bs = length rs" "utf8_valid cs"
  shows "utf8_valid (b # take (length rs) bs @ cs)"
proof -
  have "length (take (length rs) bs) = length rs"
    using assms(2) conts_match_le(2) [of rs bs] by simp
  then show ?thesis using assms by (simp add: conts_match_take_append)
qed

lemma utf8_valid_REPLACEMENT [simp]: "utf8_valid (REPLACEMENT @ s) = utf8_valid s"
  by (simp add: REPLACEMENT_def utf8_conts_def)

lemma utf8_replace_valid: "utf8_valid (utf8_replace b)"
proof (induction b rule: utf8_replace.induct)
  case (2 b bs)
  show ?case
  proof (cases "utf8_conts (of_char b)")
    case (Some rs)
    show ?thesis
    proof (cases "conts_match rs bs = length rs")
      case True
      have "utf8_valid (utf8_replace (drop (length rs) bs))"
        using 2(2) [OF Some refl] True by simp
      then show ?thesis
        using utf8_valid_step [OF Some True] Some True by (simp add: Let_def del: utf8_valid.simps)
    next
      case False
      then show ?thesis using 2(3) [OF Some refl False] Some by simp
    qed
  qed (use 2 in simp)
qed simp

lemma utf8_replace_id: "utf8_valid b \<Longrightarrow> utf8_replace b = b"
  by (induction b rule: utf8_valid.induct) (auto split: option.splits)

lemma utf8_valid_ascii: "list_all (\<lambda>c. of_char c < (128::nat)) s \<Longrightarrow> utf8_valid s"
  by (induction s) (auto simp: utf8_conts_def)

end
