(* ===== verification/Keyslot.thy ===== *)
theory Keyslot
  imports Prelude
begin

text \<open>
  \<open>key_slot\<close> of \<open>redis/crc.py\<close>: the hash slot of a key, CRC-16 (\<open>binascii.crc_hqx\<close>: polynomial 0x1021, most
  significant bit first) of the key or of its hash tag, modulo the number of slots.
\<close>

unbundle bit_operations_syntax

definition REDIS_CLUSTER_HASH_SLOTS :: nat where
  "REDIS_CLUSTER_HASH_SLOTS = 16384"

definition crc_bit :: "16 word \<Rightarrow> 16 word" where
  "crc_bit c = (if bit c 15 then push_bit 1 c XOR 0x1021 else push_bit 1 c)"

definition crc_byte :: "16 word \<Rightarrow> char \<Rightarrow> 16 word" where
  "crc_byte c b = (crc_bit ^^ 8) (c XOR push_bit 8 (of_nat (of_char b)))"

definition crc_hqx :: "bytes \<Rightarrow> 16 word \<Rightarrow> 16 word" where
  "crc_hqx data init = foldl crc_byte init data"

text \<open>The part of the key that is hashed: between the first \<open>{\<close> and the first \<open>}\<close> after it, if not empty.\<close>

definition hash_tag :: "bytes \<Rightarrow> bytes" where
  "hash_tag key =
     (case bytes_find key ''{'' 0 of
        None \<Rightarrow> key
      | Some start \<Rightarrow>
          (case bytes_find key ''}'' (start + 1) of
             None \<Rightarrow> key
           | Some end \<Rightarrow> if end \<noteq> start + 1 then take (end - (start + 1)) (drop (start + 1) key) else key))"

definition key_slot :: "bytes \<Rightarrow> nat \<Rightarrow> nat" where
  "key_slot key bucket = unat (crc_hqx (hash_tag key) 0) mod bucket"

lemma bytes_find_char:
  "start \<le> length s \<Longrightarrow> bytes_find s [c] start =
     (if c \<in> set (drop start s) then Some (start + length (takeWhile (\<lambda>x. x \<noteq> c) (drop start s))) else None)"
  by (simp add: bytes_find_def find_from_char)

lemma takeWhile_first: "c \<notin> set a \<Longrightarrow> takeWhile (\<lambda>x. x \<noteq> c) (a @ c # b) = a"
  by (simp add: takeWhile_append)

lemma hash_tag_braces:
  assumes "CHR ''{'' \<notin> set a" "CHR ''}'' \<notin> set t" "t \<noteq> []"
  shows "hash_tag (a @ ''{'' @ t @ ''}'' @ b) = t"
proof -
  let ?key = "a @ ''{'' @ t @ ''}'' @ b"
  have 1: "bytes_find ?key ''{'' 0 = Some (length a)"
    using assms(1) by (subst bytes_find_char) (simp_all add: takeWhile_first)
  have "drop (length a + 1) ?key = t @ CHR ''}'' # b" by simp
  then have 2: "bytes_find ?key ''}'' (length a + 1) = Some (length a + 1 + length t)"
    using assms(2) by (subst bytes_find_char) (simp_all add: takeWhile_first del: drop_append)
  show ?thesis using 1 2 assms(3) by (simp add: hash_tag_def)
qed

lemma hash_tag_plain:
  assumes "CHR ''{'' \<notin> set k \<or> CHR ''}'' \<notin> set k"
  shows "hash_tag k = k"
proof (cases "CHR ''{'' \<in> set k")
  case True
  then obtain a b where k: "k = a @ CHR ''{'' # b" "CHR ''{'' \<notin> set a" by (meson split_list_first)
  have "bytes_find k ''{'' 0 = Some (length a)"
    using k by (subst bytes_find_char) (simp_all add: takeWhile_first)
  moreover have "bytes_find k ''}'' (length a + 1) = None"
    using assms True k(1) by (subst bytes_find_char) simp_all
  ultimately show ?thesis by (simp add: hash_tag_def)
qed (simp add: hash_tag_def bytes_find_char)



end
