(* ===== verification/Exceptions.thy ===== *)
theory Exceptions
  imports Prelude
begin

text \<open>
  The exception classes of \<open>redis/exceptions.py\<close> with the Python built-ins the library raises or
  catches, their inheritance (\<open>exc_bases\<close>, \<open>exc_isinstance\<close>), exception instances (\<open>exc\<close>: a class
  and its message), and \<open>BaseParser.parse_error\<close> of \<open>redis/_parsers/base.py\<close>, which turns the
  text of a server error into an instance of one of these classes.
\<close>

datatype exc_class =
    RedisError | ConnectionError | TimeoutError | AuthenticationError | AuthorizationError
  | BusyLoadingError | InvalidResponse | ResponseError | DataError | PubSubError | WatchError
  | NoScriptError | OutOfMemoryError | ExecAbortError | ReadOnlyError | NoPermissionError
  | ModuleError | LockError | LockNotOwnedError | ChildDeadlockedError
  | AuthenticationWrongNumberOfArgsError | RedisClusterException | ClusterError | ClusterDownError
  | AskError | TryAgainError | ClusterCrossSlotError | MovedError | MasterDownError
  | SlotNotCoveredError | MaxConnectionsError | MasterNotFoundError | SlaveNotFoundError
  | PyException | PyValueError | PyTypeError | PyKeyError | PyIndexError | PyAttributeError
  | PyOSError | PySocketTimeout | PyUnicodeDecodeError | PyUnboundLocalError | PyCancelledError
  | PyRuntimeError | PyNotImplementedError
  | PyBaseException

text \<open>The direct base classes.  \<open>socket.timeout\<close> is a subclass of \<open>OSError\<close>; \<open>CancelledError\<close> derives
  from \<open>BaseException\<close> only.\<close>

fun exc_bases :: "exc_class \<Rightarrow> exc_class list" where
  "exc_bases RedisError = [PyException]"
| "exc_bases ConnectionError = [RedisError]"
| "exc_bases TimeoutError = [RedisError]"
| "exc_bases AuthenticationError = [ConnectionError]"
| "exc_bases AuthorizationError = [ConnectionError]"
| "exc_bases BusyLoadingError = [ConnectionError]"
| "exc_bases InvalidResponse = [RedisError]"
| "exc_bases ResponseError = [RedisError]"
| "exc_bases DataError = [RedisError]"
| "exc_bases PubSubError = [RedisError]"
| "exc_bases WatchError = [RedisError]"
| "exc_bases NoScriptError = [ResponseError]"
| "exc_bases OutOfMemoryError = [ResponseError]"
| "exc_bases ExecAbortError = [ResponseError]"
| "exc_bases ReadOnlyError = [ResponseError]"
| "exc_bases NoPermissionError = [ResponseError]"
| "exc_bases ModuleError = [ResponseError]"
| "exc_bases LockError = [RedisError, PyValueError]"
| "exc_bases LockNotOwnedError = [LockError]"
| "exc_bases ChildDeadlockedError = [PyException]"
| "exc_bases AuthenticationWrongNumberOfArgsError = [ResponseError]"
| "exc_bases RedisClusterException = [PyException]"
| "exc_bases ClusterError = [RedisError]"
| "exc_bases ClusterDownError = [ClusterError, ResponseError]"
| "exc_bases AskError = [ResponseError]"
| "exc_bases TryAgainError = [ResponseError]"
| "exc_bases ClusterCrossSlotError = [ResponseError]"
| "exc_bases MovedError = [AskError]"
| "exc_bases MasterDownError = [ClusterDownError]"
| "exc_bases SlotNotCoveredError = [RedisClusterException]"
| "exc_bases MaxConnectionsError = [ConnectionError]"
| "exc_bases MasterNotFoundError = [ConnectionError]"
| "exc_bases SlaveNotFoundError = [ConnectionError]"
| "exc_bases PyException = [PyBaseException]"
| "exc_bases PyValueError = [PyException]"
| "exc_bases PyTypeError = [PyException]"
| "exc_bases PyKeyError = [PyException]"
| "exc_bases PyIndexError = [PyException]"
| "exc_bases PyAttributeError = [PyException]"
| "exc_bases PyOSError = [PyException]"
| "exc_bases PySocketTimeout = [PyOSError]"
| "exc_bases PyUnicodeDecodeError = [PyValueError]"
| "exc_bases PyUnboundLocalError = [PyException]"
| "exc_bases PyCancelledError = [PyBaseException]"
| "exc_bases PyRuntimeError = [PyException]"
| "exc_bases PyNotImplementedError = [PyRuntimeError]"
| "exc_bases PyBaseException = []"

text \<open>\<open>issubclass(c, d)\<close>: six generations of base classes cover the hierarchy.\<close>

fun exc_ancestors :: "nat \<Rightarrow> exc_class \<Rightarrow> exc_class list" where
  "exc_ancestors 0 c = [c]"
| "exc_ancestors (Suc n) c = c # concat (map (exc_ancestors n) (exc_bases c))"

definition exc_isinstance :: "exc_class \<Rightarrow> exc_class \<Rightarrow> bool" where
  "exc_isinstance c d \<longleftrightarrow> d \<in> set (exc_ancestors 6 c)"

datatype exc = Exc (exc_cls: exc_class) (exc_msg: string)

text \<open>\<open>isinstance(e, cls)\<close> for an exception instance.\<close>
definition is_exc :: "exc \<Rightarrow> exc_class \<Rightarrow> bool" where
  "is_exc e d \<longleftrightarrow> exc_isinstance (exc_cls e) d"

section \<open>Constructors with a check: AskError and MovedError\<close>

text \<open>\<open>s.rsplit(":", 1)\<close> with a separator present: the parts before and after its last occurrence.\<close>

definition rsplit_colon :: "string \<Rightarrow> (string \<times> string) option" where
  "rsplit_colon s =
     (if CHR '':'' \<in> set s
      then Some (rev (tl (dropWhile (\<lambda>c. c \<noteq> CHR '':'') (rev s))),
                 rev (takeWhile (\<lambda>c. c \<noteq> CHR '':'') (rev s)))
      else None)"

text \<open>\<open>AskError.__init__\<close>: slot id, host and port of \<open>"3999 127.0.0.1:6381"\<close>; every failure to
  unpack or convert raises \<open>ValueError\<close> (\<open>None\<close>).\<close>

definition ask_fields :: "string \<Rightarrow> (int \<times> string \<times> int) option" where
  "ask_fields resp =
     (case split_on (CHR '' '') resp of
        [slot_id, new_node] \<Rightarrow>
          (case rsplit_colon new_node of None \<Rightarrow> None
           | Some (host, port) \<Rightarrow>
               (case (py_int slot_id, py_int port) of
                  (Some s, Some p) \<Rightarrow> Some (s, host, p)
                | _ \<Rightarrow> None))
      | _ \<Rightarrow> None)"

definition new_exc :: "exc_class \<Rightarrow> string \<Rightarrow> exc + exc" where
  "new_exc c resp =
     (if c \<in> {AskError, MovedError} \<and> ask_fields resp = None
      then Inl (Exc PyValueError ''invalid redirection'')
      else Inr (Exc c resp))"

section \<open>BaseParser.parse\_error\<close>

datatype exc_entry = Cls exc_class | Sub "(string \<times> exc_class) list"

definition MODULE_LOAD_ERROR :: string where
  "MODULE_LOAD_ERROR = ''Error loading the extension. Please check the server logs.''"
definition NO_SUCH_MODULE_ERROR :: string where
  "NO_SUCH_MODULE_ERROR = ''Error unloading module: no such module with that name''"
definition MODULE_UNLOAD_NOT_POSSIBLE_ERROR :: string where
  "MODULE_UNLOAD_NOT_POSSIBLE_ERROR = ''Error unloading module: operation not possible.''"
definition MODULE_EXPORTS_DATA_TYPES_ERROR :: string where
  "MODULE_EXPORTS_DATA_TYPES_ERROR =
     ''Error unloading module: the module '' @ ''exports one or more module-side data '' @
     ''types, can't unload''"

definition NO_AUTH_SET_ERROR :: "(string \<times> exc_class) list" where
  "NO_AUTH_SET_ERROR =
     [(''AUTH <password> called without any password '' @
       ''configured for the default user. Are you sure '' @
       ''your configuration is correct?'', AuthenticationError),
      (''Client sent AUTH, but no password is set'', AuthenticationError)]"

definition EXCEPTION_CLASSES :: "(string \<times> exc_entry) list" where
  "EXCEPTION_CLASSES =
     [(''ERR'', Sub
        ([(''max number of clients reached'', ConnectionError),
          (''invalid password'', AuthenticationError),
          (''wrong number of arguments '' @ ''for 'auth' command'',
             AuthenticationWrongNumberOfArgsError),
          (''wrong number of arguments '' @ ''for 'AUTH' command'',
             AuthenticationWrongNumberOfArgsError),
          (MODULE_LOAD_ERROR, ModuleError),
          (MODULE_EXPORTS_DATA_TYPES_ERROR, ModuleError),
          (NO_SUCH_MODULE_ERROR, ModuleError),
          (MODULE_UNLOAD_NOT_POSSIBLE_ERROR, ModuleError)] @ NO_AUTH_SET_ERROR)),
      (''OOM'', Cls OutOfMemoryError),
      (''WRONGPASS'', Cls AuthenticationError),
      (''EXECABORT'', Cls ExecAbortError),
      (''LOADING'', Cls BusyLoadingError),
      (''NOSCRIPT'', Cls NoScriptError),
      (''READONLY'', Cls ReadOnlyError),
      (''NOAUTH'', Cls AuthenticationError),
      (''NOPERM'', Cls NoPermissionError),
      (''ASK'', Cls AskError),
      (''TRYAGAIN'', Cls TryAgainError),
      (''MOVED'', Cls MovedError),
      (''CLUSTERDOWN'', Cls ClusterDownError),
      (''CROSSSLOT'', Cls ClusterCrossSlotError),
      (''MASTERDOWN'', Cls MasterDownError)]"

text \<open>\<open>Inl\<close>: constructing the exception raised; \<open>Inr\<close>: the error instance that is returned.
  The table is the class attribute \<open>cls.EXCEPTION_CLASSES\<close>, which subclasses replace.\<close>

definition parse_error :: "(string \<times> exc_entry) list \<Rightarrow> string \<Rightarrow> exc + exc" where
  "parse_error classes response =
     (let error_code = hd (split_on (CHR '' '') response) in
      case map_of classes error_code of
        None \<Rightarrow> new_exc ResponseError response
      | Some entry \<Rightarrow>
          (let response' = drop (length error_code + 1) response in
           case entry of
             Cls c \<Rightarrow> new_exc c response'
           | Sub d \<Rightarrow> new_exc (case map_of d response' of None \<Rightarrow> ResponseError | Some c \<Rightarrow> c) response'))"

section \<open>Facts\<close>

lemma exc_isinstance_refl [simp]: "exc_isinstance c c"
  by (simp add: exc_isinstance_def eval_nat_numeral)

text \<open>The six generations are enough: subclassing is closed under taking a base class.\<close>

lemma exc_isinstance_base:
  "exc_isinstance c d \<Longrightarrow> b \<in> set (exc_bases d) \<Longrightarrow> exc_isinstance c b"
  by (cases c) (auto simp: exc_isinstance_def eval_nat_numeral)

lemma split_on_not_Nil [simp]: "split_on c s \<noteq> []"
  by (induction s) (auto split: list.splits)

lemma hd_split_on: "hd (split_on c s) = takeWhile (\<lambda>x. x \<noteq> c) s"
proof (induction s)
  case (Cons x xs)
  then show ?case by (cases "split_on c xs") (auto simp: hd_append)
qed simp

lemma new_exc_cls: "new_exc c m = Inr e \<Longrightarrow> exc_cls e = c \<and> exc_msg e = m"
  by (auto simp: new_exc_def split: if_splits)

text \<open>The class of an error whose code has a plain entry in the table.\<close>

lemma parse_error_Cls:
  assumes "CHR '' '' \<notin> set code" "map_of classes code = Some (Cls c)" "c \<notin> {AskError, MovedError}"
  shows "parse_error classes (code @ CHR '' '' # msg) = Inr (Exc c msg)"
proof -
  have "hd (split_on (CHR '' '') (code @ CHR '' '' # msg)) = code"
    using assms(1) by (simp add: hd_split_on takeWhile_append)
  then show ?thesis using assms(2,3) by (simp add: parse_error_def Let_def new_exc_def)
qed

end
