(* ===== verification/Values.thy ===== *)
theory Values
  imports Exceptions
begin

text \<open>
  Python values as they travel through the client (\<open>pyval\<close>) and the \<open>Encoder\<close> of
  \<open>redis/_parsers/encoders.py\<close>.  A float is represented by the text \<open>repr\<close> gives for it: the
  library only prints floats and reads them back, it never computes with a reply.  A set is a list of its
  elements without repetition, in the order they were added.
  An encoder's codec (the pair \<open>encoding\<close>, \<open>encoding_errors\<close> that Python's codec registry resolves)
  is a pair of functions of its record; \<open>utf8_encoder\<close> is the default codec.
\<close>

datatype pyval =
    PNone
  | PBool bool
  | PInt int
  | PFloat string
  | PStr pystr
  | PBytes bytes
  | PMemview bytes
  | PList "pyval list"
  | PTuple "pyval list"
  | PDict "(pyval \<times> pyval) list"
  | PSet "pyval list"
  | PExc exc
  | PObj string

text \<open>\<open>type(v).__name__\<close>, as error messages show it.\<close>

fun type_name :: "pyval \<Rightarrow> string" where
  "type_name PNone = ''NoneType''"
| "type_name (PBool _) = ''bool''"
| "type_name (PInt _) = ''int''"
| "type_name (PFloat _) = ''float''"
| "type_name (PStr _) = ''str''"
| "type_name (PBytes _) = ''bytes''"
| "type_name (PMemview _) = ''memoryview''"
| "type_name (PList _) = ''list''"
| "type_name (PTuple _) = ''tuple''"
| "type_name (PDict _) = ''dict''"
| "type_name (PSet _) = ''set''"
| "type_name (PExc _) = ''Exception''"
| "type_name (PObj t) = t"

text \<open>\<open>bool(v)\<close>.\<close>

fun truthy :: "pyval \<Rightarrow> bool" where
  "truthy PNone = False"
| "truthy (PBool b) = b"
| "truthy (PInt n) = (n \<noteq> 0)"
| "truthy (PFloat r) = (r \<notin> {''0.0'', ''-0.0''})"
| "truthy (PStr s) = (s \<noteq> [])"
| "truthy (PBytes s) = (s \<noteq> [])"
| "truthy (PMemview s) = (s \<noteq> [])"
| "truthy (PList xs) = (xs \<noteq> [])"
| "truthy (PTuple xs) = (xs \<noteq> [])"
| "truthy (PDict kvs) = (kvs \<noteq> [])"
| "truthy (PSet xs) = (xs \<noteq> [])"
| "truthy (PExc _) = True"
| "truthy (PObj _) = True"

text \<open>Which values may be dictionary keys, and when two of them are the same key
  (\<open>True == 1\<close> in Python).\<close>

fun hashable :: "pyval \<Rightarrow> bool" where
  "hashable (PList _) = False"
| "hashable (PDict _) = False"
| "hashable (PSet _) = False"
| "hashable (PTuple xs) = list_all hashable xs"
| "hashable _ = True"

fun norm_key :: "pyval \<Rightarrow> pyval" where
  "norm_key (PBool b) = PInt (if b then 1 else 0)"
| "norm_key (PTuple xs) = PTuple (map norm_key xs)"
| "norm_key v = v"

text \<open>\<open>d[k] = v\<close> on an insertion-ordered dictionary.\<close>

fun dict_set :: "(pyval \<times> pyval) list \<Rightarrow> pyval \<Rightarrow> pyval \<Rightarrow> (pyval \<times> pyval) list" where
  "dict_set [] k v = [(k, v)]"
| "dict_set ((k', v') # d) k v =
     (if norm_key k' = norm_key k then (k', v) # d else (k', v') # dict_set d k v)"

fun dict_get :: "(pyval \<times> pyval) list \<Rightarrow> pyval \<Rightarrow> pyval option" where
  "dict_get [] k = None"
| "dict_get ((k', v') # d) k = (if norm_key k' = norm_key k then Some v' else dict_get d k)"

lemma dict_get_set: "dict_get (dict_set d k v) k' = (if norm_key k = norm_key k' then Some v else dict_get d k')"
  by (induction d k v rule: dict_set.induct) auto

text \<open>\<open>str_if_bytes\<close> and \<open>ensure_string\<close> of \<open>redis/utils.py\<close>.\<close>

fun str_if_bytes :: "pyval \<Rightarrow> pyval" where
  "str_if_bytes (PBytes b) = PStr (utf8_replace b)"
| "str_if_bytes v = v"

fun ensure_string :: "pyval \<Rightarrow> exc + pystr" where
  "ensure_string (PBytes b) =
     (case utf8_decode b of None \<Rightarrow> Inl (Exc PyUnicodeDecodeError ''utf-8'') | Some s \<Rightarrow> Inr s)"
| "ensure_string (PStr s) = Inr s"
| "ensure_string _ = Inl (Exc PyTypeError ''Key must be either a string or bytes'')"

section \<open>Encoder\<close>

record encoder =
  encode_str :: "pystr \<Rightarrow> exc + bytes"
  decode_bytes :: "bytes \<Rightarrow> exc + pystr"
  decode_responses :: bool

definition utf8_encoder :: "bool \<Rightarrow> encoder" where
  "utf8_encoder dec =
     \<lparr> encode_str = Inr,
       decode_bytes = (\<lambda>b. case utf8_decode b of None \<Rightarrow> Inl (Exc PyUnicodeDecodeError ''utf-8'')
                         | Some s \<Rightarrow> Inr s),
       decode_responses = dec \<rparr>"

definition bad_input :: "string \<Rightarrow> exc" where
  "bad_input t =
     Exc DataError (''Invalid input of type: '' @ [CHR 0x27] @ t @ [CHR 0x27] @
       ''. Convert to a bytes, string, int or float first.'')"

fun encode :: "encoder \<Rightarrow> pyval \<Rightarrow> exc + pyval" where
  "encode E (PBytes b) = Inr (PBytes b)"
| "encode E (PMemview b) = Inr (PMemview b)"
| "encode E (PBool b) = Inl (bad_input ''bool'')"
| "encode E (PInt n) = Inr (PBytes (int_repr n))"
| "encode E (PFloat r) = Inr (PBytes r)"
| "encode E (PStr s) = map_sum id PBytes (encode_str E s)"
| "encode E v = Inl (bad_input (type_name v))"

fun decode :: "encoder \<Rightarrow> bool \<Rightarrow> pyval \<Rightarrow> exc + pyval" where
  "decode E force (PBytes b) =
     (if decode_responses E \<or> force then map_sum id PStr (decode_bytes E b) else Inr (PBytes b))"
| "decode E force (PMemview b) =
     (if decode_responses E \<or> force then map_sum id PStr (decode_bytes E b) else Inr (PMemview b))"
| "decode E force v = Inr v"

text \<open>The bytes of an encoded argument, as \<open>len(arg)\<close> and \<open>b"".join\<close> see them.\<close>

fun raw_bytes :: "pyval \<Rightarrow> bytes" where
  "raw_bytes (PBytes b) = b"
| "raw_bytes (PMemview b) = b"
| "raw_bytes _ = []"

fun is_memview :: "pyval \<Rightarrow> bool" where
  "is_memview (PMemview _) = True"
| "is_memview _ = False"

fun is_bytes_like :: "pyval \<Rightarrow> bool" where
  "is_bytes_like (PBytes _) = True"
| "is_bytes_like (PMemview _) = True"
| "is_bytes_like _ = False"

fun_cases encode_InlE: "encode E v = Inl e"
fun_cases encode_InrE: "encode E v = Inr w"

lemma encode_bytes_like: "encode E v = Inr w \<Longrightarrow> is_bytes_like w"
  by (elim encode_InrE) (auto simp: map_sum_def split: sum.splits)

text \<open>With the default codec the only inputs refused are those that are no bytes, text or number.\<close>

lemma encode_utf8_iff:
  "(\<exists>w. encode (utf8_encoder d) v = Inr w) \<longleftrightarrow>
     (case v of PBytes _ \<Rightarrow> True | PMemview _ \<Rightarrow> True | PInt _ \<Rightarrow> True | PFloat _ \<Rightarrow> True | PStr _ \<Rightarrow> True
      | _ \<Rightarrow> False)"
  by (cases v) (auto simp: utf8_encoder_def)

end
