(* ===== verification/Byte_Source.thy ===== *)
theory Byte_Source
  imports Values
begin

text \<open>
  The interface between a RESP parser and the object it reads from.  The parser calls two
  operations, \<open>readline\<close> and \<open>read(length)\<close>; both may raise, and both may not have returned yet
  (\<open>None\<close>).  \<open>view\<close> is the sequence of bytes the source is still going to deliver.  The two laws say
  that a line, or \<open>length\<close> bytes, followed by CR LF at the front of the view are returned without the
  terminator, whatever pieces they arrive in, and that exactly they are consumed.

  The parsers' round-trip theorems are proved once over this locale; it is interpreted on the
  \<open>SocketBuffer\<close> of the blocking client and on the stream buffer of the asyncio client.
\<close>

type_synonym ('s, 'a) io = "'s \<Rightarrow> ((exc + 'a) \<times> 's) option"

section \<open>Sequencing\<close>

definition io_ret :: "'a \<Rightarrow> ('s, 'a) io" where
  "io_ret x s = Some (Inr x, s)"

definition io_raise :: "exc \<Rightarrow> ('s, 'a) io" where
  "io_raise e s = Some (Inl e, s)"

text \<open>A statement whose value is used by the rest; an exception skips the rest.\<close>

definition io_bind :: "('s, 'a) io \<Rightarrow> ('a \<Rightarrow> ('s, 'b) io) \<Rightarrow> ('s, 'b) io" where
  "io_bind m f s =
     (case m s of None \<Rightarrow> None
      | Some (Inl e, s') \<Rightarrow> Some (Inl e, s')
      | Some (Inr x, s') \<Rightarrow> f x s')"

text \<open>A pure computation that may raise.\<close>

definition io_lift :: "exc + 'a \<Rightarrow> ('s, 'a) io" where
  "io_lift r s = Some (r, s)"

lemmas io_defs = io_ret_def io_raise_def io_bind_def io_lift_def

lemma io_bind_simps [simp]:
  "m s = None \<Longrightarrow> io_bind m f s = None"
  "m s = Some (Inl e, s') \<Longrightarrow> io_bind m f s = Some (Inl e, s')"
  "m s = Some (Inr x, s') \<Longrightarrow> io_bind m f s = f x s'"
  by (simp_all add: io_bind_def)

lemma io_bind_lift [simp]:
  "io_bind (io_lift (Inr x)) f = f x" "io_bind (io_lift (Inl e)) f = io_raise e"
  by (simp_all add: fun_eq_iff io_defs)

lemma io_bind_SomeE:
  assumes "io_bind m f s = Some (r, s')"
  obtains (raises) e where "m s = Some (Inl e, s')" "r = Inl e"
  | (continues) x s1 where "m s = Some (Inr x, s1)" "f x s1 = Some (r, s')"
  using assms by (auto simp: io_bind_def split: option.splits sum.splits prod.splits)

text \<open>A relation between states that every step keeps is kept by a sequence of steps.\<close>

definition io_pres :: "('s \<Rightarrow> 's \<Rightarrow> bool) \<Rightarrow> ('s, 'a) io \<Rightarrow> bool" where
  "io_pres R m \<longleftrightarrow> (\<forall>s r s'. m s = Some (r, s') \<longrightarrow> R s s')"

named_theorems io_pres_intros \<open>composition rules for preserved relations\<close>

lemma io_pres_ret [io_pres_intros]: "reflp R \<Longrightarrow> io_pres R (io_ret x)"
  and io_pres_raise [io_pres_intros]: "reflp R \<Longrightarrow> io_pres R (io_raise e)"
  and io_pres_lift [io_pres_intros]: "reflp R \<Longrightarrow> io_pres R (io_lift r)"
  and io_pres_none [io_pres_intros]: "io_pres R (\<lambda>s. None)"
  by (auto simp: io_pres_def io_defs reflp_def)

lemma io_pres_bind [io_pres_intros]:
  assumes "transp R" "io_pres R m" "\<And>x. io_pres R (f x)"
  shows "io_pres R (io_bind m f)"
  unfolding io_pres_def
proof (intro allI impI)
  fix s r s'
  assume "io_bind m f s = Some (r, s')"
  then show "R s s'"
  proof (cases rule: io_bind_SomeE)
    case (raises e)
    then show ?thesis using assms(2) by (auto simp: io_pres_def)
  next
    case (continues x s1)
    then have "R s s1" "R s1 s'" using assms(2,3) by (auto simp: io_pres_def)
    then show ?thesis using assms(1) by (auto elim: transpE)
  qed
qed

section \<open>The interface\<close>

locale byte_source =
  fixes rd_line :: "('s, bytes) io"
    and rd_bytes :: "int \<Rightarrow> ('s, bytes) io"
    and view :: "'s \<Rightarrow> bytes"
    and wfs :: "'s \<Rightarrow> bool"
  assumes rd_line: "wfs s \<Longrightarrow> view s = l @ SYM_CRLF @ r \<Longrightarrow> LF \<notin> set l \<Longrightarrow>
      \<exists>s'. rd_line s = Some (Inr l, s') \<and> view s' = r \<and> wfs s'"
    and rd_bytes: "wfs s \<Longrightarrow> view s = d @ SYM_CRLF @ r \<Longrightarrow>
      \<exists>s'. rd_bytes (int (length d)) s = Some (Inr d, s') \<and> view s' = r \<and> wfs s'"

end
