(* ===== verification/Socket_Buffer.thy ===== *)
theory Socket_Buffer
  imports Byte_Source
begin

text \<open>
  \<open>SocketBuffer\<close> of \<open>redis/_parsers/socket.py\<close>: the read side of a connection.

  The state is the \<open>BytesIO\<close> (its contents and its position), the socket's timeout settings, and
  the \<open>script\<close>: the results that the successive \<open>recv\<close> calls will give, in order.  A call that needs
  a result when the script is empty has not returned yet: operations yield \<open>None\<close> then, and otherwise
  \<open>Some\<close> of the raised exception or returned value together with the new state.

  The last section shows that \<open>SocketBuffer\<close> is a \<open>byte_source\<close>.
\<close>

text \<open>Results of \<open>recv\<close>: data (empty when the server closed the connection), \<open>socket.timeout\<close>, one of
  the non-blocking exceptions (with \<open>True\<close> when its \<open>errno\<close> is the one expected for its class; the
  text is \<open>ex.args\<close>), or any other \<open>OSError\<close>.\<close>

datatype recv_event =
    Recv bytes
  | RecvTimeout
  | RecvWouldBlock bool string
  | RecvOSError string

record sockbuf =
  buf :: bytes
  bpos :: nat
  script :: "recv_event list"
  socket_timeout :: "int option"
  sock_timeout :: "int option"

definition SERVER_CLOSED_CONNECTION_ERROR :: string where
  "SERVER_CLOSED_CONNECTION_ERROR = ''Connection closed by server.''"

definition sb_init :: "recv_event list \<Rightarrow> int option \<Rightarrow> sockbuf" where
  "sb_init evs t = \<lparr> buf = [], bpos = 0, script = evs, socket_timeout = t, sock_timeout = t \<rparr>"

definition unread_bytes :: "sockbuf \<Rightarrow> nat" where
  "unread_bytes s = length (buf s) - bpos s"

text \<open>The loop of \<open>_read_from_socket\<close>: \<open>recv\<close> until at least \<open>length\<close> bytes came.  The buffer is
  written at its end; the position is restored by the \<open>finally\<close> clause, so it never changes.\<close>

fun recv_loop :: "int option \<Rightarrow> nat \<Rightarrow> bool \<Rightarrow> bytes \<Rightarrow> recv_event list \<Rightarrow>
    ((exc + bool) \<times> bytes \<times> recv_event list) option" where
  "recv_loop len marker raise_on_timeout b [] = None"
| "recv_loop len marker raise_on_timeout b (Recv data # evs) =
     (if data = [] then Some (Inl (Exc ConnectionError SERVER_CLOSED_CONNECTION_ERROR), b, evs)
      else let marker' = marker + length data in
        if (case len of None \<Rightarrow> False | Some l \<Rightarrow> l > int marker')
        then recv_loop len marker' raise_on_timeout (b @ data) evs
        else Some (Inr True, b @ data, evs))"
| "recv_loop len marker raise_on_timeout b (RecvTimeout # evs) =
     Some (if raise_on_timeout then Inl (Exc TimeoutError ''Timeout reading from socket'')
           else Inr False, b, evs)"
| "recv_loop len marker raise_on_timeout b (RecvWouldBlock allowed args # evs) =
     Some (if \<not> raise_on_timeout \<and> allowed then Inr False
           else Inl (Exc ConnectionError (''Error while reading from socket: '' @ args)), b, evs)"
| "recv_loop len marker raise_on_timeout b (RecvOSError msg # evs) = Some (Inl (Exc PyOSError msg), b, evs)"

text \<open>\<open>timeout\<close> is \<open>None\<close> for \<open>SENTINEL\<close>; a custom timeout is set on the socket for the loop and the
  configured one restored in the end.\<close>

definition read_from_socket :: "int option \<Rightarrow> int option option \<Rightarrow> bool \<Rightarrow> (sockbuf, bool) io" where
  "read_from_socket len timeout raise_on_timeout s =
     (let custom_timeout = (timeout \<noteq> None);
          s1 = (case timeout of None \<Rightarrow> s | Some t \<Rightarrow> s\<lparr>sock_timeout := t\<rparr>) in
      case recv_loop len 0 raise_on_timeout (buf s1) (script s1) of
        None \<Rightarrow> None
      | Some (r, b, evs) \<Rightarrow>
          Some (r, let s2 = s1\<lparr>buf := b, script := evs\<rparr> in
                   if custom_timeout then s2\<lparr>sock_timeout := socket_timeout s\<rparr> else s2))"

definition can_read :: "int option \<Rightarrow> (sockbuf, bool) io" where
  "can_read timeout s =
     (if unread_bytes s > 0 then Some (Inr True, s)
      else read_from_socket None (Some timeout) False s)"

text \<open>\<open>BytesIO.read(n)\<close> (everything when \<open>n\<close> is negative) and \<open>BytesIO.readline()\<close>.\<close>

definition bio_read :: "int \<Rightarrow> sockbuf \<Rightarrow> bytes \<times> sockbuf" where
  "bio_read n s =
     (let rest = drop (bpos s) (buf s);
          data = (if n < 0 then rest else take (nat n) rest)
      in (data, s\<lparr>bpos := bpos s + length data\<rparr>))"

fun line_of :: "bytes \<Rightarrow> bytes" where
  "line_of [] = []"
| "line_of (c # cs) = (if c = LF then [c] else c # line_of cs)"

definition bio_readline :: "sockbuf \<Rightarrow> bytes \<times> sockbuf" where
  "bio_readline s = (let l = line_of (drop (bpos s) (buf s)) in (l, s\<lparr>bpos := bpos s + length l\<rparr>))"

definition sb_read :: "int \<Rightarrow> (sockbuf, bytes) io" where
  "sb_read len s =
     (let len' = len + 2;
          (data, s1) = bio_read len' s;
          missing = len' - int (length data) in
      if missing \<noteq> 0 then
        (case read_from_socket (Some missing) None True s1 of
           None \<Rightarrow> None
         | Some (Inl e, s2) \<Rightarrow> Some (Inl e, s2)
         | Some (Inr _, s2) \<Rightarrow>
             (let (data2, s3) = bio_read missing s2 in Some (Inr (drop_last2 (data @ data2)), s3)))
      else Some (Inr (drop_last2 data), s1))"

lemma recv_loop_consumes:
  "recv_loop len m r b evs = Some (res, b', evs') \<Longrightarrow> length evs' < length evs"
  by (induction len m r b evs rule: recv_loop.induct)
     (auto simp: Let_def less_SucI split: if_splits option.splits)

lemma read_from_socket_consumes:
  "read_from_socket len t r s = Some (res, s') \<Longrightarrow> length (script s') < length (script s)"
  by (cases t) (auto simp: read_from_socket_def Let_def dest: recv_loop_consumes
      split: option.splits if_splits)

text \<open>The loop of \<open>readline\<close>, with the data read so far.\<close>

function readline_loop :: "bytes \<Rightarrow> (sockbuf, bytes) io" where
  "readline_loop data s =
     (if ends_with data SYM_CRLF then Some (Inr (drop_last2 data), s)
      else (case read_from_socket None None True s of
              None \<Rightarrow> None
            | Some (Inl e, s1) \<Rightarrow> Some (Inl e, s1)
            | Some (Inr _, s1) \<Rightarrow>
                (let (more, s2) = bio_readline s1 in readline_loop (data @ more) s2)))"
  by pat_completeness auto
termination
  by (relation "measure (\<lambda>(d, s). length (script s))")
     (auto simp: bio_readline_def Let_def dest: read_from_socket_consumes)

declare readline_loop.simps [simp del]

definition sb_readline :: "(sockbuf, bytes) io" where
  "sb_readline s = (let (data, s1) = bio_readline s in readline_loop data s1)"

definition get_pos :: "sockbuf \<Rightarrow> nat" where
  "get_pos s = bpos s"

definition rewind :: "nat \<Rightarrow> sockbuf \<Rightarrow> sockbuf" where
  "rewind p s = s\<lparr>bpos := p\<rparr>"

text \<open>\<open>purge\<close> truncates only when everything was read; the second test of the source is then dead.\<close>

definition purge :: "sockbuf \<Rightarrow> sockbuf" where
  "purge s = (if unread_bytes s > 0 then s else s\<lparr>buf := take (unread_bytes s) (buf s), bpos := 0\<rparr>)"

section \<open>What is still to be read\<close>

text \<open>The bytes that the socket delivers before the next event that is no data.\<close>

fun stream :: "recv_event list \<Rightarrow> bytes" where
  "stream [] = []"
| "stream (Recv d # evs) = (if d = [] then [] else d @ stream evs)"
| "stream (_ # evs) = []"

definition sb_view :: "sockbuf \<Rightarrow> bytes" where
  "sb_view s = drop (bpos s) (buf s) @ stream (script s)"

definition sb_inv :: "sockbuf \<Rightarrow> bool" where
  "sb_inv s \<longleftrightarrow> bpos s \<le> length (buf s)"

text \<open>The data that a run of events delivered.\<close>

fun received :: "recv_event list \<Rightarrow> bytes" where
  "received [] = []"
| "received (Recv d # evs) = d @ received evs"
| "received (_ # evs) = received evs"

text \<open>\<open>sb_kept s s'\<close>: from \<open>s\<close> to \<open>s'\<close> some events were consumed and exactly the data they carried was
  appended to the buffer.\<close>

definition sb_kept :: "sockbuf \<Rightarrow> sockbuf \<Rightarrow> bool" where
  "sb_kept s s' \<longleftrightarrow>
     (\<exists>evs. script s = evs @ script s' \<and> buf s' = buf s @ received evs)
     \<and> socket_timeout s' = socket_timeout s"

lemma received_append [simp]: "received (a @ b) = received a @ received b"
  by (induction a rule: received.induct) auto

lemma sb_kept_refl [simp]: "sb_kept s s"
  unfolding sb_kept_def by (rule conjI, rule exI [of _ "[]"]) simp_all

lemma sb_kept_bpos [simp]: "sb_kept s (s'\<lparr>bpos := p\<rparr>) = sb_kept s s'"
  "sb_kept (s\<lparr>bpos := p\<rparr>) s' = sb_kept s s'"
  by (simp_all add: sb_kept_def)

lemma sb_kept_trans: "sb_kept s s' \<Longrightarrow> sb_kept s' s'' \<Longrightarrow> sb_kept s s''"
  unfolding sb_kept_def
proof (elim conjE exE, intro conjI)
  fix e1 e2
  assume "script s = e1 @ script s'" "buf s' = buf s @ received e1"
    and "script s' = e2 @ script s''" "buf s'' = buf s' @ received e2"
  then have "script s = (e1 @ e2) @ script s'' \<and> buf s'' = buf s @ received (e1 @ e2)" by simp
  then show "\<exists>evs. script s = evs @ script s'' \<and> buf s'' = buf s @ received evs" ..
qed simp

lemma recv_loop_kept:
  "recv_loop len m r b evs = Some (res, b', evs') \<Longrightarrow>
   \<exists>es. evs = es @ evs' \<and> b' = b @ received es"
proof (induction len m r b evs rule: recv_loop.induct)
  case (2 len marker r b data evs)
  show ?case
  proof (cases "data \<noteq> [] \<and> (case len of None \<Rightarrow> False | Some l \<Rightarrow> l > int (marker + length data))")
    case True
    then have "recv_loop len (marker + length data) r (b @ data) evs = Some (res, b', evs')"
      using "2.prems" by (auto simp: Let_def)
    then obtain es where "evs = es @ evs' \<and> b' = (b @ data) @ received es"
      using "2.IH" True by (fastforce simp: Let_def)
    then show ?thesis by (intro exI [of _ "Recv data # es"]) simp
  next
    case False
    then show ?thesis using "2.prems"
      by (intro exI [of _ "[Recv data]"]) (auto simp: Let_def split: if_splits option.splits)
  qed
next
  case (3 len marker r b evs)
  then show ?case by (intro exI [of _ "[RecvTimeout]"]) auto
next
  case (4 len marker r b allowed args evs)
  then show ?case by (intro exI [of _ "[RecvWouldBlock allowed args]"]) auto
next
  case (5 len marker r b msg evs)
  then show ?case by (intro exI [of _ "[RecvOSError msg]"]) auto
qed simp

lemma read_from_socket_kept:
  assumes "read_from_socket len t r s = Some (res, s')"
  shows "sb_kept s s'" and "bpos s' = bpos s"
proof -
  obtain b evs where l: "recv_loop len 0 r (buf s) (script s) = Some (res, b, evs)"
    and s': "buf s' = b" "script s' = evs" "socket_timeout s' = socket_timeout s" "bpos s' = bpos s"
    using assms by (cases t) (auto simp: read_from_socket_def Let_def split: option.splits)
  show "sb_kept s s'" using recv_loop_kept [OF l] s' by (auto simp: sb_kept_def)
  show "bpos s' = bpos s" by (rule s')
qed

lemma readline_loop_kept: "readline_loop d s = Some (res, s') \<Longrightarrow> sb_kept s s'"
proof (induction d s rule: readline_loop.induct)
  case (1 d s)
  show ?case
  proof (cases "ends_with d SYM_CRLF")
    case True
    then show ?thesis using "1.prems" by (simp add: readline_loop.simps [of d s])
  next
    case False
    then obtain r s1 where r: "read_from_socket None None True s = Some (r, s1)"
      using "1.prems" by (auto simp: readline_loop.simps [of d s] split: option.splits prod.splits)
    have k: "sb_kept s s1" by (rule read_from_socket_kept [OF r])
    show ?thesis
    proof (cases r)
      case (Inl e)
      then show ?thesis using False r k "1.prems" by (simp add: readline_loop.simps [of d s])
    next
      case (Inr x)
      obtain more s2 where m: "bio_readline s1 = (more, s2)" by fastforce
      then have "readline_loop (d @ more) s2 = Some (res, s')"
        using False r Inr "1.prems" by (simp add: readline_loop.simps [of d s])
      then have "sb_kept s2 s'" using "1.IH" [OF False r [unfolded Inr] refl refl] m by auto
      moreover have "sb_kept s1 s2" using m by (auto simp: bio_readline_def Let_def)
      ultimately show ?thesis using k sb_kept_trans by blast
    qed
  qed
qed

lemma sb_readline_kept: "sb_readline s = Some (res, s') \<Longrightarrow> sb_kept s s'"
  by (auto simp: sb_readline_def bio_readline_def Let_def dest: readline_loop_kept)

lemma sb_read_kept: "sb_read n s = Some (res, s') \<Longrightarrow> sb_kept s s'"
  by (auto simp: sb_read_def bio_read_def Let_def dest!: read_from_socket_kept(1)
      split: if_splits option.splits sum.splits)

section \<open>SocketBuffer is a byte source\<close>

lemma line_of_no_LF: "LF \<notin> set xs \<Longrightarrow> line_of xs = xs"
  by (induction xs) auto

lemma line_of_LF: "LF \<notin> set a \<Longrightarrow> line_of (a @ LF # b) = a @ [LF]"
  by (induction a) auto

text \<open>A piece of a stream that starts with a line: either the line ends inside the piece, or the
  piece is all of the line so far.\<close>

lemma line_split:
  assumes "xs @ ys = l @ SYM_CRLF @ r" "LF \<notin> set l"
  shows "(LF \<notin> set xs) \<or> (line_of xs = l @ SYM_CRLF \<and> (\<exists>z. xs = l @ SYM_CRLF @ z \<and> z @ ys = r))"
proof (cases "LF \<in> set xs")
  case True
  then obtain a b where ab: "xs = a @ LF # b" "LF \<notin> set a" by (meson split_list_first)
  have "a @ LF # (b @ ys) = (l @ [CR]) @ LF # r"
    using assms(1) ab(1) by (simp add: SYM_CRLF_def)
  moreover have "takeWhile (\<lambda>c. c \<noteq> LF) (a @ LF # (b @ ys)) = a"
      "takeWhile (\<lambda>c. c \<noteq> LF) ((l @ [CR]) @ LF # r) = l @ [CR]"
    using ab(2) assms(2) by (simp_all add: takeWhile_append)
  ultimately have "a = l @ [CR] \<and> b @ ys = r" by (metis append_same_eq list.inject same_append_eq)
  then show ?thesis using ab line_of_LF [OF ab(2)] by (auto simp: SYM_CRLF_def)
qed simp

lemma stream_not_Nil:
  assumes "stream evs \<noteq> []"
  obtains d evs' where "evs = Recv d # evs'" "d \<noteq> []" "stream evs = d @ stream evs'"
  using assms by (cases evs rule: stream.cases) (auto split: if_splits)

lemma readline_loop_line:
  assumes "LF \<notin> set l" "LF \<notin> set d" "d @ stream (script s) = l @ SYM_CRLF @ r"
    and "bpos s = length (buf s)"
  shows "\<exists>s'. readline_loop d s = Some (Inr l, s') \<and> sb_view s' = r \<and> sb_inv s'"
  using assms
proof (induction "length (script s)" arbitrary: d s rule: less_induct)
  case less
  have "LF \<in> set (d @ stream (script s))" using less.prems(3) by (simp add: SYM_CRLF_def)
  then have "stream (script s) \<noteq> []" using less.prems(2) by auto
  then obtain x evs where x: "script s = Recv x # evs" "x \<noteq> []" "stream (script s) = x @ stream evs"
    by (rule stream_not_Nil)
  have nd: "\<not> ends_with d SYM_CRLF" using less.prems(2) ends_with_CRLF_LF by blast
  define s1 where "s1 = s\<lparr>buf := buf s @ x, script := evs\<rparr>"
  have rs: "read_from_socket None None True s = Some (Inr True, s1)"
    using x by (simp add: read_from_socket_def s1_def Let_def)
  have unread: "drop (bpos s1) (buf s1) = x" using less.prems(4) by (simp add: s1_def)
  define s2 where "s2 = s1\<lparr>bpos := bpos s1 + length (line_of x)\<rparr>"
  have step: "readline_loop d s = readline_loop (d @ line_of x) s2"
    using nd rs unread by (simp add: readline_loop.simps [of d s] bio_readline_def s2_def Let_def)
  have all: "(d @ x) @ stream evs = l @ SYM_CRLF @ r" using less.prems(3) x(3) by simp
  show ?case
  proof (cases "LF \<in> set x")
    case False
    then have lx: "line_of x = x" by (rule line_of_no_LF)
    have "\<exists>s'. readline_loop (d @ x) s2 = Some (Inr l, s') \<and> sb_view s' = r \<and> sb_inv s'"
    proof (rule less.hyps)
      show "length (script s2) < length (script s)" using x by (simp add: s2_def s1_def)
      show "LF \<notin> set (d @ x)" using less.prems(2) False by simp
      show "(d @ x) @ stream (script s2) = l @ SYM_CRLF @ r" using all by (simp add: s2_def s1_def)
      show "bpos s2 = length (buf s2)" using less.prems(4) lx by (simp add: s2_def s1_def)
    qed (rule less.prems(1))
    then show ?thesis using step lx by simp
  next
    case True
    then obtain z where z: "line_of (d @ x) = l @ SYM_CRLF" "d @ x = l @ SYM_CRLF @ z" "z @ stream evs = r"
      using line_split [OF all less.prems(1)] by auto
    obtain a b where ab: "x = a @ LF # b" "LF \<notin> set a" using True by (meson split_list_first)
    then have "line_of (d @ x) = d @ line_of x"
      using line_of_LF [of "d @ a" b] line_of_LF [of a b] less.prems(2) by simp
    then have dl: "d @ line_of x = l @ SYM_CRLF" using z(1) by simp
    have "length l + 2 = length d + length (line_of x)" using arg_cong [OF dl, of length]
      by (simp add: bytes_simps)
    moreover have "buf s2 = buf s @ x" "bpos s2 = length (buf s) + length (line_of x)"
      using less.prems(4) by (simp_all add: s2_def s1_def)
    moreover have "drop (length (line_of x)) x = z"
    proof -
      have "d @ x = d @ line_of x @ z" using z(2) dl by (metis append.assoc)
      then have "x = line_of x @ z" by simp
      then show ?thesis by (metis append_eq_conv_conj)
    qed
    moreover have "length (line_of x) \<le> length x" using ab line_of_LF [OF ab(2)] by simp
    ultimately have "sb_view s2 = r" "sb_inv s2"
      using z(3) by (simp_all add: sb_view_def sb_inv_def s2_def s1_def)
    then show ?thesis
      using step dl by (simp add: readline_loop.simps [of "l @ SYM_CRLF"] bytes_simps)
  qed
qed

lemma sb_readline_line:
  assumes "sb_inv s" "sb_view s = l @ SYM_CRLF @ r" "LF \<notin> set l"
  shows "\<exists>s'. sb_readline s = Some (Inr l, s') \<and> sb_view s' = r \<and> sb_inv s'"
proof -
  define u where "u = drop (bpos s) (buf s)"
  define s1 where "s1 = s\<lparr>bpos := bpos s + length (line_of u)\<rparr>"
  have rd: "sb_readline s = readline_loop (line_of u) s1"
    by (simp add: sb_readline_def bio_readline_def u_def s1_def Let_def)
  have v: "u @ stream (script s) = l @ SYM_CRLF @ r" using assms(2) by (simp add: sb_view_def u_def)
  show ?thesis
  proof (cases "LF \<in> set u")
    case False
    then have "bpos s1 = length (buf s1)"
      using assms(1) by (simp add: s1_def line_of_no_LF u_def sb_inv_def)
    then show ?thesis
      unfolding rd using readline_loop_line [OF assms(3), of u s1 r] v False
      by (simp add: line_of_no_LF s1_def)
  next
    case True
    then obtain z where z: "line_of u = l @ SYM_CRLF" "u = l @ SYM_CRLF @ z" "z @ stream (script s) = r"
      using line_split [OF v assms(3)] by auto
    then have "drop (length (line_of u)) u = z" by simp
    then have "sb_view s1 = r"
      using z(3) by (simp add: sb_view_def s1_def u_def add.commute)
    moreover have "sb_inv s1"
      using assms(1) z(1) arg_cong [OF z(2), of length] by (simp add: sb_inv_def s1_def u_def)
    ultimately show ?thesis
      unfolding rd using z(1) by (simp add: readline_loop.simps [of "l @ SYM_CRLF"] bytes_simps)
  qed
qed

text \<open>\<open>_read_from_socket(missing)\<close> keeps receiving until enough bytes came.\<close>

lemma recv_loop_enough:
  assumes "int m < l" "stream evs = a @ b" "int m + int (length a) = l"
  shows "\<exists>x evs'. recv_loop (Some l) m rt bf evs = Some (Inr True, bf @ a @ x, evs') \<and> x @ stream evs' = b"
  using assms
proof (induction evs arbitrary: m a bf)
  case (Cons e evs)
  have "stream (e # evs) \<noteq> []" using Cons.prems by (cases a) auto
  then obtain d where d: "e = Recv d" "d \<noteq> []" "stream (e # evs) = d @ stream evs"
    by (rule stream_not_Nil) auto
  show ?case
  proof (cases "l > int (m + length d)")
    case True
    then obtain a' where a': "a = d @ a'"
      using d(3) Cons.prems by (auto simp: append_eq_append_conv2)
    have "stream evs = a' @ b" using Cons.prems(2) d(3) a' by simp
    from Cons.IH [OF True this, of "bf @ d"] show ?thesis
      using True Cons.prems(3) d a' by (auto simp: Let_def)
  next
    case False
    then have "length a \<le> length d" using Cons.prems(3) by simp
    then obtain x where "d = a @ x" "b = x @ stream evs"
      using d(3) Cons.prems(2) by (auto simp: append_eq_append_conv2)
    then show ?thesis using d False by (auto simp: Let_def)
  qed
qed simp

lemma sb_read_bytes:
  assumes "sb_inv s" "sb_view s = d @ SYM_CRLF @ r"
  shows "\<exists>s'. sb_read (int (length d)) s = Some (Inr d, s') \<and> sb_view s' = r \<and> sb_inv s'"
proof -
  define u where "u = drop (bpos s) (buf s)"
  define n where "n = length d + 2"
  have lu: "length u = length (buf s) - bpos s" by (simp add: u_def)
  have v: "u @ stream (script s) = (d @ SYM_CRLF) @ r" using assms(2) by (simp add: sb_view_def u_def)
  have len: "length (d @ SYM_CRLF) = n" by (simp add: n_def bytes_simps)
  have int_n: "int (length d) + 2 = int n" by (simp add: n_def)
  show ?thesis
  proof (cases "n \<le> length u")
    case True
    then have "take n u = d @ SYM_CRLF" "drop n u @ stream (script s) = r"
      using v len by (metis append_eq_append_conv_if append_eq_conv_conj)+
    moreover have "sb_inv (s\<lparr>bpos := bpos s + n\<rparr>)" using True assms(1) lu by (simp add: sb_inv_def)
    moreover have "bio_read (int n) s = (take n u, s\<lparr>bpos := bpos s + n\<rparr>)"
      using True by (simp add: bio_read_def u_def [symmetric] Let_def)
    moreover have "drop (bpos s + n) (buf s) = drop n u" by (simp add: u_def add.commute)
    ultimately show ?thesis
      using True len by (simp add: sb_read_def int_n Let_def bytes_simps sb_view_def)
  next
    case False
    then obtain a where a: "d @ SYM_CRLF = u @ a" "stream (script s) = a @ r"
      using append_eq_prefix [OF v] len by auto
    define s1 where "s1 = s\<lparr>bpos := bpos s + length u\<rparr>"
    have br: "bio_read (int n) s = (u, s1)"
      using False by (simp add: bio_read_def u_def [symmetric] s1_def Let_def)
    have la: "int n - int (length u) = int (length a)"
      using arg_cong [OF a(1), of length] len by simp
    have "a \<noteq> []" using False la by auto
    then obtain x evs' where l: "recv_loop (Some (int (length a))) 0 True (buf s) (script s)
        = Some (Inr True, buf s @ a @ x, evs')" "x @ stream evs' = r"
      using recv_loop_enough [of 0 "int (length a)" "script s" a r True "buf s"] a(2) by auto
    define s2 where "s2 = s1\<lparr>buf := buf s @ a @ x, script := evs'\<rparr>"
    have rs: "read_from_socket (Some (int (length a))) None True s1 = Some (Inr True, s2)"
      using l(1) by (simp add: read_from_socket_def s2_def s1_def Let_def)
    have b2: "bpos s2 = length (buf s)" using assms(1) lu by (simp add: s2_def s1_def sb_inv_def)
    then have "bio_read (int (length a)) s2 = (a, s2\<lparr>bpos := length (buf s) + length a\<rparr>)"
      by (simp add: bio_read_def s2_def Let_def)
    then have "sb_read (int (length d)) s = Some (Inr d, s2\<lparr>bpos := length (buf s) + length a\<rparr>)"
      using br rs la \<open>a \<noteq> []\<close> a(1) [symmetric] False
      by (simp add: sb_read_def int_n Let_def bytes_simps)
    moreover have "sb_view (s2\<lparr>bpos := length (buf s) + length a\<rparr>) = r"
      using l(2) by (simp add: sb_view_def s2_def)
    moreover have "sb_inv (s2\<lparr>bpos := length (buf s) + length a\<rparr>)"
      by (simp add: sb_inv_def s2_def)
    ultimately show ?thesis by blast
  qed
qed

interpretation sb: byte_source sb_readline sb_read sb_view sb_inv
  by unfold_locales (rule sb_readline_line, assumption+, rule sb_read_bytes, assumption+)

end
