(* ===== verification/Resp.thy ===== *)
theory Resp
  imports Socket_Buffer
begin

text \<open>
  The pure-Python RESP2 and RESP3 parsers of \<open>redis/_parsers/resp2.py\<close> and \<open>resp3.py\<close>.

  A parser is a record of what its methods use: the two operations of the buffer it reads from, the
  class attribute \<open>EXCEPTION_CLASSES\<close>, its encoder, the push handler, and \<open>float()\<close> (which returns
  the \<open>repr\<close> of the parsed number).  The blocking and the asyncio parser run the same
  \<open>_read_response\<close> over different buffers; where they differ, a field says so: only the blocking one
  raises on an empty line (\<open>p_empty_raises\<close>), only the asyncio one clears its buffer before it raises a
  connection error (\<open>p_conn_error\<close>).

  Recursion (nested arrays, skipped push messages) is bounded by fuel, one unit per nesting level and
  per push message; running out of fuel is \<open>None\<close>, like not having returned.  The theorems give a fuel
  that is always enough: the length of the bytes read.
\<close>

record 's parser =
  p_readline :: "('s, bytes) io"
  p_read :: "int \<Rightarrow> ('s, bytes) io"
  p_classes :: "(string \<times> exc_entry) list"
  p_encoder :: encoder
  p_empty_raises :: bool
  p_conn_error :: "'s \<Rightarrow> 's"
  p_float :: "bytes \<Rightarrow> string option"
  p_push :: "pyval list \<Rightarrow> ('s, pyval) io"

section \<open>Helpers\<close>

text \<open>\<open>repr(b)\<close> for the protocol error message.\<close>

definition hex_digit :: "nat \<Rightarrow> char" where
  "hex_digit n = (if n < 10 then char_of (48 + n) else char_of (87 + n))"

definition repr_char :: "char \<Rightarrow> char \<Rightarrow> string" where
  "repr_char q c =
     (if c = q then [CHR 0x5C, q]
      else if c = CHR 0x5C then [CHR 0x5C, CHR 0x5C]
      else if c = CHR 0x09 then [CHR 0x5C, CHR ''t'']
      else if c = LF then [CHR 0x5C, CHR ''n'']
      else if c = CR then [CHR 0x5C, CHR ''r'']
      else let n = of_char c in
        if n < 0x20 \<or> 0x7F \<le> n
        then [CHR 0x5C, CHR ''x'', hex_digit (n div 16), hex_digit (n mod 16)] else [c])"

definition bytes_repr :: "bytes \<Rightarrow> string" where
  "bytes_repr b =
     (let q = (if CHR 0x27 \<in> set b \<and> CHR 0x22 \<notin> set b then CHR 0x22 else CHR 0x27)
      in CHR ''b'' # q # concat (map (repr_char q) b) @ [q])"

definition protocol_error :: "bytes \<Rightarrow> exc" where
  "protocol_error raw = Exc InvalidResponse (''Protocol Error: '' @ bytes_repr raw)"

definition value_error :: exc where
  "value_error = Exc PyValueError ''invalid literal''"

definition server_closed :: exc where
  "server_closed = Exc ConnectionError SERVER_CLOSED_CONNECTION_ERROR"

text \<open>\<open>int(response)\<close>\<close>
definition int_of :: "bytes \<Rightarrow> exc + int" where
  "int_of b = (case py_int b of None \<Rightarrow> Inl value_error | Some n \<Rightarrow> Inr n)"

text \<open>The error branch: a connection error is raised at once, any other error is the value returned.\<close>

definition error_reply :: "'s parser \<Rightarrow> bytes \<Rightarrow> ('s, pyval) io" where
  "error_reply P response =
     io_bind (io_lift (parse_error (p_classes P) (utf8_replace response))) (\<lambda>err s.
       if is_exc err ConnectionError then io_raise err (p_conn_error P s) else io_ret (PExc err) s)"

text \<open>\<open>if disable_decoding is False: response = self.encoder.decode(response)\<close>\<close>

definition decode_reply :: "'s parser \<Rightarrow> bool \<Rightarrow> pyval \<Rightarrow> exc + pyval" where
  "decode_reply P disable_decoding v =
     (if disable_decoding then Inr v else decode (p_encoder P) False v)"

section \<open>RESP2\<close>

text \<open>\<open>[read() for _ in range(n)]\<close>\<close>

fun io_replicate :: "nat \<Rightarrow> ('s, 'a) io \<Rightarrow> ('s, 'a list) io" where
  "io_replicate 0 m = io_ret []"
| "io_replicate (Suc k) m = io_bind m (\<lambda>x. io_bind (io_replicate k m) (\<lambda>xs. io_ret (x # xs)))"

text \<open>The body of \<open>_read_response\<close>; \<open>rec\<close> is the recursive call.\<close>

definition resp2_body :: "'s parser \<Rightarrow> bool \<Rightarrow> ('s, pyval) io \<Rightarrow> ('s, pyval) io" where
  "resp2_body P dd rec =
     io_bind (p_readline P) (\<lambda>raw.
       if p_empty_raises P \<and> raw = [] then io_raise server_closed
       else let byte = take 1 raw; response = drop 1 raw in
         if byte = ''-'' then error_reply P response
         else if byte = ''+'' then io_lift (decode_reply P dd (PBytes response))
         else if byte = '':'' then io_bind (io_lift (int_of response)) (\<lambda>n. io_ret (PInt n))
         else if byte = ''$'' \<and> response = ''-1'' then io_ret PNone
         else if byte = ''$'' then
           io_bind (io_lift (int_of response)) (\<lambda>n.
           io_bind (p_read P n) (\<lambda>b. io_lift (decode_reply P dd (PBytes b))))
         else if byte = ''*'' \<and> response = ''-1'' then io_ret PNone
         else if byte = ''*'' then
           io_bind (io_lift (int_of response)) (\<lambda>n.
           io_bind (io_replicate (nat n) rec) (\<lambda>xs. io_lift (decode_reply P dd (PList xs))))
         else io_raise (protocol_error raw))"

primrec resp2_read :: "nat \<Rightarrow> 's parser \<Rightarrow> bool \<Rightarrow> ('s, pyval) io" where
  "resp2_read 0 P dd = (\<lambda>s. None)"
| "resp2_read (Suc f) P dd = resp2_body P dd (resp2_read f P dd)"

section \<open>RESP3\<close>

text \<open>\<open>handle_push_response\<close>: \<open>p_push\<close> is the pubsub handler, \<open>inval\<close> the invalidation handler when
  one is set.\<close>

definition is_invalidation :: "pyval \<Rightarrow> bool" where
  "is_invalidation v \<longleftrightarrow> v = PBytes ''invalidate'' \<or> v = PStr ''invalidate''"

definition handle_push_response ::
    "(pyval \<Rightarrow> ('s, pyval) io) \<Rightarrow> (pyval \<Rightarrow> ('s, pyval) io) option \<Rightarrow> pyval list \<Rightarrow> ('s, pyval) io" where
  "handle_push_response pubsub inval response =
     (case response of
        [] \<Rightarrow> io_raise (Exc PyIndexError ''list index out of range'')
      | x # _ \<Rightarrow>
          if \<not> is_invalidation x then pubsub (PList response)
          else (case inval of Some h \<Rightarrow> h (PList response) | None \<Rightarrow> io_ret PNone))"

definition unhashable :: "pyval \<Rightarrow> exc" where
  "unhashable v = Exc PyTypeError (''unhashable type: '' @ [CHR 0x27] @ type_name v @ [CHR 0x27])"

definition float_reply :: "'s parser \<Rightarrow> bytes \<Rightarrow> exc + pyval" where
  "float_reply P b = (case p_float P b of None \<Rightarrow> Inl value_error | Some r \<Rightarrow> Inr (PFloat r))"

text \<open>\<open>p_push\<close> of the record stands for \<open>handle_push_response\<close> with the handlers of the moment.\<close>

text \<open>The loop over the entries of a map: \<open>resp_dict[key] = value\<close> raises on an unhashable key, after
  the value was read.\<close>

fun io_read_map :: "nat \<Rightarrow> ('s, pyval) io \<Rightarrow> ('s, pyval) io \<Rightarrow> (pyval \<times> pyval) list \<Rightarrow>
    ('s, (pyval \<times> pyval) list) io" where
  "io_read_map 0 rd_key rd_val d = io_ret d"
| "io_read_map (Suc k) rd_key rd_val d =
     io_bind rd_key (\<lambda>key.
     io_bind rd_val (\<lambda>v.
       if hashable key then io_read_map k rd_key rd_val (dict_set d key v)
       else io_raise (unhashable key)))"

text \<open>The body of \<open>_read_response\<close>; \<open>rec push_request\<close> is the recursive call.\<close>

definition resp3_body :: "'s parser \<Rightarrow> bool \<Rightarrow> bool \<Rightarrow> (bool \<Rightarrow> ('s, pyval) io) \<Rightarrow> ('s, pyval) io" where
  "resp3_body P dd pr rec =
     io_bind (p_readline P) (\<lambda>raw.
       if p_empty_raises P \<and> raw = [] then io_raise server_closed
       else let byte = take 1 raw; response = drop 1 raw in
         if byte = ''-'' then error_reply P response
         else if byte = ''!'' then
           io_bind (io_lift (int_of response)) (\<lambda>n.
           io_bind (p_read P n) (\<lambda>b. error_reply P b))
         else if byte = ''+'' then io_lift (decode_reply P dd (PBytes response))
         else if byte = ''_'' then io_ret PNone
         else if byte = '':'' \<or> byte = ''('' then io_bind (io_lift (int_of response)) (\<lambda>n. io_ret (PInt n))
         else if byte = '','' then io_lift (float_reply P response)
         else if byte = ''#'' then io_ret (PBool (response = ''t''))
         else if byte = ''$'' then
           io_bind (io_lift (int_of response)) (\<lambda>n.
           io_bind (p_read P n) (\<lambda>b. io_lift (decode_reply P dd (PBytes b))))
         else if byte = ''='' then
           io_bind (io_lift (int_of response)) (\<lambda>n.
           io_bind (p_read P n) (\<lambda>b. io_lift (decode_reply P dd (PBytes (drop 4 b)))))
         else if byte = ''*'' \<or> byte = ''~'' then
           io_bind (io_lift (int_of response)) (\<lambda>n.
           io_bind (io_replicate (nat n) (rec False)) (\<lambda>xs. io_ret (PList xs)))
         else if byte = ''%'' then
           io_bind (io_lift (int_of response)) (\<lambda>n.
           io_bind (io_read_map (nat n) (rec False) (rec pr) []) (\<lambda>d. io_ret (PDict d)))
         else if byte = ''>'' then
           io_bind (io_lift (int_of response)) (\<lambda>n.
           io_bind (io_replicate (nat n) (rec pr)) (\<lambda>xs.
           io_bind (p_push P xs) (\<lambda>r. if \<not> pr then rec pr else io_ret r)))
         else io_raise (protocol_error raw))"

primrec resp3_read :: "nat \<Rightarrow> 's parser \<Rightarrow> bool \<Rightarrow> bool \<Rightarrow> ('s, pyval) io" where
  "resp3_read 0 P dd pr = (\<lambda>s. None)"
| "resp3_read (Suc f) P dd pr = resp3_body P dd pr (resp3_read f P dd)"

section \<open>The blocking parsers\<close>

text \<open>\<open>read_response\<close> of \<open>_RESP2Parser\<close> and \<open>_RESP3Parser\<close>: on any exception the buffer is rewound to
  where the reply started, on success it is purged.\<close>

definition with_rewind :: "(sockbuf, pyval) io \<Rightarrow> (sockbuf, pyval) io" where
  "with_rewind body s =
     (let pos = get_pos s in
      case body s of
        None \<Rightarrow> None
      | Some (Inl e, s') \<Rightarrow> Some (Inl e, rewind pos s')
      | Some (Inr v, s') \<Rightarrow> Some (Inr v, purge s'))"

definition sync_parser :: "(string \<times> exc_entry) list \<Rightarrow> encoder \<Rightarrow> (bytes \<Rightarrow> string option) \<Rightarrow>
    (pyval list \<Rightarrow> (sockbuf, pyval) io) \<Rightarrow> sockbuf parser" where
  "sync_parser classes E fl push =
     \<lparr> p_readline = sb_readline, p_read = sb_read, p_classes = classes, p_encoder = E,
       p_empty_raises = True, p_conn_error = id, p_float = fl, p_push = push \<rparr>"

definition resp2_read_response :: "nat \<Rightarrow> sockbuf parser \<Rightarrow> bool \<Rightarrow> (sockbuf, pyval) io" where
  "resp2_read_response fuel P dd = with_rewind (resp2_read fuel P dd)"

definition resp3_read_response :: "nat \<Rightarrow> sockbuf parser \<Rightarrow> bool \<Rightarrow> bool \<Rightarrow> (sockbuf, pyval) io" where
  "resp3_read_response fuel P dd pr = with_rewind (resp3_read fuel P dd pr)"

end
