(* ===== verification/Resp_Spec.thy ===== *)
theory Resp_Spec
  imports Resp
begin

text \<open>
  The RESP wire format as an abstract specification, and the parsers' correctness against it.

  \<open>reply2\<close> and \<open>reply3\<close> are the replies a server can send, \<open>enc2\<close> and \<open>enc3\<close> their bytes on the wire,
  \<open>val2\<close> and \<open>val3\<close> the Python value (or exception) the library documents for them.  The lemmas are
  proved once over the locale \<open>byte_source\<close>; the last sections state what they give for the blocking
  parsers.
\<close>

section \<open>RESP2 replies\<close>

datatype reply2 =
    Simple2 bytes
  | Error2 bytes
  | Int2 int
  | Bulk2 bytes
  | NullBulk2
  | NullArray2
  | Array2 "reply2 list"

fun enc2 :: "reply2 \<Rightarrow> bytes" where
  "enc2 (Simple2 b) = ''+'' @ b @ SYM_CRLF"
| "enc2 (Error2 b) = ''-'' @ b @ SYM_CRLF"
| "enc2 (Int2 n) = '':'' @ int_repr n @ SYM_CRLF"
| "enc2 (Bulk2 b) = ''$'' @ nat_repr (length b) @ SYM_CRLF @ b @ SYM_CRLF"
| "enc2 NullBulk2 = ''$-1'' @ SYM_CRLF"
| "enc2 NullArray2 = ''*-1'' @ SYM_CRLF"
| "enc2 (Array2 rs) = ''*'' @ nat_repr (length rs) @ SYM_CRLF @ concat (map enc2 rs)"

text \<open>Simple strings and errors are single lines.\<close>

fun wf2 :: "reply2 \<Rightarrow> bool" where
  "wf2 (Simple2 b) = (LF \<notin> set b)"
| "wf2 (Error2 b) = (LF \<notin> set b)"
| "wf2 (Array2 rs) = list_all wf2 rs"
| "wf2 _ = True"

fun depth2 :: "reply2 \<Rightarrow> nat" where
  "depth2 (Array2 rs) = Suc (Max (insert 0 (set (map depth2 rs))))"
| "depth2 _ = 1"

text \<open>The first exception of a list of results, or all the values.\<close>

fun seq_results :: "('e + 'a) list \<Rightarrow> 'e + 'a list" where
  "seq_results [] = Inr []"
| "seq_results (Inl e # rs) = Inl e"
| "seq_results (Inr x # rs) = (case seq_results rs of Inl e \<Rightarrow> Inl e | Inr xs \<Rightarrow> Inr (x # xs))"

definition error_val :: "'s parser \<Rightarrow> bytes \<Rightarrow> exc + pyval" where
  "error_val P b =
     (case parse_error (p_classes P) (utf8_replace b) of
        Inl e \<Rightarrow> Inl e
      | Inr err \<Rightarrow> if is_exc err ConnectionError then Inl err else Inr (PExc err))"

fun val2 :: "'s parser \<Rightarrow> bool \<Rightarrow> reply2 \<Rightarrow> exc + pyval" where
  "val2 P dd (Simple2 b) = decode_reply P dd (PBytes b)"
| "val2 P dd (Error2 b) = error_val P b"
| "val2 P dd (Int2 n) = Inr (PInt n)"
| "val2 P dd (Bulk2 b) = decode_reply P dd (PBytes b)"
| "val2 P dd NullBulk2 = Inr PNone"
| "val2 P dd NullArray2 = Inr PNone"
| "val2 P dd (Array2 rs) = map_sum id PList (seq_results (map (val2 P dd) rs))"

section \<open>Delivering a result\<close>

text \<open>\<open>delivers view wfs m s res rest\<close>: run from \<open>s\<close>, the reader \<open>m\<close> returns; it raises the exception of
  \<open>res\<close>, or returns its value with exactly \<open>rest\<close> left to read.\<close>

definition delivers :: "('s \<Rightarrow> bytes) \<Rightarrow> ('s \<Rightarrow> bool) \<Rightarrow> ('s, 'a) io \<Rightarrow> 's \<Rightarrow> exc + 'a \<Rightarrow> bytes \<Rightarrow> bool" where
  "delivers view wfs m s res rest \<longleftrightarrow>
     (case res of
        Inl e \<Rightarrow> (\<exists>s'. m s = Some (Inl e, s'))
      | Inr v \<Rightarrow> (\<exists>s'. m s = Some (Inr v, s') \<and> view s' = rest \<and> wfs s'))"

lemma delivers_lift: "wfs s \<Longrightarrow> view s = rest \<Longrightarrow> delivers view wfs (io_lift r) s r rest"
  by (auto simp: delivers_def io_lift_def split: sum.splits)

lemma delivers_step:
  "m s = Some (Inr x, s') \<Longrightarrow>
   delivers view wfs (io_bind m f) s res rest = delivers view wfs (f x) s' res rest"
  by (cases res) (simp_all add: delivers_def)

lemma delivers_bind:
  assumes "delivers view wfs m s r mid"
    and "\<And>x s'. r = Inr x \<Longrightarrow> view s' = mid \<Longrightarrow> wfs s' \<Longrightarrow> delivers view wfs (f x) s' (g x) rest"
  shows "delivers view wfs (io_bind m f) s (case r of Inl e \<Rightarrow> Inl e | Inr x \<Rightarrow> g x) rest"
proof (cases r)
  case (Inl e)
  then show ?thesis using assms(1) by (auto simp: delivers_def)
next
  case (Inr x)
  then obtain s' where s': "m s = Some (Inr x, s')" "view s' = mid" "wfs s'"
    using assms(1) by (auto simp: delivers_def)
  then have "delivers view wfs (f x) s' (g x) rest" using assms(2) Inr by blast
  then show ?thesis using Inr by (simp add: delivers_step [of m, OF s'(1)])
qed

lemma delivers_error_reply:
  "wfs s \<Longrightarrow> view s = rest \<Longrightarrow> delivers view wfs (error_reply P b) s (error_val P b) rest"
  by (auto simp: delivers_def error_reply_def error_val_def io_defs split: sum.splits)

text \<open>Reading the elements of an aggregate one after the other.\<close>

lemma delivers_replicate:
  assumes "\<And>r s rest. r \<in> set rs \<Longrightarrow> wfs s \<Longrightarrow> view s = enc r @ rest \<Longrightarrow>
      delivers view wfs m s (val r) rest"
    and "wfs s" "view s = concat (map enc rs) @ rest"
  shows "delivers view wfs (io_replicate (length rs) m) s (seq_results (map val rs)) rest"
  using assms
proof (induction rs arbitrary: s)
  case Nil
  then show ?case by (simp add: delivers_def io_ret_def)
next
  case (Cons r rs)
  have "delivers view wfs (io_replicate (length (r # rs)) m) s
     (case val r of Inl e \<Rightarrow> Inl e | Inr x \<Rightarrow>
        (case seq_results (map val rs) of Inl e \<Rightarrow> Inl e | Inr xs \<Rightarrow> Inr (x # xs))) rest"
    unfolding length_Cons io_replicate.simps
  proof (rule delivers_bind)
    show "delivers view wfs m s (val r) (concat (map enc rs) @ rest)"
      by (rule Cons.prems(1)) (use Cons.prems in auto)
  next
    fix x s'
    assume s': "view s' = concat (map enc rs) @ rest" "wfs s'"
    show "delivers view wfs (io_bind (io_replicate (length rs) m) (\<lambda>xs. io_ret (x # xs))) s'
        (case seq_results (map val rs) of Inl e \<Rightarrow> Inl e | Inr xs \<Rightarrow> Inr (x # xs)) rest"
    proof (rule delivers_bind)
      show "delivers view wfs (io_replicate (length rs) m) s' (seq_results (map val rs)) rest"
        by (rule Cons.IH) (use Cons.prems(1) s' in auto)
    qed (simp add: delivers_def io_ret_def)
  qed
  then show ?case by (cases "val r") simp_all
qed

lemma depth2_array: "r \<in> set rs \<Longrightarrow> depth2 (Array2 rs) \<le> Suc f \<Longrightarrow> depth2 r \<le> f"
  by (auto simp del: Max_insert)

section \<open>The RESP2 parser reads back every reply\<close>

context byte_source
begin

text \<open>A header line: its type byte and its text.\<close>

lemma delivers_header:
  assumes "p_readline P = rd_line" "wfs s" "view s = c # l @ SYM_CRLF @ rest" "LF \<notin> set (c # l)"
    and "\<And>s'. view s' = rest \<Longrightarrow> wfs s' \<Longrightarrow> delivers view wfs (f (c # l)) s' res rest'"
  shows "delivers view wfs (io_bind (p_readline P) f) s res rest'"
proof -
  have "view s = (c # l) @ SYM_CRLF @ rest" using assms(3) by simp
  from rd_line [OF assms(2) this assms(4)] obtain s' where
    "rd_line s = Some (Inr (c # l), s')" "view s' = rest" "wfs s'" by blast
  then show ?thesis using assms(1,5) by (simp add: delivers_step)
qed

lemma delivers_rd_bytes:
  assumes "p_read P = rd_bytes" "wfs s" "view s = d @ SYM_CRLF @ rest"
    and "\<And>s'. view s' = rest \<Longrightarrow> wfs s' \<Longrightarrow> delivers view wfs (f d) s' res rest'"
  shows "delivers view wfs (io_bind (p_read P (int (length d))) f) s res rest'"
proof -
  from rd_bytes [OF assms(2,3)] obtain s' where
    "rd_bytes (int (length d)) s = Some (Inr d, s')" "view s' = rest" "wfs s'" by blast
  then show ?thesis using assms(1,4) by (simp add: delivers_step)
qed

lemma resp2_read_reply:
  assumes P: "p_readline P = rd_line" "p_read P = rd_bytes"
    and "wf2 r" "depth2 r \<le> f" "wfs s" "view s = enc2 r @ rest"
  shows "delivers view wfs (resp2_read f P dd) s (val2 P dd r) rest"
  using assms(3-)
proof (induction r arbitrary: f s rest)
  case (Simple2 b)
  then obtain f' where "f = Suc f'" by (cases f) auto
  then show ?case using Simple2
    by (simp add: resp2_body_def)
       (rule delivers_header [OF P(1), where l = b and rest = rest], auto intro: delivers_lift)
next
  case (Error2 b)
  then obtain f' where "f = Suc f'" by (cases f) auto
  then show ?case using Error2
    by (simp add: resp2_body_def)
       (rule delivers_header [OF P(1), where l = b and rest = rest], auto intro: delivers_error_reply)
next
  case (Int2 n)
  then obtain f' where "f = Suc f'" by (cases f) auto
  then show ?case using Int2
    by (simp add: resp2_body_def)
       (rule delivers_header [OF P(1), where l = "int_repr n" and rest = rest],
        auto simp: delivers_def int_of_def io_defs)
next
  case (Bulk2 b)
  then obtain f' where "f = Suc f'" by (cases f) auto
  moreover have "int_of (nat_repr (length b)) = Inr (int (length b))"
    using py_int_int_repr [of "int (length b)"] by (simp add: int_of_def)
  ultimately show ?case using Bulk2
    by (simp add: resp2_body_def)
       (rule delivers_header [OF P(1), where l = "nat_repr (length b)" and rest = "b @ SYM_CRLF @ rest"],
        auto intro!: delivers_rd_bytes [OF P(2)] delivers_lift)
next
  case NullBulk2
  then obtain f' where "f = Suc f'" by (cases f) auto
  then show ?case using NullBulk2
    by (simp add: resp2_body_def)
       (rule delivers_header [OF P(1), where l = "''-1''" and rest = rest], auto simp: delivers_def io_defs)
next
  case NullArray2
  then obtain f' where "f = Suc f'" by (cases f) auto
  then show ?case using NullArray2
    by (simp add: resp2_body_def)
       (rule delivers_header [OF P(1), where l = "''-1''" and rest = rest], auto simp: delivers_def io_defs)
next
  case (Array2 rs)
  then obtain f' where f: "f = Suc f'" by (cases f) auto
  have n: "int_of (nat_repr (length rs)) = Inr (int (length rs))"
    using py_int_int_repr [of "int (length rs)"] by (simp add: int_of_def)
  have el: "delivers view wfs (resp2_read f' P dd) s' (val2 P dd r) rest'"
    if "r \<in> set rs" "wfs s'" "view s' = enc2 r @ rest'" for r s' rest'
    using that Array2.IH [of r f' s' rest'] Array2.prems(1,2) f depth2_array [of r rs f']
    by (simp add: list_all_iff)
  have elems: "delivers view wfs (io_bind (io_replicate (length rs) (resp2_read f' P dd))
        (\<lambda>xs. io_lift (decode_reply P dd (PList xs)))) s' (val2 P dd (Array2 rs)) rest"
    if "wfs s'" "view s' = concat (map enc2 rs) @ rest" for s'
  proof -
    have "delivers view wfs (io_bind (io_replicate (length rs) (resp2_read f' P dd))
        (\<lambda>xs. io_lift (decode_reply P dd (PList xs)))) s'
        (case seq_results (map (val2 P dd) rs) of Inl e \<Rightarrow> Inl e | Inr xs \<Rightarrow> Inr (PList xs)) rest"
    proof (rule delivers_bind)
      show "delivers view wfs (io_replicate (length rs) (resp2_read f' P dd)) s'
          (seq_results (map (val2 P dd) rs)) rest"
        by (rule delivers_replicate [OF el]) (use that in auto)
    qed (auto simp: decode_reply_def delivers_def io_lift_def)
    then show ?thesis by (cases "seq_results (map (val2 P dd) rs)") simp_all
  qed
  show ?case using Array2.prems(3,4) f n
    by (simp add: resp2_body_def del: val2.simps)
       (rule delivers_header [OF P(1), where l = "nat_repr (length rs)" and
            rest = "concat (map enc2 rs) @ rest"],
        auto simp del: val2.simps
        intro!: elems)
qed

end

section \<open>RESP3 replies\<close>

datatype reply3 =
    Simple3 bytes
  | Error3 bytes
  | BulkError3 bytes
  | Null3
  | Int3 int
  | BigInt3 int
  | Double3 bytes
  | Bool3 bool
  | Bulk3 bytes
  | Verbatim3 bytes bytes
  | Array3 "reply3 list"
  | Set3 "reply3 list"
  | Map3 "(reply3 \<times> reply3) list"

definition blob :: "bytes \<Rightarrow> bytes" where
  "blob b = nat_repr (length b) @ SYM_CRLF @ b @ SYM_CRLF"

fun enc3 :: "reply3 \<Rightarrow> bytes" where
  "enc3 (Simple3 b) = ''+'' @ b @ SYM_CRLF"
| "enc3 (Error3 b) = ''-'' @ b @ SYM_CRLF"
| "enc3 (BulkError3 b) = ''!'' @ blob b"
| "enc3 Null3 = ''_'' @ SYM_CRLF"
| "enc3 (Int3 n) = '':'' @ int_repr n @ SYM_CRLF"
| "enc3 (BigInt3 n) = ''('' @ int_repr n @ SYM_CRLF"
| "enc3 (Double3 b) = '','' @ b @ SYM_CRLF"
| "enc3 (Bool3 b) = ''#'' @ (if b then ''t'' else ''f'') @ SYM_CRLF"
| "enc3 (Bulk3 b) = ''$'' @ blob b"
| "enc3 (Verbatim3 fmt b) = ''='' @ blob (fmt @ '':'' @ b)"
| "enc3 (Array3 rs) = ''*'' @ nat_repr (length rs) @ SYM_CRLF @ concat (map enc3 rs)"
| "enc3 (Set3 rs) = ''~'' @ nat_repr (length rs) @ SYM_CRLF @ concat (map enc3 rs)"
| "enc3 (Map3 kvs) = ''%'' @ nat_repr (length kvs) @ SYM_CRLF @ concat (map (\<lambda>(k, v). enc3 k @ enc3 v) kvs)"

text \<open>Line-based replies are single lines; a verbatim string has a three-letter format.\<close>

fun wf3 :: "reply3 \<Rightarrow> bool" where
  "wf3 (Simple3 b) = (LF \<notin> set b)"
| "wf3 (Error3 b) = (LF \<notin> set b)"
| "wf3 (Double3 b) = (LF \<notin> set b)"
| "wf3 (Verbatim3 fmt b) = (length fmt = 3)"
| "wf3 (Array3 rs) = list_all wf3 rs"
| "wf3 (Set3 rs) = list_all wf3 rs"
| "wf3 (Map3 kvs) = list_all (\<lambda>(k, v). wf3 k \<and> wf3 v) kvs"
| "wf3 _ = True"

fun depth3 :: "reply3 \<Rightarrow> nat" where
  "depth3 (Array3 rs) = Suc (Max (insert 0 (set (map depth3 rs))))"
| "depth3 (Set3 rs) = Suc (Max (insert 0 (set (map depth3 rs))))"
| "depth3 (Map3 kvs) = Suc (Max (insert 0 (set (map (\<lambda>(k, v). max (depth3 k) (depth3 v)) kvs))))"
| "depth3 _ = 1"

text \<open>A map is filled entry by entry; a key that cannot be hashed raises.\<close>

fun seq_map :: "((exc + pyval) \<times> (exc + pyval)) list \<Rightarrow> (pyval \<times> pyval) list \<Rightarrow>
    exc + (pyval \<times> pyval) list" where
  "seq_map [] d = Inr d"
| "seq_map ((k, v) # kvs) d =
     (case k of Inl e \<Rightarrow> Inl e | Inr key \<Rightarrow>
      (case v of Inl e \<Rightarrow> Inl e | Inr x \<Rightarrow>
         if hashable key then seq_map kvs (dict_set d key x) else Inl (unhashable key)))"

fun val3 :: "'s parser \<Rightarrow> bool \<Rightarrow> reply3 \<Rightarrow> exc + pyval" where
  "val3 P dd (Simple3 b) = decode_reply P dd (PBytes b)"
| "val3 P dd (Error3 b) = error_val P b"
| "val3 P dd (BulkError3 b) = error_val P b"
| "val3 P dd Null3 = Inr PNone"
| "val3 P dd (Int3 n) = Inr (PInt n)"
| "val3 P dd (BigInt3 n) = Inr (PInt n)"
| "val3 P dd (Double3 b) = float_reply P b"
| "val3 P dd (Bool3 b) = Inr (PBool b)"
| "val3 P dd (Bulk3 b) = decode_reply P dd (PBytes b)"
| "val3 P dd (Verbatim3 fmt b) = decode_reply P dd (PBytes b)"
| "val3 P dd (Array3 rs) = map_sum id PList (seq_results (map (val3 P dd) rs))"
| "val3 P dd (Set3 rs) = map_sum id PList (seq_results (map (val3 P dd) rs))"
| "val3 P dd (Map3 kvs) =
     map_sum id PDict (seq_map (map (\<lambda>(k, v). (val3 P dd k, val3 P dd v)) kvs) [])"

lemma depth3_array:
  "r \<in> set rs \<Longrightarrow> depth3 (Array3 rs) \<le> Suc f \<Longrightarrow> depth3 r \<le> f"
  "r \<in> set rs \<Longrightarrow> depth3 (Set3 rs) \<le> Suc f \<Longrightarrow> depth3 r \<le> f"
  "(k, v) \<in> set kvs \<Longrightarrow> depth3 (Map3 kvs) \<le> Suc f \<Longrightarrow> depth3 k \<le> f \<and> depth3 v \<le> f"
  by (auto simp del: Max_insert)

lemma depth3_pos [simp]: "0 < depth3 r"
  by (cases r) auto

text \<open>Reading the entries of a map.\<close>

lemma delivers_map:
  assumes "\<And>k v s rest. (k, v) \<in> set kvs \<Longrightarrow> wfs s \<Longrightarrow> view s = enc k @ rest \<Longrightarrow>
      delivers view wfs mk s (val k) rest"
    and "\<And>k v s rest. (k, v) \<in> set kvs \<Longrightarrow> wfs s \<Longrightarrow> view s = enc v @ rest \<Longrightarrow>
      delivers view wfs mv s (val v) rest"
    and "wfs s" "view s = concat (map (\<lambda>(k, v). enc k @ enc v) kvs) @ rest"
  shows "delivers view wfs (io_read_map (length kvs) mk mv d) s
     (seq_map (map (\<lambda>(k, v). (val k, val v)) kvs) d) rest"
  using assms
proof (induction kvs arbitrary: s d)
  case Nil
  then show ?case by (simp add: delivers_def io_ret_def)
next
  case (Cons kv kvs)
  obtain k v where kv: "kv = (k, v)" by fastforce
  define tl where "tl = concat (map (\<lambda>(k, v). enc k @ enc v) kvs) @ rest"
  have "delivers view wfs (io_read_map (length (kv # kvs)) mk mv d) s
     (case val k of Inl e \<Rightarrow> Inl e | Inr key \<Rightarrow>
       (case val v of Inl e \<Rightarrow> Inl e | Inr x \<Rightarrow>
         if hashable key then seq_map (map (\<lambda>(k, v). (val k, val v)) kvs) (dict_set d key x)
         else Inl (unhashable key))) rest"
    unfolding length_Cons io_read_map.simps
  proof (rule delivers_bind)
    show "delivers view wfs mk s (val k) (enc v @ tl)"
      by (rule Cons.prems(1) [of k v]) (use Cons.prems kv in \<open>auto simp: tl_def\<close>)
  next
    fix key s'
    assume s': "view s' = enc v @ tl" "wfs s'"
    show "delivers view wfs
        (io_bind mv (\<lambda>x. if hashable key then io_read_map (length kvs) mk mv (dict_set d key x)
                         else io_raise (unhashable key))) s'
        (case val v of Inl e \<Rightarrow> Inl e | Inr x \<Rightarrow>
          if hashable key then seq_map (map (\<lambda>(k, v). (val k, val v)) kvs) (dict_set d key x)
          else Inl (unhashable key)) rest"
    proof (rule delivers_bind)
      show "delivers view wfs mv s' (val v) tl"
        by (rule Cons.prems(2) [of k v]) (use s' kv in auto)
    next
      fix x s''
      assume s'': "view s'' = tl" "wfs s''"
      have "delivers view wfs (io_read_map (length kvs) mk mv (dict_set d key x)) s''
          (seq_map (map (\<lambda>(k, v). (val k, val v)) kvs) (dict_set d key x)) rest"
      proof (rule Cons.IH)
        show "delivers view wfs mk s0 (val k0) r0"
          if "(k0, v0) \<in> set kvs" "wfs s0" "view s0 = enc k0 @ r0" for k0 v0 s0 r0
          using Cons.prems(1) [of k0 v0] that by simp
        show "delivers view wfs mv s0 (val v0) r0"
          if "(k0, v0) \<in> set kvs" "wfs s0" "view s0 = enc v0 @ r0" for k0 v0 s0 r0
          using Cons.prems(2) [of k0 v0] that by simp
      qed (use s'' in \<open>simp_all add: tl_def\<close>)
      then show "delivers view wfs
          (if hashable key then io_read_map (length kvs) mk mv (dict_set d key x)
           else io_raise (unhashable key)) s''
          (if hashable key then seq_map (map (\<lambda>(k, v). (val k, val v)) kvs) (dict_set d key x)
           else Inl (unhashable key)) rest"
        by (simp add: delivers_def io_raise_def)
    qed
  qed
  then show ?case using kv by simp
qed

lemma int_of_reprs [simp]: "int_of (nat_repr n) = Inr (int n)" "int_of (int_repr i) = Inr i"
  using py_int_int_repr [of "int n"] by (simp_all add: int_of_def)

lemma delivers_map_sum:
  assumes "delivers view wfs m s r rest"
  shows "delivers view wfs (io_bind m (\<lambda>x. io_ret (g x))) s (map_sum id g r) rest"
proof -
  have "delivers view wfs (io_bind m (\<lambda>x. io_ret (g x))) s
      (case r of Inl e \<Rightarrow> Inl e | Inr x \<Rightarrow> Inr (g x)) rest"
    by (rule delivers_bind [OF assms]) (simp add: delivers_def io_ret_def)
  then show ?thesis by (cases r) simp_all
qed

text \<open>Push messages: one or more elements, every element with a value.\<close>

definition enc_push :: "reply3 list \<Rightarrow> bytes" where
  "enc_push es = ''>'' @ nat_repr (length es) @ SYM_CRLF @ concat (map enc3 es)"

definition wf_push :: "'s parser \<Rightarrow> bool \<Rightarrow> reply3 list \<Rightarrow> bool" where
  "wf_push P dd es \<longleftrightarrow> list_all wf3 es \<and>
     (case seq_results (map (val3 P dd) es) of Inl e \<Rightarrow> False | Inr xs \<Rightarrow> xs \<noteq> [])"

section \<open>The RESP3 parser reads back every reply and skips push messages\<close>

context byte_source
begin

lemma resp3_read_reply:
  assumes P: "p_readline P = rd_line" "p_read P = rd_bytes"
    and "wf3 r" "depth3 r \<le> f" "wfs s" "view s = enc3 r @ rest"
  shows "delivers view wfs (resp3_read f P dd pr) s (val3 P dd r) rest"
  using assms(3-)
proof (induction r arbitrary: f s rest pr)
  case (Array3 rs)
  then obtain f' where f: "f = Suc f'" by (cases f) auto
  have el: "delivers view wfs (resp3_read f' P dd False) s' (val3 P dd r) rest'"
    if "r \<in> set rs" "wfs s'" "view s' = enc3 r @ rest'" for r s' rest'
    using that Array3.IH [of r f' s' rest' False] Array3.prems(1,2) f depth3_array(1) [of r rs f']
    by (simp add: list_all_iff)
  show ?case using Array3.prems(3,4) f
    by (simp add: resp3_body_def)
       (rule delivers_header [OF P(1), where l = "nat_repr (length rs)" and
            rest = "concat (map enc3 rs) @ rest"],
        auto intro!: delivers_map_sum delivers_replicate [OF el])
next
  case (Set3 rs)
  then obtain f' where f: "f = Suc f'" by (cases f) auto
  have el: "delivers view wfs (resp3_read f' P dd False) s' (val3 P dd r) rest'"
    if "r \<in> set rs" "wfs s'" "view s' = enc3 r @ rest'" for r s' rest'
    using that Set3.IH [of r f' s' rest' False] Set3.prems(1,2) f depth3_array(2) [of r rs f']
    by (simp add: list_all_iff)
  show ?case using Set3.prems(3,4) f
    by (simp add: resp3_body_def)
       (rule delivers_header [OF P(1), where l = "nat_repr (length rs)" and
            rest = "concat (map enc3 rs) @ rest"],
        auto intro!: delivers_map_sum delivers_replicate [OF el])
next
  case (Map3 kvs)
  then obtain f' where f: "f = Suc f'" by (cases f) auto
  have k: "delivers view wfs (resp3_read f' P dd False) s' (val3 P dd k) rest'"
    if "(k, v) \<in> set kvs" "wfs s'" "view s' = enc3 k @ rest'" for k v s' rest'
    using that Map3.IH(1) [of "(k, v)" k f' s' rest' False] Map3.prems(1,2) f depth3_array(3) [of k v kvs f']
    by (auto simp: list_all_iff)
  have v: "delivers view wfs (resp3_read f' P dd pr) s' (val3 P dd v) rest'"
    if "(k, v) \<in> set kvs" "wfs s'" "view s' = enc3 v @ rest'" for k v s' rest'
    using that Map3.IH(2) [of "(k, v)" v f' s' rest' pr] Map3.prems(1,2) f depth3_array(3) [of k v kvs f']
    by (auto simp: list_all_iff)
  show ?case using Map3.prems(3,4) f
    by (simp add: resp3_body_def)
       (rule delivers_header [OF P(1), where l = "nat_repr (length kvs)" and
            rest = "concat (map (\<lambda>(k, v). enc3 k @ enc3 v) kvs) @ rest"],
        auto intro!: delivers_map_sum delivers_map [OF k v])
next
  case (BulkError3 b)
  then obtain f' where "f = Suc f'" by (cases f) auto
  then show ?case using BulkError3
    by (simp add: resp3_body_def blob_def)
       (rule delivers_header [OF P(1), where l = "nat_repr (length b)" and rest = "b @ SYM_CRLF @ rest"],
        auto intro!: delivers_rd_bytes [OF P(2)] delivers_error_reply)
next
  case (Bulk3 b)
  then obtain f' where "f = Suc f'" by (cases f) auto
  then show ?case using Bulk3
    by (simp add: resp3_body_def blob_def)
       (rule delivers_header [OF P(1), where l = "nat_repr (length b)" and rest = "b @ SYM_CRLF @ rest"],
        auto intro!: delivers_rd_bytes [OF P(2)] delivers_lift)
next
  case (Verbatim3 fmt b)
  then obtain f' where f: "f = Suc f'" by (cases f) auto
  define d where "d = fmt @ '':'' @ b"
  have "drop 4 d = b" using Verbatim3.prems(1) by (simp add: d_def)
  then have "delivers view wfs (io_bind (p_read P (int (length d)))
      (\<lambda>b. io_lift (decode_reply P dd (PBytes (drop 4 b))))) s' (decode_reply P dd (PBytes b)) rest"
    if "view s' = d @ SYM_CRLF @ rest" "wfs s'" for s'
    by (rule_tac delivers_rd_bytes [OF P(2) that(2,1)]) (simp add: delivers_lift)
  then show ?case using Verbatim3.prems(3,4) f
    by (simp add: resp3_body_def blob_def d_def [unfolded append_Cons append_Nil, symmetric])
       (rule delivers_header [OF P(1), where l = "nat_repr (length d)" and rest = "d @ SYM_CRLF @ rest"],
        auto simp: d_def)
next
  case (Int3 n)
  then obtain f' where "f = Suc f'" by (cases f) auto
  then show ?case using Int3
    by (simp add: resp3_body_def)
       (rule delivers_header [OF P(1), where l = "int_repr n" and rest = rest],
        auto simp: delivers_def io_ret_def)
next
  case (BigInt3 n)
  then obtain f' where "f = Suc f'" by (cases f) auto
  then show ?case using BigInt3
    by (simp add: resp3_body_def)
       (rule delivers_header [OF P(1), where l = "int_repr n" and rest = rest],
        auto simp: delivers_def io_ret_def)
next
  case (Bool3 b)
  then obtain f' where "f = Suc f'" by (cases f) auto
  then show ?case using Bool3
    by (simp add: resp3_body_def)
       (rule delivers_header [OF P(1), where l = "if b then ''t'' else ''f''" and rest = rest],
        auto simp: delivers_def io_ret_def)
next
  case (Simple3 b)
  then obtain f' where "f = Suc f'" by (cases f) auto
  then show ?case using Simple3
    by (simp add: resp3_body_def)
       (rule delivers_header [OF P(1), where l = b and rest = rest], auto intro: delivers_lift)
next
  case (Error3 b)
  then obtain f' where "f = Suc f'" by (cases f) auto
  then show ?case using Error3
    by (simp add: resp3_body_def)
       (rule delivers_header [OF P(1), where l = b and rest = rest], auto intro: delivers_error_reply)
next
  case Null3
  then obtain f' where "f = Suc f'" by (cases f) auto
  then show ?case using Null3
    by (simp add: resp3_body_def)
       (rule delivers_header [OF P(1), where l = "[]" and rest = rest], auto simp: delivers_def io_ret_def)
next
  case (Double3 b)
  then obtain f' where "f = Suc f'" by (cases f) auto
  then show ?case using Double3
    by (simp add: resp3_body_def)
       (rule delivers_header [OF P(1), where l = b and rest = rest], auto intro: delivers_lift)
qed

text \<open>A push message is read, handed to the handler, and skipped.\<close>

lemma resp3_read_push:
  assumes P: "p_readline P = rd_line" "p_read P = rd_bytes"
    and "list_all wf3 es" "\<And>e. e \<in> set es \<Longrightarrow> depth3 e \<le> f" "seq_results (map (val3 P dd) es) = Inr xs"
    and h: "\<And>s. wfs s \<Longrightarrow> \<exists>v s'. p_push P xs s = Some (Inr v, s') \<and> view s' = view s \<and> wfs s'"
    and "wfs s" "view s = enc_push es @ rest"
    and k: "\<And>s'. view s' = rest \<Longrightarrow> wfs s' \<Longrightarrow> delivers view wfs (resp3_read f P dd False) s' res rest'"
  shows "delivers view wfs (resp3_read (Suc f) P dd False) s res rest'"
proof -
  have elems: "delivers view wfs (io_replicate (length es) (resp3_read f P dd False)) s1 (Inr xs) rest"
    if "view s1 = concat (map enc3 es) @ rest" "wfs s1" for s1
    unfolding assms(5) [symmetric]
    by (rule delivers_replicate [where enc = enc3])
       (use that resp3_read_reply [OF P] assms(3,4) in \<open>auto simp: list_all_iff\<close>)
  have "delivers view wfs (io_bind (io_replicate (length es) (resp3_read f P dd False)) (\<lambda>xs.
      io_bind (p_push P xs) (\<lambda>r. resp3_read f P dd False))) s1 res rest'"
    if s1: "view s1 = concat (map enc3 es) @ rest" "wfs s1" for s1
  proof -
    obtain s2 where s2: "io_replicate (length es) (resp3_read f P dd False) s1 = Some (Inr xs, s2)"
      "view s2 = rest" "wfs s2" using elems [OF s1] by (auto simp: delivers_def)
    obtain v s3 where "p_push P xs s2 = Some (Inr v, s3)" "view s3 = rest" "wfs s3"
      using h [OF s2(3)] s2(2) by auto
    then show ?thesis using s2(1) k by (simp add: delivers_step)
  qed
  then show ?thesis using assms(7,8)
    by (simp add: resp3_body_def enc_push_def)
       (rule delivers_header [OF P(1), where l = "nat_repr (length es)" and
            rest = "concat (map enc3 es) @ rest"], auto)
qed

lemma resp3_read_pushes:
  assumes P: "p_readline P = rd_line" "p_read P = rd_bytes"
    and "wf3 r" "\<And>es. es \<in> set ps \<Longrightarrow> wf_push P dd es"
    and h: "\<And>xs s. wfs s \<Longrightarrow> xs \<noteq> [] \<Longrightarrow>
        \<exists>v s'. p_push P xs s = Some (Inr v, s') \<and> view s' = view s \<and> wfs s'"
    and "depth3 r \<le> f" "\<And>es e. es \<in> set ps \<Longrightarrow> e \<in> set es \<Longrightarrow> depth3 e \<le> f"
    and "wfs s" "view s = concat (map enc_push ps) @ enc3 r @ rest"
  shows "delivers view wfs (resp3_read (length ps + f) P dd False) s (val3 P dd r) rest"
  using assms(4,7-)
proof (induction ps arbitrary: s)
  case Nil
  then show ?case using resp3_read_reply [OF P assms(3,6)] by simp
next
  case (Cons es ps)
  obtain xs where xs: "seq_results (map (val3 P dd) es) = Inr xs" "xs \<noteq> []" "list_all wf3 es"
    using Cons.prems(1) [of es] by (auto simp: wf_push_def split: sum.splits)
  have d: "depth3 e \<le> length ps + f" if "e \<in> set es" for e
    using Cons.prems(2) [of es e] that by simp
  have "delivers view wfs (resp3_read (Suc (length ps + f)) P dd False) s (val3 P dd r) rest"
  proof (rule resp3_read_push [OF P xs(3) d xs(1)])
    show "\<exists>v s'. p_push P xs s = Some (Inr v, s') \<and> view s' = view s \<and> wfs s'" if "wfs s" for s
      using h that xs(2) by blast
    show "wfs s" "view s = enc_push es @ concat (map enc_push ps) @ enc3 r @ rest"
      using Cons.prems(3,4) by simp_all
    show "delivers view wfs (resp3_read (length ps + f) P dd False) s' (val3 P dd r) rest"
      if "view s' = concat (map enc_push ps) @ enc3 r @ rest" "wfs s'" for s'
    proof (rule Cons.IH)
      show "wf_push P dd es'" if "es' \<in> set ps" for es' using Cons.prems(1) that by simp
      show "depth3 e \<le> f" if "es' \<in> set ps" "e \<in> set es'" for es' e
        using Cons.prems(2) [of es' e] that by simp
    qed (use that in simp_all)
  qed
  then show ?case by simp
qed

end

section \<open>The blocking parsers keep every byte\<close>

text \<open>Whatever a parser does, it appends what it received to the buffer and drops nothing.\<close>

lemma reflp_sb_kept [simp]: "reflp sb_kept" and transp_sb_kept [simp]: "transp sb_kept"
  by (auto simp: reflp_def transp_def intro: sb_kept_trans)

lemma sb_ops_kept [io_pres_intros]: "io_pres sb_kept sb_readline" "io_pres sb_kept (sb_read n)"
  by (auto simp: io_pres_def intro: sb_readline_kept sb_read_kept)

lemma io_pres_if [io_pres_intros]: "io_pres R a \<Longrightarrow> io_pres R b \<Longrightarrow> io_pres R (if c then a else b)"
  by simp

lemma io_pres_replicate [io_pres_intros]:
  "reflp R \<Longrightarrow> transp R \<Longrightarrow> io_pres R m \<Longrightarrow> io_pres R (io_replicate k m)"
  by (induction k) (auto intro!: io_pres_intros)

lemma io_pres_read_map [io_pres_intros]:
  "reflp R \<Longrightarrow> transp R \<Longrightarrow> io_pres R a \<Longrightarrow> io_pres R b \<Longrightarrow> io_pres R (io_read_map k a b d)"
  by (induction k arbitrary: d) (auto intro!: io_pres_intros)

lemma io_pres_error_reply [io_pres_intros]:
  "p_conn_error P = id \<Longrightarrow> reflp R \<Longrightarrow> io_pres R (error_reply P b)"
  by (auto simp: io_pres_def error_reply_def io_defs reflp_def split: sum.splits if_splits)

lemma sync_parser_simps [simp]:
  "p_readline (sync_parser c E fl h) = sb_readline" "p_read (sync_parser c E fl h) = sb_read"
  "p_conn_error (sync_parser c E fl h) = id" "p_push (sync_parser c E fl h) = h"
  "p_classes (sync_parser c E fl h) = c" "p_encoder (sync_parser c E fl h) = E"
  "p_float (sync_parser c E fl h) = fl"
  by (simp_all add: sync_parser_def)

lemma resp2_read_kept: "io_pres sb_kept (resp2_read f (sync_parser c E fl h) dd)"
  by (induction f) (auto simp: resp2_body_def Let_def intro!: io_pres_intros)

lemma resp3_read_kept:
  assumes "\<And>xs. io_pres sb_kept (h xs)"
  shows "io_pres sb_kept (resp3_read f (sync_parser c E fl h) dd pr)"
  using assms by (induction f arbitrary: pr) (auto simp: resp3_body_def Let_def intro!: io_pres_intros)

lemma with_rewind_Inl:
  assumes "io_pres sb_kept m" "with_rewind m s = Some (Inl e, s')"
  shows "sb_kept s s'" "bpos s' = bpos s"
  using assms by (auto simp: with_rewind_def io_pres_def rewind_def get_pos_def
      split: option.splits sum.splits prod.splits)

lemma purge_view: "sb_inv s \<Longrightarrow> sb_view (purge s) = sb_view s" "sb_inv s \<Longrightarrow> sb_inv (purge s)"
  by (simp_all add: purge_def sb_view_def sb_inv_def unread_bytes_def)

lemma with_rewind_delivers:
  assumes "delivers sb_view sb_inv m s res rest"
  shows "delivers sb_view sb_inv (with_rewind m) s res rest"
  using assms by (auto simp: delivers_def with_rewind_def purge_view split: sum.splits)

text \<open>After an exception the buffer holds what it held and what came since, from the old position on.\<close>

lemma sb_kept_view:
  assumes "sb_kept s s'" "bpos s' = bpos s" "sb_inv s"
  obtains evs where "script s = evs @ script s'"
    "sb_view s' = drop (bpos s) (buf s) @ received evs @ stream (script s')" "sb_inv s'"
  using assms by (auto simp: sb_kept_def sb_view_def sb_inv_def)

text \<open>The nesting depth is bounded by the length of the reply, so that length is enough fuel.\<close>

lemma sum_list_ge: "x \<in> set xs \<Longrightarrow> f x \<le> sum_list (map f xs)" for f :: "'a \<Rightarrow> nat"
  by (induction xs) auto

lemma enc2_depth: "depth2 r \<le> length (enc2 r)"
proof (induction r)
  case (Array2 rs)
  have "depth2 r \<le> length (concat (map enc2 rs))" if "r \<in> set rs" for r
    using Array2 [OF that] sum_list_ge [OF that, of "\<lambda>r. length (enc2 r)"]
    by (simp add: length_concat comp_def)
  then show ?case by (auto intro!: trans_le_add2)
qed (auto simp: SYM_CRLF_def)

lemma enc3_depth: "depth3 r \<le> length (enc3 r)"
proof (induction r)
  case (Array3 rs)
  have "depth3 r \<le> length (concat (map enc3 rs))" if "r \<in> set rs" for r
    using Array3 [OF that] sum_list_ge [OF that, of "\<lambda>r. length (enc3 r)"]
    by (simp add: length_concat comp_def)
  then show ?case by (auto intro!: trans_le_add2)
next
  case (Set3 rs)
  have "depth3 r \<le> length (concat (map enc3 rs))" if "r \<in> set rs" for r
    using Set3 [OF that] sum_list_ge [OF that, of "\<lambda>r. length (enc3 r)"]
    by (simp add: length_concat comp_def)
  then show ?case by (auto intro!: trans_le_add2)
next
  case (Map3 kvs)
  have "max (depth3 k) (depth3 v) \<le> length (concat (map (\<lambda>(k, v). enc3 k @ enc3 v) kvs))"
    if "(k, v) \<in> set kvs" for k v
    using Map3(1) [OF that] Map3(2) [OF that]
      sum_list_ge [OF that, of "\<lambda>(k, v). length (enc3 k) + length (enc3 v)"]
    by (simp add: length_concat comp_def case_prod_unfold)
  then show ?case by (fastforce intro!: trans_le_add2)
qed (auto simp: SYM_CRLF_def blob_def)

section \<open>Properties of the blocking parsers\<close>

text \<open>A push handler that is called for its value only, as the default logging handler is.\<close>

definition default_push :: "pyval list \<Rightarrow> (sockbuf, pyval) io" where
  "default_push = handle_push_response io_ret None"

lemma default_push_kept [simp]: "io_pres sb_kept (default_push xs)"
  by (cases xs) (auto simp: default_push_def handle_push_response_def intro!: io_pres_intros)

lemma default_push_returns:
  "xs \<noteq> [] \<Longrightarrow> \<exists>v. \<forall>s. default_push xs s = Some (Inr v, s)"
  by (cases xs) (auto simp: default_push_def handle_push_response_def io_defs)

text \<open>
  C1: RESP2 round trip.  If the bytes still to be read, in whatever pieces the socket delivers them, start
  with the encoding of a well-formed reply, then \<open>_RESP2Parser.read_response\<close> returns exactly the value
  of that reply and leaves exactly the bytes after it; if the reply carries a connection error, a bad
  redirection or undecodable text, it raises that exception.
\<close>

theorem resp2_roundtrip:
  assumes "wf2 r" "sb_inv s" "sb_view s = enc2 r @ rest" "length (enc2 r) \<le> fuel"
  shows "delivers sb_view sb_inv (resp2_read_response fuel (sync_parser cls E fl h) dd) s
           (val2 (sync_parser cls E fl h) dd r) rest"
proof -
  have "depth2 r \<le> fuel" using enc2_depth assms(4) by (rule order_trans)
  from sb.resp2_read_reply [OF _ _ assms(1) this assms(2,3), where P = "sync_parser cls E fl h"]
  show ?thesis unfolding resp2_read_response_def by (intro with_rewind_delivers) simp
qed

theorem resp2_roundtrip_witness:
  "delivers sb_view sb_inv
     (resp2_read_response 30 (sync_parser EXCEPTION_CLASSES (utf8_encoder True) (\<lambda>_. None) default_push) False)
     (sb_init [Recv ''*2'', Recv [CR], Recv ([LF] @ '':7'' @ SYM_CRLF @ ''$2'' @ SYM_CRLF @ ''h''),
        Recv (''i'' @ SYM_CRLF @ ''+next'')] None)
     (Inr (PList [PInt 7, PStr ''hi''])) ''+next''"
proof -
  let ?P = "sync_parser EXCEPTION_CLASSES (utf8_encoder True) (\<lambda>_. None) default_push"
  let ?r = "Array2 [Int2 7, Bulk2 ''hi'']"
  let ?s = "sb_init [Recv ''*2'', Recv [CR], Recv ([LF] @ '':7'' @ SYM_CRLF @ ''$2'' @ SYM_CRLF @ ''h''),
        Recv (''i'' @ SYM_CRLF @ ''+next'')] None"
  have enc: "enc2 ?r = ''*2'' @ SYM_CRLF @ '':7'' @ SYM_CRLF @ ''$2'' @ SYM_CRLF @ ''hi'' @ SYM_CRLF"
    by code_simp
  have val: "val2 ?P False ?r = Inr (PList [PInt 7, PStr ''hi''])"
    by (simp add: decode_reply_def utf8_encoder_def utf8_decode_def utf8_conts_def)
  have "delivers sb_view sb_inv (resp2_read_response 30 ?P False) ?s (val2 ?P False ?r) ''+next''"
  proof (rule resp2_roundtrip)
    show "sb_view ?s = enc2 ?r @ ''+next''"
      unfolding enc by (simp add: sb_init_def sb_view_def SYM_CRLF_def)
    show "length (enc2 ?r) \<le> 30" unfolding enc by (simp add: SYM_CRLF_def)
  qed (simp_all add: sb_init_def sb_inv_def)
  then show ?thesis unfolding val .
qed

text \<open>
  C2: RESP3 round trip.  Ahead of the reply the server may have sent any number of push messages; when
  \<open>push_request\<close> is false \<open>_RESP3Parser.read_response\<close> hands each to the (default) push handler, skips it
  and returns the value of the reply that follows, leaving the bytes after it.
\<close>

theorem resp3_roundtrip:
  assumes "wf3 r" "\<forall>es\<in>set ps. wf_push (sync_parser cls E fl default_push) dd es"
    and "sb_inv s" "sb_view s = concat (map enc_push ps) @ enc3 r @ rest"
    and "length (concat (map enc_push ps)) + length (enc3 r) \<le> fuel"
  shows "delivers sb_view sb_inv
           (resp3_read_response (length ps + fuel) (sync_parser cls E fl default_push) dd False) s
           (val3 (sync_parser cls E fl default_push) dd r) rest"
proof -
  let ?P = "sync_parser cls E fl default_push"
  have dr: "depth3 r \<le> fuel" using enc3_depth [of r] assms(5) by simp
  have dp: "depth3 e \<le> fuel" if "es \<in> set ps" "e \<in> set es" for es e
  proof -
    have "depth3 e \<le> length (enc3 e)" by (rule enc3_depth)
    also have "\<dots> \<le> length (concat (map enc3 es))"
      using sum_list_ge [OF that(2), of "\<lambda>r. length (enc3 r)"] by (simp add: length_concat comp_def)
    also have "\<dots> \<le> length (enc_push es)" by (simp add: enc_push_def)
    also have "\<dots> \<le> length (concat (map enc_push ps))"
      using sum_list_ge [OF that(1), of "\<lambda>r. length (enc_push r)"] by (simp add: length_concat comp_def)
    finally show ?thesis using assms(5) by simp
  qed
  have "delivers sb_view sb_inv (resp3_read (length ps + fuel) ?P dd False) s (val3 ?P dd r) rest"
    by (rule sb.resp3_read_pushes [OF _ _ assms(1) _ _ dr dp assms(3,4)])
       (use assms(2) in \<open>auto dest: default_push_returns\<close>)
  then show ?thesis unfolding resp3_read_response_def by (rule with_rewind_delivers)
qed

theorem resp3_roundtrip_witness:
  "delivers sb_view sb_inv
     (resp3_read_response 41 (sync_parser EXCEPTION_CLASSES (utf8_encoder False) (\<lambda>_. None) default_push) False False)
     (sb_init [Recv (''>1'' @ SYM_CRLF @ ''+hey'' @ SYM_CRLF @ ''%1''), Recv (SYM_CRLF @ '':1'' @ SYM_CRLF @ ''#t''),
        Recv SYM_CRLF] None)
     (Inr (PDict [(PInt 1, PBool True)])) []"
proof -
  let ?P = "sync_parser EXCEPTION_CLASSES (utf8_encoder False) (\<lambda>_. None) default_push"
  let ?r = "Map3 [(Int3 1, Bool3 True)]" and ?ps = "[[Simple3 ''hey'']]"
  let ?s = "sb_init [Recv (''>1'' @ SYM_CRLF @ ''+hey'' @ SYM_CRLF @ ''%1''),
     Recv (SYM_CRLF @ '':1'' @ SYM_CRLF @ ''#t''), Recv SYM_CRLF] None"
  have enc: "enc3 ?r = ''%1'' @ SYM_CRLF @ '':1'' @ SYM_CRLF @ ''#t'' @ SYM_CRLF" by code_simp
  have encp: "concat (map enc_push ?ps) = ''>1'' @ SYM_CRLF @ ''+hey'' @ SYM_CRLF" by code_simp
  have val: "val3 ?P False ?r = Inr (PDict [(PInt 1, PBool True)])" by simp
  have "delivers sb_view sb_inv (resp3_read_response (length ?ps + 40) ?P False False) ?s
      (val3 ?P False ?r) []"
  proof (rule resp3_roundtrip)
    show "sb_view ?s = concat (map enc_push ?ps) @ enc3 ?r @ []"
      unfolding enc encp by (simp add: sb_init_def sb_view_def SYM_CRLF_def)
    show "length (concat (map enc_push ?ps)) + length (enc3 ?r) \<le> 40"
      unfolding enc encp by (simp add: SYM_CRLF_def)
    show "\<forall>es\<in>set ?ps. wf_push ?P False es"
      by (simp add: wf_push_def decode_reply_def utf8_encoder_def)
  qed (simp_all add: sb_init_def sb_inv_def)
  then show ?thesis unfolding val by simp
qed

text \<open>
  C3: No byte is lost on an exception.  Whenever \<open>read_response\<close> of either blocking parser raises
  (a timeout, a closed connection, a protocol error, ...), the buffer position is back where the reply
  started, and the buffer holds its old contents followed by exactly the data received meanwhile.
\<close>

theorem read_response_keeps_bytes:
  assumes "resp2_read_response fuel (sync_parser cls E fl default_push) dd s = Some (Inl e, s')
     \<or> resp3_read_response fuel (sync_parser cls E fl default_push) dd pr s = Some (Inl e, s')"
  shows "bpos s' = bpos s \<and>
     (\<exists>evs. script s = evs @ script s' \<and> buf s' = buf s @ received evs)"
proof -
  obtain m where "with_rewind m s = Some (Inl e, s')" "io_pres sb_kept m"
    using assms resp2_read_kept resp3_read_kept [of default_push, OF default_push_kept]
    unfolding resp2_read_response_def resp3_read_response_def by blast
  from with_rewind_Inl [OF this(2,1)] show ?thesis by (auto simp: sb_kept_def)
qed

theorem read_response_keeps_bytes_witness:
  "\<exists>s'. resp2_read_response 9 (sync_parser EXCEPTION_CLASSES (utf8_encoder False) (\<lambda>_. None) default_push) False
       (sb_init [Recv ''$5'', RecvTimeout, Recv ''tail''] None)
     = Some (Inl (Exc TimeoutError ''Timeout reading from socket''), s') \<and>
     bpos s' = 0 \<and> buf s' = ''$5'' \<and> script s' = [Recv ''tail'']"
proof -
  let ?s = "sb_init [Recv ''$5'', RecvTimeout, Recv ''tail''] None"
  let ?P = "sync_parser EXCEPTION_CLASSES (utf8_encoder False) (\<lambda>_. None) default_push"
  obtain s' where r: "resp2_read_response 9 ?P False ?s
      = Some (Inl (Exc TimeoutError ''Timeout reading from socket''), s')" "script s' = [Recv ''tail'']"
    by (simp add: resp2_read_response_def with_rewind_def resp2_body_def eval_nat_numeral sb_readline_def
        bio_readline_def readline_loop.simps read_from_socket_def sb_init_def ends_with_def SYM_CRLF_def
        io_bind_def rewind_def get_pos_def Let_def)
  have "bpos s' = bpos ?s \<and> (\<exists>evs. script ?s = evs @ script s' \<and> buf s' = buf ?s @ received evs)"
    by (rule read_response_keeps_bytes) (rule disjI1, rule r(1))
  then show ?thesis using r by (auto simp: sb_init_def)
qed

text \<open>
  C4: A reply interrupted by an exception is read by the next call.  If the first \<open>read_response\<close> raised
  after consuming the events \<open>evs\<close>, and the bytes that were unread before it, those delivered by \<open>evs\<close> and
  those still to come spell a reply, then calling \<open>read_response\<close> again gives that reply's value.
\<close>

theorem resp2_resume:
  assumes "resp2_read_response fuel (sync_parser cls E fl h) dd s = Some (Inl e, s')"
    and "sb_inv s" "script s = evs @ script s'"
    and "drop (bpos s) (buf s) @ received evs @ stream (script s') = enc2 r @ rest"
    and "wf2 r" "length (enc2 r) \<le> fuel'"
  shows "delivers sb_view sb_inv (resp2_read_response fuel' (sync_parser cls E fl h) dd) s'
           (val2 (sync_parser cls E fl h) dd r) rest"
proof -
  note k = with_rewind_Inl [OF resp2_read_kept assms(1) [unfolded resp2_read_response_def]]
  from k assms(2) obtain evs' where "script s = evs' @ script s'"
    "sb_view s' = drop (bpos s) (buf s) @ received evs' @ stream (script s')" and inv: "sb_inv s'"
    by (rule sb_kept_view)
  with assms(3,4) have v: "sb_view s' = enc2 r @ rest" by simp
  have "depth2 r \<le> fuel'" using enc2_depth assms(6) by (rule order_trans)
  from sb.resp2_read_reply [OF _ _ assms(5) this inv v, where P = "sync_parser cls E fl h"]
  show ?thesis unfolding resp2_read_response_def by (intro with_rewind_delivers) simp
qed

theorem resp2_resume_witness:
  "\<exists>s'. resp2_read_response 9 (sync_parser EXCEPTION_CLASSES (utf8_encoder False) (\<lambda>_. None) default_push) False
       (sb_init [Recv ''$2'', RecvTimeout, Recv (SYM_CRLF @ ''ok'' @ SYM_CRLF)] None)
     = Some (Inl (Exc TimeoutError ''Timeout reading from socket''), s') \<and>
     delivers sb_view sb_inv
       (resp2_read_response 9 (sync_parser EXCEPTION_CLASSES (utf8_encoder False) (\<lambda>_. None) default_push) False)
       s' (Inr (PBytes ''ok'')) []"
proof -
  let ?s = "sb_init [Recv ''$2'', RecvTimeout, Recv (SYM_CRLF @ ''ok'' @ SYM_CRLF)] None"
  let ?P = "sync_parser EXCEPTION_CLASSES (utf8_encoder False) (\<lambda>_. None) default_push"
  have enc: "enc2 (Bulk2 ''ok'') = ''$2'' @ SYM_CRLF @ ''ok'' @ SYM_CRLF" by code_simp
  obtain s' where r: "resp2_read_response 9 ?P False ?s
      = Some (Inl (Exc TimeoutError ''Timeout reading from socket''), s')"
    "script s' = [Recv (SYM_CRLF @ ''ok'' @ SYM_CRLF)]"
    by (simp add: resp2_read_response_def with_rewind_def resp2_body_def eval_nat_numeral sb_readline_def
        bio_readline_def readline_loop.simps read_from_socket_def sb_init_def ends_with_def SYM_CRLF_def
        io_bind_def rewind_def get_pos_def Let_def)
  have "delivers sb_view sb_inv (resp2_read_response 9 ?P False) s' (val2 ?P False (Bulk2 ''ok'')) []"
  proof (rule resp2_resume [OF r(1)])
    show "script ?s = [Recv ''$2'', RecvTimeout] @ script s'" by (simp add: r(2) sb_init_def)
    show "drop (bpos ?s) (buf ?s) @ received [Recv ''$2'', RecvTimeout] @ stream (script s')
        = enc2 (Bulk2 ''ok'') @ []"
      unfolding r(2) enc by (simp add: sb_init_def SYM_CRLF_def)
    show "length (enc2 (Bulk2 ''ok'')) \<le> 9" unfolding enc by (simp add: SYM_CRLF_def)
  qed (simp_all add: sb_init_def sb_inv_def)
  then show ?thesis using r(1) by (auto simp: decode_reply_def utf8_encoder_def)
qed

end
