(* ===== verification/Pyops.thy ===== *)
theory Pyops
  imports Values
begin

text \<open>
  The operations of Python on values that the reply parsers and the command builders use: subscripts, loops,
  conversions, dictionaries, and the string methods.  Each may raise; the message of an exception that Python
  itself raises is reduced to the name of a type or a key, the class is the one Python raises.

  \<open>float()\<close>, \<open>int()\<close> of a float and \<open>datetime.fromtimestamp\<close> depend on the binary representation of floats and on
  the time zone; they are the fields of \<open>pylib\<close>.
\<close>

type_synonym 'a res = "exc + 'a"

definition res_bind :: "'a res \<Rightarrow> ('a \<Rightarrow> 'b res) \<Rightarrow> 'b res" where
  "res_bind m f = (case m of Inl e \<Rightarrow> Inl e | Inr x \<Rightarrow> f x)"

lemma res_bind_simps [simp]: "res_bind (Inr x) f = f x" "res_bind (Inl e) f = Inl e"
  by (simp_all add: res_bind_def)

lemma res_bind_Inr: "res_bind m f = Inr y \<longleftrightarrow> (\<exists>x. m = Inr x \<and> f x = Inr y)"
  by (cases m) auto

definition res_map :: "('a \<Rightarrow> 'b) \<Rightarrow> 'a res \<Rightarrow> 'b res" where
  "res_map f m = res_bind m (\<lambda>x. Inr (f x))"

lemma res_map_simps [simp]: "res_map f (Inr x) = Inr (f x)" "res_map f (Inl e) = Inl e"
  by (simp_all add: res_map_def)

text \<open>\<open>[f(x) for x in xs]\<close>\<close>

primrec traverse :: "('a \<Rightarrow> 'b res) \<Rightarrow> 'a list \<Rightarrow> 'b list res" where
  "traverse f [] = Inr []"
| "traverse f (x # xs) = res_bind (f x) (\<lambda>y. res_map (Cons y) (traverse f xs))"

lemma traverse_pure: "(\<And>x. x \<in> set xs \<Longrightarrow> f x = Inr (g x)) \<Longrightarrow> traverse f xs = Inr (map g xs)"
  by (induction xs) auto

lemma traverse_cong [fundef_cong]:
  "xs = ys \<Longrightarrow> (\<And>x. x \<in> set ys \<Longrightarrow> f x = g x) \<Longrightarrow> traverse f xs = traverse g ys"
  by (induction ys arbitrary: xs) auto

lemma traverse_length: "traverse f xs = Inr ys \<Longrightarrow> length ys = length xs"
  by (induction xs arbitrary: ys) (auto simp: res_bind_def res_map_def split: sum.splits)

text \<open>A loop that updates a state: \<open>for x in xs: s = f(s, x)\<close>\<close>

primrec res_fold :: "('s \<Rightarrow> 'a \<Rightarrow> 's res) \<Rightarrow> 's \<Rightarrow> 'a list \<Rightarrow> 's res" where
  "res_fold f s [] = Inr s"
| "res_fold f s (x # xs) = res_bind (f s x) (\<lambda>s'. res_fold f s' xs)"

record pylib =
  to_float :: "pyval \<Rightarrow> pyval res"
  trunc_float :: "string \<Rightarrow> int res"
  from_timestamp :: "int \<Rightarrow> pyval res"

section \<open>Errors of the language\<close>

definition type_error :: "pyval \<Rightarrow> exc" where "type_error v = Exc PyTypeError (type_name v)"
definition attr_error :: "pyval \<Rightarrow> exc" where "attr_error v = Exc PyAttributeError (type_name v)"
definition key_error :: "string \<Rightarrow> exc" where "key_error k = Exc PyKeyError k"
definition index_error :: exc where "index_error = Exc PyIndexError ''index out of range''"
definition not_a_number :: exc where "not_a_number = Exc PyValueError ''invalid literal''"
definition unpack_error :: exc where "unpack_error = Exc PyValueError ''unpack''"

section \<open>Loops, subscripts and conversions\<close>

text \<open>What a loop over a value visits; the characters of a string are the well-formed groups of its bytes.\<close>

function utf8_chars :: "bytes \<Rightarrow> bytes list" where
  "utf8_chars [] = []"
| "utf8_chars (b # bs) =
     (let k = (case utf8_conts (of_char b) of None \<Rightarrow> 0 | Some rs \<Rightarrow> length rs)
      in (b # take k bs) # utf8_chars (drop k bs))"
  by pat_completeness auto
termination by (relation "measure length") (auto simp: less_Suc_eq_le)

definition iterate :: "pyval \<Rightarrow> pyval list res" where
  "iterate v =
     (case v of
        PList xs \<Rightarrow> Inr xs
      | PTuple xs \<Rightarrow> Inr xs
      | PSet xs \<Rightarrow> Inr xs
      | PDict d \<Rightarrow> Inr (map fst d)
      | PBytes b \<Rightarrow> Inr (map (\<lambda>c. PInt (of_char c)) b)
      | PMemview b \<Rightarrow> Inr (map (\<lambda>c. PInt (of_char c)) b)
      | PStr s \<Rightarrow> Inr (map PStr (utf8_chars s))
      | _ \<Rightarrow> Inl (type_error v))"

lemma iterate_simps [simp]:
  "iterate (PList xs) = Inr xs" "iterate (PTuple xs) = Inr xs" "iterate (PDict d) = Inr (map fst d)"
  "iterate PNone = Inl (type_error PNone)"
  by (simp_all add: iterate_def)

text \<open>The elements of a value that has positions: slices are taken of these.\<close>

definition elements :: "pyval \<Rightarrow> pyval list res" where
  "elements v =
     (case v of
        PDict _ \<Rightarrow> Inl (type_error v)
      | PSet _ \<Rightarrow> Inl (type_error v)
      | _ \<Rightarrow> iterate v)"

lemma elements_simps [simp]: "elements (PList xs) = Inr xs" "elements (PTuple xs) = Inr xs"
  by (simp_all add: elements_def)

definition nth_item :: "'a list \<Rightarrow> int \<Rightarrow> 'a res" where
  "nth_item xs i =
     (let j = (if i < 0 then i + int (length xs) else i) in
      if 0 \<le> j \<and> j < int (length xs) then Inr (xs ! nat j) else Inl index_error)"

lemma nth_item_nat [simp]:
  "i < length xs \<Longrightarrow> nth_item xs (int i) = Inr (xs ! i)" "nth_item xs 0 = (if xs = [] then Inl index_error else Inr (hd xs))"
  by (auto simp: nth_item_def hd_conv_nth)

text \<open>\<open>v[i]\<close> and \<open>v["key"]\<close>\<close>

definition getitem :: "pyval \<Rightarrow> int \<Rightarrow> pyval res" where
  "getitem v i =
     (case v of
        PDict d \<Rightarrow> (case dict_get d (PInt i) of Some x \<Rightarrow> Inr x | None \<Rightarrow> Inl (key_error (int_repr i)))
      | _ \<Rightarrow> res_bind (elements v) (\<lambda>xs. nth_item xs i))"

lemma getitem_simps [simp]:
  "getitem (PList xs) i = nth_item xs i" "getitem (PTuple xs) i = nth_item xs i"
  by (simp_all add: getitem_def)

definition getkey :: "pyval \<Rightarrow> string \<Rightarrow> pyval res" where
  "getkey v k =
     (case v of
        PDict d \<Rightarrow> (case dict_get d (PStr k) of Some x \<Rightarrow> Inr x | None \<Rightarrow> Inl (key_error k))
      | _ \<Rightarrow> Inl (type_error v))"

text \<open>\<open>a, b = v\<close>\<close>

definition unpack2 :: "pyval \<Rightarrow> (pyval \<times> pyval) res" where
  "unpack2 v = res_bind (iterate v) (\<lambda>xs. case xs of [a, b] \<Rightarrow> Inr (a, b) | _ \<Rightarrow> Inl unpack_error)"

definition py_len :: "pyval \<Rightarrow> nat res" where
  "py_len v = (case v of PNone \<Rightarrow> Inl (type_error v) | _ \<Rightarrow> res_map length (iterate v))"

definition is_list :: "pyval \<Rightarrow> bool" where
  "is_list v = (case v of PList _ \<Rightarrow> True | _ \<Rightarrow> False)"

definition is_text :: "pyval \<Rightarrow> bool" where
  "is_text v = (case v of PStr _ \<Rightarrow> True | PBytes _ \<Rightarrow> True | _ \<Rightarrow> False)"

text \<open>\<open>int(v)\<close>; of a string only with ASCII digits.\<close>

definition to_int :: "pylib \<Rightarrow> pyval \<Rightarrow> int res" where
  "to_int L v =
     (case v of
        PInt n \<Rightarrow> Inr n
      | PBool b \<Rightarrow> Inr (if b then 1 else 0)
      | PStr s \<Rightarrow> (case py_int s of None \<Rightarrow> Inl not_a_number | Some n \<Rightarrow> Inr n)
      | PBytes s \<Rightarrow> (case py_int s of None \<Rightarrow> Inl not_a_number | Some n \<Rightarrow> Inr n)
      | PFloat r \<Rightarrow> trunc_float L r
      | _ \<Rightarrow> Inl (type_error v))"

definition py_int_value :: "pylib \<Rightarrow> pyval \<Rightarrow> pyval res" where
  "py_int_value L v = res_map PInt (to_int L v)"

text \<open>A method call on a value that should be text: bytes have the method, but not for text arguments.\<close>

definition as_str :: "pyval \<Rightarrow> pystr res" where
  "as_str v = (case v of PStr s \<Rightarrow> Inr s | PBytes _ \<Rightarrow> Inl (type_error v) | _ \<Rightarrow> Inl (attr_error v))"

lemma as_str_PStr [simp]: "as_str (PStr s) = Inr s"
  by (simp add: as_str_def)

section \<open>Dictionaries and sets\<close>

definition obj :: "(string \<times> pyval) list \<Rightarrow> pyval" where
  "obj kvs = PDict (map (\<lambda>(k, v). (PStr k, v)) kvs)"

definition set_item :: "(pyval \<times> pyval) list \<Rightarrow> pyval \<times> pyval \<Rightarrow> (pyval \<times> pyval) list res" where
  "set_item d kv = (if hashable (fst kv) then Inr (dict_set d (fst kv) (snd kv)) else Inl (type_error (fst kv)))"

text \<open>\<open>dict(pairs)\<close>\<close>

definition dict_of :: "(pyval \<times> pyval) list \<Rightarrow> (pyval \<times> pyval) list res" where
  "dict_of kvs = res_fold set_item [] kvs"

text \<open>\<open>v.items()\<close>\<close>

definition items_of :: "pyval \<Rightarrow> (pyval \<times> pyval) list res" where
  "items_of v = (case v of PDict d \<Rightarrow> Inr d | _ \<Rightarrow> Inl (attr_error v))"

lemma items_of_PDict [simp]: "items_of (PDict d) = Inr d"
  by (simp add: items_of_def)

definition has_key :: "(pyval \<times> pyval) list \<Rightarrow> string \<Rightarrow> bool" where
  "has_key d k \<longleftrightarrow> dict_get d (PStr k) \<noteq> None"

definition lookup :: "(pyval \<times> pyval) list \<Rightarrow> string \<Rightarrow> pyval res" where
  "lookup d k = (case dict_get d (PStr k) of Some v \<Rightarrow> Inr v | None \<Rightarrow> Inl (key_error k))"

abbreviation put :: "(pyval \<times> pyval) list \<Rightarrow> string \<Rightarrow> pyval \<Rightarrow> (pyval \<times> pyval) list" where
  "put d k v \<equiv> dict_set d (PStr k) v"

text \<open>\<open>set(xs)\<close>\<close>

primrec set_of :: "pyval list \<Rightarrow> pyval list res" where
  "set_of [] = Inr []"
| "set_of (x # xs) =
     (if \<not> hashable x then Inl (type_error x)
      else res_map (\<lambda>ys. x # filter (\<lambda>y. norm_key y \<noteq> norm_key x) ys) (set_of xs))"

text \<open>\<open>zip(it, it)\<close> over one iterator: an odd last element is dropped.\<close>

fun pairs :: "'a list \<Rightarrow> ('a \<times> 'a) list" where
  "pairs (x # y # zs) = (x, y) # pairs zs"
| "pairs _ = []"

section \<open>Strings\<close>

definition contains :: "string \<Rightarrow> string \<Rightarrow> bool" where
  "contains s sub \<longleftrightarrow> bytes_find s sub 0 \<noteq> None"

definition starts_with :: "string \<Rightarrow> string \<Rightarrow> bool" where
  "starts_with s pre \<longleftrightarrow> take (length pre) s = pre"

text \<open>\<open>s.split(sep, 1)\<close> and \<open>s.rsplit(sep, 1)\<close>\<close>

definition split1 :: "string \<Rightarrow> string \<Rightarrow> string list" where
  "split1 sep s =
     (case bytes_find s sep 0 of None \<Rightarrow> [s] | Some i \<Rightarrow> [take i s, drop (i + length sep) s])"

definition rsplit1 :: "char \<Rightarrow> string \<Rightarrow> string list" where
  "rsplit1 c s =
     (if c \<in> set s
      then [rev (tl (dropWhile (\<lambda>x. x \<noteq> c) (rev s))), rev (takeWhile (\<lambda>x. x \<noteq> c) (rev s))]
      else [s])"

definition pair_of :: "string list \<Rightarrow> (string \<times> string) res" where
  "pair_of xs = (case xs of [a, b] \<Rightarrow> Inr (a, b) | _ \<Rightarrow> Inl unpack_error)"

text \<open>\<open>dict(s.split(c) for s in ss)\<close>: each piece must be a pair.\<close>

definition str_dict :: "(string \<Rightarrow> string list) \<Rightarrow> string list \<Rightarrow> (pyval \<times> pyval) list res" where
  "str_dict f ss =
     res_bind (traverse (\<lambda>s. pair_of (f s)) ss) (\<lambda>kvs. dict_of (map (\<lambda>(k, v). (PStr k, PStr v)) kvs))"

text \<open>The length of the line end or of the white space at the front of a string, 0 if there is none: Python splits
  text at Unicode line ends and white space, bytes at ASCII ones.\<close>

definition byte_seq :: "nat list \<Rightarrow> string" where "byte_seq = map char_of"

definition nl_len :: "string \<Rightarrow> nat" where
  "nl_len s =
     (if starts_with s [CR, LF] then 2
      else if s \<noteq> [] \<and> of_char (hd s) \<in> {0x0A, 0x0B, 0x0C, 0x0D, 0x1C, 0x1D, 0x1E :: nat} then 1
      else if starts_with s (byte_seq [0xC2, 0x85]) then 2
      else if starts_with s (byte_seq [0xE2, 0x80, 0xA8]) \<or> starts_with s (byte_seq [0xE2, 0x80, 0xA9]) then 3
      else 0)"

definition bytes_nl_len :: "bytes \<Rightarrow> nat" where
  "bytes_nl_len s = (if starts_with s [CR, LF] then 2 else if s \<noteq> [] \<and> hd s \<in> {CR, LF} then 1 else 0)"

definition ws_len :: "string \<Rightarrow> nat" where
  "ws_len s =
     (if s \<noteq> [] \<and> of_char (hd s) \<in> {0x09, 0x0A, 0x0B, 0x0C, 0x0D, 0x1C, 0x1D, 0x1E, 0x1F, 0x20 :: nat} then 1
      else if list_ex (\<lambda>w. starts_with s (byte_seq w)) [[0xC2, 0x85], [0xC2, 0xA0]] then 2
      else if list_ex (\<lambda>w. starts_with s (byte_seq w))
          ([[0xE1, 0x9A, 0x80], [0xE2, 0x80, 0xA8], [0xE2, 0x80, 0xA9], [0xE2, 0x80, 0xAF], [0xE2, 0x81, 0x9F], [0xE3, 0x80, 0x80]]
           @ map (\<lambda>i. [0xE2, 0x80, 0x80 + i]) [0..<11]) then 3
      else 0)"

function lines_from :: "(string \<Rightarrow> nat) \<Rightarrow> string \<Rightarrow> string \<Rightarrow> string list" where
  "lines_from nl acc [] = (if acc = [] then [] else [acc])"
| "lines_from nl acc (c # cs) =
     (let k = nl (c # cs) in
      if k = 0 then lines_from nl (acc @ [c]) cs else acc # lines_from nl [] (drop (k - 1) cs))"
  by pat_completeness auto
termination by (relation "measure (\<lambda>(_, _, s). length s)") (auto simp: less_Suc_eq_le)

text \<open>\<open>s.splitlines()\<close> of text and of bytes, \<open>s.split()\<close> of text\<close>

definition str_splitlines :: "string \<Rightarrow> string list" where "str_splitlines = lines_from nl_len []"
definition bytes_splitlines :: "bytes \<Rightarrow> bytes list" where "bytes_splitlines = lines_from bytes_nl_len []"
definition str_words :: "string \<Rightarrow> string list" where
  "str_words s = filter (\<lambda>w. w \<noteq> []) (lines_from ws_len [] s)"

fun join :: "string \<Rightarrow> string list \<Rightarrow> string" where
  "join sep [] = []"
| "join sep [s] = s"
| "join sep (s # ss) = s @ sep @ join sep ss"

section \<open>Facts\<close>

lemma pairs_concat [simp]: "pairs (concat (map (\<lambda>(k, v). [k, v]) kvs)) = kvs"
  by (induction kvs) auto

lemma length_pairs: "length (pairs xs) = length xs div 2"
  by (induction xs rule: pairs.induct) auto

lemma dict_set_new: "\<forall>kv\<in>set d. norm_key (fst kv) \<noteq> norm_key k \<Longrightarrow> dict_set d k v = d @ [(k, v)]"
  by (induction d k v rule: dict_set.induct) auto

text \<open>A dictionary as Python can hold it: hashable keys, no two of them the same.\<close>

definition wf_dict :: "(pyval \<times> pyval) list \<Rightarrow> bool" where
  "wf_dict d \<longleftrightarrow> list_all (\<lambda>kv. hashable (fst kv)) d \<and> distinct (map (norm_key o fst) d)"

lemma dict_of_from:
  "wf_dict (d @ kvs) \<Longrightarrow> res_fold set_item d kvs = Inr (d @ kvs)"
proof (induction kvs arbitrary: d)
  case (Cons kv kvs)
  have new: "\<forall>x\<in>set d. norm_key (fst x) \<noteq> norm_key (fst kv)" using Cons.prems by (auto simp: wf_dict_def image_iff)
  have "set_item d kv = Inr (d @ [kv])"
    using Cons.prems dict_set_new [OF new, of "snd kv"] by (cases kv) (simp add: set_item_def wf_dict_def)
  then show ?case using Cons.IH [of "d @ [kv]"] Cons.prems by simp
qed simp

lemma dict_of_wf: "wf_dict kvs \<Longrightarrow> dict_of kvs = Inr kvs"
  using dict_of_from [of "[]" kvs] by (simp add: dict_of_def)

lemma norm_key_dict_set:
  "map (norm_key o fst) (dict_set d k v) =
     (if norm_key k \<in> norm_key ` fst ` set d then map (norm_key o fst) d else map (norm_key o fst) d @ [norm_key k])"
  by (induction d k v rule: dict_set.induct) (auto simp: image_iff)

lemma wf_dict_set: "wf_dict d \<Longrightarrow> hashable k \<Longrightarrow> wf_dict (dict_set d k v)"
proof -
  assume d: "wf_dict d" "hashable k"
  have "list_all (\<lambda>kv. hashable (fst kv)) (dict_set d k v)"
    using d by (induction d k v rule: dict_set.induct) (auto simp: wf_dict_def)
  then show ?thesis using d by (auto simp: wf_dict_def norm_key_dict_set image_iff)
qed

lemma dict_of_inv: "dict_of kvs = Inr d \<Longrightarrow> wf_dict d"
proof -
  have "wf_dict d0 \<Longrightarrow> res_fold set_item d0 kvs = Inr d \<Longrightarrow> wf_dict d" for d0
  proof (induction kvs arbitrary: d0)
    case (Cons kv kvs)
    then show ?case using wf_dict_set [OF Cons.prems(1), of "fst kv" "snd kv"] by (cases "hashable (fst kv)") (auto simp: set_item_def)
  qed simp
  from this [of "[]"] show "dict_of kvs = Inr d \<Longrightarrow> wf_dict d" by (simp add: dict_of_def wf_dict_def)
qed

end
