(* ===== verification/Resp_Types.thy ===== *)
theory Resp_Types
  imports Resp_Spec Pyops
begin

text \<open>
  The Python types of replies: what \<open>read_response\<close> of the parsers can return, whatever the server sends.  \<open>yields\<close> says that
  every value a statement returns has a property.
\<close>

definition yields :: "('s, 'a) io \<Rightarrow> ('a \<Rightarrow> bool) \<Rightarrow> bool" where
  "yields m Q \<longleftrightarrow> (\<forall>s x s'. m s = Some (Inr x, s') \<longrightarrow> Q x)"

named_theorems yields_intros \<open>rules for the values a statement returns\<close>

lemma yieldsD: "yields m Q \<Longrightarrow> m s = Some (Inr x, s') \<Longrightarrow> Q x"
  by (auto simp: yields_def)

lemma yields_weaken: "yields m Q \<Longrightarrow> (\<And>x. Q x \<Longrightarrow> R x) \<Longrightarrow> yields m R"
  unfolding yields_def by blast

lemma yields_bind: "yields m R \<Longrightarrow> (\<And>x. R x \<Longrightarrow> yields (f x) Q) \<Longrightarrow> yields (io_bind m f) Q"
  unfolding yields_def by (blast elim!: io_bind_SomeE)

lemma yields_any: "(\<And>x. yields (f x) Q) \<Longrightarrow> yields (io_bind m f) Q"
  by (rule yields_bind [where R = "\<lambda>_. True"]) (simp_all add: yields_def)

lemma yields_ret [yields_intros]: "Q x \<Longrightarrow> yields (io_ret x) Q"
  by (auto simp: yields_def io_defs)

lemma yields_raise [yields_intros]: "yields (io_raise e) Q"
  by (auto simp: yields_def io_defs)

lemma yields_none [yields_intros]: "yields (\<lambda>_. None) Q"
  by (simp add: yields_def)

lemma yields_lift: "(\<And>x. r = Inr x \<Longrightarrow> Q x) \<Longrightarrow> yields (io_lift r) Q"
  by (auto simp: yields_def io_defs)

lemma yields_replicate: "yields m Q \<Longrightarrow> yields (io_replicate k m) (list_all Q)"
proof (induction k)
  case (Suc k)
  show ?case unfolding io_replicate.simps
    by (rule yields_bind [OF Suc.prems], rule yields_bind [OF Suc.IH [OF Suc.prems]], rule yields_ret) simp
qed (simp add: yields_ret)

section \<open>Types\<close>

text \<open>\<open>text\<close>: replies are decoded, so no bytes are left in them; otherwise no text is.\<close>

fun reply_type2 :: "bool \<Rightarrow> pyval \<Rightarrow> bool" where
  "reply_type2 text (PBytes b) \<longleftrightarrow> \<not> text"
| "reply_type2 text (PStr t) \<longleftrightarrow> text"
| "reply_type2 text (PInt n) \<longleftrightarrow> True"
| "reply_type2 text PNone \<longleftrightarrow> True"
| "reply_type2 text (PExc e) \<longleftrightarrow> \<not> is_exc e ConnectionError"
| "reply_type2 text (PList vs) \<longleftrightarrow> (\<forall>v \<in> set vs. reply_type2 text v)"
| "reply_type2 text _ \<longleftrightarrow> False"

fun reply_type3 :: "bool \<Rightarrow> pyval \<Rightarrow> bool" where
  "reply_type3 text (PBytes b) \<longleftrightarrow> \<not> text"
| "reply_type3 text (PStr t) \<longleftrightarrow> text"
| "reply_type3 text (PInt n) \<longleftrightarrow> True"
| "reply_type3 text (PFloat r) \<longleftrightarrow> True"
| "reply_type3 text (PBool b) \<longleftrightarrow> True"
| "reply_type3 text PNone \<longleftrightarrow> True"
| "reply_type3 text (PExc e) \<longleftrightarrow> \<not> is_exc e ConnectionError"
| "reply_type3 text (PList vs) \<longleftrightarrow> (\<forall>v \<in> set vs. reply_type3 text v)"
| "reply_type3 text (PDict d) \<longleftrightarrow> wf_dict d \<and> (\<forall>kv \<in> set d. reply_type3 text (fst kv) \<and> reply_type3 text (snd kv))"
| "reply_type3 text _ \<longleftrightarrow> False"

definition decoding :: "'s parser \<Rightarrow> bool \<Rightarrow> bool" where
  "decoding P dd \<longleftrightarrow> decode_responses (p_encoder P) \<and> \<not> dd"

lemma yields_error_reply: "yields (error_reply P b) (\<lambda>v. \<exists>e. v = PExc e \<and> \<not> is_exc e ConnectionError)"
  unfolding error_reply_def by (rule yields_any) (auto simp: yields_def io_defs split: if_splits)

lemma decode_reply_bytes:
  "decode_reply P dd (PBytes b) = Inr v \<Longrightarrow> if decoding P dd then \<exists>t. v = PStr t else v = PBytes b"
  by (cases "decode_bytes (p_encoder P) b") (auto simp: decode_reply_def decoding_def split: if_splits)

lemma yields_decoded:
  "yields (io_lift (decode_reply P dd (PBytes b))) (reply_type2 (decoding P dd))"
  "yields (io_lift (decode_reply P dd (PBytes b))) (reply_type3 (decoding P dd))"
  by (rule yields_lift, drule decode_reply_bytes, auto split: if_splits)+

lemma resp2_read_type: "yields (resp2_read f P dd) (reply_type2 (decoding P dd))"
proof (induction f)
  case (Suc f)
  have list: "yields (io_bind (io_replicate k (resp2_read f P dd)) (\<lambda>xs. io_lift (decode_reply P dd (PList xs)))) (reply_type2 (decoding P dd))" for k
    by (rule yields_bind [OF yields_replicate [OF Suc]], rule yields_lift) (auto simp: decode_reply_def list_all_iff split: if_splits)
  have err: "yields (error_reply P b) (reply_type2 (decoding P dd))" for b
    by (rule yields_weaken [OF yields_error_reply]) auto
  show ?case unfolding resp2_read.simps resp2_body_def Let_def
    by (intro yields_any) (auto intro!: yields_any yields_intros yields_decoded list err)
qed (simp add: yields_none)

lemma dict_set_mem: "kv \<in> set (dict_set d k v) \<Longrightarrow> kv \<in> set d \<or> kv = (k, v) \<or> (\<exists>w. (fst kv, w) \<in> set d \<and> snd kv = v)"
  by (induction d k v rule: dict_set.induct) (auto split: if_splits)

lemma yields_read_map:
  assumes "yields mk Q" "yields mv Q"
  shows "wf_dict d \<Longrightarrow> (\<forall>kv \<in> set d. Q (fst kv) \<and> Q (snd kv)) \<Longrightarrow>
    yields (io_read_map n mk mv d) (\<lambda>d. wf_dict d \<and> (\<forall>kv \<in> set d. Q (fst kv) \<and> Q (snd kv)))"
proof (induction n arbitrary: d)
  case (Suc n)
  have "yields (if hashable key then io_read_map n mk mv (dict_set d key v) else io_raise (unhashable key))
      (\<lambda>d. wf_dict d \<and> (\<forall>kv \<in> set d. Q (fst kv) \<and> Q (snd kv)))" if "Q key" "Q v" for key v
  proof (cases "hashable key")
    case True
    have "\<forall>kv \<in> set (dict_set d key v). Q (fst kv) \<and> Q (snd kv)"
      using dict_set_mem [of _ d key v] Suc.prems(2) that by fastforce
    then show ?thesis using True Suc.IH [OF wf_dict_set [OF Suc.prems(1) True]] by simp
  qed (simp add: yields_raise)
  then show ?case unfolding io_read_map.simps by (blast intro: yields_bind [OF assms(1)] yields_bind [OF assms(2)])
qed (simp add: yields_ret)

lemma resp3_read_type: "yields (resp3_read f P dd False) (reply_type3 (decoding P dd))"
proof (induction f)
  case (Suc f)
  have list: "yields (io_bind (io_replicate k (resp3_read f P dd False)) (\<lambda>xs. io_ret (PList xs))) (reply_type3 (decoding P dd))" for k
    by (rule yields_bind [OF yields_replicate [OF Suc]], rule yields_ret) (simp add: list_all_iff)
  have map: "yields (io_bind (io_read_map k (resp3_read f P dd False) (resp3_read f P dd False) []) (\<lambda>d. io_ret (PDict d))) (reply_type3 (decoding P dd))" for k
    by (rule yields_bind [OF yields_read_map [OF Suc Suc]], simp_all add: wf_dict_def yields_ret)
  have err: "yields (error_reply P b) (reply_type3 (decoding P dd))" for b
    by (rule yields_weaken [OF yields_error_reply]) auto
  have float: "yields (io_lift (float_reply P b)) (reply_type3 (decoding P dd))" for b
    by (rule yields_lift) (auto simp: float_reply_def split: option.splits)
  show ?case unfolding resp3_read.simps resp3_body_def Let_def
    by (intro yields_any) (auto intro!: yields_any yields_intros yields_decoded list map err float Suc)
qed (simp add: yields_none)

text \<open>
  C24: the types of replies.  Whatever bytes the server sends, a value that \<open>read_response\<close> returns has one of the types of its protocol.  With
  RESP2: text, integers, \<open>None\<close>, error objects, and lists of these; RESP3 adds floats, booleans and dictionaries, whose keys are
  hashable and distinct.  Text is \<open>str\<close> throughout when replies are decoded and \<open>bytes\<close> throughout when they are not; an error object is
  never a connection error, which is raised instead.
\<close>

theorem read_response_types:
  "(resp2_read_response f P dd s = Some (Inr v, s') \<longrightarrow> reply_type2 (decoding P dd) v) \<and>
   (resp3_read_response f P dd False s = Some (Inr v, s') \<longrightarrow> reply_type3 (decoding P dd) v)"
proof -
  have rewound: "\<exists>t. body s = Some (Inr v, t)" if "with_rewind body s = Some (Inr v, s')" for body and s :: sockbuf and v s'
    using that by (auto simp: with_rewind_def Let_def split: option.splits sum.splits)
  show ?thesis using rewound yieldsD [OF resp2_read_type] yieldsD [OF resp3_read_type]
    unfolding resp2_read_response_def resp3_read_response_def by metis
qed

theorem read_response_types_witness:
  "let P = sync_parser EXCEPTION_CLASSES (utf8_encoder False) (\<lambda>_. None) default_push in
   \<exists>v s' w t'. resp2_read_response 3 P False (sb_init [Recv (''*1'' @ SYM_CRLF @ ''+a'' @ SYM_CRLF)] None) = Some (Inr v, s') \<and>
     resp3_read_response 3 P False False (sb_init [Recv (''*1'' @ SYM_CRLF @ ''_'' @ SYM_CRLF)] None) = Some (Inr w, t') \<and>
     reply_type2 False v \<and> reply_type3 False w"
proof -
  let ?P = "sync_parser EXCEPTION_CLASSES (utf8_encoder False) (\<lambda>_. None) default_push"
  let ?s = "sb_init [Recv (''*1'' @ SYM_CRLF @ ''+a'' @ SYM_CRLF)] None" and ?t = "sb_init [Recv (''*1'' @ SYM_CRLF @ ''_'' @ SYM_CRLF)] None"
  have "map_option fst (resp2_read_response 3 ?P False ?s) = Some (Inr (PList [PBytes ''a'']))"
    "map_option fst (resp3_read_response 3 ?P False False ?t) = Some (Inr (PList [PNone]))"
    by code_simp+
  then obtain s' t' where "resp2_read_response 3 ?P False ?s = Some (Inr (PList [PBytes ''a'']), s')"
    "resp3_read_response 3 ?P False False ?t = Some (Inr (PList [PNone]), t')" by auto
  moreover have "\<not> decoding ?P False" by (simp add: decoding_def utf8_encoder_def)
  ultimately show ?thesis using read_response_types [of 3 ?P False ?s _ s'] read_response_types [of 3 ?P False ?t _ t'] unfolding Let_def by fastforce
qed

end
