(* ===== verification/Serializer.thy ===== *)
theory Serializer
  imports Resp_Spec
begin

text \<open>
  Packing commands for the wire: \<open>PythonRespSerializer.pack\<close> and \<open>AbstractConnection.pack_commands\<close> of
  \<open>redis/connection.py\<close>.  A packed command is a list of chunks (\<open>bytes\<close> or \<open>memoryview\<close> objects) that
  are sent one after the other.
\<close>

definition SYM_STAR :: bytes where "SYM_STAR = ''*''"
definition SYM_DOLLAR :: bytes where "SYM_DOLLAR = ''$''"

text \<open>The first argument may hold several words, e.g. \<open>"CONFIG GET"\<close>: it is split at white space.  On a
  first argument that is neither text nor bytes-like, \<open>b" " in args[0]\<close> raises.\<close>

definition split_command :: "pyval list \<Rightarrow> exc + pyval list" where
  "split_command args =
     (case args of
        [] \<Rightarrow> Inl (Exc PyIndexError ''tuple index out of range'')
      | PStr s # rest \<Rightarrow> Inr (map PBytes (split_ws s) @ rest)
      | PBytes b # rest \<Rightarrow>
          Inr (if CHR '' '' \<in> set b then map PBytes (split_ws b) @ rest else PBytes b # rest)
      | PMemview b # rest \<Rightarrow> Inr (PMemview b # rest)
      | a # _ \<Rightarrow> Inl (Exc PyTypeError (''argument of type '' @ [CHR 0x27] @ type_name a @ [CHR 0x27] @
                     '' is not iterable'')))"

text \<open>One encoded argument: appended to the buffer, or sent as a chunk of its own when the buffer or the
  argument is beyond the cutoff or the argument is a \<open>memoryview\<close>.\<close>

definition pack_arg :: "nat \<Rightarrow> pyval list \<times> bytes \<Rightarrow> pyval \<Rightarrow> pyval list \<times> bytes" where
  "pack_arg buffer_cutoff st arg =
     (let (output, buff) = st; arg_length = length (raw_bytes arg) in
      if length buff > buffer_cutoff \<or> arg_length > buffer_cutoff \<or> is_memview arg
      then (output @ [PBytes (buff @ SYM_DOLLAR @ nat_repr arg_length @ SYM_CRLF), arg], SYM_CRLF)
      else (output, buff @ SYM_DOLLAR @ nat_repr arg_length @ SYM_CRLF @ raw_bytes arg @ SYM_CRLF))"

text \<open>\<open>map(self.encode, args)\<close> is consumed by the loop; an argument that cannot be encoded ends \<open>pack\<close>
  with \<open>DataError\<close>.\<close>

fun pack_loop :: "encoder \<Rightarrow> nat \<Rightarrow> pyval list \<times> bytes \<Rightarrow> pyval list \<Rightarrow> exc + pyval list \<times> bytes" where
  "pack_loop E cutoff st [] = Inr st"
| "pack_loop E cutoff st (a # args) =
     (case encode E a of Inl e \<Rightarrow> Inl e | Inr arg \<Rightarrow> pack_loop E cutoff (pack_arg cutoff st arg) args)"

definition pack :: "encoder \<Rightarrow> nat \<Rightarrow> pyval list \<Rightarrow> exc + pyval list" where
  "pack E buffer_cutoff args =
     (case split_command args of
        Inl e \<Rightarrow> Inl e
      | Inr args' \<Rightarrow>
          (case pack_loop E buffer_cutoff ([], SYM_STAR @ nat_repr (length args') @ SYM_CRLF) args' of
             Inl e \<Rightarrow> Inl e
           | Inr (output, buff) \<Rightarrow> Inr (output @ [PBytes buff])))"

section \<open>Several commands\<close>

definition joined :: "pyval list \<Rightarrow> pyval" where
  "joined pieces = PBytes (concat (map raw_bytes pieces))"

text \<open>The state of the loop of \<open>pack_commands\<close>: output, pieces, buffer length.\<close>

definition pack_chunk :: "nat \<Rightarrow> pyval list \<times> pyval list \<times> nat \<Rightarrow> pyval \<Rightarrow> pyval list \<times> pyval list \<times> nat" where
  "pack_chunk buffer_cutoff st chunk =
     (let (output, pieces, buffer_length) = st;
          chunklen = length (raw_bytes chunk);
          (output, pieces, buffer_length) =
            (if buffer_length > buffer_cutoff \<or> chunklen > buffer_cutoff \<or> is_memview chunk
             then (if pieces \<noteq> [] then output @ [joined pieces] else output, [], 0)
             else (output, pieces, buffer_length))
      in if chunklen > buffer_cutoff \<or> is_memview chunk then (output @ [chunk], pieces, buffer_length)
         else (output, pieces @ [chunk], buffer_length + chunklen))"

fun pack_commands_loop :: "encoder \<Rightarrow> nat \<Rightarrow> pyval list \<times> pyval list \<times> nat \<Rightarrow> pyval list list \<Rightarrow>
    exc + pyval list \<times> pyval list \<times> nat" where
  "pack_commands_loop E cutoff st [] = Inr st"
| "pack_commands_loop E cutoff st (cmd # cmds) =
     (case pack E cutoff cmd of
        Inl e \<Rightarrow> Inl e
      | Inr chunks \<Rightarrow> pack_commands_loop E cutoff (foldl (pack_chunk cutoff) st chunks) cmds)"

definition pack_commands :: "encoder \<Rightarrow> nat \<Rightarrow> pyval list list \<Rightarrow> exc + pyval list" where
  "pack_commands E buffer_cutoff commands =
     (case pack_commands_loop E buffer_cutoff ([], [], 0) commands of
        Inl e \<Rightarrow> Inl e
      | Inr (output, pieces, _) \<Rightarrow> Inr (if pieces \<noteq> [] then output @ [joined pieces] else output))"

section \<open>The bytes on the wire\<close>

definition wire :: "pyval list \<Rightarrow> bytes" where
  "wire chunks = concat (map raw_bytes chunks)"

text \<open>The arguments as the server is to receive them: split, then encoded.\<close>

definition sent_args :: "encoder \<Rightarrow> pyval list \<Rightarrow> exc + bytes list" where
  "sent_args E args =
     (case split_command args of
        Inl e \<Rightarrow> Inl e
      | Inr args' \<Rightarrow> map_sum id (map raw_bytes) (seq_results (map (encode E) args')))"

definition command_reply :: "bytes list \<Rightarrow> reply2" where
  "command_reply bs = Array2 (map Bulk2 bs)"

lemma wire_append [simp]: "wire (a @ b) = wire a @ wire b" and wire_Nil [simp]: "wire [] = []"
  and wire_Cons [simp]: "wire (x # xs) = raw_bytes x @ wire xs"
  by (simp_all add: wire_def)

lemma pack_arg_wire:
  "wire (fst (pack_arg c st a)) @ snd (pack_arg c st a) = wire (fst st) @ snd st @ enc2 (Bulk2 (raw_bytes a))"
  by (cases st) (simp add: pack_arg_def Let_def SYM_DOLLAR_def)

lemma pack_loop_wire:
  "(case pack_loop E c st args of Inl e \<Rightarrow> Inl e | Inr st' \<Rightarrow> Inr (wire (fst st') @ snd st')) =
   (case seq_results (map (encode E) args) of Inl e \<Rightarrow> Inl e
    | Inr bs \<Rightarrow> Inr (wire (fst st) @ snd st @ concat (map (\<lambda>b. enc2 (Bulk2 (raw_bytes b))) bs)))"
proof (induction args arbitrary: st)
  case (Cons a args)
  show ?case
  proof (cases "encode E a")
    case (Inr b)
    have "wire (fst (pack_arg c st b)) @ snd (pack_arg c st b) @ t
        = wire (fst st) @ snd st @ enc2 (Bulk2 (raw_bytes b)) @ t" for t
      using arg_cong [OF pack_arg_wire [of c st b], of "\<lambda>x. x @ t"] by simp
    then show ?thesis using Cons.IH [of "pack_arg c st b"] Inr
      by (auto split: sum.splits simp del: enc2.simps)
  qed simp
qed simp

text \<open>Whatever the cutoff, the chunks spell the same bytes: an array of bulk strings.\<close>

lemma pack_wire: "map_sum id wire (pack E c args) = map_sum id (enc2 \<circ> command_reply) (sent_args E args)"
proof (cases "split_command args")
  case (Inr as)
  have len: "seq_results (map (encode E) as) = Inr bs \<Longrightarrow> length bs = length as" for bs
  proof (induction as arbitrary: bs)
    case (Cons a as)
    then show ?case by (cases "encode E a") (auto split: sum.splits)
  qed simp
  have map_enc: "map (enc2 \<circ> (Bulk2 \<circ> raw_bytes)) bs = map (\<lambda>b. enc2 (Bulk2 (raw_bytes b))) bs" for bs
    by (simp add: comp_def)
  show ?thesis
    using Inr pack_loop_wire [of E c "([], SYM_STAR @ nat_repr (length as) @ SYM_CRLF)" as] len
    by (auto simp: pack_def sent_args_def command_reply_def SYM_STAR_def comp_def map_enc
        simp del: enc2.simps(4) split: sum.splits prod.splits)
qed (simp add: pack_def sent_args_def)

lemma wf_command_reply [simp]: "wf2 (command_reply bs)"
  by (simp add: command_reply_def list_all_iff)

lemma command_reply_val:
  "decode_responses (p_encoder P) = False \<Longrightarrow> val2 P dd (command_reply bs) = Inr (PList (map PBytes bs))"
proof -
  assume "decode_responses (p_encoder P) = False"
  then have "seq_results (map (val2 P dd \<circ> Bulk2) bs) = Inr (map PBytes bs)"
    by (cases dd; induction bs) (simp_all add: decode_reply_def)
  then show ?thesis by (simp add: command_reply_def)
qed

section \<open>Pipelines\<close>

definition pending_wire :: "pyval list \<times> pyval list \<times> nat \<Rightarrow> bytes" where
  "pending_wire st = wire (fst st) @ wire (fst (snd st))"

lemma wire_joined [simp]: "raw_bytes (joined ps) = wire ps"
  by (simp add: joined_def wire_def)

lemma pack_chunk_wire: "pending_wire (pack_chunk c st x) = pending_wire st @ raw_bytes x"
  by (cases st) (auto simp: pack_chunk_def pending_wire_def Let_def)

lemma foldl_pack_chunk_wire: "pending_wire (foldl (pack_chunk c) st xs) = pending_wire st @ wire xs"
  by (induction xs arbitrary: st) (simp_all add: pack_chunk_wire)

text \<open>The loop keeps: the buffer length is the length of the pieces and at most twice the cutoff, and every
  output element is one of the given chunks or at most twice the cutoff long.\<close>

definition pack_state_ok :: "nat \<Rightarrow> pyval set \<Rightarrow> pyval list \<times> pyval list \<times> nat \<Rightarrow> bool" where
  "pack_state_ok c C st \<longleftrightarrow>
     (case st of (output, pieces, n) \<Rightarrow>
        n = length (wire pieces) \<and> n \<le> 2 * c \<and> (\<forall>x\<in>set output. x \<in> C \<or> length (raw_bytes x) \<le> 2 * c))"

lemma pack_chunk_ok: "pack_state_ok c C st \<Longrightarrow> x \<in> C \<Longrightarrow> pack_state_ok c C (pack_chunk c st x)"
  by (cases st) (auto simp: pack_state_ok_def pack_chunk_def Let_def)

lemma foldl_pack_chunk_ok:
  "pack_state_ok c C st \<Longrightarrow> set xs \<subseteq> C \<Longrightarrow> pack_state_ok c C (foldl (pack_chunk c) st xs)"
proof (induction xs arbitrary: st)
  case (Cons x xs)
  then show ?case using Cons.IH [of "pack_chunk c st x"] by (simp add: pack_chunk_ok)
qed simp

lemma pack_commands_loop_ok:
  assumes "pack_state_ok c C st" "pack_commands_loop E c st cmds = Inr st'"
    and "seq_results (map (pack E c) cmds) = Inr css" "set (concat css) \<subseteq> C"
  shows "pack_state_ok c C st'"
  using assms
proof (induction cmds arbitrary: st css)
  case (Cons cmd cmds)
  from Cons.prems(3) obtain cs css' where cs: "pack E c cmd = Inr cs" "css = cs # css'"
    "seq_results (map (pack E c) cmds) = Inr css'"
    by (cases "pack E c cmd") (auto split: sum.splits)
  then show ?case
    using Cons.IH [of "foldl (pack_chunk c) st cs" css'] Cons.prems foldl_pack_chunk_ok by simp
qed simp

lemma pack_commands_loop_wire:
  "(case pack_commands_loop E c st cmds of Inl e \<Rightarrow> Inl e | Inr st' \<Rightarrow> Inr (pending_wire st')) =
   (case seq_results (map (pack E c) cmds) of Inl e \<Rightarrow> Inl e
    | Inr css \<Rightarrow> Inr (pending_wire st @ concat (map wire css)))"
proof (induction cmds arbitrary: st)
  case (Cons cmd cmds)
  show ?case
  proof (cases "pack E c cmd")
    case (Inr chunks)
    then show ?thesis using Cons.IH [of "foldl (pack_chunk c) st chunks"]
      by (auto simp: foldl_pack_chunk_wire split: sum.splits)
  qed simp
qed simp

section \<open>Properties\<close>

text \<open>
  C5: What is packed is what the server reads.  For every command that \<open>pack\<close> accepts, and whatever the
  buffer cutoff, a RESP reader fed the packed chunks returns exactly the list of encoded arguments (the
  first one split at white space), and nothing of what follows is consumed.
\<close>

theorem pack_roundtrip:
  assumes "pack E c args = Inr chunks" "sb_inv s" "sb_view s = wire chunks @ rest"
    and "length (wire chunks) \<le> fuel"
  shows "\<exists>bs. sent_args E args = Inr bs \<and>
     delivers sb_view sb_inv (resp2_read_response fuel (sync_parser cls (utf8_encoder False) fl h) dd) s
       (Inr (PList (map PBytes bs))) rest"
proof -
  let ?P = "sync_parser cls (utf8_encoder False) fl h"
  obtain bs where bs: "sent_args E args = Inr bs" "wire chunks = enc2 (command_reply bs)"
    using pack_wire [of E c args] assms(1) by (cases "sent_args E args") auto
  have "depth2 (command_reply bs) \<le> fuel"
    using enc2_depth [of "command_reply bs"] assms(4) bs(2) by simp
  from sb.resp2_read_reply [OF _ _ wf_command_reply this assms(2), where P = ?P and dd = dd and rest = rest]
  have "delivers sb_view sb_inv (resp2_read fuel ?P dd) s (val2 ?P dd (command_reply bs)) rest"
    using assms(3) bs(2) by simp
  then show ?thesis
    using bs(1) with_rewind_delivers command_reply_val [of ?P dd bs]
    by (auto simp: resp2_read_response_def utf8_encoder_def)
qed

theorem pack_roundtrip_witness:
  "\<exists>bs. sent_args (utf8_encoder False) [PStr ''CONFIG GET'', PInt 12] = Inr bs \<and>
     delivers sb_view sb_inv
       (resp2_read_response 40 (sync_parser EXCEPTION_CLASSES (utf8_encoder False) (\<lambda>_. None) default_push) False)
       (sb_init [Recv (''*3'' @ SYM_CRLF @ ''$6'' @ SYM_CRLF), Recv ''CONFIG'',
          Recv (SYM_CRLF @ ''$3'' @ SYM_CRLF @ ''GET'' @ SYM_CRLF @ ''$2'' @ SYM_CRLF @ ''12'' @ SYM_CRLF)] None)
       (Inr (PList (map PBytes bs))) []"
proof -
  have p: "pack (utf8_encoder False) 5 [PStr ''CONFIG GET'', PInt 12] =
     Inr [PBytes (''*3'' @ SYM_CRLF @ ''$6'' @ SYM_CRLF), PBytes ''CONFIG'',
          PBytes (SYM_CRLF @ ''$3'' @ SYM_CRLF @ ''GET'' @ SYM_CRLF @ ''$2'' @ SYM_CRLF), PBytes ''12'',
          PBytes SYM_CRLF]"
    by code_simp
  show ?thesis
    by (rule pack_roundtrip [OF p]) (simp_all add: sb_init_def sb_inv_def sb_view_def SYM_CRLF_def)
qed

text \<open>
  C6: A pipeline is sent in order and in bounded pieces.  \<open>pack_commands\<close> spells exactly the packed
  commands one after the other, and every element it sends is either one of their chunks unchanged or a
  joined piece of at most twice the buffer cutoff.
\<close>

theorem pack_commands_wire:
  assumes "pack_commands E c cmds = Inr out"
  shows "\<exists>css. seq_results (map (pack E c) cmds) = Inr css \<and> wire out = concat (map wire css) \<and>
     (\<forall>x\<in>set out. x \<in> set (concat css) \<or> length (raw_bytes x) \<le> 2 * c)"
proof -
  obtain outp pieces n where st: "pack_commands_loop E c ([], [], 0) cmds = Inr (outp, pieces, n)"
    "out = (if pieces \<noteq> [] then outp @ [joined pieces] else outp)"
    using assms by (auto simp: pack_commands_def split: sum.splits)
  obtain css where css: "seq_results (map (pack E c) cmds) = Inr css"
    "pending_wire (outp, pieces, n) = concat (map wire css)"
    using pack_commands_loop_wire [of E c "([], [], 0)" cmds] st(1)
    by (auto simp: pending_wire_def split: sum.splits)
  have "pack_state_ok c (set (concat css)) (outp, pieces, n)"
    by (rule pack_commands_loop_ok [OF _ st(1) css(1)]) (simp_all add: pack_state_ok_def)
  then have "\<forall>x\<in>set out. x \<in> set (concat css) \<or> length (raw_bytes x) \<le> 2 * c"
    using st(2) by (auto simp: pack_state_ok_def)
  moreover have "wire out = concat (map wire css)"
    using css(2) st(2) by (auto simp: pending_wire_def)
  ultimately show ?thesis using css(1) by blast
qed

theorem pack_commands_wire_witness:
  "\<exists>css. seq_results (map (pack (utf8_encoder False) 6000) [[PStr ''GET'', PStr ''a''], [PStr ''PING'']]) = Inr css \<and>
     wire [PBytes (''*2'' @ SYM_CRLF @ ''$3'' @ SYM_CRLF @ ''GET'' @ SYM_CRLF @ ''$1'' @ SYM_CRLF @ ''a'' @ SYM_CRLF @
        ''*1'' @ SYM_CRLF @ ''$4'' @ SYM_CRLF @ ''PING'' @ SYM_CRLF)] = concat (map wire css)"
proof -
  have "pack_commands (utf8_encoder False) 6000 [[PStr ''GET'', PStr ''a''], [PStr ''PING'']] =
     Inr [PBytes (''*2'' @ SYM_CRLF @ ''$3'' @ SYM_CRLF @ ''GET'' @ SYM_CRLF @ ''$1'' @ SYM_CRLF @ ''a'' @ SYM_CRLF @
        ''*1'' @ SYM_CRLF @ ''$4'' @ SYM_CRLF @ ''PING'' @ SYM_CRLF)]"
    by code_simp
  from pack_commands_wire [OF this] show ?thesis by blast
qed

end
