(* ===== verification/Retry.thy ===== *)
theory Retry
  imports Complex_Main Byte_Source
begin

text \<open>
  Retrying: the backoff strategies of \<open>redis/backoff.py\<close> and \<open>Retry\<close> of \<open>redis/retry.py\<close>.

  Times are rational numbers of seconds: the rounding of \<open>float\<close> is not modelled.  \<open>random.random()\<close> is a
  parameter, an operation on the state that returns a number; that it lies between 0 and 1 is a hypothesis where
  it matters.  The operation that is retried, the failure handler and \<open>sleep\<close> are parameters too, as in
  \<open>call_with_retry(do, fail)\<close>.
\<close>

section \<open>Backoff strategies\<close>

definition DEFAULT_CAP :: rat where "DEFAULT_CAP = 512 / 1000"

definition DEFAULT_BASE :: rat where "DEFAULT_BASE = 8 / 1000"

datatype backoff =
    ConstantBackoff rat
  | ExponentialBackoff (cap: rat) (base: rat)
  | FullJitterBackoff (cap: rat) (base: rat)
  | EqualJitterBackoff (cap: rat) (base: rat)
  | DecorrelatedJitterBackoff (cap: rat) (base: rat) (previous_backoff: rat)
  | ExponentialWithJitterBackoff (cap: rat) (base: rat)

definition NoBackoff :: backoff where "NoBackoff = ConstantBackoff 0"

definition default_backoff :: backoff where
  "default_backoff = EqualJitterBackoff DEFAULT_CAP DEFAULT_BASE"

definition new_decorrelated :: "rat \<Rightarrow> rat \<Rightarrow> backoff" where
  "new_decorrelated c b = DecorrelatedJitterBackoff c b 0"

fun backoff_reset :: "backoff \<Rightarrow> backoff" where
  "backoff_reset (DecorrelatedJitterBackoff c b _) = DecorrelatedJitterBackoff c b 0"
| "backoff_reset b = b"

text \<open>\<open>random.uniform(a, b)\<close> is \<open>a + (b - a) * random()\<close>.\<close>

definition uniform :: "('s \<Rightarrow> rat \<times> 's) \<Rightarrow> rat \<Rightarrow> rat \<Rightarrow> 's \<Rightarrow> rat \<times> 's" where
  "uniform random a b s = (let (r, s') = random s in (a + (b - a) * r, s'))"

fun compute :: "('s \<Rightarrow> rat \<times> 's) \<Rightarrow> backoff \<Rightarrow> nat \<Rightarrow> 's \<Rightarrow> rat \<times> backoff \<times> 's" where
  "compute random (ConstantBackoff t) failures s = (t, ConstantBackoff t, s)"
| "compute random (ExponentialBackoff c b) failures s = (min c (b * 2 ^ failures), ExponentialBackoff c b, s)"
| "compute random (FullJitterBackoff c b) failures s =
     (let (t, s') = uniform random 0 (min c (b * 2 ^ failures)) s in (t, FullJitterBackoff c b, s'))"
| "compute random (EqualJitterBackoff c b) failures s =
     (let temp = min c (b * 2 ^ failures) / 2; (t, s') = uniform random 0 temp s
      in (temp + t, EqualJitterBackoff c b, s'))"
| "compute random (DecorrelatedJitterBackoff c b prev) failures s =
     (let max_backoff = max b (prev * 3); (temp, s') = uniform random b max_backoff s; t = min c temp
      in (t, DecorrelatedJitterBackoff c b t, s'))"
| "compute random (ExponentialWithJitterBackoff c b) failures s =
     (let (r, s') = random s in (min c (r * b * 2 ^ failures), ExponentialWithJitterBackoff c b, s'))"

section \<open>Retry\<close>

record retry =
  r_backoff :: backoff
  r_retries :: int
  r_supported_errors :: "exc_class list"

definition default_supported_errors :: "exc_class list" where
  "default_supported_errors = [ConnectionError, TimeoutError, PySocketTimeout]"

definition new_retry :: "backoff \<Rightarrow> int \<Rightarrow> retry" where
  "new_retry b n = \<lparr> r_backoff = b, r_retries = n, r_supported_errors = default_supported_errors \<rparr>"

text \<open>The tuple of a set: the classes without repetition.\<close>

definition update_supported_errors :: "exc_class list \<Rightarrow> retry \<Rightarrow> retry" where
  "update_supported_errors es r = r\<lparr>r_supported_errors := remdups (r_supported_errors r @ es)\<rparr>"

text \<open>\<open>except self._supported_errors\<close>.\<close>

definition supported :: "retry \<Rightarrow> exc \<Rightarrow> bool" where
  "supported r e \<longleftrightarrow> list_ex (is_exc e) (r_supported_errors r)"

text \<open>What follows a failed attempt: the handler runs, the error is raised again when the retries are used up,
  otherwise the loop waits.  The result says whether to go round again.\<close>

definition after_failure ::
  "(exc \<Rightarrow> ('s, unit) io) \<Rightarrow> ('s \<Rightarrow> rat \<times> 's) \<Rightarrow> (rat \<Rightarrow> 's \<Rightarrow> 's) \<Rightarrow> retry \<Rightarrow> nat \<Rightarrow> exc \<Rightarrow> ('s, backoff) io" where
  "after_failure fail random sleep r failures error s =
     (case fail error s of
        None \<Rightarrow> None
      | Some (Inl e, s1) \<Rightarrow> Some (Inl e, s1)
      | Some (Inr _, s1) \<Rightarrow>
          if r_retries r \<ge> 0 \<and> int failures > r_retries r then Some (Inl error, s1)
          else let (t, b, s2) = compute random (r_backoff r) failures s1
               in Some (Inr b, if t > 0 then sleep t s2 else s2))"

partial_function (option) retry_loop ::
  "('s, 'a) io \<Rightarrow> (exc \<Rightarrow> ('s, unit) io) \<Rightarrow> ('s \<Rightarrow> rat \<times> 's) \<Rightarrow> (rat \<Rightarrow> 's \<Rightarrow> 's) \<Rightarrow> nat \<Rightarrow> retry \<Rightarrow> 's \<Rightarrow>
   ((exc + 'a) \<times> retry \<times> 's) option" where
  "retry_loop do fail random sleep failures r s =
     (case do s of
        None \<Rightarrow> None
      | Some (Inr v, s1) \<Rightarrow> Some (Inr v, r, s1)
      | Some (Inl error, s1) \<Rightarrow>
          if \<not> supported r error then Some (Inl error, r, s1)
          else (case after_failure fail random sleep r (Suc failures) error s1 of
                  None \<Rightarrow> None
                | Some (Inl e, s2) \<Rightarrow> Some (Inl e, r, s2)
                | Some (Inr b, s2) \<Rightarrow>
                    retry_loop do fail random sleep (Suc failures) (r\<lparr>r_backoff := b\<rparr>) s2))"

declare retry_loop.simps [code]

definition call_with_retry ::
  "('s, 'a) io \<Rightarrow> (exc \<Rightarrow> ('s, unit) io) \<Rightarrow> ('s \<Rightarrow> rat \<times> 's) \<Rightarrow> (rat \<Rightarrow> 's \<Rightarrow> 's) \<Rightarrow> retry \<Rightarrow> 's \<Rightarrow>
   ((exc + 'a) \<times> retry \<times> 's) option" where
  "call_with_retry do fail random sleep r s =
     retry_loop do fail random sleep 0 (r\<lparr>r_backoff := backoff_reset (r_backoff r)\<rparr>) s"

section \<open>Bounds of the backoff times\<close>

text \<open>A strategy is well formed when its times are not negative; the base of the decorrelated one is at most
  its cap.  \<open>longest\<close> is the longest time it asks for.\<close>

fun backoff_wf :: "backoff \<Rightarrow> bool" where
  "backoff_wf (ConstantBackoff t) \<longleftrightarrow> 0 \<le> t"
| "backoff_wf (DecorrelatedJitterBackoff c b p) \<longleftrightarrow> 0 \<le> b \<and> b \<le> c \<and> (p = 0 \<or> b \<le> p \<and> p \<le> c)"
| "backoff_wf x \<longleftrightarrow> 0 \<le> base x \<and> 0 \<le> cap x"

fun longest :: "backoff \<Rightarrow> rat" where
  "longest (ConstantBackoff t) = t"
| "longest x = cap x"

text \<open>The shortest time, after \<open>failures\<close> failures.\<close>

fun shortest :: "backoff \<Rightarrow> nat \<Rightarrow> rat" where
  "shortest (ConstantBackoff t) n = t"
| "shortest (ExponentialBackoff c b) n = min c (b * 2 ^ n)"
| "shortest (EqualJitterBackoff c b) n = min c (b * 2 ^ n) / 2"
| "shortest (DecorrelatedJitterBackoff c b p) n = b"
| "shortest _ n = 0"

lemma backoff_wf_reset: "backoff_wf b \<Longrightarrow> backoff_wf (backoff_reset b)"
  by (cases b) auto

lemma longest_reset [simp]: "longest (backoff_reset b) = longest b"
  by (cases b) auto

lemma uniform_bounds:
  assumes "uniform random a b s = (t, s')" "a \<le> b" "0 \<le> fst (random s)" "fst (random s) \<le> 1"
  shows "a \<le> t" "t \<le> b"
proof -
  have t: "t = a + (b - a) * fst (random s)" using assms(1) by (auto simp: uniform_def split: prod.splits)
  show "a \<le> t" unfolding t using assms(2,3) by simp
  have "(b - a) * fst (random s) \<le> (b - a) * 1" using assms(2,4) by (intro mult_left_mono) auto
  then show "t \<le> b" unfolding t by simp
qed

lemma compute_bounds_aux:
  assumes wf: "backoff_wf b" and r: "0 \<le> fst (random s)" "fst (random s) \<le> 1"
    and c: "compute random b n s = (t, b', s')"
  shows "shortest b n \<le> t \<and> t \<le> longest b \<and> backoff_wf b' \<and> longest b' = longest b"
proof (cases b)
  case (FullJitterBackoff c d)
  obtain x s1 where u: "uniform random 0 (min c (d * 2 ^ n)) s = (x, s1)" by fastforce
  have "0 \<le> x" "x \<le> min c (d * 2 ^ n)"
    using uniform_bounds [OF u _ r] wf FullJitterBackoff by auto
  then show ?thesis using c u wf FullJitterBackoff by auto
next
  case (EqualJitterBackoff c d)
  obtain x s1 where u: "uniform random 0 (min c (d * 2 ^ n) / 2) s = (x, s1)" by fastforce
  have "0 \<le> x" "x \<le> min c (d * 2 ^ n) / 2"
    using uniform_bounds [OF u _ r] wf EqualJitterBackoff by auto
  moreover have "min c (d * 2 ^ n) \<le> c" by simp
  ultimately show ?thesis using c u wf EqualJitterBackoff by (auto simp: Let_def)
next
  case (DecorrelatedJitterBackoff c d p)
  obtain x s1 where u: "uniform random d (max d (p * 3)) s = (x, s1)" by fastforce
  have "d \<le> x" using uniform_bounds [OF u _ r] by simp
  then show ?thesis using c u wf DecorrelatedJitterBackoff by (auto simp: Let_def)
next
  case (ExponentialWithJitterBackoff c d)
  then show ?thesis using c wf r by (auto split: prod.splits)
qed (use c wf in auto)

section \<open>Runs of attempts\<close>

text \<open>An operation whose attempts have the given outcomes, one after the other.\<close>

fun scripted :: "((exc + 'a) list \<times> rat, 'a) io" where
  "scripted (o1 # os, t) = Some (o1, (os, t))"
| "scripted ([], t) = None"

text \<open>A clock that adds up the time slept, and a source of random numbers that does not change.\<close>

definition sleeping :: "rat \<Rightarrow> 'x \<times> rat \<Rightarrow> 'x \<times> rat" where
  "sleeping d s = (fst s, snd s + d)"

definition drawn :: "rat \<Rightarrow> 's \<Rightarrow> rat \<times> 's" where
  "drawn r s = (r, s)"

lemma compute_drawn_state: "compute (drawn r) b n s = (t, b', s') \<Longrightarrow> s' = s"
  by (cases b) (auto simp: drawn_def uniform_def Let_def split: prod.splits)

lemma retry_loop_scripted_step:
  assumes "supported r e" "0 \<le> d" "d \<le> 1" "backoff_wf (r_backoff r)"
    and "r_retries r < 0 \<or> int n < r_retries r"
  shows "\<exists>t b. shortest (r_backoff r) (Suc n) \<le> t \<and> t \<le> longest (r_backoff r) \<and> backoff_wf b
     \<and> longest b = longest (r_backoff r)
     \<and> retry_loop scripted (\<lambda>_. io_ret ()) (drawn d) sleeping n r (Inl e # os, w)
       = retry_loop scripted (\<lambda>_. io_ret ()) (drawn d) sleeping (Suc n) (r\<lparr>r_backoff := b\<rparr>) (os, w + max 0 t)"
proof -
  obtain t b s' where c: "compute (drawn d) (r_backoff r) (Suc n) (os, w) = (t, b, s')" using prod_cases3 by blast
  have "s' = (os, w)" using compute_drawn_state [OF c] .
  moreover have "shortest (r_backoff r) (Suc n) \<le> t \<and> t \<le> longest (r_backoff r) \<and> backoff_wf b
     \<and> longest b = longest (r_backoff r)"
    using compute_bounds_aux [OF assms(4) _ _ c] assms(2,3) by (simp add: drawn_def)
  moreover have "retry_loop scripted (\<lambda>_. io_ret ()) (drawn d) sleeping n r (Inl e # os, w)
       = retry_loop scripted (\<lambda>_. io_ret ()) (drawn d) sleeping (Suc n) (r\<lparr>r_backoff := b\<rparr>) (os, w + max 0 t)"
    by (subst retry_loop.simps)
      (use assms c \<open>s' = _\<close> in \<open>auto simp: after_failure_def io_ret_def sleeping_def max_def\<close>)
  ultimately show ?thesis by blast
qed

lemma supported_backoff [simp]: "supported (r\<lparr>r_backoff := b\<rparr>) e = supported r e"
  by (simp add: supported_def)

text \<open>The failures \<open>es\<close> are absorbed, and each wait is at most the longest backoff.\<close>

lemma retry_loop_absorbs:
  assumes "0 \<le> d" "d \<le> 1" "backoff_wf (r_backoff r)" "list_all (supported r) es"
    and "r_retries r < 0 \<or> int (n + length es) \<le> r_retries r"
  shows "\<exists>w' b. w \<le> w' \<and> w' \<le> w + of_nat (length es) * max 0 (longest (r_backoff r))
     \<and> retry_loop scripted (\<lambda>_. io_ret ()) (drawn d) sleeping n r (map Inl es @ os, w)
       = retry_loop scripted (\<lambda>_. io_ret ()) (drawn d) sleeping (n + length es) (r\<lparr>r_backoff := b\<rparr>) (os, w')"
  using assms
proof (induction es arbitrary: n r w)
  case Nil
  show ?case by (rule exI [of _ w], rule exI [of _ "r_backoff r"]) simp
next
  case (Cons e es)
  obtain t b where b: "shortest (r_backoff r) (Suc n) \<le> t" "t \<le> longest (r_backoff r)" "backoff_wf b"
     "longest b = longest (r_backoff r)"
     "retry_loop scripted (\<lambda>_. io_ret ()) (drawn d) sleeping n r (Inl e # (map Inl es @ os), w)
       = retry_loop scripted (\<lambda>_. io_ret ()) (drawn d) sleeping (Suc n) (r\<lparr>r_backoff := b\<rparr>)
          (map Inl es @ os, w + max 0 t)"
    using retry_loop_scripted_step [of r e d n "map Inl es @ os" w] Cons.prems by auto
  obtain w' b' where ih: "w + max 0 t \<le> w'"
     "w' \<le> w + max 0 t + of_nat (length es) * max 0 (longest b)"
     "retry_loop scripted (\<lambda>_. io_ret ()) (drawn d) sleeping (Suc n) (r\<lparr>r_backoff := b\<rparr>) (map Inl es @ os, w + max 0 t)
       = retry_loop scripted (\<lambda>_. io_ret ()) (drawn d) sleeping (Suc n + length es)
          (r\<lparr>r_backoff := b'\<rparr>) (os, w')"
    using Cons.IH [of "r\<lparr>r_backoff := b\<rparr>" "Suc n" "w + max 0 t"] Cons.prems b(3) by (auto simp: list_all_def)
  have "w \<le> w'" using ih(1) by (simp add: max_def split: if_splits)
  moreover have "w' \<le> w + of_nat (length (e # es)) * max 0 (longest (r_backoff r))"
    using ih(2) b(2,4) by (simp add: algebra_simps max_def split: if_splits)
  ultimately show ?case using ih(3) b(5) by auto
qed

section \<open>Any operation\<close>

text \<open>The operation with a counter of its attempts, and the other operations leaving the counter alone.\<close>

definition counted :: "('s, 'a) io \<Rightarrow> (nat \<times> 's, 'a) io" where
  "counted do s = (case do (snd s) of None \<Rightarrow> None | Some (r, s') \<Rightarrow> Some (r, (Suc (fst s), s')))"

definition uncounted :: "('s, 'a) io \<Rightarrow> (nat \<times> 's, 'a) io" where
  "uncounted m s = (case m (snd s) of None \<Rightarrow> None | Some (r, s') \<Rightarrow> Some (r, (fst s, s')))"

lemma after_failure_uncounted:
  assumes "\<forall>e s. fail e s \<noteq> None" "\<forall>n s. fst (snd (random (n, s))) = n" "\<forall>t n s. fst (sleep t (n, s)) = n"
  obtains res s' where "after_failure (\<lambda>e. uncounted (fail e)) random sleep r n e (m, s) = Some (res, (m, s'))"
    "r_retries r \<ge> 0 \<Longrightarrow> int n > r_retries r \<Longrightarrow> \<exists>e. res = Inl e"
proof -
  have comp: "fst (snd (snd (compute random b n (m, s)))) = m" for b s
    using assms(2) by (cases b) (auto simp: uniform_def Let_def split: prod.splits, (metis fst_conv snd_conv)+)
  obtain f s1 where f: "fail e s = Some (f, s1)" using assms(1) by (metis not_None_eq surj_pair)
  obtain t b n2 s2 where c: "compute random (r_backoff r) n (m, s1) = (t, b, (n2, s2))" by (metis surj_pair)
  moreover have "n2 = m" using comp [of "r_backoff r" s1] c by simp
  moreover obtain n3 s3 where "sleep t (m, s2) = (n3, s3)" "n3 = m" using assms(3) by (metis fst_conv surj_pair)
  ultimately have "\<exists>res s'. after_failure (\<lambda>e. uncounted (fail e)) random sleep r n e (m, s) = Some (res, (m, s'))
      \<and> (r_retries r \<ge> 0 \<longrightarrow> int n > r_retries r \<longrightarrow> (\<exists>e. res = Inl e))"
    using f by (cases f) (auto simp: after_failure_def uncounted_def)
  then show thesis using that by blast
qed

lemma retry_loop_returns:
  assumes total: "\<forall>s. do s \<noteq> None" "\<forall>e s. fail e s \<noteq> None"
    and frame: "\<forall>n s. fst (snd (random (n, s))) = n" "\<forall>t n s. fst (sleep t (n, s)) = n"
    and "r_retries r \<ge> 0" "int n \<le> r_retries r"
  shows "\<exists>res r' m' s'. retry_loop (counted do) (\<lambda>e. uncounted (fail e)) random sleep n r (m, s) = Some (res, r', (m', s'))
     \<and> Suc m \<le> m' \<and> int m' \<le> int m + (r_retries r - int n) + 1"
  using assms(5,6)
proof (induction "nat (r_retries r - int n)" arbitrary: n r m s rule: less_induct)
  case less
  obtain a s1 where d: "do s = Some (a, s1)" using total(1) by (metis not_None_eq surj_pair)
  then have cd: "counted do (m, s) = Some (a, (Suc m, s1))" by (simp add: counted_def)
  show ?case
  proof (cases "\<exists>e. a = Inl e \<and> supported r e")
    case False
    then show ?thesis using cd less.prems by (subst retry_loop.simps) (auto split: sum.splits)
  next
    case True
    then obtain e where e: "a = Inl e" "supported r e" by blast
    obtain res s2 where af:
      "after_failure (\<lambda>e. uncounted (fail e)) random sleep r (Suc n) e (Suc m, s1) = Some (res, (Suc m, s2))"
      "r_retries r \<ge> 0 \<Longrightarrow> int (Suc n) > r_retries r \<Longrightarrow> \<exists>e. res = Inl e"
      using after_failure_uncounted [OF total(2) frame, of r "Suc n" e "Suc m" s1] by blast
    show ?thesis
    proof (cases res)
      case (Inl x)
      then show ?thesis using cd e af(1) less.prems by (subst retry_loop.simps) auto
    next
      case (Inr b)
      then have le: "int (Suc n) \<le> r_retries r" using af(2) less.prems(1) by force
      have "\<exists>res r' m' s'. retry_loop (counted do) (\<lambda>e. uncounted (fail e)) random sleep (Suc n)
           (r\<lparr>r_backoff := b\<rparr>) (Suc m, s2) = Some (res, r', (m', s'))
         \<and> Suc (Suc m) \<le> m' \<and> int m' \<le> int (Suc m) + (r_retries (r\<lparr>r_backoff := b\<rparr>) - int (Suc n)) + 1"
        by (rule less.hyps) (use le less.prems in auto)
      then show ?thesis using cd e af(1) Inr by (subst retry_loop.simps) auto
    qed
  qed
qed

section \<open>What a retried operation keeps\<close>

text \<open>A relation between states that the operation, the handler, the random numbers and sleeping keep.\<close>

definition keeps :: "('s \<Rightarrow> 's \<Rightarrow> bool) \<Rightarrow> ('s, 'a) io \<Rightarrow> (exc \<Rightarrow> ('s, unit) io) \<Rightarrow> ('s \<Rightarrow> rat \<times> 's) \<Rightarrow> (rat \<Rightarrow> 's \<Rightarrow> 's) \<Rightarrow> bool" where
  "keeps R m fail random sleep \<longleftrightarrow> reflp R \<and> transp R \<and>
     io_pres R m \<and> (\<forall>e. io_pres R (fail e)) \<and> (\<forall>s. R s (snd (random s))) \<and> (\<forall>t s. R s (sleep t s))"

lemma compute_keeps:
  assumes "\<forall>s. R s (snd (random s))" "reflp R" "compute random b n s = (t, b', s')"
  shows "R s s'"
proof -
  have r: "random s = (x, s'') \<Longrightarrow> R s s''" for x s'' using assms(1) by (metis snd_conv)
  show ?thesis using assms(2,3) r by (cases b) (auto simp: uniform_def Let_def reflp_def split: prod.splits)
qed

lemma after_failure_keeps:
  assumes "keeps R m fail random sleep" "after_failure fail random sleep r n e s = Some (q, s')"
  shows "R s s'"
proof -
  obtain x s1 where x: "fail e s = Some (x, s1)" using assms(2) by (auto simp: after_failure_def split: option.splits)
  then have s1: "R s s1" using assms(1) by (simp add: keeps_def io_pres_def)
  obtain t b s2 where c: "compute random (r_backoff r) n s1 = (t, b, s2)" using prod_cases3 by blast
  then have s2: "R s s2" using compute_keeps [of R random "r_backoff r" n s1 t b s2] assms(1) s1
    unfolding keeps_def by (blast dest: transpD)
  then have "R s (sleep t s2)" using assms(1) unfolding keeps_def by (blast dest: transpD)
  then show ?thesis using assms(2) x s1 s2 c
    by (auto simp: after_failure_def split: sum.splits if_splits)
qed

lemma retry_loop_keeps:
  fixes m :: "('s, 'a) io"
  assumes "keeps R m fail random sleep" "retry_loop m fail random sleep n r s = Some y"
  shows "R s (snd (snd y))"
proof (rule retry_loop.raw_induct [where P = "\<lambda>m fail random sleep n r s y.
      keeps R m fail random sleep \<longrightarrow> R s (snd (snd y))", rule_format, OF _ assms(2,1)])
  fix loop :: "('s, 'a) io \<Rightarrow> (exc \<Rightarrow> ('s, unit) io) \<Rightarrow> ('s \<Rightarrow> rat \<times> 's) \<Rightarrow> (rat \<Rightarrow> 's \<Rightarrow> 's) \<Rightarrow> nat \<Rightarrow> retry \<Rightarrow> 's \<Rightarrow>
      ((exc + 'a) \<times> retry \<times> 's) option"
    and m :: "('s, 'a) io" and fail random sleep n r s y
  assume IH: "\<And>m fail random sleep n r s y. loop m fail random sleep n r s = Some y \<Longrightarrow>
      keeps R m fail random sleep \<Longrightarrow> R s (snd (snd y))"
    and body: "(case m s of None \<Rightarrow> None
      | Some (Inl error, s1) \<Rightarrow>
          if \<not> supported r error then Some (Inl error, r, s1)
          else case after_failure fail random sleep r (Suc n) error s1 of
               None \<Rightarrow> None | Some (Inl e, s2) \<Rightarrow> Some (Inl e, r, s2)
               | Some (Inr b, s2) \<Rightarrow> loop m fail random sleep (Suc n) (r\<lparr>r_backoff := b\<rparr>) s2
      | Some (Inr v, s1) \<Rightarrow> Some (Inr v, r, s1)) = Some y"
    and L: "keeps R m fail random sleep"
  have tr: "R x z" if "R x y'" "R y' z" for x y' z using L that unfolding keeps_def by (blast dest: transpD)
  obtain a s1 where a: "m s = Some (a, s1)" using body by (auto split: option.splits)
  then have s1: "R s s1" using L by (simp add: keeps_def io_pres_def)
  show "R s (snd (snd y))"
  proof (cases "\<exists>e s2 b. a = Inl e \<and> supported r e \<and> after_failure fail random sleep r (Suc n) e s1 = Some (Inr b, s2)")
    case True
    then obtain e s2 b where e: "a = Inl e" "supported r e"
      "after_failure fail random sleep r (Suc n) e s1 = Some (Inr b, s2)" by blast
    then have "loop m fail random sleep (Suc n) (r\<lparr>r_backoff := b\<rparr>) s2 = Some y" using body a by simp
    then show ?thesis using IH [OF _ L] after_failure_keeps [OF L e(3)] s1 tr by blast
  next
    case False
    show ?thesis
    proof (cases "\<exists>e x s2. a = Inl e \<and> supported r e \<and> after_failure fail random sleep r (Suc n) e s1 = Some (Inl x, s2)")
      case True
      then obtain e x s2 where e: "a = Inl e" "supported r e"
        "after_failure fail random sleep r (Suc n) e s1 = Some (Inl x, s2)" by blast
      then have "y = (Inl x, r, s2)" using body a by simp
      then show ?thesis using tr [OF s1 after_failure_keeps [OF L e(3)]] by simp
    next
      case no: False
      then show ?thesis using False body a s1 by (auto split: sum.splits if_splits option.splits)
    qed
  qed
qed

lemma call_with_retry_keeps:
  "keeps R m fail random sleep \<Longrightarrow> call_with_retry m fail random sleep r s = Some (res, r', s') \<Longrightarrow> R s s'"
  unfolding call_with_retry_def using retry_loop_keeps by fastforce

section \<open>Properties\<close>





text \<open>
  C15: with a non-negative number of retries the loop ends, whatever the operation does, provided the operation
  and the failure handler return: it makes at least one attempt and at most one more than the retries.
\<close>

theorem call_with_retry_returns:
  assumes "\<forall>s. do s \<noteq> None" "\<forall>e s. fail e s \<noteq> None"
    and "\<forall>n s. fst (snd (random (n, s))) = n" "\<forall>t n s. fst (sleep t (n, s)) = n" "r_retries r \<ge> 0"
  shows "\<exists>res r' m s'. call_with_retry (counted do) (\<lambda>e. uncounted (fail e)) random sleep r (0, s) = Some (res, r', (m, s'))
     \<and> 1 \<le> m \<and> int m \<le> r_retries r + 1"
  using retry_loop_returns [OF assms(1-4), of "r\<lparr>r_backoff := backoff_reset (r_backoff r)\<rparr>" 0 0 s] assms(5)
  by (auto simp: call_with_retry_def)

theorem call_with_retry_returns_witness:
  "\<exists>res r' m s'. call_with_retry (counted (io_raise (Exc TimeoutError ''slow'') :: (unit, int) io)) (\<lambda>e. uncounted (io_ret ()))
       (drawn 0) (\<lambda>t s. s) (new_retry default_backoff 3) (0, ()) = Some (res, r', (m, s')) \<and> 1 \<le> m \<and> int m \<le> 4"
  using call_with_retry_returns [of "io_raise (Exc TimeoutError ''slow'') :: (unit, int) io" "\<lambda>e. io_ret ()"
      "drawn 0" "\<lambda>t s. s" "new_retry default_backoff 3" "()"]
  by (simp add: io_raise_def io_ret_def drawn_def new_retry_def)

end
