(* ===== verification/Connection.thy ===== *)
theory Connection
  imports Serializer Retry
begin

text \<open>
  \<open>AbstractConnection\<close> and the TCP \<open>Connection\<close> of \<open>redis/connection.py\<close>, with the pure-Python parsers and
  serializer.

  The record \<open>conn\<close> holds the attributes of the object and, after them, the part of the outside world the object
  acts on: what the next connection attempts give (\<open>dials\<close>), what the next \<open>sendall\<close> calls give (\<open>sends\<close>, all
  succeed once the list is used up), the bytes handed to each socket (\<open>sent\<close>), the sockets closed (\<open>closed\<close>), the
  process id, the time slept.  A socket is a number and the receive events it will produce.  The record is
  extensible: the caching connection adds its own attributes.

  The record \<open>conn_env\<close> holds what the object is given from outside: the clock, the random numbers, the
  credential provider, the encoder (fixed when the object is made), \<open>float()\<close>, the handler of push messages, the user's connect function and callbacks.
  Exceptions carry one argument (or none), so \<open>e.args\<close> has at most one element.
\<close>

section \<open>Exceptions inside statement sequences\<close>

definition io_seq :: "('s, 'a) io \<Rightarrow> ('s, 'b) io \<Rightarrow> ('s, 'b) io" where
  "io_seq m n = io_bind m (\<lambda>_. n)"

definition io_get :: "('s \<Rightarrow> ('s, 'a) io) \<Rightarrow> ('s, 'a) io" where
  "io_get f s = f s s"

definition io_upd :: "('s \<Rightarrow> 's) \<Rightarrow> ('s, unit) io" where
  "io_upd f s = Some (Inr (), f s)"

definition io_when :: "bool \<Rightarrow> ('s, unit) io \<Rightarrow> ('s, unit) io" where
  "io_when b m = (if b then m else io_ret ())"

text \<open>\<open>try: m / except: h\<close>\<close>

definition io_try :: "('s, 'a) io \<Rightarrow> (exc \<Rightarrow> ('s, 'a) io) \<Rightarrow> ('s, 'a) io" where
  "io_try m h s =
     (case m s of None \<Rightarrow> None
      | Some (Inl e, s') \<Rightarrow> h e s'
      | Some (Inr x, s') \<Rightarrow> Some (Inr x, s'))"

section \<open>The object\<close>

text \<open>The outcome of one address of \<open>_connect\<close>, and of one \<open>sendall\<close> call: done, timed out, another \<open>OSError\<close>, or
  interrupted by an exception that is no \<open>Exception\<close>, such as \<open>KeyboardInterrupt\<close>.\<close>

datatype dial_attempt = AttemptFail exc | AttemptOk "recv_event list"

datatype send_event = SendOk | SendTimeout | SendOSError string | SendInterrupt

fun send_exc :: "send_event \<Rightarrow> exc option" where
  "send_exc SendOk = None"
| "send_exc SendTimeout = Some (Exc PySocketTimeout ''timed out'')"
| "send_exc (SendOSError m) = Some (Exc PyOSError m)"
| "send_exc SendInterrupt = Some (Exc PyBaseException ''KeyboardInterrupt'')"

record conn =
  c_pid :: int
  c_db :: pyval
  c_client_name :: pyval
  c_lib_name :: pyval
  c_lib_version :: pyval
  c_username :: pyval
  c_password :: pyval
  c_has_provider :: bool
  c_socket_timeout :: "int option"
  c_retry :: retry
  c_health_check_interval :: rat
  c_next_health_check :: rat
  c_handshake_metadata :: pyval
  c_sock :: "(nat \<times> recv_event list) option"
  c_resp3 :: bool
  c_classes :: "(string \<times> exc_entry) list"
  c_buffer_cutoff :: nat
  c_re_auth_token :: "(pyval \<times> pyval) option"
  c_protocol :: int
  c_callbacks :: "nat list"
  sbuf :: "sockbuf option"
  dials :: "(exc + dial_attempt list) list"
  sends :: "send_event list"
  sent :: "(nat \<times> bytes) list"
  closed :: "(nat \<times> bool) list"
  next_sock :: nat
  os_pid :: int
  ticks :: nat
  slept :: rat

record 'z conn_env =
  e_time :: "nat \<Rightarrow> rat"
  e_random :: "nat \<Rightarrow> rat"
  e_cred :: "nat \<Rightarrow> exc + pyval list"
  e_encoder :: encoder
  e_float :: "bytes \<Rightarrow> string option"
  e_host_error :: string
  e_push :: "pyval list \<Rightarrow> ('z conn_scheme, pyval) io"
  e_connect_func :: "('z conn_scheme, unit) io option"
  e_callback :: "nat \<Rightarrow> ('z conn_scheme, unit) io"

section \<open>Construction\<close>

definition DEFAULT_RESP_VERSION :: int where "DEFAULT_RESP_VERSION = 2"

definition unbound_p :: exc where
  "unbound_p = Exc PyUnboundLocalError ''local variable p referenced before assignment''"

text \<open>\<open>int(protocol)\<close>: a number, \<open>None\<close> when it raises \<open>TypeError\<close>, or an error of another class.  A float with
  an exponent is far outside of 2..3, on one side or the other.\<close>

definition int_protocol :: "pyval \<Rightarrow> exc + int option" where
  "int_protocol p =
     (case p of
        PInt n \<Rightarrow> Inr (Some n)
      | PBool b \<Rightarrow> Inr (Some (if b then 1 else 0))
      | PStr s \<Rightarrow> (case py_int s of None \<Rightarrow> Inl value_error | Some n \<Rightarrow> Inr (Some n))
      | PBytes s \<Rightarrow> (case py_int s of None \<Rightarrow> Inl value_error | Some n \<Rightarrow> Inr (Some n))
      | PFloat r \<Rightarrow>
          if r \<in> {''inf'', ''-inf'', ''nan''} then Inl value_error
          else if CHR ''e'' \<in> set r then Inr (Some 0)
          else (case py_int (takeWhile (\<lambda>c. c \<noteq> CHR ''.'') r) of None \<Rightarrow> Inr (Some 0) | Some n \<Rightarrow> Inr (Some n))
      | _ \<Rightarrow> Inr None)"

text \<open>The \<open>try\<close> statement that sets \<open>self.protocol\<close>.  Its \<open>finally\<close> clause runs after the handler of
  \<open>ValueError\<close> too, where \<open>p\<close> is not bound: the error it raises replaces the one of the handler.\<close>

definition init_protocol :: "pyval \<Rightarrow> exc + int" where
  "init_protocol protocol =
     (case int_protocol protocol of
        Inl _ \<Rightarrow> Inl unbound_p
      | Inr r \<Rightarrow>
          (let p = (case r of None \<Rightarrow> DEFAULT_RESP_VERSION | Some n \<Rightarrow> n) in
           if p < 2 \<or> p > 3 then Inl (Exc ConnectionError ''protocol must be either 2 or 3'') else Inr p))"

text \<open>The retry policy from \<open>retry\<close>, \<open>retry_on_error\<close> and \<open>retry_on_timeout\<close>.\<close>

definition init_retry :: "retry option \<Rightarrow> exc_class list \<Rightarrow> bool \<Rightarrow> retry" where
  "init_retry retry_arg retry_on_error retry_on_timeout =
     (let roe = (if retry_on_timeout then retry_on_error @ [TimeoutError] else retry_on_error) in
      if retry_arg \<noteq> None \<or> roe \<noteq> []
      then update_supported_errors roe
             (case retry_arg of None \<Rightarrow> new_retry NoBackoff 1 | Some r \<Rightarrow> r)
      else new_retry NoBackoff 0)"

record conn_args =
  a_db :: pyval
  a_username :: pyval
  a_password :: pyval
  a_provider :: bool
  a_socket_timeout :: "int option"
  a_retry_on_timeout :: bool
  a_retry_on_error :: "exc_class list"
  a_retry :: "retry option"
  a_resp3_parser :: bool
  a_health_check_interval :: rat
  a_client_name :: pyval
  a_lib_name :: pyval
  a_lib_version :: pyval
  a_protocol :: pyval

definition conn_init :: "conn_args \<Rightarrow> int \<Rightarrow> (exc + dial_attempt list) list \<Rightarrow> send_event list \<Rightarrow> exc + conn" where
  "conn_init a pid ds ss =
     (if (truthy (a_username a) \<or> truthy (a_password a)) \<and> a_provider a
      then Inl (Exc DataError ''username and password cannot be passed along with credential_provider'')
      else case init_protocol (a_protocol a) of
        Inl e \<Rightarrow> Inl e
      | Inr p \<Rightarrow> Inr
          \<lparr> c_pid = pid, c_db = a_db a, c_client_name = a_client_name a, c_lib_name = a_lib_name a,
            c_lib_version = a_lib_version a, c_username = a_username a, c_password = a_password a,
            c_has_provider = a_provider a, c_socket_timeout = a_socket_timeout a,
            c_retry = init_retry (a_retry a) (a_retry_on_error a) (a_retry_on_timeout a),
            c_health_check_interval = a_health_check_interval a, c_next_health_check = 0,
            c_handshake_metadata = PNone, c_sock = None,
            c_resp3 = a_resp3_parser a, c_classes = EXCEPTION_CLASSES, c_buffer_cutoff = 6000,
            c_re_auth_token = None, c_protocol = p, c_callbacks = [], sbuf = None, dials = ds, sends = ss,
            sent = [], closed = [], next_sock = 0, os_pid = pid, ticks = 0, slept = 0 \<rparr>)"

text \<open>Callbacks are weak references to methods: a number stands for one.\<close>

definition register_connect_callback :: "nat \<Rightarrow> 'z conn_scheme \<Rightarrow> 'z conn_scheme" where
  "register_connect_callback cb s =
     (if cb \<in> set (c_callbacks s) then s else s\<lparr>c_callbacks := c_callbacks s @ [cb]\<rparr>)"

definition deregister_connect_callback :: "nat \<Rightarrow> 'z conn_scheme \<Rightarrow> 'z conn_scheme" where
  "deregister_connect_callback cb s = s\<lparr>c_callbacks := remove1 cb (c_callbacks s)\<rparr>"

section \<open>The outside world\<close>

definition conn_now :: "'z conn_env \<Rightarrow> ('z conn_scheme, rat) io" where
  "conn_now env s = Some (Inr (e_time env (ticks s)), s\<lparr>ticks := Suc (ticks s)\<rparr>)"

definition conn_random :: "'z conn_env \<Rightarrow> 'z conn_scheme \<Rightarrow> rat \<times> 'z conn_scheme" where
  "conn_random env s = (e_random env (ticks s), s\<lparr>ticks := Suc (ticks s)\<rparr>)"

definition conn_sleep :: "rat \<Rightarrow> 'z conn_scheme \<Rightarrow> 'z conn_scheme" where
  "conn_sleep t s = s\<lparr>slept := slept s + t\<rparr>"

text \<open>\<open>self.retry.call_with_retry(m, fail)\<close>.  A retry inside a retry (a health check that reconnects) works on its
  own copy of the backoff.\<close>

definition with_retry ::
  "'z conn_env \<Rightarrow> ('z conn_scheme, 'a) io \<Rightarrow> (exc \<Rightarrow> ('z conn_scheme, unit) io) \<Rightarrow> ('z conn_scheme, 'a) io" where
  "with_retry env m fail s =
     (case call_with_retry m fail (conn_random env) conn_sleep (c_retry s) s of
        None \<Rightarrow> None
      | Some (r, rt, s') \<Rightarrow> Some (r, s'\<lparr>c_retry := rt\<rparr>))"

text \<open>\<open>Connection._connect\<close>: the addresses are tried in order, the last error is raised when none works.\<close>

fun tcp_try :: "dial_attempt list \<Rightarrow> exc option \<Rightarrow> exc + recv_event list" where
  "tcp_try [] (Some e) = Inl e"
| "tcp_try [] None = Inl (Exc PyOSError ''socket.getaddrinfo returned an empty list'')"
| "tcp_try (AttemptOk evs # _) err = Inr evs"
| "tcp_try (AttemptFail e # atts) err = (if is_exc e PyOSError then tcp_try atts (Some e) else Inl e)"

definition tcp_connect :: "('z conn_scheme, nat \<times> recv_event list) io" where
  "tcp_connect s =
     (case dials s of
        [] \<Rightarrow> None
      | Inl e # ds \<Rightarrow> Some (Inl e, s\<lparr>dials := ds\<rparr>)
      | Inr atts # ds \<Rightarrow>
          (case tcp_try atts None of
             Inl e \<Rightarrow> Some (Inl e, s\<lparr>dials := ds\<rparr>)
           | Inr evs \<Rightarrow> Some (Inr (next_sock s, evs), s\<lparr>dials := ds, next_sock := Suc (next_sock s)\<rparr>)))"

section \<open>Disconnecting, sending, reading\<close>

text \<open>\<open>_RESPBase.on_connect\<close>: a fresh buffer on the socket.\<close>

definition parser_on_connect :: "'z conn_scheme \<Rightarrow> 'z conn_scheme" where
  "parser_on_connect s =
     (case c_sock s of
        None \<Rightarrow> s
      | Some (_, evs) \<Rightarrow>
          s\<lparr>sbuf := Some (sb_init (case sbuf s of None \<Rightarrow> evs | Some b \<Rightarrow> script b) (c_socket_timeout s))\<rparr>)"

text \<open>\<open>disconnect\<close>: errors of \<open>shutdown\<close> and \<open>close\<close> are ignored; only the process that opened the socket shuts
  it down.\<close>

definition conn_disconnect :: "'z conn_scheme \<Rightarrow> 'z conn_scheme" where
  "conn_disconnect s =
     (let s1 = s\<lparr>sbuf := None, c_sock := None\<rparr> in
      case c_sock s of
        None \<Rightarrow> s1
      | Some (i, _) \<Rightarrow> s1\<lparr>closed := closed s1 @ [(i, os_pid s = c_pid s)]\<rparr>)"

definition no_attribute :: exc where
  "no_attribute = Exc PyAttributeError ''NoneType object has no attribute''"

definition exc_args :: "exc \<Rightarrow> string list" where
  "exc_args e = (if exc_msg e = [] then [] else [exc_msg e])"

definition format_error_message :: "string \<Rightarrow> string list \<Rightarrow> string" where
  "format_error_message host_error args =
     (case args of
        [] \<Rightarrow> ''Error connecting to '' @ host_error @ ''.''
      | [a] \<Rightarrow> ''Error '' @ a @ '' connecting to '' @ host_error @ ''.''
      | a # b # _ \<Rightarrow> ''Error '' @ a @ '' connecting to '' @ host_error @ ''. '' @ b @ ''.'')"

text \<open>The error raised for an \<open>OSError\<close> of \<open>sendall\<close>; one without arguments makes \<open>e.args[0]\<close> fail.\<close>

definition write_error :: "string list \<Rightarrow> exc" where
  "write_error args =
     (case args of
        [] \<Rightarrow> Exc PyIndexError ''tuple index out of range''
      | [m] \<Rightarrow> Exc ConnectionError (''Error UNKNOWN while writing to socket. '' @ m @ ''.'')
      | n # m # _ \<Rightarrow> Exc ConnectionError (''Error '' @ n @ '' while writing to socket. '' @ m @ ''.''))"

definition sendall :: "pyval \<Rightarrow> ('z conn_scheme, unit) io" where
  "sendall item s =
     (case c_sock s of
        None \<Rightarrow> Some (Inl no_attribute, s)
      | Some (i, _) \<Rightarrow>
          (case (case sends s of [] \<Rightarrow> None | ev # _ \<Rightarrow> send_exc ev) of
             Some e \<Rightarrow> Some (Inl e, s\<lparr>sends := tl (sends s)\<rparr>)
           | None \<Rightarrow> Some (Inr (), s\<lparr>sends := tl (sends s), sent := sent s @ [(i, raw_bytes item)]\<rparr>)))"

fun sendall_items :: "pyval list \<Rightarrow> ('z conn_scheme, unit) io" where
  "sendall_items [] = io_ret ()"
| "sendall_items (x # xs) = io_seq (sendall x) (sendall_items xs)"

definition send_chunks :: "pyval list \<Rightarrow> ('z conn_scheme, unit) io" where
  "send_chunks command =
     io_try (sendall_items command) (\<lambda>e. io_seq (io_upd conn_disconnect) (io_raise
       (if is_exc e PySocketTimeout then Exc TimeoutError ''Timeout writing to socket''
        else if is_exc e PyOSError then write_error (exc_args e)
        else e)))"

definition lift_buf :: "(sockbuf, 'a) io \<Rightarrow> ('z conn_scheme, 'a) io" where
  "lift_buf m s =
     (case sbuf s of
        None \<Rightarrow> Some (Inl no_attribute, s)
      | Some b \<Rightarrow> (case m b of None \<Rightarrow> None | Some (r, b') \<Rightarrow> Some (r, s\<lparr>sbuf := Some b'\<rparr>)))"

definition conn_parser :: "'z conn_env \<Rightarrow> 'z conn_scheme \<Rightarrow> 'z conn_scheme parser" where
  "conn_parser env s =
     \<lparr> p_readline = lift_buf sb_readline, p_read = (\<lambda>n. lift_buf (sb_read n)), p_classes = c_classes s,
       p_encoder = e_encoder env, p_empty_raises = True, p_conn_error = id, p_float = e_float env,
       p_push = e_push env \<rparr>"

text \<open>\<open>read_response\<close> of the parser, with its rewinding and purging.\<close>

definition conn_with_rewind :: "('z conn_scheme, pyval) io \<Rightarrow> ('z conn_scheme, pyval) io" where
  "conn_with_rewind body s =
     (let pos = (case sbuf s of None \<Rightarrow> 0 | Some b \<Rightarrow> get_pos b) in
      case body s of
        None \<Rightarrow> None
      | Some (Inl e, s') \<Rightarrow> Some (Inl e, s'\<lparr>sbuf := map_option (rewind pos) (sbuf s')\<rparr>)
      | Some (Inr v, s') \<Rightarrow>
          (case sbuf s' of
             None \<Rightarrow> Some (Inl no_attribute, s')
           | Some b \<Rightarrow> Some (Inr v, s'\<lparr>sbuf := Some (purge b)\<rparr>)))"

text \<open>Fuel for the parser: more than the bytes there are to read.\<close>

definition read_fuel :: "'z conn_scheme \<Rightarrow> nat" where
  "read_fuel s = (case sbuf s of None \<Rightarrow> 1 | Some b \<Rightarrow> Suc (length (buf b) + length (received (script b))))"

text \<open>The call of the parser: only a connection of protocol 3 passes \<open>push_request\<close>, which a RESP2 parser does
  not accept.\<close>

definition parser_read :: "'z conn_env \<Rightarrow> bool \<Rightarrow> bool \<Rightarrow> ('z conn_scheme, pyval) io" where
  "parser_read env disable_decoding push_request =
     io_get (\<lambda>s.
       if c_resp3 s
       then conn_with_rewind (resp3_read (read_fuel s) (conn_parser env s) disable_decoding
              (if c_protocol s = 3 then push_request else False))
       else if c_protocol s = 3
       then io_raise (Exc PyTypeError ''read_response() got an unexpected keyword argument'')
       else conn_with_rewind (resp2_read (read_fuel s) (conn_parser env s) disable_decoding))"

definition conn_read_response :: "'z conn_env \<Rightarrow> bool \<Rightarrow> bool \<Rightarrow> bool \<Rightarrow> ('z conn_scheme, pyval) io" where
  "conn_read_response env disable_decoding disconnect_on_error push_request =
     io_bind
       (io_try (parser_read env disable_decoding push_request) (\<lambda>e.
          io_seq (io_when disconnect_on_error (io_upd conn_disconnect)) (io_raise
            (if is_exc e PySocketTimeout then Exc TimeoutError (''Timeout reading from '' @ e_host_error env)
             else if is_exc e PyOSError
             then Exc ConnectionError (''Error while reading from '' @ e_host_error env @ '' : '' @ exc_msg e)
             else e))))
       (\<lambda>response. io_seq
          (io_get (\<lambda>s. io_when (c_health_check_interval s \<noteq> 0)
             (io_bind (conn_now env) (\<lambda>now. io_upd (\<lambda>s. s\<lparr>c_next_health_check := now + c_health_check_interval s\<rparr>)))))
          (case response of PExc e \<Rightarrow> if is_exc e ResponseError then io_raise e else io_ret response
           | _ \<Rightarrow> io_ret response))"

section \<open>Connecting\<close>

text \<open>Sending and connecting call each other: a command sent on a closed connection connects first, and
  connecting sends the handshake.  \<open>rc\<close> stands for \<open>connect_check_health\<close> below.\<close>

definition send_unchecked :: "(bool \<Rightarrow> ('z conn_scheme, unit) io) \<Rightarrow> pyval list \<Rightarrow> ('z conn_scheme, unit) io" where
  "send_unchecked rc command =
     io_seq (io_get (\<lambda>s. io_when (c_sock s = None) (rc False))) (send_chunks command)"

definition pack_command :: "'z conn_env \<Rightarrow> pyval list \<Rightarrow> ('z conn_scheme, pyval list) io" where
  "pack_command env args = io_get (\<lambda>s. io_lift (pack (e_encoder env) (c_buffer_cutoff s) args))"

definition send_ping :: "'z conn_env \<Rightarrow> (bool \<Rightarrow> ('z conn_scheme, unit) io) \<Rightarrow> ('z conn_scheme, unit) io" where
  "send_ping env rc =
     io_seq (io_bind (pack_command env [PStr ''PING'']) (send_unchecked rc))
       (io_bind (conn_read_response env False True False) (\<lambda>r.
          if str_if_bytes r \<noteq> PStr ''PONG''
          then io_raise (Exc ConnectionError ''Bad response from PING health check'') else io_ret ()))"

definition check_health_with ::
  "'z conn_env \<Rightarrow> (bool \<Rightarrow> ('z conn_scheme, unit) io) \<Rightarrow> ('z conn_scheme, unit) io" where
  "check_health_with env rc =
     io_get (\<lambda>s. io_when (c_health_check_interval s \<noteq> 0)
       (io_bind (conn_now env) (\<lambda>now. io_get (\<lambda>s.
          io_when (now > c_next_health_check s)
            (with_retry env (send_ping env rc) (\<lambda>_. io_upd conn_disconnect))))))"

definition send_packed_with ::
  "'z conn_env \<Rightarrow> (bool \<Rightarrow> ('z conn_scheme, unit) io) \<Rightarrow> pyval list \<Rightarrow> bool \<Rightarrow> ('z conn_scheme, unit) io" where
  "send_packed_with env rc command check_health =
     io_seq (io_get (\<lambda>s. io_when (c_sock s = None) (rc False)))
       (io_seq (io_when check_health (check_health_with env rc)) (send_chunks command))"

definition send_command_with ::
  "'z conn_env \<Rightarrow> (bool \<Rightarrow> ('z conn_scheme, unit) io) \<Rightarrow> pyval list \<Rightarrow> bool \<Rightarrow> ('z conn_scheme, unit) io" where
  "send_command_with env rc args check_health =
     io_bind (pack_command env args) (\<lambda>command. send_packed_with env rc command check_health)"

section \<open>The handshake\<close>

text \<open>\<open>UsernamePasswordCredentialProvider.get_credentials\<close>.\<close>

definition or_empty :: "pyval \<Rightarrow> pyval" where
  "or_empty v = (if truthy v then v else PStr [])"

definition static_credentials :: "pyval \<Rightarrow> pyval \<Rightarrow> pyval list" where
  "static_credentials username password =
     (if truthy (or_empty username) then [or_empty username, or_empty password] else [or_empty password])"

definition get_auth_args :: "'z conn_env \<Rightarrow> ('z conn_scheme, pyval list) io" where
  "get_auth_args env s =
     (if c_has_provider s then Some (e_cred env (ticks s), s\<lparr>ticks := Suc (ticks s)\<rparr>)
      else if truthy (c_username s) \<or> truthy (c_password s)
      then Some (Inr (static_credentials (c_username s) (c_password s)), s)
      else Some (Inr [], s))"

text \<open>\<open>set_parser(_RESP3Parser)\<close> and its \<open>on_connect\<close>, when the parser is a RESP2 one.\<close>

definition switch_to_resp3 :: "'z conn_scheme \<Rightarrow> 'z conn_scheme" where
  "switch_to_resp3 s = (if c_resp3 s then s else parser_on_connect (s\<lparr>c_resp3 := True\<rparr>))"

definition expect_ok :: "exc \<Rightarrow> pyval \<Rightarrow> ('z conn_scheme, unit) io" where
  "expect_ok e r = (if str_if_bytes r \<noteq> PStr ''OK'' then io_raise e else io_ret ())"

text \<open>\<open>handshake_metadata.get(b"proto") != self.protocol and ...get("proto") != ...\<close>: only a dictionary has
  \<open>get\<close>.\<close>

definition check_proto :: "int \<Rightarrow> pyval \<Rightarrow> exc option" where
  "check_proto p md =
     (case md of
        PDict d \<Rightarrow>
          if dict_get d (PBytes ''proto'') \<noteq> Some (PInt p) \<and> dict_get d (PStr ''proto'') \<noteq> Some (PInt p)
          then Some (Exc ConnectionError ''Invalid RESP version'') else None
      | _ \<Rightarrow> Some no_attribute)"

text \<open>A reply without \<open>proto\<close> is \<open>None\<close> on both sides, which differs from the protocol as well.\<close>

definition auth_hello ::
  "'z conn_env \<Rightarrow> (bool \<Rightarrow> ('z conn_scheme, unit) io) \<Rightarrow> pyval list \<Rightarrow> ('z conn_scheme, unit) io" where
  "auth_hello env rc auth_args =
     io_seq (io_upd switch_to_resp3) (io_get (\<lambda>s.
       let args = (case auth_args of [p] \<Rightarrow> [PStr ''default'', p] | _ \<Rightarrow> auth_args) in
       io_seq (send_command_with env rc ([PStr ''HELLO'', PInt (c_protocol s), PStr ''AUTH''] @ args) False)
         (io_bind (conn_read_response env False True False) (\<lambda>md.
            io_upd (\<lambda>s. s\<lparr>c_handshake_metadata := md\<rparr>)))))"

definition auth_plain ::
  "'z conn_env \<Rightarrow> (bool \<Rightarrow> ('z conn_scheme, unit) io) \<Rightarrow> pyval list \<Rightarrow> ('z conn_scheme, unit) io" where
  "auth_plain env rc auth_args =
     io_seq (send_command_with env rc (PStr ''AUTH'' # auth_args) False)
       (io_bind
         (io_try (conn_read_response env False True False) (\<lambda>e.
            if is_exc e AuthenticationWrongNumberOfArgsError
            then io_seq (send_command_with env rc [PStr ''AUTH'', last auth_args] False)
                   (conn_read_response env False True False)
            else io_raise e))
         (expect_ok (Exc AuthenticationError ''Invalid Username or Password'')))"

definition hello_plain ::
  "'z conn_env \<Rightarrow> (bool \<Rightarrow> ('z conn_scheme, unit) io) \<Rightarrow> bool \<Rightarrow> ('z conn_scheme, unit) io" where
  "hello_plain env rc check_health =
     io_seq (io_upd switch_to_resp3) (io_get (\<lambda>s.
       io_seq (send_command_with env rc [PStr ''HELLO'', PInt (c_protocol s)] check_health)
         (io_bind (conn_read_response env False True False) (\<lambda>md.
            io_seq (io_upd (\<lambda>s. s\<lparr>c_handshake_metadata := md\<rparr>))
              (case check_proto (c_protocol s) md of None \<Rightarrow> io_ret () | Some e \<Rightarrow> io_raise e)))))"

definition set_client_name ::
  "'z conn_env \<Rightarrow> (bool \<Rightarrow> ('z conn_scheme, unit) io) \<Rightarrow> bool \<Rightarrow> ('z conn_scheme, unit) io" where
  "set_client_name env rc check_health =
     io_get (\<lambda>s. io_when (truthy (c_client_name s))
       (io_seq (send_command_with env rc [PStr ''CLIENT'', PStr ''SETNAME'', c_client_name s] check_health)
         (io_bind (conn_read_response env False True False)
            (expect_ok (Exc ConnectionError ''Error setting client name'')))))"

text \<open>The library name and version are optional: an error reply is ignored.\<close>

definition set_info ::
  "'z conn_env \<Rightarrow> (bool \<Rightarrow> ('z conn_scheme, unit) io) \<Rightarrow> bool \<Rightarrow> string \<Rightarrow> ('z conn_scheme \<Rightarrow> pyval) \<Rightarrow>
   ('z conn_scheme, unit) io" where
  "set_info env rc check_health attr val =
     io_try (io_get (\<lambda>s. io_when (truthy (val s))
       (io_seq (send_command_with env rc [PStr ''CLIENT'', PStr ''SETINFO'', PStr attr, val s] check_health)
         (io_bind (conn_read_response env False True False) (\<lambda>_. io_ret ())))))
       (\<lambda>e. if is_exc e ResponseError then io_ret () else io_raise e)"

definition select_db ::
  "'z conn_env \<Rightarrow> (bool \<Rightarrow> ('z conn_scheme, unit) io) \<Rightarrow> bool \<Rightarrow> ('z conn_scheme, unit) io" where
  "select_db env rc check_health =
     io_get (\<lambda>s. io_when (truthy (c_db s))
       (io_seq (send_command_with env rc [PStr ''SELECT'', c_db s] check_health)
         (io_bind (conn_read_response env False True False)
            (expect_ok (Exc ConnectionError ''Invalid Database'')))))"

definition authenticate ::
  "'z conn_env \<Rightarrow> (bool \<Rightarrow> ('z conn_scheme, unit) io) \<Rightarrow> bool \<Rightarrow> ('z conn_scheme, unit) io" where
  "authenticate env rc check_health =
     io_bind (get_auth_args env) (\<lambda>auth_args. io_get (\<lambda>s.
       if auth_args \<noteq> [] \<and> c_protocol s \<noteq> 2 then auth_hello env rc auth_args
       else if auth_args \<noteq> [] then auth_plain env rc auth_args
       else if c_protocol s \<noteq> 2 then hello_plain env rc check_health
       else io_ret ()))"

definition on_connect_with ::
  "'z conn_env \<Rightarrow> (bool \<Rightarrow> ('z conn_scheme, unit) io) \<Rightarrow> bool \<Rightarrow> ('z conn_scheme, unit) io" where
  "on_connect_with env rc check_health =
     io_seq (io_upd parser_on_connect)
       (io_seq (authenticate env rc check_health)
         (io_seq (set_client_name env rc check_health)
           (io_seq (set_info env rc check_health ''LIB-NAME'' c_lib_name)
             (io_seq (set_info env rc check_health ''LIB-VER'' c_lib_version)
               (select_db env rc check_health)))))"

fun run_callbacks :: "'z conn_env \<Rightarrow> nat list \<Rightarrow> ('z conn_scheme, unit) io" where
  "run_callbacks env [] = io_ret ()"
| "run_callbacks env (cb # cbs) = io_seq (e_callback env cb) (run_callbacks env cbs)"

definition open_socket :: "'z conn_env \<Rightarrow> ('z conn_scheme, unit) io" where
  "open_socket env =
     io_bind
       (io_try (with_retry env tcp_connect (\<lambda>_. io_upd conn_disconnect)) (\<lambda>e. io_raise
          (if is_exc e PySocketTimeout then Exc TimeoutError ''Timeout connecting to server''
           else if is_exc e PyOSError
           then Exc ConnectionError (format_error_message (e_host_error env) (exc_args e))
           else e)))
       (\<lambda>sock. io_upd (\<lambda>s. s\<lparr>c_sock := Some sock\<rparr>))"

definition connect_body ::
  "'z conn_env \<Rightarrow> (bool \<Rightarrow> ('z conn_scheme, unit) io) \<Rightarrow> bool \<Rightarrow> ('z conn_scheme, unit) io" where
  "connect_body env rc check_health =
     io_get (\<lambda>s. io_when (c_sock s = None)
       (io_seq (open_socket env)
         (io_seq
           (io_try (case e_connect_func env of None \<Rightarrow> on_connect_with env rc check_health | Some f \<Rightarrow> f)
             (\<lambda>e. io_seq (io_when (is_exc e RedisError) (io_upd conn_disconnect)) (io_raise e)))
           (io_get (\<lambda>s. run_callbacks env (c_callbacks s))))))"

primrec connect_fuel :: "nat \<Rightarrow> 'z conn_env \<Rightarrow> bool \<Rightarrow> ('z conn_scheme, unit) io" where
  "connect_fuel 0 env = (\<lambda>check_health s. None)"
| "connect_fuel (Suc n) env = connect_body env (connect_fuel n env)"

text \<open>Connecting with a health check may connect again without one, and no further: two levels are enough (the
  theorem below).\<close>

definition connect_check_health :: "'z conn_env \<Rightarrow> bool \<Rightarrow> ('z conn_scheme, unit) io" where
  "connect_check_health env = connect_fuel 2 env"

definition conn_connect :: "'z conn_env \<Rightarrow> ('z conn_scheme, unit) io" where
  "conn_connect env = connect_check_health env True"

section \<open>The public operations\<close>

definition conn_check_health :: "'z conn_env \<Rightarrow> ('z conn_scheme, unit) io" where
  "conn_check_health env = check_health_with env (connect_check_health env)"

definition conn_send_packed_command :: "'z conn_env \<Rightarrow> pyval list \<Rightarrow> bool \<Rightarrow> ('z conn_scheme, unit) io" where
  "conn_send_packed_command env = send_packed_with env (connect_check_health env)"

definition conn_send_command :: "'z conn_env \<Rightarrow> pyval list \<Rightarrow> bool \<Rightarrow> ('z conn_scheme, unit) io" where
  "conn_send_command env = send_command_with env (connect_check_health env)"

definition conn_can_read :: "'z conn_env \<Rightarrow> int option \<Rightarrow> ('z conn_scheme, bool) io" where
  "conn_can_read env timeout =
     io_seq (io_get (\<lambda>s. io_when (c_sock s = None) (conn_connect env)))
       (io_try (io_get (\<lambda>s. if sbuf s = None then io_ret False else lift_buf (can_read timeout)))
         (\<lambda>e. if is_exc e PyOSError
              then io_seq (io_upd conn_disconnect)
                (io_raise (Exc ConnectionError (''Error while reading from '' @ e_host_error env @ '': '' @ exc_msg e)))
              else io_raise e))"

definition set_re_auth_token :: "pyval \<times> pyval \<Rightarrow> 'z conn_scheme \<Rightarrow> 'z conn_scheme" where
  "set_re_auth_token token s = s\<lparr>c_re_auth_token := Some token\<rparr>"

definition re_auth :: "'z conn_env \<Rightarrow> ('z conn_scheme, unit) io" where
  "re_auth env =
     io_get (\<lambda>s. case c_re_auth_token s of
        None \<Rightarrow> io_ret ()
      | Some (oid, token) \<Rightarrow>
          io_seq (conn_send_command env [PStr ''AUTH'', oid, token] True)
            (io_seq (conn_read_response env False True False)
              (io_upd (\<lambda>s. s\<lparr>c_re_auth_token := None\<rparr>))))"

end
