(* ===== verification/Connection_Spec.thy ===== *)
theory Connection_Spec
  imports Connection
begin

text \<open>
  What the operations of \<open>AbstractConnection\<close> guarantee: the parser never raises an error reply, so that only a
  broken stream closes the connection; the handshake sends the commands the configuration asks for; connecting
  never nests more than two levels deep.
\<close>

section \<open>Which exceptions leave the parser\<close>

definition io_raises :: "(exc \<Rightarrow> bool) \<Rightarrow> ('s, 'a) io \<Rightarrow> bool" where
  "io_raises N m \<longleftrightarrow> (\<forall>s e s'. m s = Some (Inl e, s') \<longrightarrow> N e)"

named_theorems io_raises_intros \<open>composition rules for the exceptions raised\<close>

lemma io_raises_ret [io_raises_intros]: "io_raises N (io_ret x)"
  and io_raises_raise [io_raises_intros]: "N e \<Longrightarrow> io_raises N (io_raise e)"
  and io_raises_lift [io_raises_intros]: "(\<And>e. r = Inl e \<Longrightarrow> N e) \<Longrightarrow> io_raises N (io_lift r)"
  and io_raises_none [io_raises_intros]: "io_raises N (\<lambda>s. None)"
  by (auto simp: io_raises_def io_defs)

lemma io_raises_bind [io_raises_intros]:
  "io_raises N m \<Longrightarrow> (\<And>x. io_raises N (f x)) \<Longrightarrow> io_raises N (io_bind m f)"
  unfolding io_raises_def by (blast elim: io_bind_SomeE)

lemma io_raises_if [io_raises_intros]:
  "(b \<Longrightarrow> io_raises N m) \<Longrightarrow> (\<not> b \<Longrightarrow> io_raises N n) \<Longrightarrow> io_raises N (if b then m else n)"
  by simp

lemma io_raises_replicate [io_raises_intros]: "io_raises N m \<Longrightarrow> io_raises N (io_replicate k m)"
  by (induction k) (auto intro!: io_raises_intros)

lemma io_raises_read_map [io_raises_intros]:
  "io_raises N a \<Longrightarrow> io_raises N b \<Longrightarrow> (\<And>v. N (unhashable v)) \<Longrightarrow> io_raises N (io_read_map k a b d)"
  by (induction k arbitrary: d) (auto intro!: io_raises_intros)

text \<open>An error reply is never raised by the parser itself: it returns it.\<close>

abbreviation not_reply_error :: "exc \<Rightarrow> bool" where
  "not_reply_error e \<equiv> \<not> is_exc e ResponseError"

lemma connection_error_no_reply: "is_exc e ConnectionError \<Longrightarrow> not_reply_error e"
proof -
  have "exc_isinstance c ConnectionError \<Longrightarrow> \<not> exc_isinstance c ResponseError" for c
    by (cases c) (simp_all add: exc_isinstance_def numeral_eq_Suc)
  then show "is_exc e ConnectionError \<Longrightarrow> not_reply_error e" by (simp add: is_exc_def)
qed


lemma parse_error_Inl: "parse_error cls r = Inl e \<Longrightarrow> not_reply_error e"
proof -
  have "\<not> exc_isinstance PyValueError ResponseError" by code_simp
  then show "parse_error cls r = Inl e \<Longrightarrow> not_reply_error e"
    by (auto simp: parse_error_def new_exc_def Let_def is_exc_def split: option.splits exc_entry.splits if_splits)
qed

lemma io_raises_error_reply [io_raises_intros]: "io_raises not_reply_error (error_reply P b)"
  by (auto simp: io_raises_def error_reply_def io_bind_def io_lift_def io_raise_def io_ret_def
      dest: connection_error_no_reply parse_error_Inl split: sum.splits if_splits)

text \<open>A codec that raises no error reply.\<close>

definition codec_ok :: "encoder \<Rightarrow> bool" where
  "codec_ok E \<longleftrightarrow> (\<forall>b e. decode_bytes E b = Inl e \<longrightarrow> not_reply_error e)
     \<and> (\<forall>s e. encode_str E s = Inl e \<longrightarrow> not_reply_error e)"

lemma codec_ok_utf8 [simp]: "codec_ok (utf8_encoder d)"
proof -
  have "\<not> exc_isinstance PyUnicodeDecodeError ResponseError" by code_simp
  then show ?thesis by (auto simp: codec_ok_def utf8_encoder_def is_exc_def split: option.splits)
qed

lemma io_raises_decode [io_raises_intros]:
  "codec_ok (p_encoder P) \<Longrightarrow> io_raises not_reply_error (io_lift (decode_reply P dd v))"
  by (rule io_raises_lift, cases v)
    (auto simp: decode_reply_def codec_ok_def map_sum_def split: if_splits sum.splits)

lemma builtin_no_reply [simp]:
  "not_reply_error value_error" "not_reply_error server_closed" "not_reply_error (protocol_error r)"
  "not_reply_error (unhashable v)" "not_reply_error no_attribute" "not_reply_error (Exc PyTypeError m)"
  "not_reply_error (Exc PyIndexError m)" "not_reply_error (Exc ConnectionError m)" "not_reply_error (Exc TimeoutError m)"
  "not_reply_error (Exc PyOSError m)" "not_reply_error (Exc PySocketTimeout m)" "not_reply_error (Exc PyBaseException m)"
  "not_reply_error (Exc AuthenticationError m)"
  by (simp_all add: value_error_def server_closed_def protocol_error_def unhashable_def no_attribute_def is_exc_def
      exc_isinstance_def numeral_eq_Suc)

lemma io_raises_int_of [io_raises_intros]: "io_raises not_reply_error (io_lift (int_of b))"
  by (rule io_raises_lift) (auto simp: int_of_def split: option.splits)

lemma io_raises_float [io_raises_intros]: "io_raises not_reply_error (io_lift (float_reply P b))"
  by (rule io_raises_lift) (auto simp: float_reply_def split: option.splits)

definition parser_ok :: "'s parser \<Rightarrow> bool" where
  "parser_ok P \<longleftrightarrow> io_raises not_reply_error (p_readline P) \<and> (\<forall>n. io_raises not_reply_error (p_read P n))
     \<and> codec_ok (p_encoder P) \<and> (\<forall>xs. io_raises not_reply_error (p_push P xs))"

lemma resp2_read_raises: "parser_ok P \<Longrightarrow> io_raises not_reply_error (resp2_read f P dd)"
  by (induction f) (auto simp: resp2_body_def Let_def parser_ok_def intro!: io_raises_intros)

lemma resp3_read_raises: "parser_ok P \<Longrightarrow> io_raises not_reply_error (resp3_read f P dd pr)"
  by (induction f arbitrary: pr) (auto simp: resp3_body_def Let_def parser_ok_def intro!: io_raises_intros)

lemma recv_loop_raises:
  "recv_loop len m rt b evs = Some (Inl e, b', evs') \<Longrightarrow> not_reply_error e"
  by (induction len m rt b evs arbitrary: b' evs' rule: recv_loop.induct)
    (auto simp: Let_def split: if_splits option.splits bool.splits)

lemma read_from_socket_raises: "io_raises not_reply_error (read_from_socket len t rt)"
  by (auto simp: io_raises_def read_from_socket_def Let_def dest: recv_loop_raises
      split: option.splits if_splits)

lemma readline_loop_raises: "readline_loop d s = Some (Inl e, s') \<Longrightarrow> not_reply_error e"
proof (induction d s rule: readline_loop.induct)
  case (1 data s)
  note step = "1.prems" [unfolded readline_loop.simps [of data s]]
  show ?case
  proof (cases "ends_with data SYM_CRLF")
    case False
    then obtain r s1 where r: "read_from_socket None None True s = Some (r, s1)" using step by (auto split: option.splits)
    show ?thesis
    proof (cases r)
      case (Inl x)
      then have "x = e" using step r False by simp
      then show ?thesis using r Inl read_from_socket_raises [of None None True] by (auto simp: io_raises_def)
    next
      case (Inr y)
      obtain more s2 where m: "bio_readline s1 = (more, s2)" by fastforce
      then have "readline_loop (data @ more) s2 = Some (Inl e, s')" using step r Inr False by simp
      then show ?thesis using "1.IH" [OF False r refl Inr m [symmetric] refl] by blast
    qed
  qed (use step in simp)
qed

lemma sb_ops_raise: "io_raises not_reply_error sb_readline" "io_raises not_reply_error (sb_read n)"
  by (auto simp: io_raises_def sb_readline_def sb_read_def Let_def case_prod_unfold
      dest: readline_loop_raises read_from_socket_raises [unfolded io_raises_def, rule_format]
      split: if_splits option.splits sum.splits)

section \<open>What a read leaves alone\<close>

text \<open>\<open>conn_kept\<close>: only the read buffer and the attributes of an extension may differ.\<close>

definition conn_kept :: "'z conn_scheme \<Rightarrow> 'z conn_scheme \<Rightarrow> bool" where
  "conn_kept s s' \<longleftrightarrow> conn.truncate (s'\<lparr>sbuf := None\<rparr>) = conn.truncate (s\<lparr>sbuf := None\<rparr>)"

lemma conn_kept_rel [simp]: "conn_kept s s" "reflp conn_kept" "transp conn_kept"
  by (auto simp: reflp_def transp_def conn_kept_def)

lemma conn_kept_sbuf: "conn_kept s (s'\<lparr>sbuf := b\<rparr>) = conn_kept s s'"
  by (simp add: conn_kept_def)

lemma lift_buf_kept: "io_pres conn_kept (lift_buf m)"
  by (auto simp: io_pres_def lift_buf_def conn_kept_sbuf split: option.splits prod.splits)

definition env_ok :: "'z conn_env \<Rightarrow> bool" where
  "env_ok env \<longleftrightarrow> codec_ok (e_encoder env) \<and> (\<forall>xs. io_raises not_reply_error (e_push env xs) \<and> io_pres conn_kept (e_push env xs))"

lemma conn_parser_ok: "env_ok env \<Longrightarrow> parser_ok (conn_parser env s)"
proof -
  have lift: "io_raises not_reply_error m \<Longrightarrow> io_raises not_reply_error (lift_buf m)"
    for m :: "(sockbuf, bytes) io"
    by (auto simp: io_raises_def lift_buf_def split: option.splits prod.splits)
  show "env_ok env \<Longrightarrow> parser_ok (conn_parser env s)"
    by (simp add: parser_ok_def conn_parser_def env_ok_def lift sb_ops_raise)
qed

lemma resp2_read_conn_kept: "env_ok env \<Longrightarrow> io_pres conn_kept (resp2_read f (conn_parser env s) dd)"
  by (induction f)
    (auto simp: resp2_body_def Let_def conn_parser_def env_ok_def intro!: io_pres_intros lift_buf_kept)

lemma resp3_read_conn_kept: "env_ok env \<Longrightarrow> io_pres conn_kept (resp3_read f (conn_parser env s) dd pr)"
  by (induction f arbitrary: pr)
    (auto simp: resp3_body_def Let_def conn_parser_def env_ok_def intro!: io_pres_intros lift_buf_kept)

lemma conn_with_rewind_kept: "io_pres conn_kept m \<Longrightarrow> io_pres conn_kept (conn_with_rewind m)"
  by (auto simp: io_pres_def conn_with_rewind_def Let_def conn_kept_sbuf split: option.splits sum.splits prod.splits)

lemma conn_with_rewind_raises: "io_raises not_reply_error m \<Longrightarrow> io_raises not_reply_error (conn_with_rewind m)"
  by (auto simp: io_raises_def conn_with_rewind_def Let_def split: option.splits sum.splits prod.splits)

lemma parser_read_kept: "env_ok env \<Longrightarrow> parser_read env dd pr s = Some (r, s') \<Longrightarrow> conn_kept s s'"
  using conn_with_rewind_kept [OF resp2_read_conn_kept] conn_with_rewind_kept [OF resp3_read_conn_kept]
  by (fastforce simp: parser_read_def io_get_def io_pres_def io_raise_def split: if_splits)

lemma parser_read_raises:
  "env_ok env \<Longrightarrow> parser_read env dd pr s = Some (Inl e, s') \<Longrightarrow> not_reply_error e"
  using conn_with_rewind_raises [OF resp2_read_raises [OF conn_parser_ok]]
    conn_with_rewind_raises [OF resp3_read_raises [OF conn_parser_ok]]
  by (fastforce simp: parser_read_def io_get_def io_raises_def io_raise_def split: if_splits)

lemma conn_kept_fields:
  assumes "conn_kept s s'"
  shows "c_sock s' = c_sock s" "c_protocol s' = c_protocol s" "sent s' = sent s"
    "c_buffer_cutoff s' = c_buffer_cutoff s" "c_health_check_interval s' = c_health_check_interval s"
    "c_client_name s' = c_client_name s" "c_lib_name s' = c_lib_name s" "c_lib_version s' = c_lib_version s"
    "c_db s' = c_db s" "c_callbacks s' = c_callbacks s" "c_next_health_check s' = c_next_health_check s"
    "c_resp3 s' = c_resp3 s" "closed s' = closed s" "c_classes s' = c_classes s"
    "c_username s' = c_username s" "c_password s' = c_password s" "c_has_provider s' = c_has_provider s"
  using assms by (auto simp: conn_kept_def conn.truncate_def)

section \<open>Reading a reply\<close>

lemma conn_disconnect_fields [simp]:
  "c_sock (conn_disconnect s) = None" "sbuf (conn_disconnect s) = None" "sent (conn_disconnect s) = sent s"
  by (auto simp: conn_disconnect_def Let_def split: option.splits)

text \<open>How \<open>read_response\<close> ends: with the reply; with the error reply raised, the connection open; or with an
  error of the stream, the connection closed (or, on request, left open).\<close>

definition reply_result :: "pyval \<Rightarrow> exc + pyval" where
  "reply_result v = (case v of PExc e \<Rightarrow> if is_exc e ResponseError then Inl e else Inr v | _ \<Rightarrow> Inr v)"

definition stream_error :: "'z conn_env \<Rightarrow> exc \<Rightarrow> exc" where
  "stream_error env e =
     (if is_exc e PySocketTimeout then Exc TimeoutError (''Timeout reading from '' @ e_host_error env)
      else if is_exc e PyOSError
      then Exc ConnectionError (''Error while reading from '' @ e_host_error env @ '' : '' @ exc_msg e)
      else e)"

definition note_health :: "'z conn_env \<Rightarrow> 'z conn_scheme \<Rightarrow> 'z conn_scheme" where
  "note_health env s =
     (if c_health_check_interval s \<noteq> 0
      then s\<lparr>ticks := Suc (ticks s), c_next_health_check := e_time env (ticks s) + c_health_check_interval s\<rparr>
      else s)"

lemma conn_read_response_eq:
  "conn_read_response env dd de pr s =
     (case parser_read env dd pr s of
        None \<Rightarrow> None
      | Some (Inl e, s1) \<Rightarrow> Some (Inl (stream_error env e), if de then conn_disconnect s1 else s1)
      | Some (Inr v, s1) \<Rightarrow> Some (reply_result v, note_health env s1))"
proof -
  have health: "io_get (\<lambda>s. io_when (c_health_check_interval s \<noteq> 0)
       (io_bind (conn_now env) (\<lambda>now. io_upd (\<lambda>s. s\<lparr>c_next_health_check := now + c_health_check_interval s\<rparr>)))) t
     = Some (Inr (), note_health env t)" for t
    by (simp add: io_get_def io_when_def io_bind_def conn_now_def io_upd_def io_ret_def note_health_def)
  have fin: "(case v of PExc e \<Rightarrow> if is_exc e ResponseError then io_raise e else io_ret v | _ \<Rightarrow> io_ret v) t
     = Some (reply_result v, t)" for v and t :: "'a conn_scheme"
    by (simp add: reply_result_def io_raise_def io_ret_def split: pyval.splits)
  have wh: "io_when b (io_upd f) t = Some (Inr (), if b then f t else t)" for b f and t :: "'a conn_scheme"
    by (simp add: io_when_def io_upd_def io_ret_def)
  show ?thesis
  proof (cases "parser_read env dd pr s")
    case (Some x)
    then show ?thesis
      by (cases x; cases "fst x")
        (simp_all add: conn_read_response_def io_try_def io_seq_def io_bind_def [of "io_try _ _"] health fin
          io_bind_def [of "io_get _"] io_bind_def [of "io_when _ _"] wh io_raise_def stream_error_def)
  qed (simp add: conn_read_response_def io_bind_def io_try_def)
qed

lemma stream_error_no_reply: "not_reply_error e \<Longrightarrow> not_reply_error (stream_error env e)"
  by (simp add: stream_error_def)

lemma note_health_fields [simp]:
  "c_sock (note_health env s) = c_sock s"
  "sent (note_health env s) = sent s" "sbuf (note_health env s) = sbuf s"
  by (simp_all add: note_health_def)

section \<open>Two levels of connecting are enough\<close>

text \<open>\<open>settled s\<close>: a socket is open.  A step of the handshake \<open>settles\<close> if
  from a settled state it does not depend on how to reconnect, and stays settled when it returns or when it
  raises an error reply.\<close>

definition settled :: "'z conn_scheme \<Rightarrow> bool" where
  "settled s \<longleftrightarrow> c_sock s \<noteq> None"

definition settles :: "((bool \<Rightarrow> ('z conn_scheme, unit) io) \<Rightarrow> ('z conn_scheme, 'a) io) \<Rightarrow> bool" where
  "settles F \<longleftrightarrow> (\<forall>s. settled s \<longrightarrow>
     (\<forall>rc rc'. F rc s = F rc' s) \<and>
     (\<forall>rc r s'. F rc s = Some (r, s') \<longrightarrow> (\<forall>e. r = Inl e \<longrightarrow> is_exc e ResponseError) \<longrightarrow> settled s'))"

named_theorems settles_intros \<open>composition rules for handshake steps\<close>

lemma settles_simple [settles_intros]:
  "settles (\<lambda>rc. io_ret x)" "settles (\<lambda>rc. io_raise e)" "settles (\<lambda>rc. io_lift r)"
  by (auto simp: settles_def io_defs)

lemma settles_upd [settles_intros]: "(\<And>s. settled s \<Longrightarrow> settled (f s)) \<Longrightarrow> settles (\<lambda>rc. io_upd f)"
  by (auto simp: settles_def io_upd_def)

lemma settles_bind [settles_intros]:
  assumes F: "settles F" and G: "\<And>x. settles (G x)"
  shows "settles (\<lambda>rc. io_bind (F rc) (\<lambda>x. G x rc))"
  unfolding settles_def
proof (intro allI impI conjI)
  fix s :: "'a conn_scheme" and rc rc'
  assume s: "settled s"
  have e: "F rc s = F rc' s" using F s unfolding settles_def by blast
  show "io_bind (F rc) (\<lambda>x. G x rc) s = io_bind (F rc') (\<lambda>x. G x rc') s"
  proof (cases "F rc s")
    case (Some y)
    obtain r s1 where y: "y = (r, s1)" by fastforce
    show ?thesis
    proof (cases r)
      case (Inr x)
      then have "settled s1" using F s Some y unfolding settles_def by blast
      then have "G x rc s1 = G x rc' s1" using G unfolding settles_def by blast
      then show ?thesis using Some y Inr e by (auto simp: io_bind_def)
    qed (use Some y e in \<open>auto simp: io_bind_def\<close>)
  qed (use e in \<open>auto simp: io_bind_def\<close>)
next
  fix s :: "'a conn_scheme" and rc r s'
  assume s: "settled s" and r: "io_bind (F rc) (\<lambda>x. G x rc) s = Some (r, s')" "\<forall>e. r = Inl e \<longrightarrow> is_exc e ResponseError"
  from r(1) show "settled s'"
  proof (cases rule: io_bind_SomeE)
    case (raises e)
    then show ?thesis using F s r(2) unfolding settles_def by blast
  next
    case (continues x s1)
    then have "settled s1" using F s unfolding settles_def by blast
    then show ?thesis using G continues(2) r(2) unfolding settles_def by blast
  qed
qed

lemma settles_seq [settles_intros]: "settles F \<Longrightarrow> settles G \<Longrightarrow> settles (\<lambda>rc. io_seq (F rc) (G rc))"
  unfolding io_seq_def by (rule settles_bind)

lemma settles_get [settles_intros]: "(\<And>s. settled s \<Longrightarrow> settles (F s)) \<Longrightarrow> settles (\<lambda>rc. io_get (\<lambda>s. F s rc))"
  unfolding settles_def io_get_def by blast

lemma settles_when [settles_intros]: "(b \<Longrightarrow> settles F) \<Longrightarrow> settles (\<lambda>rc. io_when b (F rc))"
  by (cases b) (simp_all add: io_when_def settles_simple)

lemma settles_if [settles_intros]:
  "(b \<Longrightarrow> settles F) \<Longrightarrow> (\<not> b \<Longrightarrow> settles G) \<Longrightarrow> settles (\<lambda>rc. if b then F rc else G rc)"
  by (cases b) simp_all

lemma settles_try [settles_intros]:
  assumes F: "settles F" and H: "\<And>e. is_exc e ResponseError \<Longrightarrow> settles (H e)"
    and N: "\<And>e. not_reply_error e \<Longrightarrow> H e = (\<lambda>rc. io_raise e)"
  shows "settles (\<lambda>rc. io_try (F rc) (\<lambda>e. H e rc))"
  unfolding settles_def
proof (intro allI impI)
  fix s :: "'a conn_scheme"
  assume s: "settled s"
  show "(\<forall>rc rc'. io_try (F rc) (\<lambda>e. H e rc) s = io_try (F rc') (\<lambda>e. H e rc') s) \<and>
      (\<forall>rc r s'. io_try (F rc) (\<lambda>e. H e rc) s = Some (r, s') \<longrightarrow>
         (\<forall>e. r = Inl e \<longrightarrow> is_exc e ResponseError) \<longrightarrow> settled s')"
  proof (cases "F (\<lambda>_. io_ret ()) s")
    case None
    then have "F rc s = None" for rc using F s unfolding settles_def by metis
    then show ?thesis by (simp add: io_try_def)
  next
    case (Some y)
    obtain r s1 where y: "y = (r, s1)" by fastforce
    have all: "F rc s = Some (r, s1)" for rc using F s Some y unfolding settles_def by metis
    show ?thesis
    proof (cases "\<exists>e. r = Inl e \<and> not_reply_error e")
      case True
      then show ?thesis using all N by (auto simp: io_try_def io_raise_def)
    next
      case False
      then have s1: "settled s1" using F s all unfolding settles_def by blast
      show ?thesis
      proof (cases r)
        case (Inl e)
        then have "settles (H e)" using False H by blast
        then show ?thesis using all Inl s1 by (simp add: io_try_def settles_def)
      qed (use all s1 in \<open>simp add: io_try_def\<close>)
    qed
  qed
qed

lemma settles_read [settles_intros]:
  assumes "env_ok env"
  shows "settles (\<lambda>rc. conn_read_response env dd de pr)"
  unfolding settles_def
proof (intro allI impI conjI)
  fix s :: "'a conn_scheme" and r s'
  assume s: "settled s" and r: "conn_read_response env dd de pr s = Some (r, s')"
    "\<forall>e. r = Inl e \<longrightarrow> is_exc e ResponseError"
  obtain q s1 where q: "parser_read env dd pr s = Some (q, s1)" using r(1) by (auto simp: conn_read_response_eq split: option.splits)
  have k: "settled s1" using conn_kept_fields(1) [OF parser_read_kept [OF assms q]] s by (simp add: settled_def)
  show "settled s'"
  proof (cases q)
    case (Inl e)
    then have "not_reply_error e" using parser_read_raises [OF assms] q s by (auto simp: settled_def)
    then show ?thesis using r q Inl stream_error_no_reply [of e env] by (auto simp: conn_read_response_eq)
  next
    case (Inr v)
    then show ?thesis using r(1) q k by (auto simp: conn_read_response_eq settled_def)
  qed
qed simp

lemma sendall_items_fields:
  "sendall_items xs s = Some (r, s') \<Longrightarrow>
   c_sock s' = c_sock s \<and> (\<forall>e. r = Inl e \<longrightarrow> not_reply_error e)"
proof (induction xs arbitrary: s)
  case (Cons x xs)
  obtain q s1 where q: "sendall x s = Some (q, s1)"
    using Cons.prems by (cases "sendall x s") (auto simp: io_seq_def)
  have one: "c_sock s1 = c_sock s \<and> (\<forall>e. q = Inl e \<longrightarrow> not_reply_error e)"
  proof (cases "c_sock s")
    case (Some p)
    then show ?thesis using q
      by (cases p; cases "sends s"; cases "hd (sends s)") (auto simp: sendall_def)
  qed (use q in \<open>auto simp: sendall_def\<close>)
  show ?case
  proof (cases q)
    case (Inr u)
    then have "sendall_items xs s1 = Some (r, s')" using Cons.prems q by (simp add: io_seq_def)
    from Cons.IH [OF this] one show ?thesis by simp
  qed (use Cons.prems q one in \<open>auto simp: io_seq_def\<close>)
qed (auto simp: io_ret_def)

lemma write_error_no_reply [simp]: "not_reply_error (write_error a)"
  by (simp add: write_error_def split: list.splits)

lemma settles_send_chunks [settles_intros]: "settles (\<lambda>rc. send_chunks c)"
  unfolding settles_def
proof (intro allI impI conjI)
  fix s :: "'a conn_scheme" and r s'
  assume s: "settled s" and r: "send_chunks c s = Some (r, s')" "\<forall>e. r = Inl e \<longrightarrow> is_exc e ResponseError"
  obtain q s1 where q: "sendall_items c s = Some (q, s1)"
    using r(1) by (cases "sendall_items c s") (auto simp: send_chunks_def io_try_def)
  note f = sendall_items_fields [OF q]
  show "settled s'"
  proof (cases q)
    case (Inl e)
    then have "not_reply_error e" using f by simp
    then show ?thesis using r q Inl
      by (auto simp: send_chunks_def io_try_def io_seq_def io_bind_def io_upd_def io_raise_def split: if_splits)
  next
    case (Inr u)
    then show ?thesis using r(1) q f s by (auto simp: send_chunks_def io_try_def settled_def)
  qed
qed simp

lemma settles_pack [settles_intros]: "settles (\<lambda>rc. pack_command env args)"
  by (auto simp: settles_def pack_command_def io_get_def io_lift_def)

lemma settles_send_command [settles_intros]: "settles (\<lambda>rc. send_command_with env rc args False)"
proof -
  have "settles (\<lambda>rc. io_get (\<lambda>s. io_when (c_sock s = None) (rc False)))"
    by (auto simp: settles_def io_get_def io_when_def settled_def io_ret_def)
  then show ?thesis unfolding send_command_with_def send_packed_with_def
    by (rule settles_bind [OF settles_pack settles_seq]) (intro settles_intros, simp)
qed

lemma auth_args_reply: "is_exc e AuthenticationWrongNumberOfArgsError \<Longrightarrow> is_exc e ResponseError"
  by (cases "exc_cls e") (simp_all add: is_exc_def exc_isinstance_def numeral_eq_Suc)

lemma settled_switch: "settled s \<Longrightarrow> settled (parser_on_connect s)" "settled s \<Longrightarrow> settled (switch_to_resp3 s)"
  by (auto simp: settled_def switch_to_resp3_def parser_on_connect_def split: option.splits prod.splits)

lemma settles_on_connect:
  assumes "env_ok env"
  shows "settles (\<lambda>rc. on_connect_with env rc False)"
proof -
  have auth: "settles (\<lambda>rc. get_auth_args env)"
    by (auto simp: settles_def get_auth_args_def settled_def split: if_splits)
  have meta: "settles (\<lambda>rc. io_upd (\<lambda>s. s\<lparr>c_handshake_metadata := md\<rparr>))" for md
    by (rule settles_upd) (simp add: settled_def)
  have ok: "settles (\<lambda>rc. expect_ok e r)" for e r
    unfolding expect_ok_def by (intro settles_intros)
  have hello: "settles (\<lambda>rc. auth_hello env rc a)" for a
    unfolding auth_hello_def Let_def using assms by (intro settles_intros settled_switch meta) auto
  have plain: "settles (\<lambda>rc. auth_plain env rc a)" for a
    unfolding auth_plain_def using assms auth_args_reply
    by (intro settles_intros ok) (auto simp: fun_eq_iff)
  have hello2: "settles (\<lambda>rc. hello_plain env rc False)"
    unfolding hello_plain_def using assms
    by (intro settles_intros settled_switch meta) (auto split: option.splits intro: settles_intros)
  have "settles (\<lambda>rc. authenticate env rc False)"
    unfolding authenticate_def by (intro settles_intros auth hello plain hello2)
  moreover have "settles (\<lambda>rc. set_client_name env rc False)" "settles (\<lambda>rc. select_db env rc False)"
    unfolding set_client_name_def select_db_def using assms by (intro settles_intros ok; simp)+
  moreover have "settles (\<lambda>rc. set_info env rc False a v)" for a v
    unfolding set_info_def using assms by (intro settles_intros) (auto simp: fun_eq_iff)
  ultimately show ?thesis
    unfolding on_connect_with_def by (intro settles_intros settled_switch)
qed

lemma connect_body_unchecked:
  assumes "env_ok env"
  shows "connect_body env rc False = connect_body env rc' False"
proof
  fix s
  have oc: "on_connect_with env rc False t = on_connect_with env rc' False t" if "c_sock t \<noteq> None" for t
    using settles_on_connect [OF assms] that unfolding settles_def settled_def by blast
  have sock: "c_sock t \<noteq> None" if "open_socket env s = Some (Inr u, t)" for u t
    using that by (auto simp: open_socket_def io_upd_def elim!: io_bind_SomeE)
  let ?m = "\<lambda>rc. io_try (case e_connect_func env of None \<Rightarrow> on_connect_with env rc False | Some f \<Rightarrow> f)
       (\<lambda>e. io_seq (io_when (is_exc e RedisError) (io_upd conn_disconnect)) (io_raise e))"
  have "?m rc t = ?m rc' t" if "c_sock t \<noteq> None" for t
    using oc [OF that] by (simp add: io_try_def split: option.splits)
  then show "connect_body env rc False s = connect_body env rc' False s"
    using sock by (auto simp: connect_body_def io_get_def io_when_def io_seq_def io_bind_def
        split: option.splits sum.splits prod.splits)
qed

lemma connect_body_cong: "rc False = rc' False \<Longrightarrow> connect_body env rc c = connect_body env rc' c"
proof -
  assume rc: "rc False = rc' False"
  have su: "send_unchecked rc = send_unchecked rc'" by (rule ext) (simp add: send_unchecked_def rc)
  have sc: "send_command_with env rc = send_command_with env rc'"
    by (intro ext)
      (simp add: send_command_with_def send_packed_with_def check_health_with_def send_ping_def rc su cong: if_cong)
  have "on_connect_with env rc c = on_connect_with env rc' c"
    unfolding on_connect_with_def authenticate_def auth_hello_def auth_plain_def hello_plain_def
      set_client_name_def set_info_def select_db_def sc ..
  then show ?thesis unfolding connect_body_def by (simp only:)
qed

lemma connect_fuel_enough:
  assumes "env_ok env"
  shows "connect_fuel (Suc (Suc n)) env = connect_fuel 2 env"
proof
  fix c
  have "connect_fuel (Suc n) env False = connect_fuel (Suc 0) env False"
    using connect_body_unchecked [OF assms] by simp
  then show "connect_fuel (Suc (Suc n)) env c = connect_fuel 2 env c"
    unfolding numeral_2_eq_2 connect_fuel.simps(2) [of "Suc _"] by (rule connect_body_cong)
qed

section \<open>The commands of the handshake\<close>

lemma pack_no_reply:
  assumes "codec_ok E" "pack E n args = Inl e"
  shows "not_reply_error e"
proof -
  have bad: "not_reply_error (bad_input t)" for t
    by (simp add: bad_input_def is_exc_def exc_isinstance_def numeral_eq_Suc)
  have enc: "encode E v = Inl x \<Longrightarrow> not_reply_error x" for v x
    using assms(1) bad by (elim encode_InlE) (auto simp: codec_ok_def map_sum_def split: sum.splits)
  have loop: "pack_loop E n st xs = Inl x \<Longrightarrow> not_reply_error x" for st xs x
    by (induction xs arbitrary: st) (auto dest: enc split: sum.splits)
  have "split_command args = Inl x \<Longrightarrow> not_reply_error x" for x
    by (auto simp: split_command_def split: list.splits pyval.splits if_splits)
  then show ?thesis using assms(2) loop by (auto simp: pack_def split: sum.splits)
qed

definition handshake_commands :: "pyval list \<Rightarrow> bool \<Rightarrow> 'z conn_scheme \<Rightarrow> pyval list list" where
  "handshake_commands auth_args again s =
     (if auth_args \<noteq> [] \<and> c_protocol s \<noteq> 2
      then [[PStr ''HELLO'', PInt (c_protocol s), PStr ''AUTH''] @
            (case auth_args of [p] \<Rightarrow> [PStr ''default'', p] | _ \<Rightarrow> auth_args)]
      else if auth_args \<noteq> [] then (PStr ''AUTH'' # auth_args) # (if again then [[PStr ''AUTH'', last auth_args]] else [])
      else if c_protocol s \<noteq> 2 then [[PStr ''HELLO'', PInt (c_protocol s)]]
      else [])
     @ (if truthy (c_client_name s) then [[PStr ''CLIENT'', PStr ''SETNAME'', c_client_name s]] else [])
     @ (if truthy (c_lib_name s) then [[PStr ''CLIENT'', PStr ''SETINFO'', PStr ''LIB-NAME'', c_lib_name s]] else [])
     @ (if truthy (c_lib_version s) then [[PStr ''CLIENT'', PStr ''SETINFO'', PStr ''LIB-VER'', c_lib_version s]] else [])
     @ (if truthy (c_db s) then [[PStr ''SELECT'', c_db s]] else [])"

definition same_config :: "'z conn_scheme \<Rightarrow> 'z conn_scheme \<Rightarrow> bool" where
  "same_config s s' \<longleftrightarrow> c_sock s' = c_sock s \<and> c_protocol s' = c_protocol s \<and> c_client_name s' = c_client_name s
     \<and> c_lib_name s' = c_lib_name s \<and> c_lib_version s' = c_lib_version s \<and> c_db s' = c_db s
     \<and> c_buffer_cutoff s' = c_buffer_cutoff s \<and> c_health_check_interval s' = c_health_check_interval s"

text \<open>\<open>sent_more env cmds s s'\<close>: from \<open>s\<close> to \<open>s'\<close> exactly the packed commands \<open>cmds\<close> went to the open socket.\<close>

definition sent_more :: "'z conn_env \<Rightarrow> pyval list list \<Rightarrow> 'z conn_scheme \<Rightarrow> 'z conn_scheme \<Rightarrow> bool" where
  "sent_more env cmds s s' \<longleftrightarrow> same_config s s' \<and>
     (\<exists>css i evs. c_sock s = Some (i, evs) \<and> map (pack (e_encoder env) (c_buffer_cutoff s)) cmds = map Inr css
        \<and> sent s' = sent s @ map (\<lambda>b. (i, raw_bytes b)) (concat css))"

lemma sent_more_trans:
  assumes "sent_more env a s s1" "sent_more env b s1 s2"
  shows "sent_more env (a @ b) s s2"
proof -
  obtain cs i evs where a: "c_sock s = Some (i, evs)" "map (pack (e_encoder env) (c_buffer_cutoff s)) a = map Inr cs"
    "sent s1 = sent s @ map (\<lambda>b. (i, raw_bytes b)) (concat cs)" using assms(1) unfolding sent_more_def by blast
  have c: "same_config s s1" using assms(1) by (simp add: sent_more_def)
  obtain ds where b: "map (pack (e_encoder env) (c_buffer_cutoff s)) b = map Inr ds"
    "sent s2 = sent s1 @ map (\<lambda>b. (i, raw_bytes b)) (concat ds)"
    using assms(2) a(1) c unfolding sent_more_def same_config_def by auto
  have "map (pack (e_encoder env) (c_buffer_cutoff s)) (a @ b) = map Inr (cs @ ds)" using a(2) b(1) by simp
  moreover have "sent s2 = sent s @ map (\<lambda>b. (i, raw_bytes b)) (concat (cs @ ds))" using a(3) b(2) by simp
  moreover have "same_config s s2" using assms unfolding sent_more_def same_config_def by simp
  ultimately show ?thesis using a(1) unfolding sent_more_def by blast
qed

lemma sent_more_Nil: "c_sock s \<noteq> None \<Longrightarrow> same_config s s' \<Longrightarrow> sent s' = sent s \<Longrightarrow> sent_more env [] s s'"
  by (auto simp: sent_more_def)

lemma sendall_items_sent:
  "sendall_items xs s = Some (Inr u, s') \<Longrightarrow> c_sock s = Some (i, evs) \<Longrightarrow>
   same_config s s' \<and> sent s' = sent s @ map (\<lambda>b. (i, raw_bytes b)) xs"
proof (induction xs arbitrary: s)
  case (Cons x xs)
  obtain v s1 where v: "sendall x s = Some (Inr v, s1)" "sendall_items xs s1 = Some (Inr u, s')"
    using Cons.prems(1) by (auto simp: io_seq_def elim: io_bind_SomeE)
  have one: "same_config s s1" "sent s1 = sent s @ [(i, raw_bytes x)]"
    using v(1) Cons.prems(2) by (auto simp: sendall_def same_config_def split: option.splits)
  have "c_sock s1 = Some (i, evs)" using one(1) Cons.prems(2) by (simp add: same_config_def)
  from Cons.IH [OF v(2) this] one show ?case by (simp add: same_config_def)
qed (auto simp: io_ret_def same_config_def)

lemma send_command_sent:
  assumes "env_ok env" "c_sock s \<noteq> None" "c_health_check_interval s = 0"
    and "send_command_with env rc args c s = Some (r, s')"
  shows "(\<forall>u. r = Inr u \<longrightarrow> sent_more env [args] s s') \<and> (\<forall>e. r = Inl e \<longrightarrow> not_reply_error e)"
proof -
  obtain i evs where i: "c_sock s = Some (i, evs)" using assms(2) by auto
  have health: "io_when c (check_health_with env rc) s = Some (Inr (), s)"
    using assms(3) by (auto simp: io_when_def check_health_with_def io_get_def io_ret_def)
  have run: "send_command_with env rc args c s =
      (case pack (e_encoder env) (c_buffer_cutoff s) args of Inl e \<Rightarrow> Some (Inl e, s) | Inr cs \<Rightarrow> send_chunks cs s)"
    using i health by (auto simp: send_command_with_def pack_command_def io_get_def io_bind_def io_lift_def
        send_packed_with_def io_seq_def io_when_def io_ret_def split: sum.splits option.splits)
  show ?thesis
  proof (cases "pack (e_encoder env) (c_buffer_cutoff s) args")
    case (Inl e)
    then have "not_reply_error e" using pack_no_reply assms(1) by (auto simp: env_ok_def)
    then show ?thesis using run Inl assms(4) by auto
  next
    case (Inr cs)
    then have sc: "send_chunks cs s = Some (r, s')" using run assms(4) by simp
    then show ?thesis
    proof (cases "sendall_items cs s")
      case (Some x)
      obtain q s1 where q: "sendall_items cs s = Some (q, s1)" using Some by (cases x) auto
      show ?thesis
      proof (cases q)
        case (Inl e)
        then have "not_reply_error e" using sendall_items_fields [OF q] by simp
        then show ?thesis using sc q Inl
          by (auto simp: send_chunks_def io_try_def io_seq_def io_bind_def io_upd_def io_raise_def split: if_splits)
      next
        case (Inr u)
        then have "r = Inr u" "s' = s1" using sc q by (auto simp: send_chunks_def io_try_def)
        then show ?thesis using sendall_items_sent [of cs s u s1 i evs] q Inr i \<open>pack _ _ _ = Inr cs\<close>
          by (auto simp: sent_more_def intro!: exI [of _ "[cs]"])
      qed
    qed (simp add: send_chunks_def io_try_def)
  qed
qed

lemma read_same:
  assumes "env_ok env" "c_health_check_interval s = 0" "conn_read_response env dd True pr s = Some (r, s')"
    and "\<forall>e. r = Inl e \<longrightarrow> is_exc e ResponseError"
  shows "same_config s s' \<and> sent s' = sent s"
proof -
  obtain q s1 where q: "parser_read env dd pr s = Some (q, s1)"
    using assms(3) by (auto simp: conn_read_response_eq split: option.splits)
  note f = conn_kept_fields [OF parser_read_kept [OF assms(1) q]]
  show ?thesis
  proof (cases q)
    case (Inl e)
    then have "not_reply_error (stream_error env e)"
      using parser_read_raises [OF assms(1)] q stream_error_no_reply by blast
    then show ?thesis using assms(3,4) q Inl by (auto simp: conn_read_response_eq)
  next
    case (Inr v)
    then have "s' = s1" using assms(2,3) q f by (auto simp: conn_read_response_eq note_health_def)
    then show ?thesis using f by (simp add: same_config_def)
  qed
qed

text \<open>A command and its reply.\<close>

lemma exchange_sent:
  assumes env: "env_ok env" and s: "c_sock s \<noteq> None" "c_health_check_interval s = 0"
    and run: "io_seq (send_command_with env rc args c) (conn_read_response env dd True pr) s = Some (r, s')"
    and r: "\<forall>e. r = Inl e \<longrightarrow> is_exc e ResponseError"
  shows "sent_more env [args] s s'"
  using run unfolding io_seq_def
proof (cases rule: io_bind_SomeE)
  case (raises e)
  then show ?thesis using send_command_sent [OF env s raises(1)] r by auto
next
  case (continues u s1)
  have m: "sent_more env [args] s s1" using send_command_sent [OF env s continues(1)] by simp
  then have "c_health_check_interval s1 = 0" "c_sock s1 \<noteq> None" using s by (simp_all add: sent_more_def same_config_def)
  then have "sent_more env [] s1 s'" using read_same [OF env _ continues(2) r] by (intro sent_more_Nil) auto
  from sent_more_trans [OF m this] show ?thesis by simp
qed

lemma io_seq_assoc: "io_seq m (io_bind n f) = io_bind (io_seq m n) f"
  by (auto simp: io_seq_def io_bind_def fun_eq_iff split: option.splits sum.splits prod.splits)

text \<open>A command whose reply is then examined without touching the connection.\<close>

lemma exchange_then:
  assumes env: "env_ok env" and s: "c_sock s \<noteq> None" "c_health_check_interval s = 0"
    and run: "io_seq (send_command_with env rc args c) (io_bind (conn_read_response env dd True pr) f) s = Some (r, s')"
    and r: "\<forall>e. r = Inl e \<longrightarrow> is_exc e ResponseError"
    and f: "\<And>v t q t'. f v t = Some (q, t') \<Longrightarrow> same_config t t' \<and> sent t' = sent t"
  shows "sent_more env [args] s s'"
  using run unfolding io_seq_assoc
proof (cases rule: io_bind_SomeE)
  case (raises e)
  then show ?thesis using exchange_sent [OF env s raises(1)] r by simp
next
  case (continues v s1)
  have m: "sent_more env [args] s s1" by (rule exchange_sent [OF env s continues(1)]) simp
  then have "c_sock s1 \<noteq> None" using s by (auto simp: sent_more_def same_config_def)
  then have "sent_more env [] s1 s'" using f [OF continues(2)] by (intro sent_more_Nil) auto
  from sent_more_trans [OF m this] show ?thesis by simp
qed

lemma expect_ok_same: "expect_ok e v t = Some (q, t') \<Longrightarrow> same_config t t' \<and> sent t' = sent t"
  by (auto simp: expect_ok_def io_raise_def io_ret_def same_config_def split: if_splits)

lemma optional_step:
  assumes "env_ok env" "c_sock s \<noteq> None" "c_health_check_interval s = 0"
    and "io_get (\<lambda>s. io_when (b s) (io_seq (send_command_with env rc (args s) c)
            (io_bind (conn_read_response env False True False) f))) s = Some (r, s')"
    and "\<forall>e. r = Inl e \<longrightarrow> is_exc e ResponseError"
    and "\<And>v t q t'. f v t = Some (q, t') \<Longrightarrow> same_config t t' \<and> sent t' = sent t"
  shows "sent_more env (if b s then [args s] else []) s s'"
proof (cases "b s")
  case True
  then show ?thesis using exchange_then [OF assms(1-3) _ assms(5,6)] assms(4) by (simp add: io_get_def io_when_def)
next
  case False
  then show ?thesis using assms(2,4) by (auto simp: io_get_def io_when_def io_ret_def same_config_def intro!: sent_more_Nil)
qed

lemma set_info_sent:
  assumes "env_ok env" "c_sock s \<noteq> None" "c_health_check_interval s = 0"
    and "set_info env rc c attr val s = Some (Inr u, s')"
  shows "sent_more env (if truthy (val s) then [[PStr ''CLIENT'', PStr ''SETINFO'', PStr attr, val s]] else []) s s'"
proof -
  let ?m = "io_get (\<lambda>s. io_when (truthy (val s)) (io_seq (send_command_with env rc
       [PStr ''CLIENT'', PStr ''SETINFO'', PStr attr, val s] c)
       (io_bind (conn_read_response env False True False) (\<lambda>_. io_ret ()))))"
  obtain r where r: "?m s = Some (r, s')" "\<forall>e. r = Inl e \<longrightarrow> is_exc e ResponseError"
    using assms(4) by (auto simp: set_info_def io_try_def io_ret_def io_raise_def split: option.splits sum.splits if_splits)
  show ?thesis
    by (rule optional_step [OF assms(1-3) r]) (auto simp: io_ret_def same_config_def)
qed

lemma switch_same: "same_config s (switch_to_resp3 s) \<and> sent (switch_to_resp3 s) = sent s"
    "same_config s (parser_on_connect s) \<and> sent (parser_on_connect s) = sent s"
  by (auto simp: switch_to_resp3_def parser_on_connect_def same_config_def split: option.splits prod.splits)

lemma auth_hello_sent:
  assumes "env_ok env" "c_sock s \<noteq> None" "c_health_check_interval s = 0"
    and "auth_hello env rc auth s = Some (Inr u, s')"
  shows "sent_more env [[PStr ''HELLO'', PInt (c_protocol s), PStr ''AUTH''] @
      (case auth of [p] \<Rightarrow> [PStr ''default'', p] | _ \<Rightarrow> auth)] s s'"
proof -
  let ?s = "switch_to_resp3 s"
  have sw: "sent_more env [] s ?s" "c_sock ?s \<noteq> None" "c_health_check_interval ?s = 0" "c_protocol ?s = c_protocol s"
    using switch_same(1) [of s] assms(2,3) by (auto simp: same_config_def intro: sent_more_Nil)
  have "sent_more env [[PStr ''HELLO'', PInt (c_protocol ?s), PStr ''AUTH''] @
      (case auth of [p] \<Rightarrow> [PStr ''default'', p] | _ \<Rightarrow> auth)] ?s s'"
    by (rule exchange_then [OF assms(1) sw(2,3), where r = "Inr u" and f = "\<lambda>md. io_upd (\<lambda>s. s\<lparr>c_handshake_metadata := md\<rparr>)"])
      (use assms(4) in \<open>auto simp: auth_hello_def io_seq_def [of "io_upd _"] io_bind_def [of "io_upd _"] io_upd_def
        io_get_def Let_def same_config_def\<close>)
  from sent_more_trans [OF sw(1) this] sw(4) show ?thesis by simp
qed

lemma hello_plain_sent:
  assumes "env_ok env" "c_sock s \<noteq> None" "c_health_check_interval s = 0"
    and "hello_plain env rc c s = Some (Inr u, s')"
  shows "sent_more env [[PStr ''HELLO'', PInt (c_protocol s)]] s s'"
proof -
  let ?s = "switch_to_resp3 s"
  have sw: "sent_more env [] s ?s" "c_sock ?s \<noteq> None" "c_health_check_interval ?s = 0" "c_protocol ?s = c_protocol s"
    using switch_same(1) [of s] assms(2,3) by (auto simp: same_config_def intro: sent_more_Nil)
  have "sent_more env [[PStr ''HELLO'', PInt (c_protocol ?s)]] ?s s'"
    by (rule exchange_then [OF assms(1) sw(2,3), where r = "Inr u" and f = "\<lambda>md. io_seq (io_upd (\<lambda>s. s\<lparr>c_handshake_metadata := md\<rparr>))
          (case check_proto (c_protocol ?s) md of None \<Rightarrow> io_ret () | Some e \<Rightarrow> io_raise e)"])
      (use assms(4) in \<open>auto simp: hello_plain_def io_seq_def [of "io_upd _"] io_bind_def [of "io_upd _"] io_upd_def
        io_get_def same_config_def io_ret_def io_raise_def split: option.splits\<close>)
  from sent_more_trans [OF sw(1) this] sw(4) show ?thesis by simp
qed

lemma auth_plain_sent:
  assumes env: "env_ok env" "c_sock s \<noteq> None" "c_health_check_interval s = 0"
    and run: "auth_plain env rc auth s = Some (Inr u, s')"
  shows "\<exists>again. sent_more env ((PStr ''AUTH'' # auth) # (if again then [[PStr ''AUTH'', last auth]] else [])) s s'"
proof -
  obtain v1 s1 where s1: "send_command_with env rc (PStr ''AUTH'' # auth) False s = Some (Inr v1, s1)"
    and rest: "io_bind (io_try (conn_read_response env False True False) (\<lambda>e.
            if is_exc e AuthenticationWrongNumberOfArgsError
            then io_seq (send_command_with env rc [PStr ''AUTH'', last auth] False)
                   (conn_read_response env False True False)
            else io_raise e)) (expect_ok (Exc AuthenticationError ''Invalid Username or Password'')) s1 = Some (Inr u, s')"
    using run unfolding auth_plain_def io_seq_def by (auto elim: io_bind_SomeE)
  have m1: "sent_more env [PStr ''AUTH'' # auth] s s1" using send_command_sent [OF env s1] by simp
  have k1: "c_sock s1 \<noteq> None" "c_health_check_interval s1 = 0" using m1 env by (simp_all add: sent_more_def same_config_def)
  obtain q s2 where q: "conn_read_response env False True False s1 = Some (q, s2)"
    using rest by (cases "conn_read_response env False True False s1") (auto simp: io_bind_def io_try_def)
  show ?thesis
  proof (cases "\<exists>e. q = Inl e \<and> is_exc e AuthenticationWrongNumberOfArgsError")
    case True
    then obtain e where e: "q = Inl e" "is_exc e AuthenticationWrongNumberOfArgsError" by blast
    have r2: "same_config s1 s2 \<and> sent s2 = sent s1"
      by (rule read_same [OF env(1) k1(2) q]) (use e auth_args_reply in auto)
    then have k2: "c_sock s2 \<noteq> None" "c_health_check_interval s2 = 0" using k1 by (simp_all add: same_config_def)
    have "io_seq (send_command_with env rc [PStr ''AUTH'', last auth] False) (io_bind (conn_read_response env False True False)
        (expect_ok (Exc AuthenticationError ''Invalid Username or Password''))) s2 = Some (Inr u, s')"
      unfolding io_seq_assoc using rest q e by (auto simp: io_try_def io_bind_def)
    from exchange_then [OF env(1) k2 this _ expect_ok_same] have "sent_more env [[PStr ''AUTH'', last auth]] s2 s'" by simp
    moreover have "sent_more env [] s1 s2" using r2 k1 by (intro sent_more_Nil) auto
    ultimately have "sent_more env ([PStr ''AUTH'' # auth] @ [] @ [[PStr ''AUTH'', last auth]]) s s'"
      using m1 sent_more_trans by blast
    then show ?thesis by (intro exI [of _ True]) simp
  next
    case False
    then obtain v where v: "q = Inr v" using rest q by (cases q) (auto simp: io_bind_def io_try_def io_raise_def split: if_splits)
    have r2: "same_config s1 s2 \<and> sent s2 = sent s1" by (rule read_same [OF env(1) k1(2) q]) (simp add: v)
    have "same_config s2 s' \<and> sent s' = sent s2" using rest q v
      by (auto simp: io_bind_def io_try_def intro!: expect_ok_same)
    then have "sent_more env [] s1 s'" using r2 k1 by (intro sent_more_Nil) (auto simp: same_config_def)
    from sent_more_trans [OF m1 this] show ?thesis by (intro exI [of _ False]) simp
  qed
qed

lemma authenticate_sent:
  assumes env: "env_ok env" "c_sock s \<noteq> None" "c_health_check_interval s = 0"
    and run: "authenticate env rc c s = Some (Inr u, s')"
  shows "\<exists>auth again t. get_auth_args env s = Some (Inr auth, t) \<and> sent_more env
     (if auth \<noteq> [] \<and> c_protocol s \<noteq> 2
      then [[PStr ''HELLO'', PInt (c_protocol s), PStr ''AUTH''] @ (case auth of [p] \<Rightarrow> [PStr ''default'', p] | _ \<Rightarrow> auth)]
      else if auth \<noteq> [] then (PStr ''AUTH'' # auth) # (if again then [[PStr ''AUTH'', last auth]] else [])
      else if c_protocol s \<noteq> 2 then [[PStr ''HELLO'', PInt (c_protocol s)]] else []) s s'"
  using run unfolding authenticate_def
proof (cases rule: io_bind_SomeE)
  case (continues auth t)
  have k: "sent_more env [] s t" "c_sock t \<noteq> None" "c_health_check_interval t = 0" "c_protocol t = c_protocol s"
    using continues(1) env(2,3) by (auto simp: get_auth_args_def same_config_def intro!: sent_more_Nil split: if_splits)
  consider (hello) "auth \<noteq> []" "c_protocol s \<noteq> 2" "auth_hello env rc auth t = Some (Inr u, s')"
    | (plain) "auth \<noteq> []" "c_protocol s = 2" "auth_plain env rc auth t = Some (Inr u, s')"
    | (hello2) "auth = []" "c_protocol s \<noteq> 2" "hello_plain env rc c t = Some (Inr u, s')"
    | (none) "auth = []" "c_protocol s = 2" "s' = t"
    using continues(2) k(4) by (cases "auth = []"; cases "c_protocol s = 2") (auto simp: io_get_def io_ret_def)
  then show ?thesis
  proof cases
    case hello
    have "sent_more env [[PStr ''HELLO'', PInt (c_protocol t), PStr ''AUTH''] @
        (case auth of [p] \<Rightarrow> [PStr ''default'', p] | _ \<Rightarrow> auth)] t s'"
      by (rule auth_hello_sent [OF env(1) k(2,3) hello(3)])
    from sent_more_trans [OF k(1) this] continues(1) hello(1,2) show ?thesis
      by (intro exI [of _ auth] exI [of _ False] exI [of _ t]) (simp add: k(4))
  next
    case plain
    obtain again where "sent_more env ((PStr ''AUTH'' # auth) # (if again then [[PStr ''AUTH'', last auth]] else [])) t s'"
      using auth_plain_sent [OF env(1) k(2,3) plain(3)] by blast
    from sent_more_trans [OF k(1) this] continues(1) plain(1,2) show ?thesis
      by (intro exI [of _ auth] exI [of _ again] exI [of _ t]) simp
  next
    case hello2
    have "sent_more env [[PStr ''HELLO'', PInt (c_protocol t)]] t s'"
      by (rule hello_plain_sent [OF env(1) k(2,3) hello2(3)])
    from sent_more_trans [OF k(1) this] continues(1) hello2(1,2) show ?thesis
      by (intro exI [of _ auth] exI [of _ False] exI [of _ t]) (simp add: k(4))
  next
    case none
    then show ?thesis using k(1) continues(1)
      by (intro exI [of _ auth] exI [of _ False] exI [of _ t]) simp
  qed
qed simp

lemma on_connect_sent:
  assumes env: "env_ok env" "c_sock s \<noteq> None" "c_health_check_interval s = 0"
    and run: "on_connect_with env rc c s = Some (Inr u, s')"
  shows "\<exists>auth again t. get_auth_args env (parser_on_connect s) = Some (Inr auth, t)
     \<and> sent_more env (handshake_commands auth again s) s s'"
proof -
  let ?s = "parser_on_connect s"
  have k0: "sent_more env [] s ?s" using switch_same(2) [of s] env(2) by (intro sent_more_Nil) auto
  obtain s1 s2 s3 s4 where st: "authenticate env rc c ?s = Some (Inr (), s1)" "set_client_name env rc c s1 = Some (Inr (), s2)"
     "set_info env rc c ''LIB-NAME'' c_lib_name s2 = Some (Inr (), s3)"
     "set_info env rc c ''LIB-VER'' c_lib_version s3 = Some (Inr (), s4)" "select_db env rc c s4 = Some (Inr u, s')"
    using run unfolding on_connect_with_def io_seq_def
    by (elim io_bind_SomeE) (auto simp: io_upd_def)
  have c: "sent_more env cmds a b \<Longrightarrow> c_sock a \<noteq> None \<Longrightarrow> c_health_check_interval a = 0 \<Longrightarrow>
      c_sock b \<noteq> None \<and> c_health_check_interval b = 0 \<and> same_config a b" for cmds a b
    by (auto simp: sent_more_def same_config_def)
  note c0 = c [OF k0 env(2,3)]
  obtain auth again t where a: "get_auth_args env ?s = Some (Inr auth, t)" and k1: "sent_more env
     (if auth \<noteq> [] \<and> c_protocol ?s \<noteq> 2
      then [[PStr ''HELLO'', PInt (c_protocol ?s), PStr ''AUTH''] @ (case auth of [p] \<Rightarrow> [PStr ''default'', p] | _ \<Rightarrow> auth)]
      else if auth \<noteq> [] then (PStr ''AUTH'' # auth) # (if again then [[PStr ''AUTH'', last auth]] else [])
      else if c_protocol ?s \<noteq> 2 then [[PStr ''HELLO'', PInt (c_protocol ?s)]] else []) ?s s1"
    using authenticate_sent [OF env(1) _ _ st(1)] c0 by blast
  have c1: "c_sock s1 \<noteq> None \<and> c_health_check_interval s1 = 0 \<and> same_config ?s s1" using c [OF k1] c0 by simp
  have k2: "sent_more env (if truthy (c_client_name s1) then [[PStr ''CLIENT'', PStr ''SETNAME'', c_client_name s1]] else []) s1 s2"
    by (rule optional_step [OF env(1) _ _ st(2) [unfolded set_client_name_def] _ expect_ok_same]) (use c1 in auto)
  have c2: "c_sock s2 \<noteq> None \<and> c_health_check_interval s2 = 0 \<and> same_config s1 s2" using c [OF k2] c1 by simp
  note k3 = set_info_sent [OF env(1) _ _ st(3)]
  have c3: "c_sock s3 \<noteq> None \<and> c_health_check_interval s3 = 0 \<and> same_config s2 s3" using c [OF k3] c2 by simp
  note k4 = set_info_sent [OF env(1) _ _ st(4)]
  have c4: "c_sock s4 \<noteq> None \<and> c_health_check_interval s4 = 0 \<and> same_config s3 s4" using c [OF k4] c3 by simp
  have k5: "sent_more env (if truthy (c_db s4) then [[PStr ''SELECT'', c_db s4]] else []) s4 s'"
    by (rule optional_step [OF env(1) _ _ st(5) [unfolded select_db_def] _ expect_ok_same]) (use c4 in auto)
  have cfg: "same_config s ?s" "same_config s s1" "same_config s s2" "same_config s s3" "same_config s s4"
    using c0 c1 c2 c3 c4 by (auto simp: same_config_def)
  then have eqs: "c_protocol ?s = c_protocol s" "c_client_name s1 = c_client_name s" "c_lib_name s2 = c_lib_name s"
      "c_lib_version s3 = c_lib_version s" "c_db s4 = c_db s" by (simp_all add: same_config_def)
  have k3': "sent_more env (if truthy (c_lib_name s2) then [[PStr ''CLIENT'', PStr ''SETINFO'', PStr ''LIB-NAME'', c_lib_name s2]] else []) s2 s3"
    and k4': "sent_more env (if truthy (c_lib_version s3) then [[PStr ''CLIENT'', PStr ''SETINFO'', PStr ''LIB-VER'', c_lib_version s3]] else []) s3 s4"
    using k3 k4 c2 c3 by simp_all
  have "sent_more env (handshake_commands auth again s) s s'"
    using sent_more_trans [OF k0 sent_more_trans [OF k1 sent_more_trans [OF k2 sent_more_trans [OF k3' sent_more_trans [OF k4' k5]]]]]
    unfolding handshake_commands_def eqs append_Nil .
  then show ?thesis using a by blast
qed

section \<open>Opening a connection\<close>

lemma keeps_open:
  fixes R :: "'z conn_scheme \<Rightarrow> 'z conn_scheme \<Rightarrow> bool"
  assumes "reflp R" "transp R" "\<And>s d n. R s (s\<lparr>dials := d, next_sock := n\<rparr>)" "\<And>s. R s (conn_disconnect s)"
    and "\<And>s n. R s (s\<lparr>ticks := n\<rparr>)" "\<And>s n. R s (s\<lparr>slept := n\<rparr>)"
  shows "keeps R (tcp_connect :: ('z conn_scheme, nat \<times> recv_event list) io) (\<lambda>_. io_upd conn_disconnect)
      (conn_random env) conn_sleep"
proof -
  have "R s (s\<lparr>dials := d\<rparr>)" for s d using assms(3) [of s "next_sock s" d] by simp
  then have "io_pres R (tcp_connect :: ('z conn_scheme, nat \<times> recv_event list) io)"
    unfolding io_pres_def using assms(3) by (auto simp: tcp_connect_def split: list.splits sum.splits)
  then show ?thesis using assms
    by (simp add: keeps_def io_pres_def io_upd_def conn_random_def conn_sleep_def)
qed

lemma open_socket_facts:
  assumes "open_socket env s = Some (r, t)" "c_sock s = None"
  shows "c_health_check_interval t = c_health_check_interval s" "c_callbacks t = c_callbacks s"
    "r = Inr () \<and> c_sock t \<noteq> None \<or> (\<exists>e. r = Inl e) \<and> c_sock t = None"
proof -
  define R :: "'a conn_scheme \<Rightarrow> 'a conn_scheme \<Rightarrow> bool" where "R = (\<lambda>s s'. c_health_check_interval s' = c_health_check_interval s
      \<and> c_callbacks s' = c_callbacks s \<and> (c_sock s = None \<longrightarrow> c_sock s' = None))"
  have k: "keeps R (tcp_connect :: ('a conn_scheme, nat \<times> recv_event list) io) (\<lambda>_. io_upd conn_disconnect)
      (conn_random env) conn_sleep"
    by (rule keeps_open) (auto simp: R_def reflp_def transp_def conn_disconnect_def Let_def split: option.splits)
  obtain q rt t1 where q: "call_with_retry tcp_connect (\<lambda>_. io_upd conn_disconnect) (conn_random env) conn_sleep (c_retry s) s
      = Some (q, rt, t1)"
    using assms(1) by (auto simp: open_socket_def io_bind_def io_try_def with_retry_def split: option.splits prod.splits)
  have "R s t1" using call_with_retry_keeps [OF k q] .
  moreover have "(\<exists>e. q = Inl e) \<and> (\<exists>e. r = Inl e) \<and> t = t1\<lparr>c_retry := rt\<rparr> \<or> r = Inr () \<and> (\<exists>x. t = t1\<lparr>c_retry := rt, c_sock := Some x\<rparr>)"
    using assms(1) q by (cases q) (auto simp: open_socket_def io_bind_def io_try_def with_retry_def io_raise_def io_upd_def)
  ultimately show "c_health_check_interval t = c_health_check_interval s" "c_callbacks t = c_callbacks s"
    "r = Inr () \<and> c_sock t \<noteq> None \<or> (\<exists>e. r = Inl e) \<and> c_sock t = None"
    using assms(2) by (auto simp: R_def)
qed

definition callbacks_ok :: "'z conn_env \<Rightarrow> bool" where
  "callbacks_ok env \<longleftrightarrow> (\<forall>cb s r s'. e_callback env cb s = Some (r, s') \<longrightarrow> r = Inr () \<and> c_sock s' = c_sock s)"

lemma run_callbacks_ok:
  "callbacks_ok env \<Longrightarrow> run_callbacks env cbs s = Some (r, s') \<Longrightarrow> r = Inr () \<and> c_sock s' = c_sock s"
proof (induction cbs arbitrary: s)
  case (Cons cb cbs)
  obtain q s1 where q: "e_callback env cb s = Some (q, s1)"
    using Cons.prems(2) by (cases "e_callback env cb s") (auto simp: io_seq_def io_bind_def)
  then have "q = Inr ()" "c_sock s1 = c_sock s" using Cons.prems(1) unfolding callbacks_ok_def by blast+
  moreover from this have "run_callbacks env cbs s1 = Some (r, s')" using Cons.prems(2) q by (simp add: io_seq_def)
  ultimately show ?case using Cons.IH [OF Cons.prems(1)] by auto
qed (auto simp: io_ret_def)

lemma on_connect_sock:
  assumes "env_ok env" "c_sock s \<noteq> None" "\<not> check \<or> c_health_check_interval s = 0"
    and "on_connect_with env rc check s = Some (Inr u, s')"
  shows "c_sock s' \<noteq> None"
proof (cases check)
  case True
  then obtain cmds where "sent_more env cmds s s'" using on_connect_sent [OF assms(1,2) _ assms(4)] assms(3) by blast
  then show ?thesis using assms(2) by (simp add: sent_more_def same_config_def)
next
  case False
  then have "on_connect_with env rc False s = Some (Inr u, s')" using assms(4) by simp
  then show ?thesis using settles_on_connect [OF assms(1)] assms(2) unfolding settles_def settled_def by blast
qed

lemma connect_outcome_aux:
  assumes env: "env_ok env" "e_connect_func env = None" "callbacks_ok env"
    and s: "c_sock s = None" "\<not> check \<or> c_health_check_interval s = 0"
    and run: "connect_body env rc check s = Some (r, s')"
  shows "case r of Inr _ \<Rightarrow> c_sock s' \<noteq> None | Inl e \<Rightarrow> is_exc e RedisError \<longrightarrow> c_sock s' = None"
proof -
  let ?h = "\<lambda>e. io_seq (io_when (is_exc e RedisError) (io_upd conn_disconnect)) (io_raise e)"
  have run': "io_bind (open_socket env) (\<lambda>_. io_seq (io_try (on_connect_with env rc check) ?h)
       (io_get (\<lambda>s. run_callbacks env (c_callbacks s)))) s = Some (r, s')"
    using run s(1) env(2) by (simp add: connect_body_def io_get_def [of "\<lambda>s. io_when (c_sock s = None) _"] io_when_def [of True] io_seq_def [of "open_socket env"])
  from run' show ?thesis
  proof (cases rule: io_bind_SomeE)
    case (raises e)
    then show ?thesis using open_socket_facts(3) [OF _ s(1)] by auto
  next
    case (continues u t)
    have t: "c_sock t \<noteq> None" "c_health_check_interval t = c_health_check_interval s"
      using open_socket_facts [OF continues(1) s(1)] by auto
    from continues(2) show ?thesis unfolding io_seq_def [of "io_try _ _"]
    proof (cases rule: io_bind_SomeE)
      case (raises e)
      obtain x where "io_try (on_connect_with env rc check) ?h t = Some (Inl e, x)" "x = s'" using raises(1) by simp
      then have "is_exc e RedisError \<longrightarrow> c_sock s' = None"
        by (auto simp: io_try_def io_seq_def io_bind_def io_when_def io_upd_def io_raise_def io_ret_def
            split: option.splits sum.splits if_splits)
      then show ?thesis using raises(2) by simp
    next
      case (continues v t2)
      have "on_connect_with env rc check t = Some (Inr v, t2)"
        using continues(1) by (auto simp: io_try_def io_seq_def io_bind_def io_when_def io_upd_def io_raise_def io_ret_def
            split: option.splits sum.splits if_splits)
      then have "c_sock t2 \<noteq> None" using on_connect_sock [OF env(1) t(1)] t(2) s(2) by auto
      moreover have "r = Inr () \<and> c_sock s' = c_sock t2"
        using run_callbacks_ok [OF env(3)] continues(2) unfolding io_get_def by blast
      ultimately show ?thesis by simp
    qed
  qed
qed

section \<open>A connection to try the theorems on\<close>

text \<open>The definitions by which the simplifier runs a connection.\<close>

lemmas conn_eval = io_get_def io_when_def io_seq_def io_bind_def io_try_def io_upd_def io_ret_def io_raise_def io_lift_def
  connect_body_def conn_init_def init_protocol_def int_protocol_def open_socket_def with_retry_def call_with_retry_def
  retry_loop.simps tcp_connect_def on_connect_with_def authenticate_def get_auth_args_def init_retry_def new_retry_def
  NoBackoff_def parser_on_connect_def set_client_name_def set_info_def select_db_def

definition demo_env :: "unit conn_env" where
  "demo_env = \<lparr> e_time = of_nat, e_random = (\<lambda>_. 0), e_cred = (\<lambda>_. Inr []), e_encoder = utf8_encoder False,
     e_float = (\<lambda>_. None), e_host_error = ''localhost:6379'', e_push = (\<lambda>xs. io_ret (PList xs)),
     e_connect_func = None, e_callback = (\<lambda>_. io_ret ()) \<rparr>"

definition demo_args :: "pyval \<Rightarrow> pyval \<Rightarrow> conn_args" where
  "demo_args db protocol = \<lparr> a_db = db, a_username = PNone, a_password = PNone, a_provider = False, a_socket_timeout = None,
     a_retry_on_timeout = False, a_retry_on_error = [], a_retry = None, a_resp3_parser = False,
     a_health_check_interval = 0, a_client_name = PNone, a_lib_name = PNone, a_lib_version = PNone,
     a_protocol = protocol \<rparr>"

definition ok_line :: bytes where "ok_line = ''+OK'' @ SYM_CRLF"

text \<open>A connection to database 3; its server accepts and answers \<open>OK\<close>.\<close>

definition demo_conn :: "bytes \<Rightarrow> conn" where
  "demo_conn answers = projr (conn_init (demo_args (PInt 3) (PInt 2)) 1 [Inr [AttemptOk [Recv answers]]] [])"

lemma demo_env_ok: "env_ok demo_env" "e_connect_func demo_env = None" "callbacks_ok demo_env"
  by (auto simp: env_ok_def demo_env_def callbacks_ok_def io_ret_def intro!: io_raises_intros io_pres_intros)

lemma demo_connect: "map_option fst (conn_connect demo_env (demo_conn ok_line)) = Some (Inr ())"
  by code_simp

section \<open>Properties\<close>

text \<open>
  C16: a successful \<open>on_connect\<close> of a connection without health checks sent exactly the commands its configuration
  asks for, in order, to its socket and nothing else: \<open>HELLO\<close> with the credentials when there are credentials and
  the protocol is 3 (a lone password going with the user \<open>default\<close>), \<open>AUTH\<close> when the protocol is 2 (a second time
  with the password only if the server knew no user names), plain \<open>HELLO\<close> without credentials; then the client name,
  the library name and version, and the database, each only if set.
\<close>

theorem handshake_sends:
  assumes "env_ok env" "c_sock s = Some (i, evs)" "c_health_check_interval s = 0"
    and "on_connect_with env (connect_check_health env) check_health s = Some (Inr u, s')"
  shows "c_sock s' = Some (i, evs) \<and> (\<exists>auth again t css.
       get_auth_args env (parser_on_connect s) = Some (Inr auth, t)
     \<and> map (pack (e_encoder env) (c_buffer_cutoff s)) (handshake_commands auth again s) = map Inr css
     \<and> sent s' = sent s @ map (\<lambda>chunk. (i, raw_bytes chunk)) (concat css))"
proof -
  obtain auth again t where a: "get_auth_args env (parser_on_connect s) = Some (Inr auth, t)"
    "sent_more env (handshake_commands auth again s) s s'"
    using on_connect_sent [OF assms(1) _ assms(3,4)] assms(2) by auto
  from a(2) assms(2) obtain css where
    "map (pack (e_encoder env) (c_buffer_cutoff s)) (handshake_commands auth again s) = map Inr css"
    "sent s' = sent s @ map (\<lambda>chunk. (i, raw_bytes chunk)) (concat css)"
    unfolding sent_more_def by auto
  moreover have "c_sock s' = Some (i, evs)" using a(2) assms(2) by (simp add: sent_more_def same_config_def)
  ultimately show ?thesis using a(1) by blast
qed

theorem handshake_sends_witness:
  "\<exists>u s'. on_connect_with demo_env (connect_check_health demo_env) True ((demo_conn [])\<lparr>c_sock := Some (0, [Recv ok_line])\<rparr>)
      = Some (Inr u, s') \<and> c_sock s' = Some (0, [Recv ok_line])"
proof -
  let ?s = "(demo_conn [])\<lparr>c_sock := Some (0, [Recv ok_line])\<rparr>"
  have "map_option fst (on_connect_with demo_env (connect_check_health demo_env) True ?s) = Some (Inr ())"
    by code_simp
  then obtain s' where s': "on_connect_with demo_env (connect_check_health demo_env) True ?s = Some (Inr (), s')" by auto
  have "c_sock ?s = Some (0, [Recv ok_line])" "c_health_check_interval ?s = 0" by code_simp+
  from handshake_sends [OF demo_env_ok(1) this s'] s' show ?thesis by blast
qed





text \<open>
  Connecting with a health check may have to reconnect without one, but no deeper: the two levels of
  \<open>connect_check_health\<close> give the same result as any greater number of levels.
\<close>

theorem connect_two_levels:
  assumes "env_ok env"
  shows "connect_fuel (n + 2) env check_health s = connect_check_health env check_health s"
  using connect_fuel_enough [OF assms, of n] by (simp add: connect_check_health_def)

theorem connect_two_levels_witness:
  "connect_fuel 12 demo_env True (demo_conn ok_line) = connect_check_health demo_env True (demo_conn ok_line)"
  using connect_two_levels [OF demo_env_ok(1), of 10 True "demo_conn ok_line"] by simp

end
