(* ===== verification/Connection_Frame.thy ===== *)
theory Connection_Frame
  imports Connection_Spec
begin

text \<open>
  What the operations of a connection never change.  \<open>frame_rel env R\<close> says that \<open>R\<close> is kept by every elementary
  update the operations make and by the functions the connection is given; then every operation keeps \<open>R\<close>.
  Attributes that are set once in \<open>__init__\<close> (the process id, the health check interval, the protocol) give such
  relations.
\<close>

lemma io_pres_seq [io_pres_intros]: "transp R \<Longrightarrow> io_pres R m \<Longrightarrow> io_pres R n \<Longrightarrow> io_pres R (io_seq m n)"
  unfolding io_seq_def by (rule io_pres_bind)

lemma io_pres_get [io_pres_intros]: "(\<And>s. io_pres R (f s)) \<Longrightarrow> io_pres R (io_get f)"
  by (simp add: io_pres_def io_get_def)

lemma io_pres_upd [io_pres_intros]: "(\<And>s. R s (f s)) \<Longrightarrow> io_pres R (io_upd f)"
  by (simp add: io_pres_def io_upd_def)

lemma io_pres_when [io_pres_intros]: "reflp R \<Longrightarrow> (b \<Longrightarrow> io_pres R m) \<Longrightarrow> io_pres R (io_when b m)"
  by (simp add: io_when_def io_pres_ret)

lemma io_pres_try [io_pres_intros]:
  assumes "transp R" "io_pres R m" "\<And>e. io_pres R (h e)"
  shows "io_pres R (io_try m h)"
  using assms unfolding io_pres_def io_try_def
  by (auto split: option.splits sum.splits prod.splits) (meson transpD)

definition frame_rel :: "'z conn_env \<Rightarrow> ('z conn_scheme \<Rightarrow> 'z conn_scheme \<Rightarrow> bool) \<Rightarrow> bool" where
  "frame_rel env R \<longleftrightarrow> reflp R \<and> transp R
     \<and> (\<forall>s d n. R s (s\<lparr>dials := d, next_sock := n\<rparr>)) \<and> (\<forall>s n. R s (s\<lparr>ticks := n\<rparr>)) \<and> (\<forall>s t. R s (s\<lparr>slept := t\<rparr>))
     \<and> (\<forall>s r. R s (s\<lparr>c_retry := r\<rparr>)) \<and> (\<forall>s k. R s (s\<lparr>c_sock := k\<rparr>)) \<and> (\<forall>s b. R s (s\<lparr>sbuf := b\<rparr>))
     \<and> (\<forall>s l m. R s (s\<lparr>sends := l, sent := m\<rparr>)) \<and> (\<forall>s l. R s (s\<lparr>closed := l\<rparr>)) \<and> (\<forall>s b. R s (s\<lparr>c_resp3 := b\<rparr>))
     \<and> (\<forall>s v. R s (s\<lparr>c_handshake_metadata := v\<rparr>)) \<and> (\<forall>s t. R s (s\<lparr>c_next_health_check := t\<rparr>))
     \<and> (\<forall>s t. R s (s\<lparr>c_re_auth_token := t\<rparr>))
     \<and> (\<forall>xs. io_pres R (e_push env xs)) \<and> (\<forall>cb. io_pres R (e_callback env cb))
     \<and> (\<forall>f. e_connect_func env = Some f \<longrightarrow> io_pres R f)"

locale conn_frame =
  fixes env :: "'z conn_env" and R :: "'z conn_scheme \<Rightarrow> 'z conn_scheme \<Rightarrow> bool"
  assumes frame: "frame_rel env R"
begin

lemma rel: "reflp R" "transp R" and updates:
  "R s (s\<lparr>dials := d, next_sock := n\<rparr>)" "R s (s\<lparr>ticks := k\<rparr>)" "R s (s\<lparr>slept := t\<rparr>)" "R s (s\<lparr>c_retry := r\<rparr>)"
  "R s (s\<lparr>c_sock := so\<rparr>)" "R s (s\<lparr>sbuf := b\<rparr>)" "R s (s\<lparr>sends := l, sent := m\<rparr>)" "R s (s\<lparr>closed := cl\<rparr>)"
  "R s (s\<lparr>c_resp3 := r3\<rparr>)" "R s (s\<lparr>c_handshake_metadata := v\<rparr>)" "R s (s\<lparr>c_next_health_check := t\<rparr>)"
  "R s (s\<lparr>c_re_auth_token := tk\<rparr>)" and given:
  "io_pres R (e_push env xs)" "io_pres R (e_callback env cb)" "e_connect_func env = Some f \<Longrightarrow> io_pres R f"
  using frame by (simp_all add: frame_rel_def)

lemma R_refl [simp]: "R s s"
  using rel(1) by (simp add: reflp_def)

lemma R_trans: "R a b \<Longrightarrow> R b c \<Longrightarrow> R a c"
  using rel(2) by (blast dest: transpD)

lemma dials_only: "R s (s\<lparr>dials := d\<rparr>)"
  using updates(1) [of s "next_sock s" d] by simp

lemma sends_only: "R s (s\<lparr>sends := l\<rparr>)"
  using updates(7) [of s "sent s" l] by simp

lemma disconnect_R: "R s (conn_disconnect s)"
  using R_trans [OF updates(6) [of s None] updates(5) [of "s\<lparr>sbuf := None\<rparr>" None]] R_trans [OF _ updates(8)]
  by (auto simp: conn_disconnect_def Let_def split: option.splits)

lemma parser_on_connect_R: "R s (parser_on_connect s)"
  using updates(6) by (auto simp: parser_on_connect_def split: option.splits)

lemma switch_R: "R s (switch_to_resp3 s)"
  using R_trans [OF updates(9) parser_on_connect_R] by (simp add: switch_to_resp3_def)

lemma elementary_pres:
  "io_pres R (sendall x)" "io_pres R (tcp_connect :: ('z conn_scheme, nat \<times> recv_event list) io)" "io_pres R (conn_now env)"
  "io_pres R (lift_buf mb)" "io_pres R (get_auth_args env)" "io_pres R (io_upd conn_disconnect)"
  unfolding io_pres_def
  using updates(1,2,6,7) dials_only sends_only disconnect_R
  by (auto simp: sendall_def tcp_connect_def conn_now_def lift_buf_def get_auth_args_def io_upd_def
      split: option.splits list.splits sum.splits prod.splits if_splits)

lemma with_retry_pres:
  assumes "io_pres R m" "\<And>e. io_pres R (fail e)"
  shows "io_pres R (with_retry env m fail)"
proof -
  have k: "keeps R m fail (conn_random env) conn_sleep"
    using assms rel updates(2,3) by (simp add: keeps_def conn_random_def conn_sleep_def)
  show ?thesis unfolding io_pres_def with_retry_def
    using call_with_retry_keeps [OF k] R_trans [OF _ updates(4)] by (fastforce split: option.splits prod.splits)
qed

lemma parser_read_pres: "io_pres R (parser_read env dd pr)"
proof -
  have rw: "io_pres R m \<Longrightarrow> io_pres R (conn_with_rewind m)" for m
    unfolding io_pres_def conn_with_rewind_def using R_trans [OF _ updates(6)]
    by (auto simp: Let_def split: option.splits sum.splits prod.splits)
  have r2: "io_pres R (resp2_read f (conn_parser env s) d)" for f s d
    by (induction f) (auto simp: resp2_body_def Let_def conn_parser_def rel intro!: io_pres_intros elementary_pres)
  have r3: "io_pres R (resp3_read f (conn_parser env s) d p)" for f s d p
    by (induction f arbitrary: p)
      (auto simp: resp3_body_def Let_def conn_parser_def rel intro!: io_pres_intros elementary_pres given)
  show ?thesis unfolding parser_read_def using rel by (intro io_pres_intros rw r2 r3) auto
qed

lemma read_response_pres: "io_pres R (conn_read_response env dd de pr)"
proof -
  have "io_pres R (case v of PExc e \<Rightarrow> if is_exc e ResponseError then io_raise e else io_ret v | _ \<Rightarrow> io_ret v)" for v
    by (cases v) (auto intro!: io_pres_intros rel)
  then show ?thesis unfolding conn_read_response_def
    by (intro io_pres_intros parser_read_pres elementary_pres rel updates disconnect_R)
qed

lemma send_pres:
  assumes "io_pres R (rc False)"
  shows "io_pres R (send_chunks cs)" "io_pres R (send_unchecked rc cs)" "io_pres R (send_command_with env rc args ch)"
    "io_pres R (check_health_with env rc)" "io_pres R (send_packed_with env rc cs ch)"
proof -
  have it: "io_pres R (sendall_items xs)" for xs :: "pyval list"
    by (induction xs) (auto intro!: io_pres_intros elementary_pres rel)
  show c: "io_pres R (send_chunks cs)" for cs
    unfolding send_chunks_def by (intro io_pres_intros it rel disconnect_R)
  show u: "io_pres R (send_unchecked rc cs)" for cs
    unfolding send_unchecked_def by (intro io_pres_intros rel assms c)
  have p: "io_pres R (pack_command env a)" for a unfolding pack_command_def by (intro io_pres_intros rel)
  have "io_pres R (send_ping env rc)"
    unfolding send_ping_def by (intro io_pres_intros rel p u read_response_pres)
  then show h: "io_pres R (check_health_with env rc)"
    unfolding check_health_with_def by (intro io_pres_intros rel elementary_pres with_retry_pres) auto
  show s: "io_pres R (send_packed_with env rc cs ch)" for cs
    unfolding send_packed_with_def by (intro io_pres_intros rel assms h c)
  show "io_pres R (send_command_with env rc args ch)"
    unfolding send_command_with_def by (intro io_pres_intros rel p s)
qed

lemma on_connect_pres:
  assumes "io_pres R (rc False)"
  shows "io_pres R (on_connect_with env rc ch)"
proof -
  note s = send_pres(3) [where rc = rc, OF assms] and r = read_response_pres
  have ok: "io_pres R (expect_ok e v)" for e v
    unfolding expect_ok_def by (intro io_pres_intros rel)
  have "io_pres R (auth_hello env rc a)" "io_pres R (auth_plain env rc a)" for a
    unfolding auth_hello_def auth_plain_def Let_def by (intro io_pres_intros rel s r ok switch_R updates)+
  moreover have "io_pres R (case check_proto p md of None \<Rightarrow> io_ret () | Some e \<Rightarrow> io_raise e)" for p md
    by (auto split: option.splits intro!: io_pres_intros rel)
  then have "io_pres R (hello_plain env rc ch)"
    unfolding hello_plain_def by (intro io_pres_intros rel s r switch_R updates)
  ultimately have a: "io_pres R (authenticate env rc ch)"
    unfolding authenticate_def by (intro io_pres_intros rel elementary_pres) auto
  have n: "io_pres R (set_client_name env rc ch)" "io_pres R (select_db env rc ch)"
    unfolding set_client_name_def select_db_def by (intro io_pres_intros rel s r ok)+
  have i: "io_pres R (set_info env rc ch att val)" for att val
    unfolding set_info_def by (intro io_pres_intros rel s r)
  show ?thesis
    unfolding on_connect_with_def by (intro io_pres_intros rel parser_on_connect_R a n i)
qed

lemma connect_body_pres:
  assumes "io_pres R (rc False)"
  shows "io_pres R (connect_body env rc ch)"
proof -
  have o: "io_pres R (open_socket env)"
    unfolding open_socket_def by (intro io_pres_intros rel with_retry_pres elementary_pres updates disconnect_R)
  have cb: "io_pres R (run_callbacks env l)" for l
    by (induction l) (auto intro!: io_pres_intros rel given(2))
  have "io_pres R (case e_connect_func env of None \<Rightarrow> on_connect_with env rc ch | Some f \<Rightarrow> f)"
    using on_connect_pres [where rc = rc, OF assms] given(3) by (auto split: option.splits)
  then show ?thesis
    unfolding connect_body_def by (intro io_pres_intros rel o cb disconnect_R)
qed

lemma connect_pres: "io_pres R (connect_check_health env ch)"
proof -
  have "io_pres R (connect_fuel n env ch)" for n ch
    by (induction n arbitrary: ch) (auto intro!: connect_body_pres io_pres_intros)
  then show ?thesis by (simp add: connect_check_health_def)
qed

lemma public_pres:
  "io_pres R (conn_connect env)" "io_pres R (conn_can_read env t)" "io_pres R (conn_send_command env args ch)"
  "io_pres R (re_auth env)"
proof -
  show c: "io_pres R (conn_connect env)" unfolding conn_connect_def by (rule connect_pres)
  show "io_pres R (conn_can_read env t)"
    unfolding conn_can_read_def by (intro io_pres_intros rel c elementary_pres disconnect_R)
  show s: "io_pres R (conn_send_command env args ch)" for args ch
    unfolding conn_send_command_def by (intro send_pres connect_pres)
  have "io_pres R (case tk of None \<Rightarrow> io_ret () | Some (oid, token) \<Rightarrow>
      io_seq (conn_send_command env [PStr ''AUTH'', oid, token] True)
        (io_seq (conn_read_response env False True False) (io_upd (\<lambda>s. s\<lparr>c_re_auth_token := None\<rparr>))))" for tk
    by (cases tk) (auto intro!: io_pres_intros rel s read_response_pres updates)
  then show "io_pres R (re_auth env)"
    unfolding re_auth_def by (intro io_pres_intros)
qed

end

section \<open>The attributes set once\<close>

definition fixed_attrs :: "'z conn_scheme \<Rightarrow> int \<times> rat \<times> int \<times> int option \<times> nat" where
  "fixed_attrs s = (c_pid s, c_health_check_interval s, c_protocol s, c_socket_timeout s, c_buffer_cutoff s)"

text \<open>The functions the connection is given leave these attributes alone.\<close>

definition given_ok :: "'z conn_env \<Rightarrow> bool" where
  "given_ok env \<longleftrightarrow>
     (\<forall>xs. io_pres (\<lambda>s s'. fixed_attrs s' = fixed_attrs s) (e_push env xs))
     \<and> (\<forall>cb. io_pres (\<lambda>s s'. fixed_attrs s' = fixed_attrs s) (e_callback env cb))
     \<and> (\<forall>f. e_connect_func env = Some f \<longrightarrow> io_pres (\<lambda>s s'. fixed_attrs s' = fixed_attrs s) f)"

interpretation fixed: conn_frame env "\<lambda>s s'. given_ok env \<longrightarrow> fixed_attrs s' = fixed_attrs s" for env
proof
  show "frame_rel env (\<lambda>s s'. given_ok env \<longrightarrow> fixed_attrs s' = fixed_attrs s)"
    unfolding frame_rel_def
    by (auto simp: fixed_attrs_def reflp_def transp_def given_ok_def io_pres_def)
qed

end
