(* ===== verification/Pool.thy ===== *)
theory Pool
  imports Connection_Frame
begin

text \<open>
  \<open>ConnectionPool\<close> and \<open>BlockingConnectionPool\<close> of \<open>redis/connection.py\<close>.

  The pool is generic in the connection class, as in the code: the record \<open>conn_class\<close> holds what it calls on a
  connection.  Connections are objects with an identity: a number, with the attributes of each object in \<open>objs\<close>.
  \<open>shared\<close> is state that all connections of a pool share (the client-side cache).  The record also holds what
  the pool asks the operating system: the process id, and whether the fork lock can be acquired within five
  seconds.

  The operations are first given as whole method calls.  At the end \<open>pool_step\<close> interleaves the sections that run
  under the pool's lock with the work of the clients on the connections they hold.
\<close>

section \<open>What a pool calls on a connection\<close>

record ('c, 'g) conn_class =
  co_new :: "'g \<Rightarrow> int \<Rightarrow> (exc + 'c) \<times> 'g"
  co_pid :: "'c \<Rightarrow> int"
  co_connect :: "('c \<times> 'g, unit) io"
  co_can_read :: "('c \<times> 'g, bool) io"
  co_disconnect :: "'c \<times> 'g \<Rightarrow> 'c \<times> 'g"
  co_re_auth :: "('c \<times> 'g, unit) io"
  co_set_retry :: "retry \<Rightarrow> 'c \<Rightarrow> 'c"
  co_kwargs_retry :: "retry \<Rightarrow> 'g \<Rightarrow> 'g"
  co_auth :: "pyval \<times> pyval \<Rightarrow> ('c \<times> 'g, unit) io"
  co_set_token :: "pyval \<times> pyval \<Rightarrow> 'c \<Rightarrow> 'c"

record ('c, 'g) pool =
  created :: nat
  available :: "nat list"
  in_use :: "nat list"
  pool_pid :: int
  max_connections :: int
  has_cache :: bool
  objs :: "nat \<Rightarrow> 'c"
  next_obj :: nat
  shared :: 'g
  getpid :: int
  fork_lock_free :: bool

text \<open>A method call on connection \<open>i\<close>.\<close>

definition on_conn :: "nat \<Rightarrow> ('c \<times> 'g, 'a) io \<Rightarrow> (('c, 'g, 'z) pool_scheme, 'a) io" where
  "on_conn i m p =
     (case m (objs p i, shared p) of
        None \<Rightarrow> None
      | Some (r, (c, g)) \<Rightarrow> Some (r, p\<lparr>objs := (objs p)(i := c), shared := g\<rparr>))"

definition conn_update :: "nat \<Rightarrow> ('c \<times> 'g \<Rightarrow> 'c \<times> 'g) \<Rightarrow> ('c, 'g, 'z) pool_scheme \<Rightarrow> ('c, 'g, 'z) pool_scheme" where
  "conn_update i f p =
     (let (c, g) = f (objs p i, shared p) in p\<lparr>objs := (objs p)(i := c), shared := g\<rparr>)"

section \<open>ConnectionPool\<close>

text \<open>\<open>__init__\<close>: a falsy \<open>max_connections\<close> means \<open>2**31\<close>; caching needs protocol 3.  \<open>cache_wanted\<close> is whether a cache
  or a cache configuration is given.\<close>

definition pool_init ::
  "pyval \<Rightarrow> bool \<Rightarrow> pyval \<Rightarrow> 'g \<Rightarrow> int \<Rightarrow> (nat \<Rightarrow> 'c) \<Rightarrow> exc + ('c, 'g) pool" where
  "pool_init max_arg cache_wanted protocol g pid heap =
     (let m = (if truthy max_arg then max_arg else PInt (2 ^ 31)) in
      case (case m of PInt n \<Rightarrow> Some n | PBool b \<Rightarrow> Some (if b then 1 else 0) | _ \<Rightarrow> None) of
        None \<Rightarrow> Inl (Exc PyValueError ''max_connections must be a positive integer'')
      | Some n \<Rightarrow>
          if n < 0 then Inl (Exc PyValueError ''max_connections must be a positive integer'')
          else if cache_wanted \<and> protocol \<notin> {PInt 3, PStr ''3''}
          then Inl (Exc RedisError ''Client caching is only supported with RESP version 3'')
          else Inr \<lparr> created = 0, available = [], in_use = [], pool_pid = pid, max_connections = n,
                     has_cache = cache_wanted, objs = heap, next_obj = 0, shared = g, getpid = pid,
                     fork_lock_free = True \<rparr>)"

definition pool_reset :: "('c, 'g) pool \<Rightarrow> ('c, 'g) pool" where
  "pool_reset p = p\<lparr>created := 0, available := [], in_use := [], pool_pid := getpid p\<rparr>"

definition checkpid :: "(('c, 'g) pool, unit) io" where
  "checkpid p =
     (if pool_pid p \<noteq> getpid p
      then if \<not> fork_lock_free p then Some (Inl (Exc ChildDeadlockedError []), p)
           else Some (Inr (), pool_reset p)
      else Some (Inr (), p))"

definition make_connection :: "('c, 'g) conn_class \<Rightarrow> (('c, 'g) pool, nat) io" where
  "make_connection K p =
     (if int (created p) \<ge> max_connections p then Some (Inl (Exc ConnectionError ''Too many connections''), p)
      else let p1 = p\<lparr>created := Suc (created p)\<rparr> in
        case co_new K (shared p1) (getpid p1) of
          (Inl e, g) \<Rightarrow> Some (Inl e, p1\<lparr>shared := g\<rparr>)
        | (Inr c, g) \<Rightarrow>
            Some (Inr (next_obj p1), p1\<lparr>shared := g, objs := (objs p1)(next_obj p1 := c), next_obj := Suc (next_obj p1)\<rparr>))"

text \<open>The first section under the lock: the connection released last, or a new one.\<close>

definition pool_take :: "('c, 'g) conn_class \<Rightarrow> (('c, 'g) pool, nat) io" where
  "pool_take K p =
     (if available p \<noteq> []
      then let c = last (available p) in
        Some (Inr c, p\<lparr>available := butlast (available p), in_use := List.insert c (in_use p)\<rparr>)
      else case make_connection K p of
        None \<Rightarrow> None
      | Some (Inl e, p1) \<Rightarrow> Some (Inl e, p1)
      | Some (Inr c, p1) \<Rightarrow> Some (Inr c, p1\<lparr>in_use := List.insert c (in_use p1)\<rparr>))"

text \<open>The check of a connection before it is handed out.\<close>

definition ensure_ready :: "('c, 'g) conn_class \<Rightarrow> bool \<Rightarrow> ('c \<times> 'g, unit) io" where
  "ensure_ready K no_cache =
     io_seq (co_connect K)
       (io_try
         (io_bind (co_can_read K) (\<lambda>b.
            if b \<and> no_cache then io_raise (Exc ConnectionError ''Connection has data'') else io_ret ()))
         (\<lambda>e.
            if is_exc e ConnectionError \<or> is_exc e TimeoutError \<or> is_exc e PyOSError
            then io_seq (io_upd (co_disconnect K))
                   (io_seq (co_connect K)
                     (io_bind (co_can_read K) (\<lambda>b.
                        if b then io_raise (Exc ConnectionError ''Connection not ready'') else io_ret ())))
            else io_raise e))"

definition owns_connection :: "('c, 'g) conn_class \<Rightarrow> ('c, 'g, 'z) pool_scheme \<Rightarrow> nat \<Rightarrow> bool" where
  "owns_connection K p c \<longleftrightarrow> co_pid K (objs p c) = pool_pid p"

text \<open>The section under the lock of \<open>release\<close>; the listener of the release event re-authenticates.\<close>

definition pool_put :: "('c, 'g) conn_class \<Rightarrow> nat \<Rightarrow> (('c, 'g) pool, unit) io" where
  "pool_put K c p =
     (if c \<notin> set (in_use p) then Some (Inr (), p)
      else let p1 = p\<lparr>in_use := removeAll c (in_use p)\<rparr> in
        if owns_connection K p1 c
        then on_conn c (co_re_auth K) (p1\<lparr>available := available p1 @ [c]\<rparr>)
        else Some (Inr (), conn_update c (co_disconnect K) p1))"

definition release :: "('c, 'g) conn_class \<Rightarrow> nat \<Rightarrow> (('c, 'g) pool, unit) io" where
  "release K c = io_seq checkpid (pool_put K c)"

definition get_connection :: "('c, 'g) conn_class \<Rightarrow> (('c, 'g) pool, nat) io" where
  "get_connection K =
     io_seq checkpid (io_bind (pool_take K) (\<lambda>c.
       io_seq
         (io_get (\<lambda>p. io_try (on_conn c (ensure_ready K (\<not> has_cache p)))
            (\<lambda>e. io_seq (release K c) (io_raise e))))
         (io_ret c)))"

fun conns_update :: "nat list \<Rightarrow> ('c \<times> 'g \<Rightarrow> 'c \<times> 'g) \<Rightarrow> ('c, 'g, 'z) pool_scheme \<Rightarrow> ('c, 'g, 'z) pool_scheme" where
  "conns_update [] f p = p"
| "conns_update (c # cs) f p = conns_update cs f (conn_update c f p)"

definition pool_disconnect :: "('c, 'g) conn_class \<Rightarrow> bool \<Rightarrow> (('c, 'g) pool, unit) io" where
  "pool_disconnect K inuse_connections =
     io_seq checkpid (io_upd (\<lambda>p.
       conns_update (if inuse_connections then available p @ in_use p else available p) (co_disconnect K) p))"

definition pool_close :: "('c, 'g) conn_class \<Rightarrow> (('c, 'g) pool, unit) io" where
  "pool_close K = pool_disconnect K True"

definition set_retry :: "('c, 'g) conn_class \<Rightarrow> retry \<Rightarrow> ('c, 'g) pool \<Rightarrow> ('c, 'g) pool" where
  "set_retry K r p =
     conns_update (available p @ in_use p) (\<lambda>(c, g). (co_set_retry K r c, g))
       (p\<lparr>shared := co_kwargs_retry K r (shared p)\<rparr>)"

fun auth_all :: "('c, 'g) conn_class \<Rightarrow> pyval \<times> pyval \<Rightarrow> nat list \<Rightarrow> (('c, 'g) pool, unit) io" where
  "auth_all K tok [] = io_ret ()"
| "auth_all K tok (c # cs) = io_seq (on_conn c (co_auth K tok)) (auth_all K tok cs)"

text \<open>\<open>re_auth_callback\<close>: idle connections authenticate at once, the others when they are released.\<close>

definition re_auth_callback :: "('c, 'g) conn_class \<Rightarrow> pyval \<times> pyval \<Rightarrow> (('c, 'g) pool, unit) io" where
  "re_auth_callback K tok =
     io_get (\<lambda>p. io_seq (auth_all K tok (available p))
       (io_upd (conns_update (in_use p) (\<lambda>(c, g). (co_set_token K tok c, g)))))"

section \<open>The TCP connection as a pool's connection class\<close>

text \<open>The arguments of the class are those of the pool, with the retry policy of a later \<open>set_retry\<close>; \<open>net\<close> says how
  the connection attempts and the sends of the \<open>n\<close>-th connection go.\<close>

definition tcp_class ::
  "unit conn_env \<Rightarrow> conn_args \<Rightarrow> (nat \<Rightarrow> (exc + dial_attempt list) list \<times> send_event list) \<Rightarrow> 
    (conn, nat \<times> retry option) conn_class" where
  "tcp_class env args net =
     \<lparr> co_new = (\<lambda>(n, rt) pid. (conn_init (case rt of None \<Rightarrow> args | Some r \<Rightarrow> args\<lparr>a_retry := Some r\<rparr>) pid
                   (fst (net n)) (snd (net n)), (Suc n, rt))),
       co_pid = c_pid,
       co_connect = (\<lambda>(c, g). map_option (map_prod id (\<lambda>c'. (c', g))) (conn_connect env c)),
       co_can_read = (\<lambda>(c, g). map_option (map_prod id (\<lambda>c'. (c', g))) (conn_can_read env (Some 0) c)),
       co_disconnect = (\<lambda>(c, g). (conn_disconnect c, g)),
       co_re_auth = (\<lambda>(c, g). map_option (map_prod id (\<lambda>c'. (c', g))) (re_auth env c)),
       co_set_retry = (\<lambda>r c. c\<lparr>c_retry := r\<rparr>),
       co_kwargs_retry = (\<lambda>r (n, _). (n, Some r)),
       co_auth = (\<lambda>(oid, tok) (c, g). map_option (map_prod id (\<lambda>c'. (c', g)))
          (io_seq (with_retry env (conn_send_command env [PStr ''AUTH'', oid, tok] True) (\<lambda>_. io_ret ()))
             (io_seq (with_retry env (conn_read_response env False True False) (\<lambda>_. io_ret ())) (io_ret ())) c)),
       co_set_token = set_re_auth_token \<rparr>"

section \<open>The invariant\<close>

text \<open>No connection is idle twice, in use twice, or both; every one exists; no more are tracked than were created,
  and no more were created than allowed.\<close>

definition pool_inv :: "('c, 'g) pool \<Rightarrow> bool" where
  "pool_inv p \<longleftrightarrow> distinct (available p @ in_use p) \<and> (\<forall>c\<in>set (available p @ in_use p). c < next_obj p)
     \<and> length (available p) + length (in_use p) \<le> created p \<and> int (created p) \<le> max 0 (max_connections p)"

text \<open>\<open>pool_same\<close>: only the connection objects and the shared state may differ.\<close>

definition pool_same :: "('c, 'g, 'z) pool_scheme \<Rightarrow> ('c, 'g, 'z) pool_scheme \<Rightarrow> bool" where
  "pool_same p p' \<longleftrightarrow> created p' = created p \<and> available p' = available p \<and> in_use p' = in_use p
     \<and> pool_pid p' = pool_pid p \<and> max_connections p' = max_connections p \<and> has_cache p' = has_cache p
     \<and> next_obj p' = next_obj p \<and> getpid p' = getpid p \<and> fork_lock_free p' = fork_lock_free p"

lemma pool_same_refl [simp]: "pool_same p p"
  by (simp add: pool_same_def)

lemma pool_same_rel: "reflp pool_same" "transp pool_same"
  by (auto simp: reflp_def transp_def pool_same_def)

lemma pool_same_inv: "pool_same p p' \<Longrightarrow> pool_inv p \<Longrightarrow> pool_inv p'"
  by (simp add: pool_same_def pool_inv_def)

lemma on_conn_same: "on_conn c m p = Some (r, p') \<Longrightarrow> pool_same p p' \<and> (\<forall>i. i \<noteq> c \<longrightarrow> objs p' i = objs p i)"
  by (auto simp: on_conn_def pool_same_def split: option.splits)

lemma conn_update_same: "pool_same p (conn_update c f p)"
  by (simp add: conn_update_def pool_same_def split: prod.splits)

lemma conns_update_same: "pool_same p (conns_update cs f p)"
proof (induction cs arbitrary: p)
  case (Cons c cs)
  have "pool_same p (conn_update c f p)" by (rule conn_update_same)
  then show ?case using Cons [of "conn_update c f p"] pool_same_rel(2) by (auto dest: transpD)
qed simp

lemma checkpid_cases:
  assumes "checkpid p = Some (r, p')"
  obtains (same) "r = Inr ()" "p' = p" "pool_pid p = getpid p"
    | (reset) "r = Inr ()" "p' = pool_reset p" "pool_pid p \<noteq> getpid p"
    | (deadlock) e where "r = Inl e" "p' = p"
  using assms by (auto simp: checkpid_def split: if_splits)

lemma checkpid_inv: "pool_inv p \<Longrightarrow> checkpid p = Some (r, p') \<Longrightarrow> pool_inv p'"
  by (erule checkpid_cases) (auto simp: pool_inv_def pool_reset_def)

text \<open>How the first section under the lock ends.\<close>

lemma pool_take_cases:
  assumes "pool_take K p = Some (r, p')"
  obtains (reused) c where "available p \<noteq> []" "c = last (available p)" "r = Inr c"
      "p' = p\<lparr>available := butlast (available p), in_use := List.insert c (in_use p)\<rparr>"
    | (made) o1 g where "available p = []" "int (created p) < max_connections p" "co_new K (shared p) (getpid p) = (Inr o1, g)"
      "r = Inr (next_obj p)"
      "p' = p\<lparr>created := Suc (created p), shared := g, objs := (objs p)(next_obj p := o1), next_obj := Suc (next_obj p),
              in_use := List.insert (next_obj p) (in_use p)\<rparr>"
    | (not_made) e g where "available p = []" "int (created p) < max_connections p" "co_new K (shared p) (getpid p) = (Inl e, g)"
      "r = Inl e" "p' = p\<lparr>created := Suc (created p), shared := g\<rparr>"
    | (full) "available p = []" "int (created p) \<ge> max_connections p" "r = Inl (Exc ConnectionError ''Too many connections'')" "p' = p"
proof (cases "available p = []")
  case False
  then have "r = Inr (last (available p))"
    "p' = p\<lparr>available := butlast (available p), in_use := List.insert (last (available p)) (in_use p)\<rparr>"
    using assms by (simp_all add: pool_take_def Let_def)
  then show ?thesis using reused [OF False refl] by blast
next
  case True
  obtain q g where q: "co_new K (shared p) (getpid p) = (q, g)" by fastforce
  show ?thesis
  proof (cases "int (created p) \<ge> max_connections p")
    case False
    then have lt: "int (created p) < max_connections p" by simp
    show ?thesis
    proof (cases q)
      case (Inl e)
      then have "r = Inl e" "p' = p\<lparr>created := Suc (created p), shared := g\<rparr>"
        using assms True False q by (simp_all add: pool_take_def make_connection_def Let_def)
      then show ?thesis using not_made [OF True lt] q Inl by blast
    next
      case (Inr o1)
      then have "r = Inr (next_obj p)"
        "p' = p\<lparr>created := Suc (created p), shared := g, objs := (objs p)(next_obj p := o1), next_obj := Suc (next_obj p),
              in_use := List.insert (next_obj p) (in_use p)\<rparr>"
        using assms True False q by (auto simp: pool_take_def make_connection_def Let_def)
      then show ?thesis using made [OF True lt] q Inr by blast
    qed
  next
    case le: True
    then have "r = Inl (Exc ConnectionError ''Too many connections'')" "p' = p"
      using assms True by (simp_all add: pool_take_def make_connection_def)
    then show ?thesis using full [OF True le] by blast
  qed
qed

lemma pool_take_inv:
  assumes "pool_inv p" "pool_take K p = Some (r, p')"
  shows "pool_inv p'"
  using assms(2)
proof (cases rule: pool_take_cases)
  case (reused c)
  have ap: "available p = butlast (available p) @ [c]" using reused(1,2) by simp
  have d: "distinct (butlast (available p) @ [c] @ in_use p)" and m: "\<forall>x\<in>set (butlast (available p) @ [c] @ in_use p). x < next_obj p"
    and n: "length (butlast (available p) @ [c]) + length (in_use p) \<le> created p"
    using assms(1) ap unfolding pool_inv_def by (metis append_assoc)+
  then show ?thesis using assms(1) reused(4) by (auto simp: pool_inv_def)
next
  case (made o1 g)
  have "next_obj p \<notin> set (in_use p)" using assms(1) by (auto simp: pool_inv_def)
  then show ?thesis using assms(1) made by (auto simp: pool_inv_def less_SucI)
qed (use assms(1) in \<open>auto simp: pool_inv_def\<close>)

lemma pool_put_cases:
  assumes "pool_put K c p = Some (r, p')"
  obtains (foreign) "c \<notin> set (in_use p)" "r = Inr ()" "p' = p"
    | (returned) "c \<in> set (in_use p)" "owns_connection K p c"
      "pool_same (p\<lparr>in_use := removeAll c (in_use p), available := available p @ [c]\<rparr>) p'"
    | (dropped) "c \<in> set (in_use p)" "\<not> owns_connection K p c" "r = Inr ()"
      "pool_same (p\<lparr>in_use := removeAll c (in_use p)\<rparr>) p'"
proof (cases "c \<in> set (in_use p)")
  case True
  show ?thesis
  proof (cases "owns_connection K p c")
    case own: True
    then have "on_conn c (co_re_auth K) (p\<lparr>in_use := removeAll c (in_use p), available := available p @ [c]\<rparr>) = Some (r, p')"
      using assms True by (simp add: pool_put_def Let_def owns_connection_def)
    then show ?thesis using returned [OF True own] on_conn_same by blast
  next
    case False
    then have "r = Inr ()" "p' = conn_update c (co_disconnect K) (p\<lparr>in_use := removeAll c (in_use p)\<rparr>)"
      using assms True by (simp_all add: pool_put_def Let_def owns_connection_def)
    then show ?thesis using dropped [OF True False] conn_update_same by blast
  qed
next
  case False
  then have "r = Inr ()" "p' = p" using assms by (simp_all add: pool_put_def)
  then show ?thesis using foreign [OF False] by blast
qed

lemma pool_put_inv:
  assumes "pool_inv p" "pool_put K c p = Some (r, p')"
  shows "pool_inv p'"
proof -
  have len: "c \<in> set (in_use p) \<Longrightarrow> length (removeAll c (in_use p)) + 1 \<le> length (in_use p)"
    using length_removeAll_less [of c "in_use p"] by simp
  from assms(2) show ?thesis
  proof (cases rule: pool_put_cases)
    case returned
    have "pool_inv (p\<lparr>in_use := removeAll c (in_use p), available := available p @ [c]\<rparr>)"
      using assms(1) returned(1) len [OF returned(1)] by (auto simp: pool_inv_def distinct_removeAll)
    then show ?thesis using pool_same_inv returned(3) by blast
  next
    case dropped
    have "pool_inv (p\<lparr>in_use := removeAll c (in_use p)\<rparr>)"
      using assms(1) len [OF dropped(1)] by (auto simp: pool_inv_def distinct_removeAll)
    then show ?thesis using pool_same_inv dropped(4) by blast
  qed (use assms(1) in simp)
qed

section \<open>Interleaving clients\<close>

text \<open>
  A configuration is the pool and, for each client, the connection it holds (from the moment it took it under the
  lock until it gave it back).  Clients take turns in any order; between two sections under the lock a client may
  call any method of the connection it holds, which changes that object and the shared state.  A fork continues in the child: a new process id, some of the
  clients, the locks in any state.
\<close>

inductive pool_step :: "('c, 'g) conn_class \<Rightarrow> ('c, 'g) pool \<times> (nat \<rightharpoonup> nat) \<Rightarrow> ('c, 'g) pool \<times> (nat \<rightharpoonup> nat) \<Rightarrow> bool"
  for K where
  step_checkpid: "checkpid p = Some (r, p') \<Longrightarrow> pool_step K (p, h) (p', h)"
| step_take: "pool_take K p = Some (Inr c, p') \<Longrightarrow> h t = None \<Longrightarrow> pool_step K (p, h) (p', h(t \<mapsto> c))"
| step_take_fails: "pool_take K p = Some (Inl e, p') \<Longrightarrow> pool_step K (p, h) (p', h)"
| step_work: "h t = Some c \<Longrightarrow> pool_step K (p, h) (p\<lparr>objs := (objs p)(c := obj), shared := g\<rparr>, h)"
| step_put: "h t = Some c \<Longrightarrow> pool_put K c p = Some (r, p') \<Longrightarrow> pool_step K (p, h) (p', h(t := None))"
| step_disconnect: "pool_disconnect K b p = Some (r, p') \<Longrightarrow> pool_step K (p, h) (p', h)"
| step_set_retry: "pool_step K (p, h) (set_retry K rt p, h)"
| step_re_auth: "re_auth_callback K tok p = Some (r, p') \<Longrightarrow> pool_step K (p, h) (p', h)"
| step_fork: "h' \<subseteq>\<^sub>m h \<Longrightarrow> pool_step K (p, h) (p\<lparr>getpid := n, fork_lock_free := b\<rparr>, h')"

inductive_cases pool_stepE: "pool_step K (p, h) (p', h')"

text \<open>Nobody holds an idle connection, and no two clients hold the same one.\<close>

definition held_ok :: "('c, 'g) pool \<Rightarrow> (nat \<rightharpoonup> nat) \<Rightarrow> bool" where
  "held_ok p h \<longleftrightarrow> (\<forall>t c. h t = Some c \<longrightarrow> c < next_obj p \<and> c \<notin> set (available p))
     \<and> (\<forall>t t' c. h t = Some c \<longrightarrow> h t' = Some c \<longrightarrow> t = t')"

lemma held_ok_same: "pool_same p p' \<Longrightarrow> held_ok p h \<Longrightarrow> held_ok p' h"
  by (simp add: pool_same_def held_ok_def)

lemma checkpid_held: "held_ok p h \<Longrightarrow> checkpid p = Some (r, p') \<Longrightarrow> held_ok p' h"
  by (erule checkpid_cases) (auto simp: held_ok_def pool_reset_def)

lemma pool_take_held:
  assumes "pool_inv p" "held_ok p h" "h t = None" "pool_take K p = Some (Inr c, p')"
  shows "held_ok p' (h(t \<mapsto> c))"
  using assms(4)
proof (cases rule: pool_take_cases)
  case (reused c')
  have ap: "available p = butlast (available p) @ [c]" using reused by simp
  have "distinct (butlast (available p) @ [c] @ in_use p)" "\<forall>x\<in>set (butlast (available p) @ [c] @ in_use p). x < next_obj p"
    using assms(1) ap unfolding pool_inv_def by (metis append_assoc)+
  then have "c \<notin> set (butlast (available p))" "c < next_obj p" by auto
  moreover have "c \<in> set (available p)" using ap by (metis in_set_conv_decomp)
  then have "\<forall>t c'. h t = Some c' \<longrightarrow> c' \<noteq> c" using assms(2) unfolding held_ok_def by blast
  ultimately show ?thesis using assms(2,3) reused by (auto simp: held_ok_def dest: in_set_butlastD)
next
  case (made o1 g)
  then show ?thesis using assms(2,3) by (auto simp: held_ok_def less_SucI)
qed simp_all

lemma pool_put_held:
  assumes "held_ok p h" "h t = Some c" "pool_put K c p = Some (r, p')"
  shows "held_ok p' (h(t := None))"
  using assms(3)
proof (cases rule: pool_put_cases)
  case returned
  have "held_ok (p\<lparr>in_use := removeAll c (in_use p), available := available p @ [c]\<rparr>) (h(t := None))"
    using assms(1,2) by (auto simp: held_ok_def)
  then show ?thesis using held_ok_same returned(3) by blast
next
  case dropped
  have "held_ok (p\<lparr>in_use := removeAll c (in_use p)\<rparr>) (h(t := None))"
    using assms(1,2) by (auto simp: held_ok_def)
  then show ?thesis using held_ok_same dropped(4) by blast
qed (use assms(1) in \<open>auto simp: held_ok_def\<close>)

lemma pool_disconnect_keeps:
  assumes "pool_disconnect K b p = Some (r, p')"
  obtains p1 where "checkpid p = Some (r, p1)" "p' = p1" | p1 where "checkpid p = Some (Inr (), p1)" "pool_same p1 p'"
  using assms unfolding pool_disconnect_def io_seq_def
proof (cases rule: io_bind_SomeE)
  case (continues x s1)
  then show ?thesis using that(2) [of s1] conns_update_same by (auto simp: io_upd_def)
qed (use that(1) in auto)

lemma auth_all_same: "auth_all K tok cs p = Some (r, p') \<Longrightarrow> pool_same p p'"
proof (induction cs arbitrary: p)
  case (Cons c cs)
  from Cons.prems show ?case unfolding auth_all.simps io_seq_def
  proof (cases rule: io_bind_SomeE)
    case (raises e)
    then show ?thesis using on_conn_same by blast
  next
    case (continues x s1)
    then show ?thesis using on_conn_same [of c "co_auth K tok" p _ s1] Cons.IH [of s1] pool_same_rel(2) by (meson transpD)
  qed
qed (simp add: io_ret_def)

lemma re_auth_callback_same: "re_auth_callback K tok p = Some (r, p') \<Longrightarrow> pool_same p p'"
  unfolding re_auth_callback_def io_get_def io_seq_def
proof (erule io_bind_SomeE)
  fix x s1
  assume a: "auth_all K tok (available p) p = Some (Inr x, s1)"
    "io_upd (conns_update (in_use p) (\<lambda>(c, g). (co_set_token K tok c, g))) s1 = Some (r, p')"
  have "pool_same s1 p'" using a(2) conns_update_same [of s1] by (auto simp: io_upd_def)
  then show "pool_same p p'" using auth_all_same [OF a(1)] pool_same_rel(2) by (meson transpD)
qed (auto dest: auth_all_same)

lemma set_retry_same: "pool_same p (set_retry K rt p)"
proof -
  have "pool_same p (p\<lparr>shared := g\<rparr>)" for g by (simp add: pool_same_def)
  then show ?thesis unfolding set_retry_def using conns_update_same pool_same_rel(2) by (meson transpD)
qed

lemma same_safe: "pool_same p p' \<Longrightarrow> pool_inv p \<Longrightarrow> held_ok p h \<Longrightarrow> pool_inv p' \<and> held_ok p' h"
  using pool_same_inv held_ok_same by blast

lemma pool_step_safe:
  assumes "pool_step K (p, h) (p', h')" "pool_inv p" "held_ok p h"
  shows "pool_inv p' \<and> held_ok p' h'"
  using assms(1)
proof cases
  case (step_disconnect b r)
  from step_disconnect(2) show ?thesis
  proof (cases rule: pool_disconnect_keeps)
    case (1 p1)
    then show ?thesis using assms(2,3) step_disconnect(1) checkpid_inv checkpid_held by blast
  next
    case (2 p1)
    then have "pool_inv p1" "held_ok p1 h" using checkpid_inv checkpid_held assms(2,3) by blast+
    then show ?thesis using same_safe [OF 2(2)] step_disconnect(1) by blast
  qed
next
  case (step_checkpid r)
  then show ?thesis using assms(2,3) checkpid_inv checkpid_held by blast
next
  case (step_take c t)
  then show ?thesis using assms(2,3) pool_take_inv pool_take_held by blast
next
  case (step_take_fails e)
  have "held_ok p' h" using step_take_fails(2)
    by (cases rule: pool_take_cases) (use assms(3) in \<open>auto simp: held_ok_def\<close>)
  then show ?thesis using assms(2) step_take_fails pool_take_inv by blast
next
  case (step_work t c obj g)
  then show ?thesis using assms(2,3) by (simp add: pool_inv_def held_ok_def)
next
  case (step_put t c r)
  then show ?thesis using assms(2,3) pool_put_inv pool_put_held by blast
next
  case (step_set_retry rt)
  then show ?thesis using same_safe [OF set_retry_same assms(2,3)] by blast
next
  case (step_re_auth tok r)
  then show ?thesis using same_safe [OF re_auth_callback_same assms(2,3)] by blast
next
  case (step_fork n b)
  then have "h' t = Some c \<Longrightarrow> h t = Some c" for t c by (auto simp: map_le_def dom_def)
  then show ?thesis using assms(2,3) step_fork by (auto simp: pool_inv_def held_ok_def)
qed

section \<open>Getting a connection\<close>

text \<open>A successful \<open>get_connection\<close> took a connection and found it ready; a failing one either took none, or took one
  and put it back.\<close>

lemma get_connection_cases:
  assumes "get_connection K p = Some (r, p')"
  obtains (deadlock) e where "checkpid p = Some (Inl e, p')" "r = Inl e"
    | (not_taken) e p0 where "checkpid p = Some (Inr (), p0)" "pool_take K p0 = Some (Inl e, p')" "r = Inl e"
    | (ready) c p0 p1 u where "checkpid p = Some (Inr (), p0)" "pool_take K p0 = Some (Inr c, p1)"
        "on_conn c (ensure_ready K (\<not> has_cache p1)) p1 = Some (Inr u, p')" "r = Inr c"
    | (put_back) c p0 p1 p2 e q where "checkpid p = Some (Inr (), p0)" "pool_take K p0 = Some (Inr c, p1)"
        "on_conn c (ensure_ready K (\<not> has_cache p1)) p1 = Some (Inl e, p2)" "release K c p2 = Some (q, p')" "\<exists>x. r = Inl x"
proof -
  let ?chk = "\<lambda>c. io_get (\<lambda>p. io_try (on_conn c (ensure_ready K (\<not> has_cache p))) (\<lambda>e. io_seq (release K c) (io_raise e)))"
  from assms have "io_bind checkpid (\<lambda>_. io_bind (pool_take K) (\<lambda>c. io_seq (?chk c) (io_ret c))) p = Some (r, p')"
    unfolding get_connection_def io_seq_def [of checkpid] .
  then show thesis
  proof (cases rule: io_bind_SomeE)
    case (raises e)
    then show ?thesis using deadlock by blast
  next
    case 1: (continues u p0)
    from 1(2) show ?thesis
    proof (cases rule: io_bind_SomeE)
      case (raises e)
      then show ?thesis using not_taken 1 by auto
    next
      case 2: (continues c p1)
      from 2(2) have "io_bind (?chk c) (\<lambda>_. io_ret c) p1 = Some (r, p')" unfolding io_seq_def [of "?chk c"] .
      then show ?thesis
      proof (cases rule: io_bind_SomeE)
        case (raises e)
        then show ?thesis using put_back [of p0 c p1] 1(1) 2(1)
          by (auto simp: io_get_def io_try_def io_seq_def io_raise_def split: option.splits sum.splits prod.splits elim!: io_bind_SomeE)
      next
        case 3: (continues v p2)
        have "on_conn c (ensure_ready K (\<not> has_cache p1)) p1 = Some (Inr v, p2)"
          using 3(1) by (auto simp: io_get_def io_try_def io_seq_def io_raise_def split: option.splits sum.splits prod.splits elim!: io_bind_SomeE)
        moreover have "r = Inr c" "p' = p2" using 3(2) by (auto simp: io_ret_def)
        ultimately show ?thesis using ready [of p0 c p1 v] 1(1) 2(1) by auto
      qed
    qed
  qed
qed

lemma pool_take_in_use:
  assumes "pool_inv p" "pool_take K p = Some (Inr c, p1)"
  shows "c \<notin> set (in_use p)" "set (in_use p1) = insert c (set (in_use p))" "pool_pid p1 = pool_pid p" "getpid p1 = getpid p"
    "c \<notin> set (available p1)"
proof -
  have h: "held_ok p Map.empty" by (simp add: held_ok_def)
  have "held_ok p1 (Map.empty(0 \<mapsto> c))" by (rule pool_take_held [OF assms(1) h _ assms(2)]) simp
  then show "c \<notin> set (available p1)" unfolding held_ok_def by (metis fun_upd_same)
  show "c \<notin> set (in_use p)" "set (in_use p1) = insert c (set (in_use p))" "pool_pid p1 = pool_pid p" "getpid p1 = getpid p"
    using assms(2) by (cases rule: pool_take_cases; use assms(1) in \<open>force simp: pool_inv_def\<close>)+
qed

lemma get_connection_in_use:
  assumes inv: "pool_inv p" and pid: "pool_pid p = getpid p" and run: "get_connection K p = Some (r, p')"
  shows "pool_inv p' \<and> pool_pid p' = getpid p' \<and> (case r of
      Inr c \<Rightarrow> c \<notin> set (in_use p) \<and> set (in_use p') = insert c (set (in_use p)) \<and> c \<notin> set (available p')
    | Inl e \<Rightarrow> set (in_use p') = set (in_use p))"
proof -
  have chk: "checkpid p = Some (Inr (), p)" using pid by (simp add: checkpid_def)
  from run show ?thesis
  proof (cases rule: get_connection_cases)
    case (not_taken e p0)
    then have "pool_take K p = Some (Inl e, p')" using chk by simp
    moreover from this have "pool_inv p'" using pool_take_inv [OF inv] by blast
    ultimately show ?thesis using not_taken(3) pid
      by (cases rule: pool_take_cases) auto
  next
    case (ready c p0 p1 u)
    then have t: "pool_take K p = Some (Inr c, p1)" using chk by simp
    note f = pool_take_in_use [OF inv t] and sm = on_conn_same [OF ready(3)]
    then show ?thesis using pool_same_inv [OF _ pool_take_inv [OF inv t]] pid ready(4) by (auto simp: pool_same_def)
  next
    case (put_back c p0 p1 p2 e q)
    then have t: "pool_take K p = Some (Inr c, p1)" using chk by simp
    note f = pool_take_in_use [OF inv t] and sm = on_conn_same [OF put_back(3)]
    have p2: "pool_inv p2" "pool_pid p2 = getpid p2" "in_use p2 = in_use p1"
      using sm f(3,4) pid pool_same_inv [OF _ pool_take_inv [OF inv t]] by (auto simp: pool_same_def)
    have "pool_put K c p2 = Some (q, p')" using put_back(4) p2(2) by (simp add: release_def io_seq_def checkpid_def)
    moreover from this have "pool_inv p'" using pool_put_inv p2(1) by blast
    ultimately show ?thesis using p2 f(1,2) put_back(5)
      by (cases rule: pool_put_cases) (auto simp: pool_same_def)
  qed (use chk in simp)
qed

section \<open>The contract of a connection class\<close>

text \<open>What the pool relies on: a connection that connected is open, asking whether there is data keeps it open, and the
  methods keep whatever \<open>okc\<close> requires of the object.\<close>

locale pooled_class =
  fixes K :: "('c, 'g) conn_class" and okc :: "'c \<Rightarrow> bool" and is_open :: "'c \<Rightarrow> bool"
  assumes connect_okc: "co_connect K (c, g) = Some (r, (c', g')) \<Longrightarrow> okc c' = okc c"
    and can_read_okc: "co_can_read K (c, g) = Some (b, (c', g')) \<Longrightarrow> okc c' = okc c"
    and disconnect_okc: "okc (fst (co_disconnect K (c, g))) = okc c"
    and connect_open: "okc c \<Longrightarrow> co_connect K (c, g) = Some (Inr u, (c', g')) \<Longrightarrow> is_open c'"
    and can_read_open: "okc c \<Longrightarrow> is_open c \<Longrightarrow> co_can_read K (c, g) = Some (Inr b', (c', g')) \<Longrightarrow> is_open c'"
begin

lemma connect_then_read:
  assumes "io_seq (co_connect K) (io_bind (co_can_read K) (\<lambda>b. if P b then io_raise e else io_ret ())) (c, g) = Some (Inr u, (c', g'))"
    and "okc c'"
  shows "is_open c'"
proof -
  obtain v c1 g1 where 1: "co_connect K (c, g) = Some (Inr v, (c1, g1))"
    "io_bind (co_can_read K) (\<lambda>b. if P b then io_raise e else io_ret ()) (c1, g1) = Some (Inr u, (c', g'))"
    using assms(1) unfolding io_seq_def by (auto elim!: io_bind_SomeE)
  then obtain b where 2: "co_can_read K (c1, g1) = Some (Inr b, (c', g'))"
    by (auto elim!: io_bind_SomeE simp: io_raise_def io_ret_def split: if_splits)
  then show ?thesis using connect_open can_read_open connect_okc can_read_okc 1 2 assms(2) by metis
qed

lemma ensure_ready_open:
  assumes "ensure_ready K nc (c, g) = Some (Inr u, (c', g'))" "okc c'"
  shows "is_open c'"
proof -
  obtain v c1 g1 where 1: "co_connect K (c, g) = Some (Inr v, (c1, g1))"
    and t: "io_try (io_bind (co_can_read K) (\<lambda>b. if b \<and> nc then io_raise (Exc ConnectionError ''Connection has data'') else io_ret ()))
       (\<lambda>e. if is_exc e ConnectionError \<or> is_exc e TimeoutError \<or> is_exc e PyOSError
            then io_seq (io_upd (co_disconnect K)) (io_seq (co_connect K) (io_bind (co_can_read K) (\<lambda>b.
                        if b then io_raise (Exc ConnectionError ''Connection not ready'') else io_ret ())))
            else io_raise e) (c1, g1) = Some (Inr u, (c', g'))"
    using assms(1) unfolding ensure_ready_def io_seq_def [of "co_connect K"] by (auto elim!: io_bind_SomeE)
  let ?first = "io_bind (co_can_read K) (\<lambda>b. if b \<and> nc then io_raise (Exc ConnectionError ''Connection has data'') else io_ret ()) (c1, g1)"
  show ?thesis
  proof (cases "?first = Some (Inr u, (c', g'))")
    case True
    have "io_seq (co_connect K) (io_bind (co_can_read K) (\<lambda>b. if b \<and> nc then io_raise (Exc ConnectionError ''Connection has data'')
        else io_ret ())) (c, g) = Some (Inr u, (c', g'))" using 1 True by (simp add: io_seq_def)
    from connect_then_read [of "\<lambda>b. b \<and> nc", OF this assms(2)] show ?thesis .
  next
    case False
    then obtain e s2 where "?first = Some (Inl e, s2)" using t by (auto simp: io_try_def split: option.splits sum.splits)
    then have "io_seq (co_connect K) (io_bind (co_can_read K) (\<lambda>b. if b then io_raise (Exc ConnectionError ''Connection not ready'')
        else io_ret ())) (co_disconnect K s2) = Some (Inr u, (c', g'))"
      using t by (auto simp: io_try_def io_seq_def [of "io_upd _"] io_upd_def io_raise_def split: if_splits)
    then show ?thesis using connect_then_read [of "\<lambda>b. b"] assms(2) by (cases "co_disconnect K s2") auto
  qed
qed

lemma get_connection_open:
  assumes "get_connection K p = Some (Inr c, p')" "okc (objs p' c)"
  shows "is_open (objs p' c)"
  using assms(1)
proof (cases rule: get_connection_cases)
  case (ready c1 p0 p1 u)
  then obtain o1 g1 where "ensure_ready K (\<not> has_cache p1) (objs p1 c, shared p1) = Some (Inr u, (o1, g1))" "objs p' c = o1"
    by (auto simp: on_conn_def split: option.splits)
  then show ?thesis using ensure_ready_open assms(2) by blast
qed simp_all

end

section \<open>The TCP connection keeps the contract\<close>

definition tcp_okc :: "unit conn_env \<Rightarrow> conn \<Rightarrow> bool" where
  "tcp_okc env c \<longleftrightarrow> env_ok env \<and> e_connect_func env = None \<and> callbacks_ok env \<and> given_ok env
     \<and> c_health_check_interval c = 0"

lemma tcp_okc_fixed: "given_ok env \<longrightarrow> fixed_attrs c' = fixed_attrs c \<Longrightarrow> tcp_okc env c' = tcp_okc env c"
  by (auto simp: tcp_okc_def fixed_attrs_def)

lemma conn_can_read_open:
  assumes "c_sock c \<noteq> None" "conn_can_read env t c = Some (Inr b, c')"
  shows "c_sock c' \<noteq> None"
proof -
  have lb: "lift_buf (can_read t) c = Some (r, d) \<Longrightarrow> c_sock d = c_sock c" for r d
    by (auto simp: lift_buf_def split: option.splits prod.splits)
  have "(if sbuf c = None then io_ret False else lift_buf (can_read t)) c = Some (Inr b, c')"
    using assms by (auto simp: conn_can_read_def io_seq_def io_bind_def io_get_def io_when_def io_ret_def io_try_def io_upd_def
        io_raise_def split: option.splits sum.splits prod.splits if_splits)
  then show ?thesis using assms(1) lb [of "Inr b" c'] by (cases "sbuf c = None") (auto simp: io_ret_def)
qed

lemma tcp_class_simps:
  "co_connect (tcp_class env args net) (c, g) = Some (r, (c', g')) \<longleftrightarrow> conn_connect env c = Some (r, c') \<and> g' = g"
  "co_can_read (tcp_class env args net) (c, g) = Some (b, (c', g')) \<longleftrightarrow> conn_can_read env (Some 0) c = Some (b, c') \<and> g' = g"
  "co_disconnect (tcp_class env args net) (c, g) = (conn_disconnect c, g)"
  by (auto simp: tcp_class_def)

interpretation tcp: pooled_class "tcp_class env args net" "tcp_okc env" "\<lambda>c. c_sock c \<noteq> None" for env args net
proof (unfold_locales, unfold tcp_class_simps)
  fix c g r c' g'
  assume "conn_connect env c = Some (r, c') \<and> g' = g"
  then have "given_ok env \<longrightarrow> fixed_attrs c' = fixed_attrs c"
    using fixed.public_pres(1) [of env, unfolded io_pres_def, rule_format, of c r c'] by blast
  then show "tcp_okc env c' = tcp_okc env c" by (rule tcp_okc_fixed)
next
  fix c g b c' g'
  assume "conn_can_read env (Some 0) c = Some (b, c') \<and> g' = g"
  then have "given_ok env \<longrightarrow> fixed_attrs c' = fixed_attrs c"
    using fixed.public_pres(2) [of env "Some 0", unfolded io_pres_def, rule_format, of c b c'] by blast
  then show "tcp_okc env c' = tcp_okc env c" by (rule tcp_okc_fixed)
next
  fix c :: conn and g :: "nat \<times> retry option"
  show "tcp_okc env (fst (conn_disconnect c, g)) = tcp_okc env c"
    unfolding fst_conv by (rule tcp_okc_fixed) (rule fixed.disconnect_R)
next
  fix c g u c' g'
  assume ok: "tcp_okc env c" and "conn_connect env c = Some (Inr u, c') \<and> g' = g"
  then have run: "connect_body env (connect_fuel 1 env) True c = Some (Inr u, c')"
    by (simp add: conn_connect_def connect_check_health_def numeral_2_eq_2)
  show "c_sock c' \<noteq> None"
  proof (cases "c_sock c")
    case None
    then show ?thesis using connect_outcome_aux [OF _ _ _ None _ run] ok by (simp add: tcp_okc_def)
  next
    case (Some x)
    then show ?thesis using run by (auto simp: connect_body_def io_get_def io_when_def io_ret_def)
  qed
next
  fix c g b' c' g'
  assume "c_sock c \<noteq> None" "conn_can_read env (Some 0) c = Some (Inr b', c') \<and> g' = g"
  then show "c_sock c' \<noteq> None" using conn_can_read_open by blast
qed

section \<open>Properties\<close>

lemma demo_given: "given_ok demo_env"
  unfolding given_ok_def
proof (intro conjI allI impI)
  show "io_pres (\<lambda>s s'. fixed_attrs s' = fixed_attrs s) (e_push demo_env xs)" for xs
    unfolding demo_env_def conn_env.simps by (rule io_pres_ret) (rule reflpI, rule refl)
  show "io_pres (\<lambda>s s'. fixed_attrs s' = fixed_attrs s) (e_callback demo_env cb)" for cb
    unfolding demo_env_def conn_env.simps by (rule io_pres_ret) (rule reflpI, rule refl)
  fix f
  assume "e_connect_func demo_env = Some f"
  then show "io_pres (\<lambda>s s'. fixed_attrs s' = fixed_attrs s) f" using demo_env_ok(2) by simp
qed

lemma run_result:
  assumes "map_option (\<lambda>(r, p). (r, f p)) m = Some (a, b)"
  obtains p where "m = Some (a, p)" "f p = b"
  using assms by auto

lemma pool_init_inv: "pool_init m w pr g pid heap = Inr p \<Longrightarrow> pool_inv p"
  by (auto simp: pool_init_def pool_inv_def Let_def split: pyval.splits option.splits if_splits)

text \<open>
  C20: in every state that any interleaving of clients reaches from a new pool, forks included: no connection is
  idle twice, or idle and in use; the pool tracks at most as many connections as it created and created at most
  \<open>max_connections\<close>; and no two clients hold the same connection, nor does one hold an idle connection.
\<close>

theorem pool_exclusive:
  assumes "pool_init max_arg cache_wanted protocol g pid heap = Inr p0"
    and "(pool_step K)\<^sup>*\<^sup>* (p0, Map.empty) (p, h)"
  shows "pool_inv p \<and> held_ok p h"
  using assms(2)
proof (induction "(p, h)" arbitrary: p h rule: rtranclp_induct)
  case base
  then show ?case using pool_init_inv [OF assms(1)] by (simp add: held_ok_def)
next
  case (step s)
  obtain q k where s: "s = (q, k)" by fastforce
  then show ?case using pool_step_safe [of K q k p h] step by blast
qed

definition demo_class :: "(int, nat) conn_class" where
  "demo_class = \<lparr> co_new = (\<lambda>n pid. (Inr pid, Suc n)), co_pid = id, co_connect = io_ret (), co_can_read = io_ret False,
     co_disconnect = id, co_re_auth = io_ret (), co_set_retry = (\<lambda>_. id), co_kwargs_retry = (\<lambda>_. id),
     co_auth = (\<lambda>_. io_ret ()), co_set_token = (\<lambda>_. id) \<rparr>"

definition demo_pool :: "int \<Rightarrow> (int, nat) pool" where
  "demo_pool n = \<lparr> created = 0, available = [], in_use = [], pool_pid = 1, max_connections = n, has_cache = False,
     objs = (\<lambda>_. 0), next_obj = 0, shared = 0, getpid = 1, fork_lock_free = True \<rparr>"

lemma demo_pool_init: "pool_init (PInt 2) False PNone 0 1 (\<lambda>_. 0) = Inr (demo_pool 2)"
  by (simp add: pool_init_def demo_pool_def)

theorem pool_exclusive_witness:
  "\<exists>p. pool_step demo_class (demo_pool 2, Map.empty) (p, [7 \<mapsto> 0]) \<and> pool_inv p \<and> held_ok p [7 \<mapsto> 0]"
proof -
  obtain p where "pool_take demo_class (demo_pool 2) = Some (Inr 0, p)"
    by (simp add: pool_take_def make_connection_def demo_pool_def demo_class_def Let_def)
  then have st: "pool_step demo_class (demo_pool 2, Map.empty) (p, [7 \<mapsto> 0])"
    using step_take [of demo_class "demo_pool 2" 0 p Map.empty 7] by simp
  then have "(pool_step demo_class)\<^sup>*\<^sup>* (demo_pool 2, Map.empty) (p, [7 \<mapsto> 0])" by simp
  from pool_exclusive [OF demo_pool_init this] st show ?thesis by blast
qed

text \<open>
  C21: \<open>get_connection\<close> never leaks.  In the process that owns the pool, a connection it returns was not in use, is
  now the only addition to the connections in use and is no longer idle; when it raises, whatever the connection
  did, the connections in use are those of before.
\<close>

theorem get_connection_no_leak:
  assumes "pool_inv p" "pool_pid p = getpid p" "get_connection K p = Some (r, p')"
  shows "pool_inv p' \<and> (case r of
      Inr c \<Rightarrow> c \<notin> set (in_use p) \<and> set (in_use p') = insert c (set (in_use p)) \<and> c \<notin> set (available p')
    | Inl e \<Rightarrow> set (in_use p') = set (in_use p))"
  using get_connection_in_use [OF assms] by blast

theorem get_connection_no_leak_witness:
  "\<exists>e p'. get_connection (demo_class\<lparr>co_connect := io_raise (Exc TimeoutError ''slow'')\<rparr>) (demo_pool 2) = Some (Inl e, p')
     \<and> set (in_use p') = {} \<and> available p' = [0]"
proof -
  let ?K = "demo_class\<lparr>co_connect := io_raise (Exc TimeoutError ''slow'')\<rparr>"
  have "map_option (\<lambda>(r, p). (r, available p)) (get_connection ?K (demo_pool 2)) = Some (Inl (Exc TimeoutError ''slow''), [0])"
    by code_simp
  then obtain p' where p': "get_connection ?K (demo_pool 2) = Some (Inl (Exc TimeoutError ''slow''), p')" "available p' = [0]" by auto
  have "pool_inv (demo_pool 2)" "pool_pid (demo_pool 2) = getpid (demo_pool 2)" "in_use (demo_pool 2) = []" by code_simp+
  from get_connection_no_leak [OF this(1,2) p'(1)] this(3) p' show ?thesis by auto
qed




end
