(* ===== verification/Blocking_Pool.thy ===== *)
theory Blocking_Pool
  imports Pool
begin

text \<open>
  \<open>BlockingConnectionPool\<close> of \<open>redis/connection.py\<close>: a pool whose idle connections wait in a bounded
  last-in-first-out queue, with \<open>None\<close> for a connection still to be made.  The record extends that of
  \<open>ConnectionPool\<close>, as the class extends the class; the attributes \<open>created\<close>, \<open>available\<close> and \<open>in_use\<close> of the base
  class are not used.

  \<open>queue\<close> is the \<open>LifoQueue\<close>, its end the next element to leave.  When it is empty, \<open>get\<close> waits: forever without a
  timeout (the call does not return), else until \<open>Empty\<close> is raised.
\<close>

record ('c, 'g) bpool = "('c, 'g) pool" +
  queue :: "nat option list"
  bconns :: "nat list"
  waits_forever :: bool

abbreviation capacity :: "('c, 'g) bpool \<Rightarrow> nat" where
  "capacity p \<equiv> nat (max_connections p)"

definition bpool_reset :: "('c, 'g) bpool \<Rightarrow> ('c, 'g) bpool" where
  "bpool_reset p = p\<lparr>queue := replicate (capacity p) None, bconns := [], pool_pid := getpid p\<rparr>"

definition bpool_checkpid :: "(('c, 'g) bpool, unit) io" where
  "bpool_checkpid p =
     (if pool_pid p \<noteq> getpid p
      then if \<not> fork_lock_free p then Some (Inl (Exc ChildDeadlockedError []), p)
           else Some (Inr (), bpool_reset p)
      else Some (Inr (), p))"

definition bpool_make_connection :: "('c, 'g) conn_class \<Rightarrow> (('c, 'g) bpool, nat) io" where
  "bpool_make_connection K p =
     (case co_new K (shared p) (getpid p) of
        (Inl e, g) \<Rightarrow> Some (Inl e, p\<lparr>shared := g\<rparr>)
      | (Inr c, g) \<Rightarrow>
          Some (Inr (next_obj p), p\<lparr>shared := g, objs := (objs p)(next_obj p := c), next_obj := Suc (next_obj p),
                                   bconns := bconns p @ [next_obj p]\<rparr>))"

text \<open>\<open>self.pool.get(block=True, timeout=self.timeout)\<close>, and the connection made for a \<open>None\<close>.\<close>

definition bpool_take :: "('c, 'g) conn_class \<Rightarrow> (('c, 'g) bpool, nat) io" where
  "bpool_take K p =
     (if queue p = [] then
        if waits_forever p then None else Some (Inl (Exc ConnectionError ''No connection available.''), p)
      else let p1 = p\<lparr>queue := butlast (queue p)\<rparr> in
        case last (queue p) of
          Some c \<Rightarrow> Some (Inr c, p1)
        | None \<Rightarrow> bpool_make_connection K p1)"

definition queue_full :: exc where
  "queue_full = Exc PyException ''Full''"

definition put_nowait :: "nat option \<Rightarrow> (('c, 'g) bpool, unit) io" where
  "put_nowait x p =
     (if length (queue p) \<ge> capacity p then Some (Inl queue_full, p) else Some (Inr (), p\<lparr>queue := queue p @ [x]\<rparr>))"

definition bpool_put :: "('c, 'g) conn_class \<Rightarrow> nat \<Rightarrow> (('c, 'g) bpool, unit) io" where
  "bpool_put K c =
     io_get (\<lambda>p.
       if \<not> owns_connection K p c
       then io_seq (io_upd (conn_update c (co_disconnect K))) (put_nowait None)
       else io_try (put_nowait (Some c)) (\<lambda>_. io_ret ()))"

definition bpool_release :: "('c, 'g) conn_class \<Rightarrow> nat \<Rightarrow> (('c, 'g) bpool, unit) io" where
  "bpool_release K c = io_seq bpool_checkpid (bpool_put K c)"

definition bpool_get_connection :: "('c, 'g) conn_class \<Rightarrow> (('c, 'g) bpool, nat) io" where
  "bpool_get_connection K =
     io_seq bpool_checkpid (io_bind (bpool_take K) (\<lambda>c.
       io_seq
         (io_try (on_conn c (ensure_ready K True)) (\<lambda>e. io_seq (bpool_release K c) (io_raise e)))
         (io_ret c)))"

definition bpool_disconnect :: "('c, 'g) conn_class \<Rightarrow> (('c, 'g) bpool, unit) io" where
  "bpool_disconnect K =
     io_seq bpool_checkpid (io_upd (\<lambda>p. conns_update (bconns p) (co_disconnect K) p))"

section \<open>Interleaving clients\<close>

text \<open>As for \<open>ConnectionPool\<close>; \<open>forks\<close> says whether the process may fork.\<close>

inductive bpool_step :: "bool \<Rightarrow> ('c, 'g) conn_class \<Rightarrow> ('c, 'g) bpool \<times> (nat \<rightharpoonup> nat) \<Rightarrow> ('c, 'g) bpool \<times> (nat \<rightharpoonup> nat) \<Rightarrow> bool"
  for forks K where
  bstep_checkpid: "bpool_checkpid p = Some (r, p') \<Longrightarrow> bpool_step forks K (p, h) (p', h)"
| bstep_take: "bpool_take K p = Some (Inr c, p') \<Longrightarrow> h t = None \<Longrightarrow> bpool_step forks K (p, h) (p', h(t \<mapsto> c))"
| bstep_take_fails: "bpool_take K p = Some (Inl e, p') \<Longrightarrow> bpool_step forks K (p, h) (p', h)"
| bstep_work: "h t = Some c \<Longrightarrow> bpool_step forks K (p, h) (p\<lparr>objs := (objs p)(c := obj), shared := g\<rparr>, h)"
| bstep_put: "h t = Some c \<Longrightarrow> bpool_put K c p = Some (r, p') \<Longrightarrow> bpool_step forks K (p, h) (p', h(t := None))"
| bstep_disconnect: "bpool_disconnect K p = Some (r, p') \<Longrightarrow> bpool_step forks K (p, h) (p', h)"
| bstep_fork: "forks \<Longrightarrow> h' \<subseteq>\<^sub>m h \<Longrightarrow> bpool_step forks K (p, h) (p\<lparr>getpid := n, fork_lock_free := b\<rparr>, h')"

definition idle :: "('c, 'g) bpool \<Rightarrow> nat list" where
  "idle p = map the (filter (\<lambda>x. x \<noteq> None) (queue p))"

text \<open>The queue never holds more than the capacity, nor a connection twice, nor one that a client holds; no two
  clients hold the same one.\<close>

definition bpool_ok :: "('c, 'g) bpool \<Rightarrow> (nat \<rightharpoonup> nat) \<Rightarrow> bool" where
  "bpool_ok p h \<longleftrightarrow> length (queue p) \<le> capacity p \<and> distinct (idle p) \<and> (\<forall>c\<in>set (idle p). c < next_obj p)
     \<and> (\<forall>t c. h t = Some c \<longrightarrow> c < next_obj p \<and> c \<notin> set (idle p))
     \<and> (\<forall>t t' c. h t = Some c \<longrightarrow> h t' = Some c \<longrightarrow> t = t')"

text \<open>Without forks a slot of the queue is never lost or duplicated except by a failing constructor.\<close>

definition slots_ok :: "('c, 'g) bpool \<Rightarrow> (nat \<rightharpoonup> nat) \<Rightarrow> bool" where
  "slots_ok p h \<longleftrightarrow> pool_pid p = getpid p \<and> finite (dom h) \<and> length (queue p) + card (dom h) \<le> capacity p"

lemma idle_simps [simp]:
  "idle (p\<lparr>queue := q @ [Some c]\<rparr>) = idle (p\<lparr>queue := q\<rparr>) @ [c]"
  "idle (p\<lparr>queue := q @ [None]\<rparr>) = idle (p\<lparr>queue := q\<rparr>)"
  "idle (p\<lparr>queue := replicate n None\<rparr>) = []"
  by (auto simp: idle_def)

lemma idle_frame [simp]:
  "idle (p\<lparr>objs := o1\<rparr>) = idle p" "idle (p\<lparr>shared := g\<rparr>) = idle p" "idle (p\<lparr>next_obj := n\<rparr>) = idle p"
  "idle (p\<lparr>bconns := b\<rparr>) = idle p" "idle (p\<lparr>pool_pid := i\<rparr>) = idle p" "idle (p\<lparr>getpid := i\<rparr>) = idle p"
  "idle (p\<lparr>fork_lock_free := l\<rparr>) = idle p"
  by (simp_all add: idle_def)

lemma idle_queue: "idle p = map the (filter (\<lambda>x. x \<noteq> None) (queue p))"
  by (simp add: idle_def)

lemma conn_update_eq: "\<exists>c' g. conn_update c f p = p\<lparr>objs := (objs p)(c := c'), shared := g\<rparr>"
  by (auto simp: conn_update_def split: prod.splits)

lemma conns_update_eq: "\<exists>f' g'. conns_update cs f p = p\<lparr>objs := f', shared := g'\<rparr>"
proof (induction cs arbitrary: p)
  case Nil
  show ?case by (rule exI [of _ "objs p"], rule exI [of _ "shared p"]) simp
next
  case (Cons c cs)
  obtain c' g where "conn_update c f p = p\<lparr>objs := (objs p)(c := c'), shared := g\<rparr>" using conn_update_eq [of c f p] by (elim exE)
  then show ?case using Cons [of "conn_update c f p"] by auto
qed

lemma bpool_ok_frame: "bpool_ok (p\<lparr>objs := f, shared := g\<rparr>) h = bpool_ok p h"
  "slots_ok (p\<lparr>objs := f, shared := g\<rparr>) h = slots_ok p h"
  by (simp_all add: bpool_ok_def slots_ok_def idle_def)

lemma bpool_checkpid_cases:
  assumes "bpool_checkpid p = Some (r, p')"
  obtains "p' = p" | "p' = bpool_reset p" "pool_pid p \<noteq> getpid p"
  using assms by (auto simp: bpool_checkpid_def split: if_splits)

lemma bpool_checkpid_ok:
  assumes "bpool_checkpid p = Some (r, p')"
  shows "bpool_ok p h \<Longrightarrow> bpool_ok p' h" "slots_ok p h \<Longrightarrow> slots_ok p' h"
  using assms by (cases rule: bpool_checkpid_cases; auto simp: bpool_ok_def bpool_reset_def slots_ok_def idle_def)+

lemma butlast_idle:
  assumes "queue p \<noteq> []"
  shows "idle p = idle (p\<lparr>queue := butlast (queue p)\<rparr>) @ (case last (queue p) of None \<Rightarrow> [] | Some c \<Rightarrow> [c])"
proof -
  have "queue p = butlast (queue p) @ [last (queue p)]" using assms by simp
  then have "idle p = map the (filter (\<lambda>x. x \<noteq> None) (butlast (queue p) @ [last (queue p)]))" unfolding idle_def by metis
  then show ?thesis by (auto simp: idle_def split: option.splits)
qed

lemma bpool_take_ok:
  assumes run: "bpool_take K p = Some (r, p')"
  shows "bpool_ok p h \<Longrightarrow> h t = None \<Longrightarrow> bpool_ok p' (case r of Inr c \<Rightarrow> h(t \<mapsto> c) | Inl _ \<Rightarrow> h)"
    and "slots_ok p h \<Longrightarrow> h t = None \<Longrightarrow> slots_ok p' (case r of Inr c \<Rightarrow> h(t \<mapsto> c) | Inl _ \<Rightarrow> h)"
proof -
  consider (empty) "r = Inl (Exc ConnectionError ''No connection available.'')" "p' = p"
    | (idle) c where "queue p \<noteq> []" "last (queue p) = Some c" "r = Inr c" "p' = p\<lparr>queue := butlast (queue p)\<rparr>"
    | (made) f g b where "queue p \<noteq> []" "last (queue p) = None" "r = Inr (next_obj p)"
        "p' = p\<lparr>queue := butlast (queue p), shared := g, objs := f, next_obj := Suc (next_obj p), bconns := b\<rparr>"
    | (failed) e g where "queue p \<noteq> []" "last (queue p) = None" "r = Inl e" "p' = p\<lparr>queue := butlast (queue p), shared := g\<rparr>"
  proof (cases "queue p = []")
    case True
    then show thesis using run that(1) by (simp add: bpool_take_def split: if_splits)
  next
    case False
    obtain q g where q: "co_new K (shared p) (getpid p) = (q, g)" by fastforce
    show thesis
    proof (cases "last (queue p)")
      case None
      then show thesis using run False q that(3,4)
        by (cases q) (auto simp: bpool_take_def bpool_make_connection_def Let_def)
    next
      case (Some c)
      then show thesis using run False that(2) by (simp add: bpool_take_def Let_def)
    qed
  qed
  note c = this
  show "bpool_ok p' (case r of Inr c \<Rightarrow> h(t \<mapsto> c) | Inl _ \<Rightarrow> h)" if ok: "bpool_ok p h" "h t = None"
    using c
  proof cases
    case (idle c)
    have i: "idle p = idle p' @ [c]" using butlast_idle [OF idle(1)] idle(2,4) by simp
    then have "c \<notin> set (idle p')" "c < next_obj p" "\<forall>t. h t \<noteq> Some c" using ok(1) by (auto simp: bpool_ok_def)
    then show ?thesis using ok idle i by (auto simp: bpool_ok_def)
  next
    case (made f g b)
    have i: "idle p = idle (p\<lparr>queue := butlast (queue p)\<rparr>)" using butlast_idle [OF made(1)] made(2) by simp
    then have "idle p' = idle p" using made(4) by (simp add: idle_def)
    then show ?thesis using ok made by (auto simp: bpool_ok_def less_SucI)
  next
    case (failed e g)
    have "idle p' = idle p" using butlast_idle [OF failed(1)] failed(2,4) by (simp add: idle_def)
    then show ?thesis using ok failed by (auto simp: bpool_ok_def)
  qed (use ok in simp)
  show "slots_ok p' (case r of Inr c \<Rightarrow> h(t \<mapsto> c) | Inl _ \<Rightarrow> h)" if ok: "slots_ok p h" "h t = None"
  proof -
    have dom: "t \<notin> dom h" using ok(2) by auto
    have pos: "queue p \<noteq> [] \<Longrightarrow> length (butlast (queue p)) + 1 = length (queue p)" by (cases "queue p" rule: rev_cases) simp_all
    have fin: "finite (dom h) \<Longrightarrow> card (insert t (dom h)) = card (dom h) + 1" using dom by simp
    from c show ?thesis
    proof cases
      case empty
      then show ?thesis using ok by simp
    next
      case (idle c)
      then show ?thesis using ok fin pos [OF idle(1)] by (simp add: slots_ok_def del: length_butlast)
    next
      case (made f g b)
      then show ?thesis using ok fin pos [OF made(1)] by (simp add: slots_ok_def del: length_butlast)
    next
      case (failed e g)
      then show ?thesis using ok pos [OF failed(1)] by (simp add: slots_ok_def del: length_butlast)
    qed
  qed
qed

lemma bpool_put_ok:
  assumes run: "bpool_put K c p = Some (r, p')" and h: "h t = Some c"
  shows "bpool_ok p h \<Longrightarrow> bpool_ok p' (h(t := None))" "slots_ok p h \<Longrightarrow> slots_ok p' (h(t := None))"
proof -
  consider (dropped) f g where "length (queue p) < capacity p" "p' = p\<lparr>objs := f, shared := g, queue := queue p @ [None]\<rparr>"
    | (returned) "length (queue p) < capacity p" "p' = p\<lparr>queue := queue p @ [Some c]\<rparr>"
    | (full) f g where "p' = p\<lparr>objs := f, shared := g\<rparr>"
  proof (cases "owns_connection K p c")
    case True
    then show thesis using run that(2) that(3) [of "shared p" "objs p"]
      by (auto simp: bpool_put_def io_get_def io_try_def put_nowait_def io_ret_def split: if_splits)
  next
    case False
    obtain c' g where u: "conn_update c (co_disconnect K) p = p\<lparr>objs := (objs p)(c := c'), shared := g\<rparr>"
      using conn_update_eq [of c "co_disconnect K" p] by (elim exE)
    show thesis using run False that(1) [of g "(objs p)(c := c')"] that(3) [of g "(objs p)(c := c')"]
      by (auto simp: u bpool_put_def io_get_def io_seq_def io_bind_def io_upd_def put_nowait_def split: if_splits)
  qed
  note cs = this
  show "bpool_ok p' (h(t := None))" if ok: "bpool_ok p h"
    using cs
  proof cases
    case (dropped f g)
    have "idle p' = idle p" using dropped(2) by (simp add: idle_def)
    then show ?thesis using ok dropped by (auto simp: bpool_ok_def)
  next
    case returned
    have "idle p' = idle p @ [c]" using returned(2) by (simp add: idle_def)
    moreover have "c \<notin> set (idle p)" "c < next_obj p" "\<forall>t'. t' \<noteq> t \<longrightarrow> h t' \<noteq> Some c"
      using ok h unfolding bpool_ok_def by blast+
    ultimately show ?thesis using ok returned by (auto simp: bpool_ok_def)
  next
    case (full f g)
    then show ?thesis using ok by (auto simp: bpool_ok_def idle_def)
  qed
  show "slots_ok p' (h(t := None))" if ok: "slots_ok p h"
  proof -
    have dom: "t \<in> dom h" using h by auto
    have "dom (h(t := None)) = dom h - {t}" by auto
    moreover have "Suc (card (dom h - {t})) = card (dom h)" using card_Suc_Diff1 [OF _ dom] ok unfolding slots_ok_def by blast
    ultimately have "Suc (card (dom (h(t := None)))) = card (dom h)" "finite (dom (h(t := None)))" using ok by (simp_all add: slots_ok_def)
    with cs show ?thesis by cases (use ok in \<open>simp_all add: slots_ok_def del: dom_fun_upd\<close>)
  qed
qed

lemma bpool_disconnect_ok:
  assumes "bpool_disconnect K p = Some (r, p')"
  shows "bpool_ok p h \<Longrightarrow> bpool_ok p' h" "slots_ok p h \<Longrightarrow> slots_ok p' h"
proof -
  obtain p1 q where p1: "bpool_checkpid p = Some (q, p1)" "p' = p1 \<or> p' = conns_update (bconns p1) (co_disconnect K) p1"
    using assms unfolding bpool_disconnect_def io_seq_def by (auto elim!: io_bind_SomeE simp: io_upd_def)
  obtain f g where "conns_update (bconns p1) (co_disconnect K) p1 = p1\<lparr>objs := f, shared := g\<rparr>"
    using conns_update_eq [of "bconns p1" "co_disconnect K" p1] by (elim exE)
  then show "bpool_ok p h \<Longrightarrow> bpool_ok p' h" "slots_ok p h \<Longrightarrow> slots_ok p' h"
    using p1(2) bpool_checkpid_ok [OF p1(1), of h] bpool_ok_frame [of g f p1 h] by metis+
qed

lemma bpool_take_fails_ok:
  assumes "bpool_take K p = Some (Inl e, p')"
  shows "bpool_ok p h \<Longrightarrow> bpool_ok p' h" "slots_ok p h \<Longrightarrow> slots_ok p' h"
proof -
  have q: "p' = p \<or> (\<exists>g. queue p \<noteq> [] \<and> last (queue p) = None \<and> p' = p\<lparr>queue := butlast (queue p), shared := g\<rparr>)"
    using assms by (auto simp: bpool_take_def bpool_make_connection_def Let_def split: if_splits option.splits sum.splits prod.splits)
  have "queue p \<noteq> [] \<Longrightarrow> last (queue p) = None \<Longrightarrow> idle (p\<lparr>queue := butlast (queue p), shared := g\<rparr>) = idle p" for g
    using butlast_idle [of p] by (simp add: idle_def)
  then show "bpool_ok p h \<Longrightarrow> bpool_ok p' h" using q by (auto simp: bpool_ok_def)
  show "slots_ok p h \<Longrightarrow> slots_ok p' h" using q by (auto simp: slots_ok_def)
qed

lemma bpool_step_ok:
  assumes "bpool_step forks K (p, h) (p', h')" "bpool_ok p h"
  shows "bpool_ok p' h'"
  using assms(1)
proof cases
  case (bstep_take c t)
  then show ?thesis using bpool_take_ok(1) [OF bstep_take(2), of h t] assms(2) by simp
next
  case (bstep_work t c obj g)
  then show ?thesis using assms(2) bpool_ok_frame(1) by metis
next
  case (bstep_fork n b)
  then have "h' t = Some c \<Longrightarrow> h t = Some c" for t c by (auto simp: map_le_def dom_def)
  moreover have "idle p' = idle p" using bstep_fork by (simp add: idle_def)
  moreover have "next_obj p' = next_obj p" "queue p' = queue p" "max_connections p' = max_connections p" using bstep_fork by simp_all
  ultimately show ?thesis using assms(2) unfolding bpool_ok_def by metis
next
  case (bstep_put t c r)
  then show ?thesis using bpool_put_ok(1) assms(2) by blast
next
  case (bstep_disconnect r)
  then show ?thesis using bpool_disconnect_ok(1) assms(2) by blast
next
  case (bstep_checkpid r)
  then show ?thesis using bpool_checkpid_ok(1) assms(2) by blast
next
  case (bstep_take_fails e)
  then show ?thesis using bpool_take_fails_ok(1) assms(2) by blast
qed

lemma bpool_step_slots:
  assumes "bpool_step False K (p, h) (p', h')" "slots_ok p h"
  shows "slots_ok p' h'"
  using assms(1)
proof cases
  case (bstep_take c t)
  then show ?thesis using bpool_take_ok(2) [OF bstep_take(2), of h t] assms(2) by simp
next
  case (bstep_work t c obj g)
  then show ?thesis using assms(2) bpool_ok_frame(2) by metis
next
  case (bstep_put t c r)
  then show ?thesis using bpool_put_ok(2) assms(2) by blast
next
  case (bstep_disconnect r)
  then show ?thesis using bpool_disconnect_ok(2) assms(2) by blast
next
  case (bstep_checkpid r)
  then show ?thesis using bpool_checkpid_ok(2) assms(2) by blast
next
  case (bstep_take_fails e)
  then show ?thesis using bpool_take_fails_ok(2) assms(2) by blast
qed simp

text \<open>A new pool: the queue is filled.\<close>

definition new_bpool :: "nat \<Rightarrow> bool \<Rightarrow> 'g \<Rightarrow> int \<Rightarrow> (nat \<Rightarrow> 'c) \<Rightarrow> ('c, 'g) bpool" where
  "new_bpool n forever g pid heap =
     bpool_reset \<lparr> created = 0, available = [], in_use = [], pool_pid = pid, max_connections = int n, has_cache = False,
       objs = heap, next_obj = 0, shared = g, getpid = pid, fork_lock_free = True, queue = [], bconns = [],
       waits_forever = forever \<rparr>"

lemma new_bpool_ok: "bpool_ok (new_bpool n fv g pid heap) Map.empty" "slots_ok (new_bpool n fv g pid heap) Map.empty"
  by (simp_all add: new_bpool_def bpool_reset_def bpool_ok_def slots_ok_def idle_def)

lemma bpool_steps_max: "(bpool_step forks K)\<^sup>*\<^sup>* (p, h) (p', h') \<Longrightarrow> max_connections p' = max_connections p"
proof (induction "(p', h')" arbitrary: p' h' rule: rtranclp_induct)
  case (step s)
  obtain q k where s: "s = (q, k)" by fastforce
  have upd: "max_connections (conns_update cs f x) = max_connections x" "max_connections (conn_update c f x) = max_connections x"
    for cs f c and x :: "('a, 'b) bpool"
    using conns_update_eq [of cs f x] conn_update_eq [of c f x] by auto
  have "max_connections p' = max_connections q"
    using step(2) unfolding s
    by cases (auto simp: bpool_checkpid_def bpool_reset_def bpool_take_def bpool_make_connection_def bpool_put_def
        bpool_disconnect_def put_nowait_def io_get_def io_try_def io_seq_def io_bind_def io_upd_def io_ret_def Let_def upd
        split: if_splits option.splits sum.splits prod.splits)
  then show ?case using step(3) s by simp
qed simp

section \<open>Properties\<close>

text \<open>
  C23: the blocking pool, whatever the clients do and in whatever order: the queue stays within the capacity, no
  connection is idle twice, no client holds an idle connection and no two clients hold the same one, forks
  included; and as long as the process does not fork, the clients together never hold more than
  \<open>max_connections\<close> connections.
\<close>

theorem blocking_pool_bounded:
  assumes "(bpool_step forks K)\<^sup>*\<^sup>* (new_bpool n forever g pid heap, Map.empty) (p, h)"
  shows "bpool_ok p h \<and> (\<not> forks \<longrightarrow> finite (dom h) \<and> card (dom h) \<le> n)"
proof -
  have "bpool_ok p h \<and> (\<not> forks \<longrightarrow> slots_ok p h)"
    using assms
  proof (induction "(p, h)" arbitrary: p h rule: rtranclp_induct)
    case base
    then show ?case using new_bpool_ok by auto
  next
    case (step s)
    obtain q k where s: "s = (q, k)" by fastforce
    then show ?case using step bpool_step_ok [of forks K q k p h] bpool_step_slots [of K q k p h] by (cases forks) auto
  qed
  moreover have "max_connections p = int n"
    using bpool_steps_max [OF assms] by (simp add: new_bpool_def bpool_reset_def)
  ultimately show ?thesis by (auto simp: slots_ok_def)
qed

theorem blocking_pool_bounded_witness:
  "\<exists>p. bpool_step False demo_class (new_bpool 1 False 0 1 (\<lambda>_. 0), Map.empty) (p, [5 \<mapsto> 0]) \<and> bpool_ok p [5 \<mapsto> 0]"
proof -
  obtain p where "bpool_take demo_class (new_bpool 1 False 0 1 (\<lambda>_. 0)) = Some (Inr 0, p)"
    by (simp add: bpool_take_def bpool_make_connection_def new_bpool_def bpool_reset_def demo_class_def Let_def)
  then have st: "bpool_step False demo_class (new_bpool 1 False 0 1 (\<lambda>_. 0), Map.empty) (p, [5 \<mapsto> 0])"
    using bstep_take [of demo_class "new_bpool 1 False 0 1 (\<lambda>_. 0)" 0 p Map.empty 5] by simp
  then have "(bpool_step False demo_class)\<^sup>*\<^sup>* (new_bpool 1 False 0 1 (\<lambda>_. 0), Map.empty) (p, [5 \<mapsto> 0])" by simp
  from blocking_pool_bounded [OF this] st show ?thesis by blast
qed

text \<open>
  A process that forked while one of its connections was held cannot give that connection back quietly: the
  first \<open>release\<close> in the child refills the queue with placeholders, finds the connection foreign, and raises
  \<open>Full\<close> for the placeholder it adds (\<open>ConnectionPool\<close> returns silently in this case).
\<close>

theorem blocking_release_after_fork:
  assumes "pool_pid p \<noteq> getpid p" "fork_lock_free p" "co_pid K (objs p c) \<noteq> getpid p"
  shows "(\<exists>p'. bpool_release K c p = Some (Inl queue_full, p') \<and> length (queue p') = capacity p')
    \<and> release K c (pool.truncate p) = Some (Inr (), pool_reset (pool.truncate p))"
proof -
  let ?p = "bpool_reset p"
  obtain c' g where u: "conn_update c (co_disconnect K) ?p = ?p\<lparr>objs := (objs ?p)(c := c'), shared := g\<rparr>"
    using conn_update_eq [of c "co_disconnect K" ?p] by (elim exE)
  have "\<not> owns_connection K ?p c" using assms(3) by (simp add: owns_connection_def bpool_reset_def)
  then have "bpool_put K c ?p = Some (Inl queue_full, ?p\<lparr>objs := (objs ?p)(c := c'), shared := g\<rparr>)"
    using u by (simp add: bpool_put_def io_get_def io_seq_def io_bind_def io_upd_def put_nowait_def bpool_reset_def)
  then have "bpool_release K c p = Some (Inl queue_full, ?p\<lparr>objs := (objs ?p)(c := c'), shared := g\<rparr>)"
    using assms(1,2) by (simp add: bpool_release_def io_seq_def bpool_checkpid_def)
  moreover have "release K c (pool.truncate p) = Some (Inr (), pool_reset (pool.truncate p))"
    using assms(1,2) by (simp add: release_def io_seq_def io_bind_def checkpid_def pool_put_def pool_reset_def pool.truncate_def)
  ultimately show ?thesis by (simp add: bpool_reset_def)
qed

theorem blocking_release_after_fork_witness:
  "\<exists>p'. bpool_release demo_class 0 ((new_bpool 2 False 0 1 (\<lambda>_. 1))\<lparr>getpid := 2\<rparr>) = Some (Inl queue_full, p')"
proof -
  let ?p = "(new_bpool 2 False 0 1 (\<lambda>_. 1))\<lparr>getpid := 2\<rparr> :: (int, nat) bpool"
  have "pool_pid ?p \<noteq> getpid ?p" "fork_lock_free ?p" "co_pid demo_class (objs ?p 0) \<noteq> getpid ?p"
    by (simp_all add: new_bpool_def bpool_reset_def demo_class_def)
  from blocking_release_after_fork [OF this] show ?thesis by blast
qed

end
