(* ===== verification/Cache.thy ===== *)
theory Cache
  imports Values
begin

text \<open>
  The client-side cache of \<open>redis/cache.py\<close>: \<open>DefaultCache\<close> with the \<open>LRUPolicy\<close> and \<open>CacheConfig\<close>.

  The \<open>OrderedDict\<close> is an association list in its iteration order, oldest first.  The references in a
  cache key are Python values: the library puts there whatever the caller passed as a key.
\<close>

section \<open>OrderedDict\<close>

text \<open>\<open>d[k] = v\<close> keeps the position of a present key; \<open>move_to_end\<close>; \<open>pop\<close>.\<close>

fun od_set :: "('k \<times> 'v) list \<Rightarrow> 'k \<Rightarrow> 'v \<Rightarrow> ('k \<times> 'v) list" where
  "od_set [] k v = [(k, v)]"
| "od_set ((k', v') # d) k v = (if k' = k then (k, v) # d else (k', v') # od_set d k v)"

definition od_pop :: "('k \<times> 'v) list \<Rightarrow> 'k \<Rightarrow> ('k \<times> 'v) list" where
  "od_pop d k = filter (\<lambda>(k', _). k' \<noteq> k) d"

definition od_move_to_end :: "('k \<times> 'v) list \<Rightarrow> 'k \<Rightarrow> ('k \<times> 'v) list" where
  "od_move_to_end d k = od_pop d k @ filter (\<lambda>(k', _). k' = k) d"

section \<open>The data\<close>

datatype CacheEntryStatus = VALID | IN_PROGRESS

datatype CacheKey = CacheKey (command: pystr) (redis_keys: "pyval list")

record 'c CacheEntry =
  cache_key :: CacheKey
  cache_value :: pyval
  status :: CacheEntryStatus
  connection_ref :: 'c

record 'c DefaultCache =
  collection :: "(CacheKey \<times> 'c CacheEntry) list"
  max_size :: int

definition DEFAULT_MAX_SIZE :: int where "DEFAULT_MAX_SIZE = 10000"

definition DEFAULT_ALLOW_LIST :: "pystr list" where
  "DEFAULT_ALLOW_LIST =
     [''BITCOUNT'', ''BITFIELD_RO'', ''BITPOS'', ''EXISTS'', ''GEODIST'', ''GEOHASH'', ''GEOPOS'',
      ''GEORADIUSBYMEMBER_RO'', ''GEORADIUS_RO'', ''GEOSEARCH'', ''GET'', ''GETBIT'', ''GETRANGE'',
      ''HEXISTS'', ''HGET'', ''HGETALL'', ''HKEYS'', ''HLEN'', ''HMGET'', ''HSTRLEN'', ''HVALS'',
      ''JSON.ARRINDEX'', ''JSON.ARRLEN'', ''JSON.GET'', ''JSON.MGET'', ''JSON.OBJKEYS'',
      ''JSON.OBJLEN'', ''JSON.RESP'', ''JSON.STRLEN'', ''JSON.TYPE'', ''LCS'', ''LINDEX'', ''LLEN'',
      ''LPOS'', ''LRANGE'', ''MGET'', ''SCARD'', ''SDIFF'', ''SINTER'', ''SINTERCARD'', ''SISMEMBER'',
      ''SMEMBERS'', ''SMISMEMBER'', ''SORT_RO'', ''STRLEN'', ''SUBSTR'', ''SUNION'', ''TS.GET'',
      ''TS.INFO'', ''TS.RANGE'', ''TS.REVRANGE'', ''TYPE'', ''XLEN'', ''XPENDING'', ''XRANGE'',
      ''XREAD'', ''XREVRANGE'', ''ZCARD'', ''ZCOUNT'', ''ZDIFF'', ''ZINTER'', ''ZINTERCARD'',
      ''ZLEXCOUNT'', ''ZMSCORE'', ''ZRANGE'', ''ZRANGEBYLEX'', ''ZRANGEBYSCORE'', ''ZRANK'',
      ''ZREVRANGE'', ''ZREVRANGEBYLEX'', ''ZREVRANGEBYSCORE'', ''ZREVRANK'', ''ZSCORE'', ''ZUNION'']"

definition is_exceeds_max_size :: "'c DefaultCache \<Rightarrow> nat \<Rightarrow> bool" where
  "is_exceeds_max_size c count \<longleftrightarrow> int count > max_size c"

definition is_allowed_to_cache :: "pystr \<Rightarrow> bool" where
  "is_allowed_to_cache cmd \<longleftrightarrow> cmd \<in> set DEFAULT_ALLOW_LIST"

definition new_cache :: "int \<Rightarrow> 'c DefaultCache" where
  "new_cache n = \<lparr> collection = [], max_size = n \<rparr>"

section \<open>LRUPolicy\<close>

definition evict_next :: "'c DefaultCache \<Rightarrow> (exc + CacheKey) \<times> 'c DefaultCache" where
  "evict_next c =
     (case collection c of
        [] \<Rightarrow> (Inl (Exc PyKeyError ''dictionary is empty''), c)
      | (k, _) # d \<Rightarrow> (Inr k, c\<lparr>collection := d\<rparr>))"

definition evict_many :: "int \<Rightarrow> 'c DefaultCache \<Rightarrow> (exc + CacheKey list) \<times> 'c DefaultCache" where
  "evict_many count c =
     (if count > int (length (collection c))
      then (Inl (Exc PyValueError ''Evictions count is above cache size''), c)
      else (Inr (map fst (take (nat count) (collection c))),
            c\<lparr>collection := drop (nat count) (collection c)\<rparr>))"

definition touch :: "CacheKey \<Rightarrow> 'c DefaultCache \<Rightarrow> (exc + unit) \<times> 'c DefaultCache" where
  "touch k c =
     (case map_of (collection c) k of
        None \<Rightarrow> (Inl (Exc PyValueError ''Given entry does not belong to the cache''), c)
      | Some _ \<Rightarrow> (Inr (), c\<lparr>collection := od_move_to_end (collection c) k\<rparr>))"

section \<open>DefaultCache\<close>

definition is_cachable :: "CacheKey \<Rightarrow> bool" where
  "is_cachable k \<longleftrightarrow> is_allowed_to_cache (command k)"

definition cache_set :: "'c CacheEntry \<Rightarrow> 'c DefaultCache \<Rightarrow> (exc + bool) \<times> 'c DefaultCache" where
  "cache_set entry c =
     (if \<not> is_cachable (cache_key entry) then (Inr False, c)
      else let c1 = c\<lparr>collection := od_set (collection c) (cache_key entry) entry\<rparr> in
        case touch (cache_key entry) c1 of
          (Inl e, c2) \<Rightarrow> (Inl e, c2)
        | (Inr _, c2) \<Rightarrow>
            if is_exceeds_max_size c2 (length (collection c2))
            then (case evict_next c2 of (Inl e, c3) \<Rightarrow> (Inl e, c3) | (Inr _, c3) \<Rightarrow> (Inr True, c3))
            else (Inr True, c2))"

text \<open>\<open>get\<close>: \<open>None\<close> leaves the cache alone, a hit makes the entry the most recent one.\<close>

definition cache_get :: "CacheKey \<Rightarrow> 'c DefaultCache \<Rightarrow> 'c CacheEntry option \<times> 'c DefaultCache" where
  "cache_get k c =
     (case map_of (collection c) k of
        None \<Rightarrow> (None, c)
      | Some entry \<Rightarrow> (Some entry, snd (touch k c)))"

fun delete_by_cache_keys :: "CacheKey list \<Rightarrow> 'c DefaultCache \<Rightarrow> bool list \<times> 'c DefaultCache" where
  "delete_by_cache_keys [] c = ([], c)"
| "delete_by_cache_keys (k # ks) c =
     (case cache_get k c of
        (Some _, c1) \<Rightarrow>
          (let (r, c2) = delete_by_cache_keys ks (c1\<lparr>collection := od_pop (collection c1) k\<rparr>)
           in (True # r, c2))
      | (None, c1) \<Rightarrow> (let (r, c2) = delete_by_cache_keys ks c1 in (False # r, c2)))"

text \<open>\<open>delete_by_redis_keys\<close>: the keys to delete are collected first, once per matching redis key, and then
  popped one by one; popping a key a second time raises \<open>KeyError\<close>.\<close>

fun decode_redis_keys :: "pyval list \<Rightarrow> exc + pyval list" where
  "decode_redis_keys [] = Inr []"
| "decode_redis_keys (k # ks) =
     (case (case k of PBytes b \<Rightarrow>
                (case utf8_decode b of None \<Rightarrow> Inl (Exc PyUnicodeDecodeError ''utf-8'') | Some s \<Rightarrow> Inr (PStr s))
              | _ \<Rightarrow> Inr k) of
        Inl e \<Rightarrow> Inl e
      | Inr k' \<Rightarrow> (case decode_redis_keys ks of Inl e \<Rightarrow> Inl e | Inr ks' \<Rightarrow> Inr (k' # ks')))"

definition keys_to_delete :: "pyval list \<Rightarrow> 'c DefaultCache \<Rightarrow> CacheKey list" where
  "keys_to_delete rks c =
     concat (map (\<lambda>rk. filter (\<lambda>ck. rk \<in> set (redis_keys ck)) (map fst (collection c))) rks)"

fun pop_all :: "CacheKey list \<Rightarrow> 'c DefaultCache \<Rightarrow> (exc + unit) \<times> 'c DefaultCache" where
  "pop_all [] c = (Inr (), c)"
| "pop_all (k # ks) c =
     (case map_of (collection c) k of
        None \<Rightarrow> (Inl (Exc PyKeyError ''cache key''), c)
      | Some _ \<Rightarrow> pop_all ks (c\<lparr>collection := od_pop (collection c) k\<rparr>))"

definition delete_by_redis_keys :: "pyval list \<Rightarrow> 'c DefaultCache \<Rightarrow> (exc + bool list) \<times> 'c DefaultCache" where
  "delete_by_redis_keys rks c =
     (case decode_redis_keys rks of
        Inl e \<Rightarrow> (Inl e, c)
      | Inr rks' \<Rightarrow>
          (let ks = keys_to_delete rks' c in
           case pop_all ks c of
             (Inl e, c') \<Rightarrow> (Inl e, c')
           | (Inr _, c') \<Rightarrow> (Inr (map (\<lambda>_. True) ks), c')))"

definition flush :: "'c DefaultCache \<Rightarrow> nat \<times> 'c DefaultCache" where
  "flush c = (length (collection c), c\<lparr>collection := []\<rparr>)"

section \<open>Operations and the invariant\<close>

text \<open>No key twice, every key cachable, every entry stored under its own key, at most \<open>max_size\<close> entries.\<close>

definition cache_inv :: "'c DefaultCache \<Rightarrow> bool" where
  "cache_inv c \<longleftrightarrow>
     distinct (map fst (collection c)) \<and>
     (\<forall>(k, e)\<in>set (collection c). cache_key e = k \<and> is_cachable k) \<and>
     int (length (collection c)) \<le> max 0 (max_size c)"

datatype 'c cache_op =
    OpSet "'c CacheEntry"
  | OpGet CacheKey
  | OpDeleteByCacheKeys "CacheKey list"
  | OpDeleteByRedisKeys "pyval list"
  | OpFlush
  | OpEvictNext
  | OpEvictMany int

fun cache_step :: "'c cache_op \<Rightarrow> 'c DefaultCache \<Rightarrow> 'c DefaultCache" where
  "cache_step (OpSet e) c = snd (cache_set e c)"
| "cache_step (OpGet k) c = snd (cache_get k c)"
| "cache_step (OpDeleteByCacheKeys ks) c = snd (delete_by_cache_keys ks c)"
| "cache_step (OpDeleteByRedisKeys ks) c = snd (delete_by_redis_keys ks c)"
| "cache_step OpFlush c = snd (flush c)"
| "cache_step OpEvictNext c = snd (evict_next c)"
| "cache_step (OpEvictMany n) c = snd (evict_many n c)"

definition cache_run :: "'c cache_op list \<Rightarrow> 'c DefaultCache \<Rightarrow> 'c DefaultCache" where
  "cache_run ops c = fold cache_step ops c"

section \<open>Lemmas on ordered dictionaries\<close>

abbreviation keys :: "('k \<times> 'v) list \<Rightarrow> 'k list" where "keys d \<equiv> map fst d"

lemma keys_od_set: "keys (od_set d k v) = (if k \<in> set (keys d) then keys d else keys d @ [k])"
  by (induction d k v rule: od_set.induct) auto

lemma map_of_od_set [simp]: "map_of (od_set d k v) = (map_of d)(k \<mapsto> v)"
  by (induction d k v rule: od_set.induct) (auto simp: fun_eq_iff)

lemma set_od_set: "distinct (keys d) \<Longrightarrow> x \<in> set (od_set d k v) \<Longrightarrow> x = (k, v) \<or> (x \<in> set d \<and> fst x \<noteq> k)"
  by (induction d k v rule: od_set.induct) (auto split: if_splits simp: image_iff)

lemma keys_od_pop: "keys (od_pop d k) = removeAll k (keys d)"
  by (induction d) (auto simp: od_pop_def)

lemma map_of_od_pop [simp]: "map_of (od_pop d k) = (map_of d)(k := None)"
  by (induction d) (auto simp: od_pop_def fun_eq_iff)

lemma set_od_pop [simp]: "set (od_pop d k) = {x \<in> set d. fst x \<noteq> k}"
  by (auto simp: od_pop_def)

lemma od_pop_od_set: "od_pop (od_set d k v) k = od_pop d k"
  by (induction d k v rule: od_set.induct) (auto simp: od_pop_def)

lemma od_filter_key:
  "distinct (keys d) \<Longrightarrow> map_of d k = Some v \<Longrightarrow> filter (\<lambda>(k', _). k' = k) d = [(k, v)]"
proof (induction d)
  case (Cons x d)
  then show ?case
  proof (cases "fst x = k")
    case True
    then have "filter (\<lambda>(k', _). k' = k) d = []"
      using Cons.prems(1) by (auto simp: filter_empty_conv image_iff)
    then show ?thesis using True Cons.prems(2) by (cases x) auto
  qed (cases x, auto)
qed simp

lemma od_move_to_end:
  "distinct (keys d) \<Longrightarrow> map_of d k = Some v \<Longrightarrow> od_move_to_end d k = od_pop d k @ [(k, v)]"
  by (simp add: od_move_to_end_def od_filter_key)

lemma map_of_move_to_end [simp]: "map_of (od_move_to_end d k) = map_of d"
proof -
  have "map_of (filter (\<lambda>(k', _). k' = k) d) x = (if x = k then map_of d x else None)" for x
    by (induction d) auto
  then show ?thesis by (auto simp: od_move_to_end_def fun_eq_iff map_add_def split: option.splits)
qed

lemma set_move_to_end [simp]: "set (od_move_to_end d k) = set d"
  by (auto simp: od_move_to_end_def)

lemma keys_move_to_end:
  "distinct (keys d) \<Longrightarrow> k \<in> set (keys d) \<Longrightarrow> keys (od_move_to_end d k) = removeAll k (keys d) @ [k]"
proof -
  assume d: "distinct (keys d)" "k \<in> set (keys d)"
  then obtain v where "map_of d k = Some v" by (metis map_of_eq_None_iff not_None_eq set_map)
  with d(1) show ?thesis by (simp add: od_move_to_end keys_od_pop)
qed

lemma od_set_present: "map_of (collection c) k \<noteq> None \<longleftrightarrow> k \<in> set (keys (collection c))"
  by (simp add: map_of_eq_None_iff)

section \<open>Every operation keeps the invariant\<close>

text \<open>A cache whose entries are among those of a good cache, in any order without repetition, is good.\<close>

lemma cache_inv_subset:
  assumes "cache_inv c" "distinct (keys d)" "set d \<subseteq> set (collection c)"
  shows "cache_inv (c\<lparr>collection := d\<rparr>)"
proof -
  have "distinct d" using assms(2) by (simp add: distinct_map)
  moreover have "distinct (collection c)" using assms(1) by (simp add: cache_inv_def distinct_map)
  ultimately have "length d \<le> length (collection c)"
    using assms(3) by (metis List.finite_set card_mono distinct_card)
  then show ?thesis using assms by (auto simp: cache_inv_def)
qed

lemma distinct_keys_move: "distinct (keys d) \<Longrightarrow> distinct (keys (od_move_to_end d k))"
proof (cases "map_of d k")
  case (Some v)
  assume "distinct (keys d)"
  then show ?thesis using Some by (simp add: od_move_to_end keys_od_pop distinct_removeAll)
next
  case None
  assume d: "distinct (keys d)"
  have "k \<notin> set (keys d)" using None by (simp add: map_of_eq_None_iff)
  then have "filter (\<lambda>(k', _). k' = k) d = []" by (force simp: filter_empty_conv)
  then show ?thesis using d by (simp add: od_move_to_end_def keys_od_pop distinct_removeAll)
qed

lemma distinct_keys_pop: "distinct (keys d) \<Longrightarrow> distinct (keys (od_pop d k))"
  by (simp add: keys_od_pop distinct_removeAll)

lemma cache_inv_touch: "cache_inv c \<Longrightarrow> cache_inv (snd (touch k c))"
proof -
  assume inv: "cache_inv c"
  then have "cache_inv (c\<lparr>collection := od_move_to_end (collection c) k\<rparr>)"
    by (rule cache_inv_subset) (use inv in \<open>auto simp: cache_inv_def distinct_keys_move\<close>)
  then show ?thesis using inv by (auto simp: touch_def split: option.splits)
qed

lemma cache_inv_get: "cache_inv c \<Longrightarrow> cache_inv (snd (cache_get k c))"
  by (auto simp: cache_get_def cache_inv_touch split: option.splits)

lemma cache_inv_pop: "cache_inv c \<Longrightarrow> cache_inv (c\<lparr>collection := od_pop (collection c) k\<rparr>)"
  by (rule cache_inv_subset) (auto simp: cache_inv_def distinct_keys_pop)

lemma cache_inv_delete_by_cache_keys: "cache_inv c \<Longrightarrow> cache_inv (snd (delete_by_cache_keys ks c))"
proof (induction ks arbitrary: c)
  case (Cons k ks)
  obtain r c1 where g: "cache_get k c = (r, c1)" by fastforce
  have "cache_inv c1" using cache_inv_get [OF Cons.prems, of k] g by simp
  then show ?case using Cons.IH cache_inv_pop g
    by (fastforce split: option.splits simp: case_prod_unfold Let_def)
qed simp

lemma cache_inv_pop_all: "cache_inv c \<Longrightarrow> cache_inv (snd (pop_all ks c))"
  by (induction ks arbitrary: c) (auto simp: cache_inv_pop split: option.splits)

lemma cache_inv_delete_by_redis_keys: "cache_inv c \<Longrightarrow> cache_inv (snd (delete_by_redis_keys rks c))"
  using cache_inv_pop_all [of c]
  by (auto simp: delete_by_redis_keys_def Let_def split: sum.splits prod.splits) (metis snd_conv)+

lemma cache_inv_flush: "cache_inv c \<Longrightarrow> cache_inv (snd (flush c))"
  by (simp add: flush_def cache_inv_def)

lemma cache_inv_evict_next: "cache_inv c \<Longrightarrow> cache_inv (snd (evict_next c))"
  by (auto simp: evict_next_def split: list.splits intro!: cache_inv_subset simp: cache_inv_def)

lemma cache_inv_evict_many: "cache_inv c \<Longrightarrow> cache_inv (snd (evict_many n c))"
  by (auto simp: evict_many_def cache_inv_def drop_map [symmetric] dest: in_set_dropD)

lemma evict_next_nonempty:
  "collection c \<noteq> [] \<Longrightarrow>
   evict_next c = (Inr (fst (hd (collection c))), c\<lparr>collection := tl (collection c)\<rparr>)"
  by (auto simp: evict_next_def split: list.splits)

text \<open>The collection after \<open>set\<close>: the entry becomes the newest one, the oldest one leaves when there are too
  many.\<close>

lemma cache_set_collection:
  assumes "distinct (keys (collection c))" "is_cachable (cache_key e)"
  shows "cache_set e c =
    (let d = od_pop (collection c) (cache_key e) @ [(cache_key e, e)] in
     (Inr True, c\<lparr>collection := if int (length d) > max_size c then tl d else d\<rparr>))"
proof -
  define d where "d = od_set (collection c) (cache_key e) e"
  have dd: "distinct (keys d)" using assms(1) by (simp add: d_def keys_od_set)
  have pop: "od_pop d (cache_key e) = od_pop (collection c) (cache_key e)"
    by (simp add: d_def od_pop_od_set)
  have mv: "od_move_to_end d (cache_key e) = od_pop (collection c) (cache_key e) @ [(cache_key e, e)]"
    using od_move_to_end [OF dd, of "cache_key e" e] pop by (simp add: d_def)
  have "touch (cache_key e) (c\<lparr>collection := d\<rparr>) =
      (Inr (), c\<lparr>collection := od_pop (collection c) (cache_key e) @ [(cache_key e, e)]\<rparr>)"
    using mv by (simp add: touch_def d_def)
  then show ?thesis using assms(2)
    by (simp add: cache_set_def Let_def d_def [symmetric] is_exceeds_max_size_def evict_next_nonempty)
qed

lemma cache_inv_set: "cache_inv c \<Longrightarrow> cache_inv (snd (cache_set e c))"
proof (cases "is_cachable (cache_key e)")
  case True
  assume inv: "cache_inv c"
  define d where "d = od_pop (collection c) (cache_key e) @ [(cache_key e, e)]"
  have dist: "distinct (keys d)"
    using inv by (auto simp: d_def cache_inv_def keys_od_pop distinct_removeAll)
  have good: "\<forall>(k, x)\<in>set d. cache_key x = k \<and> is_cachable k"
    using inv True by (auto simp: d_def cache_inv_def)
  have "length (od_pop (collection c) (cache_key e)) \<le> length (collection c)"
    by (simp add: od_pop_def)
  then have len: "int (length d) \<le> max 0 (max_size c) + 1"
    using inv by (simp add: d_def cache_inv_def)
  have "d \<noteq> []" by (simp add: d_def)
  then have tl: "set (tl d) \<subseteq> set d" "distinct (keys (tl d))" "length (tl d) = length d - 1"
    using dist by (cases d; auto)+
  have "cache_set e c = (Inr True, c\<lparr>collection := if int (length d) > max_size c then tl d else d\<rparr>)"
    using cache_set_collection [of c e] inv True by (simp add: cache_inv_def d_def)
  then show ?thesis using dist good len tl \<open>d \<noteq> []\<close> by (auto simp: cache_inv_def)
qed (simp add: cache_set_def)

lemma cache_step_inv: "cache_inv c \<Longrightarrow> cache_inv (cache_step op c)"
  by (cases op) (simp_all add: cache_inv_set cache_inv_get cache_inv_delete_by_cache_keys
      cache_inv_delete_by_redis_keys cache_inv_flush cache_inv_evict_next cache_inv_evict_many)

lemma cache_run_inv: "cache_inv c \<Longrightarrow> cache_inv (cache_run ops c)"
  unfolding cache_run_def by (induction ops arbitrary: c) (auto intro: cache_step_inv)

lemma new_cache_inv [simp]: "cache_inv (new_cache n)"
  by (simp add: new_cache_def cache_inv_def)

section \<open>Least recently used\<close>

definition lastn :: "nat \<Rightarrow> 'a list \<Rightarrow> 'a list" where
  "lastn n xs = drop (length xs - n) xs"

text \<open>The keys that a run of \<open>set\<close> and \<open>get\<close> calls uses: every cachable entry that is stored, every lookup
  that hits.\<close>

fun uses :: "'c cache_op list \<Rightarrow> 'c DefaultCache \<Rightarrow> CacheKey list" where
  "uses [] c = []"
| "uses (op # ops) c =
     (case op of
        OpSet e \<Rightarrow> if is_cachable (cache_key e) then [cache_key e] else []
      | OpGet k \<Rightarrow> if map_of (collection c) k \<noteq> None then [k] else []
      | _ \<Rightarrow> []) @ uses ops (cache_step op c)"

fun is_set_or_get :: "'c cache_op \<Rightarrow> bool" where
  "is_set_or_get (OpSet _) = True"
| "is_set_or_get (OpGet _) = True"
| "is_set_or_get _ = False"

lemma remdups_snoc: "remdups (xs @ [k]) = removeAll k (remdups xs) @ [k]"
  by (induction xs) auto

lemma lastn_append: "n \<le> length ys \<Longrightarrow> lastn n (xs @ ys) = lastn n ys"
  by (simp add: lastn_def)

lemma lastn_use:
  assumes "distinct r"
  shows "lastn n (removeAll k r @ [k]) = lastn n (removeAll k (lastn n r) @ [k])"
proof (cases "length r \<le> n")
  case False
  define a b where "a = take (length r - n) r" and "b = lastn n r"
  have r: "r = a @ b" by (simp add: a_def b_def lastn_def)
  have "length b = n" using False by (simp add: b_def lastn_def)
  moreover have "length b \<le> Suc (length (removeAll k b))"
  proof -
    have "removeAll k b = remove1 k b" using assms r by (simp add: distinct_remove1_removeAll)
    then show ?thesis by (cases b) (auto simp: length_remove1)
  qed
  ultimately have "n \<le> length (removeAll k b @ [k])" by simp
  from lastn_append [OF this, of "removeAll k a"] show ?thesis
    by (simp add: r [symmetric] b_def [symmetric] flip: removeAll_append append_assoc)
qed (simp add: lastn_def)

lemma max_size_simps [simp]:
  "max_size (snd (cache_set e c)) = max_size c" "max_size (snd (cache_get k c)) = max_size c"
  by (auto simp: cache_set_def cache_get_def touch_def evict_next_def Let_def split: option.splits list.splits)

lemma lastn_tl: "length ys \<le> Suc n \<Longrightarrow> lastn n ys = (if length ys > n then tl ys else ys)"
  by (cases "length ys = Suc n") (auto simp: lastn_def drop_Suc)

lemma cache_set_keys:
  assumes "distinct (keys (collection c))" "is_cachable (cache_key e)" "max_size c = int n"
    and "length (collection c) \<le> n"
  shows "keys (collection (snd (cache_set e c))) =
     lastn n (removeAll (cache_key e) (keys (collection c)) @ [cache_key e])"
proof -
  let ?d = "od_pop (collection c) (cache_key e) @ [(cache_key e, e)]"
  have len: "length ?d \<le> Suc n"
    using assms(4) le_trans [OF length_filter_le] by (auto simp: od_pop_def)
  have "keys (collection (snd (cache_set e c))) = (if length ?d > n then tl (keys ?d) else keys ?d)"
    using cache_set_collection [OF assms(1,2)] assms(3) by (simp add: Let_def map_tl)
  also have "\<dots> = lastn n (keys ?d)" using lastn_tl [of "keys ?d" n] len by simp
  finally show ?thesis by (simp add: keys_od_pop)
qed

lemma cache_step_uses:
  assumes "cache_inv c" "max_size c = int n" "keys (collection c) = lastn n (remdups tr)" "is_set_or_get op"
  shows "keys (collection (cache_step op c)) = lastn n (remdups (tr @ uses [op] c))"
    and "max_size (cache_step op c) = int n"
proof -
  have d: "distinct (keys (collection c))" and len: "length (collection c) \<le> n"
    using assms(1,2) by (auto simp: cache_inv_def)
  have use: "lastn n (remdups (tr @ [k])) = lastn n (removeAll k (keys (collection c)) @ [k])" for k
    using lastn_use [of "remdups tr" n k] assms(3) by (simp add: remdups_snoc)
  have hit: "keys (collection (snd (cache_get k c))) = lastn n (remdups (tr @ [k]))"
    if "map_of (collection c) k = Some e" for k e
  proof -
    have k: "k \<in> set (keys (collection c))" using that by (metis map_of_eq_None_iff not_None_eq set_map)
    have "length (removeAll k (keys (collection c)) @ [k]) \<le> n"
    proof -
      have "length (removeAll k (keys (collection c))) < length (keys (collection c))"
        using k by (rule length_removeAll_less)
      then show ?thesis using len by simp
    qed
    then have "lastn n (remdups (tr @ [k])) = removeAll k (keys (collection c)) @ [k]"
      unfolding use by (simp add: lastn_def)
    then show ?thesis using that keys_move_to_end [OF d k] by (simp add: cache_get_def touch_def)
  qed
  show "keys (collection (cache_step op c)) = lastn n (remdups (tr @ uses [op] c))"
  proof (cases op)
    case (OpSet e)
    then show ?thesis using cache_set_keys [OF d _ assms(2) len] use assms(3)
      by (auto simp: cache_set_def)
  next
    case (OpGet k)
    then show ?thesis using hit assms(3) by (auto simp: cache_get_def split: option.splits)
  qed (use assms(4) in auto)
  show "max_size (cache_step op c) = int n"
    using assms(2,4) by (cases op) simp_all
qed

lemma cache_run_uses:
  assumes "cache_inv c" "max_size c = int n" "keys (collection c) = lastn n (remdups tr)"
    and "list_all is_set_or_get ops"
  shows "keys (collection (cache_run ops c)) = lastn n (remdups (tr @ uses ops c))"
  using assms
proof (induction ops arbitrary: c tr)
  case (Cons op ops)
  note st = cache_step_uses [OF Cons.prems(1-3), of op]
  have "keys (collection (cache_run ops (cache_step op c)))
      = lastn n (remdups ((tr @ uses [op] c) @ uses ops (cache_step op c)))"
    by (rule Cons.IH) (use Cons.prems st cache_step_inv in auto)
  then show ?case by (simp add: cache_run_def)
qed (simp add: cache_run_def)

section \<open>Invalidation\<close>

lemma pop_all_distinct:
  assumes "distinct ks" "set ks \<subseteq> set (keys (collection c))"
  shows "pop_all ks c = (Inr (), c\<lparr>collection := filter (\<lambda>(k, _). k \<notin> set ks) (collection c)\<rparr>)"
  using assms
proof (induction ks arbitrary: c)
  case (Cons k ks)
  have "\<exists>v. map_of (collection c) k = Some v"
    using Cons.prems(2) by (auto simp: map_of_eq_None_iff simp flip: not_None_eq)
  moreover have "pop_all ks (c\<lparr>collection := od_pop (collection c) k\<rparr>) =
      (Inr (), c\<lparr>collection := filter (\<lambda>(k, _). k \<notin> set ks) (od_pop (collection c) k)\<rparr>)"
    by (subst Cons.IH) (use Cons.prems in \<open>auto simp: keys_od_pop\<close>)
  moreover have "filter (\<lambda>(k, _). k \<notin> set ks) (od_pop (collection c) k)
      = filter (\<lambda>(k', _). k' \<notin> set (k # ks)) (collection c)"
    by (auto simp: od_pop_def intro!: filter_cong)
  ultimately show ?case by auto
qed simp

lemma pop_all_missing:
  "k \<in> set ks \<Longrightarrow> k \<notin> set (keys (collection c)) \<Longrightarrow>
   fst (pop_all ks c) = Inl (Exc PyKeyError ''cache key'')"
proof (induction ks arbitrary: c)
  case (Cons j ks)
  show ?case
  proof (cases "map_of (collection c) j")
    case (Some v)
    then have "j \<in> set (keys (collection c))" using od_set_present [of c j] by simp
    then have "k \<in> set ks" using Cons.prems by auto
    moreover have "k \<notin> set (keys (od_pop (collection c) j))" using Cons.prems(2) by (simp add: keys_od_pop)
    ultimately show ?thesis using Cons.IH [of "c\<lparr>collection := od_pop (collection c) j\<rparr>"] Some by simp
  qed simp
qed simp

lemma pop_all_twice:
  assumes "\<not> distinct ks" "set ks \<subseteq> set (keys (collection c))"
  shows "fst (pop_all ks c) = Inl (Exc PyKeyError ''cache key'')"
  using assms
proof (induction ks arbitrary: c)
  case (Cons k ks)
  have "map_of (collection c) k \<noteq> None" unfolding od_set_present using Cons.prems(2) by simp
  then obtain v where v: "map_of (collection c) k = Some v" by blast
  let ?c' = "c\<lparr>collection := od_pop (collection c) k\<rparr>"
  show ?case
  proof (cases "k \<in> set ks")
    case True
    then show ?thesis using v pop_all_missing [of k ks ?c'] by (simp add: keys_od_pop)
  next
    case False
    then have "fst (pop_all ks ?c') = Inl (Exc PyKeyError ''cache key'')"
      using Cons.prems by (intro Cons.IH) (auto simp: keys_od_pop)
    then show ?thesis using v by simp
  qed
qed simp

lemma keys_to_delete_iff:
  "k \<in> set (keys_to_delete rks c) \<longleftrightarrow>
     k \<in> set (keys (collection c)) \<and> set rks \<inter> set (redis_keys k) \<noteq> {}"
  by (auto simp: keys_to_delete_def)

lemma count_filter_distinct:
  "distinct xs \<Longrightarrow> count_list (filter P xs) k = (if k \<in> set xs \<and> P k then 1 else 0)"
  by (induction xs) auto

lemma count_keys_to_delete:
  assumes "distinct (keys (collection c))"
  shows "count_list (keys_to_delete rks c) k =
    (if k \<in> set (keys (collection c)) then length (filter (\<lambda>rk. rk \<in> set (redis_keys k)) rks) else 0)"
  using assms by (induction rks) (auto simp: keys_to_delete_def count_filter_distinct)

lemma distinct_count_list: "distinct xs \<longleftrightarrow> (\<forall>k. count_list xs k \<le> 1)"
proof (induction xs)
  case (Cons x xs)
  have "x \<notin> set xs \<longleftrightarrow> count_list xs x = 0" by (simp add: count_list_0_iff)
  moreover have "(\<forall>k. count_list (x # xs) k \<le> 1) \<longleftrightarrow> count_list xs x = 0 \<and> (\<forall>k. count_list xs k \<le> 1)"
  proof -
    have "count_list (x # xs) k = (if x = k then Suc (count_list xs k) else count_list xs k)" for k by simp
    then show ?thesis by (metis One_nat_def Suc_le_mono le_zero_eq zero_le)
  qed
  ultimately show ?case using Cons by simp
qed simp

text \<open>\<open>matched_twice\<close>: some cached entry is named by two of the given redis keys.\<close>

definition matched_twice :: "pyval list \<Rightarrow> 'c DefaultCache \<Rightarrow> bool" where
  "matched_twice rks c \<longleftrightarrow>
     (\<exists>k\<in>set (keys (collection c)). length (filter (\<lambda>rk. rk \<in> set (redis_keys k)) rks) \<ge> 2)"

lemma distinct_keys_to_delete:
  assumes "distinct (keys (collection c))"
  shows "distinct (keys_to_delete rks c) \<longleftrightarrow> \<not> matched_twice rks c"
  unfolding distinct_count_list count_keys_to_delete [OF assms] matched_twice_def by (auto simp: not_le)

lemma filter_not_to_delete:
  "filter (\<lambda>(k, _). k \<notin> set (keys_to_delete rks c)) (collection c)
   = filter (\<lambda>(k, _). set rks \<inter> set (redis_keys k) = {}) (collection c)"
  by (rule filter_cong) (force simp: keys_to_delete_iff)+

lemma delete_by_redis_keys_ok:
  assumes "cache_inv c" "decode_redis_keys rks = Inr rks'" "\<not> matched_twice rks' c"
  shows "delete_by_redis_keys rks c =
    (Inr (map (\<lambda>_. True) (keys_to_delete rks' c)),
     c\<lparr>collection := filter (\<lambda>(k, _). set rks' \<inter> set (redis_keys k) = {}) (collection c)\<rparr>)"
proof -
  have "distinct (keys_to_delete rks' c)"
    using assms distinct_keys_to_delete by (auto simp: cache_inv_def)
  then show ?thesis
    using pop_all_distinct [of "keys_to_delete rks' c" c] assms(2) keys_to_delete_iff [of _ rks' c]
    unfolding filter_not_to_delete by (simp add: delete_by_redis_keys_def subset_iff)
qed

lemma delete_by_redis_keys_twice:
  assumes "cache_inv c" "decode_redis_keys rks = Inr rks'" "matched_twice rks' c"
  shows "fst (delete_by_redis_keys rks c) = Inl (Exc PyKeyError ''cache key'')"
proof -
  have "\<not> distinct (keys_to_delete rks' c)"
    using assms distinct_keys_to_delete by (auto simp: cache_inv_def)
  then have "fst (pop_all (keys_to_delete rks' c) c) = Inl (Exc PyKeyError ''cache key'')"
    by (rule pop_all_twice) (auto simp: keys_to_delete_iff)
  then show ?thesis using assms(2)
    by (cases "pop_all (keys_to_delete rks' c) c") (simp add: delete_by_redis_keys_def Let_def)
qed

lemma map_of_tl: "distinct (keys d) \<Longrightarrow> d \<noteq> [] \<Longrightarrow> map_of (tl d) k = (if k = fst (hd d) then None else map_of d k)"
  by (cases d) (auto simp: map_of_eq_None_iff)

section \<open>Properties\<close>

text \<open>
  C8: the cache is least-recently-used.  After any sequence of \<open>set\<close> and \<open>get\<close> calls on a fresh cache of
  size \<open>n\<close>, its keys in order are the \<open>n\<close> most recently used distinct keys, where storing a cachable entry
  and hitting a cached one are the uses.
\<close>

theorem cache_is_lru:
  assumes "list_all is_set_or_get ops"
  shows "keys (collection (cache_run ops (new_cache (int n)))) = lastn n (remdups (uses ops (new_cache (int n))))"
  using cache_run_uses [of "new_cache (int n)" n "[]" ops] assms by (simp add: new_cache_def lastn_def cache_inv_def)

definition demo_entry :: "string \<Rightarrow> unit CacheEntry" where
  "demo_entry k = \<lparr> cache_key = CacheKey ''GET'' [PStr k], cache_value = PBytes k, status = VALID, connection_ref = () \<rparr>"

theorem cache_is_lru_witness:
  "keys (collection (cache_run
      [OpSet (demo_entry ''a''), OpSet (demo_entry ''b''), OpGet (CacheKey ''GET'' [PStr ''a'']), OpSet (demo_entry ''c'')]
      (new_cache (int 2)))) = [CacheKey ''GET'' [PStr ''a''], CacheKey ''GET'' [PStr ''c'']]"
  by (subst cache_is_lru) code_simp+

text \<open>
  C9: whatever operations run on a fresh cache, evictions and failing invalidations included, no key is stored
  twice, every entry is stored under its own key, only allowed commands are cached, and there are never more
  entries than the configured size.
\<close>

theorem cache_invariant:
  "cache_inv (cache_run ops (new_cache n))"
  by (simp add: cache_run_inv)

text \<open>
  An entry that was stored is the one the next lookup of its key returns, whenever the cache has room for
  at least one entry, and storing it changes no other lookup except for the one entry evicted as the oldest.
\<close>

theorem cache_set_get:
  assumes "cache_inv c" "max_size c \<ge> 1" "is_cachable (cache_key e)"
  shows "fst (cache_set e c) = Inr True
    \<and> fst (cache_get (cache_key e) (snd (cache_set e c))) = Some e
    \<and> (\<forall>k. k \<noteq> cache_key e \<longrightarrow>
         fst (cache_get k (snd (cache_set e c))) = fst (cache_get k c)
       \<or> (fst (cache_get k (snd (cache_set e c))) = None \<and> k = fst (hd (collection c))))"
proof -
  let ?d = "od_pop (collection c) (cache_key e) @ [(cache_key e, e)]"
  have d: "distinct (keys (collection c))" using assms(1) by (simp add: cache_inv_def)
  have dd: "distinct (keys ?d)" using d by (auto simp: keys_od_pop distinct_removeAll)
  have get: "fst (cache_get k x) = map_of (collection x) k" for k and x :: "'a DefaultCache"
    by (simp add: cache_get_def split: option.splits)
  have mapd: "map_of ?d k = (if k = cache_key e then Some e else map_of (collection c) k)" for k
    by (auto simp: map_add_def split: option.splits)
  have full: "od_pop (collection c) (cache_key e) = collection c \<and> collection c \<noteq> []"
    if "int (length ?d) > max_size c"
  proof -
    have "length (od_pop (collection c) (cache_key e)) \<ge> length (collection c)"
      using that assms(1,2) by (simp add: cache_inv_def)
    then have "od_pop (collection c) (cache_key e) = collection c"
      unfolding od_pop_def by (metis (no_types, lifting) filter_True filter_id_conv length_filter_less not_le)
    moreover have "collection c \<noteq> []" using that assms(2) by (auto simp: od_pop_def)
    ultimately show ?thesis by simp
  qed
  have st: "cache_set e c = (Inr True, c\<lparr>collection := if int (length ?d) > max_size c then tl ?d else ?d\<rparr>)"
    using cache_set_collection [OF d assms(3)] by (simp add: Let_def)
  show ?thesis
  proof (cases "int (length ?d) > max_size c")
    case True
    have hd: "hd ?d = hd (collection c)" using full [OF True] by simp
    have "cache_key e \<noteq> fst (hd (collection c))"
    proof -
      have "fst (hd (od_pop (collection c) (cache_key e))) \<noteq> cache_key e"
        using full [OF True] set_od_pop [of "collection c" "cache_key e"] by (metis (mono_tags, lifting) hd_in_set mem_Collect_eq)
      then show ?thesis using full [OF True] by simp
    qed
    moreover have "map_of (tl ?d) k = (if k = fst (hd (collection c)) then None else map_of ?d k)" for k
      using map_of_tl [OF dd] hd by simp
    ultimately show ?thesis unfolding st get using True mapd by simp
  next
    case False
    then show ?thesis unfolding st get using mapd by simp
  qed
qed

theorem cache_set_get_witness:
  "fst (cache_get (CacheKey ''GET'' [PStr ''b'']) (snd (cache_set (demo_entry ''b'')
      (cache_run [OpSet (demo_entry ''a'')] (new_cache 1))))) = Some (demo_entry ''b'')"
proof -
  have "max_size (cache_run [OpSet (demo_entry ''a'')] (new_cache 1)) \<ge> 1" by code_simp
  moreover have "is_cachable (cache_key (demo_entry ''b''))" by code_simp
  moreover have "cache_key (demo_entry ''b'') = CacheKey ''GET'' [PStr ''b'']" by code_simp
  ultimately show ?thesis
    using cache_set_get [OF cache_run_inv [OF new_cache_inv, of "[OpSet (demo_entry ''a'')]" 1], of "demo_entry ''b''"] by simp
qed

text \<open>
  C11: \<open>delete_by_redis_keys\<close> on keys that decode.  If no entry is named by two of the keys, it reports one
  \<open>True\<close> per deleted entry, deletes exactly the entries that mention one of the keys and keeps the others in
  order; otherwise, and only then, it raises \<open>KeyError\<close>.
\<close>

theorem delete_by_redis_keys_spec:
  assumes "cache_inv c" "decode_redis_keys rks = Inr rks'"
  shows "if matched_twice rks' c
    then fst (delete_by_redis_keys rks c) = Inl (Exc PyKeyError ''cache key'')
    else delete_by_redis_keys rks c =
      (Inr (map (\<lambda>_. True) (keys_to_delete rks' c)),
       c\<lparr>collection := filter (\<lambda>(k, _). set rks' \<inter> set (redis_keys k) = {}) (collection c)\<rparr>)"
  using delete_by_redis_keys_ok [OF assms] delete_by_redis_keys_twice [OF assms] by simp

theorem delete_by_redis_keys_spec_witness:
  "fst (delete_by_redis_keys [PBytes ''a'', PBytes ''b'']
     (cache_run [OpSet \<lparr> cache_key = CacheKey ''MGET'' [PStr ''a'', PStr ''b''], cache_value = PNone, status = VALID,
                         connection_ref = () \<rparr>] (new_cache 5))) = Inl (Exc PyKeyError ''cache key'')"
proof -
  let ?ops = "[OpSet \<lparr> cache_key = CacheKey ''MGET'' [PStr ''a'', PStr ''b''], cache_value = PNone, status = VALID,
                         connection_ref = () \<rparr>]"
  have d: "decode_redis_keys [PBytes ''a'', PBytes ''b''] = Inr [PStr ''a'', PStr ''b'']" by code_simp
  have "matched_twice [PStr ''a'', PStr ''b''] (cache_run ?ops (new_cache 5))" by code_simp
  then show ?thesis
    using delete_by_redis_keys_spec [OF cache_run_inv [OF new_cache_inv, of ?ops 5] d] by simp
qed

text \<open>
  Invalidation compares the decoded key with the key objects the caller passed, so that an entry that was
  cached for \<open>bytes\<close> keys only survives every invalidation of those keys.
\<close>

theorem bytes_keys_not_invalidated:
  assumes "utf8_decode b = Some s" "\<forall>k\<in>set (keys (collection c)). PStr s \<notin> set (redis_keys k)"
  shows "delete_by_redis_keys [PBytes b] c = (Inr [], c)"
proof -
  have "keys_to_delete [PStr s] c = []" using assms(2) by (auto simp: keys_to_delete_def filter_empty_conv)
  then show ?thesis using assms(1) by (simp add: delete_by_redis_keys_def)
qed

theorem bytes_keys_not_invalidated_witness:
  "let c = cache_run [OpSet \<lparr> cache_key = CacheKey ''GET'' [PBytes ''k''], cache_value = PNone, status = VALID,
                         connection_ref = () \<rparr>] (new_cache 5)
   in collection c \<noteq> [] \<and> delete_by_redis_keys [PBytes ''k''] c = (Inr [], c)"
proof -
  let ?c = "cache_run [OpSet \<lparr> cache_key = CacheKey ''GET'' [PBytes ''k''], cache_value = PNone, status = VALID,
                         connection_ref = () \<rparr>] (new_cache 5)"
  have d: "utf8_decode ''k'' = Some ''k''" by code_simp
  have n: "\<forall>k\<in>set (keys (collection ?c)). PStr ''k'' \<notin> set (redis_keys k)" by code_simp
  have "collection ?c \<noteq> []" by code_simp
  then show ?thesis using bytes_keys_not_invalidated [OF d n] by (simp add: Let_def)
qed

end
