(* ===== verification/Cache_Proxy.thy ===== *)
theory Cache_Proxy
  imports Blocking_Pool Cache Pyops
begin

text \<open>
  \<open>CacheProxyConnection\<close> of \<open>redis/connection.py\<close>, the connection that answers from the client-side cache, and
  \<open>compare_versions\<close> of \<open>redis/utils.py\<close>.

  The proxies of a pool share one cache, and a proxy may read from the connection of another one: the record
  \<open>world\<close> holds the connections and proxies of a pool by their number and what they share.  An operation of the
  inner connection \<open>i\<close> runs on that connection's record extended by the world, so that the push handler, which
  the parser calls in the middle of a read, can change the cache.

  The locks are those of one thread of execution: acquiring a lock that is already held never returns.
\<close>

section \<open>Versions\<close>

fun int_list :: "pystr list \<Rightarrow> exc + int list" where
  "int_list [] = Inr []"
| "int_list (s # ss) =
     (case py_int s of None \<Rightarrow> Inl value_error
      | Some n \<Rightarrow> (case int_list ss of Inl e \<Rightarrow> Inl e | Inr ns \<Rightarrow> Inr (n # ns)))"

fun compare_loop :: "(int \<times> int) list \<Rightarrow> int" where
  "compare_loop [] = 0"
| "compare_loop ((a, b) # vs) = (if a > b then -1 else if a < b then 1 else compare_loop vs)"

definition compare_versions :: "pystr \<Rightarrow> pystr \<Rightarrow> exc + int" where
  "compare_versions version1 version2 =
     (case int_list (split_on CHR ''.'' version1) of
        Inl e \<Rightarrow> Inl e
      | Inr ns1 \<Rightarrow>
          (case int_list (split_on CHR ''.'' version2) of
             Inl e \<Rightarrow> Inl e
           | Inr ns2 \<Rightarrow>
               (let ms1 = ns1 @ replicate (length ns2 - length ns1) 0;
                    ms2 = ns2 @ replicate (length ns1 - length ns2) 0
                in Inr (compare_loop (zip ms1 ms2)))))"

section \<open>The state\<close>

record world =
  w_conns :: "nat \<Rightarrow> conn"
  w_cache :: "nat DefaultCache"
  w_key :: "nat \<Rightarrow> CacheKey option"
  w_cache_locks :: "nat set"
  w_pool_locked :: bool
  w_handler :: "nat \<Rightarrow> bool"

record wconn = conn +
  w_world :: world

type_synonym wenv = "unit wconn_ext conn_env"

text \<open>A call of a method of the inner connection \<open>i\<close>.\<close>

definition on_inner :: "nat \<Rightarrow> (wconn, 'a) io \<Rightarrow> (world, 'a) io" where
  "on_inner i m w =
     (case m (conn.extend (w_conns w i) (wconn.fields w)) of
        None \<Rightarrow> None
      | Some (r, s) \<Rightarrow> Some (r, (w_world s)\<lparr>w_conns := (w_conns (w_world s))(i := conn.truncate s)\<rparr>))"

text \<open>\<open>with self._cache_lock:\<close> and \<open>with self._pool_lock:\<close>\<close>

definition with_cache_lock :: "nat \<Rightarrow> (world, 'a) io \<Rightarrow> (world, 'a) io" where
  "with_cache_lock i m w =
     (if i \<in> w_cache_locks w then None
      else case m (w\<lparr>w_cache_locks := insert i (w_cache_locks w)\<rparr>) of
        None \<Rightarrow> None
      | Some (r, w') \<Rightarrow> Some (r, w'\<lparr>w_cache_locks := w_cache_locks w' - {i}\<rparr>))"

definition with_pool_lock :: "(world, 'a) io \<Rightarrow> (world, 'a) io" where
  "with_pool_lock m w =
     (if w_pool_locked w then None
      else case m (w\<lparr>w_pool_locked := True\<rparr>) of
        None \<Rightarrow> None
      | Some (r, w') \<Rightarrow> Some (r, w'\<lparr>w_pool_locked := False\<rparr>))"

definition set_key :: "nat \<Rightarrow> CacheKey option \<Rightarrow> (world, unit) io" where
  "set_key i k = io_upd (\<lambda>w. w\<lparr>w_key := (w_key w)(i := k)\<rparr>)"

definition on_cache :: "(nat DefaultCache \<Rightarrow> 'a \<times> nat DefaultCache) \<Rightarrow> (world, 'a) io" where
  "on_cache f w = (let (r, c) = f (w_cache w) in Some (Inr r, w\<lparr>w_cache := c\<rparr>))"

definition on_cache_exc :: "(nat DefaultCache \<Rightarrow> (exc + 'a) \<times> nat DefaultCache) \<Rightarrow> (world, 'a) io" where
  "on_cache_exc f w = (let (r, c) = f (w_cache w) in Some (r, w\<lparr>w_cache := c\<rparr>))"

section \<open>The invalidation handler\<close>

definition on_invalidation_callback :: "nat \<Rightarrow> pyval list \<Rightarrow> (world, pyval) io" where
  "on_invalidation_callback i data =
     with_cache_lock i
       (case data of
          _ # PNone # _ \<Rightarrow> io_seq (on_cache flush) (io_ret PNone)
        | _ # rks # _ \<Rightarrow>
            io_bind (io_lift (iterate rks)) (\<lambda>ks. io_seq (on_cache_exc (delete_by_redis_keys ks)) (io_ret PNone))
        | _ \<Rightarrow> io_raise (Exc PyIndexError ''list index out of range''))"

text \<open>The handler as the parser calls it: the connection that is reading is in the state, beside the world.\<close>

definition in_world :: "(world, 'a) io \<Rightarrow> (wconn, 'a) io" where
  "in_world m s =
     (case m (w_world s) of None \<Rightarrow> None | Some (r, w) \<Rightarrow> Some (r, s\<lparr>w_world := w\<rparr>))"

definition proxy_push :: "nat \<Rightarrow> (pyval \<Rightarrow> (wconn, pyval) io) \<Rightarrow> pyval list \<Rightarrow> (wconn, pyval) io" where
  "proxy_push i pubsub xs =
     io_get (\<lambda>s. handle_push_response pubsub
       (if w_handler (w_world s) i then Some (\<lambda>_. in_world (on_invalidation_callback i xs)) else None) xs)"

text \<open>\<open>_enable_tracking_callback\<close>\<close>

definition enable_tracking :: "nat \<Rightarrow> wenv \<Rightarrow> (wconn, unit) io" where
  "enable_tracking i env =
     io_seq (conn_send_command env [PStr ''CLIENT'', PStr ''TRACKING'', PStr ''ON''] True)
       (io_seq (conn_read_response env False True False)
         (io_upd (\<lambda>s. s\<lparr>w_world := (w_world s)\<lparr>w_handler := (w_handler (w_world s))(i := True)\<rparr>\<rparr>)))"

text \<open>What the inner connection \<open>i\<close> is given: the push handler and, as the connect callback \<open>TRACKING\<close>, the method
  above.  The callback sends commands, which may reconnect and call it again; \<open>n\<close> bounds how often that is
  followed.\<close>

definition TRACKING :: nat where "TRACKING = 0"

primrec proxy_env :: "nat \<Rightarrow> nat \<Rightarrow> (nat \<Rightarrow> wenv) \<Rightarrow> (nat \<Rightarrow> pyval \<Rightarrow> (wconn, pyval) io) \<Rightarrow> wenv" where
  "proxy_env 0 i bare pubsub = (bare i)\<lparr>e_push := proxy_push i (pubsub i), e_callback := (\<lambda>_ _. None)\<rparr>"
| "proxy_env (Suc n) i bare pubsub =
     (bare i)\<lparr>e_push := proxy_push i (pubsub i),
              e_callback := (\<lambda>cb. if cb = TRACKING then enable_tracking i (proxy_env n i bare pubsub) else e_callback (bare i) cb)\<rparr>"

section \<open>The operations\<close>

text \<open>\<open>E\<close> gives what each inner connection is given, as \<open>proxy_env\<close> makes it.\<close>

definition proxy_init :: "nat \<Rightarrow> conn \<Rightarrow> world \<Rightarrow> world" where
  "proxy_init i c w =
     w\<lparr>w_conns := (w_conns w)(i := register_connect_callback TRACKING c), w_key := (w_key w)(i := None),
       w_handler := (w_handler w)(i := False), w_cache_locks := w_cache_locks w - {i}\<rparr>"

definition MIN_ALLOWED_VERSION :: pystr where "MIN_ALLOWED_VERSION = ''7.4.0''"

definition DUMMY_CACHE_VALUE :: pyval where "DUMMY_CACHE_VALUE = PBytes ''foo''"

text \<open>\<open>metadata.get(b"k", None)\<close>, and \<open>metadata.get("k", None)\<close> when that is \<open>None\<close>.\<close>

definition meta_get :: "(pyval \<times> pyval) list \<Rightarrow> string \<Rightarrow> pyval" where
  "meta_get d k =
     (case dict_get d (PBytes k) of
        Some v \<Rightarrow> if v \<noteq> PNone then v else (case dict_get d (PStr k) of Some v \<Rightarrow> v | None \<Rightarrow> PNone)
      | None \<Rightarrow> (case dict_get d (PStr k) of Some v \<Rightarrow> v | None \<Rightarrow> PNone))"

definition check_server :: "pyval \<Rightarrow> exc + unit" where
  "check_server md =
     (case md of
        PDict d \<Rightarrow>
          if meta_get d ''version'' = PNone
          then Inl (Exc ConnectionError ''Cannot retrieve information about server version'')
          else (case ensure_string (meta_get d ''version'') of
              Inl e \<Rightarrow> Inl e
            | Inr server_ver \<Rightarrow>
                (case ensure_string (meta_get d ''server'') of
                   Inl e \<Rightarrow> Inl e
                 | Inr server_name \<Rightarrow>
                     let unsupported = Exc ConnectionError ''client-side caching is supported by Redis 7.4 or later'' in
                     if server_name \<noteq> ''redis'' then Inl unsupported
                     else (case compare_versions server_ver MIN_ALLOWED_VERSION of
                         Inl e \<Rightarrow> Inl e
                       | Inr c \<Rightarrow> if c = 1 then Inl unsupported else Inr ())))
      | _ \<Rightarrow> Inl no_attribute)"

definition proxy_connect :: "(nat \<Rightarrow> wenv) \<Rightarrow> nat \<Rightarrow> (world, unit) io" where
  "proxy_connect E i =
     io_seq (on_inner i (conn_connect (E i)))
       (io_get (\<lambda>w. io_lift (check_server (c_handshake_metadata (w_conns w i)))))"

definition proxy_disconnect :: "nat \<Rightarrow> (world, unit) io" where
  "proxy_disconnect i =
     io_seq (with_cache_lock i (on_cache flush)) (on_inner i (io_upd conn_disconnect))"

text \<open>\<open>check_health\<close> is not handed on.\<close>

definition proxy_send_packed_command :: "(nat \<Rightarrow> wenv) \<Rightarrow> nat \<Rightarrow> pyval list \<Rightarrow> bool \<Rightarrow> (world, unit) io" where
  "proxy_send_packed_command E i cmds check_health = on_inner i (conn_send_packed_command (E i) cmds True)"

definition proxy_can_read :: "(nat \<Rightarrow> wenv) \<Rightarrow> nat \<Rightarrow> (world, bool) io" where
  "proxy_can_read E i = on_inner i (conn_can_read (E i) (Some 0))"

text \<open>\<open>while conn.can_read(): conn.read_response(push_request=True)\<close>\<close>

partial_function (option) drain :: "(nat \<Rightarrow> wenv) \<Rightarrow> nat \<Rightarrow> world \<Rightarrow> ((exc + unit) \<times> world) option" where
  "drain E i w =
     (case proxy_can_read E i w of
        None \<Rightarrow> None
      | Some (Inl e, w1) \<Rightarrow> Some (Inl e, w1)
      | Some (Inr b, w1) \<Rightarrow>
          if b then
            (case on_inner i (conn_read_response (E i) False True True) w1 of
               None \<Rightarrow> None
             | Some (Inl e, w2) \<Rightarrow> Some (Inl e, w2)
             | Some (Inr _, w2) \<Rightarrow> drain E i w2)
          else Some (Inr (), w1))"

text \<open>The two sections of \<open>send_command\<close> under the cache lock; each says whether the method returns there.\<close>

definition send_uncached :: "(nat \<Rightarrow> wenv) \<Rightarrow> nat \<Rightarrow> pystr \<Rightarrow> pyval list \<Rightarrow> (world, bool) io" where
  "send_uncached E i cmd rest =
     with_cache_lock i
       (if \<not> is_cachable (CacheKey cmd [])
        then io_seq (set_key i None)
               (io_seq (on_inner i (conn_send_command (E i) (PStr cmd # rest) True)) (io_ret True))
        else io_ret False)"

definition lookup_or_reserve :: "(nat \<Rightarrow> wenv) \<Rightarrow> nat \<Rightarrow> CacheKey \<Rightarrow> (world, bool) io" where
  "lookup_or_reserve E i k =
     with_cache_lock i
       (io_bind (on_cache (cache_get k)) (\<lambda>hit.
          if hit \<noteq> None
          then io_bind (on_cache (cache_get k)) (\<lambda>entry.
                 case entry of
                   None \<Rightarrow> io_raise no_attribute
                 | Some e \<Rightarrow>
                     io_seq (io_when (connection_ref e \<noteq> i) (with_pool_lock (drain E (connection_ref e)))) (io_ret True))
          else io_seq
                 (on_cache_exc (cache_set \<lparr> cache_key = k, cache_value = DUMMY_CACHE_VALUE, status = IN_PROGRESS, connection_ref = i \<rparr>))
                 (io_ret False)))"

text \<open>\<open>send_command(cmd, *rest, keys=kwkeys)\<close>; the library passes the name of the command as a string.\<close>

definition proxy_send_command :: "(nat \<Rightarrow> wenv) \<Rightarrow> nat \<Rightarrow> pystr \<Rightarrow> pyval list \<Rightarrow> pyval list option \<Rightarrow> (world, unit) io" where
  "proxy_send_command E i cmd rest kwkeys =
     io_seq (drain E i)
       (io_bind (send_uncached E i cmd rest) (\<lambda>returned.
          if returned then io_ret ()
          else case kwkeys of
            None \<Rightarrow> io_raise (Exc PyValueError ''Cannot create cache key.'')
          | Some ks \<Rightarrow>
              io_seq (set_key i (Some (CacheKey cmd ks)))
                (io_bind (lookup_or_reserve E i (CacheKey cmd ks)) (\<lambda>returned.
                   if returned then io_ret ()
                   else on_inner i (conn_send_command (E i) (PStr cmd # rest) True)))))"

text \<open>The sections of \<open>read_response\<close>: the answer from the cache, and the entry for a reply that was read.\<close>

definition cached_response :: "nat \<Rightarrow> (world, pyval option) io" where
  "cached_response i =
     with_cache_lock i (io_get (\<lambda>w.
       case w_key w i of
         None \<Rightarrow> io_ret None
       | Some k \<Rightarrow>
           io_bind (on_cache (cache_get k)) (\<lambda>e1.
             if e1 = None then io_ret None
             else io_bind (on_cache (cache_get k)) (\<lambda>e2.
               case e2 of
                 None \<Rightarrow> io_raise no_attribute
               | Some e \<Rightarrow>
                   if status e = IN_PROGRESS then io_ret None
                   else io_bind (on_cache (cache_get k)) (\<lambda>e3.
                     case e3 of
                       None \<Rightarrow> io_raise no_attribute
                     | Some e \<Rightarrow> io_seq (set_key i None) (io_ret (Some (cache_value e))))))))"

definition store_response :: "nat \<Rightarrow> pyval \<Rightarrow> (world, unit) io" where
  "store_response i response =
     with_cache_lock i (io_get (\<lambda>w.
       case w_key w i of
         None \<Rightarrow> io_ret ()
       | Some k \<Rightarrow>
           if response = PNone then io_seq (on_cache (delete_by_cache_keys [k])) (io_ret ())
           else io_bind (on_cache (cache_get k)) (\<lambda>entry.
             io_seq
               (case entry of
                  None \<Rightarrow> io_ret ()
                | Some e \<Rightarrow> io_seq (on_cache_exc (cache_set (e\<lparr>status := VALID, cache_value := response\<rparr>))) (io_ret ()))
               (set_key i None))))"

definition proxy_read_response :: "(nat \<Rightarrow> wenv) \<Rightarrow> nat \<Rightarrow> bool \<Rightarrow> bool \<Rightarrow> bool \<Rightarrow> (world, pyval) io" where
  "proxy_read_response E i disable_decoding disconnect_on_error push_request =
     io_bind (cached_response i) (\<lambda>cached.
       case cached of
         Some res \<Rightarrow> io_ret res
       | None \<Rightarrow>
           io_bind (on_inner i (conn_read_response (E i) disable_decoding disconnect_on_error push_request))
             (\<lambda>response. io_seq (store_response i response) (io_ret response)))"

definition proxy_re_auth :: "(nat \<Rightarrow> wenv) \<Rightarrow> nat \<Rightarrow> (world, unit) io" where
  "proxy_re_auth E i = on_inner i (re_auth (E i))"

section \<open>What the operations keep\<close>

text \<open>Every change of the cache is one of the cache's own operations, and every lock that is taken is given back,
  also when an exception is raised.\<close>

definition world_rel :: "world \<Rightarrow> world \<Rightarrow> bool" where
  "world_rel w w' \<longleftrightarrow>
     (cache_inv (w_cache w) \<longrightarrow> cache_inv (w_cache w')) \<and> max_size (w_cache w') = max_size (w_cache w)
     \<and> w_cache_locks w' = w_cache_locks w \<and> w_pool_locked w' = w_pool_locked w"

abbreviation wconn_rel :: "wconn \<Rightarrow> wconn \<Rightarrow> bool" where
  "wconn_rel s s' \<equiv> world_rel (w_world s) (w_world s')"

text \<open>The user's functions leave the cache and the locks alone.\<close>

definition given_world :: "(nat \<Rightarrow> wenv) \<Rightarrow> (nat \<Rightarrow> pyval \<Rightarrow> (wconn, pyval) io) \<Rightarrow> bool" where
  "given_world bare pubsub \<longleftrightarrow>
     (\<forall>i v. io_pres wconn_rel (pubsub i v)) \<and> (\<forall>i cb. io_pres wconn_rel (e_callback (bare i) cb))
     \<and> (\<forall>i f. e_connect_func (bare i) = Some f \<longrightarrow> io_pres wconn_rel f)"

lemma world_rel_order: "reflp world_rel" "transp world_rel"
  by (auto simp: reflp_def transp_def world_rel_def)

lemma world_rel_refl [simp]: "world_rel w w"
  by (simp add: world_rel_def)

lemma world_rel_trans: "world_rel a b \<Longrightarrow> world_rel b c \<Longrightarrow> world_rel a c"
  by (simp add: world_rel_def)

lemma world_rel_updates:
  "world_rel w (w\<lparr>w_conns := c\<rparr>)" "world_rel w (w\<lparr>w_key := k\<rparr>)" "world_rel w (w\<lparr>w_handler := h\<rparr>)"
  by (simp_all add: world_rel_def)

lemma pres_set_key: "io_pres world_rel (set_key i k)"
  unfolding set_key_def by (rule io_pres_upd) (rule world_rel_updates)

lemma pres_on_cache:
  assumes "\<And>c. max_size (snd (f c)) = max_size c" "\<And>c. cache_inv c \<Longrightarrow> cache_inv (snd (f c))"
  shows "io_pres world_rel (on_cache f)"
  unfolding io_pres_def on_cache_def
proof (intro allI impI)
  fix w w' :: world and r
  assume "(let (r, c) = f (w_cache w) in Some (Inr r, w\<lparr>w_cache := c\<rparr>)) = Some (r, w')"
  then have "w' = w\<lparr>w_cache := snd (f (w_cache w))\<rparr>" by (auto simp: Let_def split: prod.splits)
  then show "world_rel w w'" using assms [of "w_cache w"] by (simp add: world_rel_def)
qed

lemma pres_on_cache_exc:
  assumes "\<And>c. max_size (snd (f c)) = max_size c" "\<And>c. cache_inv c \<Longrightarrow> cache_inv (snd (f c))"
  shows "io_pres world_rel (on_cache_exc f)"
  unfolding io_pres_def on_cache_exc_def
proof (intro allI impI)
  fix w w' :: world and r
  assume "(let (r, c) = f (w_cache w) in Some (r, w\<lparr>w_cache := c\<rparr>)) = Some (r, w')"
  then have "w' = w\<lparr>w_cache := snd (f (w_cache w))\<rparr>" by (auto simp: Let_def split: prod.splits)
  then show "world_rel w w'" using assms [of "w_cache w"] by (simp add: world_rel_def)
qed

lemma max_size_ops [simp]:
  "max_size (snd (delete_by_cache_keys ks c)) = max_size c" "max_size (snd (pop_all ks c)) = max_size c"
  "max_size (snd (delete_by_redis_keys rks c)) = max_size c" "max_size (snd (flush c)) = max_size c"
  "max_size (snd (cache_get k c)) = max_size c" "max_size (snd (cache_set e c)) = max_size c"
proof -
  show "max_size (snd (cache_get k c)) = max_size c"
    by (simp add: cache_get_def touch_def split: option.splits)
  show "max_size (snd (delete_by_cache_keys ks c)) = max_size c"
  proof (induction ks arbitrary: c)
    case (Cons k ks)
    show ?case
    proof (cases "map_of (collection c) k")
      case None
      then show ?thesis using Cons [of c] by (simp add: cache_get_def Let_def split: prod.splits) (metis snd_conv)
    next
      case (Some e)
      let ?c = "snd (touch k c)\<lparr>collection := od_pop (collection (snd (touch k c))) k\<rparr>"
      have "snd (delete_by_cache_keys (k # ks) c) = snd (delete_by_cache_keys ks ?c)"
        using Some by (simp add: cache_get_def Let_def split: prod.splits)
      then show ?thesis using Cons [of ?c] Some by (simp add: touch_def)
    qed
  qed simp
  have p: "max_size (snd (pop_all xs x)) = max_size x" for xs and x :: "'a DefaultCache"
    by (induction xs x rule: pop_all.induct) (auto split: option.splits)
  show "max_size (snd (pop_all ks c)) = max_size c" by (rule p)
  show "max_size (snd (delete_by_redis_keys rks c)) = max_size c"
    using p by (auto simp: delete_by_redis_keys_def Let_def split: sum.splits prod.splits) (metis snd_conv)+
  show "max_size (snd (flush c)) = max_size c" by (simp add: flush_def)
  show "max_size (snd (cache_set e c)) = max_size c"
    by (auto simp: cache_set_def touch_def evict_next_def Let_def split: option.splits list.splits prod.splits sum.splits)
qed

lemmas cache_pres = pres_on_cache [OF max_size_ops(1) cache_inv_delete_by_cache_keys]
  pres_on_cache_exc [OF max_size_ops(3) cache_inv_delete_by_redis_keys] pres_on_cache [OF max_size_ops(4) cache_inv_flush]
  pres_on_cache [OF max_size_ops(5) cache_inv_get] pres_on_cache_exc [OF max_size_ops(6) cache_inv_set]

lemma pres_locks:
  assumes "io_pres world_rel m"
  shows "io_pres world_rel (with_cache_lock i m)" "io_pres world_rel (with_pool_lock m)"
  using assms
  by (fastforce simp: io_pres_def with_cache_lock_def with_pool_lock_def world_rel_def split: if_splits option.splits)+

lemma w_world_extend [simp]: "w_world (conn.extend c (wconn.fields w)) = w"
  by (simp add: conn.extend_def wconn.fields_def)

lemma pres_on_inner:
  assumes "io_pres wconn_rel m"
  shows "io_pres world_rel (on_inner i m)"
  unfolding io_pres_def
proof (intro allI impI)
  fix w r w'
  assume "on_inner i m w = Some (r, w')"
  then obtain s where s: "m (conn.extend (w_conns w i) (wconn.fields w)) = Some (r, s)"
    "w' = (w_world s)\<lparr>w_conns := (w_conns (w_world s))(i := conn.truncate s)\<rparr>"
    by (auto simp: on_inner_def split: option.splits)
  have "world_rel w (w_world s)" using assms s(1) unfolding io_pres_def by fastforce
  then show "world_rel w w'" using s(2) world_rel_trans world_rel_updates(1) by blast
qed

lemma pres_in_world: "io_pres world_rel m \<Longrightarrow> io_pres wconn_rel (in_world m)"
  by (auto simp: io_pres_def in_world_def split: option.splits)

lemmas pres_intros = io_pres_intros pres_locks cache_pres pres_set_key world_rel_order

lemma on_invalidation_pres: "io_pres world_rel (on_invalidation_callback i data)"
proof -
  have "io_pres world_rel (io_bind (io_lift (iterate ks)) (\<lambda>ks. io_seq (on_cache_exc (delete_by_redis_keys ks)) (io_ret PNone)))" for ks
    by (intro pres_intros)
  moreover have "io_pres world_rel (io_seq (on_cache flush) (io_ret PNone))" by (intro pres_intros)
  moreover have "io_pres world_rel (io_raise e :: (world, pyval) io)" for e by (intro pres_intros)
  ultimately show ?thesis
    unfolding on_invalidation_callback_def by (intro pres_locks) (auto simp del: iterate_simps split: list.splits pyval.splits)
qed

lemma wconn_rel_order: "reflp wconn_rel" "transp wconn_rel"
  by (auto simp: reflp_def transp_def intro: world_rel_trans)

lemma proxy_push_pres: "given_world bare pubsub \<Longrightarrow> io_pres wconn_rel (proxy_push i (pubsub i) xs)"
  unfolding proxy_push_def handle_push_response_def
  by (intro io_pres_get) (auto split: list.splits option.splits
      simp: given_world_def intro!: pres_in_world on_invalidation_pres io_pres_intros wconn_rel_order)

lemma enable_tracking_pres:
  assumes "conn_frame env wconn_rel"
  shows "io_pres wconn_rel (enable_tracking i env)"
  unfolding enable_tracking_def
  by (intro io_pres_intros wconn_rel_order conn_frame.public_pres [OF assms] conn_frame.read_response_pres [OF assms])
    (simp add: world_rel_updates)

lemma proxy_env_frame:
  assumes "given_world bare pubsub"
  shows "conn_frame (proxy_env n i bare pubsub) wconn_rel"
proof (induction n)
  case 0
  show ?case
    by (rule conn_frame.intro, unfold frame_rel_def)
      (use assms proxy_push_pres [OF assms] wconn_rel_order in \<open>auto simp: given_world_def intro: io_pres_none\<close>)
next
  case (Suc n)
  show ?case
    by (rule conn_frame.intro, unfold frame_rel_def)
      (use assms proxy_push_pres [OF assms] wconn_rel_order enable_tracking_pres [OF Suc] in \<open>auto simp: given_world_def\<close>)
qed

interpretation proxied: conn_frame "proxy_env n i bare pubsub"
  "\<lambda>s s'. given_world bare pubsub \<longrightarrow> wconn_rel s s'" for n i bare pubsub
proof (cases "given_world bare pubsub")
  case True
  then show "conn_frame (proxy_env n i bare pubsub) (\<lambda>s s'. given_world bare pubsub \<longrightarrow> wconn_rel s s')"
    using proxy_env_frame [OF True, of n i] by simp
next
  case False
  then show "conn_frame (proxy_env n i bare pubsub) (\<lambda>s s'. given_world bare pubsub \<longrightarrow> wconn_rel s s')"
    by (auto simp: conn_frame_def frame_rel_def io_pres_def reflp_def transp_def)
qed

lemma drain_pres:
  assumes r: "\<And>j. io_pres world_rel (proxy_can_read E j)" "\<And>j. io_pres world_rel (on_inner j (conn_read_response (E j) False True True))"
  shows "io_pres world_rel (drain E i)"
proof -
  have "world_rel w w'" if "drain E i w = Some (r, w')" for w r w'
  proof (rule drain.raw_induct [where P = "\<lambda>E' i w (r, w'). E' = E \<longrightarrow> world_rel w w'", rule_format, OF _ that, simplified])
    fix dr E' j w rw
    assume IH: "\<And>E' j w rw. dr E' j w = Some rw \<Longrightarrow> case rw of (r, w') \<Rightarrow> E' = E \<longrightarrow> world_rel w w'"
      and step: "(case proxy_can_read E' j w of None \<Rightarrow> None | Some (Inl e, w1) \<Rightarrow> Some (Inl e, w1)
        | Some (Inr b, w1) \<Rightarrow> if b then case on_inner j (conn_read_response (E' j) False True True) w1 of None \<Rightarrow> None
             | Some (Inl e, w2) \<Rightarrow> Some (Inl e, w2) | Some (Inr x, w2) \<Rightarrow> dr E' j w2 else Some (Inr (), w1)) = Some rw"
    have t: "world_rel w w'" if "world_rel w w1" "world_rel w1 w2" "world_rel w2 w'" for w1 w2 w'
      using that world_rel_trans by blast
    show "case rw of (r, w') \<Rightarrow> E' = E \<longrightarrow> world_rel w w'"
      using step r [of j] IH unfolding io_pres_def
      by (fastforce split: option.splits sum.splits prod.splits if_splits intro: t world_rel_trans)
  qed
  then show ?thesis by (simp add: io_pres_def)
qed

datatype proxy_call =
    CallConnect | CallDisconnect | CallSendPacked "pyval list" | CallSend pystr "pyval list" "pyval list option"
  | CallCanRead | CallRead bool bool bool | CallReAuth

text \<open>A call, its result forgotten.\<close>

definition after :: "(world, 'a) io \<Rightarrow> world \<Rightarrow> world option" where
  "after m w = map_option snd (m w)"

fun run_call :: "(nat \<Rightarrow> wenv) \<Rightarrow> nat \<Rightarrow> proxy_call \<Rightarrow> world \<Rightarrow> world option" where
  "run_call E i CallConnect = after (proxy_connect E i)"
| "run_call E i CallDisconnect = after (proxy_disconnect i)"
| "run_call E i (CallSendPacked cs) = after (proxy_send_packed_command E i cs True)"
| "run_call E i (CallSend cmd rest ks) = after (proxy_send_command E i cmd rest ks)"
| "run_call E i CallCanRead = after (proxy_can_read E i)"
| "run_call E i (CallRead dd de pr) = after (proxy_read_response E i dd de pr)"
| "run_call E i CallReAuth = after (proxy_re_auth E i)"

inductive proxy_step :: "(nat \<Rightarrow> wenv) \<Rightarrow> world \<Rightarrow> world \<Rightarrow> bool" for E where
  call: "run_call E i c w = Some w' \<Longrightarrow> proxy_step E w w'"
| make: "proxy_step E w (proxy_init i c w)"

lemma inner_pres:
  fixes n :: nat
  assumes "given_world bare pubsub"
  defines "E \<equiv> \<lambda>i. proxy_env n i bare pubsub"
  shows "io_pres world_rel (on_inner i (conn_connect (E i)))"
    "io_pres world_rel (on_inner i (conn_send_command (E i) args ch))"
    "io_pres world_rel (on_inner i (conn_send_packed_command (E i) cs ch))"
    "io_pres world_rel (on_inner i (conn_read_response (E i) dd de pr))"
    "io_pres world_rel (on_inner i (conn_can_read (E i) t))"
    "io_pres world_rel (on_inner i (re_auth (E i)))" "io_pres world_rel (on_inner i (io_upd conn_disconnect))"
proof -
  note f = proxy_env_frame [OF assms(1), of n]
  show "io_pres world_rel (on_inner i (conn_connect (E i)))"
    "io_pres world_rel (on_inner i (conn_send_command (E i) args ch))"
    "io_pres world_rel (on_inner i (conn_can_read (E i) t))"
    "io_pres world_rel (on_inner i (re_auth (E i)))"
    unfolding E_def by (intro pres_on_inner conn_frame.public_pres f)+
  show "io_pres world_rel (on_inner i (conn_read_response (E i) dd de pr))"
    unfolding E_def by (intro pres_on_inner conn_frame.read_response_pres f)
  show "io_pres world_rel (on_inner i (conn_send_packed_command (E i) cs ch))"
    unfolding E_def conn_send_packed_command_def by (intro pres_on_inner conn_frame.send_pres(5) conn_frame.connect_pres f)
  show "io_pres world_rel (on_inner i (io_upd conn_disconnect))"
    by (intro pres_on_inner conn_frame.elementary_pres(6) [OF f])
qed

lemma proxy_call_pres:
  assumes g: "given_world bare pubsub" and c: "run_call (\<lambda>i. proxy_env n i bare pubsub) i c w = Some w'"
  shows "world_rel w w'"
proof -
  let ?E = "\<lambda>i. proxy_env n i bare pubsub"
  have a: "world_rel w w'" if "after m w = Some w'" "io_pres world_rel m" for m :: "(world, 'x) io"
    using that by (auto simp: after_def io_pres_def)
  note ip = inner_pres(1-6) [where n = n, OF g] inner_pres(7) [OF g]
  have dr: "io_pres world_rel (drain ?E j)" for j
    by (rule drain_pres) (auto simp: proxy_can_read_def intro: ip)
  have e: "io_pres world_rel (case entry of None \<Rightarrow> io_raise no_attribute
      | Some e \<Rightarrow> io_seq (io_when (connection_ref e \<noteq> i) (with_pool_lock (drain ?E (connection_ref e)))) (io_ret True))" for entry
    by (cases entry) (auto intro!: pres_intros dr)
  have l: "io_pres world_rel (lookup_or_reserve ?E i k)" for k
    unfolding lookup_or_reserve_def by (intro pres_intros e) 
  have u: "io_pres world_rel (send_uncached ?E i cmd rest)" for cmd rest
    unfolding send_uncached_def by (intro pres_intros) (auto intro!: pres_intros ip)
  have s: "io_pres world_rel (proxy_send_command ?E i cmd rest ks)" for cmd rest ks
    unfolding proxy_send_command_def by (intro pres_intros dr u) (auto split: option.splits intro!: pres_intros l ip)
  have cr: "io_pres world_rel (cached_response i)"
    unfolding cached_response_def
    by (intro pres_intros) (auto split: option.splits intro!: pres_intros)
  have st: "io_pres world_rel (store_response i v)" for v
    unfolding store_response_def
    by (intro pres_intros) (auto split: option.splits intro!: pres_intros)
  have rd: "io_pres world_rel (proxy_read_response ?E i dd de pr)" for dd de pr
    unfolding proxy_read_response_def
    by (intro pres_intros cr) (auto split: option.splits intro!: pres_intros ip st)
  have o: "io_pres world_rel (proxy_connect ?E i)" "io_pres world_rel (proxy_disconnect i)"
    "io_pres world_rel (proxy_can_read ?E i)" "io_pres world_rel (proxy_re_auth ?E i)"
    "io_pres world_rel (proxy_send_packed_command ?E i cs True)" for cs
    unfolding proxy_connect_def proxy_disconnect_def proxy_can_read_def proxy_re_auth_def proxy_send_packed_command_def
    by (auto intro!: pres_intros ip)
  show ?thesis using c by (cases c) (auto dest!: a intro: o s rd)
qed

section \<open>Hits, misses and reservations\<close>

abbreviation entry_of :: "world \<Rightarrow> CacheKey \<rightharpoonup> nat CacheEntry" where
  "entry_of w \<equiv> map_of (collection (w_cache w))"

definition touched :: "CacheKey \<Rightarrow> nat DefaultCache \<Rightarrow> nat DefaultCache" where
  "touched k c = c\<lparr>collection := od_move_to_end (collection c) k\<rparr>"

lemma touched_simps [simp]: "map_of (collection (touched k c)) = map_of (collection c)" "max_size (touched k c) = max_size c"
  by (simp_all add: touched_def)

lemma on_cache_get:
  "entry_of w k = Some e \<Longrightarrow> on_cache (cache_get k) w = Some (Inr (Some e), w\<lparr>w_cache := touched k (w_cache w)\<rparr>)"
  "entry_of w k = None \<Longrightarrow> on_cache (cache_get k) w = Some (Inr None, w)"
  by (simp_all add: on_cache_def cache_get_def touch_def touched_def)

lemmas proxy_eval = io_seq_def io_get_def io_when_def io_upd_def io_ret_def io_raise_def io_lift_def set_key_def

lemma drain_nothing: "proxy_can_read E i w = Some (Inr False, w1) \<Longrightarrow> drain E i w = Some (Inr (), w1)"
  by (subst drain.simps) simp

lemma locked_ret [simp]: "i \<notin> w_cache_locks w \<Longrightarrow> w\<lparr>w_cache_locks := insert i (w_cache_locks w) - {i}\<rparr> = w"
  by simp

lemma send_hit:
  assumes cr: "proxy_can_read E i w = Some (Inr False, w1)" and lock: "i \<notin> w_cache_locks w1"
    and cachable: "is_cachable (CacheKey cmd [])" and e: "entry_of w1 (CacheKey cmd ks) = Some e" "connection_ref e = i"
  obtains w2 where "proxy_send_command E i cmd rest (Some ks) w = Some (Inr (), w2)" "w_conns w2 = w_conns w1"
    "w_key w2 = (w_key w1)(i := Some (CacheKey cmd ks))" "entry_of w2 = entry_of w1" "w_cache_locks w2 = w_cache_locks w1"
proof -
  let ?k = "CacheKey cmd ks" and ?u = "w1\<lparr>w_key := (w_key w1)(i := Some (CacheKey cmd ks))\<rparr>"
  have u: "send_uncached E i cmd rest w1 = Some (Inr False, w1)"
    using lock cachable by (simp add: send_uncached_def with_cache_lock_def io_ret_def)
  have l: "lookup_or_reserve E i ?k ?u = Some (Inr True, ?u\<lparr>w_cache := touched ?k (touched ?k (w_cache w1))\<rparr>)"
    using lock e by (simp add: lookup_or_reserve_def with_cache_lock_def on_cache_get io_bind_def io_seq_def io_when_def io_ret_def)
  have "proxy_send_command E i cmd rest (Some ks) w = Some (Inr (), ?u\<lparr>w_cache := touched ?k (touched ?k (w_cache w1))\<rparr>)"
    by (simp add: proxy_send_command_def io_seq_def drain_nothing [OF cr] u set_key_def io_upd_def l io_bind_def io_ret_def)
  then show thesis using that by simp
qed

lemma read_hit:
  assumes "i \<notin> w_cache_locks w" "w_key w i = Some k" "entry_of w k = Some e" "status e = VALID"
  obtains w' where "proxy_read_response E i dd de pr w = Some (Inr (cache_value e), w')" "w_conns w' = w_conns w"
    "w_key w' i = None" "entry_of w' = entry_of w" "w_cache_locks w' = w_cache_locks w"
proof -
  let ?w = "w\<lparr>w_cache := touched k (touched k (touched k (w_cache w))), w_key := (w_key w)(i := None)\<rparr>"
  have "cached_response i w = Some (Inr (Some (cache_value e)), ?w)"
    using assms by (simp add: cached_response_def with_cache_lock_def io_get_def on_cache_get io_bind_def io_seq_def set_key_def io_upd_def io_ret_def)
  then have "proxy_read_response E i dd de pr w = Some (Inr (cache_value e), ?w)"
    by (simp add: proxy_read_response_def io_bind_def io_ret_def)
  then show thesis using that by simp
qed

text \<open>Storing a reply over the entry that was reserved for it evicts nothing.\<close>

lemma cache_set_present:
  assumes inv: "cache_inv c" and e: "map_of (collection c) k = Some e0" and k: "cache_key e = k"
  shows "fst (cache_set e c) = Inr True" "map_of (collection (snd (cache_set e c))) = (map_of (collection c))(k \<mapsto> e)"
proof -
  have kin: "k \<in> set (keys (collection c))" using e by (metis not_None_eq od_set_present)
  have cachable: "is_cachable k" using inv map_of_SomeD [OF e] by (auto simp: cache_inv_def)
  let ?d = "od_move_to_end (od_set (collection c) k e) k"
  have len: "length (od_set (collection c) k e) = length (collection c)"
    using keys_od_set [of "collection c" k e] kin by (metis length_map)
  have dist: "distinct (keys (od_set (collection c) k e))" using keys_od_set [of "collection c" k e] kin inv by (simp add: cache_inv_def)
  have "length ?d = length (collection c)"
    using keys_move_to_end [OF dist] kin len keys_od_set [of "collection c" k e]
    by (metis (no_types, lifting) distinct_card distinct_keys_move length_map set_map set_move_to_end dist)
  moreover have "length (collection c) \<ge> 1" using kin by (cases "collection c") auto
  ultimately have fits: "\<not> is_exceeds_max_size (c\<lparr>collection := ?d\<rparr>) (length ?d)"
    using inv by (auto simp: cache_inv_def is_exceeds_max_size_def max_def split: if_splits)
  have "cache_set e c = (Inr True, c\<lparr>collection := ?d\<rparr>)"
    using cachable k fits by (simp add: cache_set_def touch_def Let_def)
  then show "fst (cache_set e c) = Inr True" "map_of (collection (snd (cache_set e c))) = (map_of (collection c))(k \<mapsto> e)"
    by simp_all
qed

lemma cache_inv_touched: "cache_inv c \<Longrightarrow> map_of (collection c) k = Some e \<Longrightarrow> cache_inv (touched k c)"
  using cache_inv_touch [of c k] by (simp add: touch_def touched_def)

lemma store_present:
  assumes "i \<notin> w_cache_locks w" "w_key w i = Some k" "entry_of w k = Some e" "v \<noteq> PNone" "cache_inv (w_cache w)"
  obtains w' where "store_response i v w = Some (Inr (), w')" "w_conns w' = w_conns w" "w_key w' = (w_key w)(i := None)"
    "entry_of w' = (entry_of w)(k \<mapsto> e\<lparr>status := VALID, cache_value := v\<rparr>)" "w_cache_locks w' = w_cache_locks w"
proof -
  let ?e = "e\<lparr>status := VALID, cache_value := v\<rparr>" and ?c = "touched k (w_cache w)"
  have key: "cache_key ?e = k" using assms(3,5) map_of_SomeD [OF assms(3)] by (auto simp: cache_inv_def)
  have inv: "cache_inv ?c" using assms(3,5) cache_inv_touched by blast
  obtain c' where c': "cache_set ?e ?c = (Inr True, c')" using cache_set_present(1) [OF inv _ key, of e] assms(3)
    by (metis prod.collapse touched_simps(1))
  have m: "map_of (collection c') = (entry_of w)(k \<mapsto> ?e)" using cache_set_present(2) [OF inv _ key, of e] c' assms(3) by simp
  have "store_response i v w = Some (Inr (), w\<lparr>w_cache := c', w_key := (w_key w)(i := None)\<rparr>)"
    using assms c'
    by (simp add: store_response_def with_cache_lock_def io_get_def on_cache_get io_bind_def io_seq_def on_cache_exc_def set_key_def io_upd_def io_ret_def)
  then show thesis using that m by simp
qed

section \<open>Properties\<close>

text \<open>A world to try the theorems on: one connection whose server answers \<open>reply\<close> and then nothing, with
  \<open>HGET h\<close> reserved.\<close>

definition demo_bare :: "nat \<Rightarrow> wenv" where
  "demo_bare _ = \<lparr> e_time = of_nat, e_random = (\<lambda>_. 0), e_cred = (\<lambda>_. Inr []), e_encoder = utf8_encoder False,
     e_float = (\<lambda>_. None), e_host_error = ''localhost:6379'', e_push = (\<lambda>xs. io_ret (PList xs)),
     e_connect_func = None, e_callback = (\<lambda>_. io_ret ()) \<rparr>"

definition demo_pubsub :: "nat \<Rightarrow> pyval \<Rightarrow> (wconn, pyval) io" where
  "demo_pubsub _ = io_ret"

definition demo_proxies :: "nat \<Rightarrow> wenv" where
  "demo_proxies = (\<lambda>i. proxy_env 1 i demo_bare demo_pubsub)"

definition demo_key :: CacheKey where "demo_key = CacheKey ''HGET'' [PStr ''h'']"

definition demo_world :: "bytes \<Rightarrow> world" where
  "demo_world reply =
     \<lparr> w_conns = (\<lambda>_. (projr (conn_init (demo_args (PInt 0) (PInt 3)) 1 [] []))
          \<lparr>c_resp3 := True, c_sock := Some (0, []), sbuf := Some (sb_init [Recv reply, RecvTimeout] None)\<rparr>),
       w_cache = \<lparr> collection = [(demo_key, \<lparr> cache_key = demo_key, cache_value = DUMMY_CACHE_VALUE, status = IN_PROGRESS, connection_ref = 0 \<rparr>)],
                   max_size = 10 \<rparr>,
       w_key = (\<lambda>_. Some demo_key), w_cache_locks = {}, w_pool_locked = False, w_handler = (\<lambda>_. True) \<rparr>"

lemma demo_given_world: "given_world demo_bare demo_pubsub"
  by (auto simp: given_world_def demo_bare_def demo_pubsub_def intro!: io_pres_intros wconn_rel_order)

lemma demo_reserved: "cached_response 0 (demo_world reply) = Some (Inr None, demo_world reply)"
  by (simp add: cached_response_def with_cache_lock_def io_get_def on_cache_get io_bind_def io_ret_def demo_world_def
      touched_def od_move_to_end_def od_pop_def)

definition demo_reply :: bytes where "demo_reply = ''$1'' @ SYM_CRLF @ ''x'' @ SYM_CRLF"
definition demo_error :: bytes where "demo_error = ''-ERR x'' @ SYM_CRLF"

definition view_of :: "world \<Rightarrow> (nat \<times> recv_event list) option \<times> sockbuf option \<times> CacheKey option \<times> nat DefaultCache \<times> bool" where
  "view_of w = (c_sock (w_conns w 0), sbuf (w_conns w 0), w_key w 0, w_cache w, 0 \<in> w_cache_locks w)"

lemma demo_read:
  "map_option (\<lambda>(r, w). (r, view_of w))
     (on_inner 0 (conn_read_response (demo_proxies 0) False True False) (demo_world demo_reply))
   = Some (Inr (PBytes ''x''), Some (0, []), Some (sb_init [RecvTimeout] None), Some demo_key, w_cache (demo_world []), False)"
  by code_simp

lemma demo_failed:
  "map_option (\<lambda>(r, w). (r, view_of w))
     (on_inner 0 (conn_read_response (demo_proxies 0) False True False) (demo_world demo_error))
   = Some (Inl (Exc ResponseError ''x''), Some (0, []), Some (sb_init [RecvTimeout] None), Some demo_key, w_cache (demo_world []), False)"
  by code_simp

lemma demo_cache_inv: "cache_inv (w_cache (demo_world reply))"
  by (auto simp: demo_world_def cache_inv_def demo_key_def is_cachable_def is_allowed_to_cache_def DEFAULT_ALLOW_LIST_def)

lemma demo_entry:
  "map_of (collection (w_cache (demo_world reply))) demo_key =
     Some \<lparr> cache_key = demo_key, cache_value = DUMMY_CACHE_VALUE, status = IN_PROGRESS, connection_ref = 0 \<rparr>"
  by (simp add: demo_world_def)

lemma can_read_nothing:
  assumes "c_sock (w_conns w i) \<noteq> None" "sbuf (w_conns w i) = Some (sb_init (RecvTimeout # evs) t)"
  obtains w' where "proxy_can_read E i w = Some (Inr False, w')" "w_cache w' = w_cache w" "w_cache_locks w' = w_cache_locks w"
  using assms
  by (auto simp: proxy_can_read_def on_inner_def conn_can_read_def conn.extend_def conn.truncate_def wconn.fields_def
      io_seq_def io_get_def io_bind_def io_try_def io_when_def io_ret_def lift_buf_def can_read_def unread_bytes_def
      sb_init_def read_from_socket_def Let_def)



text \<open>
  A reply that was stored answers every later command of the same name and the same \<open>keys\<close>, whatever its other
  arguments: nothing is sent, and the reply is that of the first command.  After \<open>HGET h f1\<close> the reply to
  \<open>HGET h f2\<close> is the value of \<open>f1\<close>, since the cache key holds the name and the keys only.
\<close>

theorem cached_reply_ignores_arguments:
  fixes E :: "nat \<Rightarrow> wenv"
  assumes reserved: "cached_response i w = Some (Inr None, w0)"
    and reply: "on_inner i (conn_read_response (E i) dd de pr) w0 = Some (Inr v, w1)" "v \<noteq> PNone"
    and entry: "w_key w1 i = Some (CacheKey cmd ks)" "entry_of w1 (CacheKey cmd ks) = Some e" "connection_ref e = i"
    and state: "i \<notin> w_cache_locks w1" "cache_inv (w_cache w1)"
  shows "\<exists>w2. proxy_read_response E i dd de pr w = Some (Inr v, w2) \<and>
    (\<forall>w3 rest dd' de' pr'. proxy_can_read E i w2 = Some (Inr False, w3) \<longrightarrow> w_cache w3 = w_cache w2
       \<longrightarrow> w_cache_locks w3 = w_cache_locks w2 \<longrightarrow>
       (\<exists>w4 w5. proxy_send_command E i cmd rest (Some ks) w2 = Some (Inr (), w4)
          \<and> proxy_read_response E i dd' de' pr' w4 = Some (Inr v, w5) \<and> w_conns w5 = w_conns w3))"
proof -
  let ?k = "CacheKey cmd ks"
  have cachable: "is_cachable (CacheKey cmd [])"
    using state(2) map_of_SomeD [OF entry(2)] by (auto simp: cache_inv_def is_cachable_def)
  obtain w2 where w2: "store_response i v w1 = Some (Inr (), w2)" "w_conns w2 = w_conns w1"
    "entry_of w2 = (entry_of w1)(?k \<mapsto> e\<lparr>status := VALID, cache_value := v\<rparr>)" "w_cache_locks w2 = w_cache_locks w1"
    using store_present [OF state(1) entry(1,2) reply(2) state(2)] by blast
  have "proxy_read_response E i dd de pr w = Some (Inr v, w2)"
    by (simp add: proxy_read_response_def reserved reply(1) w2(1) io_seq_def io_bind_def io_ret_def)
  moreover have "\<exists>w4 w5. proxy_send_command E i cmd rest (Some ks) w2 = Some (Inr (), w4)
      \<and> proxy_read_response E i dd' de' pr' w4 = Some (Inr v, w5) \<and> w_conns w5 = w_conns w3"
    if w3: "proxy_can_read E i w2 = Some (Inr False, w3)" "w_cache w3 = w_cache w2" "w_cache_locks w3 = w_cache_locks w2"
    for w3 rest dd' de' pr'
  proof -
    let ?e = "e\<lparr>status := VALID, cache_value := v\<rparr>"
    have e3: "i \<notin> w_cache_locks w3" "entry_of w3 ?k = Some ?e" "connection_ref ?e = i" using w3(2,3) w2(3,4) state(1) entry(3) by simp_all
    obtain w4 where w4: "proxy_send_command E i cmd rest (Some ks) w2 = Some (Inr (), w4)" "w_conns w4 = w_conns w3"
      "w_key w4 = (w_key w3)(i := Some ?k)" "entry_of w4 = entry_of w3" "w_cache_locks w4 = w_cache_locks w3"
      using send_hit [OF w3(1) e3(1) cachable e3(2,3)] by blast
    have h: "i \<notin> w_cache_locks w4" "w_key w4 i = Some ?k" "entry_of w4 ?k = Some ?e" "status ?e = VALID" using w4 e3 by simp_all
    obtain w5 where "proxy_read_response E i dd' de' pr' w4 = Some (Inr (cache_value ?e), w5)" "w_conns w5 = w_conns w4"
      using read_hit [OF h] by blast
    then show ?thesis using w4(1,2) by auto
  qed
  ultimately show ?thesis by blast
qed

theorem cached_reply_ignores_arguments_witness:
  "\<exists>w2 w4 w5. proxy_read_response demo_proxies 0 False True False (demo_world demo_reply) = Some (Inr (PBytes ''x''), w2)
     \<and> proxy_send_command demo_proxies 0 ''HGET'' [PStr ''h'', PStr ''f2''] (Some [PStr ''h'']) w2 = Some (Inr (), w4)
     \<and> proxy_read_response demo_proxies 0 False True False w4 = Some (Inr (PBytes ''x''), w5)"
proof -
  obtain w1 where w1: "on_inner 0 (conn_read_response (demo_proxies 0) False True False) (demo_world demo_reply) = Some (Inr (PBytes ''x''), w1)"
    "c_sock (w_conns w1 0) = Some (0, [])" "sbuf (w_conns w1 0) = Some (sb_init [RecvTimeout] None)" "w_key w1 0 = Some demo_key"
    "w_cache w1 = w_cache (demo_world [])" "0 \<notin> w_cache_locks w1"
    using demo_read by (auto simp: view_of_def)
  have k: "w_key w1 0 = Some (CacheKey ''HGET'' [PStr ''h''])" using w1(4) by (simp add: demo_key_def)
  have e: "entry_of w1 (CacheKey ''HGET'' [PStr ''h'']) =
      Some \<lparr> cache_key = demo_key, cache_value = DUMMY_CACHE_VALUE, status = IN_PROGRESS, connection_ref = 0 \<rparr>"
    using demo_entry [of "[]"] w1(5) by (simp add: demo_key_def)
  have inv: "cache_inv (w_cache w1)" using demo_cache_inv w1(5) by simp
  obtain w2 where w2: "store_response 0 (PBytes ''x'') w1 = Some (Inr (), w2)" "w_conns w2 = w_conns w1"
    using store_present [OF w1(6) k e _ inv, of "PBytes ''x''"] by blast
  have r: "proxy_read_response demo_proxies 0 False True False (demo_world demo_reply) = Some (Inr (PBytes ''x''), w2)"
    by (simp add: proxy_read_response_def demo_reserved w1(1) w2(1) io_seq_def io_bind_def io_ret_def)
  obtain w3 where w3: "proxy_can_read demo_proxies 0 w2 = Some (Inr False, w3)" "w_cache w3 = w_cache w2" "w_cache_locks w3 = w_cache_locks w2"
    using can_read_nothing [of w2 0 "[]" None demo_proxies] w1(2,3) w2(2) by auto
  from cached_reply_ignores_arguments [where E = demo_proxies, OF demo_reserved w1(1) _ k e _ w1(6) inv]
  have "\<exists>w4 w5. proxy_send_command demo_proxies 0 ''HGET'' [PStr ''h'', PStr ''f2''] (Some [PStr ''h'']) w2 = Some (Inr (), w4)
      \<and> proxy_read_response demo_proxies 0 False True False w4 = Some (Inr (PBytes ''x''), w5)"
    using r w3 by fastforce
  then show ?thesis using r by blast
qed

text \<open>
  C27: a reply that is an error leaves the reservation in the cache: the same command, sent again, is taken for one
  in progress, nothing is sent for it, and reading its reply waits on a connection that owes none.
\<close>

theorem error_reply_blocks_key:
  fixes E :: "nat \<Rightarrow> wenv"
  assumes reserved: "cached_response i w = Some (Inr None, w0)"
    and failed: "on_inner i (conn_read_response (E i) dd de pr) w0 = Some (Inl err, w1)"
    and entry: "entry_of w1 (CacheKey cmd ks) = Some e" "connection_ref e = i" "status e = IN_PROGRESS"
    and state: "i \<notin> w_cache_locks w1" "is_cachable (CacheKey cmd [])"
    and idle: "proxy_can_read E i w1 = Some (Inr False, w2)" "w_cache w2 = w_cache w1" "w_cache_locks w2 = w_cache_locks w1"
  shows "proxy_read_response E i dd de pr w = Some (Inl err, w1) \<and>
    (\<exists>w3 w4. proxy_send_command E i cmd rest (Some ks) w1 = Some (Inr (), w3) \<and> w_conns w3 = w_conns w2
      \<and> cached_response i w3 = Some (Inr None, w4) \<and> w_conns w4 = w_conns w2)"
proof -
  let ?k = "CacheKey cmd ks"
  have e: "i \<notin> w_cache_locks w2" "entry_of w2 ?k = Some e" using idle(2,3) state(1) entry(1) by simp_all
  obtain w3 where w3: "proxy_send_command E i cmd rest (Some ks) w1 = Some (Inr (), w3)" "w_conns w3 = w_conns w2"
    "w_key w3 = (w_key w2)(i := Some ?k)" "entry_of w3 = entry_of w2" "w_cache_locks w3 = w_cache_locks w2"
    using send_hit [OF idle(1) e(1) state(2) e(2) entry(2)] by blast
  have "cached_response i w3 = Some (Inr None, w3\<lparr>w_cache := touched ?k (touched ?k (w_cache w3))\<rparr>)"
    using w3 e entry(3)
    by (simp add: cached_response_def with_cache_lock_def io_get_def on_cache_get io_bind_def io_ret_def)
  moreover have "proxy_read_response E i dd de pr w = Some (Inl err, w1)"
    by (simp add: proxy_read_response_def reserved failed io_bind_def)
  ultimately show ?thesis using w3(1,2) by auto
qed

theorem error_reply_blocks_key_witness:
  "\<exists>w1 w3 w4. proxy_read_response demo_proxies 0 False True False (demo_world demo_error) = Some (Inl (Exc ResponseError ''x''), w1)
     \<and> proxy_send_command demo_proxies 0 ''HGET'' [PStr ''h'', PStr ''f''] (Some [PStr ''h'']) w1 = Some (Inr (), w3)
     \<and> cached_response 0 w3 = Some (Inr None, w4)"
proof -
  obtain w1 where w1: "on_inner 0 (conn_read_response (demo_proxies 0) False True False) (demo_world demo_error) = Some (Inl (Exc ResponseError ''x''), w1)"
    "c_sock (w_conns w1 0) = Some (0, [])" "sbuf (w_conns w1 0) = Some (sb_init [RecvTimeout] None)"
    "w_cache w1 = w_cache (demo_world [])" "0 \<notin> w_cache_locks w1"
    using demo_failed by (auto simp: view_of_def)
  have e: "entry_of w1 (CacheKey ''HGET'' [PStr ''h'']) =
      Some \<lparr> cache_key = demo_key, cache_value = DUMMY_CACHE_VALUE, status = IN_PROGRESS, connection_ref = 0 \<rparr>"
    using demo_entry [of "[]"] w1(4) by (simp add: demo_key_def)
  obtain w2 where w2: "proxy_can_read demo_proxies 0 w1 = Some (Inr False, w2)" "w_cache w2 = w_cache w1" "w_cache_locks w2 = w_cache_locks w1"
    using can_read_nothing [of w1 0 "[]" None demo_proxies] w1(2,3) by auto
  have c: "is_cachable (CacheKey ''HGET'' [])" by (simp add: is_cachable_def is_allowed_to_cache_def DEFAULT_ALLOW_LIST_def)
  from error_reply_blocks_key [where E = demo_proxies, OF demo_reserved w1(1) e _ _ w1(5) c w2, of "[PStr ''h'', PStr ''f'']"] show ?thesis by auto
qed

end
