(* ===== verification/Callbacks.thy ===== *)
theory Callbacks
  imports Pyops
begin

text \<open>
  The reply parsers of \<open>redis/_parsers/helpers.py\<close> and the tables that assign them to commands, for both
  protocols.  A parser gets the value the RESP parser returned and the options of the call; it may raise.

  Options are an association list from names to values; \<open>score_cast_func\<close>, the only option that is a function, is a
  separate field.  A parser that takes no options raises \<open>TypeError\<close> when it is given some.
\<close>

record cb_opts =
  opt_values :: "(string \<times> pyval) list"
  score_cast :: "(pyval \<Rightarrow> pyval res) option"

definition no_opts :: cb_opts where "no_opts = \<lparr> opt_values = [], score_cast = None \<rparr>"

text \<open>\<open>options.get(k)\<close> with a falsy default, and \<open>options[k]\<close>\<close>

definition opt :: "cb_opts \<Rightarrow> string \<Rightarrow> bool" where
  "opt opts k = (case map_of (opt_values opts) k of None \<Rightarrow> False | Some v \<Rightarrow> truthy v)"

definition opt_item :: "cb_opts \<Rightarrow> string \<Rightarrow> pyval res" where
  "opt_item opts k = (case map_of (opt_values opts) k of None \<Rightarrow> Inl (key_error k) | Some v \<Rightarrow> Inr v)"

type_synonym callback = "pylib \<Rightarrow> cb_opts \<Rightarrow> pyval \<Rightarrow> pyval res"

definition subscript :: "pyval \<Rightarrow> pyval \<Rightarrow> pyval res" where
  "subscript v k =
     (case v of
        PDict d \<Rightarrow> if \<not> hashable k then Inl (type_error k)
                   else (case dict_get d k of Some x \<Rightarrow> Inr x | None \<Rightarrow> Inl (key_error (type_name k)))
      | _ \<Rightarrow> (case k of PInt i \<Rightarrow> getitem v i | PBool b \<Rightarrow> getitem v (if b then 1 else 0) | _ \<Rightarrow> Inl (type_error v)))"

section \<open>Scalars\<close>

definition timestamp_to_datetime :: "pylib \<Rightarrow> pyval \<Rightarrow> pyval res" where
  "timestamp_to_datetime L r =
     (if \<not> truthy r then Inr PNone
      else case to_int L r of
        Inl e \<Rightarrow> if is_exc e PyValueError then Inr PNone else Inl e
      | Inr n \<Rightarrow> from_timestamp L n)"

definition bool_ok :: "pyval \<Rightarrow> pyval res" where
  "bool_ok r = Inr (PBool (str_if_bytes r = PStr ''OK''))"

definition float_or_none :: "pylib \<Rightarrow> pyval \<Rightarrow> pyval res" where
  "float_or_none L r = (if r = PNone then Inr PNone else to_float L r)"

definition parse_zadd :: callback where
  "parse_zadd L opts r =
     (if r = PNone then Inr PNone else if opt opts ''as_score'' then to_float L r else py_int_value L r)"

definition parse_client_kill :: "pyval \<Rightarrow> pyval res" where
  "parse_client_kill r =
     (case r of PInt _ \<Rightarrow> Inr r | PBool _ \<Rightarrow> Inr r | _ \<Rightarrow> Inr (PBool (str_if_bytes r = PStr ''OK'')))"

definition parse_set_result :: "cb_opts \<Rightarrow> pyval \<Rightarrow> pyval res" where
  "parse_set_result opts r =
     (if opt opts ''get'' then Inr r
      else if \<not> truthy r then Inr r
      else Inr (PBool (str_if_bytes r = PStr ''OK'')))"

section \<open>Pairs\<close>

definition pairs_to_dict :: "pyval \<Rightarrow> bool \<Rightarrow> bool \<Rightarrow> (pyval \<times> pyval) list res" where
  "pairs_to_dict r decode_keys decode_string_values =
     (if r = PNone then Inr []
      else if decode_keys \<or> decode_string_values
      then res_bind (elements r) (\<lambda>xs. dict_of
             (map (\<lambda>(k, v). (if decode_keys then str_if_bytes k else k, if decode_string_values then str_if_bytes v else v))
               (pairs xs)))
      else res_bind (iterate r) (\<lambda>xs. dict_of (pairs xs)))"

definition dict_value :: "(pyval \<times> pyval) list res \<Rightarrow> pyval res" where
  "dict_value = res_map PDict"

text \<open>\<open>{str_if_bytes(k): f(v) for k, v in r.items()}\<close>\<close>

definition map_items :: "(pyval \<Rightarrow> pyval) \<Rightarrow> pyval \<Rightarrow> (pyval \<times> pyval) list res" where
  "map_items f r = res_bind (items_of r) (\<lambda>d. dict_of (map (\<lambda>(k, v). (str_if_bytes k, f v)) d))"

definition pairs_to_dict_typed :: "pylib \<Rightarrow> string list \<Rightarrow> pyval list \<Rightarrow> (pyval \<times> pyval) list res" where
  "pairs_to_dict_typed L int_keys xs =
     res_fold (\<lambda>d (k, v). set_item d
        (k, if k \<in> PStr ` set int_keys then (case to_int L v of Inl _ \<Rightarrow> v | Inr n \<Rightarrow> PInt n) else v)) [] (pairs xs)"

definition cast_of :: "pylib \<Rightarrow> cb_opts \<Rightarrow> pyval \<Rightarrow> pyval res" where
  "cast_of L opts = (case score_cast opts of None \<Rightarrow> to_float L | Some f \<Rightarrow> f)"

text \<open>\<open>list(zip(it, map(f, it)))\<close>\<close>

definition scored :: "(pyval \<Rightarrow> pyval res) \<Rightarrow> pyval list \<Rightarrow> pyval res" where
  "scored f xs = res_map PList (traverse (\<lambda>(m, s). res_map (\<lambda>s'. PTuple [m, s']) (f s)) (pairs xs))"

definition zset_score_pairs :: callback where
  "zset_score_pairs L opts r =
     (if \<not> truthy r \<or> \<not> opt opts ''withscores'' then Inr r
      else res_bind (iterate r) (scored (cast_of L opts)))"

text \<open>\<open>xs[i::n]\<close> and \<open>zip(*lists)\<close>\<close>

definition stride :: "nat \<Rightarrow> nat \<Rightarrow> 'a list \<Rightarrow> 'a list" where
  "stride i n xs = map (\<lambda>j. xs ! j) (filter (\<lambda>j. i \<le> j \<and> n dvd (j - i)) [0..<length xs])"

function zip_star :: "'a list list \<Rightarrow> 'a list list" where
  "zip_star xss = (if xss = [] \<or> [] \<in> set xss then [] else map hd xss # zip_star (map tl xss))"
  by pat_completeness auto
termination
  by (relation "measure (\<lambda>xss. length (hd xss))") (auto simp: hd_map neq_Nil_conv)

declare zip_star.simps [simp del]

definition sort_return_tuples :: "cb_opts \<Rightarrow> pyval \<Rightarrow> pyval res" where
  "sort_return_tuples opts r =
     (if \<not> truthy r \<or> \<not> opt opts ''groups'' then Inr r
      else res_bind (opt_item opts ''groups'') (\<lambda>g.
        case (case g of PInt n \<Rightarrow> Some n | PBool b \<Rightarrow> Some (if b then 1 else 0) | _ \<Rightarrow> None) of
          None \<Rightarrow> Inl (type_error g)
        | Some n \<Rightarrow>
            if n \<le> 0 then Inr (PList [])
            else res_bind (elements r) (\<lambda>xs.
              Inr (PList (map PTuple (zip_star (map (\<lambda>i. stride i (nat n) xs) [0..<nat n])))))))"

section \<open>Server information\<close>

definition parse_debug_object :: "pylib \<Rightarrow> pyval \<Rightarrow> pyval res" where
  "parse_debug_object L r =
     (case str_if_bytes r of
        PStr s \<Rightarrow>
          res_bind (str_dict (split_on CHR '':'') (str_words (''type:'' @ s))) (\<lambda>d.
          dict_value (res_fold (\<lambda>d f.
            case dict_get d (PStr f) of None \<Rightarrow> Inr d | Some v \<Rightarrow> res_map (\<lambda>n. put d f n) (py_int_value L v))
            d [''refcount'', ''serializedlength'', ''lru'', ''lru_seconds_idle'']))
      | v \<Rightarrow> Inl (type_error v))"

text \<open>\<open>get_value\<close> of \<open>parse_info\<close> calls itself on pieces without comma and equals sign only: \<open>info_scalar\<close>.\<close>

definition info_scalar :: "pylib \<Rightarrow> string \<Rightarrow> pyval res" where
  "info_scalar L s =
     (let r = (if CHR ''.'' \<in> set s then to_float L (PStr s) else py_int_value L (PStr s)) in
      case r of Inr v \<Rightarrow> Inr v | Inl e \<Rightarrow> if is_exc e PyValueError then Inr (PStr s) else Inl e)"

definition get_value :: "pylib \<Rightarrow> string \<Rightarrow> pyval res" where
  "get_value L s =
     (if CHR '','' \<notin> set s \<and> CHR ''='' \<notin> set s then info_scalar L s
      else if CHR ''='' \<notin> set s
      then res_map PList (traverse (info_scalar L) (filter (\<lambda>v. v \<noteq> []) (split_on CHR '','' s)))
      else dict_value (res_fold (\<lambda>d item.
             if CHR ''='' \<in> set item
             then (case rsplit1 CHR ''='' item of
                     [k, v] \<Rightarrow> res_map (\<lambda>x. put d k x) (info_scalar L v)
                   | _ \<Rightarrow> Inl unpack_error)
             else Inr (put d item (PBool True)))
             [] (filter (\<lambda>v. v \<noteq> []) (split_on CHR '','' s))))"

text \<open>\<open>info.setdefault(k, []).append(v)\<close>\<close>

definition append_to :: "(pyval \<times> pyval) list \<Rightarrow> string \<Rightarrow> pyval \<Rightarrow> (pyval \<times> pyval) list res" where
  "append_to d k v =
     (case dict_get d (PStr k) of
        None \<Rightarrow> Inr (put d k (PList [v]))
      | Some (PList xs) \<Rightarrow> Inr (put d k (PList (xs @ [v])))
      | Some w \<Rightarrow> Inl (attr_error w))"

definition info_line :: "pylib \<Rightarrow> (pyval \<times> pyval) list \<Rightarrow> string \<Rightarrow> (pyval \<times> pyval) list res" where
  "info_line L info line =
     (if line = [] \<or> starts_with line ''#'' then Inr info
      else case split1 '':'' line of
        [k0, v0] \<Rightarrow>
          res_bind (if k0 = ''cmdstat_host'' then pair_of (rsplit1 CHR '':'' line) else Inr (k0, v0)) (\<lambda>(key, value).
          res_bind (get_value L value) (\<lambda>v.
            if key = ''module'' then append_to info ''modules'' v else Inr (put info key v)))
      | _ \<Rightarrow> append_to info ''__raw__'' (PStr line))"

definition parse_info :: "pylib \<Rightarrow> pyval \<Rightarrow> pyval res" where
  "parse_info L r =
     res_bind (as_str (str_if_bytes r)) (\<lambda>s. dict_value (res_fold (info_line L) [] (str_splitlines s)))"

definition parse_memory_stats :: "pyval \<Rightarrow> pyval res" where
  "parse_memory_stats r =
     res_bind (pairs_to_dict r True True) (\<lambda>stats.
     res_map PDict (traverse (\<lambda>(k, v).
       res_bind (as_str k) (\<lambda>s.
         if starts_with s ''db.'' \<and> is_list v then res_map (\<lambda>d. (k, PDict d)) (pairs_to_dict v True True) else Inr (k, v)))
       stats))"

definition parse_client_info :: "pylib \<Rightarrow> pyval \<Rightarrow> pyval res" where
  "parse_client_info L value =
     res_bind (as_str (str_if_bytes value)) (\<lambda>s.
     res_bind (str_dict (split_on CHR ''='') (str_words s)) (\<lambda>info.
     dict_value (res_fold (\<lambda>d k. res_bind (lookup d k) (\<lambda>v. res_map (\<lambda>n. put d k n) (py_int_value L v))) info
       [''id'', ''age'', ''idle'', ''db'', ''sub'', ''psub'', ''multi'', ''qbuf'', ''qbuf-free'', ''obl'', ''argv-mem'',
        ''oll'', ''omem'', ''tot-mem''])))"

definition parse_client_list :: "pyval \<Rightarrow> pyval res" where
  "parse_client_list r =
     res_bind (as_str (str_if_bytes r)) (\<lambda>s.
     res_map PList (traverse (\<lambda>c. dict_value (str_dict (split1 ''='') (split_on CHR '' '' c))) (str_splitlines s)))"

definition parse_config_get :: "pyval \<Rightarrow> pyval res" where
  "parse_config_get r =
     res_bind (iterate r) (\<lambda>xs. dict_value (pairs_to_dict (PList (map str_if_bytes xs)) False False))"

text \<open>\<open>space.join(xs)\<close>\<close>

definition join_values :: "bool \<Rightarrow> pyval list \<Rightarrow> pyval res" where
  "join_values text xs =
     (if text then res_map (\<lambda>ss. PStr (join '' '' ss)) (traverse (\<lambda>x. case x of PStr s \<Rightarrow> Inr s | _ \<Rightarrow> Inl (type_error x)) xs)
      else res_map (\<lambda>ss. PBytes (join '' '' ss)) (traverse (\<lambda>x. case x of PBytes s \<Rightarrow> Inr s | _ \<Rightarrow> Inl (type_error x)) xs))"

definition slowlog_item :: "pylib \<Rightarrow> bool \<Rightarrow> pyval \<Rightarrow> pyval res" where
  "slowlog_item L text item =
     res_bind (getitem item 0) (\<lambda>i.
     res_bind (res_bind (getitem item 1) (py_int_value L)) (\<lambda>start.
     res_bind (res_bind (getitem item 2) (py_int_value L)) (\<lambda>dur.
     res_bind (getitem item 3) (\<lambda>x3.
     let result = [(''id'', i), (''start_time'', start), (''duration'', dur)] in
     if is_list x3
     then res_bind (res_bind (iterate x3) (join_values text)) (\<lambda>cmd.
          res_bind (py_len item) (\<lambda>n.
            if n \<ge> 6
            then res_bind (getitem item 4) (\<lambda>a. res_bind (getitem item 5) (\<lambda>b.
              Inr (obj (result @ [(''command'', cmd), (''client_address'', a), (''client_name'', b)]))))
            else Inr (obj (result @ [(''command'', cmd)]))))
     else res_bind (res_bind (getitem item 4) (\<lambda>x4. res_bind (iterate x4) (join_values text))) (\<lambda>cmd.
          res_bind (py_len item) (\<lambda>n.
            if n \<ge> 7
            then res_bind (getitem item 5) (\<lambda>a. res_bind (getitem item 6) (\<lambda>b.
              Inr (obj (result @ [(''complexity'', x3), (''command'', cmd), (''client_address'', a), (''client_name'', b)]))))
            else Inr (obj (result @ [(''complexity'', x3), (''command'', cmd)]))))))))"

definition parse_slowlog_get :: callback where
  "parse_slowlog_get L opts r =
     res_bind (iterate r) (\<lambda>xs. res_map PList (traverse (slowlog_item L (opt opts ''decode_responses'')) xs))"

section \<open>Sentinel\<close>

definition SENTINEL_STATE_TYPES :: "string list" where
  "SENTINEL_STATE_TYPES =
     [''can-failover-its-master'', ''config-epoch'', ''down-after-milliseconds'', ''failover-timeout'', ''info-refresh'',
      ''last-hello-message'', ''last-ok-ping-reply'', ''last-ping-reply'', ''last-ping-sent'', ''master-link-down-time'',
      ''master-port'', ''num-other-sentinels'', ''num-slaves'', ''o-down-time'', ''pending-commands'', ''parallel-syncs'',
      ''port'', ''quorum'', ''role-reported-time'', ''s-down-time'', ''slave-priority'', ''slave-repl-offset'',
      ''voted-leader-epoch'']"

definition sentinel_flags :: "(string \<times> string) list" where
  "sentinel_flags =
     [(''is_master'', ''master''), (''is_slave'', ''slave''), (''is_sdown'', ''s_down''), (''is_odown'', ''o_down''),
      (''is_sentinel'', ''sentinel''), (''is_disconnected'', ''disconnected''), (''is_master_down'', ''master_down'')]"

definition parse_sentinel_state :: "pylib \<Rightarrow> pyval list \<Rightarrow> (pyval \<times> pyval) list res" where
  "parse_sentinel_state L item =
     res_bind (pairs_to_dict_typed L SENTINEL_STATE_TYPES item) (\<lambda>result.
     res_bind (res_bind (lookup result ''flags'') as_str) (\<lambda>fs.
       Inr (fold (\<lambda>(name, flag) d. put d name (PBool (flag \<in> set (split_on CHR '','' fs)))) sentinel_flags result)))"

definition parse_sentinel_master :: "pylib \<Rightarrow> pyval \<Rightarrow> pyval res" where
  "parse_sentinel_master L r =
     res_bind (iterate r) (\<lambda>xs. dict_value (parse_sentinel_state L (map str_if_bytes xs)))"

definition parse_sentinel_state_resp3 :: "pylib \<Rightarrow> pyval \<Rightarrow> pyval res" where
  "parse_sentinel_state_resp3 L r =
     res_bind (iterate r) (\<lambda>ks.
     res_bind (res_fold (\<lambda>d k.
         case (if k \<in> PStr ` set SENTINEL_STATE_TYPES
               then res_bind (subscript r k) (\<lambda>v. py_int_value L (str_if_bytes v))
               else Inl (key_error [])) of
           Inr v \<Rightarrow> set_item d (str_if_bytes k, v)
         | Inl _ \<Rightarrow> res_bind (subscript r (str_if_bytes k)) (\<lambda>v. set_item d (str_if_bytes k, v))) [] ks) (\<lambda>result.
     res_bind (res_bind (lookup result ''flags'') as_str) (\<lambda>fs.
       Inr (PDict (put result ''flags'' (PSet (map PStr (rev (remdups (rev (split_on CHR '','' fs)))))))))))"

definition parse_sentinel_masters :: "pylib \<Rightarrow> pyval \<Rightarrow> pyval res" where
  "parse_sentinel_masters L r =
     res_bind (iterate r) (\<lambda>items.
     dict_value (res_fold (\<lambda>d item.
       res_bind (iterate item) (\<lambda>xs.
       res_bind (parse_sentinel_state L (map str_if_bytes xs)) (\<lambda>state.
       res_bind (lookup state ''name'') (\<lambda>name. set_item d (name, PDict state))))) [] items))"

definition parse_sentinel_masters_resp3 :: "pylib \<Rightarrow> pyval \<Rightarrow> pyval res" where
  "parse_sentinel_masters_resp3 L r =
     res_bind (iterate r) (\<lambda>ms. res_map PList (traverse (\<lambda>m.
       res_bind (iterate m) (\<lambda>xs. dict_value (parse_sentinel_state L xs))) ms))"

definition parse_sentinel_slaves_and_sentinels :: "pylib \<Rightarrow> pyval \<Rightarrow> pyval res" where
  "parse_sentinel_slaves_and_sentinels L r =
     res_bind (iterate r) (\<lambda>items. res_map PList (traverse (\<lambda>item.
       res_bind (iterate item) (\<lambda>xs. dict_value (parse_sentinel_state L (map str_if_bytes xs)))) items))"

definition parse_sentinel_slaves_and_sentinels_resp3 :: "pylib \<Rightarrow> pyval \<Rightarrow> pyval res" where
  "parse_sentinel_slaves_and_sentinels_resp3 L r =
     res_bind (iterate r) (\<lambda>items. res_map PList (traverse (parse_sentinel_state_resp3 L) items))"

definition parse_sentinel_get_master :: "pylib \<Rightarrow> pyval \<Rightarrow> pyval res" where
  "parse_sentinel_get_master L r =
     (if \<not> truthy r then Inr PNone
      else res_bind (getitem r 0) (\<lambda>h. res_bind (res_bind (getitem r 1) (py_int_value L)) (\<lambda>p. Inr (PTuple [h, p]))))"

section \<open>Streams\<close>

definition parse_stream_list :: "pyval \<Rightarrow> pyval res" where
  "parse_stream_list r =
     (if r = PNone then Inr PNone
      else res_bind (iterate r) (\<lambda>xs. res_map PList (traverse (\<lambda>x.
        if x = PNone then Inr (PTuple [PNone, PNone])
        else res_bind (getitem x 0) (\<lambda>i. res_bind (getitem x 1) (\<lambda>fs.
          res_map (\<lambda>d. PTuple [i, PDict d]) (pairs_to_dict fs False False)))) xs)))"

definition pairs_to_dict_with_str_keys :: "pyval \<Rightarrow> pyval res" where
  "pairs_to_dict_with_str_keys r = dict_value (pairs_to_dict r True False)"

definition parse_list_of_dicts :: "pyval \<Rightarrow> pyval res" where
  "parse_list_of_dicts r = res_bind (iterate r) (\<lambda>xs. res_map PList (traverse pairs_to_dict_with_str_keys xs))"

definition parse_xclaim :: "cb_opts \<Rightarrow> pyval \<Rightarrow> pyval res" where
  "parse_xclaim opts r = (if opt opts ''parse_justid'' then Inr r else parse_stream_list r)"

text \<open>\<open>response[1] = ...\<close> needs a list with a second element.\<close>

definition parse_xautoclaim :: "cb_opts \<Rightarrow> pyval \<Rightarrow> pyval res" where
  "parse_xautoclaim opts r =
     (if opt opts ''parse_justid'' then getitem r 1
      else res_bind (getitem r 1) (\<lambda>x. res_bind (parse_stream_list x) (\<lambda>y.
        case r of PList xs \<Rightarrow> Inr (PList (xs[1 := y])) | _ \<Rightarrow> Inl (type_error r))))"

definition xinfo_entry :: "pyval \<Rightarrow> pyval option res" where
  "xinfo_entry e =
     (if e = PNone then Inr None
      else res_bind (getitem e 0) (\<lambda>i.
        if i = PNone then Inr None
        else res_bind (getitem e 1) (\<lambda>fs. res_map (\<lambda>d. Some (PTuple [i, PDict d])) (pairs_to_dict fs False False))))"

definition xinfo_consumers :: "(pyval \<times> pyval) list \<Rightarrow> (pyval \<times> pyval) list res" where
  "xinfo_consumers g =
     res_bind (lookup g ''consumers'') (\<lambda>cs.
       if \<not> truthy cs then Inr g
       else res_bind (getitem cs 0) (\<lambda>c0.
         if c0 = PNone then Inr g
         else res_bind (iterate cs) (\<lambda>xs. res_map (\<lambda>ds. put g ''consumers'' (PList ds)) (traverse pairs_to_dict_with_str_keys xs))))"

definition xinfo_full :: "(pyval \<times> pyval) list \<Rightarrow> (pyval \<times> pyval) list res" where
  "xinfo_full data =
     res_bind (res_bind (lookup data ''entries'') iterate) (\<lambda>es.
     res_bind (res_fold (\<lambda>d e. res_bind (unpack2 e) (\<lambda>(i, fs).
         res_bind (pairs_to_dict fs False False) (\<lambda>m. set_item d (i, PDict m)))) [] es) (\<lambda>entries.
     let data1 = put data ''entries'' (PDict entries) in
     res_bind (lookup data1 ''groups'') (\<lambda>groups.
     res_bind (py_len groups) (\<lambda>n.
     res_bind (if n > 0 then res_map is_list (getitem groups 0) else Inr False) (\<lambda>lists.
     res_bind (iterate groups) (\<lambda>gs.
       if lists
       then res_bind (traverse (\<lambda>g. pairs_to_dict g True False) gs) (\<lambda>ds.
            res_map (\<lambda>ds. put data1 ''groups'' (PList ds)) (traverse (\<lambda>d. dict_value (xinfo_consumers d)) ds))
       else res_map (\<lambda>ds. put data1 ''groups'' (PList ds)) (traverse (\<lambda>g. dict_value (map_items id g)) gs)))))))"

definition parse_xinfo_stream :: "cb_opts \<Rightarrow> pyval \<Rightarrow> pyval res" where
  "parse_xinfo_stream opts r =
     res_bind (if is_list r then pairs_to_dict r True False else map_items id r) (\<lambda>data.
     dict_value
       (if \<not> opt opts ''full''
        then res_bind (xinfo_entry (case dict_get data (PStr ''first-entry'') of None \<Rightarrow> PNone | Some v \<Rightarrow> v)) (\<lambda>first.
             let data1 = (case first of None \<Rightarrow> data | Some v \<Rightarrow> put data ''first-entry'' v) in
             res_bind (res_bind (lookup data1 ''last-entry'') xinfo_entry) (\<lambda>last.
               Inr (case last of None \<Rightarrow> data1 | Some v \<Rightarrow> put data1 ''last-entry'' v)))
        else xinfo_full data))"

definition parse_xread :: "pyval \<Rightarrow> pyval res" where
  "parse_xread r =
     (if r = PNone then Inr (PList [])
      else res_bind (iterate r) (\<lambda>xs. res_map PList (traverse (\<lambda>x.
        res_bind (getitem x 0) (\<lambda>k. res_bind (res_bind (getitem x 1) parse_stream_list) (\<lambda>es. Inr (PList [k, es])))) xs)))"

definition parse_xread_resp3 :: "pyval \<Rightarrow> pyval res" where
  "parse_xread_resp3 r =
     (if r = PNone then Inr (PDict [])
      else res_bind (items_of r) (\<lambda>d. dict_value (res_fold (\<lambda>acc (k, v).
        res_bind (parse_stream_list v) (\<lambda>es. set_item acc (k, PList [es]))) [] d)))"

definition parse_xpending_range :: "pyval \<Rightarrow> pyval res" where
  "parse_xpending_range r =
     res_bind (iterate r) (\<lambda>xs. res_map PList (traverse (\<lambda>x.
       res_bind (iterate x) (\<lambda>vs.
         Inr (obj (zip [''message_id'', ''consumer'', ''time_since_delivered'', ''times_delivered''] vs)))) xs))"

definition parse_xpending :: callback where
  "parse_xpending L opts r =
     (if opt opts ''parse_detail'' then parse_xpending_range r
      else res_bind (getitem r 3) (\<lambda>cs.
           res_bind (if truthy cs then iterate cs else Inr []) (\<lambda>xs.
           res_bind (traverse (\<lambda>x. res_bind (unpack2 x) (\<lambda>(n, p).
             res_map (\<lambda>i. obj [(''name'', n), (''pending'', i)]) (py_int_value L p))) xs) (\<lambda>consumers.
           res_bind (getitem r 0) (\<lambda>a. res_bind (getitem r 1) (\<lambda>b. res_bind (getitem r 2) (\<lambda>c.
             Inr (obj [(''pending'', a), (''min'', b), (''max'', c), (''consumers'', PList consumers)]))))))))"

section \<open>Scanning\<close>

definition parse_scan :: "pylib \<Rightarrow> pyval \<Rightarrow> pyval res" where
  "parse_scan L r = res_bind (unpack2 r) (\<lambda>(c, x). res_map (\<lambda>n. PTuple [n, x]) (py_int_value L c))"

definition parse_hscan :: callback where
  "parse_hscan L opts r =
     res_bind (unpack2 r) (\<lambda>(c, x).
     res_bind (if opt opts ''no_values'' then Inr (if truthy x then x else PList [])
               else if truthy x then dict_value (pairs_to_dict x False False) else Inr (PDict [])) (\<lambda>payload.
     res_map (\<lambda>n. PTuple [n, payload]) (py_int_value L c)))"

definition parse_zscan :: callback where
  "parse_zscan L opts r =
     res_bind (unpack2 r) (\<lambda>(c, x).
     res_bind (iterate x) (\<lambda>xs.
     res_bind (py_int_value L c) (\<lambda>n. res_map (\<lambda>l. PTuple [n, l]) (scored (cast_of L opts) xs))))"

definition parse_zmscore :: "pylib \<Rightarrow> pyval \<Rightarrow> pyval res" where
  "parse_zmscore L r = res_bind (iterate r) (\<lambda>xs. res_map PList (traverse (float_or_none L) xs))"

section \<open>Cluster\<close>

definition parse_cluster_info :: "pyval \<Rightarrow> pyval res" where
  "parse_cluster_info r =
     res_bind (as_str (str_if_bytes r)) (\<lambda>s.
       dict_value (str_dict (split_on CHR '':'') (filter (\<lambda>l. l \<noteq> []) (str_splitlines s))))"

text \<open>\<open>s[1:-1]\<close>\<close>

definition trim1 :: "string \<Rightarrow> string" where
  "trim1 s = butlast (tl s)"

text \<open>The slots and the migrations of a node, the latter as slot, node and state.\<close>

definition migration :: "string \<Rightarrow> string \<times> string \<Rightarrow> pyval" where
  "migration state m = obj [(''slot'', PStr (fst m)), (''node_id'', PStr (snd m)), (''state'', PStr state)]"

definition slot_step :: "pyval list \<times> pyval list \<Rightarrow> string \<Rightarrow> (pyval list \<times> pyval list) res" where
  "slot_step acc s =
     (let (slots, migrations) = acc in
      if contains s ''->-''
      then res_map (\<lambda>m. (slots, migrations @ [migration ''migrating'' m])) (pair_of (split1 ''->-'' (trim1 s)))
      else if contains s ''-<-''
      then res_map (\<lambda>m. (slots, migrations @ [migration ''importing'' m])) (pair_of (split1 ''-<-'' (trim1 s)))
      else Inr (slots @ [PList (map PStr (split_on CHR ''-'' s))], migrations))"

definition parse_slots :: "string list \<Rightarrow> (pyval list \<times> pyval list) res" where
  "parse_slots slot_ranges = res_fold slot_step ([], []) slot_ranges"

definition node_hostname :: "string \<Rightarrow> string res" where
  "node_hostname addr =
     (if CHR ''@'' \<in> set addr \<and> CHR '','' \<in> set addr
      then res_bind (nth_item (split_on CHR ''@'' addr) 1) (\<lambda>rest. nth_item (split_on CHR '','' rest) 1)
      else Inr [])"

definition parse_node_line :: "string \<Rightarrow> (pyval \<times> pyval) res" where
  "parse_node_line line =
     (let line_items = split_on CHR '' '' line in
      case take 8 line_items of
        [node_id, addr, flags, master_id, ping, pong, epoch, connected] \<Rightarrow>
          res_bind (nth_item (split_on CHR ''@'' addr) 0) (\<lambda>ip.
          res_bind (node_hostname addr) (\<lambda>hostname.
          res_bind (if length line_items \<ge> 9 then parse_slots (drop 8 line_items) else Inr ([], [])) (\<lambda>(slots, migrations).
            Inr (PStr ip,
              obj [(''node_id'', PStr node_id), (''hostname'', PStr hostname), (''flags'', PStr flags),
                   (''master_id'', PStr master_id), (''last_ping_sent'', PStr ping), (''last_pong_rcvd'', PStr pong),
                   (''epoch'', PStr epoch), (''slots'', PList slots), (''migrations'', PList migrations),
                   (''connected'', PBool (connected = ''connected''))]))))
      | _ \<Rightarrow> Inl unpack_error)"

definition parse_cluster_nodes :: "pyval \<Rightarrow> pyval res" where
  "parse_cluster_nodes r =
     res_bind (case r of
         PStr s \<Rightarrow> Inr (map PStr (str_splitlines s))
       | PBytes b \<Rightarrow> Inr (map PBytes (bytes_splitlines b))
       | _ \<Rightarrow> iterate r) (\<lambda>nodes.
     res_bind (traverse (\<lambda>n. res_bind (as_str (str_if_bytes n)) parse_node_line) nodes) (\<lambda>kvs. dict_value (dict_of kvs)))"

section \<open>Geo, commands, users\<close>

text \<open>\<open>fv[0](fv[1])\<close> for the casts that apply, in order; \<open>zip\<close> stops at the shorter one.\<close>

definition geo_coord :: "pylib \<Rightarrow> pyval \<Rightarrow> pyval res" where
  "geo_coord L ll =
     res_bind (res_bind (getitem ll 0) (to_float L)) (\<lambda>a.
     res_bind (res_bind (getitem ll 1) (to_float L)) (\<lambda>b. Inr (PTuple [a, b])))"

definition parse_geosearch_generic :: callback where
  "parse_geosearch_generic L opts r =
     (case map_of (opt_values opts) ''store'' of
        None \<Rightarrow> Inr r
      | Some st \<Rightarrow>
          if truthy st then Inr r
          else case map_of (opt_values opts) ''store_dist'' of
            None \<Rightarrow> Inr r
          | Some sd \<Rightarrow>
              if truthy sd then Inr r
              else let rs = (case r of PList xs \<Rightarrow> xs | _ \<Rightarrow> [r]) in
                res_bind (opt_item opts ''withdist'') (\<lambda>wd.
                res_bind (if truthy wd then Inr PNone else opt_item opts ''withcoord'') (\<lambda>wc.
                res_bind (if truthy wd \<or> truthy wc then Inr PNone else opt_item opts ''withhash'') (\<lambda>wh.
                if \<not> truthy wd \<and> \<not> truthy wc \<and> \<not> truthy wh then Inr (PList rs)
                else res_bind (opt_item opts ''withhash'') (\<lambda>h.
                  res_bind (opt_item opts ''withcoord'') (\<lambda>c.
                    let f = [Inr] @ (if truthy wd then [to_float L] else []) @ (if truthy h then [py_int_value L] else [])
                          @ (if truthy c then [geo_coord L] else []) in
                    res_map PList (traverse (\<lambda>x.
                      res_bind (iterate x) (\<lambda>vs. res_map PList (traverse (\<lambda>(g, v). g v) (zip f vs)))) rs)))))))"

definition command_details :: "pyval \<Rightarrow> (string \<times> pyval) list res" where
  "command_details command =
     res_bind (py_len command) (\<lambda>n.
       if n > 7
       then res_bind (getitem command 7) (\<lambda>a. res_bind (getitem command 8) (\<lambda>b. res_bind (getitem command 9) (\<lambda>c.
              Inr [(''tips'', a), (''key_specifications'', b), (''subcommands'', c)])))
       else Inr [])"

definition command_entry :: "pylib \<Rightarrow> bool \<Rightarrow> pyval \<Rightarrow> (pyval \<times> pyval) res" where
  "command_entry L resp3 command =
     res_bind (res_map str_if_bytes (getitem command 0)) (\<lambda>name.
     res_bind (res_bind (getitem command 1) (if resp3 then Inr else py_int_value L)) (\<lambda>arity.
     res_bind (res_bind (getitem command 2) iterate) (\<lambda>fs.
     res_bind (if resp3 then res_map PSet (set_of (map str_if_bytes fs)) else Inr (PList (map str_if_bytes fs))) (\<lambda>flags.
     res_bind (getitem command 3) (\<lambda>a. res_bind (getitem command 4) (\<lambda>b. res_bind (getitem command 5) (\<lambda>c.
     res_bind (if resp3 then res_map (\<lambda>x. [(''acl_categories'', x)]) (getitem command 6) else Inr []) (\<lambda>cats.
     res_bind (command_details command) (\<lambda>more.
       Inr (name, obj ([(''name'', name), (''arity'', arity), (''flags'', flags), (''first_key_pos'', a), (''last_key_pos'', b),
                        (''step_count'', c)] @ cats @ more)))))))))))"

definition parse_command :: "pylib \<Rightarrow> pyval \<Rightarrow> pyval res" where
  "parse_command L r =
     res_bind (iterate r) (\<lambda>cs. dict_value (res_fold (\<lambda>d c. res_bind (command_entry L False c) (set_item d)) [] cs))"

definition parse_command_resp3 :: "pylib \<Rightarrow> pyval \<Rightarrow> pyval res" where
  "parse_command_resp3 L r =
     res_bind (iterate r) (\<lambda>cs. dict_value (res_fold (\<lambda>d c. res_bind (command_entry L True c) (set_item d)) [] cs))"

definition parse_pubsub_numsub :: "pyval \<Rightarrow> pyval res" where
  "parse_pubsub_numsub r = res_bind (elements r) (\<lambda>xs. Inr (PList (map (\<lambda>(a, b). PTuple [a, b]) (pairs xs))))"

text \<open>The text of \<open>keys\<close> or \<open>channels\<close> is split at spaces, and the single empty string is no element.\<close>

definition acl_patterns :: "pyval \<Rightarrow> pyval res" where
  "acl_patterns v =
     res_bind (if is_text v then res_map (\<lambda>s. PList (map PStr (split_on CHR '' '' s))) (as_str (str_if_bytes v)) else Inr v) (\<lambda>w.
       Inr (if w = PList [PStr []] then PList [] else w))"

definition acl_selectors :: "pyval \<Rightarrow> pyval res" where
  "acl_selectors v =
     (if v = PList [] then Inr v
      else res_bind (getitem v 0) (\<lambda>s0.
        res_bind (iterate v) (\<lambda>ss.
        res_map PList
          (if is_list s0
           then traverse (\<lambda>s. res_map (\<lambda>xs. PList (map str_if_bytes xs)) (iterate s)) ss
           else traverse (\<lambda>s. dict_value (map_items str_if_bytes s)) ss))))"

definition parse_acl_getuser :: "pyval \<Rightarrow> pyval res" where
  "parse_acl_getuser r =
     (if r = PNone then Inr PNone
      else
        res_bind (if is_list r then pairs_to_dict r True False else map_items id r) (\<lambda>data.
        res_bind (res_bind (lookup data ''flags'') iterate) (\<lambda>fl.
        let flags = map str_if_bytes fl; data1 = put data ''flags'' (PList flags) in
        res_bind (res_bind (lookup data1 ''passwords'') iterate) (\<lambda>pw.
        let data2 = put data1 ''passwords'' (PList (map str_if_bytes pw)) in
        res_bind (res_map str_if_bytes (lookup data2 ''commands'')) (\<lambda>cmds.
        let data3 = put data2 ''commands'' cmds in
        res_bind (res_bind (lookup data3 ''keys'') acl_patterns) (\<lambda>ks.
        let data4 = put data3 ''keys'' ks in
        res_bind (if has_key data4 ''channels'' then res_map (\<lambda>v. put data4 ''channels'' v) (res_bind (lookup data4 ''channels'') acl_patterns) else Inr data4) (\<lambda>data5.
        res_bind (if has_key data5 ''selectors'' then res_map (\<lambda>v. put data5 ''selectors'' v) (res_bind (lookup data5 ''selectors'') acl_selectors) else Inr data5) (\<lambda>data6.
        res_bind (res_bind (lookup data6 ''commands'') as_str) (\<lambda>cs.
        let words = split_on CHR '' '' cs in
          Inr (PDict (put (put (put data6 ''commands'' (PList (map PStr (filter (\<lambda>c. CHR ''@'' \<notin> set c) words))))
                        ''categories'' (PList (map PStr (filter (\<lambda>c. CHR ''@'' \<in> set c) words))))
                      ''enabled'' (PBool (PStr ''on'' \<in> set flags)))))))))))))"

definition parse_acl_log :: "pylib \<Rightarrow> pyval \<Rightarrow> pyval res" where
  "parse_acl_log L r =
     (if r = PNone then Inr PNone
      else case r of
        PList logs \<Rightarrow> res_map PList (traverse (\<lambda>l.
          res_bind (pairs_to_dict l True True) (\<lambda>d.
          res_bind (parse_client_info L (case dict_get d (PStr ''client-info'') of None \<Rightarrow> PStr [] | Some v \<Rightarrow> v)) (\<lambda>ci.
          let d1 = put d ''client-info'' ci in
          res_bind (res_bind (lookup d1 ''age-seconds'') (to_float L)) (\<lambda>age. Inr (PDict (put d1 ''age-seconds'' age)))))) logs)
      | _ \<Rightarrow> bool_ok r)"

definition tuple_of :: "pyval \<Rightarrow> pyval res" where
  "tuple_of v = res_map PTuple (iterate v)"

definition parse_stralgo :: callback where
  "parse_stralgo L opts r =
     (if opt opts ''len'' then py_int_value L r
      else if opt opts ''idx''
      then res_bind (res_bind (getitem r 1) iterate) (\<lambda>ms.
           res_bind (traverse (\<lambda>m.
               if opt opts ''withmatchlen''
               then res_bind (res_bind (getitem m (-1)) (py_int_value L)) (\<lambda>n.
                    res_bind (elements m) (\<lambda>xs. res_map (\<lambda>ts. PList (n # ts)) (traverse tuple_of (butlast xs))))
               else res_bind (iterate m) (\<lambda>xs. res_map PList (traverse tuple_of xs))) ms) (\<lambda>matches.
           res_bind (res_map str_if_bytes (getitem r 0)) (\<lambda>k1.
           res_bind (res_map str_if_bytes (getitem r 2)) (\<lambda>k2.
           res_bind (res_bind (getitem r 3) (py_int_value L)) (\<lambda>n.
             dict_value (dict_of [(k1, PList matches), (k2, n)]))))))
      else Inr (str_if_bytes r))"

section \<open>The tables\<close>

text \<open>A parser in a table: whether it accepts options, and the function.\<close>

type_synonym cb_entry = "bool \<times> callback"

abbreviation plain :: "(pyval \<Rightarrow> pyval res) \<Rightarrow> cb_entry" where "plain f \<equiv> (False, \<lambda>_ _. f)"
abbreviation with_lib :: "(pylib \<Rightarrow> pyval \<Rightarrow> pyval res) \<Rightarrow> cb_entry" where "with_lib f \<equiv> (False, \<lambda>L _. f L)"
abbreviation ok_entry :: cb_entry where "ok_entry \<equiv> (True, \<lambda>_ _. bool_ok)"

definition py_bool :: "pyval \<Rightarrow> pyval res" where "py_bool r = Inr (PBool (truthy r))"

definition list_of_str :: "pyval \<Rightarrow> pyval res" where
  "list_of_str r = res_map (\<lambda>xs. PList (map str_if_bytes xs)) (iterate r)"

definition str_value :: "pyval \<Rightarrow> pyval res" where "str_value r = Inr (str_if_bytes r)"

definition set_or_empty :: "pyval \<Rightarrow> pyval res" where
  "set_or_empty r = (if truthy r then res_map PSet (res_bind (iterate r) set_of) else Inr (PSet []))"

definition string_keys_to_dict :: "string \<Rightarrow> cb_entry \<Rightarrow> (string \<times> cb_entry) list" where
  "string_keys_to_dict key_string cb = map (\<lambda>k. (k, cb)) (str_words key_string)"

definition RedisCallbacks :: "(string \<times> cb_entry) list" where
  "RedisCallbacks =
     string_keys_to_dict
         ''AUTH COPY EXPIRE EXPIREAT HEXISTS HMSET MOVE MSETNX PERSIST PSETEX PEXPIRE PEXPIREAT RENAMENX SETEX SETNX SMOVE''
         (plain py_bool)
     @ string_keys_to_dict
         ''HINCRBYFLOAT INCRBYFLOAT''
         (with_lib to_float)
     @ string_keys_to_dict
         ''ASKING FLUSHALL FLUSHDB LSET LTRIM MSET PFMERGE READONLY READWRITE RENAME SAVE SELECT SHUTDOWN SLAVEOF SWAPDB WATCH UNWATCH''
         (ok_entry)
     @ string_keys_to_dict
         ''XREAD XREADGROUP''
         (plain parse_xread)
     @ string_keys_to_dict
         ''GEORADIUS GEORADIUSBYMEMBER GEOSEARCH''
         ((True, parse_geosearch_generic))
     @ string_keys_to_dict
         ''XRANGE XREVRANGE''
         (plain parse_stream_list)
     @ [(''ACL GETUSER'', (True, \<lambda>_ _. parse_acl_getuser)),
        (''ACL LOAD'', ok_entry),
        (''ACL LOG'', (True, \<lambda>L _. parse_acl_log L)),
        (''ACL SETUSER'', ok_entry),
        (''ACL SAVE'', ok_entry),
        (''CLIENT INFO'', with_lib parse_client_info),
        (''CLIENT KILL'', (True, \<lambda>_ _. parse_client_kill)),
        (''CLIENT LIST'', (True, \<lambda>_ _. parse_client_list)),
        (''CLIENT PAUSE'', ok_entry),
        (''CLIENT SETINFO'', ok_entry),
        (''CLIENT SETNAME'', ok_entry),
        (''CLIENT UNBLOCK'', plain py_bool),
        (''CLUSTER ADDSLOTS'', ok_entry),
        (''CLUSTER ADDSLOTSRANGE'', ok_entry),
        (''CLUSTER DELSLOTS'', ok_entry),
        (''CLUSTER DELSLOTSRANGE'', ok_entry),
        (''CLUSTER FAILOVER'', ok_entry),
        (''CLUSTER FORGET'', ok_entry),
        (''CLUSTER INFO'', (True, \<lambda>_ _. parse_cluster_info)),
        (''CLUSTER MEET'', ok_entry),
        (''CLUSTER NODES'', (True, \<lambda>_ _. parse_cluster_nodes)),
        (''CLUSTER REPLICAS'', (True, \<lambda>_ _. parse_cluster_nodes)),
        (''CLUSTER REPLICATE'', ok_entry),
        (''CLUSTER RESET'', ok_entry),
        (''CLUSTER SAVECONFIG'', ok_entry),
        (''CLUSTER SET-CONFIG-EPOCH'', ok_entry),
        (''CLUSTER SETSLOT'', ok_entry),
        (''CLUSTER SLAVES'', (True, \<lambda>_ _. parse_cluster_nodes)),
        (''COMMAND'', (True, \<lambda>L _. parse_command L)),
        (''CONFIG RESETSTAT'', ok_entry),
        (''CONFIG SET'', ok_entry),
        (''FUNCTION DELETE'', ok_entry),
        (''FUNCTION FLUSH'', ok_entry),
        (''FUNCTION RESTORE'', ok_entry),
        (''GEODIST'', with_lib float_or_none),
        (''HSCAN'', (True, parse_hscan)),
        (''INFO'', with_lib parse_info),
        (''LASTSAVE'', with_lib timestamp_to_datetime),
        (''MEMORY PURGE'', ok_entry),
        (''MODULE LOAD'', plain py_bool),
        (''MODULE UNLOAD'', plain py_bool),
        (''PING'', plain (\<lambda>r. Inr (PBool (str_if_bytes r = PStr ''PONG'')))),
        (''PUBSUB NUMSUB'', (True, \<lambda>_ _. parse_pubsub_numsub)),
        (''PUBSUB SHARDNUMSUB'', (True, \<lambda>_ _. parse_pubsub_numsub)),
        (''QUIT'', ok_entry),
        (''SET'', (True, \<lambda>_. parse_set_result)),
        (''SCAN'', (True, \<lambda>L _. parse_scan L)),
        (''SCRIPT EXISTS'', plain (\<lambda>r. res_map (\<lambda>xs. PList (map (\<lambda>x. PBool (truthy x)) xs)) (iterate r))),
        (''SCRIPT FLUSH'', ok_entry),
        (''SCRIPT KILL'', ok_entry),
        (''SCRIPT LOAD'', plain str_value),
        (''SENTINEL CKQUORUM'', ok_entry),
        (''SENTINEL FAILOVER'', ok_entry),
        (''SENTINEL FLUSHCONFIG'', ok_entry),
        (''SENTINEL GET-MASTER-ADDR-BY-NAME'', with_lib parse_sentinel_get_master),
        (''SENTINEL MONITOR'', ok_entry),
        (''SENTINEL RESET'', ok_entry),
        (''SENTINEL REMOVE'', ok_entry),
        (''SENTINEL SET'', ok_entry),
        (''SLOWLOG GET'', (True, parse_slowlog_get)),
        (''SLOWLOG RESET'', ok_entry),
        (''SORT'', (True, \<lambda>_. sort_return_tuples)),
        (''SSCAN'', (True, \<lambda>L _. parse_scan L)),
        (''TIME'', with_lib (\<lambda>L x. res_bind (res_bind (getitem x 0) (py_int_value L)) (\<lambda>a. res_bind (res_bind (getitem x 1) (py_int_value L)) (\<lambda>b. Inr (PTuple [a, b]))))),
        (''XAUTOCLAIM'', (True, \<lambda>_. parse_xautoclaim)),
        (''XCLAIM'', (True, \<lambda>_. parse_xclaim)),
        (''XGROUP CREATE'', ok_entry),
        (''XGROUP DESTROY'', plain py_bool),
        (''XGROUP SETID'', ok_entry),
        (''XINFO STREAM'', (True, \<lambda>_. parse_xinfo_stream)),
        (''XPENDING'', (True, parse_xpending)),
        (''ZSCAN'', (True, parse_zscan))]"

definition RedisCallbacksRESP2 :: "(string \<times> cb_entry) list" where
  "RedisCallbacksRESP2 =
     string_keys_to_dict
         ''SDIFF SINTER SMEMBERS SUNION''
         (plain set_or_empty)
     @ string_keys_to_dict
         ''ZDIFF ZINTER ZPOPMAX ZPOPMIN ZRANGE ZRANGEBYSCORE ZRANK ZREVRANGE ZREVRANGEBYSCORE ZREVRANK ZUNION''
         ((True, zset_score_pairs))
     @ string_keys_to_dict
         ''ZINCRBY ZSCORE''
         (with_lib float_or_none)
     @ string_keys_to_dict
         ''BGREWRITEAOF BGSAVE''
         (plain (\<lambda>_. Inr (PBool True)))
     @ string_keys_to_dict
         ''BLPOP BRPOP''
         (plain (\<lambda>r. if truthy r then tuple_of r else Inr PNone))
     @ string_keys_to_dict
         ''BZPOPMAX BZPOPMIN''
         (with_lib (\<lambda>L r. if truthy r then res_bind (getitem r 0) (\<lambda>a. res_bind (getitem r 1) (\<lambda>b. res_bind (res_bind (getitem r 2) (to_float L)) (\<lambda>c. Inr (PTuple [a, b, c])))) else Inr PNone))
     @ [(''ACL CAT'', plain list_of_str),
        (''ACL GENPASS'', plain str_value),
        (''ACL HELP'', plain list_of_str),
        (''ACL LIST'', plain list_of_str),
        (''ACL USERS'', plain list_of_str),
        (''ACL WHOAMI'', plain str_value),
        (''CLIENT GETNAME'', plain str_value),
        (''CLIENT TRACKINGINFO'', plain list_of_str),
        (''CLUSTER GETKEYSINSLOT'', plain list_of_str),
        (''COMMAND GETKEYS'', plain list_of_str),
        (''CONFIG GET'', (True, \<lambda>_ _. parse_config_get)),
        (''DEBUG OBJECT'', with_lib parse_debug_object),
        (''GEOHASH'', plain list_of_str),
        (''GEOPOS'', with_lib (\<lambda>L r. res_bind (iterate r) (\<lambda>xs. res_map PList (traverse (\<lambda>x. if x = PNone then Inr PNone else geo_coord L x) xs)))),
        (''HGETALL'', plain (\<lambda>r. if truthy r then dict_value (pairs_to_dict r False False) else Inr (PDict []))),
        (''MEMORY STATS'', (True, \<lambda>_ _. parse_memory_stats)),
        (''MODULE LIST'', plain (\<lambda>r. res_bind (iterate r) (\<lambda>xs. res_map PList (traverse (\<lambda>m. dict_value (pairs_to_dict m False False)) xs)))),
        (''RESET'', plain str_value),
        (''SENTINEL MASTER'', with_lib parse_sentinel_master),
        (''SENTINEL MASTERS'', with_lib parse_sentinel_masters),
        (''SENTINEL SENTINELS'', with_lib parse_sentinel_slaves_and_sentinels),
        (''SENTINEL SLAVES'', with_lib parse_sentinel_slaves_and_sentinels),
        (''STRALGO'', (True, parse_stralgo)),
        (''XINFO CONSUMERS'', plain parse_list_of_dicts),
        (''XINFO GROUPS'', plain parse_list_of_dicts),
        (''ZADD'', (True, parse_zadd)),
        (''ZMSCORE'', (True, \<lambda>L _. parse_zmscore L))]"

definition RedisCallbacksRESP3 :: "(string \<times> cb_entry) list" where
  "RedisCallbacksRESP3 =
     string_keys_to_dict
         ''SDIFF SINTER SMEMBERS SUNION''
         (plain set_or_empty)
     @ string_keys_to_dict
         ''ZRANGE ZINTER ZPOPMAX ZPOPMIN ZRANGEBYSCORE ZREVRANGE ZREVRANGEBYSCORE ZUNION HGETALL XREADGROUP''
         ((True, \<lambda>_ _. Inr))
     @ string_keys_to_dict
         ''XREAD XREADGROUP''
         (plain parse_xread_resp3)
     @ [(''ACL LOG'', plain (\<lambda>r. case r of PList xs \<Rightarrow> res_map PList (traverse (\<lambda>x. dict_value (map_items str_if_bytes x)) xs) | _ \<Rightarrow> bool_ok r)),
        (''COMMAND'', (True, \<lambda>L _. parse_command_resp3 L)),
        (''CONFIG GET'', plain (\<lambda>r. dict_value (map_items str_if_bytes r))),
        (''MEMORY STATS'', plain (\<lambda>r. dict_value (map_items id r))),
        (''SENTINEL MASTER'', with_lib parse_sentinel_state_resp3),
        (''SENTINEL MASTERS'', with_lib parse_sentinel_masters_resp3),
        (''SENTINEL SENTINELS'', with_lib parse_sentinel_slaves_and_sentinels_resp3),
        (''SENTINEL SLAVES'', with_lib parse_sentinel_slaves_and_sentinels_resp3),
        (''STRALGO'', (True, \<lambda>_ _ r. case r of PDict _ \<Rightarrow> dict_value (map_items str_if_bytes r) | _ \<Rightarrow> str_value r)),
        (''XINFO CONSUMERS'', plain (\<lambda>r. res_bind (iterate r) (\<lambda>xs. res_map PList (traverse (\<lambda>x. dict_value (map_items id x)) xs)))),
        (''XINFO GROUPS'', plain (\<lambda>r. res_bind (iterate r) (\<lambda>xs. res_map PList (traverse (\<lambda>x. dict_value (map_items id x)) xs))))]"

text \<open>In a display of pairs the last entry of a key wins.\<close>

definition cb_lookup :: "(string \<times> cb_entry) list \<Rightarrow> string \<Rightarrow> cb_entry option" where
  "cb_lookup table name = map_of (rev table) name"

text \<open>The call \<open>callback(response, **options)\<close>.\<close>

definition call_callback :: "cb_entry \<Rightarrow> callback" where
  "call_callback cb L opts r =
     (if \<not> fst cb \<and> (opt_values opts \<noteq> [] \<or> score_cast opts \<noteq> None)
      then Inl (Exc PyTypeError ''unexpected keyword argument'')
      else snd cb L opts r)"

end
