(* ===== verification/Callbacks_Spec.thy ===== *)
theory Callbacks_Spec
  imports Callbacks
begin

text \<open>
  What the reply parsers do: the two protocols give the same value for the same data, \<open>SORT ... GET\<close> replies are cut
  into consecutive tuples, and the text of \<open>CLUSTER NODES\<close> is read back to the nodes it describes.
\<close>

section \<open>Strides\<close>

lemma filter_stride_block:
  assumes "i < n"
  shows "filter (\<lambda>j. i \<le> j \<and> n dvd (j - i)) [0..<n] = [i]"
proof -
  have "[0..<n] = [0..<i] @ i # [Suc i..<n]"
    using assms by (metis less_imp_add_positive upt_add_eq_append upt_conv_Cons zero_le less_add_same_cancel1 add_0)
  moreover have "filter (\<lambda>j. i \<le> j \<and> n dvd (j - i)) [0..<i] = []" by (auto simp: filter_empty_conv)
  moreover have "filter (\<lambda>j. i \<le> j \<and> n dvd (j - i)) [Suc i..<n] = []"
    using assms by (auto simp: filter_empty_conv) (metis Suc_leD diff_less_mono2 dvd_imp_le le_less_trans less_imp_diff_less linorder_not_less zero_less_diff Suc_le_lessD)
  ultimately show ?thesis by simp
qed

lemma stride_rec:
  assumes "i < n"
  shows "stride i n xs = (if length xs \<le> i then [] else xs ! i # stride i n (drop n xs))"
proof (cases "length xs \<le> n")
  case True
  have split: "[0..<n] = [0..<length xs] @ [length xs..<n]" using True by (metis le0 le_Suc_ex upt_add_eq_append)
  then have "[i] = filter (\<lambda>j. i \<le> j \<and> n dvd (j - i)) [0..<length xs] @ filter (\<lambda>j. i \<le> j \<and> n dvd (j - i)) [length xs..<n]"
    using filter_stride_block [OF assms] by simp
  moreover have "i < length xs \<Longrightarrow> i \<notin> set [length xs..<n]" by simp
  moreover have "length xs \<le> i \<Longrightarrow> i \<notin> set [0..<length xs]" by simp
  ultimately have "filter (\<lambda>j. i \<le> j \<and> n dvd (j - i)) [0..<length xs] = (if length xs \<le> i then [] else [i])"
    by (auto simp: append_eq_Cons_conv Cons_eq_append_conv filter_empty_conv)
  then show ?thesis using True by (simp add: stride_def)
next
  case False
  let ?P = "\<lambda>j. i \<le> j \<and> n dvd (j - i)"
  have "[0..<length xs] = [0..<n] @ [n..<length xs]" using False by (metis le0 le_Suc_ex nat_le_linear upt_add_eq_append)
  moreover have "[n..<length xs] = map (\<lambda>j. j + n) [0..<length xs - n]" using False by (simp add: map_add_upt)
  moreover have "?P (j + n) = ?P j" for j
  proof (cases "i \<le> j")
    case True
    then show ?thesis by (simp add: add.commute [of j n] dvd_add_right_iff flip: add_diff_assoc)
  next
    case False
    then have "0 < j + n - i" "j + n - i < n" using assms by auto
    then show ?thesis using False by (auto dest: dvd_imp_le)
  qed
  ultimately have "filter ?P [0..<length xs] = i # map (\<lambda>j. j + n) (filter ?P [0..<length xs - n])"
    using filter_stride_block [OF assms] by (simp add: filter_map comp_def)
  then show ?thesis using False assms by (simp add: stride_def comp_def add.commute)
qed

lemma zip_star_strides:
  assumes "0 < n"
  shows "zip_star (map (\<lambda>i. stride i n xs) [0..<n]) = map (\<lambda>j. take n (drop (j * n) xs)) [0..<length xs div n]"
proof (induction "length xs" arbitrary: xs rule: less_induct)
  case less
  show ?case
  proof (cases "length xs < n")
    case True
    then have "stride (length xs) n xs = []" using stride_rec [of "length xs" n xs] by simp
    then have "[] \<in> set (map (\<lambda>i. stride i n xs) [0..<n])" using True by (force simp: image_iff)
    then show ?thesis using True by (simp add: zip_star.simps)
  next
    case False
    have s: "stride i n xs = xs ! i # stride i n (drop n xs)" if "i < n" for i using stride_rec [OF that, of xs] that False by simp
    have "[] \<notin> set (map (\<lambda>i. stride i n xs) [0..<n])" using s by auto
    moreover have "map hd (map (\<lambda>i. stride i n xs) [0..<n]) = take n xs"
      using s False by (auto intro!: nth_equalityI)
    moreover have "map tl (map (\<lambda>i. stride i n xs) [0..<n]) = map (\<lambda>i. stride i n (drop n xs)) [0..<n]" using s by simp
    ultimately have "zip_star (map (\<lambda>i. stride i n xs) [0..<n]) = take n xs # zip_star (map (\<lambda>i. stride i n (drop n xs)) [0..<n])"
      using assms by (subst zip_star.simps) (simp del: map_map)
    also have "\<dots> = take n xs # map (\<lambda>j. take n (drop (j * n) (drop n xs))) [0..<(length xs - n) div n]"
      using less [of "drop n xs"] assms False by simp
    also have "\<dots> = map (\<lambda>j. take n (drop (j * n) xs)) [0..<Suc ((length xs - n) div n)]"
      by (simp add: upt_conv_Cons map_Suc_upt [symmetric] del: upt_Suc) (simp add: comp_def add.commute)
    also have "Suc ((length xs - n) div n) = length xs div n" using False assms by (simp add: le_div_geq)
    finally show ?thesis .
  qed
qed

section \<open>Splitting and joining\<close>

lemma split_on_plain: "c \<notin> set w \<Longrightarrow> split_on c w = [w]"
  by (induction w) auto

lemma split_on_append: "c \<notin> set w \<Longrightarrow> split_on c (w @ c # s) = w # split_on c s"
  by (induction w) auto

lemma split_on_join: "\<forall>w\<in>set ws. c \<notin> set w \<Longrightarrow> ws \<noteq> [] \<Longrightarrow> split_on c (join [c] ws) = ws"
  by (induction "[c]" ws rule: join.induct) (auto simp: split_on_plain split_on_append)

lemma contains_set: "contains s sub \<Longrightarrow> set sub \<subseteq> set s"
proof -
  have "find_from sub i s = Some k \<Longrightarrow> set sub \<subseteq> set s" for i k
  proof (induction sub i s rule: find_from.induct)
    case (2 sub i x xs)
    then show ?case using set_take_subset [of "length sub" "x # xs"] by (auto split: if_splits)
  qed (auto split: if_splits)
  then show "contains s sub \<Longrightarrow> set sub \<subseteq> set s" by (auto simp: contains_def bytes_find_def)
qed

lemma find_from_first:
  assumes "x \<notin> set a"
  shows "find_from (x # sub) i (a @ x # sub @ b) = Some (i + length a)"
  using assms by (induction a arbitrary: i) auto

lemma split1_at:
  assumes "x \<notin> set a"
  shows "split1 (x # sub) (a @ x # sub @ b) = [a, b]" "contains (a @ x # sub @ b) (x # sub)"
  using find_from_first [OF assms, of sub 0 b] by (simp_all add: split1_def bytes_find_def contains_def)

lemma lines_from_acc: "\<forall>c\<in>set w. \<forall>s. nl (c # s) = 0 \<Longrightarrow> lines_from nl acc (w @ s) = lines_from nl (acc @ w) s"
  by (induction w arbitrary: acc) (auto simp: Let_def)

text \<open>Lines of printable ASCII, each ended by a line feed.\<close>

definition printable :: "string \<Rightarrow> bool" where
  "printable s \<longleftrightarrow> list_all (\<lambda>c. of_char c \<in> {0x20..<0x7F :: nat}) s"

lemma bytes_splitlines_lines:
  assumes "\<forall>l\<in>set ls. printable l"
  shows "bytes_splitlines (concat (map (\<lambda>l. l @ [LF]) ls)) = ls"
proof -
  have nl: "bytes_nl_len (c # s) = 0" if "of_char c \<in> {0x20..<0x7F :: nat}" for c s
    using that by (auto simp: bytes_nl_len_def starts_with_def)
  have lf: "bytes_nl_len (LF # s) = 1" for s by (simp add: bytes_nl_len_def starts_with_def)
  show ?thesis
    using assms
  proof (induction ls)
    case Nil
    show ?case by (simp add: bytes_splitlines_def)
  next
    case (Cons l ls)
    then have "\<forall>c\<in>set l. \<forall>s. bytes_nl_len (c # s) = 0" using nl by (auto simp: printable_def list_all_iff)
    from lines_from_acc [OF this, of "[]" "LF # concat (map (\<lambda>l. l @ [LF]) ls)"] show ?case
      using Cons by (simp add: bytes_splitlines_def lf)
  qed
qed

section \<open>Nodes as the server prints them\<close>

datatype slot_item = OneSlot nat | SlotRange nat nat | Migrating nat string | Importing nat string

fun print_slot :: "slot_item \<Rightarrow> string" where
  "print_slot (OneSlot s) = nat_repr s"
| "print_slot (SlotRange a b) = nat_repr a @ ''-'' @ nat_repr b"
| "print_slot (Migrating s n) = ''['' @ nat_repr s @ ''->-'' @ n @ '']''"
| "print_slot (Importing s n) = ''['' @ nat_repr s @ ''-<-'' @ n @ '']''"

fun slot_ranges :: "slot_item \<Rightarrow> pyval list" where
  "slot_ranges (OneSlot s) = [PList [PStr (nat_repr s)]]"
| "slot_ranges (SlotRange a b) = [PList [PStr (nat_repr a), PStr (nat_repr b)]]"
| "slot_ranges _ = []"

fun slot_moves :: "slot_item \<Rightarrow> pyval list" where
  "slot_moves (Migrating s n) = [migration ''migrating'' (nat_repr s, n)]"
| "slot_moves (Importing s n) = [migration ''importing'' (nat_repr s, n)]"
| "slot_moves _ = []"

text \<open>A node identifier is printed in letters and digits.\<close>

definition word_ok :: "string \<Rightarrow> bool" where
  "word_ok w \<longleftrightarrow> printable w \<and> set w \<inter> {CHR '' '', CHR ''@'', CHR '',''} = {}"

fun slot_ok :: "slot_item \<Rightarrow> bool" where
  "slot_ok (Migrating _ n) = (word_ok n \<and> CHR ''>'' \<notin> set n)"
| "slot_ok (Importing _ n) = (word_ok n \<and> CHR ''>'' \<notin> set n)"
| "slot_ok _ = True"

record node_info =
  ni_id :: string
  ni_addr :: string
  ni_bus :: string
  ni_host :: "string option"
  ni_flags :: string
  ni_master :: string
  ni_ping :: string
  ni_pong :: string
  ni_epoch :: string
  ni_connected :: bool
  ni_slots :: "slot_item list"

definition print_addr :: "node_info \<Rightarrow> string" where
  "print_addr n = ni_addr n @ ''@'' @ ni_bus n @ (case ni_host n of None \<Rightarrow> [] | Some h \<Rightarrow> '','' @ h)"

definition print_node :: "node_info \<Rightarrow> string" where
  "print_node n = join '' ''
     ([ni_id n, print_addr n, ni_flags n, ni_master n, ni_ping n, ni_pong n, ni_epoch n,
       if ni_connected n then ''connected'' else ''disconnected''] @ map print_slot (ni_slots n))"

definition plain_word :: "string \<Rightarrow> bool" where
  "plain_word w \<longleftrightarrow> printable w \<and> CHR '' '' \<notin> set w"

definition node_ok :: "node_info \<Rightarrow> bool" where
  "node_ok n \<longleftrightarrow> list_all plain_word [ni_id n, ni_flags n, ni_master n, ni_ping n, ni_pong n, ni_epoch n]
     \<and> word_ok (ni_addr n) \<and> word_ok (ni_bus n) \<and> (\<forall>h. ni_host n = Some h \<longrightarrow> word_ok h) \<and> list_all slot_ok (ni_slots n)"

definition node_value :: "node_info \<Rightarrow> pyval" where
  "node_value n =
     obj [(''node_id'', PStr (ni_id n)), (''hostname'', PStr (case ni_host n of None \<Rightarrow> [] | Some h \<Rightarrow> h)),
          (''flags'', PStr (ni_flags n)), (''master_id'', PStr (ni_master n)), (''last_ping_sent'', PStr (ni_ping n)),
          (''last_pong_rcvd'', PStr (ni_pong n)), (''epoch'', PStr (ni_epoch n)),
          (''slots'', PList (concat (map slot_ranges (ni_slots n)))),
          (''migrations'', PList (concat (map slot_moves (ni_slots n)))), (''connected'', PBool (ni_connected n))]"

lemma nat_repr_digit: "c \<in> set (nat_repr n) \<Longrightarrow> is_digit c"
  using nat_repr_digits [of n] by (auto simp: list_all_iff)

lemma nat_repr_avoids [simp]:
  "CHR ''-'' \<notin> set (nat_repr n)" "CHR '' '' \<notin> set (nat_repr n)" "CHR ''>'' \<notin> set (nat_repr n)" "CHR ''<'' \<notin> set (nat_repr n)"
  using nat_repr_digit by (fastforce simp: is_digit_def less_eq_char_def)+

lemma parse_slots_print:
  assumes "list_all slot_ok items"
  shows "parse_slots (map print_slot items) = Inr (concat (map slot_ranges items), concat (map slot_moves items))"
proof -
  have st: "slot_step (a, b) (print_slot x) = Inr (a @ slot_ranges x, b @ slot_moves x)" if "slot_ok x" for a b x
  proof (cases x)
    case (OneSlot s)
    then show ?thesis using contains_set [of "nat_repr s" "''->-''"] contains_set [of "nat_repr s" "''-<-''"]
      by (auto simp: split_on_plain slot_step_def)
  next
    case (SlotRange u v)
    have "split_on CHR ''-'' (nat_repr u @ CHR ''-'' # nat_repr v) = [nat_repr u, nat_repr v]"
      by (simp add: split_on_plain split_on_append)
    then show ?thesis using SlotRange contains_set [of "nat_repr u @ ''-'' @ nat_repr v" "''->-''"]
        contains_set [of "nat_repr u @ ''-'' @ nat_repr v" "''-<-''"] by (auto simp: slot_step_def)
  next
    case (Migrating s n)
    have "contains (CHR ''['' # nat_repr s @ ''->-'' @ n @ '']'') ''->-''"
      using split1_at(2) [of "CHR ''-''" "CHR ''['' # nat_repr s" "''>-''" "n @ '']''"] by simp
    moreover have "trim1 (CHR ''['' # nat_repr s @ ''->-'' @ n @ '']'') = nat_repr s @ ''->-'' @ n"
      by (simp add: trim1_def butlast_append)
    ultimately show ?thesis using Migrating split1_at(1) [of "CHR ''-''" "nat_repr s" "''>-''" n] by (simp add: pair_of_def slot_step_def)
  next
    case (Importing s n)
    have "\<not> contains (CHR ''['' # nat_repr s @ ''-<-'' @ n @ '']'') ''->-''"
      using contains_set [of "CHR ''['' # nat_repr s @ ''-<-'' @ n @ '']''" "''->-''"] that Importing by auto
    moreover have "contains (CHR ''['' # nat_repr s @ ''-<-'' @ n @ '']'') ''-<-''"
      using split1_at(2) [of "CHR ''-''" "CHR ''['' # nat_repr s" "''<-''" "n @ '']''"] by simp
    moreover have "trim1 (CHR ''['' # nat_repr s @ ''-<-'' @ n @ '']'') = nat_repr s @ ''-<-'' @ n"
      by (simp add: trim1_def butlast_append)
    ultimately show ?thesis using Importing split1_at(1) [of "CHR ''-''" "nat_repr s" "''<-''" n] by (simp add: pair_of_def slot_step_def)
  qed
  have "res_fold slot_step (a, b) (map print_slot items) = Inr (a @ concat (map slot_ranges items), b @ concat (map slot_moves items))" for a b
    using assms by (induction items arbitrary: a b) (simp_all add: st)
  from this [of "[]" "[]"] show ?thesis by (simp add: parse_slots_def)
qed

lemma print_slot_no_space: "slot_ok x \<Longrightarrow> CHR '' '' \<notin> set (print_slot x)"
  by (cases x) (auto simp: word_ok_def)

lemma printable_append [simp]: "printable (a @ b) \<longleftrightarrow> printable a \<and> printable b"
  by (simp add: printable_def)

lemma printable_join: "printable sep \<Longrightarrow> \<forall>w\<in>set ws. printable w \<Longrightarrow> printable (join sep ws)"
  by (induction sep ws rule: join.induct) (auto simp: printable_def)

lemma printable_nat_repr: "printable (nat_repr n)"
  unfolding printable_def list_all_iff using nat_repr_digit [of _ n] by (fastforce dest: is_digit_bounds)

lemma printable_slot: "slot_ok x \<Longrightarrow> printable (print_slot x)"
proof (cases x)
qed (use printable_nat_repr in \<open>auto simp: word_ok_def\<close>, (simp_all add: printable_def)?)

lemma print_addr_facts:
  assumes "node_ok n"
  shows "CHR '' '' \<notin> set (print_addr n)" "printable (print_addr n)"
    "nth_item (split_on CHR ''@'' (print_addr n)) 0 = Inr (ni_addr n)"
    "node_hostname (print_addr n) = Inr (case ni_host n of None \<Rightarrow> [] | Some h \<Rightarrow> h)"
proof -
  have w: "word_ok (ni_addr n)" "word_ok (ni_bus n)" "\<And>h. ni_host n = Some h \<Longrightarrow> word_ok h" using assms by (simp_all add: node_ok_def)
  show "CHR '' '' \<notin> set (print_addr n)" using w by (auto simp: print_addr_def word_ok_def split: option.splits)
  have "printable ''@''" "printable '',''" by (simp_all add: printable_def)
  then show "printable (print_addr n)" using w by (auto simp: print_addr_def word_ok_def split: option.splits simp del: append.simps)
      (metis append_Cons append_Nil printable_append)+
  let ?rest = "ni_bus n @ (case ni_host n of None \<Rightarrow> [] | Some h \<Rightarrow> '','' @ h)"
  have rest: "CHR ''@'' \<notin> set ?rest" using w by (auto simp: word_ok_def split: option.splits)
  then have sp: "split_on CHR ''@'' (print_addr n) = [ni_addr n, ?rest]"
    using w(1) split_on_append [of "CHR ''@''" "ni_addr n" ?rest] by (simp add: print_addr_def word_ok_def split_on_plain)
  then show "nth_item (split_on CHR ''@'' (print_addr n)) 0 = Inr (ni_addr n)" by simp
  have one: "nth_item [a, b] 1 = Inr b" for a b :: string by (simp add: nth_item_def)
  show "node_hostname (print_addr n) = Inr (case ni_host n of None \<Rightarrow> [] | Some h \<Rightarrow> h)"
  proof (cases "ni_host n")
    case None
    then have "CHR '','' \<notin> set (print_addr n)" using w by (auto simp: print_addr_def word_ok_def)
    then show ?thesis using None by (simp add: node_hostname_def)
  next
    case (Some h)
    have "CHR ''@'' \<in> set (print_addr n)" "CHR '','' \<in> set (print_addr n)" using Some by (auto simp: print_addr_def)
    moreover have "split_on CHR '','' ?rest = [ni_bus n, h]"
      using Some w split_on_append [of "CHR '',''" "ni_bus n" h] by (simp add: word_ok_def split_on_plain)
    ultimately show ?thesis using Some sp one by (simp add: node_hostname_def)
  qed
qed

lemma parse_node_print:
  assumes "node_ok n"
  shows "parse_node_line (print_node n) = Inr (PStr (ni_addr n), node_value n)"
proof -
  let ?words = "[ni_id n, print_addr n, ni_flags n, ni_master n, ni_ping n, ni_pong n, ni_epoch n,
       if ni_connected n then ''connected'' else ''disconnected''] @ map print_slot (ni_slots n)"
  have sl: "list_all slot_ok (ni_slots n)" using assms by (simp add: node_ok_def)
  have "\<forall>w\<in>set ?words. CHR '' '' \<notin> set w"
    using assms print_addr_facts(1) [OF assms] print_slot_no_space by (auto simp: node_ok_def plain_word_def list_all_iff)
  then have ws: "split_on CHR '' '' (print_node n) = ?words"
    unfolding print_node_def by (rule split_on_join) simp
  show ?thesis
  proof (cases "ni_slots n = []")
    case True
    then show ?thesis using ws print_addr_facts(3,4) [OF assms] by (simp add: parse_node_line_def node_value_def)
  next
    case False
    then have "Suc 0 \<le> length (ni_slots n)" by (cases "ni_slots n") auto
    then show ?thesis
      using ws print_addr_facts(3,4) [OF assms] parse_slots_print [OF sl] by (simp add: parse_node_line_def node_value_def)
  qed
qed

lemma printable_node: "node_ok n \<Longrightarrow> printable (print_node n)"
proof -
  assume n: "node_ok n"
  have "printable ''connected''" "printable ''disconnected''" "printable '' ''" by (simp_all add: printable_def)
  then show ?thesis
    using n print_addr_facts(2) [OF n] printable_slot unfolding print_node_def
    by (intro printable_join) (auto simp: node_ok_def plain_word_def list_all_iff)
qed

lemma printable_utf8: "printable s \<Longrightarrow> utf8_replace s = s"
  by (rule utf8_replace_id, rule utf8_valid_ascii) (auto simp: printable_def list_all_iff)

section \<open>Words of the tables\<close>

lemma ws_len_printable:
  assumes "of_char c \<in> {0x20..<0x7F :: nat}"
  shows "ws_len (c # s) = (if c = CHR '' '' then 1 else 0)"
proof -
  have b: "c \<noteq> char_of n" if "n \<in> {0xC2, 0xE1, 0xE2, 0xE3 :: nat}" for n
    using assms that by auto
  have sp: "of_char c = (0x20 :: nat) \<longleftrightarrow> c = CHR '' ''"
    using of_char_eq_iff [of c "CHR '' ''", where ?'a = nat] by simp
  have "list_ex (\<lambda>w. starts_with (c # s) (byte_seq w)) [[0xC2, 0x85], [0xC2, 0xA0]] = False"
    using b by (simp add: starts_with_def byte_seq_def)
  moreover have "list_ex (\<lambda>w. starts_with (c # s) (byte_seq w))
      ([[0xE1, 0x9A, 0x80], [0xE2, 0x80, 0xA8], [0xE2, 0x80, 0xA9], [0xE2, 0x80, 0xAF], [0xE2, 0x81, 0x9F], [0xE3, 0x80, 0x80]]
           @ map (\<lambda>i. [0xE2, 0x80, 0x80 + i]) [0..<11]) = False"
    using b by (auto simp: starts_with_def byte_seq_def list_ex_iff)
  ultimately show ?thesis using assms sp by (simp add: ws_len_def del: map_map)
qed

lemma str_words_printable:
  assumes "printable s"
  shows "str_words s = filter (\<lambda>w. w \<noteq> []) (split_on CHR '' '' s)"
proof -
  have "filter (\<lambda>w. w \<noteq> []) (lines_from ws_len acc s) =
      filter (\<lambda>w. w \<noteq> []) ((acc @ hd (split_on CHR '' '' s)) # tl (split_on CHR '' '' s))" for acc
    using assms
  proof (induction s arbitrary: acc)
    case (Cons c s)
    have ws: "ws_len (c # s) = (if c = CHR '' '' then 1 else 0)"
      using Cons.prems by (intro ws_len_printable) (simp add: printable_def)
    show ?case
    proof (cases "c = CHR '' ''")
      case True
      then show ?thesis using ws Cons.IH [of "[]"] Cons.prems by (simp add: printable_def)
    next
      case False
      then show ?thesis using ws Cons.IH [of "acc @ [c]"] Cons.prems by (simp add: printable_def split: list.splits)
    qed
  qed simp
  from this [of "[]"] show ?thesis unfolding str_words_def by (simp del: filter.simps)
qed
section \<open>Properties\<close>

text \<open>
  \<open>SORT\<close> with \<open>groups=n\<close>: the reply is cut into its consecutive blocks of \<open>n\<close> elements, in order, an incomplete last
  block being dropped.
\<close>

theorem sort_groups_blocks:
  assumes "map_of (opt_values opts) ''groups'' = Some (PInt (int n))" "0 < n"
  shows "sort_return_tuples opts (PList xs) =
    Inr (PList (if xs = [] then [] else map (\<lambda>j. PTuple (take n (drop (j * n) xs))) [0..<length xs div n]))"
  using assms zip_star_strides [of n xs] by (simp add: sort_return_tuples_def opt_def opt_item_def comp_def)

theorem sort_groups_blocks_witness:
  "sort_return_tuples (no_opts\<lparr>opt_values := [(''groups'', PInt 2)]\<rparr>) (PList [PInt 1, PInt 2, PInt 3, PInt 4, PInt 5]) =
     Inr (PList [PTuple [PInt 1, PInt 2], PTuple [PInt 3, PInt 4]])"
  using sort_groups_blocks [of "no_opts\<lparr>opt_values := [(''groups'', PInt 2)]\<rparr>" 2] by (simp add: upt_rec)

text \<open>
  C29: the text of \<open>CLUSTER NODES\<close> is read back to the nodes it was printed from: under the address of each node, its
  identifier, flags and times, the host name after the bus port if there is one, its slots and slot ranges, and the
  slots it is migrating or importing.
\<close>

theorem cluster_nodes_roundtrip:
  assumes "\<forall>n\<in>set nodes. node_ok n" "distinct (map ni_addr nodes)"
  shows "parse_cluster_nodes (PBytes (concat (map (\<lambda>n. print_node n @ [LF]) nodes))) =
    Inr (PDict (map (\<lambda>n. (PStr (ni_addr n), node_value n)) nodes))"
proof -
  have "bytes_splitlines (concat (map (\<lambda>l. l @ [LF]) (map print_node nodes))) = map print_node nodes"
    using assms(1) printable_node by (intro bytes_splitlines_lines) auto
  then have lines: "bytes_splitlines (concat (map (\<lambda>n. print_node n @ [LF]) nodes)) = map print_node nodes" by (simp add: comp_def)
  have "traverse (\<lambda>n. res_bind (as_str (str_if_bytes n)) parse_node_line) (map PBytes (map print_node ns))
      = Inr (map (\<lambda>n. (PStr (ni_addr n), node_value n)) ns)" if "set ns \<subseteq> set nodes" for ns
    using that
    by (induction ns) (use assms(1) parse_node_print printable_utf8 printable_node in auto)
  then have tr: "traverse (\<lambda>n. res_bind (as_str (str_if_bytes n)) parse_node_line) (map PBytes (map print_node nodes))
      = Inr (map (\<lambda>n. (PStr (ni_addr n), node_value n)) nodes)" by blast
  have "wf_dict (map (\<lambda>n. (PStr (ni_addr n), node_value n)) nodes)"
    using assms(2) by (auto simp: wf_dict_def list_all_iff distinct_map inj_on_def)
  then show ?thesis using tr by (simp add: parse_cluster_nodes_def lines dict_value_def dict_of_wf del: map_map)
qed

definition demo_node :: node_info where
  "demo_node = \<lparr> ni_id = ''07c3'', ni_addr = ''127.0.0.1:30004'', ni_bus = ''31004'', ni_host = Some ''hostname4'',
     ni_flags = ''myself,master'', ni_master = ''-'', ni_ping = ''0'', ni_pong = ''1426238317239'', ni_epoch = ''4'',
     ni_connected = True, ni_slots = [SlotRange 0 5460, OneSlot 7000, Migrating 93 ''292f''] \<rparr>"

theorem cluster_nodes_roundtrip_witness:
  "parse_cluster_nodes (PBytes (print_node demo_node @ [LF])) = Inr (PDict [(PStr ''127.0.0.1:30004'', node_value demo_node)])"
proof -
  have "\<forall>n\<in>set [demo_node]. node_ok n" by (simp add: demo_node_def node_ok_def plain_word_def word_ok_def printable_def)
  from cluster_nodes_roundtrip [OF this] show ?thesis by (simp add: demo_node_def)
qed

abbreviation flat :: "(pyval \<times> pyval) list \<Rightarrow> pyval" where
  "flat d \<equiv> PList (concat (map (\<lambda>(k, v). [k, v]) d))"

definition reply_value :: "(string \<times> cb_entry) list \<Rightarrow> string \<Rightarrow> pylib \<Rightarrow> pyval \<Rightarrow> pyval res" where
  "reply_value table name L r = (case cb_lookup table name of None \<Rightarrow> Inr r | Some cb \<Rightarrow> call_callback cb L no_opts r)"

lemmas table_lookup = cb_lookup_def string_keys_to_dict_def str_words_printable printable_def

lemma lookup_dicts:
  "cb_lookup RedisCallbacksRESP2 ''HGETALL'' =
     Some (plain (\<lambda>r. if truthy r then dict_value (pairs_to_dict r False False) else Inr (PDict [])))"
  "cb_lookup RedisCallbacksRESP3 ''HGETALL'' = Some (True, \<lambda>_ _. Inr)"
  "cb_lookup RedisCallbacksRESP2 ''CONFIG GET'' = Some (True, \<lambda>_ _. parse_config_get)"
  "cb_lookup RedisCallbacksRESP3 ''CONFIG GET'' = Some (plain (\<lambda>r. dict_value (map_items str_if_bytes r)))"
  "cb_lookup RedisCallbacksRESP2 ''XINFO GROUPS'' = Some (plain parse_list_of_dicts)"
  "cb_lookup RedisCallbacksRESP3 ''XINFO GROUPS'' =
     Some (plain (\<lambda>r. res_bind (iterate r) (\<lambda>xs. res_map PList (traverse (\<lambda>x. dict_value (map_items id x)) xs))))"
  by (simp_all add: RedisCallbacksRESP2_def RedisCallbacksRESP3_def table_lookup)

definition str_keys :: "(pyval \<Rightarrow> pyval) \<Rightarrow> (pyval \<times> pyval) list \<Rightarrow> (pyval \<times> pyval) list" where
  "str_keys f d = map (\<lambda>(k, v). (str_if_bytes k, f v)) d"

lemma pairs_flat: "pairs (map f (concat (map (\<lambda>(k, v). [k, v]) d))) = map (\<lambda>(k, v). (f k, f v)) d"
  by (induction d) auto

lemma flat_Nil: "concat (map (\<lambda>(k, v). [k, v]) d) = [] \<longleftrightarrow> d = []"
  by (cases d) auto

text \<open>
  The two protocols agree.  The reply to \<open>HGETALL\<close> (its fields and values) as the flat array of RESP2 and as the
  map of RESP3 gives the same dictionary, in the same order; so does that to \<open>CONFIG GET\<close>, as text; and so do those of
  \<open>XINFO GROUPS\<close> and \<open>XINFO CONSUMERS\<close>, with the names as text.
\<close>

theorem protocols_agree:
  assumes "wf_dict d" "wf_dict (str_keys str_if_bytes d)" "\<forall>g\<in>set gs. wf_dict (str_keys id g)"
  shows "reply_value RedisCallbacksRESP2 ''HGETALL'' L (flat d) = Inr (PDict d)
      \<and> reply_value RedisCallbacksRESP3 ''HGETALL'' L (PDict d) = Inr (PDict d)
    \<and> reply_value RedisCallbacksRESP2 ''CONFIG GET'' L (flat d) = Inr (PDict (str_keys str_if_bytes d))
      \<and> reply_value RedisCallbacksRESP3 ''CONFIG GET'' L (PDict d) = Inr (PDict (str_keys str_if_bytes d))
    \<and> reply_value RedisCallbacksRESP2 ''XINFO GROUPS'' L (PList (map flat gs)) = Inr (PList (map (\<lambda>g. PDict (str_keys id g)) gs))
      \<and> reply_value RedisCallbacksRESP3 ''XINFO GROUPS'' L (PList (map PDict gs)) = Inr (PList (map (\<lambda>g. PDict (str_keys id g)) gs))"
proof -
  note defs = reply_value_def lookup_dicts call_callback_def no_opts_def dict_value_def
  have "reply_value RedisCallbacksRESP2 ''HGETALL'' L (flat d) = Inr (PDict d)
      \<and> reply_value RedisCallbacksRESP3 ''HGETALL'' L (PDict d) = Inr (PDict d)"
    using dict_of_wf [OF assms(1)] by (cases d) (auto simp: defs pairs_to_dict_def)
  moreover have "reply_value RedisCallbacksRESP2 ''CONFIG GET'' L (flat d) = Inr (PDict (str_keys str_if_bytes d))
      \<and> reply_value RedisCallbacksRESP3 ''CONFIG GET'' L (PDict d) = Inr (PDict (str_keys str_if_bytes d))"
    using dict_of_wf [OF assms(2)]
    by (simp add: defs pairs_to_dict_def parse_config_get_def pairs_flat map_items_def str_keys_def del: map_concat)
  moreover have "traverse pairs_to_dict_with_str_keys (map flat gs) = Inr (map (\<lambda>g. PDict (str_keys id g)) gs)"
    "traverse (\<lambda>x. dict_value (map_items id x)) (map PDict gs) = Inr (map (\<lambda>g. PDict (str_keys id g)) gs)"
    using assms(3) by (induction gs)
      (auto simp: pairs_to_dict_with_str_keys_def pairs_to_dict_def dict_value_def map_items_def str_keys_def dict_of_wf)
  ultimately show ?thesis
    by (simp add: defs parse_list_of_dicts_def)
qed

theorem protocols_agree_witness:
  "\<forall>L. reply_value RedisCallbacksRESP2 ''HGETALL'' L (PList [PBytes ''f'', PBytes ''1'', PBytes ''g'', PBytes ''2''])
     = reply_value RedisCallbacksRESP3 ''HGETALL'' L (PDict [(PBytes ''f'', PBytes ''1''), (PBytes ''g'', PBytes ''2'')])"
proof
  fix L
  let ?d = "[(PBytes ''f'', PBytes ''1''), (PBytes ''g'', PBytes ''2'')]"
  have "wf_dict ?d" "wf_dict (str_keys str_if_bytes ?d)" "\<forall>g\<in>set []. wf_dict (str_keys id g)"
    by (simp_all add: wf_dict_def str_keys_def utf8_conts_def)
  from protocols_agree [OF this, of L]
  show "reply_value RedisCallbacksRESP2 ''HGETALL'' L (PList [PBytes ''f'', PBytes ''1'', PBytes ''g'', PBytes ''2''])
     = reply_value RedisCallbacksRESP3 ''HGETALL'' L (PDict ?d)" by simp
qed

text \<open>
  The RESP3 parsers of \<open>SENTINEL MASTERS\<close> and \<open>SENTINEL MASTER\<close>.  The first pairs up the keys of each map and
  never looks at a value: two replies with the same keys give the same result, whatever the masters are.  The
  second, for a map whose first key is bytes and does not occur as text, raises \<open>KeyError\<close>.
\<close>

theorem sentinel_resp3_ignores_values:
  "map (map fst) ms = map (map fst) ms' \<Longrightarrow>
     parse_sentinel_masters_resp3 L (PList (map PDict ms)) = parse_sentinel_masters_resp3 L (PList (map PDict ms'))
     \<and> (dict_get ((PBytes k, v) # d) (str_if_bytes (PBytes k)) = None \<longrightarrow>
         (\<exists>x. parse_sentinel_state_resp3 L (PDict ((PBytes k, v) # d)) = Inl (Exc PyKeyError x)))"
proof
  assume eq: "map (map fst) ms = map (map fst) ms'"
  have t: "traverse (\<lambda>m. res_bind (iterate m) f) (map PDict ns) = traverse f (map (map fst) ns)"
    for f :: "pyval list \<Rightarrow> pyval res" and ns
    by (induction ns) simp_all
  show "parse_sentinel_masters_resp3 L (PList (map PDict ms)) = parse_sentinel_masters_resp3 L (PList (map PDict ms'))"
    using eq by (simp add: parse_sentinel_masters_resp3_def t)
  show "dict_get ((PBytes k, v) # d) (str_if_bytes (PBytes k)) = None \<longrightarrow>
         (\<exists>x. parse_sentinel_state_resp3 L (PDict ((PBytes k, v) # d)) = Inl (Exc PyKeyError x))"
    by (auto simp: parse_sentinel_state_resp3_def subscript_def key_error_def image_iff)
qed

theorem sentinel_resp3_ignores_values_witness:
  "\<forall>L. parse_sentinel_masters_resp3 L (PList [PDict [(PStr ''name'', PStr ''a''), (PStr ''flags'', PStr ''master'')]])
     = parse_sentinel_masters_resp3 L (PList [PDict [(PStr ''name'', PStr ''b''), (PStr ''flags'', PStr ''s_down'')]])
   \<and> (\<exists>x. parse_sentinel_state_resp3 L (PDict [(PBytes ''name'', PBytes ''a'')]) = Inl (Exc PyKeyError x))"
proof
  fix L
  let ?ms = "[[(PStr ''name'', PStr ''a''), (PStr ''flags'', PStr ''master'')]]"
  let ?ms' = "[[(PStr ''name'', PStr ''b''), (PStr ''flags'', PStr ''s_down'')]]"
  have "map (map fst) ?ms = map (map fst) ?ms'" by simp
  from sentinel_resp3_ignores_values [OF this, of L "''name''" "PBytes ''a''" "[]"]
  show "parse_sentinel_masters_resp3 L (PList [PDict [(PStr ''name'', PStr ''a''), (PStr ''flags'', PStr ''master'')]])
     = parse_sentinel_masters_resp3 L (PList [PDict [(PStr ''name'', PStr ''b''), (PStr ''flags'', PStr ''s_down'')]])
   \<and> (\<exists>x. parse_sentinel_state_resp3 L (PDict [(PBytes ''name'', PBytes ''a'')]) = Inl (Exc PyKeyError x))"
    by (simp add: utf8_conts_def)
qed

end
