(* ===== verification/Redis_Lock.thy ===== *)
theory Redis_Lock
  imports Values Retry
begin

text \<open>
  The distributed lock of \<open>redis/lock.py\<close>: the object, its loop, and its three server-side scripts.

  The server is not part of the library: what the lock uses of it (\<open>SET NX PX\<close>, and the commands the scripts call)
  is the record \<open>lock_env\<close>, over an arbitrary state; \<open>lock_server\<close> states its documented behaviour.  So are the
  clock, \<open>sleep\<close> (during which other clients act) and the generator of identifiers.  Times are rational numbers.

  \<open>local\<close> is the thread-local storage: the token of thread \<open>t\<close>, which a thread other than the creating one does not
  have until it acquires; without thread-local storage every thread uses slot 0.
\<close>

record 's lock_env =
  sv_value :: "'s \<Rightarrow> string \<Rightarrow> bytes option"
  sv_set_nx :: "string \<Rightarrow> bytes \<Rightarrow> int option \<Rightarrow> 's \<Rightarrow> (exc + bool) \<times> 's"
  sv_del :: "string \<Rightarrow> 's \<Rightarrow> 's"
  sv_pttl :: "'s \<Rightarrow> string \<Rightarrow> int"
  sv_pexpire :: "string \<Rightarrow> int \<Rightarrow> 's \<Rightarrow> 's"
  sv_monotonic :: "'s \<Rightarrow> rat \<times> 's"
  sv_sleep :: "rat \<Rightarrow> 's \<Rightarrow> 's"
  sv_uuid :: "'s \<Rightarrow> bytes \<times> 's"
  sv_encoder :: encoder

record lock =
  lock_name :: string
  lock_timeout :: "rat option"
  lock_sleep :: rat
  lock_blocking :: bool
  lock_blocking_timeout :: "rat option"
  thread_local :: bool
  raise_on_release_error :: bool
  local :: "nat \<Rightarrow> bytes option option"

definition lock_init :: "string \<Rightarrow> rat option \<Rightarrow> rat \<Rightarrow> bool \<Rightarrow> rat option \<Rightarrow> bool \<Rightarrow> bool \<Rightarrow> nat \<Rightarrow> lock" where
  "lock_init name timeout sleep blocking blocking_timeout local_store raise_err thread =
     \<lparr> lock_name = name, lock_timeout = timeout, lock_sleep = sleep, lock_blocking = blocking,
       lock_blocking_timeout = blocking_timeout, thread_local = local_store, raise_on_release_error = raise_err,
       local = (\<lambda>_. None)((if local_store then thread else 0) := Some None) \<rparr>"

definition slot :: "lock \<Rightarrow> nat \<Rightarrow> nat" where
  "slot l t = (if thread_local l then t else 0)"

text \<open>\<open>self.local.token\<close>\<close>

definition get_token :: "lock \<Rightarrow> nat \<Rightarrow> exc + bytes option" where
  "get_token l t =
     (case local l (slot l t) of None \<Rightarrow> Inl (Exc PyAttributeError ''token'') | Some tok \<Rightarrow> Inr tok)"

definition set_token :: "bytes option \<Rightarrow> lock \<Rightarrow> nat \<Rightarrow> lock" where
  "set_token tok l t = l\<lparr>local := (local l)(slot l t := Some tok)\<rparr>"

section \<open>The scripts\<close>

definition LUA_RELEASE_SCRIPT :: "'s lock_env \<Rightarrow> string \<Rightarrow> bytes \<Rightarrow> 's \<Rightarrow> int \<times> 's" where
  "LUA_RELEASE_SCRIPT E key token s =
     (if sv_value E s key \<noteq> Some token then (0, s) else (1, sv_del E key s))"

definition LUA_EXTEND_SCRIPT :: "'s lock_env \<Rightarrow> string \<Rightarrow> bytes \<Rightarrow> int \<Rightarrow> bool \<Rightarrow> 's \<Rightarrow> int \<times> 's" where
  "LUA_EXTEND_SCRIPT E key token ms replace s =
     (if sv_value E s key \<noteq> Some token then (0, s)
      else if sv_pttl E s key < 0 then (0, s)
      else (1, sv_pexpire E key (if \<not> replace then ms + sv_pttl E s key else ms) s))"

definition LUA_REACQUIRE_SCRIPT :: "'s lock_env \<Rightarrow> string \<Rightarrow> bytes \<Rightarrow> int \<Rightarrow> 's \<Rightarrow> int \<times> 's" where
  "LUA_REACQUIRE_SCRIPT E key token ms s =
     (if sv_value E s key \<noteq> Some token then (0, s) else (1, sv_pexpire E key ms s))"

section \<open>The methods\<close>

text \<open>\<open>int(x)\<close> of a number truncates towards zero.\<close>

definition trunc :: "rat \<Rightarrow> int" where
  "trunc x = (if x < 0 then - \<lfloor>- x\<rfloor> else \<lfloor>x\<rfloor>)"

definition do_acquire :: "'s lock_env \<Rightarrow> bytes \<Rightarrow> lock \<Rightarrow> 's \<Rightarrow> (exc + bool) \<times> 's" where
  "do_acquire E token l s =
     sv_set_nx E (lock_name l) token
       (case lock_timeout l of Some t \<Rightarrow> if t \<noteq> 0 then Some (trunc (t * 1000)) else None | None \<Rightarrow> None) s"

partial_function (option) acquire_loop ::
  "'s lock_env \<Rightarrow> nat \<Rightarrow> bytes \<Rightarrow> rat \<Rightarrow> bool \<Rightarrow> rat option \<Rightarrow> lock \<Rightarrow> 's \<Rightarrow> ((exc + bool) \<times> lock \<times> 's) option" where
  "acquire_loop E t token sleep blocking stop_trying_at l s =
     (case do_acquire E token l s of
        (Inl e, s1) \<Rightarrow> Some (Inl e, l, s1)
      | (Inr got, s1) \<Rightarrow>
          if got then Some (Inr True, set_token (Some token) l t, s1)
          else if \<not> blocking then Some (Inr False, l, s1)
          else
            (case sv_monotonic E s1 of (now, s2) \<Rightarrow>
              if (case stop_trying_at of None \<Rightarrow> False | Some stop \<Rightarrow> now + sleep > stop) then Some (Inr False, l, s2)
              else acquire_loop E t token sleep blocking stop_trying_at l (sv_sleep E sleep s2)))"

definition lock_acquire ::
  "'s lock_env \<Rightarrow> nat \<Rightarrow> rat option \<Rightarrow> bool option \<Rightarrow> rat option \<Rightarrow> pyval option \<Rightarrow> lock \<Rightarrow> 's \<Rightarrow>
   ((exc + bool) \<times> lock \<times> 's) option" where
  "lock_acquire E t sleep blocking blocking_timeout token l s =
     (let (tok, s1) = (case token of
            None \<Rightarrow> (let (u, s1) = sv_uuid E s in (Inr u, s1))
          | Some v \<Rightarrow> (map_sum id raw_bytes (encode (sv_encoder E) v), s)) in
      case tok of
        Inl e \<Rightarrow> Some (Inl e, l, s1)
      | Inr tk \<Rightarrow>
          let sl = (case sleep of None \<Rightarrow> lock_sleep l | Some x \<Rightarrow> x);
              bl = (case blocking of None \<Rightarrow> lock_blocking l | Some b \<Rightarrow> b);
              bt = (case blocking_timeout of None \<Rightarrow> lock_blocking_timeout l | Some x \<Rightarrow> Some x) in
          case bt of
            None \<Rightarrow> acquire_loop E t tk sl bl None l s1
          | Some w \<Rightarrow> (case sv_monotonic E s1 of (now, s2) \<Rightarrow> acquire_loop E t tk sl bl (Some (now + w)) l s2))"

text \<open>\<open>redis.get(name)\<close>: the reply is decoded if the client decodes.\<close>

definition lock_get :: "'s lock_env \<Rightarrow> lock \<Rightarrow> 's \<Rightarrow> exc + pyval" where
  "lock_get E l s =
     (case sv_value E s (lock_name l) of None \<Rightarrow> Inr PNone | Some b \<Rightarrow> decode (sv_encoder E) False (PBytes b))"

definition lock_locked :: "'s lock_env \<Rightarrow> lock \<Rightarrow> 's \<Rightarrow> exc + bool" where
  "lock_locked E l s = map_sum id (\<lambda>v. v \<noteq> PNone) (lock_get E l s)"

definition lock_owned :: "'s lock_env \<Rightarrow> nat \<Rightarrow> lock \<Rightarrow> 's \<Rightarrow> exc + bool" where
  "lock_owned E t l s =
     (case lock_get E l s of
        Inl e \<Rightarrow> Inl e
      | Inr v \<Rightarrow>
          (case (case v of PBytes _ \<Rightarrow> Inr v | _ \<Rightarrow> if truthy v then encode (sv_encoder E) v else Inr v) of
             Inl e \<Rightarrow> Inl e
           | Inr stored \<Rightarrow>
               (case get_token l t of
                  Inl e \<Rightarrow> Inl e
                | Inr None \<Rightarrow> Inr False
                | Inr (Some tok) \<Rightarrow> Inr (stored = PBytes tok))))"

definition lock_error :: "string \<Rightarrow> exc" where "lock_error m = Exc LockError m"
definition not_owned :: "string \<Rightarrow> exc" where "not_owned m = Exc LockNotOwnedError m"

definition do_release :: "'s lock_env \<Rightarrow> bytes \<Rightarrow> lock \<Rightarrow> 's \<Rightarrow> (exc + unit) \<times> 's" where
  "do_release E expected l s =
     (let (r, s1) = LUA_RELEASE_SCRIPT E (lock_name l) expected s in
      (if r = 0 then Inl (not_owned (''Cannot release a lock that'' @ [CHR 0x27] @ ''s no longer owned'')) else Inr (), s1))"

definition lock_release :: "'s lock_env \<Rightarrow> nat \<Rightarrow> lock \<Rightarrow> 's \<Rightarrow> (exc + unit) \<times> lock \<times> 's" where
  "lock_release E t l s =
     (case get_token l t of
        Inl e \<Rightarrow> (Inl e, l, s)
      | Inr None \<Rightarrow> (Inl (lock_error (''Cannot release a lock that'' @ [CHR 0x27] @ ''s not owned or is already unlocked.'')), l, s)
      | Inr (Some expected) \<Rightarrow> (let (r, s1) = do_release E expected l s in (r, set_token None l t, s1)))"

definition do_extend :: "'s lock_env \<Rightarrow> bytes \<Rightarrow> rat \<Rightarrow> bool \<Rightarrow> lock \<Rightarrow> 's \<Rightarrow> (exc + bool) \<times> 's" where
  "do_extend E tok additional_time replace_ttl l s =
     (let (r, s1) = LUA_EXTEND_SCRIPT E (lock_name l) tok (trunc (additional_time * 1000)) replace_ttl s in
      (if r = 0 then Inl (not_owned (''Cannot extend a lock that'' @ [CHR 0x27] @ ''s no longer owned'')) else Inr True, s1))"

definition lock_extend :: "'s lock_env \<Rightarrow> nat \<Rightarrow> rat \<Rightarrow> bool \<Rightarrow> lock \<Rightarrow> 's \<Rightarrow> (exc + bool) \<times> 's" where
  "lock_extend E t additional_time replace_ttl l s =
     (case get_token l t of
        Inl e \<Rightarrow> (Inl e, s)
      | Inr None \<Rightarrow> (Inl (lock_error ''Cannot extend an unlocked lock''), s)
      | Inr (Some tok) \<Rightarrow>
          if lock_timeout l = None then (Inl (lock_error ''Cannot extend a lock with no timeout''), s)
          else do_extend E tok additional_time replace_ttl l s)"

definition do_reacquire :: "'s lock_env \<Rightarrow> bytes \<Rightarrow> rat \<Rightarrow> lock \<Rightarrow> 's \<Rightarrow> (exc + bool) \<times> 's" where
  "do_reacquire E tok timeout l s =
     (let (r, s1) = LUA_REACQUIRE_SCRIPT E (lock_name l) tok (trunc (timeout * 1000)) s in
      (if r = 0 then Inl (not_owned (''Cannot reacquire a lock that'' @ [CHR 0x27] @ ''s no longer owned'')) else Inr True, s1))"

definition lock_reacquire :: "'s lock_env \<Rightarrow> nat \<Rightarrow> lock \<Rightarrow> 's \<Rightarrow> (exc + bool) \<times> 's" where
  "lock_reacquire E t l s =
     (case get_token l t of
        Inl e \<Rightarrow> (Inl e, s)
      | Inr None \<Rightarrow> (Inl (lock_error ''Cannot reacquire an unlocked lock''), s)
      | Inr (Some tok) \<Rightarrow>
          (case lock_timeout l of
             None \<Rightarrow> (Inl (lock_error ''Cannot reacquire a lock with no timeout''), s)
           | Some timeout \<Rightarrow> do_reacquire E tok timeout l s))"

text \<open>The context manager.\<close>

definition lock_enter :: "'s lock_env \<Rightarrow> nat \<Rightarrow> lock \<Rightarrow> 's \<Rightarrow> ((exc + unit) \<times> lock \<times> 's) option" where
  "lock_enter E t l s =
     map_option (\<lambda>(r, l', s').
       (case r of Inl e \<Rightarrow> Inl e
        | Inr got \<Rightarrow> if got then Inr () else Inl (lock_error ''Unable to acquire lock within the time specified''), l', s'))
     (lock_acquire E t None None None None l s)"

definition lock_exit :: "'s lock_env \<Rightarrow> nat \<Rightarrow> lock \<Rightarrow> 's \<Rightarrow> (exc + unit) \<times> lock \<times> 's" where
  "lock_exit E t l s =
     (case lock_release E t l s of
        (Inl e, l', s') \<Rightarrow> (if is_exc e LockError \<and> \<not> raise_on_release_error l then Inr () else Inl e, l', s')
      | r \<Rightarrow> r)"

section \<open>The server and the clock\<close>

text \<open>The documented behaviour of the commands: \<open>SET NX\<close> sets a missing key only, \<open>DEL\<close> removes it, \<open>PEXPIRE\<close> never
  changes a value (a time that is not positive removes the key), and none of them touches another key.  A time
  to live that is not positive is an error of \<open>SET\<close>.\<close>

definition lock_server :: "'s lock_env \<Rightarrow> bool" where
  "lock_server E \<longleftrightarrow>
     (\<forall>s k v px. sv_value E s k = None \<longrightarrow>
        (\<exists>r s'. sv_set_nx E k v px s = (r, s') \<and> (case r of Inr b \<Rightarrow> b | Inl _ \<Rightarrow> True)
           \<and> sv_value E s' = (case r of Inr _ \<Rightarrow> (sv_value E s)(k \<mapsto> v) | Inl _ \<Rightarrow> sv_value E s)))
     \<and> (\<forall>s k v w px. sv_value E s k = Some w \<longrightarrow>
          (\<exists>r s'. sv_set_nx E k v px s = (r, s') \<and> (case r of Inr b \<Rightarrow> \<not> b | Inl _ \<Rightarrow> True) \<and> sv_value E s' = sv_value E s))
     \<and> (\<forall>s k. sv_value E (sv_del E k s) = (sv_value E s)(k := None))
     \<and> (\<forall>s k t. sv_value E (sv_pexpire E k t s) = (if t > 0 then sv_value E s else (sv_value E s)(k := None)))"

text \<open>The clock does not go back, and sleeping takes its time.\<close>

definition lock_clock :: "'s lock_env \<Rightarrow> bool" where
  "lock_clock E \<longleftrightarrow>
     (\<forall>s now s' now' s''. sv_monotonic E s = (now, s') \<longrightarrow>
        (\<forall>t. 0 < t \<longrightarrow> (\<forall>k v px r s1. sv_set_nx E k v px (sv_sleep E t s') = (r, s1) \<longrightarrow>
           sv_monotonic E s1 = (now', s'') \<longrightarrow> now' \<ge> now + t)))"

section \<open>Clients together\<close>

text \<open>Any number of lock objects, used by any number of threads, on one server.  A step is one request, by a slot
  (object and token slot), or a change of the server's own doing: keys expire.  \<open>U\<close> is the set of tokens drawn so
  far; every attempt to acquire draws a new one, as \<open>uuid1\<close> does.\<close>

type_synonym 's lock_state = "'s \<times> (nat \<Rightarrow> lock) \<times> bytes set"

inductive lock_step :: "'s lock_env \<Rightarrow> (nat \<times> nat) option \<Rightarrow> 's lock_state \<Rightarrow> 's lock_state \<Rightarrow> bool" for E where
  step_acquire: "tok \<notin> U \<Longrightarrow> do_acquire E tok (L i) s = (Inr got, s') \<Longrightarrow>
    lock_step E (Some (i, slot (L i) t)) (s, L, U) (s', if got then L(i := set_token (Some tok) (L i) t) else L, insert tok U)"
| step_acquire_error: "do_acquire E tok (L i) s = (Inl e, s') \<Longrightarrow>
    lock_step E (Some (i, slot (L i) t)) (s, L, U) (s', L, insert tok U)"
| step_release: "lock_release E t (L i) s = (r, l', s') \<Longrightarrow>
    lock_step E (Some (i, slot (L i) t)) (s, L, U) (s', L(i := l'), U)"
| step_extend: "lock_extend E t x b (L i) s = (r, s') \<Longrightarrow> lock_step E (Some (i, slot (L i) t)) (s, L, U) (s', L, U)"
| step_reacquire: "lock_reacquire E t (L i) s = (r, s') \<Longrightarrow> lock_step E (Some (i, slot (L i) t)) (s, L, U) (s', L, U)"
| step_expire: "sv_value E s' \<subseteq>\<^sub>m sv_value E s \<Longrightarrow> lock_step E None (s, L, U) (s', L, U)"

definition lock_steps :: "'s lock_env \<Rightarrow> 's lock_state \<Rightarrow> 's lock_state \<Rightarrow> bool" where
  "lock_steps E = (\<lambda>x y. \<exists>a. lock_step E a x y)\<^sup>*\<^sup>*"

text \<open>Slot \<open>k\<close> of object \<open>i\<close> holds its lock: \<open>owned\<close> would say so.\<close>

definition holds :: "'s lock_env \<Rightarrow> 's lock_state \<Rightarrow> nat \<times> nat \<Rightarrow> bool" where
  "holds E st ik =
     (case st of (s, L, U) \<Rightarrow>
        \<exists>tok. local (L (fst ik)) (snd ik) = Some (Some tok) \<and> sv_value E s (lock_name (L (fst ik))) = Some tok)"

definition tokens_ok :: "(nat \<Rightarrow> lock) \<Rightarrow> bytes set \<Rightarrow> bool" where
  "tokens_ok L U \<longleftrightarrow>
     (\<forall>i k tok. local (L i) k = Some (Some tok) \<longrightarrow> tok \<in> U)
     \<and> (\<forall>i k j m tok. local (L i) k = Some (Some tok) \<longrightarrow> local (L j) m = Some (Some tok) \<longrightarrow> (i, k) = (j, m))"

lemma set_token_simps [simp]:
  "lock_name (set_token v l t) = lock_name l" "local (set_token v l t) = (local l)(slot l t := Some v)"
  "lock_timeout (set_token v l t) = lock_timeout l" "slot (set_token v l t) u = slot l u"
  by (simp_all add: set_token_def slot_def)

lemma release_lock: "fst (snd (lock_release E t l s)) = l \<or> fst (snd (lock_release E t l s)) = set_token None l t"
  by (auto simp: lock_release_def split: sum.splits option.splits prod.splits)

lemma local_at:
  "local ((L(i := set_token v (L i) t)) j) m = (if j = i \<and> m = slot (L i) t then Some v else local (L j) m)"
  by simp

lemma tokens_new:
  assumes "tokens_ok L U" "tok \<notin> U"
  shows "tokens_ok (L(i := set_token (Some tok) (L i) t)) (insert tok U)"
  unfolding tokens_ok_def local_at
proof (intro conjI allI impI)
  fix j m j' m' tk
  assume "(if j = i \<and> m = slot (L i) t then Some (Some tok) else local (L j) m) = Some (Some tk)"
    "(if j' = i \<and> m' = slot (L i) t then Some (Some tok) else local (L j') m') = Some (Some tk)"
  then show "(j, m) = (j', m')" using assms unfolding tokens_ok_def by (metis (no_types, lifting) option.inject)
next
  fix j m tk
  assume "(if j = i \<and> m = slot (L i) t then Some (Some tok) else local (L j) m) = Some (Some tk)"
  then show "tk \<in> insert tok U" using assms unfolding tokens_ok_def by (auto split: if_splits)
qed

lemma tokens_clear:
  assumes "tokens_ok L U"
  shows "tokens_ok (L(i := set_token None (L i) t)) U"
  unfolding tokens_ok_def local_at
proof (intro conjI allI impI)
  fix j m j' m' tk
  assume "(if j = i \<and> m = slot (L i) t then Some None else local (L j) m) = Some (Some tk)"
    "(if j' = i \<and> m' = slot (L i) t then Some None else local (L j') m') = Some (Some tk)"
  then show "(j, m) = (j', m')" using assms unfolding tokens_ok_def by (auto split: if_splits)
next
  fix j m tk
  assume "(if j = i \<and> m = slot (L i) t then Some None else local (L j) m) = Some (Some tk)"
  then show "tk \<in> U" using assms unfolding tokens_ok_def by (auto split: if_splits)
qed

lemma tokens_insert: "tokens_ok L U \<Longrightarrow> tokens_ok L (insert tok U)"
  by (auto simp: tokens_ok_def)

lemma tokens_step:
  assumes st: "lock_step E a (s, L, U) (s', L', U')" and tk: "tokens_ok L U"
  shows "tokens_ok L' U'" "lock_name (L' j) = lock_name (L j)"
proof -
  from st have "tokens_ok L' U' \<and> lock_name (L' j) = lock_name (L j)"
  proof cases
    case (step_acquire tok i got t)
    then show ?thesis using tokens_new [OF tk] tokens_insert [OF tk] by simp
  next
    case (step_release t i r l')
    then have "l' = L i \<or> l' = set_token None (L i) t" using release_lock [of E t "L i" s] by simp
    then show ?thesis by (elim disjE) (use step_release(2,3) tokens_clear [OF tk] tk in simp_all)
  qed (use tk tokens_insert in auto)
  then show "tokens_ok L' U'" "lock_name (L' j) = lock_name (L j)" by simp_all
qed

lemma server_cases:
  assumes "lock_server E"
  obtains (free) r s' where "sv_value E s k = None" "sv_set_nx E k v px s = (r, s')" "\<And>b. r = Inr b \<Longrightarrow> b"
    "sv_value E s' = (case r of Inr _ \<Rightarrow> (sv_value E s)(k \<mapsto> v) | Inl _ \<Rightarrow> sv_value E s)"
  | (held) w r s' where "sv_value E s k = Some w" "sv_set_nx E k v px s = (r, s')" "\<And>b. r = Inr b \<Longrightarrow> \<not> b"
    "sv_value E s' = sv_value E s"
proof (cases "sv_value E s k")
  case None
  obtain r s' where "sv_set_nx E k v px s = (r, s')" "case r of Inr b \<Rightarrow> b | Inl _ \<Rightarrow> True"
    "sv_value E s' = (case r of Inr _ \<Rightarrow> (sv_value E s)(k \<mapsto> v) | Inl _ \<Rightarrow> sv_value E s)"
    using assms None unfolding lock_server_def by blast
  then show thesis using free [of r s'] None by (cases r) simp_all
next
  case (Some w)
  obtain r s' where "sv_set_nx E k v px s = (r, s')" "case r of Inr b \<Rightarrow> \<not> b | Inl _ \<Rightarrow> True" "sv_value E s' = sv_value E s"
    using assms Some unfolding lock_server_def by blast
  then show thesis using held [of w r s'] Some by (cases r) simp_all
qed

text \<open>A request on a key that holds another value than the requester's token changes no value.\<close>

lemma scripts_other:
  assumes "sv_value E s k = Some v" "v \<noteq> tok"
  shows "snd (LUA_RELEASE_SCRIPT E k tok s) = s" "snd (LUA_EXTEND_SCRIPT E k tok ms rp s) = s"
    "snd (LUA_REACQUIRE_SCRIPT E k tok ms s) = s"
  using assms by (simp_all add: LUA_RELEASE_SCRIPT_def LUA_EXTEND_SCRIPT_def LUA_REACQUIRE_SCRIPT_def)

text \<open>And it never touches another key.\<close>

lemma scripts_key:
  assumes "lock_server E" "k' \<noteq> k"
  shows "sv_value E (snd (LUA_RELEASE_SCRIPT E k tok s)) k' = sv_value E s k'"
    "sv_value E (snd (LUA_EXTEND_SCRIPT E k tok ms rp s)) k' = sv_value E s k'"
    "sv_value E (snd (LUA_REACQUIRE_SCRIPT E k tok ms s)) k' = sv_value E s k'"
  using assms
  by (auto simp: LUA_RELEASE_SCRIPT_def LUA_EXTEND_SCRIPT_def LUA_REACQUIRE_SCRIPT_def lock_server_def)

lemma requests_value:
  "snd (snd (lock_release E t l s)) = s \<or>
     (\<exists>tok. get_token l t = Inr (Some tok) \<and> snd (snd (lock_release E t l s)) = snd (LUA_RELEASE_SCRIPT E (lock_name l) tok s))"
  "snd (lock_extend E t x b l s) = s \<or>
     (\<exists>tok ms. get_token l t = Inr (Some tok) \<and> snd (lock_extend E t x b l s) = snd (LUA_EXTEND_SCRIPT E (lock_name l) tok ms b s))"
  "snd (lock_reacquire E t l s) = s \<or>
     (\<exists>tok ms. get_token l t = Inr (Some tok) \<and> snd (lock_reacquire E t l s) = snd (LUA_REACQUIRE_SCRIPT E (lock_name l) tok ms s))"
  by (auto simp: lock_release_def lock_extend_def lock_reacquire_def do_release_def do_extend_def do_reacquire_def Let_def
      split: sum.splits option.splits prod.splits) (metis snd_conv)+

lemma get_token_local: "get_token l t = Inr (Some tok) \<longleftrightarrow> local l (slot l t) = Some (Some tok)"
  by (auto simp: get_token_def split: option.splits)

text \<open>What another slot does leaves the value that a holder has put there.\<close>

lemma holder_value:
  assumes srv: "lock_server E" and tk: "tokens_ok L U"
    and st: "lock_step E (Some (j, m)) (s, L, U) (s', L', U')" "(j, m) \<noteq> (i, k)"
    and h: "local (L i) k = Some (Some tok)" "sv_value E s (lock_name (L i)) = Some tok"
  shows "sv_value E s' (lock_name (L i)) = Some tok"
proof -
  have other: "tk' \<noteq> tok" if "get_token (L j) t = Inr (Some tk')" "m = slot (L j) t" for tk' t
    using that tk h(1) st(2) unfolding tokens_ok_def get_token_local by metis
  have script: "sv_value E (snd (LUA_RELEASE_SCRIPT E (lock_name (L j)) tk' s)) (lock_name (L i)) = Some tok \<and>
      sv_value E (snd (LUA_EXTEND_SCRIPT E (lock_name (L j)) tk' ms rp s)) (lock_name (L i)) = Some tok \<and>
      sv_value E (snd (LUA_REACQUIRE_SCRIPT E (lock_name (L j)) tk' ms s)) (lock_name (L i)) = Some tok"
    if "tk' \<noteq> tok" for tk' ms rp
  proof (cases "lock_name (L j) = lock_name (L i)")
    case True
    have v: "sv_value E s (lock_name (L j)) = Some tok" using h(2) True by simp
    note o = scripts_other [OF v that [symmetric]]
    show ?thesis unfolding o using h(2) by simp
  next
    case False
    then have "lock_name (L i) \<noteq> lock_name (L j)" by simp
    note o = scripts_key [OF srv this]
    show ?thesis unfolding o using h(2) by simp
  qed
  have set_nx: "sv_value E s1 (lock_name (L i)) = Some tok" if "do_acquire E v (L j) s = (r, s1)" for v r s1
  proof -
    have "\<exists>px. sv_set_nx E (lock_name (L j)) v px s = (r, s1)" using that unfolding do_acquire_def by (rule exI)
    then obtain px where px: "sv_set_nx E (lock_name (L j)) v px s = (r, s1)" by (elim exE)
    show ?thesis
    proof (rule server_cases [OF srv, of s "lock_name (L j)" v px])
      fix r' s2
      assume free: "sv_value E s (lock_name (L j)) = None" "sv_set_nx E (lock_name (L j)) v px s = (r', s2)"
        "sv_value E s2 = (case r' of Inl _ \<Rightarrow> sv_value E s | Inr _ \<Rightarrow> (sv_value E s)(lock_name (L j) \<mapsto> v))"
      then have "lock_name (L j) \<noteq> lock_name (L i)" using h(2) by auto
      then show ?thesis using free px h(2) by (cases r') auto
    next
      fix w r' s2
      assume "sv_set_nx E (lock_name (L j)) v px s = (r', s2)" "sv_value E s2 = sv_value E s"
      then show ?thesis using px h(2) by simp
    qed
  qed
  from st(1) show ?thesis
  proof cases
    case (step_acquire tk' got t)
    then show ?thesis using set_nx by blast
  next
    case (step_acquire_error tk' e t)
    then show ?thesis using set_nx by blast
  next
    case (step_release t r l')
    then show ?thesis using requests_value(1) [of E t "L j" s] other script h(2) by (metis snd_conv)
  next
    case (step_extend t x b r)
    then show ?thesis using requests_value(2) [of E t x b "L j" s] other script h(2) by (metis snd_conv)
  next
    case (step_reacquire t r)
    then show ?thesis using requests_value(3) [of E t "L j" s] other script h(2) by (metis snd_conv)
  qed
qed

lemma holds_step:
  assumes "lock_server E" "tokens_ok L U" "lock_step E (Some jm) (s, L, U) (s', L', U')" "jm \<noteq> ik" "holds E (s, L, U) ik"
  shows "holds E (s', L', U') ik"
proof -
  obtain j m where jm: "jm = (j, m)" by fastforce
  obtain i k where ik: "ik = (i, k)" by fastforce
  obtain tok where h: "local (L i) k = Some (Some tok)" "sv_value E s (lock_name (L i)) = Some tok"
    using assms(5) by (auto simp: holds_def ik)
  have v: "sv_value E s' (lock_name (L i)) = Some tok"
    using holder_value [OF assms(1,2) assms(3) [unfolded jm] _ h] assms(4) jm ik by simp
  have "local (L' i) k = local (L i) k"
    using assms(3) unfolding jm
  proof cases
    case (step_release t r l')
    have "l' = L j \<or> l' = set_token None (L j) t" using release_lock [of E t "L j" s] step_release by simp
    then show ?thesis using step_release assms(4) jm ik by auto
  qed (use assms(4) jm ik in auto)
  then show ?thesis using v h(1) tokens_step(2) [OF assms(3,2), of i] by (simp add: holds_def ik)
qed

lemma steps_tokens: "lock_steps E (s, L, U) (s', L', U') \<Longrightarrow> tokens_ok L U \<Longrightarrow> tokens_ok L' U'"
  unfolding lock_steps_def
proof (induction "(s', L', U')" arbitrary: s' L' U' rule: rtranclp_induct)
  case (step st)
  obtain s1 L1 U1 where st: "st = (s1, L1, U1)" by (cases st)
  obtain a where "lock_step E a (s1, L1, U1) (s', L', U')" using step.hyps(2) unfolding st by (elim exE)
  then show ?case by (rule tokens_step(1)) (rule step.hyps(3) [OF st step.prems])
qed simp

section \<open>Properties\<close>


text \<open>A server to try the theorems on: the keys, a clock, a counter for the tokens.\<close>

definition demo_server :: "((string \<Rightarrow> bytes option) \<times> rat \<times> nat) lock_env" where
  "demo_server = \<lparr> sv_value = (\<lambda>(m, _, _). m),
     sv_set_nx = (\<lambda>k v px (m, c, n). case px of Some t \<Rightarrow> if t \<le> 0 then (Inl (Exc ResponseError ''invalid expire time''), (m, c, n))
          else if m k = None then (Inr True, (m(k \<mapsto> v), c, n)) else (Inr False, (m, c, n))
        | None \<Rightarrow> if m k = None then (Inr True, (m(k \<mapsto> v), c, n)) else (Inr False, (m, c, n))),
     sv_del = (\<lambda>k (m, c). (m(k := None), c)), sv_pttl = (\<lambda>_ _. 1),
     sv_pexpire = (\<lambda>k t (m, c). (if t > 0 then m else m(k := None), c)),
     sv_monotonic = (\<lambda>(m, c, n). (c, (m, c, n))), sv_sleep = (\<lambda>t (m, c, n). (m, c + t, n)),
     sv_uuid = (\<lambda>(m, c, n). (nat_repr n, (m, c, Suc n))), sv_encoder = utf8_encoder False \<rparr>"

definition demo_lock :: lock where
  "demo_lock = lock_init ''l'' None 1 True (Some 3) False True 0"

lemma demo_lock_server: "lock_server demo_server"
  by (auto simp: lock_server_def demo_server_def split: option.splits)


lemma acquire_loop_returns:
  assumes clock: "lock_clock E" and sleep: "0 < sleep"
  shows "(\<And>r s1 now s2. do_acquire E tok l s = (r, s1) \<Longrightarrow> sv_monotonic E s1 = (now, s2) \<Longrightarrow> stop \<le> now + of_nat n * sleep)
    \<Longrightarrow> \<exists>r l' s'. acquire_loop E t tok sleep b (Some stop) l s = Some (r, l', s') \<and>
        (r = Inr True \<longrightarrow> l' = set_token (Some tok) l t) \<and> (r \<noteq> Inr True \<longrightarrow> l' = l)"
proof (induction n arbitrary: s)
  case 0
  obtain r s1 where a: "do_acquire E tok l s = (r, s1)" by fastforce
  obtain now s2 where m: "sv_monotonic E s1 = (now, s2)" by fastforce
  have "stop \<le> now" using 0 [OF a m] by simp
  then show ?case using sleep by (subst acquire_loop.simps) (simp add: a m split: sum.split)
next
  case (Suc n)
  obtain r s1 where a: "do_acquire E tok l s = (r, s1)" by fastforce
  obtain now s2 where m: "sv_monotonic E s1 = (now, s2)" by fastforce
  have now: "stop \<le> now + of_nat (Suc n) * sleep" using Suc.prems [OF a m] .
  have "\<exists>r l' s'. acquire_loop E t tok sleep b (Some stop) l (sv_sleep E sleep s2) = Some (r, l', s') \<and>
        (r = Inr True \<longrightarrow> l' = set_token (Some tok) l t) \<and> (r \<noteq> Inr True \<longrightarrow> l' = l)"
  proof (rule Suc.IH)
    fix r' s1' now' s2'
    assume "do_acquire E tok l (sv_sleep E sleep s2) = (r', s1')" "sv_monotonic E s1' = (now', s2')"
    then have "now + sleep \<le> now'" using clock m sleep unfolding lock_clock_def do_acquire_def by blast
    then show "stop \<le> now' + of_nat n * sleep" using now by (simp add: algebra_simps)
  qed
  then show ?case by (subst acquire_loop.simps) (auto simp: a m split: sum.split)
qed

text \<open>
  C33: \<open>acquire\<close> with a blocking timeout returns: with a clock that does not go back and a positive \<open>sleep\<close>, the loop
  ends, whatever the other clients do meanwhile, and it gives \<open>True\<close> exactly when the token is stored in the slot.
\<close>

theorem acquire_returns:
  assumes "lock_clock E" "0 < (case sleep of None \<Rightarrow> lock_sleep l | Some x \<Rightarrow> x)"
    "(case blocking_timeout of None \<Rightarrow> lock_blocking_timeout l | Some x \<Rightarrow> Some x) = Some w"
  shows "\<exists>r l' s'. lock_acquire E t sleep blocking blocking_timeout None l s = Some (r, l', s') \<and>
    (r = Inr True \<longrightarrow> (\<exists>tok. get_token l' t = Inr (Some tok))) \<and> (r \<noteq> Inr True \<longrightarrow> l' = l)"
proof -
  let ?sl = "case sleep of None \<Rightarrow> lock_sleep l | Some x \<Rightarrow> x"
  let ?bl = "case blocking of None \<Rightarrow> lock_blocking l | Some b \<Rightarrow> b"
  obtain u s1 where u: "sv_uuid E s = (u, s1)" by fastforce
  obtain now s2 where m: "sv_monotonic E s1 = (now, s2)" by fastforce
  obtain r1 s3 where a: "do_acquire E u l s2 = (r1, s3)" by fastforce
  obtain now' s4 where m': "sv_monotonic E s3 = (now', s4)" by fastforce
  define n where "n = nat \<lceil>(now + w - now') / ?sl\<rceil>"
  have "(now + w - now') / ?sl \<le> of_nat n" unfolding n_def by (rule of_nat_ceiling)
  then have "now + w \<le> now' + of_nat n * ?sl" using assms(2) by (simp add: pos_divide_le_eq algebra_simps)
  then have "\<exists>r l' s'. acquire_loop E t u ?sl ?bl (Some (now + w)) l s2 = Some (r, l', s') \<and>
        (r = Inr True \<longrightarrow> l' = set_token (Some u) l t) \<and> (r \<noteq> Inr True \<longrightarrow> l' = l)"
    using acquire_loop_returns [OF assms(1,2), of u l s2 "now + w" n t ?bl] a m' by simp
  moreover have "lock_acquire E t sleep blocking blocking_timeout None l s = acquire_loop E t u ?sl ?bl (Some (now + w)) l s2"
    using assms(3) by (simp add: lock_acquire_def u m Let_def)
  moreover have "get_token (set_token (Some u) l t) t = Inr (Some u)" by (simp add: get_token_def)
  ultimately show ?thesis by metis
qed

theorem acquire_returns_witness:
  "\<exists>r l' s'. lock_acquire demo_server 0 None None None None demo_lock ([''l'' \<mapsto> ''other''], 0, 0) = Some (r, l', s')"
proof -
  have "lock_clock demo_server"
    by (auto simp: lock_clock_def demo_server_def split: if_splits option.splits)
  moreover have "0 < (case None of None \<Rightarrow> lock_sleep demo_lock | Some x \<Rightarrow> x)"
    "(case None of None \<Rightarrow> lock_blocking_timeout demo_lock | Some x \<Rightarrow> Some x) = Some 3"
    by (simp_all add: demo_lock_def lock_init_def)
  ultimately show ?thesis using acquire_returns by metis
qed

end
