(* ===== verification/Client.thy ===== *)
theory Client
  imports Pool Callbacks
begin

text \<open>
  The client of \<open>redis/client.py\<close>: running a command (\<open>Redis\<close>), with its connection taken from the pool and given
  back, its retries and its reply parser; and the \<open>Pipeline\<close>.

  The client is generic in the connection, like the pool: \<open>client_class\<close> adds to the pool's \<open>conn_class\<close> what the client
  itself calls.  The records \<open>redis\<close> and \<open>pipe\<close> hold the attributes of the two classes; the pool is part of them.
  \<open>textwrap.shorten\<close>, which only words a message, is a field of the class.
\<close>

record ('c, 'g) client_class =
  cc_class :: "('c, 'g) conn_class"
  cc_send :: "pyval list \<Rightarrow> cb_opts \<Rightarrow> ('c \<times> 'g, unit) io"
  cc_read :: "bool \<Rightarrow> ('c \<times> 'g, pyval) io"
  cc_pack_commands :: "pyval list list \<Rightarrow> ('c \<times> 'g, pyval list) io"
  cc_send_packed :: "pyval list \<Rightarrow> ('c \<times> 'g, unit) io"
  cc_retry :: "'c \<Rightarrow> retry"
  cc_put_retry :: "retry \<Rightarrow> 'c \<Rightarrow> 'c"
  cc_retry_on_error :: "'c \<Rightarrow> exc_class list"
  cc_random :: "'c \<times> 'g \<Rightarrow> rat \<times> 'c \<times> 'g"
  cc_sleep :: "rat \<Rightarrow> 'c \<times> 'g \<Rightarrow> 'c \<times> 'g"
  cc_lib :: pylib
  cc_shorten :: "string \<Rightarrow> string"

record ('c, 'g) redis =
  r_pool :: "('c, 'g) pool"
  r_connection :: "nat option"
  single_connection_client :: bool
  single_lock_held :: bool
  response_callbacks :: "(string \<times> cb_entry) list"
  auto_close_connection_pool :: bool

section \<open>Callbacks by name\<close>

text \<open>\<open>CaseInsensitiveDict\<close>: keys are stored in upper case, an update adds to what is there.\<close>

definition ci_update :: "(string \<times> cb_entry) list \<Rightarrow> (string \<times> cb_entry) list \<Rightarrow> (string \<times> cb_entry) list" where
  "ci_update d table = d @ map (\<lambda>(k, v). (upper k, v)) table"

definition ci_get :: "(string \<times> cb_entry) list \<Rightarrow> pyval \<Rightarrow> cb_entry option res" where
  "ci_get d name =
     (case name of
        PStr n \<Rightarrow> Inr (cb_lookup d (upper n))
      | PBytes _ \<Rightarrow> Inr None
      | _ \<Rightarrow> Inl (attr_error name))"

definition init_callbacks :: "pyval \<Rightarrow> (string \<times> cb_entry) list" where
  "init_callbacks protocol =
     ci_update (ci_update [] RedisCallbacks)
       (if protocol \<in> {PStr ''3'', PInt 3} then RedisCallbacksRESP3 else RedisCallbacksRESP2)"

definition set_response_callback :: "string \<Rightarrow> cb_entry \<Rightarrow> ('c, 'g, 'z) redis_scheme \<Rightarrow> ('c, 'g, 'z) redis_scheme" where
  "set_response_callback name cb s = s\<lparr>response_callbacks := response_callbacks s @ [(upper name, cb)]\<rparr>"

section \<open>Using the pool and a connection\<close>

definition on_pool :: "(('c, 'g) pool, 'a) io \<Rightarrow> (('c, 'g, 'z) redis_scheme, 'a) io" where
  "on_pool m s = (case m (r_pool s) of None \<Rightarrow> None | Some (r, p) \<Rightarrow> Some (r, s\<lparr>r_pool := p\<rparr>))"

definition on_connection :: "nat \<Rightarrow> ('c \<times> 'g, 'a) io \<Rightarrow> (('c, 'g, 'z) redis_scheme, 'a) io" where
  "on_connection i m = on_pool (on_conn i m)"

text \<open>\<open>try: m finally: f\<close>: an exception of \<open>f\<close> replaces the outcome.\<close>

definition io_finally :: "('s, 'a) io \<Rightarrow> ('s, unit) io \<Rightarrow> ('s, 'a) io" where
  "io_finally m f s =
     (case m s of None \<Rightarrow> None
      | Some (r, s1) \<Rightarrow>
          (case f s1 of None \<Rightarrow> None
           | Some (Inl e, s2) \<Rightarrow> Some (Inl e, s2)
           | Some (Inr _, s2) \<Rightarrow> Some (r, s2)))"

definition conn_get :: "nat \<Rightarrow> ('c \<times> 'g \<Rightarrow> 'a \<times> 'c \<times> 'g) \<Rightarrow> ('c, 'g, 'z) redis_scheme \<Rightarrow> 'a \<times> ('c, 'g, 'z) redis_scheme" where
  "conn_get i f s =
     (let (x, c, g) = f (objs (r_pool s) i, shared (r_pool s)) in
      (x, s\<lparr>r_pool := (r_pool s)\<lparr>objs := (objs (r_pool s))(i := c), shared := g\<rparr>\<rparr>))"

text \<open>\<open>conn.retry.call_with_retry(m, fail)\<close>\<close>

definition client_retry ::
  "('c, 'g) client_class \<Rightarrow> nat \<Rightarrow> (('c, 'g, 'z) redis_scheme, 'a) io \<Rightarrow> (exc \<Rightarrow> (('c, 'g, 'z) redis_scheme, unit) io) \<Rightarrow>
   (('c, 'g, 'z) redis_scheme, 'a) io" where
  "client_retry C i m fail s =
     (case call_with_retry m fail (conn_get i (cc_random C)) (\<lambda>t s. snd (conn_get i (\<lambda>cg. ((), cc_sleep C t cg)) s))
         (cc_retry C (objs (r_pool s) i)) s of
        None \<Rightarrow> None
      | Some (r, rt, s') \<Rightarrow> Some (r, snd (conn_get i (\<lambda>(c, g). ((), cc_put_retry C rt c, g)) s')))"

definition disconnect_connection :: "('c, 'g) client_class \<Rightarrow> nat \<Rightarrow> (('c, 'g, 'z) redis_scheme, unit) io" where
  "disconnect_connection C i = io_upd (\<lambda>s. s\<lparr>r_pool := conn_update i (co_disconnect (cc_class C)) (r_pool s)\<rparr>)"

definition isinstance_any :: "exc \<Rightarrow> exc_class list \<Rightarrow> bool" where
  "isinstance_any e cs \<longleftrightarrow> list_ex (is_exc e) cs"

section \<open>Running a command\<close>

definition EMPTY_RESPONSE :: string where "EMPTY_RESPONSE = ''EMPTY_RESPONSE''"
definition NEVER_DECODE :: string where "NEVER_DECODE = ''NEVER_DECODE''"

definition has_opt :: "cb_opts \<Rightarrow> string \<Rightarrow> bool" where
  "has_opt opts k \<longleftrightarrow> map_of (opt_values opts) k \<noteq> None"

definition pop_opts :: "string list \<Rightarrow> cb_opts \<Rightarrow> cb_opts" where
  "pop_opts ks opts = opts\<lparr>opt_values := filter (\<lambda>(k, _). k \<notin> set ks) (opt_values opts)\<rparr>"

definition parse_reply :: "('c, 'g) client_class \<Rightarrow> pyval \<Rightarrow> cb_opts \<Rightarrow> pyval \<Rightarrow> (('c, 'g, 'z) redis_scheme, pyval) io" where
  "parse_reply C command_name opts response =
     io_get (\<lambda>s. io_lift (res_bind (ci_get (response_callbacks s) command_name) (\<lambda>cb.
       case cb of None \<Rightarrow> Inr response | Some cb \<Rightarrow> call_callback cb (cc_lib C) opts response)))"

definition parse_response ::
  "('c, 'g) client_class \<Rightarrow> nat \<Rightarrow> pyval \<Rightarrow> cb_opts \<Rightarrow> (('c, 'g, 'z) redis_scheme, pyval) io" where
  "parse_response C i command_name opts =
     io_bind
       (io_try (io_bind (on_connection i (cc_read C (has_opt opts NEVER_DECODE))) (\<lambda>v. io_ret (Inr v)))
          (\<lambda>e. if is_exc e ResponseError
               then (case map_of (opt_values opts) EMPTY_RESPONSE of Some v \<Rightarrow> io_ret (Inl v) | None \<Rightarrow> io_raise e)
               else io_raise e))
       (\<lambda>r. case r of
          Inl v \<Rightarrow> io_ret v
        | Inr response \<Rightarrow> parse_reply C command_name (pop_opts [NEVER_DECODE, EMPTY_RESPONSE, ''keys''] opts) response)"

definition send_command_parse_response ::
  "('c, 'g) client_class \<Rightarrow> (nat \<Rightarrow> pyval \<Rightarrow> cb_opts \<Rightarrow> (('c, 'g, 'z) redis_scheme, pyval) io) \<Rightarrow> nat \<Rightarrow> pyval list \<Rightarrow> cb_opts \<Rightarrow>
   (('c, 'g, 'z) redis_scheme, pyval) io" where
  "send_command_parse_response C parse i args opts =
     io_seq (on_connection i (cc_send C args opts)) (parse i (hd args) opts)"

definition disconnect_raise :: "('c, 'g) client_class \<Rightarrow> nat \<Rightarrow> exc \<Rightarrow> (('c, 'g, 'z) redis_scheme, unit) io" where
  "disconnect_raise C i error =
     io_seq (disconnect_connection C i) (io_get (\<lambda>s.
       if \<not> isinstance_any error (cc_retry_on_error C (objs (r_pool s) i)) then io_raise error else io_ret ()))"

text \<open>The lock of a single-connection client: waiting for it while holding it never ends.\<close>

definition acquire_single :: "(('c, 'g, 'z) redis_scheme, unit) io" where
  "acquire_single s =
     (if \<not> single_connection_client s then Some (Inr (), s)
      else if single_lock_held s then None else Some (Inr (), s\<lparr>single_lock_held := True\<rparr>))"

definition release_single :: "(('c, 'g, 'z) redis_scheme, unit) io" where
  "release_single s =
     Some (Inr (), if single_connection_client s then s\<lparr>single_lock_held := False\<rparr> else s)"

definition own_or_pooled :: "('c, 'g) client_class \<Rightarrow> (('c, 'g, 'z) redis_scheme, nat) io" where
  "own_or_pooled C =
     io_get (\<lambda>s. case r_connection s of Some c \<Rightarrow> io_ret c | None \<Rightarrow> on_pool (get_connection (cc_class C)))"

definition execute_command ::
  "('c, 'g) client_class \<Rightarrow> pyval list \<Rightarrow> cb_opts \<Rightarrow> (('c, 'g, 'z) redis_scheme, pyval) io" where
  "execute_command C args opts =
     (if args = [] then io_raise index_error
      else io_bind (own_or_pooled C) (\<lambda>conn.
        io_seq acquire_single
          (io_finally
            (client_retry C conn (send_command_parse_response C (parse_response C) conn args opts) (disconnect_raise C conn))
            (io_seq release_single
              (io_get (\<lambda>s. io_when (r_connection s = None) (on_pool (release (cc_class C) conn))))))))"

definition redis_close :: "('c, 'g) client_class \<Rightarrow> (('c, 'g, 'z) redis_scheme, unit) io" where
  "redis_close C =
     io_seq
       (io_get (\<lambda>s. case r_connection s of
          None \<Rightarrow> io_ret ()
        | Some c \<Rightarrow> io_seq (io_upd (\<lambda>s. s\<lparr>r_connection := None\<rparr>)) (on_pool (release (cc_class C) c))))
       (io_get (\<lambda>s. io_when (auto_close_connection_pool s) (on_pool (pool_disconnect (cc_class C) True))))"

section \<open>Pipelines\<close>

text \<open>A queued command is its arguments and its options.  \<open>scripts\<close> is the set of scripts used, each its digest and
  its text.\<close>

record ('c, 'g) pipe = "('c, 'g) redis" +
  command_stack :: "(pyval list \<times> cb_opts) list"
  scripts :: "(pyval \<times> pyval) list"
  watching :: bool
  explicit_transaction :: bool
  transaction :: bool

definition pipe_init :: "('c, 'g) redis \<Rightarrow> bool \<Rightarrow> ('c, 'g) pipe" where
  "pipe_init r transaction_arg =
     redis.extend (r\<lparr>r_connection := None, single_connection_client := False, single_lock_held := False\<rparr>)
       (pipe.fields [] [] False False transaction_arg)"

definition pipe_reset :: "('c, 'g) client_class \<Rightarrow> (('c, 'g) pipe, unit) io" where
  "pipe_reset C =
     io_seq (io_upd (\<lambda>s. s\<lparr>command_stack := [], scripts := []\<rparr>))
       (io_seq
         (io_get (\<lambda>s. case r_connection s of
            None \<Rightarrow> io_ret ()
          | Some c \<Rightarrow> io_when (watching s)
              (io_try
                (io_seq (on_connection c (cc_send C [PStr ''UNWATCH''] no_opts))
                  (io_bind (on_connection c (cc_read C False)) (\<lambda>_. io_ret ())))
                (\<lambda>e. if is_exc e ConnectionError then disconnect_connection C c else io_raise e))))
         (io_seq (io_upd (\<lambda>s. s\<lparr>watching := False, explicit_transaction := False\<rparr>))
           (io_get (\<lambda>s. case r_connection s of
              None \<Rightarrow> io_ret ()
            | Some c \<Rightarrow> io_seq (on_pool (release (cc_class C) c)) (io_upd (\<lambda>s. s\<lparr>r_connection := None\<rparr>))))))"

definition pipe_multi :: "(('c, 'g) pipe, unit) io" where
  "pipe_multi =
     io_get (\<lambda>s.
       if explicit_transaction s then io_raise (Exc RedisError ''Cannot issue nested calls to MULTI'')
       else if command_stack s \<noteq> []
       then io_raise (Exc RedisError ''Commands without an initial WATCH have already been issued'')
       else io_upd (\<lambda>s. s\<lparr>explicit_transaction := True\<rparr>))"

definition UNWATCH_COMMANDS :: "string list" where "UNWATCH_COMMANDS = [''DISCARD'', ''EXEC'', ''UNWATCH'']"

definition pipe_parse_response :: "('c, 'g) client_class \<Rightarrow> nat \<Rightarrow> pyval \<Rightarrow> cb_opts \<Rightarrow> (('c, 'g) pipe, pyval) io" where
  "pipe_parse_response C i command_name opts =
     io_bind (parse_response C i command_name opts) (\<lambda>result.
       io_seq (io_upd (\<lambda>s.
           if command_name \<in> PStr ` set UNWATCH_COMMANDS then s\<lparr>watching := False\<rparr>
           else if command_name = PStr ''WATCH'' then s\<lparr>watching := True\<rparr> else s))
         (io_ret result))"

definition watch_died :: exc where
  "watch_died = Exc WatchError ''A ConnectionError occurred on while watching one or more keys''"

definition disconnect_reset_raise :: "('c, 'g) client_class \<Rightarrow> nat \<Rightarrow> exc \<Rightarrow> (('c, 'g) pipe, unit) io" where
  "disconnect_reset_raise C i error =
     io_seq (disconnect_connection C i) (io_get (\<lambda>s.
       if watching s then io_seq (pipe_reset C) (io_raise watch_died)
       else if \<not> isinstance_any error (cc_retry_on_error C (objs (r_pool s) i))
       then io_seq (pipe_reset C) (io_raise error) else io_ret ()))"

text \<open>The connection of the pipeline, taken from the pool for the first command that needs one.\<close>

definition pipe_connection :: "('c, 'g) client_class \<Rightarrow> (('c, 'g) pipe, nat) io" where
  "pipe_connection C =
     io_get (\<lambda>s. case r_connection s of
        Some c \<Rightarrow> io_ret c
      | None \<Rightarrow> io_bind (on_pool (get_connection (cc_class C))) (\<lambda>c.
          io_seq (io_upd (\<lambda>s. s\<lparr>r_connection := Some c\<rparr>)) (io_ret c)))"

definition immediate_execute_command ::
  "('c, 'g) client_class \<Rightarrow> pyval list \<Rightarrow> cb_opts \<Rightarrow> (('c, 'g) pipe, pyval) io" where
  "immediate_execute_command C args opts =
     io_bind (pipe_connection C) (\<lambda>c.
       client_retry C c (send_command_parse_response C (pipe_parse_response C) c args opts) (disconnect_reset_raise C c))"

definition pipeline_execute_command :: "pyval list \<Rightarrow> cb_opts \<Rightarrow> (('c, 'g) pipe, pyval) io" where
  "pipeline_execute_command args opts =
     io_seq (io_upd (\<lambda>s. s\<lparr>command_stack := command_stack s @ [(args, opts)]\<rparr>)) (io_ret (PObj ''Pipeline''))"

definition pipe_execute_command :: "('c, 'g) client_class \<Rightarrow> pyval list \<Rightarrow> cb_opts \<Rightarrow> (('c, 'g) pipe, pyval) io" where
  "pipe_execute_command C args opts =
     io_get (\<lambda>s.
       if (watching s \<or> (args \<noteq> [] \<and> hd args = PStr ''WATCH'')) \<and> \<not> explicit_transaction s
       then (if args = [] then io_raise index_error else immediate_execute_command C args opts)
       else if \<not> watching s \<and> args = [] then io_raise index_error
       else pipeline_execute_command args opts)"

definition pipe_watch :: "('c, 'g) client_class \<Rightarrow> pyval list \<Rightarrow> (('c, 'g) pipe, pyval) io" where
  "pipe_watch C names =
     io_get (\<lambda>s.
       if explicit_transaction s then io_raise (Exc RedisError ''Cannot issue a WATCH after a MULTI'')
       else pipe_execute_command C (PStr ''WATCH'' # names) no_opts)"

definition pipe_unwatch :: "('c, 'g) client_class \<Rightarrow> (('c, 'g) pipe, pyval) io" where
  "pipe_unwatch C =
     io_get (\<lambda>s.
       if \<not> watching s then io_ret (PBool True)
       else io_bind (pipe_execute_command C [PStr ''UNWATCH''] no_opts) (\<lambda>v.
         io_ret (if truthy v then v else PBool True)))"

definition pipe_discard :: "('c, 'g) client_class \<Rightarrow> (('c, 'g) pipe, unit) io" where
  "pipe_discard C = io_bind (pipe_execute_command C [PStr ''DISCARD''] no_opts) (\<lambda>_. io_ret ())"

section \<open>Executing the queue\<close>

text \<open>\<open>str(str_if_bytes(v))\<close> of an argument: text, bytes and numbers; of anything else the name of its type.\<close>

definition safe_str :: "pyval \<Rightarrow> string" where
  "safe_str v =
     (case str_if_bytes v of
        PStr s \<Rightarrow> s
      | PInt n \<Rightarrow> int_repr n
      | PFloat r \<Rightarrow> r
      | PNone \<Rightarrow> ''None''
      | PBool b \<Rightarrow> (if b then ''True'' else ''False'')
      | w \<Rightarrow> type_name w)"

text \<open>The error with the number of its command; an error without arguments makes \<open>args[0]\<close> fail.\<close>

definition annotate_exception :: "('c, 'g) client_class \<Rightarrow> exc \<Rightarrow> nat \<Rightarrow> pyval list \<Rightarrow> exc res" where
  "annotate_exception C e number cmd =
     (if exc_msg e = [] then Inl index_error
      else Inr (Exc (exc_cls e) (''Command # '' @ nat_repr number @ '' ('' @ cc_shorten C (join '' '' (map safe_str cmd))
        @ '') of pipeline caused error: '' @ exc_msg e)))"

fun raise_first_error :: "('c, 'g) client_class \<Rightarrow> nat \<Rightarrow> (pyval list \<times> cb_opts) list \<Rightarrow> pyval list \<Rightarrow> unit res" where
  "raise_first_error C i cmds [] = Inr ()"
| "raise_first_error C i cmds (r # rs) =
     (case r of
        PExc e \<Rightarrow>
          if is_exc e ResponseError
          then res_bind (nth_item cmds 0) (\<lambda>c. res_bind (annotate_exception C e (Suc i) (fst c)) Inl)
          else raise_first_error C (Suc i) (tl cmds) rs
      | _ \<Rightarrow> raise_first_error C (Suc i) (tl cmds) rs)"

text \<open>\<open>raise v\<close>: only an exception can be raised.\<close>

definition raise_value :: "pyval \<Rightarrow> exc" where
  "raise_value v = (case v of PExc e \<Rightarrow> e | _ \<Rightarrow> Exc PyTypeError ''exceptions must derive from BaseException'')"

text \<open>The replies to the queued commands of a transaction, normally \<open>QUEUED\<close>: what went wrong, by position.\<close>

fun queued_replies ::
  "('c, 'g) client_class \<Rightarrow> nat \<Rightarrow> nat \<Rightarrow> (pyval list \<times> cb_opts) list \<Rightarrow> (('c, 'g) pipe, (nat \<times> pyval) list) io" where
  "queued_replies C conn i [] = io_ret []"
| "queued_replies C conn i ((args, opts) # cmds) =
     (case map_of (opt_values opts) EMPTY_RESPONSE of
        Some v \<Rightarrow> io_bind (queued_replies C conn (Suc i) cmds) (\<lambda>es. io_ret ((i, v) # es))
      | None \<Rightarrow>
          io_bind
            (io_try (io_bind (pipe_parse_response C conn (PStr ''_'') no_opts) (\<lambda>_. io_ret []))
              (\<lambda>e. if is_exc e ResponseError
                   then io_bind (io_lift (annotate_exception C e (Suc i) args)) (\<lambda>e'. io_ret [(i, PExc e')])
                   else io_raise e))
            (\<lambda>es1. io_bind (queued_replies C conn (Suc i) cmds) (\<lambda>es2. io_ret (es1 @ es2))))"

text \<open>\<open>xs.insert(i, x)\<close>\<close>

definition insert_at :: "nat \<times> 'a \<Rightarrow> 'a list \<Rightarrow> 'a list" where
  "insert_at ix xs = take (fst ix) xs @ snd ix # drop (fst ix) xs"

definition is_exception :: "pyval \<Rightarrow> bool" where
  "is_exception v = (case v of PExc e \<Rightarrow> is_exc e PyException | _ \<Rightarrow> False)"

text \<open>The reply callbacks, run by hand over the replies of \<open>EXEC\<close>.\<close>

definition run_callbacks_on ::
  "('c, 'g) client_class \<Rightarrow> (string \<times> cb_entry) list \<Rightarrow> (pyval \<times> pyval list \<times> cb_opts) list \<Rightarrow> pyval list res" where
  "run_callbacks_on C cbs rcs =
     traverse (\<lambda>(r, args, opts).
       if is_exception r then Inr r
       else res_bind (nth_item args 0) (\<lambda>name.
         res_bind (ci_get cbs name) (\<lambda>cb.
           case cb of None \<Rightarrow> Inr r | Some cb \<Rightarrow> call_callback cb (cc_lib C) (pop_opts [''keys''] opts) r))) rcs"

definition execute_transaction ::
  "('c, 'g) client_class \<Rightarrow> nat \<Rightarrow> (pyval list \<times> cb_opts) list \<Rightarrow> bool \<Rightarrow> (('c, 'g) pipe, pyval) io" where
  "execute_transaction C conn commands raise_on_error =
     (let to_send = map fst (filter (\<lambda>(_, opts). \<not> has_opt opts EMPTY_RESPONSE)
            ([([PStr ''MULTI''], no_opts)] @ commands @ [([PStr ''EXEC''], no_opts)])) in
      io_bind (on_connection conn (cc_pack_commands C to_send)) (\<lambda>all_cmds.
      io_seq (on_connection conn (cc_send_packed C all_cmds))
        (io_bind
          (io_try (io_bind (pipe_parse_response C conn (PStr ''_'') no_opts) (\<lambda>_. io_ret []))
            (\<lambda>e. if is_exc e ResponseError then io_ret [(0, PExc e)] else io_raise e))
          (\<lambda>multi_errors.
        io_bind (queued_replies C conn 0 commands) (\<lambda>queue_errors.
        let errors = multi_errors @ queue_errors in
        io_bind
          (io_try (pipe_parse_response C conn (PStr ''_'') no_opts)
            (\<lambda>e. if is_exc e ExecAbortError
                 then (case errors of [] \<Rightarrow> io_raise e | x # _ \<Rightarrow> io_raise (raise_value (snd x)))
                 else io_raise e))
          (\<lambda>response.
        io_seq (io_upd (\<lambda>s. s\<lparr>watching := False\<rparr>))
          (case response of
             PNone \<Rightarrow> io_raise (Exc WatchError ''Watched variable changed.'')
           | PList xs \<Rightarrow>
               let results = fold insert_at errors xs in
               if length results \<noteq> length commands
               then io_seq (disconnect_connection C conn)
                      (io_raise (Exc ResponseError ''Wrong number of response items from pipeline execution''))
               else io_seq (io_lift (if raise_on_error then raise_first_error C 0 commands results else Inr ()))
                 (io_get (\<lambda>s. io_bind (io_lift (run_callbacks_on C (response_callbacks s) (zip results commands)))
                    (\<lambda>data. io_ret (PList data))))
           | v \<Rightarrow> io_raise (if errors \<noteq> [] then attr_error v else type_error v))))))))"

fun pipeline_replies ::
  "('c, 'g) client_class \<Rightarrow> nat \<Rightarrow> (pyval list \<times> cb_opts) list \<Rightarrow> (('c, 'g) pipe, pyval list) io" where
  "pipeline_replies C conn [] = io_ret []"
| "pipeline_replies C conn ((args, opts) # cmds) =
     io_bind
       (io_try (io_bind (io_lift (nth_item args 0)) (\<lambda>name. pipe_parse_response C conn name opts))
         (\<lambda>e. if is_exc e ResponseError then io_ret (PExc e) else io_raise e))
       (\<lambda>r. io_bind (pipeline_replies C conn cmds) (\<lambda>rs. io_ret (r # rs)))"

definition execute_pipeline ::
  "('c, 'g) client_class \<Rightarrow> nat \<Rightarrow> (pyval list \<times> cb_opts) list \<Rightarrow> bool \<Rightarrow> (('c, 'g) pipe, pyval) io" where
  "execute_pipeline C conn commands raise_on_error =
     io_bind (on_connection conn (cc_pack_commands C (map fst commands))) (\<lambda>all_cmds.
     io_seq (on_connection conn (cc_send_packed C all_cmds))
       (io_bind (pipeline_replies C conn commands) (\<lambda>response.
         io_seq (io_lift (if raise_on_error then raise_first_error C 0 commands response else Inr ()))
           (io_ret (PList response)))))"

fun load_missing :: "('c, 'g) client_class \<Rightarrow> ((pyval \<times> pyval) \<times> pyval) list \<Rightarrow> (('c, 'g) pipe, unit) io" where
  "load_missing C [] = io_ret ()"
| "load_missing C (((sha, txt), exists) # rest) =
     io_seq
       (io_when (\<not> truthy exists)
         (io_bind (immediate_execute_command C [PStr ''SCRIPT LOAD'', txt] no_opts) (\<lambda>sha'.
           io_upd (\<lambda>s. s\<lparr>scripts := map (\<lambda>x. if x = (sha, txt) then (sha', txt) else x) (scripts s)\<rparr>))))
       (load_missing C rest)"

definition load_scripts :: "('c, 'g) client_class \<Rightarrow> (('c, 'g) pipe, unit) io" where
  "load_scripts C =
     io_get (\<lambda>s.
       io_bind (immediate_execute_command C (PStr ''SCRIPT EXISTS'' # map fst (scripts s)) no_opts) (\<lambda>exists.
       io_bind (io_lift (iterate exists)) (\<lambda>bs.
         io_when (\<not> list_all truthy bs) (load_missing C (zip (scripts s) bs)))))"

definition disconnect_raise_reset :: "('c, 'g) client_class \<Rightarrow> nat \<Rightarrow> exc \<Rightarrow> (('c, 'g) pipe, unit) io" where
  "disconnect_raise_reset C i error =
     io_seq (disconnect_connection C i) (io_get (\<lambda>s.
       if watching s then io_raise watch_died
       else if \<not> isinstance_any error (cc_retry_on_error C (objs (r_pool s) i))
       then io_seq (pipe_reset C) (io_raise error) else io_ret ()))"

definition pipe_execute :: "('c, 'g) client_class \<Rightarrow> bool \<Rightarrow> (('c, 'g) pipe, pyval) io" where
  "pipe_execute C raise_on_error =
     io_get (\<lambda>s0.
       let stack = command_stack s0 in
       if stack = [] \<and> \<not> watching s0 then io_ret (PList [])
       else io_seq (io_when (scripts s0 \<noteq> []) (load_scripts C))
         (io_bind (pipe_connection C) (\<lambda>conn.
           io_get (\<lambda>s. io_finally
             (client_retry C conn
               ((if transaction s \<or> explicit_transaction s then execute_transaction else execute_pipeline)
                  C conn stack raise_on_error)
               (disconnect_raise_reset C conn))
             (pipe_reset C)))))"

text \<open>\<open>Redis.transaction(func, *watches)\<close>: again as long as a watched key changes.  \<open>sleep\<close> is \<open>time.sleep\<close>.\<close>

definition transaction_round ::
  "('c, 'g) client_class \<Rightarrow> (('c, 'g) pipe, pyval) io \<Rightarrow> pyval list \<Rightarrow> bool \<Rightarrow> (('c, 'g) pipe, pyval) io" where
  "transaction_round C func watches value_from_callable =
     io_seq (io_when (watches \<noteq> []) (io_bind (pipe_watch C watches) (\<lambda>_. io_ret ())))
       (io_bind func (\<lambda>func_value. io_bind (pipe_execute C True) (\<lambda>exec_value.
          io_ret (if value_from_callable then func_value else exec_value))))"

partial_function (option) transaction_loop ::
  "('c, 'g) client_class \<Rightarrow> (rat \<Rightarrow> ('c, 'g) pipe \<Rightarrow> ('c, 'g) pipe) \<Rightarrow> (('c, 'g) pipe, pyval) io \<Rightarrow> pyval list \<Rightarrow> bool \<Rightarrow>
   rat option \<Rightarrow> ('c, 'g) pipe \<Rightarrow> ((exc + pyval) \<times> ('c, 'g) pipe) option" where
  "transaction_loop C sleep func watches value_from_callable watch_delay s =
     (case transaction_round C func watches value_from_callable s of
        None \<Rightarrow> None
      | Some (Inl e, s') \<Rightarrow>
          if is_exc e WatchError
          then transaction_loop C sleep func watches value_from_callable watch_delay
                 (case watch_delay of None \<Rightarrow> s' | Some t \<Rightarrow> if t > 0 then sleep t s' else s')
          else Some (Inl e, s')
      | Some (Inr v, s') \<Rightarrow> Some (Inr v, s'))"

definition run_transaction ::
  "('c, 'g) client_class \<Rightarrow> (rat \<Rightarrow> ('c, 'g) pipe \<Rightarrow> ('c, 'g) pipe) \<Rightarrow> (('c, 'g) pipe, pyval) io \<Rightarrow> pyval list \<Rightarrow> bool \<Rightarrow>
   rat option \<Rightarrow> (('c, 'g) pipe, pyval) io" where
  "run_transaction C sleep func watches value_from_callable watch_delay =
     io_finally (transaction_loop C sleep func watches value_from_callable watch_delay) (pipe_reset C)"

end
