(* ===== verification/Cmd_Helpers.thy ===== *)
theory Cmd_Helpers
  imports Pyops
begin

text \<open>
  \<open>redis/commands/helpers.py\<close>: the argument and reply helpers that the command classes, the modules and
  publish/subscribe share.
\<close>

section \<open>Arguments\<close>

text \<open>A single key or an iterable of keys, followed by further keys.\<close>

definition list_or_args :: "pyval \<Rightarrow> pyval list \<Rightarrow> pyval list" where
  "list_or_args ks args =
     (if is_text ks then [ks] else (case iterate ks of Inl _ \<Rightarrow> [ks] | Inr xs \<Rightarrow> xs)) @ args"

section \<open>Replies\<close>

definition nativestr :: "pyval \<Rightarrow> pyval" where
  "nativestr x = (let r = str_if_bytes x in if r = PStr ''null'' then PNone else r)"

definition delist :: "pyval \<Rightarrow> pyval res" where
  "delist x = (if x = PNone then Inr PNone else res_map (\<lambda>xs. PList (map nativestr xs)) (iterate x))"

text \<open>\<open>int\<close>, or else \<open>float\<close>, or else text; an object that is neither a number nor text gives \<open>None\<close>.\<close>

definition optimistic :: "pylib \<Rightarrow> pyval \<Rightarrow> pyval res" where
  "optimistic L item =
     (case py_int_value L item of
        Inr n \<Rightarrow> Inr n
      | Inl e \<Rightarrow>
          if is_exc e PyValueError
          then (case to_float L item of
                  Inr x \<Rightarrow> Inr x
                | Inl e' \<Rightarrow> if is_exc e' PyValueError then Inr (nativestr item) else Inl e')
          else if is_exc e PyTypeError then Inr PNone
          else Inl e)"

definition parse_to_list :: "pylib \<Rightarrow> pyval \<Rightarrow> pyval res" where
  "parse_to_list L response =
     (if response = PNone then Inr (PList [])
      else res_bind (iterate response) (\<lambda>xs. res_map PList (traverse (optimistic L) xs)))"

text \<open>A profile reply, two elements at a time.  The result is a dictionary whose entry \<open>"Child iterators"\<close> is a list;
  a list in the place of a name is added to that entry, which must be there by then.\<close>

abbreviation CHILDREN :: string where "CHILDREN \<equiv> ''Child iterators''"

definition add_child :: "(pyval \<times> pyval) list \<Rightarrow> pyval \<Rightarrow> (pyval \<times> pyval) list res" where
  "add_child d c =
     res_bind (lookup d CHILDREN) (\<lambda>v. case v of
        PList cs \<Rightarrow> Inr (put d CHILDREN (PList (cs @ [c])))
      | _ \<Rightarrow> Inl (attr_error v))"

definition float_or_self :: "pylib \<Rightarrow> pyval \<Rightarrow> pyval res" where
  "float_or_self L v =
     (case to_float L v of
        Inr x \<Rightarrow> Inr x
      | Inl e \<Rightarrow> if is_exc e PyTypeError \<or> is_exc e PyValueError then Inr v else Inl e)"

definition as_list :: "pyval \<Rightarrow> pyval list option" where
  "as_list v = (case v of PList xs \<Rightarrow> Some xs | _ \<Rightarrow> None)"

lemma as_list_size: "as_list v = Some xs \<Longrightarrow> size_list size xs < size v"
  by (cases v) (auto simp: as_list_def)

text \<open>An \<open>IndexError\<close> of a nested list in the place of a value is caught with the one that is expected there.\<close>

function list_to_dict :: "pylib \<Rightarrow> (pyval \<times> pyval) list \<Rightarrow> pyval list \<Rightarrow> (pyval \<times> pyval) list res" where
  "list_to_dict L d [] = Inr d"
| "list_to_dict L d [x] =
     (case as_list x of
        Some xs \<Rightarrow>
          res_bind (lookup d CHILDREN) (\<lambda>_. res_bind (list_to_dict L [] xs) (\<lambda>c. add_child d (PDict c)))
      | None \<Rightarrow> Inl index_error)"
| "list_to_dict L d (x # y # rest) =
     (case as_list x of
        Some xs \<Rightarrow>
          res_bind (lookup d CHILDREN) (\<lambda>_.
          res_bind (list_to_dict L [] xs) (\<lambda>c.
          res_bind (add_child d (PDict c)) (\<lambda>d1.
            case as_list y of
              Some ys \<Rightarrow>
                (case list_to_dict L [] ys of
                   Inr c' \<Rightarrow> res_bind (add_child d1 (PDict c')) (\<lambda>d2. list_to_dict L d2 rest)
                 | Inl e \<Rightarrow> if is_exc e PyIndexError then list_to_dict L d1 rest else Inl e)
            | None \<Rightarrow> list_to_dict L d1 rest)))
      | None \<Rightarrow>
          (case as_list y of
             Some ys \<Rightarrow>
               res_bind (list_to_dict L [] ys) (\<lambda>c. list_to_dict L (put d CHILDREN (PList [PDict c])) rest)
           | None \<Rightarrow> res_bind (float_or_self L y) (\<lambda>v. res_bind (set_item d (x, v)) (\<lambda>d'. list_to_dict L d' rest))))"
  by pat_completeness auto
termination
  by (relation "measure (\<lambda>(_, _, xs). size_list size xs)") (auto dest!: as_list_size)

definition parse_list_to_dict :: "pylib \<Rightarrow> pyval \<Rightarrow> pyval res" where
  "parse_list_to_dict L response = res_bind (elements response) (\<lambda>xs. res_map PDict (list_to_dict L [] xs))"

text \<open>Text keys for bytes keys: a key is moved to the end, over an equal text key.\<close>

definition decode_key :: "(pyval \<times> pyval) list \<Rightarrow> pyval \<times> pyval \<Rightarrow> (pyval \<times> pyval) list res" where
  "decode_key d kv =
     (case kv of
        (PBytes b, v) \<Rightarrow>
          (case utf8_decode b of
             None \<Rightarrow> Inl (Exc PyUnicodeDecodeError ''utf-8'')
           | Some s \<Rightarrow> Inr (filter (\<lambda>(k, _). k \<noteq> PBytes b) (put d s v)))
      | _ \<Rightarrow> Inr d)"

definition decode_dict_keys :: "pyval \<Rightarrow> pyval res" where
  "decode_dict_keys v = res_bind (items_of v) (\<lambda>d. res_map PDict (res_fold decode_key d d))"

section \<open>Facts\<close>

lemma list_or_args_simps [simp]:
  "list_or_args (PStr s) args = PStr s # args" "list_or_args (PBytes b) args = PBytes b # args"
  "list_or_args (PInt n) args = PInt n # args" "list_or_args (PList xs) args = xs @ args"
  "list_or_args (PTuple xs) args = xs @ args"
  by (simp_all add: list_or_args_def is_text_def iterate_def)

end
