(* ===== verification/PubSub.thy ===== *)
theory PubSub
  imports Client Cmd_Helpers
begin

text \<open>
  \<open>PubSub\<close> and \<open>PubSubWorkerThread\<close> of \<open>redis/client.py\<close>.

  The three families of subscriptions (channels, patterns, shard channels) have the same code over different attributes; here
  one definition with the family as an argument stands for each of the three methods.  Dictionaries of subscriptions are
  association lists in insertion order: the name, as replies show it, and the handler.

  A connection calls back: when it connects it runs \<open>on_connect\<close>, which subscribes again and so uses the connection.  The
  operations of the class \<open>ps_class\<close> therefore take the registered callback as their first argument, and \<open>on_connect\<close> is
  defined with a bound on how deeply such calls nest (the recursion limit of the interpreter).  Waiting for the object's lock while
  holding it never ends: \<open>None\<close>.
\<close>

datatype family = Channels | Patterns | Shards

record 'c pubsub =
  ps_world :: 'c
  ps_connected :: bool
  ps_lock_held :: bool
  health_check_response_counter :: int
  subs :: "family \<Rightarrow> (pyval \<times> nat option) list"
  pending :: "family \<Rightarrow> pyval list"
  subscribed :: bool
  ps_ignore :: bool
  ps_encoder :: encoder

type_synonym 'c ps_io = "('c pubsub, unit) io"

record 'c ps_class =
  pc_get_connection :: "'c ps_io"
  pc_setup :: "'c ps_io"
  pc_release :: "'c ps_io"
  pc_disconnect :: "'c \<Rightarrow> 'c"
  pc_connect :: "'c ps_io \<Rightarrow> 'c ps_io"
  pc_send :: "'c ps_io \<Rightarrow> pyval list \<Rightarrow> bool \<Rightarrow> 'c ps_io"
  pc_can_read :: "'c ps_io \<Rightarrow> rat option \<Rightarrow> ('c pubsub, bool) io"
  pc_read :: "'c ps_io \<Rightarrow> bool \<Rightarrow> bool \<Rightarrow> ('c pubsub, pyval) io"
  pc_health_due :: "'c \<Rightarrow> bool \<times> 'c"
  pc_socket_timeout :: "'c \<Rightarrow> rat option"
  pc_retry :: "'c \<Rightarrow> retry"
  pc_put_retry :: "retry \<Rightarrow> 'c \<Rightarrow> 'c"
  pc_retry_on_error :: "'c \<Rightarrow> exc_class list"
  pc_random :: "'c \<Rightarrow> rat \<times> 'c"
  pc_sleep :: "rat \<Rightarrow> 'c \<Rightarrow> 'c"
  pc_wait :: "rat option \<Rightarrow> ('c pubsub, bool \<times> rat) io"
  pc_handler :: "nat \<Rightarrow> pyval \<Rightarrow> 'c ps_io"
  pc_running :: "'c \<Rightarrow> bool"
  pc_set_running :: "bool \<Rightarrow> 'c \<Rightarrow> 'c"

text \<open>A new object: \<open>__init__\<close> ends with \<open>reset\<close>.\<close>

definition ps_init :: "encoder \<Rightarrow> bool \<Rightarrow> 'c \<Rightarrow> 'c pubsub" where
  "ps_init E ignore_subscribe_messages w =
     \<lparr> ps_world = w, ps_connected = False, ps_lock_held = False, health_check_response_counter = 0, subs = (\<lambda>_. []),
       pending = (\<lambda>_. []), subscribed = False, ps_ignore = ignore_subscribe_messages, ps_encoder = E \<rparr>"

section \<open>Dictionaries of subscriptions\<close>

text \<open>\<open>d[k] = v\<close>, \<open>d.pop(k, None)\<close>, \<open>k in d\<close>; \<open>set.update\<close> and \<open>set.difference_update\<close>.\<close>

fun sub_set :: "(pyval \<times> 'v) list \<Rightarrow> pyval \<Rightarrow> 'v \<Rightarrow> (pyval \<times> 'v) list" where
  "sub_set [] k v = [(k, v)]"
| "sub_set ((k', v') # d) k v = (if norm_key k' = norm_key k then (k', v) # d else (k', v') # sub_set d k v)"

definition sub_pop :: "pyval \<Rightarrow> (pyval \<times> 'v) list \<Rightarrow> (pyval \<times> 'v) list" where
  "sub_pop k d = filter (\<lambda>(k', _). norm_key k' \<noteq> norm_key k) d"

fun sub_get :: "(pyval \<times> 'v) list \<Rightarrow> pyval \<Rightarrow> 'v option" where
  "sub_get [] k = None"
| "sub_get ((k', v') # d) k = (if norm_key k' = norm_key k then Some v' else sub_get d k)"

definition sub_update :: "(pyval \<times> 'v) list \<Rightarrow> (pyval \<times> 'v) list \<Rightarrow> (pyval \<times> 'v) list" where
  "sub_update d new = fold (\<lambda>(k, v) d. sub_set d k v) new d"

definition in_names :: "pyval \<Rightarrow> pyval list \<Rightarrow> bool" where
  "in_names k ks \<longleftrightarrow> norm_key k \<in> norm_key ` set ks"

definition names_add :: "pyval list \<Rightarrow> pyval list \<Rightarrow> pyval list" where
  "names_add ks new = fold (\<lambda>k ks. if in_names k ks then ks else ks @ [k]) new ks"

definition names_diff :: "pyval list \<Rightarrow> pyval list \<Rightarrow> pyval list" where
  "names_diff ks away = filter (\<lambda>k. \<not> in_names k away) ks"

text \<open>\<open>dict.fromkeys(args)\<close>\<close>

definition from_keys :: "pyval list \<Rightarrow> (pyval \<times> nat option) list res" where
  "from_keys ks =
     res_fold (\<lambda>d k. if hashable k then Inr (sub_set d k None) else Inl (type_error k)) [] ks"

section \<open>The connection\<close>

definition ps_upd_world :: "('c \<Rightarrow> 'c) \<Rightarrow> 'c ps_io" where
  "ps_upd_world f = io_upd (\<lambda>s. s\<lparr>ps_world := f (ps_world s)\<rparr>)"

definition ps_reset :: "'c ps_class \<Rightarrow> 'c ps_io" where
  "ps_reset K =
     io_seq (io_get (\<lambda>s. io_when (ps_connected s)
         (io_seq (ps_upd_world (pc_disconnect K))
           (io_seq (pc_release K) (io_upd (\<lambda>s. s\<lparr>ps_connected := False\<rparr>))))))
       (io_upd (\<lambda>s. s\<lparr>health_check_response_counter := 0, subs := (\<lambda>_. []), pending := (\<lambda>_. []), subscribed := False\<rparr>))"

definition disconnect_raise_connect :: "'c ps_class \<Rightarrow> 'c ps_io \<Rightarrow> exc \<Rightarrow> 'c ps_io" where
  "disconnect_raise_connect K cb error =
     io_seq (ps_upd_world (pc_disconnect K)) (io_get (\<lambda>s.
       if \<not> isinstance_any error (pc_retry_on_error K (ps_world s)) then io_raise error else pc_connect K cb))"

definition ps_execute :: "'c ps_class \<Rightarrow> 'c ps_io \<Rightarrow> ('c pubsub, 'a) io \<Rightarrow> ('c pubsub, 'a) io" where
  "ps_execute K cb m s =
     (case call_with_retry m (disconnect_raise_connect K cb)
         (\<lambda>s. let (x, w) = pc_random K (ps_world s) in (x, s\<lparr>ps_world := w\<rparr>))
         (\<lambda>t s. s\<lparr>ps_world := pc_sleep K t (ps_world s)\<rparr>) (pc_retry K (ps_world s)) s of
        None \<Rightarrow> None
      | Some (r, rt, s') \<Rightarrow> Some (r, s'\<lparr>ps_world := pc_put_retry K rt (ps_world s')\<rparr>))"

definition HEALTH_CHECK_MESSAGE :: string where "HEALTH_CHECK_MESSAGE = ''redis-py-health-check''"

text \<open>With the default codec the encoded message is the message itself.\<close>

definition is_health_check_response :: "encoder \<Rightarrow> pyval \<Rightarrow> bool" where
  "is_health_check_response E response \<longleftrightarrow>
     response = (if decode_responses E then PList [PStr ''pong'', PStr HEALTH_CHECK_MESSAGE]
                 else PList [PBytes ''pong'', PBytes HEALTH_CHECK_MESSAGE])
     \<or> response = PBytes HEALTH_CHECK_MESSAGE"

definition no_connection_error :: exc where
  "no_connection_error = Exc PyRuntimeError (''pubsub connection not set: did you forget to call subscribe() or psubscribe()?'')"

definition ps_check_health :: "'c ps_class \<Rightarrow> 'c ps_io \<Rightarrow> 'c ps_io" where
  "ps_check_health K cb =
     io_get (\<lambda>s.
       if \<not> ps_connected s then io_raise no_connection_error
       else let (due, w) = pc_health_due K (ps_world s) in
         io_seq (ps_upd_world (\<lambda>_. w))
           (io_when due
             (io_seq (pc_send K cb [PStr ''PING'', PStr HEALTH_CHECK_MESSAGE] False)
               (io_upd (\<lambda>s. s\<lparr>health_check_response_counter := health_check_response_counter s + 1\<rparr>)))))"

text \<open>Up to \<open>ttl\<close> attempts to read the health check replies that are still owed.\<close>

fun clean_health_check_responses :: "'c ps_class \<Rightarrow> 'c ps_io \<Rightarrow> nat \<Rightarrow> 'c ps_io" where
  "clean_health_check_responses K cb 0 = io_ret ()"
| "clean_health_check_responses K cb (Suc ttl) =
     io_get (\<lambda>s.
       if health_check_response_counter s \<le> 0 then io_ret ()
       else io_seq
         (io_bind (ps_execute K cb (pc_can_read K cb (pc_socket_timeout K (ps_world s)))) (\<lambda>ready.
           io_when ready
             (io_bind (ps_execute K cb (pc_read K cb True False)) (\<lambda>response.
               if is_health_check_response (ps_encoder s) response
               then io_upd (\<lambda>s. s\<lparr>health_check_response_counter := health_check_response_counter s - 1\<rparr>)
               else io_raise (Exc PubSubError ''A non health check response was cleaned by execute_command'')))))
         (clean_health_check_responses K cb ttl))"

text \<open>\<open>with self._lock\<close>\<close>

definition with_ps_lock :: "'c ps_io \<Rightarrow> 'c ps_io" where
  "with_ps_lock m s =
     (if ps_lock_held s then None
      else io_finally m (io_upd (\<lambda>s. s\<lparr>ps_lock_held := False\<rparr>)) (s\<lparr>ps_lock_held := True\<rparr>))"

definition ps_execute_command :: "'c ps_class \<Rightarrow> 'c ps_io \<Rightarrow> pyval list \<Rightarrow> 'c ps_io" where
  "ps_execute_command K cb args =
     io_seq (io_get (\<lambda>s. io_when (\<not> ps_connected s)
         (io_seq (pc_get_connection K) (io_seq (io_upd (\<lambda>s. s\<lparr>ps_connected := True\<rparr>)) (pc_setup K)))))
       (io_get (\<lambda>s.
         let check_health = \<not> subscribed s in
         io_seq (io_when (\<not> subscribed s) (clean_health_check_responses K cb 10))
           (with_ps_lock (ps_execute K cb (pc_send K cb args check_health)))))"

section \<open>Subscribing\<close>

definition normalize_keys :: "encoder \<Rightarrow> (pyval \<times> nat option) list \<Rightarrow> (pyval \<times> nat option) list res" where
  "normalize_keys E d =
     res_fold (\<lambda>acc (k, v). res_bind (encode E k) (\<lambda>b. res_bind (decode E False b) (\<lambda>k'. Inr (sub_set acc k' v)))) [] d"

definition SUBSCRIBE :: "family \<Rightarrow> string" where
  "SUBSCRIBE f = (case f of Channels \<Rightarrow> ''SUBSCRIBE'' | Patterns \<Rightarrow> ''PSUBSCRIBE'' | Shards \<Rightarrow> ''SSUBSCRIBE'')"

definition UNSUBSCRIBE :: "family \<Rightarrow> string" where
  "UNSUBSCRIBE f = (case f of Channels \<Rightarrow> ''UNSUBSCRIBE'' | Patterns \<Rightarrow> ''PUNSUBSCRIBE'' | Shards \<Rightarrow> ''SUNSUBSCRIBE'')"

definition spread_args :: "pyval list \<Rightarrow> pyval list" where
  "spread_args args = (case args of [] \<Rightarrow> [] | a # rest \<Rightarrow> list_or_args a rest)"

definition record_subscriptions :: "family \<Rightarrow> (pyval \<times> nat option) list \<Rightarrow> 'c pubsub \<Rightarrow> 'c pubsub" where
  "record_subscriptions f new s =
     (let s1 = s\<lparr>subs := (subs s)(f := sub_update (subs s f) new)\<rparr>;
          s2 = (if subscribed s1 then s1 else s1\<lparr>subscribed := True, health_check_response_counter := 0\<rparr>) in
      s2\<lparr>pending := (pending s2)(f := names_diff (pending s2 f) (map fst new))\<rparr>)"

text \<open>Keyword arguments are bound to the parameters first: \<open>self\<close> is taken, \<open>ssubscribe\<close> has a parameter \<open>target_node\<close>.\<close>

definition bind_keywords :: "family \<Rightarrow> (string \<times> nat option) list \<Rightarrow> (string \<times> nat option) list res" where
  "bind_keywords f kwargs =
     (if list_ex (\<lambda>(k, _). k = ''self'') kwargs then Inl (Exc PyTypeError ''multiple values for argument self'')
      else Inr (if f = Shards then filter (\<lambda>(k, _). k \<noteq> ''target_node'') kwargs else kwargs))"

definition subscribe_with ::
  "'c ps_class \<Rightarrow> 'c ps_io \<Rightarrow> family \<Rightarrow> pyval list \<Rightarrow> (string \<times> nat option) list \<Rightarrow> 'c ps_io" where
  "subscribe_with K cb f args kwargs =
     io_bind (io_lift (bind_keywords f kwargs)) (\<lambda>kwargs. io_bind (io_lift (from_keys (spread_args args))) (\<lambda>d.
       let new = sub_update d (map (\<lambda>(k, v). (PStr k, v)) kwargs) in
       io_seq (ps_execute_command K cb (PStr (SUBSCRIBE f) # map fst new))
         (io_get (\<lambda>s. io_bind (io_lift (normalize_keys (ps_encoder s) new)) (\<lambda>names.
            io_upd (record_subscriptions f names))))))"

definition unsubscribe_with :: "'c ps_class \<Rightarrow> 'c ps_io \<Rightarrow> family \<Rightarrow> pyval list \<Rightarrow> 'c ps_io" where
  "unsubscribe_with K cb f args =
     (let args = spread_args args in
      io_seq
        (io_get (\<lambda>s. io_bind
          (if args \<noteq> [] then io_lift (res_bind (from_keys args) (normalize_keys (ps_encoder s))) else io_ret (subs s f))
          (\<lambda>names. io_upd (\<lambda>s. s\<lparr>pending := (pending s)(f := names_add (pending s f) (map fst names))\<rparr>))))
        (ps_execute_command K cb (PStr (UNSUBSCRIBE f) # args)))"

text \<open>Subscribing again, all the names of a family in one command: they become keyword arguments, so they must be text.\<close>

definition keyword_names :: "encoder \<Rightarrow> (pyval \<times> nat option) list \<Rightarrow> (string \<times> nat option) list res" where
  "keyword_names E d =
     res_bind (res_fold (\<lambda>acc (k, v). res_bind (decode E True k) (\<lambda>k'. Inr (sub_set acc k' v))) [] d)
       (traverse (\<lambda>(k, v). case k of PStr s \<Rightarrow> Inr (s, v) | _ \<Rightarrow> Inl (type_error k)))"

definition resubscribe :: "'c ps_class \<Rightarrow> 'c ps_io \<Rightarrow> family \<Rightarrow> 'c ps_io" where
  "resubscribe K cb f =
     io_get (\<lambda>s. io_when (subs s f \<noteq> [])
       (io_bind (io_lift (keyword_names (ps_encoder s) (subs s f))) (\<lambda>kwargs. subscribe_with K cb f [] kwargs)))"

primrec on_connect :: "'c ps_class \<Rightarrow> nat \<Rightarrow> 'c ps_io" where
  "on_connect K 0 = (\<lambda>s. None)"
| "on_connect K (Suc n) =
     io_seq (io_upd (\<lambda>s. s\<lparr>pending := (\<lambda>_. [])\<rparr>))
       (io_seq (resubscribe K (on_connect K n) Channels)
         (io_seq (resubscribe K (on_connect K n) Patterns) (resubscribe K (on_connect K n) Shards)))"

definition subscribe where "subscribe K n = subscribe_with K (on_connect K n) Channels"
definition psubscribe where "psubscribe K n = subscribe_with K (on_connect K n) Patterns"
definition ssubscribe where "ssubscribe K n = subscribe_with K (on_connect K n) Shards"
definition unsubscribe where "unsubscribe K n = unsubscribe_with K (on_connect K n) Channels"
definition punsubscribe where "punsubscribe K n = unsubscribe_with K (on_connect K n) Patterns"
definition sunsubscribe where "sunsubscribe K n = unsubscribe_with K (on_connect K n) Shards"

definition ps_ping :: "'c ps_class \<Rightarrow> nat \<Rightarrow> pyval \<Rightarrow> 'c ps_io" where
  "ps_ping K n message =
     ps_execute_command K (on_connect K n) (if message \<noteq> PNone then [PStr ''PING'', message] else [PStr ''PING''])"

section \<open>Messages\<close>

text \<open>The reply as a message: its type, pattern, channel and data.\<close>

definition message_parts :: "pyval \<Rightarrow> (pyval \<times> pyval \<times> pyval \<times> pyval) res" where
  "message_parts response =
     res_bind (getitem response 0) (\<lambda>t.
       let message_type = str_if_bytes t in
       if message_type = PStr ''pmessage'' then
         res_bind (getitem response 1) (\<lambda>p. res_bind (getitem response 2) (\<lambda>c. res_bind (getitem response 3) (\<lambda>d.
           Inr (message_type, p, c, d))))
       else if message_type = PStr ''pong'' then
         res_bind (getitem response 1) (\<lambda>d. Inr (message_type, PNone, PNone, d))
       else
         res_bind (getitem response 1) (\<lambda>c. res_bind (getitem response 2) (\<lambda>d. Inr (message_type, PNone, c, d))))"

definition UNSUBSCRIBE_MESSAGE_TYPES :: "(pyval \<times> family) list" where
  "UNSUBSCRIBE_MESSAGE_TYPES =
     [(PStr ''unsubscribe'', Channels), (PStr ''punsubscribe'', Patterns), (PStr ''sunsubscribe'', Shards)]"

definition PUBLISH_MESSAGE_TYPES :: "(pyval \<times> family) list" where
  "PUBLISH_MESSAGE_TYPES = [(PStr ''message'', Channels), (PStr ''pmessage'', Patterns), (PStr ''smessage'', Shards)]"

definition no_subscriptions :: "'c pubsub \<Rightarrow> bool" where
  "no_subscriptions s \<longleftrightarrow> subs s Channels = [] \<and> subs s Patterns = [] \<and> subs s Shards = []"

definition forget :: "family \<Rightarrow> pyval \<Rightarrow> 'c pubsub \<Rightarrow> 'c pubsub" where
  "forget f name s =
     (let s1 = (if in_names name (pending s f)
                then s\<lparr>pending := (pending s)(f := names_diff (pending s f) [name]), subs := (subs s)(f := sub_pop name (subs s f))\<rparr>
                else s) in
      if no_subscriptions s1 then s1\<lparr>subscribed := False\<rparr> else s1)"

definition handle_message :: "'c ps_class \<Rightarrow> pyval \<Rightarrow> bool \<Rightarrow> ('c pubsub, pyval) io" where
  "handle_message K response ignore_subscribe_messages =
     (if response = PNone then io_ret PNone
      else
       let response = (case response of
           PBytes b \<Rightarrow> if b \<noteq> ''PONG'' then PList [PBytes ''pong'', PBytes b] else PList [PBytes ''pong'', PBytes []]
         | v \<Rightarrow> v) in
       io_bind (io_lift (message_parts response)) (\<lambda>(message_type, pattern, channel, data).
       let message = obj [(''type'', message_type), (''pattern'', pattern), (''channel'', channel), (''data'', data)] in
       io_seq
         (case map_of UNSUBSCRIBE_MESSAGE_TYPES message_type of
            None \<Rightarrow> io_ret ()
          | Some f \<Rightarrow> if hashable channel then io_upd (forget f channel) else io_raise (type_error channel))
         (io_get (\<lambda>s.
           case map_of PUBLISH_MESSAGE_TYPES message_type of
             Some f \<Rightarrow>
               let name = (if f = Patterns then pattern else channel) in
               if \<not> hashable name then io_raise (type_error name)
               else (case sub_get (subs s f) name of
                       Some (Some h) \<Rightarrow> io_seq (pc_handler K h message) (io_ret PNone)
                     | _ \<Rightarrow> io_ret message)
           | None \<Rightarrow>
               if message_type \<noteq> PStr ''pong'' \<and> (ignore_subscribe_messages \<or> ps_ignore s) then io_ret PNone
               else io_ret message))))"

definition ps_parse_response :: "'c ps_class \<Rightarrow> nat \<Rightarrow> bool \<Rightarrow> rat option \<Rightarrow> ('c pubsub, pyval) io" where
  "ps_parse_response K n block timeout =
     (let cb = on_connect K n in
      io_seq (io_get (\<lambda>s. if \<not> ps_connected s then io_raise no_connection_error else ps_check_health K cb))
        (io_bind
          (ps_execute K cb
            (if \<not> block
             then io_bind (pc_can_read K cb timeout) (\<lambda>ready. if \<not> ready then io_ret PNone else pc_read K cb False True)
             else io_seq (pc_connect K cb) (pc_read K cb False True)))
          (\<lambda>response. io_get (\<lambda>s.
            if is_health_check_response (ps_encoder s) response
            then io_seq (io_upd (\<lambda>s. s\<lparr>health_check_response_counter := health_check_response_counter s - 1\<rparr>)) (io_ret PNone)
            else io_ret response))))"

text \<open>Waiting for a subscription returns whether there is one now and how long it took; with \<open>timeout=None\<close> the
  subtraction that follows fails.\<close>

definition get_message :: "'c ps_class \<Rightarrow> nat \<Rightarrow> bool \<Rightarrow> rat option \<Rightarrow> ('c pubsub, pyval) io" where
  "get_message K n ignore_subscribe_messages timeout =
     (let go = (\<lambda>timeout. io_bind (ps_parse_response K n (timeout = None) timeout) (\<lambda>response.
            if truthy response then handle_message K response ignore_subscribe_messages else io_ret PNone)) in
      io_get (\<lambda>s.
        if subscribed s then go timeout
        else io_bind (pc_wait K timeout) (\<lambda>(is_set, spent).
          if \<not> is_set then io_ret PNone
          else case timeout of
                 None \<Rightarrow> io_raise (Exc PyTypeError ''unsupported operand'')
               | Some t \<Rightarrow> go (Some (max 0 (t - spent))))))"

text \<open>One step of \<open>listen\<close>: \<open>None\<close> when the generator ends.\<close>

partial_function (option) listen_next :: "'c ps_class \<Rightarrow> nat \<Rightarrow> 'c pubsub \<Rightarrow> ((exc + pyval option) \<times> 'c pubsub) option" where
  "listen_next K n s =
     (if \<not> subscribed s then Some (Inr None, s)
      else case io_bind (ps_parse_response K n True (Some 0)) (\<lambda>r. handle_message K r False) s of
             None \<Rightarrow> None
           | Some (Inl e, s') \<Rightarrow> Some (Inl e, s')
           | Some (Inr v, s') \<Rightarrow> if v = PNone then listen_next K n s' else Some (Inr (Some v), s'))"

section \<open>The worker thread\<close>

text \<open>The checks of \<open>run_in_thread\<close>, in the order of the code.\<close>

definition check_handlers :: "'c pubsub \<Rightarrow> unit res" where
  "check_handlers s =
     (if list_ex (\<lambda>(_, h). h = None) (subs s Channels @ subs s Patterns @ subs s Shards)
      then Inl (Exc PubSubError ''has no handler registered'') else Inr ())"

partial_function (option) worker_loop ::
  "'c ps_class \<Rightarrow> nat \<Rightarrow> rat \<Rightarrow> (exc \<Rightarrow> 'c ps_io) option \<Rightarrow> 'c pubsub \<Rightarrow> ((exc + unit) \<times> 'c pubsub) option" where
  "worker_loop K n sleep_time handler s =
     (if \<not> pc_running K (ps_world s) then ps_reset K s
      else case get_message K n True (Some sleep_time) s of
             None \<Rightarrow> None
           | Some (Inr _, s') \<Rightarrow> worker_loop K n sleep_time handler s'
           | Some (Inl e, s') \<Rightarrow>
               (case handler of
                  None \<Rightarrow> Some (Inl e, s')
                | Some h \<Rightarrow>
                    (case h e s' of
                       None \<Rightarrow> None
                     | Some (Inl e', s'') \<Rightarrow> Some (Inl e', s'')
                     | Some (Inr _, s'') \<Rightarrow> worker_loop K n sleep_time handler s'')))"

definition worker_run :: "'c ps_class \<Rightarrow> nat \<Rightarrow> rat \<Rightarrow> (exc \<Rightarrow> 'c ps_io) option \<Rightarrow> 'c ps_io" where
  "worker_run K n sleep_time handler =
     io_get (\<lambda>s. if pc_running K (ps_world s) then io_ret ()
       else io_seq (ps_upd_world (pc_set_running K True)) (worker_loop K n sleep_time handler))"

end
