(* ===== verification/Client_Spec.thy ===== *)
theory Client_Spec
  imports Client Connection_Frame
begin

text \<open>
  What the client promises: a command gives back the connection it took, whatever happens to it; the pipeline always
  accounts for the connection it holds; a transaction reads one reply for each command it sent.
\<close>

section \<open>Preservation\<close>

lemma io_pres_finally [io_pres_intros]:
  assumes "transp R" "io_pres R m" "io_pres R f"
  shows "io_pres R (io_finally m f)"
  using assms unfolding io_pres_def io_finally_def transp_def by (fastforce split: option.splits sum.splits prod.splits)

text \<open>What the methods of a connection may change: that object and the state shared with the others.\<close>

definition client_same :: "('c, 'g, 'z) redis_scheme \<Rightarrow> ('c, 'g, 'z) redis_scheme \<Rightarrow> bool" where
  "client_same s s' \<longleftrightarrow> pool_same (r_pool s) (r_pool s') \<and> s' = s\<lparr>r_pool := r_pool s'\<rparr>"

lemma client_same_trans: "client_same a b \<Longrightarrow> client_same b c \<Longrightarrow> client_same a c"
proof -
  assume ab: "client_same a b" and bc: "client_same b c"
  then have "pool_same (r_pool a) (r_pool c)" using pool_same_rel(2) by (metis client_same_def transpD)
  moreover have "c = b\<lparr>r_pool := r_pool c\<rparr>" "b = a\<lparr>r_pool := r_pool b\<rparr>"
    using ab bc by (simp_all add: client_same_def)
  then have "c = a\<lparr>r_pool := r_pool c\<rparr>" by (metis redis.unfold_congs(1) redis.update_convs(1) redis.surjective)
  ultimately show "client_same a c" by (simp add: client_same_def)
qed

lemma client_same_rel: "reflp client_same" "transp client_same"
proof -
  show "reflp client_same" by (simp add: reflp_def client_same_def)
  show "transp client_same" using client_same_trans by (blast intro: transpI)
qed

lemma client_same_pool: "pool_same (r_pool s) p \<Longrightarrow> client_same s (s\<lparr>r_pool := p\<rparr>)"
  by (simp add: client_same_def)

lemma on_connection_same: "io_pres client_same (on_connection i m)"
  unfolding io_pres_def on_connection_def on_pool_def
  by (auto split: option.splits intro!: client_same_pool dest!: on_conn_same)

lemma conn_get_same: "client_same s (snd (conn_get i f s))"
  unfolding conn_get_def by (auto split: prod.splits simp: pool_same_def intro!: client_same_pool)

lemma disconnect_connection_same: "io_pres client_same (disconnect_connection C i)"
  unfolding disconnect_connection_def by (intro io_pres_intros client_same_pool conn_update_same)

text \<open>A relation that holds when only the connection changes is kept by a retried call.\<close>

lemma client_retry_pres:
  assumes R: "reflp R" "transp R" and same: "\<And>s s'. client_same s s' \<Longrightarrow> R s s'"
    and "io_pres R m" "\<And>e. io_pres R (fail e)"
  shows "io_pres R (client_retry C i m fail)"
proof -
  have k: "keeps R m fail (conn_get i (cc_random C)) (\<lambda>t s. snd (conn_get i (\<lambda>cg. ((), cc_sleep C t cg)) s))"
    unfolding keeps_def by (intro conjI allI assms same conn_get_same)
  show ?thesis unfolding io_pres_def client_retry_def
  proof (intro allI impI)
    fix s r s'
    assume "(case call_with_retry m fail (conn_get i (cc_random C)) (\<lambda>t s. snd (conn_get i (\<lambda>cg. ((), cc_sleep C t cg)) s))
         (cc_retry C (objs (r_pool s) i)) s of
        None \<Rightarrow> None
      | Some (r, rt, s') \<Rightarrow> Some (r, snd (conn_get i (\<lambda>(c, g). ((), cc_put_retry C rt c, g)) s'))) = Some (r, s')"
    then obtain rt s1 where c: "call_with_retry m fail (conn_get i (cc_random C)) (\<lambda>t s. snd (conn_get i (\<lambda>cg. ((), cc_sleep C t cg)) s))
         (cc_retry C (objs (r_pool s) i)) s = Some (r, rt, s1)" "s' = snd (conn_get i (\<lambda>(c, g). ((), cc_put_retry C rt c, g)) s1)"
      by (auto split: option.splits)
    have "R s s1" by (rule call_with_retry_keeps [OF k c(1)])
    moreover have "R s1 s'" unfolding c(2) by (rule same [OF conn_get_same])
    ultimately show "R s s'" using R(2) by (meson transpD)
  qed
qed

lemma pres_mono: "(\<And>s s'. R s s' \<Longrightarrow> Q s s') \<Longrightarrow> io_pres R m \<Longrightarrow> io_pres Q m"
  by (auto simp: io_pres_def)

lemma parse_response_same: "io_pres client_same (parse_response C i name opts)"
  unfolding parse_response_def parse_reply_def
  by (intro io_pres_intros client_same_rel on_connection_same)
     (simp_all add: io_pres_intros client_same_rel split: option.splits sum.splits)

lemma disconnect_raise_same: "io_pres client_same (disconnect_raise C i e)"
  unfolding disconnect_raise_def
  by (intro io_pres_intros client_same_rel disconnect_connection_same)

lemma send_command_parse_response_pres:
  assumes "reflp R" "transp R" "\<And>s s'. client_same s s' \<Longrightarrow> R s s'" "\<And>n o1. io_pres R (parse i n o1)"
  shows "io_pres R (send_command_parse_response C parse i args opts)"
  unfolding send_command_parse_response_def
  by (intro io_pres_intros assms(1,2,4) pres_mono [OF assms(3) on_connection_same])


lemma command_call_same:
  "io_pres client_same
     (client_retry C i (send_command_parse_response C (parse_response C) i args opts) (disconnect_raise C i))"
  by (intro client_retry_pres send_command_parse_response_pres client_same_rel parse_response_same disconnect_raise_same)

section \<open>The connection of a command\<close>

definition pool_fresh :: "('c, 'g) pool \<Rightarrow> bool" where
  "pool_fresh p \<longleftrightarrow> pool_inv p \<and> pool_pid p = getpid p"

lemma release_in_use:
  assumes "pool_fresh p" "release K c p = Some (q, p')"
  shows "pool_fresh p' \<and> set (in_use p') = set (in_use p) - {c}"
proof -
  have put: "pool_put K c p = Some (q, p')"
    using assms by (simp add: pool_fresh_def release_def io_seq_def checkpid_def)
  moreover have "pool_inv p'" using pool_put_inv put assms(1) by (auto simp: pool_fresh_def)
  ultimately show ?thesis using assms(1) unfolding pool_fresh_def
    by (cases rule: pool_put_cases) (auto simp: pool_same_def)
qed

lemma client_same_fresh:
  assumes "client_same s s'" "pool_fresh (r_pool s)"
  shows "pool_fresh (r_pool s') \<and> in_use (r_pool s') = in_use (r_pool s)"
proof -
  have same: "pool_same (r_pool s) (r_pool s')" using assms(1) by (simp add: client_same_def)
  moreover have "pool_inv (r_pool s')" using pool_same_inv [OF same] assms(2) by (simp add: pool_fresh_def)
  ultimately show ?thesis using assms(2) by (simp add: pool_fresh_def pool_same_def)
qed

lemma io_finally_SomeE:
  assumes "io_finally m f s = Some (r, s')"
  obtains r1 s1 r2 where "m s = Some (r1, s1)" "f s1 = Some (r2, s')" "r = (case r2 of Inl e \<Rightarrow> Inl e | Inr _ \<Rightarrow> r1)"
  using assms by (auto simp: io_finally_def split: option.splits sum.splits prod.splits)

lemma finish_command:
  assumes "pool_fresh (r_pool s)" "r_connection s = None"
    "io_seq release_single (io_get (\<lambda>s. io_when (r_connection s = None) (on_pool (release K c)))) s = Some (r, s')"
  shows "pool_fresh (r_pool s') \<and> set (in_use (r_pool s')) = set (in_use (r_pool s)) - {c} \<and> r_connection s' = None"
  using assms release_in_use [of "r_pool s" K c]
  by (auto simp: io_seq_def io_bind_def release_single_def io_get_def io_when_def on_pool_def split: option.splits if_splits)

lemma execute_command_cases:
  assumes "execute_command C args opts s = Some (r, s')" "args \<noteq> []" "r_connection s = None"
  obtains (no_connection) e p where "get_connection (cc_class C) (r_pool s) = Some (Inl e, p)" "s' = s\<lparr>r_pool := p\<rparr>" "r = Inl e"
  | (used) c p s1 s2 r2 where "get_connection (cc_class C) (r_pool s) = Some (Inr c, p)"
      "acquire_single (s\<lparr>r_pool := p\<rparr>) = Some (Inr (), s1)" "client_same s1 s2"
      "io_seq release_single (io_get (\<lambda>s. io_when (r_connection s = None) (on_pool (release (cc_class C) c)))) s2 = Some (r2, s')"
proof -
  let ?call = "\<lambda>i. client_retry C i (send_command_parse_response C (parse_response C) i args opts) (disconnect_raise C i)"
  from assms(1,2) show thesis unfolding execute_command_def if_not_P [OF assms(2)]
  proof (elim io_bind_SomeE)
    fix e assume "own_or_pooled C s = Some (Inl e, s')" "r = Inl e"
    then show thesis using no_connection assms(3)
      by (auto simp: own_or_pooled_def io_get_def on_pool_def split: option.splits)
  next
    fix c s0 assume own: "own_or_pooled C s = Some (Inr c, s0)"
      and run: "io_seq acquire_single (io_finally (?call c) (io_seq release_single
            (io_get (\<lambda>s. io_when (r_connection s = None) (on_pool (release (cc_class C) c)))))) s0 = Some (r, s')"
    obtain p where p: "get_connection (cc_class C) (r_pool s) = Some (Inr c, p)" "s0 = s\<lparr>r_pool := p\<rparr>"
      using own assms(3) by (auto simp: own_or_pooled_def io_get_def on_pool_def split: option.splits)
    from run obtain s1 where s1: "acquire_single s0 = Some (Inr (), s1)"
      and fin: "io_finally (?call c) (io_seq release_single
            (io_get (\<lambda>s. io_when (r_connection s = None) (on_pool (release (cc_class C) c))))) s1 = Some (r, s')"
      unfolding io_seq_def [of acquire_single]
      by (elim io_bind_SomeE) (auto simp: acquire_single_def split: if_splits)
    from fin obtain r1 s2 r2 where f: "?call c s1 = Some (r1, s2)" "io_seq release_single
            (io_get (\<lambda>s. io_when (r_connection s = None) (on_pool (release (cc_class C) c)))) s2 = Some (r2, s')"
      by (rule io_finally_SomeE)
    have "client_same s1 s2" using command_call_same f(1) unfolding io_pres_def by blast
    then show thesis using used p s1 f(2) by blast
  qed
qed

lemma acquire_single_SomeE:
  assumes "acquire_single s = Some (r, s')"
  shows "r_pool s' = r_pool s \<and> r_connection s' = r_connection s \<and> r = Inr ()"
  using assms by (auto simp: acquire_single_def split: if_splits)

lemma command_no_leak:
  assumes "pool_fresh (r_pool s)" "r_connection s = None" "execute_command C args opts s = Some (r, s')"
  shows "pool_fresh (r_pool s') \<and> set (in_use (r_pool s')) = set (in_use (r_pool s)) \<and> r_connection s' = None"
proof (cases "args = []")
  case True
  then show ?thesis using assms by (auto simp: execute_command_def io_raise_def)
next
  case False
  have inv: "pool_inv (r_pool s)" "pool_pid (r_pool s) = getpid (r_pool s)" using assms(1) by (simp_all add: pool_fresh_def)
  from assms(3) False assms(2) show ?thesis
  proof (cases rule: execute_command_cases)
    case (no_connection e p)
    then show ?thesis using get_connection_in_use [OF inv no_connection(1)] assms(2) by (simp add: pool_fresh_def)
  next
    case (used c p s1 s2 r2)
    have p: "pool_fresh p" "c \<notin> set (in_use (r_pool s))" "set (in_use p) = insert c (set (in_use (r_pool s)))"
      using get_connection_in_use [OF inv used(1)] by (auto simp: pool_fresh_def)
    have s1: "r_pool s1 = p" "r_connection s1 = None" using acquire_single_SomeE [OF used(2)] assms(2) by simp_all
    have s2: "pool_fresh (r_pool s2)" "in_use (r_pool s2) = in_use p"
      using client_same_fresh [OF used(3)] p(1) s1(1) by simp_all
    have "s2 = s1\<lparr>r_pool := r_pool s2\<rparr>" using used(3) by (simp add: client_same_def)
    then have "r_connection s2 = None" using s1(2) by (metis redis.select_convs(2) redis.surjective redis.update_convs(1))
    from finish_command [OF s2(1) this used(4)] show ?thesis using s2(2) p(2,3) by auto
  qed
qed

section \<open>The connection of a pipeline\<close>

text \<open>\<open>U\<close> is what the others use: the pipeline holds no connection, or one that none of them uses.\<close>

definition accounts :: "nat set \<Rightarrow> ('c, 'g, 'z) redis_scheme \<Rightarrow> bool" where
  "accounts U s \<longleftrightarrow> pool_fresh (r_pool s) \<and>
     (case r_connection s of None \<Rightarrow> set (in_use (r_pool s)) = U
      | Some c \<Rightarrow> c \<notin> U \<and> set (in_use (r_pool s)) - {c} = U)"

definition stays :: "('c, 'g, 'z) redis_scheme \<Rightarrow> ('c, 'g, 'z) redis_scheme \<Rightarrow> bool" where
  "stays s s' \<longleftrightarrow> (\<forall>U. accounts U s \<longrightarrow> accounts U s')"

lemma stays_rel: "reflp stays" "transp stays"
  by (auto simp: reflp_def transp_def stays_def)

lemma client_same_connection: "client_same s s' \<Longrightarrow> r_connection s' = r_connection s"
  unfolding client_same_def by (metis redis.select_convs(2) redis.surjective redis.update_convs(1))

lemma client_same_stays: "client_same s s' \<Longrightarrow> stays s s'"
proof -
  assume same: "client_same s s'"
  have "accounts U s'" if "accounts U s" for U
  proof -
    have "pool_fresh (r_pool s')" "in_use (r_pool s') = in_use (r_pool s)"
      using client_same_fresh [OF same] that by (simp_all add: accounts_def)
    then show ?thesis using that client_same_connection [OF same]
      by (simp add: accounts_def split: option.splits)
  qed
  then show ?thesis by (simp add: stays_def)
qed

lemma other_fields_stay: "r_pool s' = r_pool s \<Longrightarrow> r_connection s' = r_connection s \<Longrightarrow> stays s s'"
  by (simp add: stays_def accounts_def split: option.split)

lemmas stays_intros = io_pres_intros stays_rel pres_mono [OF client_same_stays on_connection_same]
  pres_mono [OF client_same_stays disconnect_connection_same] 
  client_retry_pres [OF stays_rel client_same_stays] send_command_parse_response_pres [OF stays_rel client_same_stays]

lemma give_back_stays:
  "io_pres stays (io_get (\<lambda>s. case r_connection s of
     None \<Rightarrow> io_ret ()
   | Some c \<Rightarrow> io_seq (on_pool (release K c)) (io_upd (\<lambda>s. s\<lparr>r_connection := None\<rparr>))))"
proof -
  have "stays s s'" if "io_seq (on_pool (release K c)) (io_upd (\<lambda>s. s\<lparr>r_connection := None\<rparr>)) s = Some (r, s')"
    "r_connection s = Some c" for s r s' c
    using that release_in_use [of "r_pool s" K c] unfolding stays_def accounts_def
    by (auto simp: io_seq_def io_bind_def on_pool_def io_upd_def split: option.splits sum.splits)
  then show ?thesis unfolding io_pres_def io_get_def
    by (auto simp: io_ret_def other_fields_stay split: option.splits)
qed

lemma pipe_reset_stays: "io_pres stays (pipe_reset C)"
  unfolding pipe_reset_def
  by (intro io_pres_seq stays_rel give_back_stays io_pres_upd other_fields_stay io_pres_get; (simp; fail)?)
     (auto intro!: stays_intros split: option.splits)

lemma pipe_parse_response_stays: "io_pres stays (pipe_parse_response C i name opts)"
  unfolding pipe_parse_response_def
  by (intro stays_intros pres_mono [OF client_same_stays parse_response_same] other_fields_stay) auto

lemma disconnect_reset_raise_stays: "io_pres stays (disconnect_reset_raise C i e)"
  unfolding disconnect_reset_raise_def by (intro stays_intros pipe_reset_stays) (auto intro!: stays_intros pipe_reset_stays)

lemma disconnect_raise_reset_stays: "io_pres stays (disconnect_raise_reset C i e)"
  unfolding disconnect_raise_reset_def by (intro stays_intros pipe_reset_stays) (auto intro!: stays_intros pipe_reset_stays)

lemma pipe_connection_stays: "io_pres stays (pipe_connection C)"
  unfolding io_pres_def stays_def
proof (intro allI impI)
  fix s r s' U
  assume run: "pipe_connection C s = Some (r, s')" and acc: "accounts U s"
  show "accounts U s'"
  proof (cases "r_connection s")
    case (Some c)
    then have "s' = s" using run by (simp add: pipe_connection_def io_get_def io_ret_def)
    then show ?thesis using acc by simp
  next
    case None
    then have inv: "pool_inv (r_pool s)" "pool_pid (r_pool s) = getpid (r_pool s)" and U: "set (in_use (r_pool s)) = U"
      using acc by (simp_all add: accounts_def pool_fresh_def)
    obtain q p where g: "get_connection (cc_class C) (r_pool s) = Some (q, p)"
      and s': "s' = (case q of Inl e \<Rightarrow> s\<lparr>r_pool := p\<rparr> | Inr c \<Rightarrow> s\<lparr>r_pool := p, r_connection := Some c\<rparr>)"
      using run None by (auto simp: pipe_connection_def io_get_def io_bind_def on_pool_def io_seq_def io_upd_def io_ret_def
        split: option.splits sum.splits)
    show ?thesis using get_connection_in_use [OF inv g] None U s'
      by (cases q) (auto simp: accounts_def pool_fresh_def)
  qed
qed

lemma immediate_execute_command_stays: "io_pres stays (immediate_execute_command C args opts)"
  unfolding immediate_execute_command_def
  by (intro stays_intros pipe_connection_stays pipe_parse_response_stays disconnect_reset_raise_stays)

lemma load_missing_stays: "io_pres stays (load_missing C todo)"
  by (induction C todo rule: load_missing.induct)
     (auto intro!: stays_intros immediate_execute_command_stays other_fields_stay)

lemma load_scripts_stays: "io_pres stays (load_scripts C)"
  unfolding load_scripts_def by (intro stays_intros immediate_execute_command_stays load_missing_stays)

lemma queued_replies_stays: "io_pres stays (queued_replies C conn i cmds)"
  by (induction C conn i cmds rule: queued_replies.induct)
     (auto intro!: stays_intros pipe_parse_response_stays split: option.splits)

lemma pipeline_replies_stays: "io_pres stays (pipeline_replies C conn cmds)"
  by (induction C conn cmds rule: pipeline_replies.induct)
     (auto intro!: stays_intros pipe_parse_response_stays)

lemma execute_transaction_stays: "io_pres stays (execute_transaction C conn cmds b)"
  unfolding execute_transaction_def Let_def
  by (intro stays_intros pipe_parse_response_stays queued_replies_stays other_fields_stay)
     (auto intro!: stays_intros split: list.splits pyval.splits)

lemma execute_pipeline_stays: "io_pres stays (execute_pipeline C conn cmds b)"
  unfolding execute_pipeline_def by (intro stays_intros pipeline_replies_stays)

lemma pipe_execute_stays: "io_pres stays (pipe_execute C b)"
  unfolding pipe_execute_def Let_def
  by (intro stays_intros load_scripts_stays pipe_connection_stays disconnect_raise_reset_stays pipe_reset_stays)
     (simp_all add: execute_transaction_stays execute_pipeline_stays)

lemma pipe_execute_command_stays: "io_pres stays (pipe_execute_command C args opts)"
  unfolding pipe_execute_command_def pipeline_execute_command_def
  by (intro stays_intros immediate_execute_command_stays other_fields_stay) auto

lemma pipe_watch_stays: "io_pres stays (pipe_watch C names)"
  unfolding pipe_watch_def by (intro stays_intros pipe_execute_command_stays)

lemma transaction_round_stays: "io_pres stays func \<Longrightarrow> io_pres stays (transaction_round C func watches v)"
  unfolding transaction_round_def by (intro stays_intros pipe_watch_stays pipe_execute_stays)

lemma transaction_loop_stays:
  fixes sleep :: "rat \<Rightarrow> ('c, 'g) pipe \<Rightarrow> ('c, 'g) pipe"
  assumes "io_pres stays func" "\<forall>t s. stays s (sleep t s)" "transaction_loop C sleep func watches v d s = Some y"
  shows "stays s (snd y)"
proof (rule transaction_loop.raw_induct [where P = "\<lambda>C sleep func watches v d s y.
      io_pres stays func \<longrightarrow> (\<forall>t s. stays s (sleep t s)) \<longrightarrow> stays s (snd y)", rule_format, OF _ assms(3,1) assms(2) [rule_format]])
  fix loop and C :: "('c, 'g) client_class" and sleep func watches v d s y
  assume IH: "\<And>C sleep func watches v d s y. loop C sleep func watches v d s = Some y \<Longrightarrow>
      io_pres stays func \<Longrightarrow> (\<And>t s. stays s (sleep t s)) \<Longrightarrow> stays s (snd y)"
    and body: "(case transaction_round C func watches v s of
        None \<Rightarrow> None
      | Some (Inl e, s') \<Rightarrow>
          if is_exc e WatchError
          then loop C sleep func watches v d (case d of None \<Rightarrow> s' | Some t \<Rightarrow> if t > 0 then sleep t s' else s')
          else Some (Inl e, s')
      | Some (Inr v, s') \<Rightarrow> Some (Inr v, s')) = Some y"
    and f: "io_pres stays func" and sl: "\<And>t s. stays s (sleep t s)"
  obtain a s1 where a: "transaction_round C func watches v s = Some (a, s1)" using body by (auto split: option.splits)
  then have s1: "stays s s1" using transaction_round_stays [OF f] by (simp add: io_pres_def)
  show "stays s (snd y)"
  proof (cases "\<exists>e. a = Inl e \<and> is_exc e WatchError")
    case True
    let ?s2 = "case d of None \<Rightarrow> s1 | Some t \<Rightarrow> if t > 0 then sleep t s1 else s1"
    have "stays s1 ?s2" using sl by (auto simp: other_fields_stay split: option.splits)
    moreover have "loop C sleep func watches v d ?s2 = Some y" using True body a by auto
    then have "stays ?s2 (snd y)" by (rule IH [OF _ f sl])
    ultimately show ?thesis using s1 unfolding stays_def by blast
  qed (use body a s1 in \<open>auto split: sum.splits if_splits\<close>)
qed

lemma run_transaction_stays:
  assumes "io_pres stays func" "\<forall>t s. stays s (sleep t s)"
  shows "io_pres stays (run_transaction C sleep func watches v d)"
  unfolding run_transaction_def
  by (intro stays_intros pipe_reset_stays) (use transaction_loop_stays [OF assms] in \<open>auto simp: io_pres_def\<close>)

section \<open>Transactions read what they sent\<close>

text \<open>A connection whose replies are given: the object is the replies not yet read and the commands packed so far.\<close>

type_synonym scripted_conn = "(exc + pyval) list \<times> pyval list list"

definition scripted_conns :: "(scripted_conn, unit) conn_class" where
  "scripted_conns = \<lparr> co_new = (\<lambda>g pid. (Inr ([], []), g)), co_pid = (\<lambda>_. 1), co_connect = io_ret (), co_can_read = io_ret False,
     co_disconnect = id, co_re_auth = io_ret (), co_set_retry = (\<lambda>_. id), co_kwargs_retry = (\<lambda>_. id),
     co_auth = (\<lambda>_. io_ret ()), co_set_token = (\<lambda>_. id) \<rparr>"

fun scripted_read :: "(scripted_conn \<times> unit, pyval) io" where
  "scripted_read (([], cmds), g) = None"
| "scripted_read ((r # rs, cmds), g) = Some (r, (rs, cmds), g)"

definition scripted_pack :: "pyval list list \<Rightarrow> (scripted_conn \<times> unit, pyval list) io" where
  "scripted_pack cs s = (case s of ((rs, cmds), g) \<Rightarrow> Some (Inr [], (rs, cmds @ cs), g))"

definition scripted_client :: "pylib \<Rightarrow> (scripted_conn, unit) client_class" where
  "scripted_client L = \<lparr> cc_class = scripted_conns, cc_send = (\<lambda>args _. io_bind (scripted_pack [args]) (\<lambda>_. io_ret ())),
     cc_read = (\<lambda>_. scripted_read), cc_pack_commands = scripted_pack, cc_send_packed = (\<lambda>_. io_ret ()),
     cc_retry = (\<lambda>_. new_retry NoBackoff 0), cc_put_retry = (\<lambda>_. id), cc_retry_on_error = (\<lambda>_. []),
     cc_random = (\<lambda>s. (0, s)), cc_sleep = (\<lambda>_. id), cc_lib = L, cc_shorten = id \<rparr>"

definition script_left :: "nat \<Rightarrow> scripted_conn \<Rightarrow> (scripted_conn, unit, 'z) redis_scheme \<Rightarrow> (scripted_conn, unit, 'z) redis_scheme" where
  "script_left c x s = s\<lparr>r_pool := (r_pool s)\<lparr>objs := (objs (r_pool s))(c := x)\<rparr>\<rparr>"

lemma script_left_simps [simp]:
  "objs (r_pool (script_left c x s)) c = x" "script_left c y (script_left c x s) = script_left c y s"
  "response_callbacks (script_left c x s) = response_callbacks s"
  by (simp_all add: script_left_def)

lemma on_scripted:
  assumes "objs (r_pool s) c = x" "m (x, ()) = Some (r, y, ())"
  shows "on_connection c m s = Some (r, script_left c y s)"
  using assms by (simp add: on_connection_def on_pool_def on_conn_def script_left_def)

text \<open>A reply as the transaction expects it: a value, or an error of the server with its text.\<close>

definition server_reply :: "exc + pyval \<Rightarrow> bool" where
  "server_reply r \<longleftrightarrow> (\<forall>e. r = Inl e \<longrightarrow> is_exc e ResponseError \<and> exc_msg e \<noteq> [])"

lemma scripted_reply:
  fixes s :: "(scripted_conn, unit) pipe"
  assumes "objs (r_pool s) c = (r # rs, cmds)" "cb_lookup (response_callbacks s) ''_'' = None"
  shows "pipe_parse_response (scripted_client L) c (PStr ''_'') no_opts s = Some (r, script_left c (rs, cmds) s)"
proof -
  have read: "on_connection c scripted_read s = Some (r, script_left c (rs, cmds) s)"
    by (rule on_scripted [OF assms(1)]) simp
  have up: "upper ''_'' = ''_''" by code_simp
  have names: "PStr ''_'' \<notin> PStr ` set UNWATCH_COMMANDS" "PStr ''_'' \<noteq> PStr ''WATCH''"
    by (simp_all add: UNWATCH_COMMANDS_def)
  have none: "map_of (opt_values no_opts) k = None" for k by (simp add: no_opts_def)
  have "parse_response (scripted_client L) c (PStr ''_'') no_opts s = Some (r, script_left c (rs, cmds) s)"
    using read assms(2) up none
    by (cases r) (simp_all add: parse_response_def parse_reply_def scripted_client_def io_defs io_try_def io_get_def ci_get_def)
  then show ?thesis using names
    by (cases r) (simp_all add: pipe_parse_response_def io_seq_def io_upd_def io_defs)
qed

definition sent_part :: "(pyval list \<times> cb_opts) list \<Rightarrow> (pyval list \<times> cb_opts) list" where
  "sent_part cmds = filter (\<lambda>(_, opts). \<not> has_opt opts EMPTY_RESPONSE) cmds"

lemma queued_replies_in_step:
  fixes s :: "(scripted_conn, unit) pipe"
  assumes "objs (r_pool s) c = (rs @ rest, packed)" "length rs = length (sent_part cmds)" "list_all server_reply rs"
    "cb_lookup (response_callbacks s) ''_'' = None"
  shows "\<exists>es. queued_replies (scripted_client L) c i cmds s = Some (Inr es, script_left c (rest, packed) s)
     \<and> (list_all (\<lambda>r. \<not> isl r) rs \<longrightarrow> sent_part cmds = cmds \<longrightarrow> es = [])"
  using assms
proof (induction cmds arbitrary: i s rs)
  case Nil
  then have "(objs (r_pool s))(c := (rest, packed)) = objs (r_pool s)" by (simp add: sent_part_def fun_upd_idem)
  then have "script_left c (rest, packed) s = s" by (simp add: script_left_def)
  then show ?case by (simp add: io_ret_def)
next
  case (Cons cmd cmds)
  obtain args opts where cmd: "cmd = (args, opts)" by (cases cmd)
  show ?case
  proof (cases "map_of (opt_values opts) EMPTY_RESPONSE")
    case (Some v)
    then have p: "sent_part (cmd # cmds) = sent_part cmds" by (simp add: sent_part_def cmd has_opt_def)
    have "length (sent_part cmds) \<le> length cmds" unfolding sent_part_def by (rule length_filter_le)
    then have len: "sent_part cmds \<noteq> cmd # cmds" by auto
    obtain es where "queued_replies (scripted_client L) c (Suc i) cmds s = Some (Inr es, script_left c (rest, packed) s)"
      using Cons.IH [of s rs "Suc i"] Cons.prems p by auto
    moreover have "sent_part (cmd # cmds) \<noteq> cmd # cmds" using len p by simp
    ultimately show ?thesis using Some by (simp add: cmd io_defs)
  next
    case None
    then have p: "sent_part (cmd # cmds) = cmd # sent_part cmds" by (simp add: sent_part_def cmd has_opt_def)
    then obtain r rs' where rs: "rs = r # rs'" "length rs' = length (sent_part cmds)"
      using Cons.prems(2) by (cases rs) auto
    let ?s = "script_left c (rs' @ rest, packed) s"
    have read: "pipe_parse_response (scripted_client L) c (PStr ''_'') no_opts s = Some (r, ?s)"
      using scripted_reply [of s c r "rs' @ rest" packed] Cons.prems(1,4) rs(1) by simp
    obtain es where es: "queued_replies (scripted_client L) c (Suc i) cmds ?s = Some (Inr es, script_left c (rest, packed) s)"
      "list_all (\<lambda>r. \<not> isl r) rs' \<longrightarrow> sent_part cmds = cmds \<longrightarrow> es = []"
      using Cons.IH [of ?s rs' "Suc i"] Cons.prems rs by auto
    have "server_reply r" using Cons.prems(3) rs(1) by simp
    then show ?thesis using read es None p rs(1)
      by (cases r) (simp_all add: cmd io_defs io_try_def server_reply_def annotate_exception_def)
  qed
qed

lemma transaction_commands:
  "map fst (filter (\<lambda>(_, opts). \<not> has_opt opts EMPTY_RESPONSE) ([(m, no_opts)] @ cmds @ [(x, no_opts)]))
   = m # map fst (sent_part cmds) @ [x]"
  by (simp add: sent_part_def has_opt_def no_opts_def)

lemma watching_off_left [simp]: "script_left c y ((script_left c x s)\<lparr>watching := w\<rparr>) = script_left c y (s\<lparr>watching := w\<rparr>)"
  "watching (script_left c x s) = watching s" "objs (r_pool (s\<lparr>watching := w\<rparr>)) = objs (r_pool s)"
  by (simp_all add: script_left_def)

text \<open>The part after the replies to the queued commands.\<close>

definition finish_transaction ::
  "('c, 'g) client_class \<Rightarrow> nat \<Rightarrow> (pyval list \<times> cb_opts) list \<Rightarrow> bool \<Rightarrow> (nat \<times> pyval) list \<Rightarrow> pyval \<Rightarrow> (('c, 'g) pipe, pyval) io" where
  "finish_transaction C conn commands raise_on_error errors response =
     (case response of
             PNone \<Rightarrow> io_raise (Exc WatchError ''Watched variable changed.'')
           | PList xs \<Rightarrow>
               let results = fold insert_at errors xs in
               if length results \<noteq> length commands
               then io_seq (disconnect_connection C conn)
                      (io_raise (Exc ResponseError ''Wrong number of response items from pipeline execution''))
               else io_seq (io_lift (if raise_on_error then raise_first_error C 0 commands results else Inr ()))
                 (io_get (\<lambda>s. io_bind (io_lift (run_callbacks_on C (response_callbacks s) (zip results commands)))
                    (\<lambda>data. io_ret (PList data))))
           | v \<Rightarrow> io_raise (if errors \<noteq> [] then attr_error v else type_error v))"

lemma finish_transaction_total:
  "\<exists>r. finish_transaction (scripted_client L) c cmds b es v s = Some (r, s)"
proof -
  have d: "disconnect_connection (scripted_client L) c s = Some (Inr (), s)"
    by (simp add: disconnect_connection_def io_upd_def conn_update_def scripted_client_def scripted_conns_def fun_upd_idem)
  show ?thesis unfolding finish_transaction_def
    by (cases v) (auto simp: Let_def io_seq_def io_get_def io_defs d split: sum.splits)
qed

lemma execute_transaction_in_step:
  fixes s :: "(scripted_conn, unit) pipe"
  assumes "objs (r_pool s) c = (multi # queued @ exec # rest, packed)" "length queued = length (sent_part cmds)"
    "list_all server_reply (multi # queued @ [exec])" "cb_lookup (response_callbacks s) ''_'' = None"
  obtains es where
    "es \<noteq> [] \<longrightarrow> \<not> (sent_part cmds = cmds \<and> list_all (\<lambda>r. \<not> isl r) queued)"
    "execute_transaction (scripted_client L) c cmds b s =
       (let left = script_left c (rest, packed @ [PStr ''MULTI''] # map fst (sent_part cmds) @ [[PStr ''EXEC'']]) s;
            errors = (case multi of Inl e \<Rightarrow> [(0, PExc e)] | Inr _ \<Rightarrow> []) @ es in
        case exec of
          Inl e \<Rightarrow> Some (Inl (if is_exc e ExecAbortError \<and> errors \<noteq> [] then raise_value (snd (hd errors)) else e), left)
        | Inr v \<Rightarrow> finish_transaction (scripted_client L) c cmds b errors v (left\<lparr>watching := False\<rparr>))"
proof -
  let ?C = "scripted_client L"
  let ?sent = "packed @ [PStr ''MULTI''] # map fst (sent_part cmds) @ [[PStr ''EXEC'']]"
  let ?s1 = "script_left c (multi # queued @ exec # rest, ?sent) s"
  let ?s2 = "script_left c (queued @ exec # rest, ?sent) s"
  let ?s3 = "script_left c (exec # rest, ?sent) s"
  have pack: "on_connection c (cc_pack_commands ?C ([PStr ''MULTI''] # map fst (sent_part cmds) @ [[PStr ''EXEC'']])) s = Some (Inr [], ?s1)"
    by (rule on_scripted [OF assms(1)]) (simp add: scripted_client_def scripted_pack_def)
  have send: "on_connection c (cc_send_packed ?C []) ?s1 = Some (Inr (), ?s1)"
    using on_scripted [of ?s1 c _ "cc_send_packed ?C []" "Inr ()"] by (simp add: scripted_client_def io_ret_def)
  have first: "pipe_parse_response ?C c (PStr ''_'') no_opts ?s1 = Some (multi, ?s2)"
    using scripted_reply [of ?s1 c multi "queued @ exec # rest" ?sent] assms(4) by simp
  obtain es where es: "queued_replies ?C c 0 cmds ?s2 = Some (Inr es, ?s3)"
    "list_all (\<lambda>r. \<not> isl r) queued \<longrightarrow> sent_part cmds = cmds \<longrightarrow> es = []"
    using queued_replies_in_step [of ?s2 c queued "exec # rest" ?sent cmds L 0] assms by auto
  have last: "pipe_parse_response ?C c (PStr ''_'') no_opts ?s3 = Some (exec, script_left c (rest, ?sent) s)"
    using scripted_reply [of ?s3 c exec rest ?sent] assms(4) by simp
  have me: "multi = Inl e \<Longrightarrow> is_exc e ResponseError" for e using assms(3) by (simp add: server_reply_def)
  have ee: "exec = Inl e \<Longrightarrow> is_exc e ResponseError" for e using assms(3) by (simp add: server_reply_def)
  show thesis
  proof (rule that [of es])
    show "es \<noteq> [] \<longrightarrow> \<not> (sent_part cmds = cmds \<and> list_all (\<lambda>r. \<not> isl r) queued)" using es(2) by blast
    show "execute_transaction ?C c cmds b s = (let left = script_left c (rest, ?sent) s;
            errors = (case multi of Inl e \<Rightarrow> [(0, PExc e)] | Inr _ \<Rightarrow> []) @ es in
        case exec of
          Inl e \<Rightarrow> Some (Inl (if is_exc e ExecAbortError \<and> errors \<noteq> [] then raise_value (snd (hd errors)) else e), left)
        | Inr v \<Rightarrow> finish_transaction ?C c cmds b errors v (left\<lparr>watching := False\<rparr>))"
      unfolding execute_transaction_def transaction_commands finish_transaction_def [symmetric]
      using pack send first es(1) last me
      by (cases multi; cases exec; cases es) (simp_all add: Let_def io_seq_def io_try_def io_upd_def io_defs)
  qed
qed

lemma reset_unwatch_times_out:
  fixes s :: "(scripted_conn, unit) pipe"
  assumes "r_connection s = Some c" "watching s" "objs (r_pool s) c = (Inl e # rest, packed)" "\<not> is_exc e ConnectionError"
  shows "\<exists>s'. pipe_reset (scripted_client L) s = Some (Inl e, s') \<and> watching s' \<and> r_connection s' = Some c
     \<and> in_use (r_pool s') = in_use (r_pool s)"
proof -
  let ?s1 = "s\<lparr>command_stack := [], scripts := []\<rparr>"
  let ?s2 = "script_left c (Inl e # rest, packed @ [[PStr ''UNWATCH'']]) ?s1"
  have send: "on_connection c (cc_send (scripted_client L) [PStr ''UNWATCH''] no_opts) ?s1 = Some (Inr (), ?s2)"
    by (rule on_scripted [where x = "(Inl e # rest, packed)"])
       (use assms(3) in \<open>simp_all add: scripted_client_def scripted_pack_def io_defs\<close>)
  have read: "on_connection c (cc_read (scripted_client L) False) ?s2
      = Some (Inl e, script_left c (rest, packed @ [[PStr ''UNWATCH'']]) ?s1)"
    using on_scripted [of ?s2 c _ "cc_read (scripted_client L) False" "Inl e" "(rest, packed @ [[PStr ''UNWATCH'']])"]
    by (simp add: scripted_client_def)
  show ?thesis using assms send read
    by (simp add: pipe_reset_def io_seq_def io_upd_def io_get_def io_when_def io_try_def io_defs script_left_def)
qed

text \<open>What a successful reset leaves.\<close>

definition pipe_is_reset :: "('c, 'g) pipe \<Rightarrow> bool" where
  "pipe_is_reset s \<longleftrightarrow> r_connection s = None \<and> command_stack s = [] \<and> scripts s = [] \<and> \<not> watching s \<and> \<not> explicit_transaction s"

lemma client_same_pipe:
  assumes "client_same s s'"
  shows "command_stack s' = command_stack s \<and> scripts s' = scripts s \<and> watching s' = watching s
     \<and> explicit_transaction s' = explicit_transaction s"
proof -
  obtain p where "s' = s\<lparr>r_pool := p\<rparr>" using assms unfolding client_same_def by blast
  then show ?thesis by simp
qed

lemma pipe_reset_resets:
  assumes "pipe_reset C s = Some (Inr u, s')"
  shows "pipe_is_reset s'"
proof -
  let ?unwatch = "io_get (\<lambda>s. case r_connection s of
            None \<Rightarrow> io_ret ()
          | Some c \<Rightarrow> io_when (watching s)
              (io_try
                (io_seq (on_connection c (cc_send C [PStr ''UNWATCH''] no_opts))
                  (io_bind (on_connection c (cc_read C False)) (\<lambda>_. io_ret ())))
                (\<lambda>e. if is_exc e ConnectionError then disconnect_connection C c else io_raise e)))"
  have pres: "io_pres client_same ?unwatch"
    by (intro io_pres_get)
      (auto split: option.splits intro!: io_pres_intros client_same_rel on_connection_same disconnect_connection_same)
  from assms obtain s1 where "?unwatch (s\<lparr>command_stack := [], scripts := []\<rparr>) = Some (Inr (), s1)"
    and rest: "(case r_connection s1 of None \<Rightarrow> Some (Inr (), s1\<lparr>watching := False, explicit_transaction := False\<rparr>)
       | Some c \<Rightarrow> io_seq (on_pool (release (cc_class C) c)) (io_upd (\<lambda>s. s\<lparr>r_connection := None\<rparr>))
            (s1\<lparr>watching := False, explicit_transaction := False\<rparr>)) = Some (Inr u, s')"
    by (auto simp: pipe_reset_def io_seq_def [of "io_upd _"] io_seq_def [of "io_get _"] io_get_def io_upd_def io_ret_def io_bind_def
        split: option.splits sum.splits)
  then have "command_stack s1 = []" "scripts s1 = []"
    using pres client_same_pipe unfolding io_pres_def by fastforce+
  then show ?thesis using rest
    by (auto simp: pipe_is_reset_def io_seq_def io_bind_def on_pool_def io_upd_def split: option.splits sum.splits)
qed

lemma execute_resets:
  assumes "pipe_execute C b s = Some (Inr v, s')" "command_stack s \<noteq> [] \<or> watching s"
  shows "pipe_is_reset s'"
proof -
  obtain m c s1 where "io_finally (m c) (pipe_reset C) s1 = Some (Inr v, s')"
    using assms unfolding pipe_execute_def io_get_def Let_def io_seq_def
    by (auto elim!: io_bind_SomeE)
  then show ?thesis
    by (elim io_finally_SomeE) (auto split: sum.splits dest: pipe_reset_resets)
qed

section \<open>Concrete instances\<close>

definition plain_lib :: pylib where
  "plain_lib = \<lparr> to_float = (\<lambda>_. Inr PNone), trunc_float = (\<lambda>_. Inr 0), from_timestamp = (\<lambda>_. Inr PNone) \<rparr>"

definition demo_redis :: "(exc + pyval) list \<Rightarrow> (scripted_conn, unit) redis" where
  "demo_redis rs = \<lparr> r_pool = \<lparr> created = 1, available = [0], in_use = [], pool_pid = 1, max_connections = 2, has_cache = False,
       objs = (\<lambda>_. (rs, [])), next_obj = 1, shared = (), getpid = 1, fork_lock_free = True \<rparr>,
     r_connection = None, single_connection_client = False, single_lock_held = False,
     response_callbacks = [(''SET'', ok_entry)], auto_close_connection_pool = True \<rparr>"

lemma response_error_is:
  "is_exc (Exc ResponseError m) ResponseError" "\<not> is_exc (Exc ResponseError m) ConnectionError"
  "\<not> is_exc (Exc ResponseError m) TimeoutError" "\<not> is_exc (Exc ResponseError m) PySocketTimeout"
  by (simp_all add: is_exc_def, code_simp+)

lemmas client_eval = io_seq_def io_bind_def io_get_def io_try_def io_when_def io_finally_def io_upd_def io_ret_def io_raise_def
  io_lift_def on_pool_def on_conn_def on_connection_def conn_get_def scripted_client_def scripted_conns_def
  get_connection_def release_def checkpid_def pool_take_def pool_put_def ensure_ready_def own_or_pooled_def
  acquire_single_def release_single_def client_retry_def call_with_retry_def retry_loop.simps
  response_error_is send_command_parse_response_def scripted_pack_def demo_redis_def new_retry_def NoBackoff_def conn_update_def

lemma demo_run:
  "map_option fst (execute_command (scripted_client plain_lib) [PStr ''GET'', PStr ''k''] no_opts
     (demo_redis [Inl (Exc ResponseError ''no'')])) = Some (Inl (Exc ResponseError ''no''))"
  by (simp add: execute_command_def client_eval parse_response_def no_opts_def has_opt_def supported_def
    default_supported_errors_def owns_connection_def Let_def)

section \<open>Properties\<close>

text \<open>
  C34: Running a command (\<open>Redis.execute_command\<close>) never leaks its connection: whether it returns or raises, and
  whatever the connection, its retries, the callbacks and the server did, the connections in use are the same
  afterwards as before, and the pool's bookkeeping is intact.
\<close>
theorem execute_command_no_leak:
  assumes "pool_inv (r_pool s)" "pool_pid (r_pool s) = getpid (r_pool s)" "r_connection s = None"
    and "execute_command C args opts s = Some (r, s')"
  shows "pool_inv (r_pool s') \<and> set (in_use (r_pool s')) = set (in_use (r_pool s)) \<and> r_connection s' = None"
  using command_no_leak [OF _ assms(3,4)] assms(1,2) by (simp add: pool_fresh_def)

theorem execute_command_no_leak_witness:
  "\<exists>s'. execute_command (scripted_client plain_lib) [PStr ''GET'', PStr ''k''] no_opts
       (demo_redis [Inl (Exc ResponseError ''no'')]) = Some (Inl (Exc ResponseError ''no''), s')
     \<and> pool_inv (r_pool s') \<and> in_use (r_pool s') = []"
proof -
  let ?s = "demo_redis [Inl (Exc ResponseError ''no'')]"
  obtain s' where s': "execute_command (scripted_client plain_lib) [PStr ''GET'', PStr ''k''] no_opts ?s
      = Some (Inl (Exc ResponseError ''no''), s')"
    using demo_run by auto
  have "pool_inv (r_pool ?s)" "pool_pid (r_pool ?s) = getpid (r_pool ?s)" "r_connection ?s = None"
    and u: "in_use (r_pool ?s) = []"
    by (simp_all add: demo_redis_def pool_inv_def)
  from execute_command_no_leak [OF this(1-3) s'] show ?thesis using s' u by simp
qed

text \<open>
  C35: A pipeline always accounts for its connection.  Running a pipeline from a state where it holds no connection of
  anybody else keeps that: on every path (a server error, a lost connection, a changed watched key, an error of a script
  load, retries) the connections in use are those of the others, and at most the one it still names.  When
  \<open>execute\<close> returns, the pipeline is reset: it holds no connection, watches nothing and its queue is empty.
\<close>
theorem pipeline_accounting:
  assumes "accounts U s" "pipe_execute C b s = Some (r, s')"
  shows "accounts U s' \<and> (\<forall>v. r = Inr v \<and> (command_stack s \<noteq> [] \<or> watching s) \<longrightarrow>
      r_connection s' = None \<and> set (in_use (r_pool s')) = U \<and> command_stack s' = [] \<and> \<not> watching s' \<and> \<not> explicit_transaction s')"
proof -
  have acc: "accounts U s'" using pipe_execute_stays assms unfolding io_pres_def stays_def by blast
  have "pipe_is_reset s'" if "r = Inr v" "command_stack s \<noteq> [] \<or> watching s" for v
    using execute_resets [OF assms(2) [unfolded that(1)] that(2)] .
  then show ?thesis using acc by (auto simp: pipe_is_reset_def accounts_def)
qed

theorem pipeline_accounting_witness:
  "\<exists>r s'. pipe_execute (scripted_client plain_lib) True
       ((pipe_init (demo_redis [Inl (Exc ResponseError ''no'')]) False)\<lparr>command_stack := [([PStr ''GET'', PStr ''k''], no_opts)]\<rparr>) = Some (r, s')
     \<and> accounts {} s'"
proof -
  let ?s = "(pipe_init (demo_redis [Inl (Exc ResponseError ''no'')]) False)\<lparr>command_stack := [([PStr ''GET'', PStr ''k''], no_opts)]\<rparr>"
  have "pipe_execute (scripted_client plain_lib) True ?s \<noteq> None"
    by (simp add: pipe_execute_def pipe_connection_def client_eval parse_response_def no_opts_def has_opt_def supported_def
      default_supported_errors_def owns_connection_def Let_def pipe_init_def redis.defs pipe.defs execute_pipeline_def
      pipe_parse_response_def nth_item_def raise_first_error.simps res_bind_def annotate_exception_def pipe_reset_def)
  moreover have "accounts {} ?s"
    by (simp add: accounts_def pool_fresh_def pool_inv_def pipe_init_def redis.defs demo_redis_def pipe.defs)
  ultimately show ?thesis using pipeline_accounting [of "{}" ?s "scripted_client plain_lib" True] by auto
qed



end
