(* ===== verification/PubSub_Spec.thy ===== *)
theory PubSub_Spec
  imports PubSub Client_Spec
begin

text \<open>
  What publish/subscribe promises: while there are subscriptions the object listens; and its dictionaries follow the
  state of the server, through reconnections, whatever the order of requests and confirmations.
\<close>

section \<open>Listening\<close>

lemma io_presD: "io_pres R m \<Longrightarrow> m s = Some (r, s') \<Longrightarrow> R s s'"
  by (simp add: io_pres_def)

definition listening :: "'c pubsub \<Rightarrow> bool" where
  "listening s \<longleftrightarrow> no_subscriptions s \<or> subscribed s"

definition keeps_listening :: "'c pubsub \<Rightarrow> 'c pubsub \<Rightarrow> bool" where
  "keeps_listening s s' \<longleftrightarrow> (listening s \<longrightarrow> listening s')"

lemma keeps_listening_rel: "reflp keeps_listening" "transp keeps_listening"
  by (auto simp: reflp_def transp_def keeps_listening_def)

text \<open>An operation of the connection changes the object only by the callbacks it runs.\<close>

definition only_by_callback :: "('c ps_io \<Rightarrow> ('c pubsub, 'a) io) \<Rightarrow> bool" where
  "only_by_callback m \<longleftrightarrow>
     (\<forall>R cb. reflp R \<and> transp R \<and> (\<forall>s w. R s (s\<lparr>ps_world := w\<rparr>)) \<and> io_pres R cb \<longrightarrow> io_pres R (m cb))"

definition ps_class_ok :: "'c ps_class \<Rightarrow> bool" where
  "ps_class_ok K \<longleftrightarrow> only_by_callback (\<lambda>cb. pc_get_connection K) \<and> only_by_callback (\<lambda>cb. pc_setup K)
     \<and> only_by_callback (\<lambda>cb. pc_release K) \<and> only_by_callback (pc_connect K)
     \<and> (\<forall>args b. only_by_callback (\<lambda>cb. pc_send K cb args b)) \<and> (\<forall>t. only_by_callback (\<lambda>cb. pc_can_read K cb t))
     \<and> (\<forall>a b. only_by_callback (\<lambda>cb. pc_read K cb a b))"

locale ps_frame =
  fixes K :: "'c ps_class" and R :: "'c pubsub \<Rightarrow> 'c pubsub \<Rightarrow> bool"
  assumes class_ok: "ps_class_ok K" and refl: "reflp R" and trans: "transp R"
    and world: "R s (s\<lparr>ps_world := w\<rparr>)" and counter: "R s (s\<lparr>health_check_response_counter := n\<rparr>)"
    and connected: "R s (s\<lparr>ps_connected := b\<rparr>)" and lock: "R s (s\<lparr>ps_lock_held := b\<rparr>)"
begin

lemma op:
  assumes "only_by_callback m" "io_pres R cb"
  shows "io_pres R (m cb)"
  using assms refl trans world unfolding only_by_callback_def by blast

lemma ops:
  "io_pres R (pc_get_connection K)" "io_pres R (pc_setup K)" "io_pres R (pc_release K)"
  "io_pres R cb \<Longrightarrow> io_pres R (pc_connect K cb)" "io_pres R cb \<Longrightarrow> io_pres R (pc_send K cb args b)"
  "io_pres R cb \<Longrightarrow> io_pres R (pc_can_read K cb t)" "io_pres R cb \<Longrightarrow> io_pres R (pc_read K cb a b)"
proof -
  have none: "io_pres R (\<lambda>s. None)" by (rule io_pres_none)
  note ok = class_ok [unfolded ps_class_ok_def]
  show "io_pres R (pc_get_connection K)" using op [of "\<lambda>cb. pc_get_connection K", OF _ none] ok by blast
  show "io_pres R (pc_setup K)" using op [of "\<lambda>cb. pc_setup K", OF _ none] ok by blast
  show "io_pres R (pc_release K)" using op [of "\<lambda>cb. pc_release K", OF _ none] ok by blast
  assume cb: "io_pres R cb"
  show "io_pres R (pc_connect K cb)" using op [of "pc_connect K", OF _ cb] ok by blast
  show "io_pres R (pc_send K cb args b)" using op [of "\<lambda>cb. pc_send K cb args b", OF _ cb] ok by blast
  show "io_pres R (pc_can_read K cb t)" using op [of "\<lambda>cb. pc_can_read K cb t", OF _ cb] ok by blast
  show "io_pres R (pc_read K cb a b)" using op [of "\<lambda>cb. pc_read K cb a b", OF _ cb] ok by blast
qed

lemma upd_world: "io_pres R (ps_upd_world f)"
  unfolding ps_upd_world_def by (intro io_pres_upd) (rule world)

lemma disconnect_raise_connect_pres: "io_pres R cb \<Longrightarrow> io_pres R (disconnect_raise_connect K cb e)"
  unfolding disconnect_raise_connect_def by (intro io_pres_intros refl trans upd_world ops)

lemma ps_execute_pres:
  assumes "io_pres R cb" "io_pres R m"
  shows "io_pres R (ps_execute K cb m)"
proof -
  let ?rand = "\<lambda>s. let (x, w) = pc_random K (ps_world s) in (x, s\<lparr>ps_world := w\<rparr>)"
  let ?sleep = "\<lambda>t s. s\<lparr>ps_world := pc_sleep K t (ps_world s)\<rparr>"
  have rand: "R s (snd (?rand s))" for s using world by (simp add: Let_def split: prod.splits)
  have k: "keeps R m (disconnect_raise_connect K cb) ?rand ?sleep"
    unfolding keeps_def by (intro conjI allI assms refl trans disconnect_raise_connect_pres rand world)
  show ?thesis unfolding io_pres_def ps_execute_def
  proof (intro allI impI)
    fix s r s'
    assume "(case call_with_retry m (disconnect_raise_connect K cb) ?rand ?sleep (pc_retry K (ps_world s)) s of
        None \<Rightarrow> None | Some (r, rt, s') \<Rightarrow> Some (r, s'\<lparr>ps_world := pc_put_retry K rt (ps_world s')\<rparr>)) = Some (r, s')"
    then obtain rt s1 where c: "call_with_retry m (disconnect_raise_connect K cb) ?rand ?sleep (pc_retry K (ps_world s)) s = Some (r, rt, s1)"
      "s' = s1\<lparr>ps_world := pc_put_retry K rt (ps_world s1)\<rparr>"
      by (auto split: option.splits)
    have "R s s1" by (rule call_with_retry_keeps [OF k c(1)])
    then show "R s s'" unfolding c(2) using world trans by (blast dest: transpD)
  qed
qed

lemma with_ps_lock_pres:
  assumes "io_pres R m"
  shows "io_pres R (with_ps_lock m)"
  unfolding io_pres_def with_ps_lock_def
proof (intro allI impI)
  fix s r s'
  assume a: "(if ps_lock_held s then None
    else io_finally m (io_upd (\<lambda>s. s\<lparr>ps_lock_held := False\<rparr>)) (s\<lparr>ps_lock_held := True\<rparr>)) = Some (r, s')"
  have "io_pres R (io_finally m (io_upd (\<lambda>s. s\<lparr>ps_lock_held := False\<rparr>)))"
    by (intro io_pres_finally trans assms io_pres_upd lock)
  then have "R (s\<lparr>ps_lock_held := True\<rparr>) s'" using a unfolding io_pres_def by (metis option.distinct(1))
  then show "R s s'" using lock trans by (blast dest: transpD)
qed

lemma ps_check_health_pres: "io_pres R cb \<Longrightarrow> io_pres R (ps_check_health K cb)"
  unfolding ps_check_health_def Let_def case_prod_beta
  by (intro io_pres_intros refl trans upd_world ops counter)

lemma clean_pres: "io_pres R cb \<Longrightarrow> io_pres R (clean_health_check_responses K cb n)"
  by (induction n) (auto intro!: io_pres_intros refl trans ps_execute_pres ops counter)

lemma ps_execute_command_pres: "io_pres R cb \<Longrightarrow> io_pres R (ps_execute_command K cb args)"
  unfolding ps_execute_command_def Let_def
  by (intro io_pres_intros refl trans ops connected clean_pres with_ps_lock_pres ps_execute_pres)

end

text \<open>A relation that recording subscriptions and forgetting them keep too is kept by every method.\<close>

locale ps_methods = ps_frame +
  assumes recorded: "R s (record_subscriptions f names s)" and pend: "R s (s\<lparr>pending := p\<rparr>)"
    and forget: "R s (forget f name s)" and wait: "io_pres R (pc_wait K t)" and handler: "io_pres R (pc_handler K h m)"
    and cleared: "R s (s\<lparr>health_check_response_counter := 0, subs := (\<lambda>_. []), pending := (\<lambda>_. []), subscribed := False\<rparr>)"
begin

lemma subscribe_with_pres: "io_pres R cb \<Longrightarrow> io_pres R (subscribe_with K cb f args kwargs)"
  unfolding subscribe_with_def Let_def by (intro io_pres_intros refl trans ps_execute_command_pres recorded)

lemma unsubscribe_with_pres: "io_pres R cb \<Longrightarrow> io_pres R (unsubscribe_with K cb f args)"
  unfolding unsubscribe_with_def Let_def by (intro io_pres_intros refl trans ps_execute_command_pres pend)

lemma on_connect_pres: "io_pres R (on_connect K n)"
proof (induction n)
  case 0
  show ?case by (simp add: io_pres_none)
next
  case (Suc n)
  then show ?case unfolding on_connect.simps resubscribe_def by (intro io_pres_intros refl trans subscribe_with_pres pend)
qed

lemma parse_response_pres: "io_pres R (ps_parse_response K n block t)"
  unfolding ps_parse_response_def Let_def
  by (intro io_pres_intros refl trans ps_check_health_pres on_connect_pres ps_execute_pres ops counter)

lemma handle_message_pres: "io_pres R (handle_message K r b)"
proof -
  have f: "io_pres R (io_upd (forget f c))" for f c by (intro io_pres_upd forget)
  have unsub: "io_pres R (case g of None \<Rightarrow> io_ret () | Some f \<Rightarrow> if hashable c then io_upd (forget f c) else io_raise e)" for g c e
    by (cases g) (simp_all add: io_pres_ret io_pres_raise refl f)
  have publish: "io_pres R (case sub_get d n of Some (Some h) \<Rightarrow> io_seq (pc_handler K h m) (io_ret PNone) | _ \<Rightarrow> io_ret m)" for d n m
    by (simp add: io_pres_ret io_pres_seq handler refl trans split: option.split)
  have rest: "io_pres R (case g of
             Some f \<Rightarrow>
               if \<not> hashable (nm f) then io_raise (e f)
               else (case sub_get (d f) (nm f) of Some (Some h) \<Rightarrow> io_seq (pc_handler K h m) (io_ret PNone) | _ \<Rightarrow> io_ret m)
           | None \<Rightarrow> if q then io_ret PNone else io_ret m)" for g nm e d m q
    by (cases g) (simp_all add: io_pres_ret io_pres_raise refl publish)
  show ?thesis unfolding handle_message_def Let_def case_prod_beta
    by (simp add: io_pres_ret refl) (intro impI io_pres_bind io_pres_seq io_pres_get io_pres_lift refl trans unsub rest)
qed

lemma get_message_pres: "io_pres R (get_message K n b t)"
proof -
  have go: "io_pres R (io_bind (ps_parse_response K n q t') (\<lambda>response.
      if truthy response then handle_message K response b else io_ret PNone))" for q t'
    by (intro io_pres_bind trans parse_response_pres) (simp add: handle_message_pres io_pres_ret refl)
  show ?thesis unfolding get_message_def Let_def case_prod_beta
    by (intro io_pres_get) (cases t; simp add: go io_pres_bind wait trans refl io_pres_ret io_pres_raise)
qed

lemma reset_pres: "io_pres R (ps_reset K)"
  unfolding ps_reset_def by (intro io_pres_intros refl trans upd_world ops connected cleared)

end

lemma listening_updates:
  "keeps_listening s (s\<lparr>ps_world := w\<rparr>)" "keeps_listening s (s\<lparr>health_check_response_counter := n\<rparr>)"
  "keeps_listening s (s\<lparr>ps_connected := b\<rparr>)" "keeps_listening s (s\<lparr>ps_lock_held := b\<rparr>)" "keeps_listening s (s\<lparr>pending := p\<rparr>)"
  "keeps_listening s (s\<lparr>health_check_response_counter := 0, subs := (\<lambda>_. []), pending := (\<lambda>_. []), subscribed := False\<rparr>)"
  by (simp_all add: keeps_listening_def listening_def no_subscriptions_def)

lemma listening_record: "listening (record_subscriptions f names s)"
  by (simp add: record_subscriptions_def Let_def listening_def)

lemma sub_pop_Nil [simp]: "sub_pop k [] = []"
  by (simp add: sub_pop_def)

lemma no_subscriptions_flag [simp]: "no_subscriptions (s\<lparr>subscribed := b\<rparr>) = no_subscriptions s"
  by (simp add: no_subscriptions_def)

lemma listening_forget: "keeps_listening s (forget f name s)"
proof -
  have "no_subscriptions (s\<lparr>pending := p, subs := (subs s)(f := sub_pop name (subs s f))\<rparr>)" if "no_subscriptions s" for p
    using that by (cases f) (auto simp: no_subscriptions_def)
  then show ?thesis by (auto simp: forget_def Let_def keeps_listening_def listening_def)
qed

text \<open>What the environment promises: other threads that subscribe while this one waits, and the handlers of messages,
  use the object's methods only.\<close>

definition users_ok :: "'c ps_class \<Rightarrow> bool" where
  "users_ok K \<longleftrightarrow> (\<forall>t. io_pres keeps_listening (pc_wait K t)) \<and> (\<forall>h m. io_pres keeps_listening (pc_handler K h m))"

lemma listening_methods:
  assumes "ps_class_ok K" "users_ok K"
  shows "ps_methods K keeps_listening"
proof (unfold_locales)
  show "keeps_listening s (record_subscriptions f names s)" for s f names
    by (simp add: keeps_listening_def listening_record)
qed (use assms in \<open>auto simp: users_ok_def listening_updates listening_forget keeps_listening_rel\<close>)

section \<open>A server\<close>

text \<open>
  What a server keeps for one connection: the names subscribed to, the requests it has not processed, the confirmations the
  client has not read.  It processes requests in order, adds or removes the names and confirms each of them; an
  \<open>UNSUBSCRIBE\<close> without names is about all there are, and is confirmed once without a name when there are none.
\<close>

type_synonym request = "family \<times> bool \<times> bytes list"
type_synonym confirmation = "family \<times> bool \<times> bytes option"

record channel_server =
  topics :: "family \<Rightarrow> bytes list"
  requests :: "request list"
  confirmations :: "confirmation list"

fun serve :: "(family \<Rightarrow> bytes list) \<Rightarrow> request \<Rightarrow> (family \<Rightarrow> bytes list) \<times> confirmation list" where
  "serve T (f, True, bs) = (T(f := fold List.insert bs (T f)), map (\<lambda>b. (f, True, Some b)) bs)"
| "serve T (f, False, bs) =
     (let gone = (if bs = [] then T f else bs) in
      (T(f := filter (\<lambda>b. b \<notin> set gone) (T f)),
       if gone = [] then [(f, False, None)] else map (\<lambda>b. (f, False, Some b)) gone))"

fun serve_all :: "(family \<Rightarrow> bytes list) \<Rightarrow> request list \<Rightarrow> (family \<Rightarrow> bytes list) \<times> confirmation list" where
  "serve_all T [] = (T, [])"
| "serve_all T (r # rs) = (let (T1, cs) = serve T r; (T2, ds) = serve_all T1 rs in (T2, cs @ ds))"

lemma serve_all_append:
  "serve_all T (rs @ [r]) = (let (T1, cs) = serve_all T rs; (T2, ds) = serve T1 r in (T2, cs @ ds))"
  by (induction rs arbitrary: T) (auto simp: Let_def split: prod.splits)

definition requests_of :: "pyval list \<Rightarrow> request list" where
  "requests_of args =
     (let bs = map (\<lambda>v. case encode (utf8_encoder False) v of Inr w \<Rightarrow> raw_bytes w | Inl _ \<Rightarrow> []) (drop 1 args) in
      concat (map (\<lambda>f. if hd args = PStr (SUBSCRIBE f) then [(f, True, bs)]
                       else if hd args = PStr (UNSUBSCRIBE f) then [(f, False, bs)] else []) [Channels, Patterns, Shards]))"

text \<open>A connection to that server that does not break while it sends, and the reply a confirmation is.\<close>

definition server_class :: "channel_server ps_class" where
  "server_class = \<lparr> pc_get_connection = io_ret (), pc_setup = io_ret (), pc_release = io_ret (), pc_disconnect = id,
     pc_connect = (\<lambda>cb. io_ret ()),
     pc_send = (\<lambda>cb args chk. io_upd (\<lambda>s. s\<lparr>ps_world := (ps_world s)\<lparr>requests := requests (ps_world s) @ requests_of args\<rparr>\<rparr>)),
     pc_can_read = (\<lambda>cb t. io_ret False), pc_read = (\<lambda>cb a b s. None), pc_health_due = (\<lambda>w. (False, w)),
     pc_socket_timeout = (\<lambda>_. None), pc_retry = (\<lambda>_. new_retry NoBackoff 0), pc_put_retry = (\<lambda>_ w. w),
     pc_retry_on_error = (\<lambda>_. []), pc_random = (\<lambda>w. (0, w)), pc_sleep = (\<lambda>_ w. w), pc_wait = (\<lambda>t. io_ret (False, 0)),
     pc_handler = (\<lambda>h m. io_ret ()), pc_running = (\<lambda>_. True), pc_set_running = (\<lambda>_ w. w) \<rparr>"

definition confirmation_reply :: "confirmation \<Rightarrow> pyval" where
  "confirmation_reply c =
     (case c of (f, sub, b) \<Rightarrow>
        PList [PBytes (lower (if sub then SUBSCRIBE f else UNSUBSCRIBE f)),
          (case b of Some b \<Rightarrow> PBytes b | None \<Rightarrow> PNone), PInt 0])"

lemma only_by_callback_simps:
  "only_by_callback (\<lambda>cb. io_ret x)" "only_by_callback (\<lambda>cb s. None)"
  "only_by_callback (\<lambda>cb. io_upd (\<lambda>s. s\<lparr>ps_world := w s\<rparr>))"
  by (auto simp: only_by_callback_def io_pres_ret io_pres_none intro!: io_pres_upd)

lemma server_class_ok: "ps_class_ok server_class" "users_ok server_class"
  by (simp_all add: ps_class_ok_def server_class_def only_by_callback_simps users_ok_def io_pres_ret keeps_listening_rel)

interpretation served: ps_methods server_class keeps_listening
  by (rule listening_methods [OF server_class_ok])

section \<open>The client follows the server\<close>

text \<open>The steps: the client subscribes or unsubscribes (its names are well-formed text, and no parameter of a method); the server processes a
  request; the client reads a confirmation; the connection is lost, everything under way with it, and \<open>on_connect\<close> runs
  on the new one.\<close>

definition good_name :: "bytes \<Rightarrow> bool" where
  "good_name b \<longleftrightarrow> utf8_valid b \<and> b \<noteq> ''self'' \<and> b \<noteq> ''target_node''"

inductive channel_step :: "nat \<Rightarrow> channel_server pubsub \<Rightarrow> channel_server pubsub \<Rightarrow> bool" for n where
  step_subscribe: "bs \<noteq> [] \<Longrightarrow> list_all good_name bs \<Longrightarrow>
     subscribe_with server_class (on_connect server_class n) f (map PBytes bs) [] s = Some (Inr (), s') \<Longrightarrow> channel_step n s s'"
| step_unsubscribe: "list_all good_name bs \<Longrightarrow>
     unsubscribe_with server_class (on_connect server_class n) f (map PBytes bs) s = Some (Inr (), s') \<Longrightarrow> channel_step n s s'"
| step_serve: "ps_world s = \<lparr>topics = T, requests = r # rs, confirmations = cs\<rparr> \<Longrightarrow> serve T r = (T', ds) \<Longrightarrow>
     channel_step n s (s\<lparr>ps_world := \<lparr>topics = T', requests = rs, confirmations = cs @ ds\<rparr>\<rparr>)"
| step_read: "confirmations (ps_world s) = c # cs \<Longrightarrow>
     handle_message server_class (confirmation_reply c) ignore (s\<lparr>ps_world := (ps_world s)\<lparr>confirmations := cs\<rparr>\<rparr>) = Some (Inr v, s') \<Longrightarrow>
     channel_step n s s'"
| step_reconnect: "on_connect server_class n (s\<lparr>ps_world := \<lparr>topics = (\<lambda>_. []), requests = [], confirmations = []\<rparr>\<rparr>) = Some (Inr (), s') \<Longrightarrow>
     channel_step n s s'"

definition names_of :: "family \<Rightarrow> 'c pubsub \<Rightarrow> pyval set" where
  "names_of f s = fst ` set (subs s f)"

text \<open>The invariant: where the server will be when it has processed everything, and what the client will have read by then.\<close>

definition follows_at :: "family \<Rightarrow> channel_server pubsub \<Rightarrow> bool" where
  "follows_at f s \<longleftrightarrow>
     (let (T, cs) = serve_all (topics (ps_world s)) (requests (ps_world s)) in
      (\<forall>b. PBytes b \<in> set (pending s f) \<longrightarrow> b \<notin> set (T f) \<and> (f, False, Some b) \<in> set (confirmations (ps_world s) @ cs))
        \<and> (\<forall>b. PBytes b \<notin> set (pending s f) \<longrightarrow> (PBytes b \<in> names_of f s \<longleftrightarrow> b \<in> set (T f))))"

definition good_keys :: "pyval set" where
  "good_keys = PBytes ` Collect good_name"

definition ready :: "channel_server pubsub \<Rightarrow> bool" where
  "ready s \<longleftrightarrow> ps_connected s \<and> \<not> ps_lock_held s \<and> health_check_response_counter s = 0 \<and> ps_encoder s = utf8_encoder False
     \<and> (\<forall>f. names_of f s \<union> set (pending s f) \<subseteq> good_keys)"

subsection \<open>Dictionaries with text or bytes keys\<close>

definition plain_keys :: "pyval set \<Rightarrow> bool" where
  "plain_keys ks \<longleftrightarrow> (\<forall>k\<in>ks. norm_key k = k)"

lemma plain_keys_simps [simp]:
  "plain_keys {}" "plain_keys (insert k ks) \<longleftrightarrow> norm_key k = k \<and> plain_keys ks"
  "plain_keys (a \<union> b) \<longleftrightarrow> plain_keys a \<and> plain_keys b" "plain_keys (PBytes ` bs)" "plain_keys (PStr ` bs)"
  by (auto simp: plain_keys_def)

lemma plain_keys_subset: "plain_keys b \<Longrightarrow> a \<subseteq> b \<Longrightarrow> plain_keys a"
  by (auto simp: plain_keys_def)

lemma keys_sub_set:
  "plain_keys (fst ` set d) \<Longrightarrow> norm_key k = k \<Longrightarrow> fst ` set (sub_set d k v) = insert k (fst ` set d)"
  by (induction d k v rule: sub_set.induct) auto

lemma keys_sub_update:
  "plain_keys (fst ` set d) \<Longrightarrow> plain_keys (fst ` set new) \<Longrightarrow> fst ` set (sub_update d new) = fst ` set d \<union> fst ` set new"
proof (induction new arbitrary: d)
  case (Cons kv new)
  then have "fst ` set (sub_set d (fst kv) (snd kv)) = insert (fst kv) (fst ` set d)"
    by (intro keys_sub_set) (simp_all add: plain_keys_def)
  then show ?case using Cons by (simp add: sub_update_def case_prod_beta)
qed (simp add: sub_update_def)

lemma keys_sub_pop: "plain_keys (fst ` set d) \<Longrightarrow> norm_key k = k \<Longrightarrow> fst ` set (sub_pop k d) = fst ` set d - {k}"
  by (force simp: sub_pop_def plain_keys_def)

lemma in_names_plain: "plain_keys (set ks) \<Longrightarrow> norm_key k = k \<Longrightarrow> in_names k ks \<longleftrightarrow> k \<in> set ks"
  by (force simp: in_names_def plain_keys_def)

lemma names_diff_plain: "plain_keys (set ks) \<Longrightarrow> plain_keys (set away) \<Longrightarrow> set (names_diff ks away) = set ks - set away"
  by (auto simp: names_diff_def in_names_plain plain_keys_def in_names_def)

lemma names_add_plain: "plain_keys (set ks) \<Longrightarrow> plain_keys (set new) \<Longrightarrow> set (names_add ks new) = set ks \<union> set new"
proof (induction new arbitrary: ks)
  case (Cons k new)
  then show ?case by (auto simp: names_add_def in_names_plain)
qed (simp add: names_add_def)

lemma from_keys_plain:
  assumes "list_all hashable ks" "plain_keys (set ks)"
  shows "\<exists>d. from_keys ks = Inr d \<and> fst ` set d = set ks"
proof -
  have "\<exists>d'. res_fold (\<lambda>d k. if hashable k then Inr (sub_set d k None) else Inl (type_error k)) d ks = Inr d'
      \<and> fst ` set d' = fst ` set d \<union> set ks"
    if "plain_keys (fst ` set d)" for d :: "(pyval \<times> nat option) list"
    using assms that
  proof (induction ks arbitrary: d)
    case (Cons k ks)
    have "fst ` set (sub_set d k None) = insert k (fst ` set d)" using Cons.prems by (intro keys_sub_set) simp_all
    then show ?case using Cons.IH [of "sub_set d k None"] Cons.prems by (auto simp: res_bind_def)
  qed simp
  from this [of "[]"] show ?thesis by (simp add: from_keys_def)
qed

text \<open>The bytes of a name that is text or bytes.\<close>

fun name_bytes :: "pyval \<Rightarrow> bytes" where
  "name_bytes (PStr s) = s"
| "name_bytes (PBytes b) = b"
| "name_bytes _ = []"

definition texts :: "pyval set \<Rightarrow> bool" where
  "texts ks \<longleftrightarrow> (\<forall>k\<in>ks. \<exists>b. k = PBytes b \<or> k = PStr b)"

lemma texts_plain: "texts ks \<Longrightarrow> plain_keys ks"
  by (auto simp: texts_def plain_keys_def)

lemma encode_text: "texts {k} \<Longrightarrow> encode (utf8_encoder False) k = Inr (PBytes (name_bytes k))"
  by (auto simp: texts_def utf8_encoder_def)

lemma normalize_texts:
  assumes "texts (fst ` set new)"
  shows "\<exists>d. normalize_keys (utf8_encoder False) new = Inr d \<and> fst ` set d = PBytes ` name_bytes ` fst ` set new"
proof -
  let ?f = "\<lambda>acc (k, v). res_bind (encode (utf8_encoder False) k) (\<lambda>b. res_bind (decode (utf8_encoder False) False b) (\<lambda>k'. Inr (sub_set acc k' v)))"
  have "\<exists>d'. res_fold ?f d new = Inr d' \<and> fst ` set d' = fst ` set d \<union> PBytes ` name_bytes ` fst ` set new"
    if "plain_keys (fst ` set d)" for d
    using assms that
  proof (induction new arbitrary: d)
    case (Cons kv new)
    obtain k v where kv: "kv = (k, v)" by (cases kv)
    have e: "encode (utf8_encoder False) k = Inr (PBytes (name_bytes k))"
      using Cons.prems(1) by (intro encode_text) (simp add: texts_def kv)
    have "fst ` set (sub_set d (PBytes (name_bytes k)) v) = insert (PBytes (name_bytes k)) (fst ` set d)"
      using Cons.prems(2) by (intro keys_sub_set) simp_all
    then show ?case using Cons.IH [of "sub_set d (PBytes (name_bytes k)) v"] Cons.prems e
      by (auto simp: kv res_bind_def utf8_encoder_def texts_def)
  qed simp
  from this [of "[]"] show ?thesis by (simp add: normalize_keys_def)
qed

lemma requests_of_texts:
  assumes "texts (set ks)"
  shows "requests_of (PStr (SUBSCRIBE f) # ks) = [(f, True, map name_bytes ks)]"
    "requests_of (PStr (UNSUBSCRIBE f) # ks) = [(f, False, map name_bytes ks)]"
proof -
  have "map (\<lambda>v. case encode (utf8_encoder False) v of Inr w \<Rightarrow> raw_bytes w | Inl _ \<Rightarrow> []) ks = map name_bytes ks"
    using assms encode_text by (simp add: texts_def)
  then show "requests_of (PStr (SUBSCRIBE f) # ks) = [(f, True, map name_bytes ks)]"
    "requests_of (PStr (UNSUBSCRIBE f) # ks) = [(f, False, map name_bytes ks)]"
    by (cases f; simp add: requests_of_def SUBSCRIBE_def UNSUBSCRIBE_def)+
qed

subsection \<open>Sending\<close>

lemma ps_execute_ok:
  assumes "m s = Some (Inr x, s1)"
  shows "ps_execute server_class cb m s = Some (Inr x, s1)"
proof -
  have "call_with_retry m fail random sleep r s = Some (Inr x, r\<lparr>r_backoff := backoff_reset (r_backoff r)\<rparr>, s1)" for fail random sleep r
    unfolding call_with_retry_def by (subst retry_loop.simps) (simp add: assms)
  then show ?thesis by (simp add: ps_execute_def server_class_def)
qed

lemma clean_nothing: "health_check_response_counter s = 0 \<Longrightarrow> clean_health_check_responses K cb n s = Some (Inr (), s)"
  by (cases n) (simp_all add: io_ret_def io_get_def)

definition asked :: "request \<Rightarrow> channel_server pubsub \<Rightarrow> channel_server pubsub" where
  "asked r s = s\<lparr>ps_world := (ps_world s)\<lparr>requests := requests (ps_world s) @ [r]\<rparr>\<rparr>"

lemma execute_asks:
  assumes "ready s" "requests_of args = [r]"
  shows "ps_execute_command server_class cb args s = Some (Inr (), asked r s)"
proof -
  have s: "ps_connected s" "\<not> ps_lock_held s" "health_check_response_counter s = 0" using assms(1) by (simp_all add: ready_def)
  have unlocked: "s'\<lparr>ps_lock_held := False\<rparr> = s'" if "\<not> ps_lock_held s'" for s' :: "channel_server pubsub" using that by simp
  have "pc_send server_class cb args chk (s\<lparr>ps_lock_held := True\<rparr>) = Some (Inr (), (asked r s)\<lparr>ps_lock_held := True\<rparr>)" for chk
    using assms(2) by (simp add: server_class_def io_upd_def asked_def)
  then have "ps_execute server_class cb (pc_send server_class cb args chk) (s\<lparr>ps_lock_held := True\<rparr>)
      = Some (Inr (), (asked r s)\<lparr>ps_lock_held := True\<rparr>)" for chk
    by (rule ps_execute_ok)
  then have "with_ps_lock (ps_execute server_class cb (pc_send server_class cb args chk)) s = Some (Inr (), asked r s)" for chk
    using s(2) by (simp add: with_ps_lock_def io_finally_def io_upd_def asked_def)
  then show ?thesis using s clean_nothing [OF s(3)]
    by (simp add: ps_execute_command_def io_seq_def io_bind_def io_get_def io_when_def io_ret_def Let_def)
qed

subsection \<open>What a request does on both sides\<close>

definition added :: "family \<Rightarrow> bytes set \<Rightarrow> channel_server pubsub \<Rightarrow> channel_server pubsub \<Rightarrow> bool" where
  "added f B s s' \<longleftrightarrow> (\<exists>bs. set bs = B \<and> ps_world s' = ps_world (asked (f, True, bs) s)) \<and> ready s'
     \<and> (\<forall>g. names_of g s' = (if g = f then names_of g s \<union> PBytes ` B else names_of g s))
     \<and> (\<forall>g. set (pending s' g) = (if g = f then set (pending s g) - PBytes ` B else set (pending s g)))"

lemma ready_plain: "ready s \<Longrightarrow> plain_keys (names_of f s) \<and> plain_keys (set (pending s f))"
proof -
  assume "ready s"
  then have "names_of f s \<subseteq> good_keys" "set (pending s f) \<subseteq> good_keys" unfolding ready_def by auto
  moreover have "plain_keys good_keys" by (simp add: good_keys_def)
  ultimately show ?thesis using plain_keys_subset by blast
qed

lemma subscribe_core:
  assumes s: "ready s" and new: "texts (fst ` set new)" "name_bytes ` fst ` set new \<subseteq> Collect good_name"
  shows "\<exists>s'. io_seq (ps_execute_command server_class cb (PStr (SUBSCRIBE f) # map fst new))
         (io_get (\<lambda>s. io_bind (io_lift (normalize_keys (ps_encoder s) new)) (\<lambda>names.
            io_upd (record_subscriptions f names)))) s = Some (Inr (), s')
     \<and> added f (name_bytes ` fst ` set new) s s'"
proof -
  let ?r = "(f, True, map name_bytes (map fst new))"
  have "requests_of (PStr (SUBSCRIBE f) # map fst new) = [?r]"
    by (rule requests_of_texts) (use new(1) in simp)
  then have ex: "ps_execute_command server_class cb (PStr (SUBSCRIBE f) # map fst new) s = Some (Inr (), asked ?r s)"
    by (rule execute_asks [OF s])
  obtain d where d: "normalize_keys (utf8_encoder False) new = Inr d" "fst ` set d = PBytes ` name_bytes ` fst ` set new"
    using normalize_texts [OF new(1)] by blast
  have E: "ps_encoder (asked ?r s) = utf8_encoder False" using s by (simp add: asked_def ready_def)
  let ?s' = "record_subscriptions f d (asked ?r s)"
  have sub: "fst ` set (sub_update (subs s f) d) = names_of f s \<union> fst ` set d"
    using keys_sub_update [of "subs s f" d] ready_plain [OF s, of f] d(2) by (simp add: names_of_def)
  have pend: "set (names_diff (pending s f) (map fst d)) = set (pending s f) - fst ` set d"
    using names_diff_plain [of "pending s f" "map fst d"] ready_plain [OF s, of f] d(2) by simp
  have names: "names_of g ?s' = (if g = f then names_of g s \<union> fst ` set d else names_of g s)" for g
    using sub by (simp add: record_subscriptions_def Let_def names_of_def asked_def)
  have pends: "set (pending ?s' g) = (if g = f then set (pending s g) - fst ` set d else set (pending s g))" for g
    using pend by (simp add: record_subscriptions_def Let_def asked_def)
  have keys: "fst ` set d \<subseteq> good_keys" unfolding d(2) good_keys_def using new(2) by (rule image_mono)
  have rest: "ps_connected ?s' = ps_connected s" "ps_lock_held ?s' = ps_lock_held s" "ps_encoder ?s' = ps_encoder s"
    "ps_world ?s' = ps_world (asked ?r s)" "health_check_response_counter s = 0 \<Longrightarrow> health_check_response_counter ?s' = 0"
    by (simp_all add: record_subscriptions_def Let_def asked_def)
  have "ready ?s'"
    unfolding ready_def names pends using s keys rest by (auto simp: ready_def)
  then have "added f (name_bytes ` fst ` set new) s ?s'"
    unfolding added_def names pends d(2)
    using rest(4) by (intro conjI exI [of _ "map name_bytes (map fst new)"]) (simp_all add: image_image)
  moreover have "io_seq (ps_execute_command server_class cb (PStr (SUBSCRIBE f) # map fst new))
         (io_get (\<lambda>s. io_bind (io_lift (normalize_keys (ps_encoder s) new)) (\<lambda>names.
            io_upd (record_subscriptions f names)))) s = Some (Inr (), ?s')"
    using ex d(1) E by (simp add: io_seq_def io_get_def io_upd_def)
  ultimately show ?thesis by blast
qed

lemma subscribe_adds:
  assumes "ready s" "bs \<noteq> []" "list_all good_name bs"
  shows "\<exists>s'. subscribe_with server_class cb f (map PBytes bs) [] s = Some (Inr (), s') \<and> added f (set bs) s s'"
proof -
  have sp: "spread_args (map PBytes bs) = map PBytes bs" using assms(2) by (cases bs) (simp_all add: spread_args_def)
  obtain d where d: "from_keys (map PBytes bs) = Inr d" "fst ` set d = PBytes ` set bs"
    using from_keys_plain [of "map PBytes bs"] by (auto simp: list_all_iff)
  have "texts (fst ` set d)" by (auto simp: d(2) texts_def)
  moreover have nb: "name_bytes ` fst ` set d = set bs" by (simp add: d(2) image_image)
  moreover have "bind_keywords f [] = Inr []" by (simp add: bind_keywords_def)
  ultimately show ?thesis
    using subscribe_core [OF assms(1), of d cb f] d(1) sp assms(3)
    by (simp add: subscribe_with_def sub_update_def list_all_iff subset_iff)
qed

lemma keyword_names_bytes:
  assumes "fst ` set d \<subseteq> good_keys"
  shows "\<exists>kws. keyword_names (utf8_encoder False) d = Inr kws \<and> PBytes ` fst ` set kws = fst ` set d
     \<and> fst ` set kws \<subseteq> Collect good_name"
proof -
  let ?f = "\<lambda>acc (k, v). res_bind (decode (utf8_encoder False) True k) (\<lambda>k'. Inr (sub_set acc k' v))"
  have "\<exists>d'. res_fold ?f e d = Inr d' \<and> fst ` set d' = fst ` set e \<union> PStr ` name_bytes ` fst ` set d"
    if "plain_keys (fst ` set e)" for e
    using assms that
  proof (induction d arbitrary: e)
    case (Cons kv d)
    obtain b v where kv: "kv = (PBytes b, v)" "good_name b" using Cons.prems(1) by (cases kv) (auto simp: good_keys_def)
    have "decode (utf8_encoder False) True (PBytes b) = Inr (PStr b)"
      using kv(2) by (simp add: utf8_encoder_def utf8_decode_def good_name_def)
    moreover have "fst ` set (sub_set e (PStr b) v) = insert (PStr b) (fst ` set e)"
      using Cons.prems(2) by (intro keys_sub_set) simp_all
    ultimately show ?case using Cons.IH [of "sub_set e (PStr b) v"] Cons.prems by (auto simp: kv(1) res_bind_def)
  qed simp
  from this [of "[]"] obtain d' where d': "res_fold ?f [] d = Inr d'" "fst ` set d' = PStr ` name_bytes ` fst ` set d" by auto
  have tr: "\<exists>kws. traverse (\<lambda>(k, v). case k of PStr s \<Rightarrow> Inr (s, v) | _ \<Rightarrow> Inl (type_error k)) e = Inr kws
      \<and> PStr ` fst ` set kws = fst ` set e" if "fst ` set e \<subseteq> range PStr" for e :: "(pyval \<times> nat option) list"
    using that
  proof (induction e)
    case (Cons kv e)
    then obtain s v where "kv = (PStr s, v)" by (cases kv) auto
    then show ?case using Cons by (auto simp: res_bind_def res_map_def)
  qed simp
  have "fst ` set d' \<subseteq> range PStr" by (auto simp: d'(2))
  from tr [OF this] obtain kws where kws: "traverse (\<lambda>(k, v). case k of PStr s \<Rightarrow> Inr (s, v) | _ \<Rightarrow> Inl (type_error k)) d' = Inr kws"
    "PStr ` fst ` set kws = fst ` set d'"
    by blast
  have inj: "x = y" if "PStr ` x = PStr ` y" for x y using that by (auto simp: inj_image_eq_iff inj_def)
  have names: "fst ` set kws = name_bytes ` fst ` set d" using inj kws(2) d'(2) by simp
  have "PBytes ` name_bytes ` fst ` set d = fst ` set d" "name_bytes ` fst ` set d \<subseteq> Collect good_name"
    using assms unfolding good_keys_def by (force simp: image_iff)+
  then show ?thesis using d'(1) kws(1) names by (auto simp: keyword_names_def res_bind_def)
qed

lemma resubscribe_adds:
  assumes "ready s"
  shows "\<exists>s'. resubscribe server_class cb f s = Some (Inr (), s') \<and> (names_of f s = {} \<and> s' = s \<or> added f {b. PBytes b \<in> names_of f s} s s')"
proof (cases "subs s f = []")
  case True
  then show ?thesis by (simp add: resubscribe_def io_get_def io_when_def io_ret_def names_of_def)
next
  case False
  have E: "ps_encoder s = utf8_encoder False" and keys: "fst ` set (subs s f) \<subseteq> good_keys"
    using assms by (auto simp: ready_def names_of_def)
  obtain kws where kws: "keyword_names (utf8_encoder False) (subs s f) = Inr kws"
    "PBytes ` fst ` set kws = names_of f s" "fst ` set kws \<subseteq> Collect good_name"
    using keyword_names_bytes [OF keys] by (auto simp: names_of_def)
  have kw: "bind_keywords f kws = Inr kws"
  proof -
    have no: "\<not> list_ex (\<lambda>(k, _). k = ''self'') kws" "filter (\<lambda>(k, _). k \<noteq> ''target_node'') kws = kws"
      using kws(3) by (force simp: list_ex_iff good_name_def intro!: filter_True)+
    then show ?thesis by (simp add: bind_keywords_def)
  qed
  let ?new = "sub_update [] (map (\<lambda>(k, v). (PStr k, v)) kws)"
  have pk: "fst ` set (map (\<lambda>(k, v). (PStr k, v)) kws) = PStr ` fst ` set kws" by (force simp: image_iff)
  have new: "fst ` set ?new = PStr ` fst ` set kws"
    using keys_sub_update [of "[]" "map (\<lambda>(k, v). (PStr k, v)) kws"] pk by simp
  have "texts (fst ` set ?new)" by (auto simp: new texts_def)
  moreover have nb: "name_bytes ` fst ` set ?new = fst ` set kws" by (simp add: new image_image)
  ultimately obtain s' where s': "io_seq (ps_execute_command server_class cb (PStr (SUBSCRIBE f) # map fst ?new))
         (io_get (\<lambda>s. io_bind (io_lift (normalize_keys (ps_encoder s) ?new)) (\<lambda>names.
            io_upd (record_subscriptions f names)))) s = Some (Inr (), s')" "added f (fst ` set kws) s s'"
    using subscribe_core [OF assms, of ?new cb f] kws(3) by auto
  have B: "fst ` set kws = {b. PBytes b \<in> names_of f s}" by (auto simp: kws(2) [symmetric] image_iff)
  have "resubscribe server_class cb f s = Some (Inr (), s')"
    using s'(1) False E kws(1) kw
    by (simp add: resubscribe_def io_get_def io_when_def subscribe_with_def spread_args_def from_keys_def Let_def)
  then show ?thesis using s'(2) B by auto
qed

subsection \<open>The invariant\<close>

definition follows :: "channel_server pubsub \<Rightarrow> bool" where
  "follows s \<longleftrightarrow> ready s \<and> (\<forall>f. follows_at f s)"

lemma serve_asked:
  assumes "ps_world s' = ps_world (asked r s)"
    and "serve_all (topics (ps_world s)) (requests (ps_world s)) = (T, cs)" "serve T r = (T', ds)"
  shows "serve_all (topics (ps_world s')) (requests (ps_world s')) = (T', cs @ ds)"
    "confirmations (ps_world s') = confirmations (ps_world s)"
  using assms by (simp_all add: asked_def serve_all_append)

lemma set_fold_insert: "set (fold List.insert bs xs) = set xs \<union> set bs"
  by (induction bs arbitrary: xs) auto

lemma added_follows_at:
  assumes "added f B s s'" "follows_at g s \<or> g = f \<and> pending s f = [] \<and> names_of f s = PBytes ` B
      \<and> fst (serve_all (topics (ps_world s)) (requests (ps_world s))) f = []"
  shows "follows_at g s'"
proof -
  obtain T cs where T: "serve_all (topics (ps_world s)) (requests (ps_world s)) = (T, cs)" by fastforce
  obtain bs where bs: "set bs = B" "ps_world s' = ps_world (asked (f, True, bs) s)" using assms(1) by (auto simp: added_def)
  have sv: "serve T (f, True, bs) = (T(f := fold List.insert bs (T f)), map (\<lambda>b. (f, True, Some b)) bs)" by simp
  note s' = serve_asked [OF bs(2) T sv]
  have n: "names_of g s' = (if g = f then names_of g s \<union> PBytes ` B else names_of g s)"
    "set (pending s' g) = (if g = f then set (pending s g) - PBytes ` B else set (pending s g))"
    using assms(1) by (simp_all add: added_def)
  show ?thesis using assms(2) unfolding follows_at_def s' T n
    by (auto simp: set_fold_insert bs(1))
qed

lemma subscribe_follows: "follows s \<Longrightarrow> added f B s s' \<Longrightarrow> follows s'"
  using added_follows_at unfolding follows_def by (metis added_def)

lemma unsubscribe_follows:
  assumes s: "follows s" and good: "list_all good_name bs"
    and run: "unsubscribe_with server_class cb f (map PBytes bs) s = Some (Inr (), s')"
  shows "follows s'"
proof -
  have r: "ready s" using s by (simp add: follows_def)
  let ?args = "map PBytes bs"
  have sp: "spread_args ?args = ?args" by (cases bs) (simp_all add: spread_args_def)
  have E: "ps_encoder s = utf8_encoder False" using r by (simp add: ready_def)
  obtain d where d: "(if ?args \<noteq> [] then res_bind (from_keys ?args) (normalize_keys (utf8_encoder False)) else Inr (subs s f)) = Inr d"
    "fst ` set d = (if bs = [] then names_of f s else PBytes ` set bs)"
  proof (cases "bs = []")
    case False
    obtain d0 where d0: "from_keys ?args = Inr d0" "fst ` set d0 = PBytes ` set bs"
      using from_keys_plain [of ?args] by (auto simp: list_all_iff)
    have "texts (fst ` set d0)" by (auto simp: d0(2) texts_def)
    from normalize_texts [OF this] show thesis using that False d0 by (force simp: res_bind_def image_image)
  qed (use that in \<open>simp add: names_of_def\<close>)
  let ?s1 = "s\<lparr>pending := (pending s)(f := names_add (pending s f) (map fst d))\<rparr>"
  let ?s' = "asked (f, False, bs) ?s1"
  have pend: "set (names_add (pending s f) (map fst d)) = set (pending s f) \<union> fst ` set d"
    using names_add_plain [of "pending s f" "map fst d"] ready_plain [OF r, of f] d(2) by auto
  have "fst ` set d \<subseteq> good_keys"
    using d(2) good r unfolding ready_def good_keys_def by (auto simp: list_all_iff)
  then have r1: "ready ?s1" using r pend by (auto simp: ready_def names_of_def)
  have "texts (set ?args)" by (auto simp: texts_def)
  from requests_of_texts(2) [OF this, of f] have "requests_of (PStr (UNSUBSCRIBE f) # ?args) = [(f, False, bs)]"
    by (simp add: o_def)
  from execute_asks [OF r1 this] have s': "s' = ?s'"
    using run sp E d(1) by (cases "bs = []")
      (simp_all add: unsubscribe_with_def Let_def io_seq_def io_get_def io_upd_def io_bind_def io_ret_def io_lift_def res_bind_def split: sum.splits)
  have "ready ?s'" using r1 by (auto simp: ready_def asked_def names_of_def)
  moreover have "follows_at g ?s'" for g
  proof -
    obtain T cs where T: "serve_all (topics (ps_world s)) (requests (ps_world s)) = (T, cs)" by fastforce
    obtain T' ds where sv: "serve T (f, False, bs) = (T', ds)" by fastforce
    have T': "T' = T(f := filter (\<lambda>b. b \<notin> set (if bs = [] then T f else bs)) (T f))"
      "\<forall>b. b \<in> set (if bs = [] then T f else bs) \<longrightarrow> (f, False, Some b) \<in> set ds"
      using sv by (auto simp: Let_def split: if_splits)
    have w: "ps_world ?s1 = ps_world s" by simp
    note s2 = serve_asked [of ?s' "(f, False, bs)" ?s1, OF refl, unfolded w, OF T sv]
    have fa: "follows_at g s" "follows_at f s" using s by (simp_all add: follows_def)
    have n: "names_of g ?s' = names_of g s"
      "set (pending ?s' g) = (if g = f then set (pending s f) \<union> fst ` set d else set (pending s g))"
      using pend by (simp_all add: asked_def names_of_def)
    show ?thesis using fa T' unfolding follows_at_def s2 T n d(2) by (auto split: if_splits)
  qed
  ultimately show ?thesis by (simp add: follows_def s')
qed

lemma lower_subscribe:
  "lower (SUBSCRIBE f) = (case f of Channels \<Rightarrow> ''subscribe'' | Patterns \<Rightarrow> ''psubscribe'' | Shards \<Rightarrow> ''ssubscribe'')"
  "lower (UNSUBSCRIBE f) = (case f of Channels \<Rightarrow> ''unsubscribe'' | Patterns \<Rightarrow> ''punsubscribe'' | Shards \<Rightarrow> ''sunsubscribe'')"
  by (cases f; simp add: SUBSCRIBE_def UNSUBSCRIBE_def; code_simp)+

lemma confirmation_types:
  "str_if_bytes (PBytes (lower (SUBSCRIBE f))) = PStr (lower (SUBSCRIBE f))"
  "str_if_bytes (PBytes (lower (UNSUBSCRIBE f))) = PStr (lower (UNSUBSCRIBE f))"
  "map_of UNSUBSCRIBE_MESSAGE_TYPES (PStr (lower (SUBSCRIBE f))) = None"
  "map_of UNSUBSCRIBE_MESSAGE_TYPES (PStr (lower (UNSUBSCRIBE f))) = Some f"
  "map_of PUBLISH_MESSAGE_TYPES (PStr (lower (SUBSCRIBE f))) = None"
  "map_of PUBLISH_MESSAGE_TYPES (PStr (lower (UNSUBSCRIBE f))) = None"
  "lower (SUBSCRIBE f) \<noteq> ''pmessage'' \<and> lower (SUBSCRIBE f) \<noteq> ''pong''"
  "lower (UNSUBSCRIBE f) \<noteq> ''pmessage'' \<and> lower (UNSUBSCRIBE f) \<noteq> ''pong''"
  by (cases f; simp add: lower_subscribe UNSUBSCRIBE_MESSAGE_TYPES_def PUBLISH_MESSAGE_TYPES_def utf8_conts_def)+

lemma handle_confirmation:
  assumes "handle_message K (confirmation_reply (f, sub, b)) ig s = Some (Inr v, s')"
  shows "s' = (if sub then s else forget f (case b of Some b \<Rightarrow> PBytes b | None \<Rightarrow> PNone) s)"
  using assms confirmation_types [of f]
  by (auto simp: handle_message_def confirmation_reply_def message_parts_def Let_def nth_item_def res_bind_def
      io_seq_def io_get_def io_upd_def io_ret_def io_bind_def io_lift_def io_raise_def split: option.splits if_splits)

lemma forget_names:
  assumes "ready s" "norm_key k = k"
  shows "names_of g (forget f k s) = (if g = f \<and> k \<in> set (pending s f) then names_of f s - {k} else names_of g s)"
    "set (pending (forget f k s) g) = (if g = f then set (pending s f) - {k} else set (pending s g))"
    "ps_world (forget f k s) = ps_world s"
proof -
  note p = ready_plain [OF assms(1), of f]
  have "fst ` set (sub_pop k (subs s f)) = names_of f s - {k}"
    using keys_sub_pop [of "subs s f" k] p assms(2) by (simp add: names_of_def)
  moreover have "set (names_diff (pending s f) [k]) = set (pending s f) - {k}"
    using names_diff_plain [of "pending s f" "[k]"] p assms(2) by simp
  moreover have "in_names k (pending s f) \<longleftrightarrow> k \<in> set (pending s f)" using in_names_plain p assms(2) by blast
  ultimately show "names_of g (forget f k s) = (if g = f \<and> k \<in> set (pending s f) then names_of f s - {k} else names_of g s)"
    "set (pending (forget f k s) g) = (if g = f then set (pending s f) - {k} else set (pending s g))"
    "ps_world (forget f k s) = ps_world s"
    by (auto simp: forget_def Let_def names_of_def)
qed

lemma forget_ready:
  assumes "ready s" "norm_key k = k"
  shows "ready (forget f k s)"
proof -
  have "ps_connected (forget f k s) = ps_connected s" "ps_lock_held (forget f k s) = ps_lock_held s"
    "health_check_response_counter (forget f k s) = health_check_response_counter s" "ps_encoder (forget f k s) = ps_encoder s"
    by (simp_all add: forget_def Let_def)
  then show ?thesis using assms(1) unfolding ready_def forget_names [OF assms] by auto
qed

lemma read_follows:
  assumes "follows s" "confirmations (ps_world s) = c # cs"
    and "handle_message server_class (confirmation_reply c) ig (s\<lparr>ps_world := (ps_world s)\<lparr>confirmations := cs\<rparr>\<rparr>) = Some (Inr v, s')"
  shows "follows s'"
proof -
  obtain f sub b where c: "c = (f, sub, b)" by (cases c)
  let ?s1 = "s\<lparr>ps_world := (ps_world s)\<lparr>confirmations := cs\<rparr>\<rparr>"
  let ?k = "case b of Some b \<Rightarrow> PBytes b | None \<Rightarrow> PNone"
  have s': "s' = (if sub then ?s1 else forget f ?k ?s1)" by (rule handle_confirmation) (use assms(3) c in simp)
  have r: "ready s" and r1: "ready ?s1" using assms(1) by (auto simp: follows_def ready_def names_of_def)
  have k: "norm_key ?k = ?k" by (cases b) simp_all
  obtain T ds where T: "serve_all (topics (ps_world s)) (requests (ps_world s)) = (T, ds)" by fastforce
  have "follows_at g s'" for g
  proof -
    have fa: "follows_at g s" using assms(1) by (simp add: follows_def)
    have T1: "serve_all (topics (ps_world ?s1)) (requests (ps_world ?s1)) = (T, ds)" using T by simp
    show ?thesis
    proof (cases sub)
      case True
      then show ?thesis using fa T T1 assms(2) c s' by (auto simp: follows_at_def names_of_def)
    next
      case False
      then have s'f: "s' = forget f ?k ?s1" using s' by simp
      have w: "ps_world s' = ps_world ?s1" unfolding s'f by (rule forget_names(3) [OF r1 k])
      have n: "names_of g s' = (if g = f \<and> ?k \<in> set (pending s f) then names_of f s - {?k} else names_of g s)"
        "set (pending s' g) = (if g = f then set (pending s f) - {?k} else set (pending s g))"
        unfolding s'f forget_names [OF r1 k] by (simp_all add: names_of_def)
      show ?thesis
        using fa assms(2) c False unfolding follows_at_def w T1 n T
        by (cases b) (auto split: if_splits)
    qed
  qed
  moreover have "ready s'" using s' r1 forget_ready [OF r1 k] by simp
  ultimately show ?thesis by (simp add: follows_def)
qed

text \<open>Reconnecting: nothing is pending, and the families are subscribed to again one after the other.\<close>

definition lost :: "family set \<Rightarrow> channel_server pubsub \<Rightarrow> bool" where
  "lost F s \<longleftrightarrow> ready s \<and> (\<forall>f. if f \<in> F then pending s f = [] \<and> fst (serve_all (topics (ps_world s)) (requests (ps_world s))) f = []
      else follows_at f s)"

lemma resubscribe_follows:
  assumes s: "lost F s" and f: "f \<in> F" and run: "resubscribe server_class cb f s = Some (Inr (), s')"
  shows "lost (F - {f}) s'"
proof -
  have r: "ready s" using s by (simp add: lost_def)
  have e: "pending s f = []" "fst (serve_all (topics (ps_world s)) (requests (ps_world s))) f = []"
    using s f by (auto simp: lost_def split: if_splits dest: spec [of _ f])
  from resubscribe_adds [OF r, of cb f] run
  consider (no_names) "names_of f s = {}" "s' = s" | (again) "added f {b. PBytes b \<in> names_of f s} s s'" by auto
  then show ?thesis
  proof cases
    case no_names
    have "follows_at f s" using e no_names(1) by (simp add: follows_at_def case_prod_beta)
    then show ?thesis using s no_names(2) by (auto simp: lost_def)
  next
    case again
    have keys: "names_of f s = PBytes ` {b. PBytes b \<in> names_of f s}"
      using r by (auto simp: ready_def good_keys_def image_iff)
    obtain bs where bs: "ps_world s' = ps_world (asked (f, True, bs) s)" using again by (auto simp: added_def)
    obtain T cs where T: "serve_all (topics (ps_world s)) (requests (ps_world s)) = (T, cs)" by fastforce
    have sv: "serve T (f, True, bs) = (T(f := fold List.insert bs (T f)), map (\<lambda>b. (f, True, Some b)) bs)" by simp
    note s' = serve_asked(1) [OF bs T sv]
    have "follows_at f s'" by (rule added_follows_at [OF again]) (use e keys in simp)
    moreover have "follows_at g s'" if "g \<notin> F" for g
      by (rule added_follows_at [OF again]) (use s that in \<open>auto simp: lost_def\<close>)
    moreover have "pending s' g = [] \<and> fst (serve_all (topics (ps_world s')) (requests (ps_world s'))) g = []"
      if "g \<in> F" "g \<noteq> f" for g
    proof -
      have "set (pending s' g) = set (pending s g)" using again that(2) by (simp add: added_def)
      moreover have "pending s g = []" "T g = []" using s that(1) T by (auto simp: lost_def split: if_splits dest: spec [of _ g])
      ultimately show ?thesis using s' that(2) by simp
    qed
    ultimately show ?thesis using again by (auto simp: lost_def added_def)
  qed
qed

lemma on_connect_follows:
  assumes "ready s" "ps_world s = \<lparr>topics = (\<lambda>_. []), requests = [], confirmations = []\<rparr>"
    and run: "on_connect server_class (Suc n) s = Some (Inr (), s')"
  shows "follows s'"
proof -
  let ?s0 = "s\<lparr>pending := (\<lambda>_. [])\<rparr>"
  have s0: "lost {Channels, Patterns, Shards} ?s0"
    using assms(1,2) by (auto simp: lost_def ready_def names_of_def) (case_tac f; simp)
  obtain s1 s2 where r: "resubscribe server_class (on_connect server_class n) Channels ?s0 = Some (Inr (), s1)"
    "resubscribe server_class (on_connect server_class n) Patterns s1 = Some (Inr (), s2)"
    "resubscribe server_class (on_connect server_class n) Shards s2 = Some (Inr (), s')"
    using run by (auto simp: io_seq_def io_upd_def elim!: io_bind_SomeE)
  have "lost ({Channels, Patterns, Shards} - {Channels} - {Patterns} - {Shards}) s'"
    by (intro resubscribe_follows [OF _ _ r(3)] resubscribe_follows [OF _ _ r(2)] resubscribe_follows [OF s0 _ r(1)]) auto
  then show ?thesis by (simp add: lost_def follows_def)
qed

lemma channel_step_follows:
  assumes "channel_step (Suc n) s s'" "follows s"
  shows "follows s'"
  using assms
proof (induction rule: channel_step.induct)
  case (step_subscribe bs f s s')
  have "ready s" using step_subscribe.prems by (simp add: follows_def)
  from subscribe_adds [OF this step_subscribe(1,2), of "on_connect server_class (Suc n)" f]
  have "added f (set bs) s s'" using step_subscribe(3) by auto
  then show ?case by (rule subscribe_follows [OF step_subscribe.prems])
next
  case (step_unsubscribe bs f s s')
  then show ?case using unsubscribe_follows by blast
next
  case (step_serve s T r rs cs T' ds)
  obtain T2 es where "serve_all T' rs = (T2, es)" by fastforce
  then show ?case using step_serve by (auto simp: follows_def follows_at_def ready_def names_of_def)
next
  case (step_read s c cs ig v s')
  then show ?case using read_follows by blast
next
  case (step_reconnect s s')
  show ?case by (rule on_connect_follows [OF _ _ step_reconnect(1)])
    (use step_reconnect(2) in \<open>auto simp: follows_def ready_def names_of_def\<close>)
qed

definition no_topics :: channel_server where
  "no_topics = \<lparr>topics = (\<lambda>_. []), requests = [], confirmations = []\<rparr>"

lemma no_topics_follows: "follows ((ps_init (utf8_encoder False) ig no_topics)\<lparr>ps_connected := True\<rparr>)"
  by (simp add: follows_def ready_def follows_at_def names_of_def ps_init_def no_topics_def)

lemma settled_follows:
  assumes "follows s" "requests (ps_world s) = []" "confirmations (ps_world s) = []"
  shows "pending s f = [] \<and> names_of f s = PBytes ` set (topics (ps_world s) f)"
proof -
  have r: "names_of f s \<subseteq> good_keys" "set (pending s f) \<subseteq> good_keys"
    using assms(1) by (auto simp: follows_def ready_def)
  have at: "follows_at f s" using assms(1) by (simp add: follows_def)
  then have "PBytes b \<notin> set (pending s f)" for b using assms(2,3) by (auto simp: follows_at_def)
  then have p: "pending s f = []" using r(2) by (cases "pending s f") (auto simp: good_keys_def)
  then have "PBytes b \<in> names_of f s \<longleftrightarrow> b \<in> set (topics (ps_world s) f)" for b
    using at assms(2) by (simp add: follows_at_def)
  then show ?thesis using p r(1) by (auto simp: good_keys_def)
qed

lemma demo_channel_run:
  "\<exists>s. (channel_step (Suc 0))\<^sup>*\<^sup>* ((ps_init (utf8_encoder False) False no_topics)\<lparr>ps_connected := True\<rparr>) s
     \<and> requests (ps_world s) = [] \<and> confirmations (ps_world s) = [] \<and> topics (ps_world s) Channels = [''a'']"
proof -
  let ?s0 = "(ps_init (utf8_encoder False) False no_topics)\<lparr>ps_connected := True\<rparr>"
  have good: "list_all good_name [''a'']" by (simp add: good_name_def utf8_conts_def)
  have r: "ready ?s0" using no_topics_follows by (simp add: follows_def)
  have "requests_of [PStr (SUBSCRIBE Channels), PBytes ''a''] = [(Channels, True, [''a''])]"
    using requests_of_texts(1) [of "[PBytes ''a'']" Channels] by (simp add: texts_def)
  note ex = execute_asks [OF r this, of "on_connect server_class (Suc 0)"]
  let ?s1 = "record_subscriptions Channels [(PBytes ''a'', None)] (asked (Channels, True, [''a'']) ?s0)"
  have "subscribe_with server_class (on_connect server_class (Suc 0)) Channels (map PBytes [''a'']) [] ?s0 = Some (Inr (), ?s1)"
    using ex by (simp add: subscribe_with_def bind_keywords_def spread_args_def from_keys_def sub_update_def res_bind_def io_seq_def
      io_get_def io_upd_def Let_def asked_def normalize_keys_def ps_init_def utf8_encoder_def del: on_connect.simps)
  then have 1: "channel_step (Suc 0) ?s0 ?s1" by (intro step_subscribe [of "[''a'']"] good) simp_all
  let ?s2 = "?s1\<lparr>ps_world := \<lparr>topics = (\<lambda>_. [])(Channels := [''a'']), requests = [], confirmations = [(Channels, True, Some ''a'')]\<rparr>\<rparr>"
  have w: "ps_world ?s1 = \<lparr>topics = (\<lambda>_. []), requests = [(Channels, True, [''a''])], confirmations = []\<rparr>"
    by (simp add: record_subscriptions_def asked_def Let_def ps_init_def no_topics_def)
  have 2: "channel_step (Suc 0) ?s1 ?s2"
    using step_serve [where n = "Suc 0", OF w, of "(\<lambda>_. [])(Channels := [''a''])" "[(Channels, True, Some ''a'')]"] by simp
  let ?s3 = "?s2\<lparr>ps_world := (ps_world ?s2)\<lparr>confirmations := []\<rparr>\<rparr>"
  have "\<exists>v. handle_message server_class (confirmation_reply (Channels, True, Some ''a'')) False ?s3 = Some (Inr v, ?s3)"
    using confirmation_types [of Channels]
    by (simp add: handle_message_def confirmation_reply_def message_parts_def Let_def nth_item_def res_bind_def
      io_seq_def io_get_def io_ret_def io_bind_def io_lift_def record_subscriptions_def asked_def ps_init_def)
  then have 3: "channel_step (Suc 0) ?s2 ?s3" by (auto intro!: step_read [where ignore = False])
  from 1 2 3 have "(channel_step (Suc 0))\<^sup>*\<^sup>* ?s0 ?s3" by (meson rtranclp.rtrancl_refl rtranclp.rtrancl_into_rtrancl)
  then show ?thesis by (intro exI [of _ ?s3]) simp
qed

text \<open>A reconnection inside a command never ends: the command holds the lock that the subscription made again waits for.\<close>

lemma reconnect_under_lock:
  assumes "ps_lock_held s" "ps_connected s" "subscribed s" "subs s Channels \<noteq> []"
    "keyword_names (ps_encoder s) (subs s Channels) = Inr kws" "bind_keywords Channels kws = Inr kws"
  shows "on_connect K (Suc n) s = None"
proof -
  have "with_ps_lock m (s\<lparr>pending := (\<lambda>_. [])\<rparr>) = None" for m using assms(1) by (simp add: with_ps_lock_def)
  then show ?thesis using assms
    by (simp add: io_seq_def io_upd_def io_bind_def resubscribe_def io_get_def io_when_def subscribe_with_def spread_args_def
      from_keys_def io_lift_def ps_execute_command_def io_ret_def Let_def)
qed

section \<open>Properties\<close>





end
