(* ===== verification/Cmd_Base.thy ===== *)
theory Cmd_Base
  imports Cmd_Helpers
begin

text \<open>
  What the command classes of \<open>redis/commands/core.py\<close> share.  A command method builds the call
  \<open>execute_command(*args, **options)\<close> or raises before it does: it is modelled as a function from its arguments, in the
  order of its signature, to the \<open>request\<close> or the exception.  A positional or keyword argument is a \<open>pyval\<close>, \<open>*args\<close>
  is a list and \<open>**kwargs\<close> is an \<open>options\<close> list in the order the keywords are given; the default of an argument is the
  caller's to pass.  An argument that no branch of a method uses in the request is kept.

  The message of an exception is the literal text of the source, without the values that are formatted into it.

  The methods meet values of the standard library whose representation the model does not have: floats, \<open>timedelta\<close> and
  \<open>datetime\<close>.  What they ask of them, and of the JSON encoder, is the record \<open>cmdlib\<close>.
\<close>

type_synonym options = "(string \<times> pyval) list"
type_synonym request = "pyval list \<times> options"

record cmdlib =
  py :: pylib
  is_timedelta :: "pyval \<Rightarrow> bool"
  is_datetime :: "pyval \<Rightarrow> bool"
  seconds_of :: "pyval \<Rightarrow> int"
  seconds_of_ms :: "pyval \<Rightarrow> int"
  timestamp_of :: "pyval \<Rightarrow> int"
  timestamp_of_ms :: "pyval \<Rightarrow> int"
  float_eq :: "string \<Rightarrow> pyval \<Rightarrow> bool"
  float_less :: "pyval \<Rightarrow> pyval \<Rightarrow> bool"
  repr_of :: "pyval \<Rightarrow> string"
  json_dumps :: "pyval \<Rightarrow> pyval res"

section \<open>Types\<close>

definition is_bool :: "pyval \<Rightarrow> bool" where "is_bool v = (case v of PBool _ \<Rightarrow> True | _ \<Rightarrow> False)"
definition is_int :: "pyval \<Rightarrow> bool" where "is_int v = (case v of PInt _ \<Rightarrow> True | PBool _ \<Rightarrow> True | _ \<Rightarrow> False)"
definition is_float :: "pyval \<Rightarrow> bool" where "is_float v = (case v of PFloat _ \<Rightarrow> True | _ \<Rightarrow> False)"
definition is_str :: "pyval \<Rightarrow> bool" where "is_str v = (case v of PStr _ \<Rightarrow> True | _ \<Rightarrow> False)"
definition is_bytes :: "pyval \<Rightarrow> bool" where "is_bytes v = (case v of PBytes _ \<Rightarrow> True | _ \<Rightarrow> False)"
definition is_tuple :: "pyval \<Rightarrow> bool" where "is_tuple v = (case v of PTuple _ \<Rightarrow> True | _ \<Rightarrow> False)"
definition is_dict :: "pyval \<Rightarrow> bool" where "is_dict v = (case v of PDict _ \<Rightarrow> True | _ \<Rightarrow> False)"
definition is_set :: "pyval \<Rightarrow> bool" where "is_set v = (case v of PSet _ \<Rightarrow> True | _ \<Rightarrow> False)"

section \<open>Comparisons and arithmetic\<close>

text \<open>\<open>True\<close> and \<open>False\<close> are the numbers 1 and 0; text is ordered by code points, which is the order of its bytes.\<close>

definition as_number :: "pyval \<Rightarrow> int option" where
  "as_number v = (case v of PInt n \<Rightarrow> Some n | PBool b \<Rightarrow> Some (if b then 1 else 0) | _ \<Rightarrow> None)"

definition py_eq :: "cmdlib \<Rightarrow> pyval \<Rightarrow> pyval \<Rightarrow> bool" where
  "py_eq P a b =
     (case a of
        PFloat r \<Rightarrow> float_eq P r b
      | _ \<Rightarrow> (case b of PFloat r \<Rightarrow> float_eq P r a | _ \<Rightarrow> norm_key a = norm_key b))"

primrec bytes_less :: "bytes \<Rightarrow> bytes \<Rightarrow> bool" where
  "bytes_less a [] = False"
| "bytes_less a (y # ys) =
     (case a of
        [] \<Rightarrow> True
      | x # xs \<Rightarrow> (of_char x :: nat) < of_char y \<or> x = y \<and> bytes_less xs ys)"

definition py_less :: "cmdlib \<Rightarrow> pyval \<Rightarrow> pyval \<Rightarrow> bool res" where
  "py_less P a b =
     (case (as_number a, as_number b) of
        (Some m, Some n) \<Rightarrow> Inr (m < n)
      | _ \<Rightarrow>
          if (is_float a \<or> as_number a \<noteq> None) \<and> (is_float b \<or> as_number b \<noteq> None) then Inr (float_less P a b)
          else (case (a, b) of
                  (PStr s, PStr t) \<Rightarrow> Inr (bytes_less s t)
                | (PBytes s, PBytes t) \<Rightarrow> Inr (bytes_less s t)
                | _ \<Rightarrow> Inl (type_error a)))"

text \<open>\<open>sum(xs)\<close> of integers\<close>

definition py_sum :: "pyval list \<Rightarrow> int res" where
  "py_sum xs =
     res_fold (\<lambda>s x. case as_number x of Some n \<Rightarrow> Inr (s + n) | None \<Rightarrow> Inl (type_error x)) 0 xs"

section \<open>Text\<close>

text \<open>\<open>str(v)\<close>\<close>

definition py_str :: "cmdlib \<Rightarrow> pyval \<Rightarrow> string" where
  "py_str P v =
     (case v of
        PNone \<Rightarrow> ''None''
      | PBool b \<Rightarrow> (if b then ''True'' else ''False'')
      | PInt n \<Rightarrow> int_repr n
      | PFloat r \<Rightarrow> r
      | PStr s \<Rightarrow> s
      | _ \<Rightarrow> repr_of P v)"

text \<open>\<open>upper\<close> and \<open>lower\<close>, of ASCII letters.\<close>

definition on_text :: "(string \<Rightarrow> string) \<Rightarrow> pyval \<Rightarrow> pyval res" where
  "on_text f v = (case v of PStr s \<Rightarrow> Inr (PStr (f s)) | PBytes s \<Rightarrow> Inr (PBytes (f s)) | _ \<Rightarrow> Inl (attr_error v))"

definition upper_char :: "char \<Rightarrow> char" where
  "upper_char c = (let n = of_char c :: nat in if 97 \<le> n \<and> n \<le> 122 then char_of (n - 32) else c)"

definition lower_char :: "char \<Rightarrow> char" where
  "lower_char c = (let n = of_char c :: nat in if 65 \<le> n \<and> n \<le> 90 then char_of (n + 32) else c)"

definition py_upper :: "pyval \<Rightarrow> pyval res" where "py_upper = on_text (map upper_char)"
definition py_lower :: "pyval \<Rightarrow> pyval res" where "py_lower = on_text (map lower_char)"

definition py_startswith :: "pyval \<Rightarrow> pyval \<Rightarrow> bool res" where
  "py_startswith v pre =
     (case (v, pre) of
        (PStr s, PStr p) \<Rightarrow> Inr (starts_with s p)
      | (PBytes s, PBytes p) \<Rightarrow> Inr (starts_with s p)
      | (PStr _, _) \<Rightarrow> Inl (type_error pre)
      | (PBytes _, _) \<Rightarrow> Inl (type_error pre)
      | _ \<Rightarrow> Inl (attr_error v))"

text \<open>\<open>s[1:]\<close> of encoded text and \<open>s.isdigit()\<close>, with ASCII digits\<close>

definition tail_bytes :: "pyval \<Rightarrow> pyval" where
  "tail_bytes v =
     (case v of PBytes b \<Rightarrow> PBytes (drop 1 b) | PMemview b \<Rightarrow> PMemview (drop 1 b) | PStr s \<Rightarrow> PStr (drop 1 s) | _ \<Rightarrow> v)"

definition is_digits :: "pyval \<Rightarrow> bool" where
  "is_digits v = (case v of PStr s \<Rightarrow> s \<noteq> [] \<and> list_all (\<lambda>c. 48 \<le> (of_char c :: nat) \<and> of_char c \<le> (57 :: nat)) s | _ \<Rightarrow> False)"

section \<open>Containers\<close>

text \<open>\<open>xs + v\<close> for a list \<open>xs\<close>; \<open>if v: xs.extend(v)\<close>; the value an element of a set literal is compared by;
  \<open>v.value\<close> of an enumeration, whose members the model has under their values\<close>

definition list_items :: "pyval \<Rightarrow> pyval list res" where
  "list_items v = (case v of PList xs \<Rightarrow> Inr xs | _ \<Rightarrow> Inl (type_error v))"

definition arg_list :: "pyval \<Rightarrow> pyval list res" where
  "arg_list v = (if truthy v then iterate v else Inr [])"

definition hash_of :: "pyval \<Rightarrow> pyval res" where
  "hash_of v = (if hashable v then Inr v else Inl (type_error v))"

definition enum_value :: "pyval \<Rightarrow> pyval res" where
  "enum_value v = (case v of PObj t \<Rightarrow> Inr (PStr t) | _ \<Rightarrow> Inl (attr_error v))"

text \<open>Keyword arguments\<close>

definition opt_get_or :: "options \<Rightarrow> string \<Rightarrow> pyval \<Rightarrow> pyval" where
  "opt_get_or kw k d = (case map_of kw k of Some v \<Rightarrow> v | None \<Rightarrow> d)"

definition opt_get :: "options \<Rightarrow> string \<Rightarrow> pyval" where "opt_get kw k = opt_get_or kw k PNone"

definition opt_in :: "string \<Rightarrow> options \<Rightarrow> bool" where "opt_in k kw \<longleftrightarrow> map_of kw k \<noteq> None"

definition opt_item :: "options \<Rightarrow> string \<Rightarrow> pyval res" where
  "opt_item kw k = (case map_of kw k of Some v \<Rightarrow> Inr v | None \<Rightarrow> Inl (key_error k))"

primrec opt_set :: "options \<Rightarrow> string \<Rightarrow> pyval \<Rightarrow> options" where
  "opt_set [] k v = [(k, v)]"
| "opt_set (e # kw) k v = (if fst e = k then (k, v) # kw else e # opt_set kw k v)"

text \<open>\<open>try: m except c: h\<close>\<close>

definition res_except :: "exc_class \<Rightarrow> 'a res \<Rightarrow> 'a res \<Rightarrow> 'a res" where
  "res_except c m h = (case m of Inr x \<Rightarrow> Inr x | Inl e \<Rightarrow> if is_exc e c then h else Inl e)"

section \<open>Expiry options\<close>

text \<open>\<open>extract_expire_flags\<close> of \<open>redis/utils.py\<close>\<close>

definition extract_expire_flags :: "cmdlib \<Rightarrow> pyval \<Rightarrow> pyval \<Rightarrow> pyval \<Rightarrow> pyval \<Rightarrow> pyval list res" where
  "extract_expire_flags P ex px exat pxat =
     (if ex \<noteq> PNone then
        if is_timedelta P ex then Inr [PStr ''EX'', PInt (seconds_of P ex)]
        else if is_int ex then Inr [PStr ''EX'', ex]
        else if is_str ex \<and> is_digits ex then res_bind (to_int (py P) ex) (\<lambda>n. Inr [PStr ''EX'', PInt n])
        else Inl (Exc DataError ''ex must be datetime.timedelta or int'')
      else if px \<noteq> PNone then
        if is_timedelta P px then Inr [PStr ''PX'', PInt (seconds_of_ms P px)]
        else if is_int px then Inr [PStr ''PX'', px]
        else Inl (Exc DataError ''px must be datetime.timedelta or int'')
      else if exat \<noteq> PNone then
        Inr [PStr ''EXAT'', if is_datetime P exat then PInt (timestamp_of P exat) else exat]
      else if pxat \<noteq> PNone then
        Inr [PStr ''PXAT'', if is_datetime P pxat then PInt (timestamp_of_ms P pxat) else pxat]
      else Inr [])"

end
