(* ===== verification/Cmd_Server.thy ===== *)
theory Cmd_Server
  imports Cmd_Base
begin

text \<open>
  The server: access control, connection, configuration, replication and diagnostic commands. Each definition is the method of \<open>redis/commands/core.py\<close> of the same name (\<open>_cmd\<close> appended,
  \<open>_impl_cmd\<close> for a private one): see \<open>Cmd_Base\<close>.
\<close>

section \<open>ACLCommands\<close>

definition acl_cat_cmd :: "pyval \<Rightarrow> options \<Rightarrow> request res" where
  "acl_cat_cmd category kwargs =
     (let pieces = (if truthy category then [category] else []) in
     Inr ([PStr ''ACL CAT''] @ pieces, kwargs))"

definition acl_dryrun_cmd :: "pyval \<Rightarrow> pyval list \<Rightarrow> options \<Rightarrow> request res" where
  "acl_dryrun_cmd username args kwargs = Inr ([PStr ''ACL DRYRUN'', username] @ args, kwargs)"

definition acl_deluser_cmd :: "pyval list \<Rightarrow> options \<Rightarrow> request res" where
  "acl_deluser_cmd username kwargs = Inr ([PStr ''ACL DELUSER''] @ username, kwargs)"

definition acl_genpass_cmd :: "cmdlib \<Rightarrow> pyval \<Rightarrow> options \<Rightarrow> request res" where
  "acl_genpass_cmd P bits kwargs =
     (let pieces = [] in
     res_bind
      (if bits \<noteq> PNone then
       res_except PyValueError (
         res_bind (to_int (py P) bits) (\<lambda>b.
         if b < 0 \<or> b > 4096 then
           Inl (Exc PyValueError [])
         else
         let pieces = pieces @ [PInt b] in
         Inr pieces)) (
         Inl (Exc DataError ''genpass optionally accepts a bits argument, between 0 and 4096.''))
       else
       Inr pieces)
      (\<lambda>pieces.
     Inr ([PStr ''ACL GENPASS''] @ pieces, kwargs)))"

definition acl_getuser_cmd :: "pyval \<Rightarrow> options \<Rightarrow> request res" where
  "acl_getuser_cmd username kwargs = Inr ([PStr ''ACL GETUSER'', username], kwargs)"

definition acl_help_cmd :: "options \<Rightarrow> request res" where
  "acl_help_cmd kwargs = Inr ([PStr ''ACL HELP''], kwargs)"

definition acl_list_cmd :: "options \<Rightarrow> request res" where
  "acl_list_cmd kwargs = Inr ([PStr ''ACL LIST''], kwargs)"

definition acl_log_cmd :: "pyval \<Rightarrow> options \<Rightarrow> request res" where
  "acl_log_cmd count' kwargs =
     (let args = [] in
     res_bind
      (if count' \<noteq> PNone then
       if \<not> (is_int count') then
         Inl (Exc DataError ''ACL LOG count must be an integer'')
       else
       let args = args @ [count'] in
       Inr args
       else
       Inr args)
      (\<lambda>args.
     Inr ([PStr ''ACL LOG''] @ args, kwargs)))"

definition acl_log_reset_cmd :: "options \<Rightarrow> request res" where
  "acl_log_reset_cmd kwargs =
     (let args = [PBytes ''RESET''] in
     Inr ([PStr ''ACL LOG''] @ args, kwargs))"

definition acl_load_cmd :: "options \<Rightarrow> request res" where
  "acl_load_cmd kwargs = Inr ([PStr ''ACL LOAD''], kwargs)"

definition acl_save_cmd :: "options \<Rightarrow> request res" where
  "acl_save_cmd kwargs = Inr ([PStr ''ACL SAVE''], kwargs)"

definition acl_setuser_cmd :: "encoder \<Rightarrow> pyval \<Rightarrow> pyval \<Rightarrow> pyval \<Rightarrow> pyval \<Rightarrow> pyval \<Rightarrow> pyval \<Rightarrow> pyval \<Rightarrow> pyval \<Rightarrow> pyval \<Rightarrow> pyval \<Rightarrow> pyval \<Rightarrow> pyval \<Rightarrow> pyval \<Rightarrow> pyval \<Rightarrow> options \<Rightarrow> request res" where
  "acl_setuser_cmd E username enabled nopass passwords hashed_passwords categories commands keys' channels selectors reset reset_keys reset_channels reset_passwords kwargs =
     (let pieces = [username] in
     let pieces = (if truthy reset then pieces @ [PBytes ''reset''] else pieces) in
     let pieces = (if truthy reset_keys then pieces @ [PBytes ''resetkeys''] else pieces) in
     let pieces = (if truthy reset_channels then pieces @ [PBytes ''resetchannels''] else pieces) in
     let pieces = (if truthy reset_passwords then pieces @ [PBytes ''resetpass''] else pieces) in
     let pieces = (if truthy enabled then pieces @ [PBytes ''on''] else pieces @ [PBytes ''off'']) in
     if (truthy passwords \<or> truthy hashed_passwords) \<and> truthy nopass then
       Inl (Exc DataError (''Cannot set '' @ [CHR 0x27] @ ''nopass'' @ [CHR 0x27] @ '' and supply '' @ [CHR 0x27] @ ''passwords'' @ [CHR 0x27] @ '' or '' @ [CHR 0x27] @ ''hashed_passwords'' @ [CHR 0x27]))
     else
     res_bind
      (if truthy passwords then
       let passwords = list_or_args passwords [] in
       res_fold (\<lambda>pieces password.
           res_bind (encode E password) (\<lambda>password.
           res_bind (py_startswith password (PBytes ''+'')) (\<lambda>b2.
           if b2 then
             let pieces = pieces @ [PBytes (''>'' @ raw_bytes (tail_bytes password))] in
             Inr pieces
           else
             res_bind (py_startswith password (PBytes ''-'')) (\<lambda>b3.
             if b3 then
               let pieces = pieces @ [PBytes (''<'' @ raw_bytes (tail_bytes password))] in
               Inr pieces
             else
               Inl (Exc DataError (''Password  must be prefixed with a '' @ [CHR 0x22] @ ''+'' @ [CHR 0x22] @ '' to add or a '' @ [CHR 0x22] @ ''-'' @ [CHR 0x22] @ '' to remove''))))))
          pieces passwords
       else
       Inr pieces)
      (\<lambda>pieces.
     res_bind
      (if truthy hashed_passwords then
       let hashed_passwords = list_or_args hashed_passwords [] in
       res_fold (\<lambda>pieces hashed_password.
           res_bind (encode E hashed_password) (\<lambda>hashed_password.
           res_bind (py_startswith hashed_password (PBytes ''+'')) (\<lambda>b5.
           if b5 then
             let pieces = pieces @ [PBytes (''#'' @ raw_bytes (tail_bytes hashed_password))] in
             Inr pieces
           else
             res_bind (py_startswith hashed_password (PBytes ''-'')) (\<lambda>b6.
             if b6 then
               let pieces = pieces @ [PBytes (''!'' @ raw_bytes (tail_bytes hashed_password))] in
               Inr pieces
             else
               Inl (Exc DataError (''Hashed password  must be prefixed with a '' @ [CHR 0x22] @ ''+'' @ [CHR 0x22] @ '' to add or a '' @ [CHR 0x22] @ ''-'' @ [CHR 0x22] @ '' to remove''))))))
          pieces hashed_passwords
       else
       Inr pieces)
      (\<lambda>pieces.
     let pieces = (if truthy nopass then pieces @ [PBytes ''nopass''] else pieces) in
     res_bind
      (if truthy categories then
       res_bind (iterate categories) (\<lambda>xs7.
       res_fold (\<lambda>pieces category.
           res_bind (encode E category) (\<lambda>category.
           res_bind (py_startswith category (PBytes ''+@'')) (\<lambda>b9.
           if b9 then
             let pieces = pieces @ [category] in
             Inr pieces
           else
             res_bind (py_startswith category (PBytes ''+'')) (\<lambda>b10.
             if b10 then
               let pieces = pieces @ [PBytes (''+@'' @ raw_bytes (tail_bytes category))] in
               Inr pieces
             else
               res_bind (py_startswith category (PBytes ''-@'')) (\<lambda>b11.
               if b11 then
                 let pieces = pieces @ [category] in
                 Inr pieces
               else
                 res_bind (py_startswith category (PBytes ''-'')) (\<lambda>b12.
                 if b12 then
                   let pieces = pieces @ [PBytes (''-@'' @ raw_bytes (tail_bytes category))] in
                   Inr pieces
                 else
                   Inl (Exc DataError (''Category '' @ [CHR 0x22] @ [CHR 0x22] @ '' must be prefixed with '' @ [CHR 0x22] @ ''+'' @ [CHR 0x22] @ '' or '' @ [CHR 0x22] @ ''-'' @ [CHR 0x22]))))))))
          pieces xs7)
       else
       Inr pieces)
      (\<lambda>pieces.
     res_bind
      (if truthy commands then
       res_bind (iterate commands) (\<lambda>xs13.
       res_fold (\<lambda>pieces cmd'.
           res_bind (encode E cmd') (\<lambda>cmd'.
           res_bind (py_startswith cmd' (PBytes ''+'')) (\<lambda>b15.
           res_bind (if \<not> b15 then (res_bind (py_startswith cmd' (PBytes ''-'')) (\<lambda>b16. Inr (\<not> b16))) else Inr False) (\<lambda>c17.
           if c17 then
             Inl (Exc DataError (''Command '' @ [CHR 0x22] @ [CHR 0x22] @ '' must be prefixed with '' @ [CHR 0x22] @ ''+'' @ [CHR 0x22] @ '' or '' @ [CHR 0x22] @ ''-'' @ [CHR 0x22]))
           else
           let pieces = pieces @ [cmd'] in
           Inr pieces))))
          pieces xs13)
       else
       Inr pieces)
      (\<lambda>pieces.
     res_bind
      (if truthy keys' then
       res_bind (iterate keys') (\<lambda>xs18.
       res_fold (\<lambda>pieces key.
           res_bind (encode E key) (\<lambda>key.
           res_bind (py_startswith key (PBytes ''%'')) (\<lambda>b20.
           res_bind (if \<not> b20 then (res_bind (py_startswith key (PBytes ''~'')) (\<lambda>b21. Inr (\<not> b21))) else Inr False) (\<lambda>c22.
           let key = (if c22 then PBytes (''~'' @ raw_bytes key) else key) in
           let pieces = pieces @ [key] in
           Inr pieces))))
          pieces xs18)
       else
       Inr pieces)
      (\<lambda>pieces.
     res_bind
      (if truthy channels then
       res_bind (iterate channels) (\<lambda>xs23.
       res_fold (\<lambda>pieces channel.
           res_bind (encode E channel) (\<lambda>channel.
           let pieces = pieces @ [PBytes (''&'' @ raw_bytes channel)] in
           Inr pieces))
          pieces xs23)
       else
       Inr pieces)
      (\<lambda>pieces.
     res_bind
      (if truthy selectors then
       res_bind (iterate selectors) (\<lambda>xs25.
       res_fold (\<lambda>pieces p26.
           res_bind (unpack2 p26) (\<lambda>(cmd', key).
           res_bind (encode E cmd') (\<lambda>cmd'.
           res_bind (py_startswith cmd' (PBytes ''+'')) (\<lambda>b28.
           res_bind (if \<not> b28 then (res_bind (py_startswith cmd' (PBytes ''-'')) (\<lambda>b29. Inr (\<not> b29))) else Inr False) (\<lambda>c30.
           if c30 then
             Inl (Exc DataError (''Command '' @ [CHR 0x22] @ [CHR 0x22] @ '' must be prefixed with '' @ [CHR 0x22] @ ''+'' @ [CHR 0x22] @ '' or '' @ [CHR 0x22] @ ''-'' @ [CHR 0x22]))
           else
           res_bind (encode E key) (\<lambda>key.
           res_bind (py_startswith key (PBytes ''%'')) (\<lambda>b32.
           res_bind (if \<not> b32 then (res_bind (py_startswith key (PBytes ''~'')) (\<lambda>b33. Inr (\<not> b33))) else Inr False) (\<lambda>c34.
           let key = (if c34 then PBytes (''~'' @ raw_bytes key) else key) in
           let pieces = pieces @ [PBytes (''('' @ raw_bytes cmd' @ '' '' @ raw_bytes key @ '')'')] in
           Inr pieces))))))))
          pieces xs25)
       else
       Inr pieces)
      (\<lambda>pieces.
     Inr ([PStr ''ACL SETUSER''] @ pieces, kwargs)))))))))"

definition acl_users_cmd :: "options \<Rightarrow> request res" where
  "acl_users_cmd kwargs = Inr ([PStr ''ACL USERS''], kwargs)"

definition acl_whoami_cmd :: "options \<Rightarrow> request res" where
  "acl_whoami_cmd kwargs = Inr ([PStr ''ACL WHOAMI''], kwargs)"

section \<open>ManagementCommands\<close>

definition auth_cmd :: "pyval \<Rightarrow> pyval \<Rightarrow> options \<Rightarrow> request res" where
  "auth_cmd password username kwargs =
     (let pieces = [] in
     let pieces = (if username \<noteq> PNone then pieces @ [username] else pieces) in
     let pieces = pieces @ [password] in
     Inr ([PStr ''AUTH''] @ pieces, kwargs))"

definition bgrewriteaof_cmd :: "options \<Rightarrow> request res" where
  "bgrewriteaof_cmd kwargs = Inr ([PStr ''BGREWRITEAOF''], kwargs)"

definition bgsave_cmd :: "pyval \<Rightarrow> options \<Rightarrow> request res" where
  "bgsave_cmd schedule kwargs =
     (let pieces = [] in
     let pieces = (if truthy schedule then pieces @ [PStr ''SCHEDULE''] else pieces) in
     Inr ([PStr ''BGSAVE''] @ pieces, kwargs))"

definition role_cmd :: "request res" where
  "role_cmd = Inr ([PStr ''ROLE''], [])"

definition client_kill_cmd :: "pyval \<Rightarrow> options \<Rightarrow> request res" where
  "client_kill_cmd address kwargs = Inr ([PStr ''CLIENT KILL'', address], kwargs)"

definition client_kill_filter_cmd :: "cmdlib \<Rightarrow> pyval \<Rightarrow> pyval \<Rightarrow> pyval \<Rightarrow> pyval \<Rightarrow> pyval \<Rightarrow> pyval \<Rightarrow> pyval \<Rightarrow> options \<Rightarrow> request res" where
  "client_kill_filter_cmd P id' type' addr skipme laddr user maxage kwargs =
     (let args = [] in
     res_bind
      (if type' \<noteq> PNone then
       let client_types = [PStr ''normal'', PStr ''master'', PStr ''slave'', PStr ''pubsub''] in
       res_bind (py_lower (PStr (py_str P type'))) (\<lambda>u1.
       if \<not> list_ex (py_eq P u1) client_types then
         Inl (Exc DataError ''CLIENT KILL type must be one of '')
       else
       let args = args @ [PBytes ''TYPE'', type'] in
       Inr args)
       else
       Inr args)
      (\<lambda>args.
     res_bind
      (if skipme \<noteq> PNone then
       if \<not> (is_bool skipme) then
         Inl (Exc DataError ''CLIENT KILL skipme must be a bool'')
       else
       let args = (if truthy skipme
          then args @ [PBytes ''SKIPME'', PBytes ''YES'']
          else args @ [PBytes ''SKIPME'', PBytes ''NO'']) in
       Inr args
       else
       Inr args)
      (\<lambda>args.
     let args = (if id' \<noteq> PNone then args @ [PBytes ''ID'', id'] else args) in
     let args = (if addr \<noteq> PNone then args @ [PBytes ''ADDR'', addr] else args) in
     let args = (if laddr \<noteq> PNone then args @ [PBytes ''LADDR'', laddr] else args) in
     let args = (if user \<noteq> PNone then args @ [PBytes ''USER'', user] else args) in
     let args = (if maxage \<noteq> PNone then args @ [PBytes ''MAXAGE'', maxage] else args) in
     if args = [] then
       Inl (Exc DataError ''CLIENT KILL <filter> <value> ... ... <filter> <value> must specify at least one filter'')
     else
     Inr ([PStr ''CLIENT KILL''] @ args, kwargs))))"

definition client_info_cmd :: "options \<Rightarrow> request res" where
  "client_info_cmd kwargs = Inr ([PStr ''CLIENT INFO''], kwargs)"

definition client_list_cmd :: "cmdlib \<Rightarrow> pyval \<Rightarrow> pyval \<Rightarrow> options \<Rightarrow> request res" where
  "client_list_cmd P type' client_id kwargs =
     (let args = [] in
     res_bind
      (if type' \<noteq> PNone then
       let client_types = [PStr ''normal'', PStr ''master'', PStr ''replica'', PStr ''pubsub''] in
       res_bind (py_lower (PStr (py_str P type'))) (\<lambda>u1.
       if \<not> list_ex (py_eq P u1) client_types then
         Inl (Exc DataError ''CLIENT LIST _type must be one of '')
       else
       let args = args @ [PBytes ''TYPE''] in
       let args = args @ [type'] in
       Inr args)
       else
       Inr args)
      (\<lambda>args.
     if \<not> (is_list client_id) then
       Inl (Exc DataError ''client_id must be a list'')
     else
     res_bind
      (if truthy client_id then
       let args = args @ [PBytes ''ID''] in
       res_bind (iterate client_id) (\<lambda>xs2.
       let args = args @ xs2 in
       Inr args)
       else
       Inr args)
      (\<lambda>args.
     Inr ([PStr ''CLIENT LIST''] @ args, kwargs))))"

definition client_getname_cmd :: "options \<Rightarrow> request res" where
  "client_getname_cmd kwargs = Inr ([PStr ''CLIENT GETNAME''], kwargs)"

definition client_getredir_cmd :: "options \<Rightarrow> request res" where
  "client_getredir_cmd kwargs = Inr ([PStr ''CLIENT GETREDIR''], kwargs)"

definition client_reply_cmd :: "cmdlib \<Rightarrow> pyval \<Rightarrow> options \<Rightarrow> request res" where
  "client_reply_cmd P reply kwargs =
     (let replies = [PStr ''ON'', PStr ''OFF'', PStr ''SKIP''] in
     if \<not> list_ex (py_eq P reply) replies then
       Inl (Exc DataError ''CLIENT REPLY must be one of '')
     else
     Inr ([PStr ''CLIENT REPLY'', reply], kwargs))"

definition client_id_cmd :: "options \<Rightarrow> request res" where
  "client_id_cmd kwargs = Inr ([PStr ''CLIENT ID''], kwargs)"

definition client_tracking_cmd :: "pyval \<Rightarrow> pyval \<Rightarrow> pyval \<Rightarrow> pyval \<Rightarrow> pyval \<Rightarrow> pyval \<Rightarrow> pyval \<Rightarrow> options \<Rightarrow> request res" where
  "client_tracking_cmd on clientid prefix' bcast optin optout noloop kwargs =
     (res_bind (py_len prefix') (\<lambda>n1.
     if n1 \<noteq> 0 \<and> bcast = PBool False then
       Inl (Exc DataError ''Prefix can only be used with bcast'')
     else
     let pieces = (if truthy on then [PStr ''ON''] else [PStr ''OFF'']) in
     let pieces = (if clientid \<noteq> PNone then pieces @ [PStr ''REDIRECT'', clientid] else pieces) in
     res_bind (iterate prefix') (\<lambda>xs2.
     let pieces = foldl (\<lambda>pieces p. pieces @ [PStr ''PREFIX'', p]) pieces xs2 in
     let pieces = (if truthy bcast then pieces @ [PStr ''BCAST''] else pieces) in
     let pieces = (if truthy optin then pieces @ [PStr ''OPTIN''] else pieces) in
     let pieces = (if truthy optout then pieces @ [PStr ''OPTOUT''] else pieces) in
     let pieces = (if truthy noloop then pieces @ [PStr ''NOLOOP''] else pieces) in
     Inr ([PStr ''CLIENT TRACKING''] @ pieces, []))))"

definition client_trackinginfo_cmd :: "options \<Rightarrow> request res" where
  "client_trackinginfo_cmd kwargs = Inr ([PStr ''CLIENT TRACKINGINFO''], kwargs)"

definition client_setname_cmd :: "pyval \<Rightarrow> options \<Rightarrow> request res" where
  "client_setname_cmd name kwargs = Inr ([PStr ''CLIENT SETNAME'', name], kwargs)"

definition client_setinfo_cmd :: "pyval \<Rightarrow> pyval \<Rightarrow> options \<Rightarrow> request res" where
  "client_setinfo_cmd attr value' kwargs = Inr ([PStr ''CLIENT SETINFO'', attr, value'], kwargs)"

definition client_unblock_cmd :: "cmdlib \<Rightarrow> pyval \<Rightarrow> pyval \<Rightarrow> options \<Rightarrow> request res" where
  "client_unblock_cmd P client_id error' kwargs =
     (res_bind (to_int (py P) client_id) (\<lambda>n1.
     let args = [PStr ''CLIENT UNBLOCK'', PInt n1] in
     let args = (if truthy error' then args @ [PBytes ''ERROR''] else args) in
     Inr (args, kwargs)))"

definition client_pause_cmd :: "cmdlib \<Rightarrow> pyval \<Rightarrow> pyval \<Rightarrow> options \<Rightarrow> request res" where
  "client_pause_cmd P timeout all kwargs =
     (let args = [PStr ''CLIENT PAUSE'', PStr (py_str P timeout)] in
     if \<not> (is_int timeout) then
       Inl (Exc DataError ''CLIENT PAUSE timeout must be an integer'')
     else
     let args = (if \<not> (truthy all) then args @ [PStr ''WRITE''] else args) in
     Inr (args, kwargs))"

definition client_unpause_cmd :: "options \<Rightarrow> request res" where
  "client_unpause_cmd kwargs = Inr ([PStr ''CLIENT UNPAUSE''], kwargs)"

definition client_no_evict_cmd :: "pyval \<Rightarrow> request res" where
  "client_no_evict_cmd mode' = Inr ([PStr ''CLIENT NO-EVICT'', mode'], [])"

definition client_no_touch_cmd :: "pyval \<Rightarrow> request res" where
  "client_no_touch_cmd mode' = Inr ([PStr ''CLIENT NO-TOUCH'', mode'], [])"

definition command_cmd :: "options \<Rightarrow> request res" where
  "command_cmd kwargs = Inr ([PStr ''COMMAND''], kwargs)"

definition command_info_cmd :: "options \<Rightarrow> request res" where
  "command_info_cmd kwargs =
     Inl (Exc PyNotImplementedError ''COMMAND INFO is intentionally not implemented in the client.'')"

definition command_count_cmd :: "options \<Rightarrow> request res" where
  "command_count_cmd kwargs = Inr ([PStr ''COMMAND COUNT''], kwargs)"

definition command_list_cmd :: "pyval \<Rightarrow> pyval \<Rightarrow> pyval \<Rightarrow> request res" where
  "command_list_cmd module category pattern =
     (let pieces = [] in
     let pieces = (if module \<noteq> PNone then pieces @ [PStr ''MODULE'', module] else pieces) in
     let pieces = (if category \<noteq> PNone then pieces @ [PStr ''ACLCAT'', category] else pieces) in
     let pieces = (if pattern \<noteq> PNone then pieces @ [PStr ''PATTERN'', pattern] else pieces) in
     let pieces = (if pieces \<noteq> [] then (PStr ''FILTERBY'') # pieces else pieces) in
     Inr ([PStr ''COMMAND LIST''] @ pieces, []))"

definition command_getkeysandflags_cmd :: "pyval list \<Rightarrow> request res" where
  "command_getkeysandflags_cmd args = Inr ([PStr ''COMMAND GETKEYSANDFLAGS''] @ args, [])"

definition command_docs_cmd :: "pyval list \<Rightarrow> request res" where
  "command_docs_cmd args =
     Inl (Exc PyNotImplementedError ''COMMAND DOCS is intentionally not implemented in the client.'')"

definition config_get_cmd :: "pyval \<Rightarrow> pyval list \<Rightarrow> options \<Rightarrow> request res" where
  "config_get_cmd pattern args kwargs = Inr ([PStr ''CONFIG GET'', pattern] @ args, kwargs)"

definition config_set_cmd :: "pyval \<Rightarrow> pyval \<Rightarrow> pyval list \<Rightarrow> options \<Rightarrow> request res" where
  "config_set_cmd name value' args kwargs = Inr ([PStr ''CONFIG SET'', name, value'] @ args, kwargs)"

definition config_resetstat_cmd :: "options \<Rightarrow> request res" where
  "config_resetstat_cmd kwargs = Inr ([PStr ''CONFIG RESETSTAT''], kwargs)"

definition config_rewrite_cmd :: "options \<Rightarrow> request res" where
  "config_rewrite_cmd kwargs = Inr ([PStr ''CONFIG REWRITE''], kwargs)"

definition dbsize_cmd :: "options \<Rightarrow> request res" where
  "dbsize_cmd kwargs = Inr ([PStr ''DBSIZE''], kwargs)"

definition debug_object_cmd :: "pyval \<Rightarrow> options \<Rightarrow> request res" where
  "debug_object_cmd key kwargs = Inr ([PStr ''DEBUG OBJECT'', key], kwargs)"

definition debug_segfault_cmd :: "options \<Rightarrow> request res" where
  "debug_segfault_cmd kwargs =
     Inl (Exc PyNotImplementedError ''DEBUG SEGFAULT is intentionally not implemented in the client. For more information see https://redis.io/commands/debug-segfault'')"

definition echo_cmd :: "pyval \<Rightarrow> options \<Rightarrow> request res" where
  "echo_cmd value' kwargs = Inr ([PStr ''ECHO'', value'], kwargs)"

definition flushall_cmd :: "pyval \<Rightarrow> options \<Rightarrow> request res" where
  "flushall_cmd asynchronous kwargs =
     (let args = [] in
     let args = (if truthy asynchronous then args @ [PBytes ''ASYNC''] else args) in
     Inr ([PStr ''FLUSHALL''] @ args, kwargs))"

definition flushdb_cmd :: "pyval \<Rightarrow> options \<Rightarrow> request res" where
  "flushdb_cmd asynchronous kwargs =
     (let args = [] in
     let args = (if truthy asynchronous then args @ [PBytes ''ASYNC''] else args) in
     Inr ([PStr ''FLUSHDB''] @ args, kwargs))"

definition sync_cmd :: "request res" where
  "sync_cmd =
     (let options = [] in
     let options = opt_set options ''NEVER_DECODE'' (PList []) in
     Inr ([PStr ''SYNC''], options))"

definition psync_cmd :: "pyval \<Rightarrow> pyval \<Rightarrow> request res" where
  "psync_cmd replicationid offset =
     (let options = [] in
     let options = opt_set options ''NEVER_DECODE'' (PList []) in
     Inr ([PStr ''PSYNC'', replicationid, offset], options))"

definition swapdb_cmd :: "pyval \<Rightarrow> pyval \<Rightarrow> options \<Rightarrow> request res" where
  "swapdb_cmd first second kwargs = Inr ([PStr ''SWAPDB'', first, second], kwargs)"

definition select_cmd :: "pyval \<Rightarrow> options \<Rightarrow> request res" where
  "select_cmd index' kwargs = Inr ([PStr ''SELECT'', index'], kwargs)"

definition info_cmd :: "pyval \<Rightarrow> pyval list \<Rightarrow> options \<Rightarrow> request res" where
  "info_cmd section' args kwargs =
     (if section' = PNone then
       Inr ([PStr ''INFO''], kwargs)
     else
       Inr ([PStr ''INFO'', section'] @ args, kwargs))"

definition lastsave_cmd :: "options \<Rightarrow> request res" where
  "lastsave_cmd kwargs = Inr ([PStr ''LASTSAVE''], kwargs)"

definition latency_doctor_cmd :: "request res" where
  "latency_doctor_cmd =
     Inl (Exc PyNotImplementedError ''LATENCY DOCTOR is intentionally not implemented in the client. For more information see https://redis.io/commands/latency-doctor'')"

definition latency_graph_cmd :: "request res" where
  "latency_graph_cmd =
     Inl (Exc PyNotImplementedError ''LATENCY GRAPH is intentionally not implemented in the client. For more information see https://redis.io/commands/latency-graph'')"

definition lolwut_cmd :: "pyval list \<Rightarrow> options \<Rightarrow> request res" where
  "lolwut_cmd version_numbers kwargs =
     (if version_numbers \<noteq> [] then
       Inr ([PStr ''LOLWUT VERSION''] @ version_numbers, kwargs)
     else
       Inr ([PStr ''LOLWUT''], kwargs))"

definition reset_cmd :: "request res" where
  "reset_cmd = Inr ([PStr ''RESET''], [])"

definition migrate_cmd :: "pyval \<Rightarrow> pyval \<Rightarrow> pyval \<Rightarrow> pyval \<Rightarrow> pyval \<Rightarrow> pyval \<Rightarrow> pyval \<Rightarrow> pyval \<Rightarrow> options \<Rightarrow> request res" where
  "migrate_cmd host port keys' destination_db timeout copy replace auth kwargs =
     (let keys' = list_or_args keys' [] in
     if keys' = [] then
       Inl (Exc DataError ''MIGRATE requires at least one key'')
     else
     let pieces = [] in
     let pieces = (if truthy copy then pieces @ [PBytes ''COPY''] else pieces) in
     let pieces = (if truthy replace then pieces @ [PBytes ''REPLACE''] else pieces) in
     let pieces = (if truthy auth
        then (let pieces = pieces @ [PBytes ''AUTH''] in let pieces = pieces @ [auth] in pieces)
        else pieces) in
     let pieces = pieces @ [PBytes ''KEYS''] in
     let pieces = pieces @ keys' in
     Inr ([PStr ''MIGRATE'', host, port, PStr [], destination_db, timeout] @ pieces, kwargs))"

definition object_cmd :: "pyval \<Rightarrow> pyval \<Rightarrow> options \<Rightarrow> request res" where
  "object_cmd infotype key kwargs =
     Inr ([PStr ''OBJECT'', infotype, key], [(''infotype'', infotype)] @ kwargs)"

definition memory_doctor_cmd :: "options \<Rightarrow> request res" where
  "memory_doctor_cmd kwargs =
     Inl (Exc PyNotImplementedError ''MEMORY DOCTOR is intentionally not implemented in the client. For more information see https://redis.io/commands/memory-doctor'')"

definition memory_help_cmd :: "options \<Rightarrow> request res" where
  "memory_help_cmd kwargs =
     Inl (Exc PyNotImplementedError ''MEMORY HELP is intentionally not implemented in the client. For more information see https://redis.io/commands/memory-help'')"

definition memory_stats_cmd :: "options \<Rightarrow> request res" where
  "memory_stats_cmd kwargs = Inr ([PStr ''MEMORY STATS''], kwargs)"

definition memory_malloc_stats_cmd :: "options \<Rightarrow> request res" where
  "memory_malloc_stats_cmd kwargs = Inr ([PStr ''MEMORY MALLOC-STATS''], kwargs)"

definition memory_usage_cmd :: "pyval \<Rightarrow> pyval \<Rightarrow> options \<Rightarrow> request res" where
  "memory_usage_cmd key samples kwargs =
     (let args = [] in
     let args = (if is_int samples then args @ [PBytes ''SAMPLES'', samples] else args) in
     Inr ([PStr ''MEMORY USAGE'', key] @ args, kwargs))"

definition memory_purge_cmd :: "options \<Rightarrow> request res" where
  "memory_purge_cmd kwargs = Inr ([PStr ''MEMORY PURGE''], kwargs)"

definition latency_histogram_cmd :: "pyval list \<Rightarrow> request res" where
  "latency_histogram_cmd args =
     Inl (Exc PyNotImplementedError ''LATENCY HISTOGRAM is intentionally not implemented in the client.'')"

definition latency_history_cmd :: "pyval \<Rightarrow> request res" where
  "latency_history_cmd event = Inr ([PStr ''LATENCY HISTORY'', event], [])"

definition latency_latest_cmd :: "request res" where
  "latency_latest_cmd = Inr ([PStr ''LATENCY LATEST''], [])"

definition latency_reset_cmd :: "pyval list \<Rightarrow> request res" where
  "latency_reset_cmd events = Inr ([PStr ''LATENCY RESET''] @ events, [])"

definition ping_cmd :: "options \<Rightarrow> request res" where
  "ping_cmd kwargs = Inr ([PStr ''PING''], kwargs)"

definition quit_cmd :: "options \<Rightarrow> request res" where
  "quit_cmd kwargs = Inr ([PStr ''QUIT''], kwargs)"

definition replicaof_cmd :: "pyval list \<Rightarrow> options \<Rightarrow> request res" where
  "replicaof_cmd args kwargs = Inr ([PStr ''REPLICAOF''] @ args, kwargs)"

definition save_cmd :: "options \<Rightarrow> request res" where
  "save_cmd kwargs = Inr ([PStr ''SAVE''], kwargs)"

definition slaveof_cmd :: "pyval \<Rightarrow> pyval \<Rightarrow> options \<Rightarrow> request res" where
  "slaveof_cmd host port kwargs =
     (if host = PNone \<and> port = PNone then
       Inr ([PStr ''SLAVEOF'', PBytes ''NO'', PBytes ''ONE''], kwargs)
     else
     Inr ([PStr ''SLAVEOF'', host, port], kwargs))"

definition slowlog_get_cmd :: "pyval \<Rightarrow> pyval \<Rightarrow> options \<Rightarrow> request res" where
  "slowlog_get_cmd decode_responses' num kwargs =
     (let args = [PStr ''SLOWLOG GET''] in
     let args = (if num \<noteq> PNone then args @ [num] else args) in
     let decode_responses = decode_responses' in
     let kwargs = (if decode_responses = PBool True then opt_set kwargs ''NEVER_DECODE'' (PList []) else kwargs) in
     Inr (args, kwargs))"

definition slowlog_len_cmd :: "options \<Rightarrow> request res" where
  "slowlog_len_cmd kwargs = Inr ([PStr ''SLOWLOG LEN''], kwargs)"

definition slowlog_reset_cmd :: "options \<Rightarrow> request res" where
  "slowlog_reset_cmd kwargs = Inr ([PStr ''SLOWLOG RESET''], kwargs)"

definition time_cmd :: "options \<Rightarrow> request res" where
  "time_cmd kwargs = Inr ([PStr ''TIME''], kwargs)"

definition wait_cmd :: "pyval \<Rightarrow> pyval \<Rightarrow> options \<Rightarrow> request res" where
  "wait_cmd num_replicas timeout kwargs = Inr ([PStr ''WAIT'', num_replicas, timeout], kwargs)"

definition waitaof_cmd :: "pyval \<Rightarrow> pyval \<Rightarrow> pyval \<Rightarrow> options \<Rightarrow> request res" where
  "waitaof_cmd num_local num_replicas timeout kwargs =
     Inr ([PStr ''WAITAOF'', num_local, num_replicas, timeout], kwargs)"

definition hello_cmd :: "request res" where
  "hello_cmd = Inl (Exc PyNotImplementedError ''HELLO is intentionally not implemented in the client.'')"

definition failover_cmd :: "request res" where
  "failover_cmd =
     Inl (Exc PyNotImplementedError ''FAILOVER is intentionally not implemented in the client.'')"

definition client_tracking_on_cmd :: "pyval \<Rightarrow> pyval \<Rightarrow> pyval \<Rightarrow> pyval \<Rightarrow> pyval \<Rightarrow> pyval \<Rightarrow> request res" where
  "client_tracking_on_cmd clientid prefix' bcast optin optout noloop =
     client_tracking_cmd (PBool True) clientid prefix' bcast optin optout noloop []"

definition client_tracking_off_cmd :: "pyval \<Rightarrow> pyval \<Rightarrow> pyval \<Rightarrow> pyval \<Rightarrow> pyval \<Rightarrow> pyval \<Rightarrow> request res" where
  "client_tracking_off_cmd clientid prefix' bcast optin optout noloop =
     client_tracking_cmd (PBool False) clientid prefix' bcast optin optout noloop []"

end
