(* ===== verification/Cmd_Keys.thy ===== *)
theory Cmd_Keys
  imports Cmd_Base
begin

text \<open>
  Keys, strings and bit fields. Each definition is the method of \<open>redis/commands/core.py\<close> of the same name (\<open>_cmd\<close> appended,
  \<open>_impl_cmd\<close> for a private one): see \<open>Cmd_Base\<close>.
\<close>

section \<open>BasicKeyCommands\<close>

definition append_cmd :: "pyval \<Rightarrow> pyval \<Rightarrow> request res" where
  "append_cmd key value' = Inr ([PStr ''APPEND'', key, value'], [])"

definition bitcount_cmd :: "pyval \<Rightarrow> pyval \<Rightarrow> pyval \<Rightarrow> pyval \<Rightarrow> request res" where
  "bitcount_cmd key start end' mode' =
     (let params = [key] in
     res_bind
      (if start \<noteq> PNone \<and> end' \<noteq> PNone then
       let params = params @ [start] in
       let params = params @ [end'] in
       Inr params
       else
       if (start \<noteq> PNone \<and> end' = PNone) \<or> (end' \<noteq> PNone \<and> start = PNone) then
         Inl (Exc DataError ''Both start and end must be specified'')
       else
       Inr params)
      (\<lambda>params.
     let params = (if mode' \<noteq> PNone then params @ [mode'] else params) in
     Inr ([PStr ''BITCOUNT''] @ params, [(''keys'', PList [key])])))"

definition bitfield_ro_cmd :: "pyval \<Rightarrow> pyval \<Rightarrow> pyval \<Rightarrow> pyval \<Rightarrow> request res" where
  "bitfield_ro_cmd key encoding offset items' =
     (let params = [key, PStr ''GET'', encoding, offset] in
     let items' = (if truthy items' then items' else PList []) in
     res_bind (iterate items') (\<lambda>xs1.
     res_bind
      (res_fold (\<lambda>params p2.
         res_bind (unpack2 p2) (\<lambda>(encoding, offset).
         let params = params @ [PStr ''GET'', encoding, offset] in
         Inr params))
        params xs1)
      (\<lambda>params.
     Inr ([PStr ''BITFIELD_RO''] @ params, [(''keys'', PList [key])]))))"

definition bitop_cmd :: "pyval \<Rightarrow> pyval \<Rightarrow> pyval list \<Rightarrow> request res" where
  "bitop_cmd operation dest keys' = Inr ([PStr ''BITOP'', operation, dest] @ keys', [])"

definition bitpos_cmd :: "cmdlib \<Rightarrow> pyval \<Rightarrow> pyval \<Rightarrow> pyval \<Rightarrow> pyval \<Rightarrow> pyval \<Rightarrow> request res" where
  "bitpos_cmd P key bit' start end' mode' =
     (if \<not> list_ex (py_eq P bit') [PInt 0, PInt 1] then
       Inl (Exc DataError ''bit must be 0 or 1'')
     else
     let params = [key, bit'] in
     let params = (if start \<noteq> PNone then params @ [start] else params) in
     res_bind
      (if start \<noteq> PNone \<and> end' \<noteq> PNone then
       let params = params @ [end'] in
       Inr params
       else
       if start = PNone \<and> end' \<noteq> PNone then
         Inl (Exc DataError ''start argument is not set, when end is specified'')
       else
       Inr params)
      (\<lambda>params.
     let params = (if mode' \<noteq> PNone then params @ [mode'] else params) in
     Inr ([PStr ''BITPOS''] @ params, [(''keys'', PList [key])])))"

definition copy_cmd :: "pyval \<Rightarrow> pyval \<Rightarrow> pyval \<Rightarrow> pyval \<Rightarrow> request res" where
  "copy_cmd source destination destination_db replace =
     (let params = [source, destination] in
     let params = (if destination_db \<noteq> PNone then params @ [PStr ''DB'', destination_db] else params) in
     let params = (if truthy replace then params @ [PStr ''REPLACE''] else params) in
     Inr ([PStr ''COPY''] @ params, []))"

definition decrby_cmd :: "pyval \<Rightarrow> pyval \<Rightarrow> request res" where
  "decrby_cmd name amount = Inr ([PStr ''DECRBY'', name, amount], [])"

definition delete_cmd :: "pyval list \<Rightarrow> request res" where
  "delete_cmd names = Inr ([PStr ''DEL''] @ names, [])"

definition dump_cmd :: "pyval \<Rightarrow> request res" where
  "dump_cmd name =
     (let options = [] in
     let options = opt_set options ''NEVER_DECODE'' (PList []) in
     Inr ([PStr ''DUMP'', name], options))"

definition exists_cmd :: "pyval list \<Rightarrow> request res" where
  "exists_cmd names = Inr ([PStr ''EXISTS''] @ names, [(''keys'', PTuple names)])"

definition expire_cmd :: "cmdlib \<Rightarrow> pyval \<Rightarrow> pyval \<Rightarrow> pyval \<Rightarrow> pyval \<Rightarrow> pyval \<Rightarrow> pyval \<Rightarrow> request res" where
  "expire_cmd P name time' nx xx gt lt =
     (let time' = (if is_timedelta P time' then PInt (seconds_of P time') else time') in
     let exp_option = [] in
     let exp_option = (if truthy nx then exp_option @ [PStr ''NX''] else exp_option) in
     let exp_option = (if truthy xx then exp_option @ [PStr ''XX''] else exp_option) in
     let exp_option = (if truthy gt then exp_option @ [PStr ''GT''] else exp_option) in
     let exp_option = (if truthy lt then exp_option @ [PStr ''LT''] else exp_option) in
     Inr ([PStr ''EXPIRE'', name, time'] @ exp_option, []))"

definition expireat_cmd :: "cmdlib \<Rightarrow> pyval \<Rightarrow> pyval \<Rightarrow> pyval \<Rightarrow> pyval \<Rightarrow> pyval \<Rightarrow> pyval \<Rightarrow> request res" where
  "expireat_cmd P name when nx xx gt lt =
     (let when = (if is_datetime P when then PInt (timestamp_of P when) else when) in
     let exp_option = [] in
     let exp_option = (if truthy nx then exp_option @ [PStr ''NX''] else exp_option) in
     let exp_option = (if truthy xx then exp_option @ [PStr ''XX''] else exp_option) in
     let exp_option = (if truthy gt then exp_option @ [PStr ''GT''] else exp_option) in
     let exp_option = (if truthy lt then exp_option @ [PStr ''LT''] else exp_option) in
     Inr ([PStr ''EXPIREAT'', name, when] @ exp_option, []))"

definition expiretime_cmd :: "pyval \<Rightarrow> request res" where
  "expiretime_cmd key = Inr ([PStr ''EXPIRETIME'', key], [])"

definition get_cmd :: "pyval \<Rightarrow> request res" where
  "get_cmd name = Inr ([PStr ''GET'', name], [(''keys'', PList [name])])"

definition getdel_cmd :: "pyval \<Rightarrow> request res" where
  "getdel_cmd name = Inr ([PStr ''GETDEL'', name], [])"

definition getex_cmd :: "cmdlib \<Rightarrow> pyval \<Rightarrow> pyval \<Rightarrow> pyval \<Rightarrow> pyval \<Rightarrow> pyval \<Rightarrow> pyval \<Rightarrow> request res" where
  "getex_cmd P name ex px exat pxat persist =
     (res_bind (set_of [ex, px, exat, pxat]) (\<lambda>opset.
     if length opset > 2 \<or> (length opset > 1 \<and> truthy persist) then
       Inl (Exc DataError ''``ex``, ``px``, ``exat``, ``pxat``, and ``persist`` are mutually exclusive.'')
     else
     res_bind (extract_expire_flags P ex px exat pxat) (\<lambda>exp_options.
     let exp_options = (if truthy persist then exp_options @ [PStr ''PERSIST''] else exp_options) in
     Inr ([PStr ''GETEX'', name] @ exp_options, []))))"

definition getbit_cmd :: "pyval \<Rightarrow> pyval \<Rightarrow> request res" where
  "getbit_cmd name offset = Inr ([PStr ''GETBIT'', name, offset], [(''keys'', PList [name])])"

definition getrange_cmd :: "pyval \<Rightarrow> pyval \<Rightarrow> pyval \<Rightarrow> request res" where
  "getrange_cmd key start end' = Inr ([PStr ''GETRANGE'', key, start, end'], [(''keys'', PList [key])])"

definition getset_cmd :: "pyval \<Rightarrow> pyval \<Rightarrow> request res" where
  "getset_cmd name value' = Inr ([PStr ''GETSET'', name, value'], [])"

definition incrby_cmd :: "pyval \<Rightarrow> pyval \<Rightarrow> request res" where
  "incrby_cmd name amount = Inr ([PStr ''INCRBY'', name, amount], [])"

definition incrbyfloat_cmd :: "pyval \<Rightarrow> pyval \<Rightarrow> request res" where
  "incrbyfloat_cmd name amount = Inr ([PStr ''INCRBYFLOAT'', name, amount], [])"

definition keys_cmd :: "pyval \<Rightarrow> options \<Rightarrow> request res" where
  "keys_cmd pattern kwargs = Inr ([PStr ''KEYS'', pattern], kwargs)"

definition lmove_cmd :: "pyval \<Rightarrow> pyval \<Rightarrow> pyval \<Rightarrow> pyval \<Rightarrow> request res" where
  "lmove_cmd first_list second_list src dest =
     (let params = [first_list, second_list, src, dest] in
     Inr ([PStr ''LMOVE''] @ params, []))"

definition blmove_cmd :: "pyval \<Rightarrow> pyval \<Rightarrow> pyval \<Rightarrow> pyval \<Rightarrow> pyval \<Rightarrow> request res" where
  "blmove_cmd first_list second_list timeout src dest =
     (let params = [first_list, second_list, src, dest, timeout] in
     Inr ([PStr ''BLMOVE''] @ params, []))"

definition mget_cmd :: "pyval \<Rightarrow> pyval list \<Rightarrow> request res" where
  "mget_cmd keys' args =
     (let args = list_or_args keys' args in
     let options = [] in
     let options = (if args = [] then opt_set options ''EMPTY_RESPONSE'' (PList []) else options) in
     let options = opt_set options ''keys'' (PList args) in
     Inr ([PStr ''MGET''] @ args, options))"

definition mset_cmd :: "pyval \<Rightarrow> request res" where
  "mset_cmd mapping =
     (let items' = [] in
     res_bind (items_of mapping) (\<lambda>kvs1.
     let items' = foldl (\<lambda>items' pair. items' @ [fst pair, snd pair]) items' kvs1 in
     Inr ([PStr ''MSET''] @ items', [])))"

definition msetnx_cmd :: "pyval \<Rightarrow> request res" where
  "msetnx_cmd mapping =
     (let items' = [] in
     res_bind (items_of mapping) (\<lambda>kvs1.
     let items' = foldl (\<lambda>items' pair. items' @ [fst pair, snd pair]) items' kvs1 in
     Inr ([PStr ''MSETNX''] @ items', [])))"

definition move_cmd :: "pyval \<Rightarrow> pyval \<Rightarrow> request res" where
  "move_cmd name db = Inr ([PStr ''MOVE'', name, db], [])"

definition persist_cmd :: "pyval \<Rightarrow> request res" where
  "persist_cmd name = Inr ([PStr ''PERSIST'', name], [])"

definition pexpire_cmd :: "cmdlib \<Rightarrow> pyval \<Rightarrow> pyval \<Rightarrow> pyval \<Rightarrow> pyval \<Rightarrow> pyval \<Rightarrow> pyval \<Rightarrow> request res" where
  "pexpire_cmd P name time' nx xx gt lt =
     (let time' = (if is_timedelta P time' then PInt (seconds_of_ms P time') else time') in
     let exp_option = [] in
     let exp_option = (if truthy nx then exp_option @ [PStr ''NX''] else exp_option) in
     let exp_option = (if truthy xx then exp_option @ [PStr ''XX''] else exp_option) in
     let exp_option = (if truthy gt then exp_option @ [PStr ''GT''] else exp_option) in
     let exp_option = (if truthy lt then exp_option @ [PStr ''LT''] else exp_option) in
     Inr ([PStr ''PEXPIRE'', name, time'] @ exp_option, []))"

definition pexpireat_cmd :: "cmdlib \<Rightarrow> pyval \<Rightarrow> pyval \<Rightarrow> pyval \<Rightarrow> pyval \<Rightarrow> pyval \<Rightarrow> pyval \<Rightarrow> request res" where
  "pexpireat_cmd P name when nx xx gt lt =
     (let when = (if is_datetime P when then PInt (timestamp_of_ms P when) else when) in
     let exp_option = [] in
     let exp_option = (if truthy nx then exp_option @ [PStr ''NX''] else exp_option) in
     let exp_option = (if truthy xx then exp_option @ [PStr ''XX''] else exp_option) in
     let exp_option = (if truthy gt then exp_option @ [PStr ''GT''] else exp_option) in
     let exp_option = (if truthy lt then exp_option @ [PStr ''LT''] else exp_option) in
     Inr ([PStr ''PEXPIREAT'', name, when] @ exp_option, []))"

definition pexpiretime_cmd :: "pyval \<Rightarrow> request res" where
  "pexpiretime_cmd key = Inr ([PStr ''PEXPIRETIME'', key], [])"

definition psetex_cmd :: "cmdlib \<Rightarrow> pyval \<Rightarrow> pyval \<Rightarrow> pyval \<Rightarrow> request res" where
  "psetex_cmd P name time_ms value' =
     (let time_ms = (if is_timedelta P time_ms then PInt (seconds_of_ms P time_ms) else time_ms) in
     Inr ([PStr ''PSETEX'', name, time_ms, value'], []))"

definition pttl_cmd :: "pyval \<Rightarrow> request res" where
  "pttl_cmd name = Inr ([PStr ''PTTL'', name], [])"

definition hrandfield_cmd :: "pyval \<Rightarrow> pyval \<Rightarrow> pyval \<Rightarrow> request res" where
  "hrandfield_cmd key count' withvalues =
     (let params = [] in
     let params = (if count' \<noteq> PNone then params @ [count'] else params) in
     let params = (if truthy withvalues then params @ [PStr ''WITHVALUES''] else params) in
     Inr ([PStr ''HRANDFIELD'', key] @ params, []))"

definition randomkey_cmd :: "options \<Rightarrow> request res" where
  "randomkey_cmd kwargs = Inr ([PStr ''RANDOMKEY''], kwargs)"

definition rename_cmd :: "pyval \<Rightarrow> pyval \<Rightarrow> request res" where
  "rename_cmd src dst = Inr ([PStr ''RENAME'', src, dst], [])"

definition renamenx_cmd :: "pyval \<Rightarrow> pyval \<Rightarrow> request res" where
  "renamenx_cmd src dst = Inr ([PStr ''RENAMENX'', src, dst], [])"

definition restore_cmd :: "cmdlib \<Rightarrow> pyval \<Rightarrow> pyval \<Rightarrow> pyval \<Rightarrow> pyval \<Rightarrow> pyval \<Rightarrow> pyval \<Rightarrow> pyval \<Rightarrow> request res" where
  "restore_cmd P name ttl value' replace absttl idletime frequency =
     (let params = [name, ttl, value'] in
     let params = (if truthy replace then params @ [PStr ''REPLACE''] else params) in
     let params = (if truthy absttl then params @ [PStr ''ABSTTL''] else params) in
     res_bind
      (if idletime \<noteq> PNone then
       let params = params @ [PStr ''IDLETIME''] in
       res_except PyValueError (
         res_bind (to_int (py P) idletime) (\<lambda>n1.
         let params = params @ [PInt n1] in
         Inr params)) (
         Inl (Exc DataError ''idletimemust be an integer''))
       else
       Inr params)
      (\<lambda>params.
     res_bind
      (if frequency \<noteq> PNone then
       let params = params @ [PStr ''FREQ''] in
       res_except PyValueError (
         res_bind (to_int (py P) frequency) (\<lambda>n2.
         let params = params @ [PInt n2] in
         Inr params)) (
         Inl (Exc DataError ''frequency must be an integer''))
       else
       Inr params)
      (\<lambda>params.
     Inr ([PStr ''RESTORE''] @ params, []))))"

definition set_cmd :: "cmdlib \<Rightarrow> pyval \<Rightarrow> pyval \<Rightarrow> pyval \<Rightarrow> pyval \<Rightarrow> pyval \<Rightarrow> pyval \<Rightarrow> pyval \<Rightarrow> pyval \<Rightarrow> pyval \<Rightarrow> pyval \<Rightarrow> request res" where
  "set_cmd P name value' ex px nx xx keepttl get exat pxat =
     (res_bind (set_of [ex, px, exat, pxat]) (\<lambda>opset.
     if length opset > 2 \<or> (length opset > 1 \<and> truthy keepttl) then
       Inl (Exc DataError ''``ex``, ``px``, ``exat``, ``pxat``, and ``keepttl`` are mutually exclusive.'')
     else
     if truthy nx \<and> truthy xx then
       Inl (Exc DataError ''``nx`` and ``xx`` are mutually exclusive.'')
     else
     let pieces = [name, value'] in
     let options = [] in
     res_bind (extract_expire_flags P ex px exat pxat) (\<lambda>flags2.
     let pieces = pieces @ flags2 in
     let pieces = (if truthy keepttl then pieces @ [PStr ''KEEPTTL''] else pieces) in
     let pieces = (if truthy nx then pieces @ [PStr ''NX''] else pieces) in
     let pieces = (if truthy xx then pieces @ [PStr ''XX''] else pieces) in
     let (pieces, options) = (if truthy get
        then (let pieces = pieces @ [PStr ''GET''] in let options = opt_set options ''get'' (PBool True) in (pieces, options))
        else (pieces, options)) in
     Inr ([PStr ''SET''] @ pieces, options))))"

definition setbit_cmd :: "pyval \<Rightarrow> pyval \<Rightarrow> pyval \<Rightarrow> request res" where
  "setbit_cmd name offset value' =
     (let value' = (if truthy value' then PInt 1 else PInt 0) in
     Inr ([PStr ''SETBIT'', name, offset, value'], []))"

definition setex_cmd :: "cmdlib \<Rightarrow> pyval \<Rightarrow> pyval \<Rightarrow> pyval \<Rightarrow> request res" where
  "setex_cmd P name time' value' =
     (let time' = (if is_timedelta P time' then PInt (seconds_of P time') else time') in
     Inr ([PStr ''SETEX'', name, time', value'], []))"

definition setnx_cmd :: "pyval \<Rightarrow> pyval \<Rightarrow> request res" where
  "setnx_cmd name value' = Inr ([PStr ''SETNX'', name, value'], [])"

definition setrange_cmd :: "pyval \<Rightarrow> pyval \<Rightarrow> pyval \<Rightarrow> request res" where
  "setrange_cmd name offset value' = Inr ([PStr ''SETRANGE'', name, offset, value'], [])"

definition stralgo_cmd :: "cmdlib \<Rightarrow> pyval \<Rightarrow> pyval \<Rightarrow> pyval \<Rightarrow> pyval \<Rightarrow> pyval \<Rightarrow> pyval \<Rightarrow> pyval \<Rightarrow> pyval \<Rightarrow> options \<Rightarrow> request res" where
  "stralgo_cmd P algo value1 value2 specific_argument len idx minmatchlen withmatchlen kwargs =
     (let supported_algo = [PStr ''LCS''] in
     if \<not> list_ex (py_eq P algo) supported_algo then
       Inl (Exc DataError ''The supported algorithms are: '')
     else
     if specific_argument \<notin> set [PStr ''keys'', PStr ''strings''] then
       Inl (Exc DataError ''specific_argument can be only keys or strings'')
     else
     if truthy len \<and> truthy idx then
       Inl (Exc DataError ''len and idx cannot be provided together.'')
     else
     res_bind (py_upper specific_argument) (\<lambda>u1.
     let pieces = [algo, u1, value1, value2] in
     let pieces = (if truthy len then pieces @ [PBytes ''LEN''] else pieces) in
     let pieces = (if truthy idx then pieces @ [PBytes ''IDX''] else pieces) in
     res_bind
      (res_except PyTypeError (
       res_bind (to_int (py P) minmatchlen) (\<lambda>_.
       let pieces = pieces @ [PBytes ''MINMATCHLEN'', minmatchlen] in
       Inr pieces)) (
       Inr pieces))
      (\<lambda>pieces.
     let pieces = (if truthy withmatchlen then pieces @ [PBytes ''WITHMATCHLEN''] else pieces) in
     Inr ([PStr ''STRALGO''] @ pieces, [(''len'', len), (''idx'', idx), (''minmatchlen'', minmatchlen), (''withmatchlen'', withmatchlen)] @ kwargs))))"

definition strlen_cmd :: "pyval \<Rightarrow> request res" where
  "strlen_cmd name = Inr ([PStr ''STRLEN'', name], [(''keys'', PList [name])])"

definition substr_cmd :: "pyval \<Rightarrow> pyval \<Rightarrow> pyval \<Rightarrow> request res" where
  "substr_cmd name start end' = Inr ([PStr ''SUBSTR'', name, start, end'], [(''keys'', PList [name])])"

definition touch_cmd :: "pyval list \<Rightarrow> request res" where
  "touch_cmd args = Inr ([PStr ''TOUCH''] @ args, [])"

definition ttl_cmd :: "pyval \<Rightarrow> request res" where
  "ttl_cmd name = Inr ([PStr ''TTL'', name], [])"

definition type_cmd :: "pyval \<Rightarrow> request res" where
  "type_cmd name = Inr ([PStr ''TYPE'', name], [(''keys'', PList [name])])"

definition unlink_cmd :: "pyval list \<Rightarrow> request res" where
  "unlink_cmd names = Inr ([PStr ''UNLINK''] @ names, [])"

definition lcs_cmd :: "cmdlib \<Rightarrow> pyval \<Rightarrow> pyval \<Rightarrow> pyval \<Rightarrow> pyval \<Rightarrow> pyval \<Rightarrow> pyval \<Rightarrow> request res" where
  "lcs_cmd P key1 key2 len idx minmatchlen withmatchlen =
     (let pieces = [key1, key2] in
     let pieces = (if truthy len then pieces @ [PStr ''LEN''] else pieces) in
     let pieces = (if truthy idx then pieces @ [PStr ''IDX''] else pieces) in
     let pieces = (if \<not> py_eq P minmatchlen (PInt 0)
        then pieces @ [PStr ''MINMATCHLEN'', minmatchlen]
        else pieces) in
     let pieces = (if truthy withmatchlen then pieces @ [PStr ''WITHMATCHLEN''] else pieces) in
     Inr ([PStr ''LCS''] @ pieces, [(''keys'', PList [key1, key2])]))"

end
