(* ===== verification/Cmd_Collections.thy ===== *)
theory Cmd_Collections
  imports Cmd_Base
begin

text \<open>
  Lists, cursors, sets and hashes. Each definition is the method of \<open>redis/commands/core.py\<close> of the same name (\<open>_cmd\<close> appended,
  \<open>_impl_cmd\<close> for a private one): see \<open>Cmd_Base\<close>.
\<close>

section \<open>ListCommands\<close>

definition blpop_cmd :: "pyval \<Rightarrow> pyval \<Rightarrow> request res" where
  "blpop_cmd keys' timeout =
     (let timeout = (if timeout = PNone then PInt 0 else timeout) in
     let keys' = list_or_args keys' [] in
     let keys' = keys' @ [timeout] in
     Inr ([PStr ''BLPOP''] @ keys', []))"

definition brpop_cmd :: "pyval \<Rightarrow> pyval \<Rightarrow> request res" where
  "brpop_cmd keys' timeout =
     (let timeout = (if timeout = PNone then PInt 0 else timeout) in
     let keys' = list_or_args keys' [] in
     let keys' = keys' @ [timeout] in
     Inr ([PStr ''BRPOP''] @ keys', []))"

definition brpoplpush_cmd :: "pyval \<Rightarrow> pyval \<Rightarrow> pyval \<Rightarrow> request res" where
  "brpoplpush_cmd src dst timeout =
     (let timeout = (if timeout = PNone then PInt 0 else timeout) in
     Inr ([PStr ''BRPOPLPUSH'', src, dst, timeout], []))"

definition blmpop_cmd :: "pyval \<Rightarrow> pyval \<Rightarrow> pyval list \<Rightarrow> pyval \<Rightarrow> pyval \<Rightarrow> request res" where
  "blmpop_cmd timeout numkeys args direction count' =
     (let args = [timeout, numkeys] @ args @ [direction, PStr ''COUNT'', count'] in
     Inr ([PStr ''BLMPOP''] @ args, []))"

definition lmpop_cmd :: "cmdlib \<Rightarrow> pyval \<Rightarrow> pyval list \<Rightarrow> pyval \<Rightarrow> pyval \<Rightarrow> request res" where
  "lmpop_cmd P num_keys args direction count' =
     (let args = (([num_keys] @ args) @ [direction]) in
     let args = (if \<not> py_eq P count' (PInt 1) then args @ [PStr ''COUNT'', count'] else args) in
     Inr ([PStr ''LMPOP''] @ args, []))"

definition lindex_cmd :: "pyval \<Rightarrow> pyval \<Rightarrow> request res" where
  "lindex_cmd name index' = Inr ([PStr ''LINDEX'', name, index'], [(''keys'', PList [name])])"

definition linsert_cmd :: "pyval \<Rightarrow> pyval \<Rightarrow> pyval \<Rightarrow> pyval \<Rightarrow> request res" where
  "linsert_cmd name where' refvalue value' = Inr ([PStr ''LINSERT'', name, where', refvalue, value'], [])"

definition llen_cmd :: "pyval \<Rightarrow> request res" where
  "llen_cmd name = Inr ([PStr ''LLEN'', name], [(''keys'', PList [name])])"

definition lpop_cmd :: "pyval \<Rightarrow> pyval \<Rightarrow> request res" where
  "lpop_cmd name count' =
     (if count' \<noteq> PNone then
       Inr ([PStr ''LPOP'', name, count'], [])
     else
       Inr ([PStr ''LPOP'', name], []))"

definition lpush_cmd :: "pyval \<Rightarrow> pyval list \<Rightarrow> request res" where
  "lpush_cmd name values = Inr ([PStr ''LPUSH'', name] @ values, [])"

definition lpushx_cmd :: "pyval \<Rightarrow> pyval list \<Rightarrow> request res" where
  "lpushx_cmd name values = Inr ([PStr ''LPUSHX'', name] @ values, [])"

definition lrange_cmd :: "pyval \<Rightarrow> pyval \<Rightarrow> pyval \<Rightarrow> request res" where
  "lrange_cmd name start end' = Inr ([PStr ''LRANGE'', name, start, end'], [(''keys'', PList [name])])"

definition lrem_cmd :: "pyval \<Rightarrow> pyval \<Rightarrow> pyval \<Rightarrow> request res" where
  "lrem_cmd name count' value' = Inr ([PStr ''LREM'', name, count', value'], [])"

definition lset_cmd :: "pyval \<Rightarrow> pyval \<Rightarrow> pyval \<Rightarrow> request res" where
  "lset_cmd name index' value' = Inr ([PStr ''LSET'', name, index', value'], [])"

definition ltrim_cmd :: "pyval \<Rightarrow> pyval \<Rightarrow> pyval \<Rightarrow> request res" where
  "ltrim_cmd name start end' = Inr ([PStr ''LTRIM'', name, start, end'], [])"

definition rpop_cmd :: "pyval \<Rightarrow> pyval \<Rightarrow> request res" where
  "rpop_cmd name count' =
     (if count' \<noteq> PNone then
       Inr ([PStr ''RPOP'', name, count'], [])
     else
       Inr ([PStr ''RPOP'', name], []))"

definition rpoplpush_cmd :: "pyval \<Rightarrow> pyval \<Rightarrow> request res" where
  "rpoplpush_cmd src dst = Inr ([PStr ''RPOPLPUSH'', src, dst], [])"

definition rpush_cmd :: "pyval \<Rightarrow> pyval list \<Rightarrow> request res" where
  "rpush_cmd name values = Inr ([PStr ''RPUSH'', name] @ values, [])"

definition rpushx_cmd :: "pyval \<Rightarrow> pyval list \<Rightarrow> request res" where
  "rpushx_cmd name values = Inr ([PStr ''RPUSHX'', name] @ values, [])"

definition lpos_cmd :: "pyval \<Rightarrow> pyval \<Rightarrow> pyval \<Rightarrow> pyval \<Rightarrow> pyval \<Rightarrow> request res" where
  "lpos_cmd name value' rank' count' maxlen =
     (let pieces = [name, value'] in
     let pieces = (if rank' \<noteq> PNone then pieces @ [PStr ''RANK'', rank'] else pieces) in
     let pieces = (if count' \<noteq> PNone then pieces @ [PStr ''COUNT'', count'] else pieces) in
     let pieces = (if maxlen \<noteq> PNone then pieces @ [PStr ''MAXLEN'', maxlen] else pieces) in
     Inr ([PStr ''LPOS''] @ pieces, [(''keys'', PList [name])]))"

definition sort_cmd :: "pyval \<Rightarrow> pyval \<Rightarrow> pyval \<Rightarrow> pyval \<Rightarrow> pyval \<Rightarrow> pyval \<Rightarrow> pyval \<Rightarrow> pyval \<Rightarrow> pyval \<Rightarrow> request res" where
  "sort_cmd name start num by' get desc alpha store' groups =
     (if (start \<noteq> PNone \<and> num = PNone) \<or> (num \<noteq> PNone \<and> start = PNone) then
       Inl (Exc DataError ''``start`` and ``num`` must both be specified'')
     else
     let pieces = [name] in
     let pieces = (if by' \<noteq> PNone then pieces @ [PBytes ''BY'', by'] else pieces) in
     let pieces = (if start \<noteq> PNone \<and> num \<noteq> PNone
        then pieces @ [PBytes ''LIMIT'', start, num]
        else pieces) in
     res_bind
      (if get \<noteq> PNone then
       if (is_bytes get \<or> is_str get) then
         let pieces = pieces @ [PBytes ''GET'', get] in
         Inr pieces
       else
         res_bind (iterate get) (\<lambda>xs1.
         let pieces = foldl (\<lambda>pieces g. pieces @ [PBytes ''GET'', g]) pieces xs1 in
         Inr pieces)
       else
       Inr pieces)
      (\<lambda>pieces.
     let pieces = (if truthy desc then pieces @ [PBytes ''DESC''] else pieces) in
     let pieces = (if truthy alpha then pieces @ [PBytes ''ALPHA''] else pieces) in
     let pieces = (if store' \<noteq> PNone then pieces @ [PBytes ''STORE'', store'] else pieces) in
     res_bind
      (if truthy groups then
       res_bind (if \<not> (truthy get) then Inr True else (if (is_bytes get \<or> is_str get) then Inr True else (res_bind (py_len get) (\<lambda>n2. Inr (n2 < 2))))) (\<lambda>c3.
       if c3 then
         Inl (Exc DataError (''when using '' @ [CHR 0x22] @ ''groups'' @ [CHR 0x22] @ '' the '' @ [CHR 0x22] @ ''get'' @ [CHR 0x22] @ '' argument must be specified and contain at least two keys''))
       else
       Inr ())
       else
       Inr ())
      (\<lambda>_.
     res_bind (if truthy groups then (res_bind (py_len get) (\<lambda>n4. Inr (PInt (int n4)))) else (Inr PNone)) (\<lambda>v5.
     let options = [(''groups'', v5)] in
     let options = opt_set options ''keys'' (PList [name]) in
     Inr ([PStr ''SORT''] @ pieces, options)))))"

definition sort_ro_cmd :: "pyval \<Rightarrow> pyval \<Rightarrow> pyval \<Rightarrow> pyval \<Rightarrow> pyval \<Rightarrow> pyval \<Rightarrow> pyval \<Rightarrow> request res" where
  "sort_ro_cmd key start num by' get desc alpha =
     sort_cmd key start num by' get desc alpha PNone (PBool False)"

section \<open>ScanCommands\<close>

definition scan_cmd :: "pyval \<Rightarrow> pyval \<Rightarrow> pyval \<Rightarrow> pyval \<Rightarrow> options \<Rightarrow> request res" where
  "scan_cmd cursor match count' type' kwargs =
     (let pieces = [cursor] in
     let pieces = (if match \<noteq> PNone then pieces @ [PBytes ''MATCH'', match] else pieces) in
     let pieces = (if count' \<noteq> PNone then pieces @ [PBytes ''COUNT'', count'] else pieces) in
     let pieces = (if type' \<noteq> PNone then pieces @ [PBytes ''TYPE'', type'] else pieces) in
     Inr ([PStr ''SCAN''] @ pieces, kwargs))"

definition sscan_cmd :: "pyval \<Rightarrow> pyval \<Rightarrow> pyval \<Rightarrow> pyval \<Rightarrow> request res" where
  "sscan_cmd name cursor match count' =
     (let pieces = [name, cursor] in
     let pieces = (if match \<noteq> PNone then pieces @ [PBytes ''MATCH'', match] else pieces) in
     let pieces = (if count' \<noteq> PNone then pieces @ [PBytes ''COUNT'', count'] else pieces) in
     Inr ([PStr ''SSCAN''] @ pieces, []))"

definition hscan_cmd :: "pyval \<Rightarrow> pyval \<Rightarrow> pyval \<Rightarrow> pyval \<Rightarrow> pyval \<Rightarrow> request res" where
  "hscan_cmd name cursor match count' no_values =
     (let pieces = [name, cursor] in
     let pieces = (if match \<noteq> PNone then pieces @ [PBytes ''MATCH'', match] else pieces) in
     let pieces = (if count' \<noteq> PNone then pieces @ [PBytes ''COUNT'', count'] else pieces) in
     let pieces = (if no_values \<noteq> PNone then pieces @ [PBytes ''NOVALUES''] else pieces) in
     Inr ([PStr ''HSCAN''] @ pieces, [(''no_values'', no_values)]))"

definition zscan_cmd :: "pyval \<Rightarrow> pyval \<Rightarrow> pyval \<Rightarrow> pyval \<Rightarrow> pyval \<Rightarrow> request res" where
  "zscan_cmd name cursor match count' score_cast_func =
     (let pieces = [name, cursor] in
     let pieces = (if match \<noteq> PNone then pieces @ [PBytes ''MATCH'', match] else pieces) in
     let pieces = (if count' \<noteq> PNone then pieces @ [PBytes ''COUNT'', count'] else pieces) in
     let options = [(''score_cast_func'', score_cast_func)] in
     Inr ([PStr ''ZSCAN''] @ pieces, options))"

section \<open>SetCommands\<close>

definition sadd_cmd :: "pyval \<Rightarrow> pyval list \<Rightarrow> request res" where
  "sadd_cmd name values = Inr ([PStr ''SADD'', name] @ values, [])"

definition scard_cmd :: "pyval \<Rightarrow> request res" where
  "scard_cmd name = Inr ([PStr ''SCARD'', name], [(''keys'', PList [name])])"

definition sdiff_cmd :: "pyval \<Rightarrow> pyval list \<Rightarrow> request res" where
  "sdiff_cmd keys' args =
     (let args = list_or_args keys' args in
     Inr ([PStr ''SDIFF''] @ args, [(''keys'', PList args)]))"

definition sdiffstore_cmd :: "pyval \<Rightarrow> pyval \<Rightarrow> pyval list \<Rightarrow> request res" where
  "sdiffstore_cmd dest keys' args =
     (let args = list_or_args keys' args in
     Inr ([PStr ''SDIFFSTORE'', dest] @ args, []))"

definition sinter_cmd :: "pyval \<Rightarrow> pyval list \<Rightarrow> request res" where
  "sinter_cmd keys' args =
     (let args = list_or_args keys' args in
     Inr ([PStr ''SINTER''] @ args, [(''keys'', PList args)]))"

definition sintercard_cmd :: "pyval \<Rightarrow> pyval \<Rightarrow> pyval \<Rightarrow> request res" where
  "sintercard_cmd numkeys keys' limit =
     (res_bind (iterate keys') (\<lambda>xs1.
     let args = [numkeys] @ xs1 @ [PStr ''LIMIT'', limit] in
     Inr ([PStr ''SINTERCARD''] @ args, [(''keys'', keys')])))"

definition sinterstore_cmd :: "pyval \<Rightarrow> pyval \<Rightarrow> pyval list \<Rightarrow> request res" where
  "sinterstore_cmd dest keys' args =
     (let args = list_or_args keys' args in
     Inr ([PStr ''SINTERSTORE'', dest] @ args, []))"

definition sismember_cmd :: "pyval \<Rightarrow> pyval \<Rightarrow> request res" where
  "sismember_cmd name value' = Inr ([PStr ''SISMEMBER'', name, value'], [(''keys'', PList [name])])"

definition smembers_cmd :: "pyval \<Rightarrow> request res" where
  "smembers_cmd name = Inr ([PStr ''SMEMBERS'', name], [(''keys'', PList [name])])"

definition smismember_cmd :: "pyval \<Rightarrow> pyval \<Rightarrow> pyval list \<Rightarrow> request res" where
  "smismember_cmd name values args =
     (let args = list_or_args values args in
     Inr ([PStr ''SMISMEMBER'', name] @ args, [(''keys'', PList [name])]))"

definition smove_cmd :: "pyval \<Rightarrow> pyval \<Rightarrow> pyval \<Rightarrow> request res" where
  "smove_cmd src dst value' = Inr ([PStr ''SMOVE'', src, dst, value'], [])"

definition spop_cmd :: "pyval \<Rightarrow> pyval \<Rightarrow> request res" where
  "spop_cmd name count' =
     (let args = (if count' \<noteq> PNone then [count'] else []) in
     Inr ([PStr ''SPOP'', name] @ args, []))"

definition srandmember_cmd :: "pyval \<Rightarrow> pyval \<Rightarrow> request res" where
  "srandmember_cmd name number' =
     (let args = (if number' \<noteq> PNone then [number'] else []) in
     Inr ([PStr ''SRANDMEMBER'', name] @ args, []))"

definition srem_cmd :: "pyval \<Rightarrow> pyval list \<Rightarrow> request res" where
  "srem_cmd name values = Inr ([PStr ''SREM'', name] @ values, [])"

definition sunion_cmd :: "pyval \<Rightarrow> pyval list \<Rightarrow> request res" where
  "sunion_cmd keys' args =
     (let args = list_or_args keys' args in
     Inr ([PStr ''SUNION''] @ args, [(''keys'', PList args)]))"

definition sunionstore_cmd :: "pyval \<Rightarrow> pyval \<Rightarrow> pyval list \<Rightarrow> request res" where
  "sunionstore_cmd dest keys' args =
     (let args = list_or_args keys' args in
     Inr ([PStr ''SUNIONSTORE'', dest] @ args, []))"

section \<open>HashCommands\<close>

definition hdel_cmd :: "pyval \<Rightarrow> pyval list \<Rightarrow> request res" where
  "hdel_cmd name keys' = Inr ([PStr ''HDEL'', name] @ keys', [])"

definition hexists_cmd :: "pyval \<Rightarrow> pyval \<Rightarrow> request res" where
  "hexists_cmd name key = Inr ([PStr ''HEXISTS'', name, key], [(''keys'', PList [name])])"

definition hget_cmd :: "pyval \<Rightarrow> pyval \<Rightarrow> request res" where
  "hget_cmd name key = Inr ([PStr ''HGET'', name, key], [(''keys'', PList [name])])"

definition hgetall_cmd :: "pyval \<Rightarrow> request res" where
  "hgetall_cmd name = Inr ([PStr ''HGETALL'', name], [(''keys'', PList [name])])"

definition hgetdel_cmd :: "pyval \<Rightarrow> pyval list \<Rightarrow> request res" where
  "hgetdel_cmd name keys' =
     (if length keys' = 0 then
       Inl (Exc DataError ([CHR 0x27] @ ''hgetdel'' @ [CHR 0x27] @ '' should have at least one key provided''))
     else
     Inr ([PStr ''HGETDEL'', name, PStr ''FIELDS'', PInt (int (length keys'))] @ keys', []))"

definition hgetex_cmd :: "cmdlib \<Rightarrow> pyval \<Rightarrow> pyval list \<Rightarrow> pyval \<Rightarrow> pyval \<Rightarrow> pyval \<Rightarrow> pyval \<Rightarrow> pyval \<Rightarrow> request res" where
  "hgetex_cmd P name keys' ex px exat pxat persist =
     (if keys' = [] then
       Inl (Exc DataError ([CHR 0x27] @ ''hgetex'' @ [CHR 0x27] @ '' should have at least one key provided''))
     else
     res_bind (set_of [ex, px, exat, pxat]) (\<lambda>opset.
     if length opset > 2 \<or> (length opset > 1 \<and> truthy persist) then
       Inl (Exc DataError ''``ex``, ``px``, ``exat``, ``pxat``, and ``persist`` are mutually exclusive.'')
     else
     res_bind (extract_expire_flags P ex px exat pxat) (\<lambda>exp_options.
     let exp_options = (if truthy persist then exp_options @ [PStr ''PERSIST''] else exp_options) in
     Inr ([PStr ''HGETEX'', name] @ exp_options @ [PStr ''FIELDS'', PInt (int (length keys'))] @ keys', []))))"

definition hincrby_cmd :: "pyval \<Rightarrow> pyval \<Rightarrow> pyval \<Rightarrow> request res" where
  "hincrby_cmd name key amount = Inr ([PStr ''HINCRBY'', name, key, amount], [])"

definition hincrbyfloat_cmd :: "pyval \<Rightarrow> pyval \<Rightarrow> pyval \<Rightarrow> request res" where
  "hincrbyfloat_cmd name key amount = Inr ([PStr ''HINCRBYFLOAT'', name, key, amount], [])"

definition hkeys_cmd :: "pyval \<Rightarrow> request res" where
  "hkeys_cmd name = Inr ([PStr ''HKEYS'', name], [(''keys'', PList [name])])"

definition hlen_cmd :: "pyval \<Rightarrow> request res" where
  "hlen_cmd name = Inr ([PStr ''HLEN'', name], [(''keys'', PList [name])])"

definition hset_cmd :: "pyval \<Rightarrow> pyval \<Rightarrow> pyval \<Rightarrow> pyval \<Rightarrow> pyval \<Rightarrow> request res" where
  "hset_cmd name key value' mapping items' =
     (if key = PNone \<and> \<not> (truthy mapping) \<and> \<not> (truthy items') then
       Inl (Exc DataError ([CHR 0x27] @ ''hset'' @ [CHR 0x27] @ '' with no key value pairs''))
     else
     let pieces = [] in
     res_bind
      (if truthy items' then
       res_bind (iterate items') (\<lambda>xs1.
       let pieces = pieces @ xs1 in
       Inr pieces)
       else
       Inr pieces)
      (\<lambda>pieces.
     let pieces = (if key \<noteq> PNone then pieces @ [key, value'] else pieces) in
     res_bind
      (if truthy mapping then
       res_bind (items_of mapping) (\<lambda>kvs2.
       let pieces = foldl (\<lambda>pieces pair. pieces @ [fst pair, snd pair]) pieces kvs2 in
       Inr pieces)
       else
       Inr pieces)
      (\<lambda>pieces.
     Inr ([PStr ''HSET'', name] @ pieces, []))))"

definition hsetex_cmd :: "cmdlib \<Rightarrow> pyval \<Rightarrow> pyval \<Rightarrow> pyval \<Rightarrow> pyval \<Rightarrow> pyval \<Rightarrow> pyval \<Rightarrow> pyval \<Rightarrow> pyval \<Rightarrow> pyval \<Rightarrow> pyval \<Rightarrow> pyval \<Rightarrow> request res" where
  "hsetex_cmd P name key value' mapping items' ex px exat pxat data_persist_option keepttl =
     (if key = PNone \<and> \<not> (truthy mapping) \<and> \<not> (truthy items') then
       Inl (Exc DataError ([CHR 0x27] @ ''hsetex'' @ [CHR 0x27] @ '' with no key value pairs''))
     else
     res_bind (if truthy items' then (res_bind (py_len items') (\<lambda>n1. Inr (n1 mod 2 \<noteq> 0))) else Inr False) (\<lambda>c2.
     if c2 then
       Inl (Exc DataError ([CHR 0x27] @ ''hsetex'' @ [CHR 0x27] @ '' with odd number of items. '' @ [CHR 0x27] @ ''items'' @ [CHR 0x27] @ '' must contain a list of key/value pairs.''))
     else
     res_bind (set_of [ex, px, exat, pxat]) (\<lambda>opset.
     if length opset > 2 \<or> (length opset > 1 \<and> truthy keepttl) then
       Inl (Exc DataError ''``ex``, ``px``, ``exat``, ``pxat``, and ``keepttl`` are mutually exclusive.'')
     else
     res_bind (extract_expire_flags P ex px exat pxat) (\<lambda>exp_options.
     res_bind
      (if truthy data_persist_option then
       res_bind (enum_value data_persist_option) (\<lambda>o5.
       let exp_options = exp_options @ [o5] in
       Inr exp_options)
       else
       Inr exp_options)
      (\<lambda>exp_options.
     let exp_options = (if truthy keepttl then exp_options @ [PStr ''KEEPTTL''] else exp_options) in
     let pieces = [] in
     res_bind
      (if truthy items' then
       res_bind (iterate items') (\<lambda>xs6.
       let pieces = pieces @ xs6 in
       Inr pieces)
       else
       Inr pieces)
      (\<lambda>pieces.
     let pieces = (if key \<noteq> PNone then pieces @ [key, value'] else pieces) in
     res_bind
      (if truthy mapping then
       res_bind (items_of mapping) (\<lambda>kvs7.
       let pieces = foldl (\<lambda>pieces pair. pieces @ [fst pair, snd pair]) pieces kvs7 in
       Inr pieces)
       else
       Inr pieces)
      (\<lambda>pieces.
     Inr ([PStr ''HSETEX'', name] @ exp_options @ [PStr ''FIELDS'', PInt (int (length pieces div 2))] @ pieces, []))))))))"

definition hsetnx_cmd :: "pyval \<Rightarrow> pyval \<Rightarrow> pyval \<Rightarrow> request res" where
  "hsetnx_cmd name key value' = Inr ([PStr ''HSETNX'', name, key, value'], [])"

definition hmset_cmd :: "pyval \<Rightarrow> pyval \<Rightarrow> request res" where
  "hmset_cmd name mapping =
     (if \<not> (truthy mapping) then
       Inl (Exc DataError ([CHR 0x27] @ ''hmset'' @ [CHR 0x27] @ '' with '' @ [CHR 0x27] @ ''mapping'' @ [CHR 0x27] @ '' of length 0''))
     else
     let items' = [] in
     res_bind (items_of mapping) (\<lambda>kvs1.
     let items' = foldl (\<lambda>items' pair. items' @ [fst pair, snd pair]) items' kvs1 in
     Inr ([PStr ''HMSET'', name] @ items', [])))"

definition hmget_cmd :: "pyval \<Rightarrow> pyval \<Rightarrow> pyval list \<Rightarrow> request res" where
  "hmget_cmd name keys' args =
     (let args = list_or_args keys' args in
     Inr ([PStr ''HMGET'', name] @ args, [(''keys'', PList [name])]))"

definition hvals_cmd :: "pyval \<Rightarrow> request res" where
  "hvals_cmd name = Inr ([PStr ''HVALS'', name], [(''keys'', PList [name])])"

definition hstrlen_cmd :: "pyval \<Rightarrow> pyval \<Rightarrow> request res" where
  "hstrlen_cmd name key = Inr ([PStr ''HSTRLEN'', name, key], [(''keys'', PList [name])])"

definition hexpire_cmd :: "cmdlib \<Rightarrow> pyval \<Rightarrow> pyval \<Rightarrow> pyval list \<Rightarrow> pyval \<Rightarrow> pyval \<Rightarrow> pyval \<Rightarrow> pyval \<Rightarrow> request res" where
  "hexpire_cmd P name seconds fields' nx xx gt lt =
     (let conditions = [nx, xx, gt, lt] in
     res_bind (py_sum conditions) (\<lambda>n1.
     if n1 > 1 then
       Inl (Exc PyValueError (''Only one of '' @ [CHR 0x27] @ ''nx'' @ [CHR 0x27] @ '', '' @ [CHR 0x27] @ ''xx'' @ [CHR 0x27] @ '', '' @ [CHR 0x27] @ ''gt'' @ [CHR 0x27] @ '', '' @ [CHR 0x27] @ ''lt'' @ [CHR 0x27] @ '' can be specified.''))
     else
     let seconds = (if is_timedelta P seconds then PInt (seconds_of P seconds) else seconds) in
     let options = [] in
     let options = (if truthy nx then options @ [PStr ''NX''] else options) in
     let options = (if truthy xx then options @ [PStr ''XX''] else options) in
     let options = (if truthy gt then options @ [PStr ''GT''] else options) in
     let options = (if truthy lt then options @ [PStr ''LT''] else options) in
     Inr ([PStr ''HEXPIRE'', name, seconds] @ options @ [PStr ''FIELDS'', PInt (int (length fields'))] @ fields', [])))"

definition hpexpire_cmd :: "cmdlib \<Rightarrow> pyval \<Rightarrow> pyval \<Rightarrow> pyval list \<Rightarrow> pyval \<Rightarrow> pyval \<Rightarrow> pyval \<Rightarrow> pyval \<Rightarrow> request res" where
  "hpexpire_cmd P name milliseconds fields' nx xx gt lt =
     (let conditions = [nx, xx, gt, lt] in
     res_bind (py_sum conditions) (\<lambda>n1.
     if n1 > 1 then
       Inl (Exc PyValueError (''Only one of '' @ [CHR 0x27] @ ''nx'' @ [CHR 0x27] @ '', '' @ [CHR 0x27] @ ''xx'' @ [CHR 0x27] @ '', '' @ [CHR 0x27] @ ''gt'' @ [CHR 0x27] @ '', '' @ [CHR 0x27] @ ''lt'' @ [CHR 0x27] @ '' can be specified.''))
     else
     let milliseconds = (if is_timedelta P milliseconds then PInt (seconds_of_ms P milliseconds) else milliseconds) in
     let options = [] in
     let options = (if truthy nx then options @ [PStr ''NX''] else options) in
     let options = (if truthy xx then options @ [PStr ''XX''] else options) in
     let options = (if truthy gt then options @ [PStr ''GT''] else options) in
     let options = (if truthy lt then options @ [PStr ''LT''] else options) in
     Inr ([PStr ''HPEXPIRE'', name, milliseconds] @ options @ [PStr ''FIELDS'', PInt (int (length fields'))] @ fields', [])))"

definition hexpireat_cmd :: "cmdlib \<Rightarrow> pyval \<Rightarrow> pyval \<Rightarrow> pyval list \<Rightarrow> pyval \<Rightarrow> pyval \<Rightarrow> pyval \<Rightarrow> pyval \<Rightarrow> request res" where
  "hexpireat_cmd P name unix_time_seconds fields' nx xx gt lt =
     (let conditions = [nx, xx, gt, lt] in
     res_bind (py_sum conditions) (\<lambda>n1.
     if n1 > 1 then
       Inl (Exc PyValueError (''Only one of '' @ [CHR 0x27] @ ''nx'' @ [CHR 0x27] @ '', '' @ [CHR 0x27] @ ''xx'' @ [CHR 0x27] @ '', '' @ [CHR 0x27] @ ''gt'' @ [CHR 0x27] @ '', '' @ [CHR 0x27] @ ''lt'' @ [CHR 0x27] @ '' can be specified.''))
     else
     let unix_time_seconds = (if is_datetime P unix_time_seconds
        then PInt (timestamp_of P unix_time_seconds)
        else unix_time_seconds) in
     let options = [] in
     let options = (if truthy nx then options @ [PStr ''NX''] else options) in
     let options = (if truthy xx then options @ [PStr ''XX''] else options) in
     let options = (if truthy gt then options @ [PStr ''GT''] else options) in
     let options = (if truthy lt then options @ [PStr ''LT''] else options) in
     Inr ([PStr ''HEXPIREAT'', name, unix_time_seconds] @ options @ [PStr ''FIELDS'', PInt (int (length fields'))] @ fields', [])))"

definition hpexpireat_cmd :: "cmdlib \<Rightarrow> pyval \<Rightarrow> pyval \<Rightarrow> pyval list \<Rightarrow> pyval \<Rightarrow> pyval \<Rightarrow> pyval \<Rightarrow> pyval \<Rightarrow> request res" where
  "hpexpireat_cmd P name unix_time_milliseconds fields' nx xx gt lt =
     (let conditions = [nx, xx, gt, lt] in
     res_bind (py_sum conditions) (\<lambda>n1.
     if n1 > 1 then
       Inl (Exc PyValueError (''Only one of '' @ [CHR 0x27] @ ''nx'' @ [CHR 0x27] @ '', '' @ [CHR 0x27] @ ''xx'' @ [CHR 0x27] @ '', '' @ [CHR 0x27] @ ''gt'' @ [CHR 0x27] @ '', '' @ [CHR 0x27] @ ''lt'' @ [CHR 0x27] @ '' can be specified.''))
     else
     let unix_time_milliseconds = (if is_datetime P unix_time_milliseconds
        then PInt (timestamp_of_ms P unix_time_milliseconds)
        else unix_time_milliseconds) in
     let options = [] in
     let options = (if truthy nx then options @ [PStr ''NX''] else options) in
     let options = (if truthy xx then options @ [PStr ''XX''] else options) in
     let options = (if truthy gt then options @ [PStr ''GT''] else options) in
     let options = (if truthy lt then options @ [PStr ''LT''] else options) in
     Inr ([PStr ''HPEXPIREAT'', name, unix_time_milliseconds] @ options @ [PStr ''FIELDS'', PInt (int (length fields'))] @ fields', [])))"

definition hpersist_cmd :: "pyval \<Rightarrow> pyval list \<Rightarrow> request res" where
  "hpersist_cmd name fields' =
     Inr ([PStr ''HPERSIST'', name, PStr ''FIELDS'', PInt (int (length fields'))] @ fields', [])"

definition hexpiretime_cmd :: "pyval \<Rightarrow> pyval list \<Rightarrow> request res" where
  "hexpiretime_cmd key fields' =
     Inr ([PStr ''HEXPIRETIME'', key, PStr ''FIELDS'', PInt (int (length fields'))] @ fields', [(''keys'', PList [key])])"

definition hpexpiretime_cmd :: "pyval \<Rightarrow> pyval list \<Rightarrow> request res" where
  "hpexpiretime_cmd key fields' =
     Inr ([PStr ''HPEXPIRETIME'', key, PStr ''FIELDS'', PInt (int (length fields'))] @ fields', [(''keys'', PList [key])])"

definition httl_cmd :: "pyval \<Rightarrow> pyval list \<Rightarrow> request res" where
  "httl_cmd key fields' =
     Inr ([PStr ''HTTL'', key, PStr ''FIELDS'', PInt (int (length fields'))] @ fields', [(''keys'', PList [key])])"

definition hpttl_cmd :: "pyval \<Rightarrow> pyval list \<Rightarrow> request res" where
  "hpttl_cmd key fields' =
     Inr ([PStr ''HPTTL'', key, PStr ''FIELDS'', PInt (int (length fields'))] @ fields', [(''keys'', PList [key])])"

end
