(* ===== verification/Cmd_Sorted.thy ===== *)
theory Cmd_Sorted
  imports Cmd_Base
begin

text \<open>
  Streams and sorted sets. Each definition is the method of \<open>redis/commands/core.py\<close> of the same name (\<open>_cmd\<close> appended,
  \<open>_impl_cmd\<close> for a private one): see \<open>Cmd_Base\<close>.
\<close>

section \<open>StreamCommands\<close>

definition xack_cmd :: "pyval \<Rightarrow> pyval \<Rightarrow> pyval list \<Rightarrow> request res" where
  "xack_cmd name groupname ids = Inr ([PStr ''XACK'', name, groupname] @ ids, [])"

definition xadd_cmd :: "cmdlib \<Rightarrow> pyval \<Rightarrow> pyval \<Rightarrow> pyval \<Rightarrow> pyval \<Rightarrow> pyval \<Rightarrow> pyval \<Rightarrow> pyval \<Rightarrow> pyval \<Rightarrow> request res" where
  "xadd_cmd P name fields' id' maxlen approximate nomkstream minid limit =
     (let pieces = [] in
     if maxlen \<noteq> PNone \<and> minid \<noteq> PNone then
       Inl (Exc DataError ''Only one of ```maxlen``` or ```minid``` may be specified'')
     else
     res_bind
      (if maxlen \<noteq> PNone then
       res_bind (if \<not> (is_int maxlen) then Inr True else (py_less P maxlen (PInt 0))) (\<lambda>c2.
       if c2 then
         Inl (Exc DataError ''XADD maxlen must be non-negative integer'')
       else
       let pieces = pieces @ [PBytes ''MAXLEN''] in
       let pieces = (if truthy approximate then pieces @ [PBytes ''~''] else pieces) in
       let pieces = pieces @ [PStr (py_str P maxlen)] in
       Inr pieces)
       else
       Inr pieces)
      (\<lambda>pieces.
     let pieces = (if minid \<noteq> PNone
        then (let pieces = pieces @ [PBytes ''MINID''] in let pieces = (if truthy approximate then pieces @ [PBytes ''~''] else pieces) in let pieces = pieces @ [minid] in pieces)
        else pieces) in
     let pieces = (if limit \<noteq> PNone then pieces @ [PBytes ''LIMIT'', limit] else pieces) in
     let pieces = (if truthy nomkstream then pieces @ [PBytes ''NOMKSTREAM''] else pieces) in
     let pieces = pieces @ [id'] in
     res_bind (if \<not> (is_dict fields') then Inr True else (res_bind (py_len fields') (\<lambda>n3. Inr (n3 = 0)))) (\<lambda>c4.
     if c4 then
       Inl (Exc DataError ''XADD fields must be a non-empty dict'')
     else
     res_bind (items_of fields') (\<lambda>kvs5.
     let pieces = foldl (\<lambda>pieces pair. pieces @ [fst pair, snd pair]) pieces kvs5 in
     Inr ([PStr ''XADD'', name] @ pieces, [])))))"

definition xautoclaim_cmd :: "cmdlib \<Rightarrow> pyval \<Rightarrow> pyval \<Rightarrow> pyval \<Rightarrow> pyval \<Rightarrow> pyval \<Rightarrow> pyval \<Rightarrow> pyval \<Rightarrow> request res" where
  "xautoclaim_cmd P name groupname consumername min_idle_time start_id count' justid =
     (res_bind
      (res_except PyTypeError (
       res_bind (to_int (py P) min_idle_time) (\<lambda>n1.
       if n1 < 0 then
         Inl (Exc DataError ''XAUTOCLAIM min_idle_time must be a nonnegative integer'')
       else
       Inr ())) (
       Inr ()))
      (\<lambda>_.
     let kwargs = [] in
     let pieces = [name, groupname, consumername, min_idle_time, start_id] in
     res_bind
      (res_except PyTypeError (
       res_bind (to_int (py P) count') (\<lambda>n2.
       if n2 < 0 then
         Inl (Exc DataError ''XPENDING count must be a integer >= 0'')
       else
       let pieces = pieces @ [PBytes ''COUNT'', count'] in
       Inr pieces)) (
       Inr pieces))
      (\<lambda>pieces.
     let (pieces, kwargs) = (if truthy justid
        then (let pieces = pieces @ [PBytes ''JUSTID''] in let kwargs = opt_set kwargs ''parse_justid'' (PBool True) in (pieces, kwargs))
        else (pieces, kwargs)) in
     Inr ([PStr ''XAUTOCLAIM''] @ pieces, kwargs))))"

definition xclaim_cmd :: "cmdlib \<Rightarrow> pyval \<Rightarrow> pyval \<Rightarrow> pyval \<Rightarrow> pyval \<Rightarrow> pyval \<Rightarrow> pyval \<Rightarrow> pyval \<Rightarrow> pyval \<Rightarrow> pyval \<Rightarrow> pyval \<Rightarrow> request res" where
  "xclaim_cmd P name groupname consumername min_idle_time message_ids idle time' retrycount force justid =
     (res_bind (if \<not> (is_int min_idle_time) then Inr True else (py_less P min_idle_time (PInt 0))) (\<lambda>c2.
     if c2 then
       Inl (Exc DataError ''XCLAIM min_idle_time must be a non negative integer'')
     else
     if (\<not> (is_list message_ids \<or> is_tuple message_ids)) \<or> \<not> (truthy message_ids) then
       Inl (Exc DataError ''XCLAIM message_ids must be a non empty list or tuple of message IDs to claim'')
     else
     let kwargs = [] in
     let pieces = [name, groupname, consumername, PStr (py_str P min_idle_time)] in
     res_bind (iterate message_ids) (\<lambda>xs3.
     let pieces = pieces @ xs3 in
     res_bind
      (if idle \<noteq> PNone then
       if \<not> (is_int idle) then
         Inl (Exc DataError ''XCLAIM idle must be an integer'')
       else
       let pieces = pieces @ [PBytes ''IDLE'', PStr (py_str P idle)] in
       Inr pieces
       else
       Inr pieces)
      (\<lambda>pieces.
     res_bind
      (if time' \<noteq> PNone then
       if \<not> (is_int time') then
         Inl (Exc DataError ''XCLAIM time must be an integer'')
       else
       let pieces = pieces @ [PBytes ''TIME'', PStr (py_str P time')] in
       Inr pieces
       else
       Inr pieces)
      (\<lambda>pieces.
     res_bind
      (if retrycount \<noteq> PNone then
       if \<not> (is_int retrycount) then
         Inl (Exc DataError ''XCLAIM retrycount must be an integer'')
       else
       let pieces = pieces @ [PBytes ''RETRYCOUNT'', PStr (py_str P retrycount)] in
       Inr pieces
       else
       Inr pieces)
      (\<lambda>pieces.
     res_bind
      (if truthy force then
       if \<not> (is_bool force) then
         Inl (Exc DataError ''XCLAIM force must be a boolean'')
       else
       let pieces = pieces @ [PBytes ''FORCE''] in
       Inr pieces
       else
       Inr pieces)
      (\<lambda>pieces.
     res_bind
      (if truthy justid then
       if \<not> (is_bool justid) then
         Inl (Exc DataError ''XCLAIM justid must be a boolean'')
       else
       let pieces = pieces @ [PBytes ''JUSTID''] in
       let kwargs = opt_set kwargs ''parse_justid'' (PBool True) in
       Inr (pieces, kwargs)
       else
       Inr (pieces, kwargs))
      (\<lambda>(pieces, kwargs).
     Inr ([PStr ''XCLAIM''] @ pieces, kwargs)))))))))"

definition xdel_cmd :: "pyval \<Rightarrow> pyval list \<Rightarrow> request res" where
  "xdel_cmd name ids = Inr ([PStr ''XDEL'', name] @ ids, [])"

definition xgroup_create_cmd :: "pyval \<Rightarrow> pyval \<Rightarrow> pyval \<Rightarrow> pyval \<Rightarrow> pyval \<Rightarrow> request res" where
  "xgroup_create_cmd name groupname id' mkstream entries_read =
     (let pieces = [PStr ''XGROUP CREATE'', name, groupname, id'] in
     let pieces = (if truthy mkstream then pieces @ [PBytes ''MKSTREAM''] else pieces) in
     let pieces = (if entries_read \<noteq> PNone then pieces @ [PStr ''ENTRIESREAD'', entries_read] else pieces) in
     Inr (pieces, []))"

definition xgroup_delconsumer_cmd :: "pyval \<Rightarrow> pyval \<Rightarrow> pyval \<Rightarrow> request res" where
  "xgroup_delconsumer_cmd name groupname consumername =
     Inr ([PStr ''XGROUP DELCONSUMER'', name, groupname, consumername], [])"

definition xgroup_destroy_cmd :: "pyval \<Rightarrow> pyval \<Rightarrow> request res" where
  "xgroup_destroy_cmd name groupname = Inr ([PStr ''XGROUP DESTROY'', name, groupname], [])"

definition xgroup_createconsumer_cmd :: "pyval \<Rightarrow> pyval \<Rightarrow> pyval \<Rightarrow> request res" where
  "xgroup_createconsumer_cmd name groupname consumername =
     Inr ([PStr ''XGROUP CREATECONSUMER'', name, groupname, consumername], [])"

definition xgroup_setid_cmd :: "pyval \<Rightarrow> pyval \<Rightarrow> pyval \<Rightarrow> pyval \<Rightarrow> request res" where
  "xgroup_setid_cmd name groupname id' entries_read =
     (let pieces = [name, groupname, id'] in
     let pieces = (if entries_read \<noteq> PNone then pieces @ [PStr ''ENTRIESREAD'', entries_read] else pieces) in
     Inr ([PStr ''XGROUP SETID''] @ pieces, []))"

definition xinfo_consumers_cmd :: "pyval \<Rightarrow> pyval \<Rightarrow> request res" where
  "xinfo_consumers_cmd name groupname = Inr ([PStr ''XINFO CONSUMERS'', name, groupname], [])"

definition xinfo_groups_cmd :: "pyval \<Rightarrow> request res" where
  "xinfo_groups_cmd name = Inr ([PStr ''XINFO GROUPS'', name], [])"

definition xinfo_stream_cmd :: "pyval \<Rightarrow> pyval \<Rightarrow> request res" where
  "xinfo_stream_cmd name full =
     (let pieces = [name] in
     let options = [] in
     let (pieces, options) = (if truthy full
        then (let pieces = pieces @ [PBytes ''FULL''] in let options = [(''full'', full)] in (pieces, options))
        else (pieces, options)) in
     Inr ([PStr ''XINFO STREAM''] @ pieces, options))"

definition xlen_cmd :: "pyval \<Rightarrow> request res" where
  "xlen_cmd name = Inr ([PStr ''XLEN'', name], [(''keys'', PList [name])])"

definition xpending_cmd :: "pyval \<Rightarrow> pyval \<Rightarrow> request res" where
  "xpending_cmd name groupname = Inr ([PStr ''XPENDING'', name, groupname], [(''keys'', PList [name])])"

definition xrange_cmd :: "cmdlib \<Rightarrow> pyval \<Rightarrow> pyval \<Rightarrow> pyval \<Rightarrow> pyval \<Rightarrow> request res" where
  "xrange_cmd P name min' max' count' =
     (let pieces = [min', max'] in
     res_bind
      (if count' \<noteq> PNone then
       res_bind (if \<not> (is_int count') then Inr True else (py_less P count' (PInt 1))) (\<lambda>c2.
       if c2 then
         Inl (Exc DataError ''XRANGE count must be a positive integer'')
       else
       let pieces = pieces @ [PBytes ''COUNT''] in
       let pieces = pieces @ [PStr (py_str P count')] in
       Inr pieces)
       else
       Inr pieces)
      (\<lambda>pieces.
     Inr ([PStr ''XRANGE'', name] @ pieces, [(''keys'', PList [name])])))"

definition xread_cmd :: "cmdlib \<Rightarrow> pyval \<Rightarrow> pyval \<Rightarrow> pyval \<Rightarrow> request res" where
  "xread_cmd P streams count' block =
     (let pieces = [] in
     res_bind
      (if block \<noteq> PNone then
       res_bind (if \<not> (is_int block) then Inr True else (py_less P block (PInt 0))) (\<lambda>c2.
       if c2 then
         Inl (Exc DataError ''XREAD block must be a non-negative integer'')
       else
       let pieces = pieces @ [PBytes ''BLOCK''] in
       let pieces = pieces @ [PStr (py_str P block)] in
       Inr pieces)
       else
       Inr pieces)
      (\<lambda>pieces.
     res_bind
      (if count' \<noteq> PNone then
       res_bind (if \<not> (is_int count') then Inr True else (py_less P count' (PInt 1))) (\<lambda>c4.
       if c4 then
         Inl (Exc DataError ''XREAD count must be a positive integer'')
       else
       let pieces = pieces @ [PBytes ''COUNT''] in
       let pieces = pieces @ [PStr (py_str P count')] in
       Inr pieces)
       else
       Inr pieces)
      (\<lambda>pieces.
     res_bind (if \<not> (is_dict streams) then Inr True else (res_bind (py_len streams) (\<lambda>n5. Inr (n5 = 0)))) (\<lambda>c6.
     if c6 then
       Inl (Exc DataError ''XREAD streams must be a non empty dict'')
     else
     let pieces = pieces @ [PBytes ''STREAMS''] in
     res_bind (items_of streams) (\<lambda>kvs7.
     let (keys', values) = (map fst kvs7, map snd kvs7) in
     let pieces = pieces @ keys' in
     let pieces = pieces @ values in
     Inr ([PStr ''XREAD''] @ pieces, [(''keys'', PTuple keys')]))))))"

definition xreadgroup_cmd :: "cmdlib \<Rightarrow> pyval \<Rightarrow> pyval \<Rightarrow> pyval \<Rightarrow> pyval \<Rightarrow> pyval \<Rightarrow> pyval \<Rightarrow> request res" where
  "xreadgroup_cmd P groupname consumername streams count' block noack =
     (let pieces = [PBytes ''GROUP'', groupname, consumername] in
     res_bind
      (if count' \<noteq> PNone then
       res_bind (if \<not> (is_int count') then Inr True else (py_less P count' (PInt 1))) (\<lambda>c2.
       if c2 then
         Inl (Exc DataError ''XREADGROUP count must be a positive integer'')
       else
       let pieces = pieces @ [PBytes ''COUNT''] in
       let pieces = pieces @ [PStr (py_str P count')] in
       Inr pieces)
       else
       Inr pieces)
      (\<lambda>pieces.
     res_bind
      (if block \<noteq> PNone then
       res_bind (if \<not> (is_int block) then Inr True else (py_less P block (PInt 0))) (\<lambda>c4.
       if c4 then
         Inl (Exc DataError ''XREADGROUP block must be a non-negative integer'')
       else
       let pieces = pieces @ [PBytes ''BLOCK''] in
       let pieces = pieces @ [PStr (py_str P block)] in
       Inr pieces)
       else
       Inr pieces)
      (\<lambda>pieces.
     let pieces = (if truthy noack then pieces @ [PBytes ''NOACK''] else pieces) in
     res_bind (if \<not> (is_dict streams) then Inr True else (res_bind (py_len streams) (\<lambda>n5. Inr (n5 = 0)))) (\<lambda>c6.
     if c6 then
       Inl (Exc DataError ''XREADGROUP streams must be a non empty dict'')
     else
     let pieces = pieces @ [PBytes ''STREAMS''] in
     res_bind (items_of streams) (\<lambda>kvs7.
     let pieces = pieces @ map fst kvs7 in
     res_bind (items_of streams) (\<lambda>kvs8.
     let pieces = pieces @ map snd kvs8 in
     Inr ([PStr ''XREADGROUP''] @ pieces, [])))))))"

definition xrevrange_cmd :: "cmdlib \<Rightarrow> pyval \<Rightarrow> pyval \<Rightarrow> pyval \<Rightarrow> pyval \<Rightarrow> request res" where
  "xrevrange_cmd P name max' min' count' =
     (let pieces = [max', min'] in
     res_bind
      (if count' \<noteq> PNone then
       res_bind (if \<not> (is_int count') then Inr True else (py_less P count' (PInt 1))) (\<lambda>c2.
       if c2 then
         Inl (Exc DataError ''XREVRANGE count must be a positive integer'')
       else
       let pieces = pieces @ [PBytes ''COUNT''] in
       let pieces = pieces @ [PStr (py_str P count')] in
       Inr pieces)
       else
       Inr pieces)
      (\<lambda>pieces.
     Inr ([PStr ''XREVRANGE'', name] @ pieces, [(''keys'', PList [name])])))"

definition xtrim_cmd :: "pyval \<Rightarrow> pyval \<Rightarrow> pyval \<Rightarrow> pyval \<Rightarrow> pyval \<Rightarrow> request res" where
  "xtrim_cmd name maxlen approximate minid limit =
     (let pieces = [] in
     if maxlen \<noteq> PNone \<and> minid \<noteq> PNone then
       Inl (Exc DataError ''Only one of ``maxlen`` or ``minid`` may be specified'')
     else
     if maxlen = PNone \<and> minid = PNone then
       Inl (Exc DataError ''One of ``maxlen`` or ``minid`` must be specified'')
     else
     let pieces = (if maxlen \<noteq> PNone then pieces @ [PBytes ''MAXLEN''] else pieces) in
     let pieces = (if minid \<noteq> PNone then pieces @ [PBytes ''MINID''] else pieces) in
     let pieces = (if truthy approximate then pieces @ [PBytes ''~''] else pieces) in
     let pieces = (if maxlen \<noteq> PNone then pieces @ [maxlen] else pieces) in
     let pieces = (if minid \<noteq> PNone then pieces @ [minid] else pieces) in
     let pieces = (if limit \<noteq> PNone
        then (let pieces = pieces @ [PBytes ''LIMIT''] in let pieces = pieces @ [limit] in pieces)
        else pieces) in
     Inr ([PStr ''XTRIM'', name] @ pieces, []))"

definition xpending_range_cmd :: "cmdlib \<Rightarrow> pyval \<Rightarrow> pyval \<Rightarrow> pyval \<Rightarrow> pyval \<Rightarrow> pyval \<Rightarrow> pyval \<Rightarrow> pyval \<Rightarrow> request res" where
  "xpending_range_cmd P name groupname min' max' count' consumername idle =
     (res_bind (set_of [min', max', count']) (\<lambda>s1.
     res_bind (set_of [PNone]) (\<lambda>s2.
     if s1 = s2 then
       if idle \<noteq> PNone \<or> consumername \<noteq> PNone then
         Inl (Exc DataError ''if XPENDING is provided with idle time or consumername, it must be provided with min, max and count parameters'')
       else
       xpending_cmd name groupname
     else
     let pieces = [name, groupname] in
     if min' = PNone \<or> max' = PNone \<or> count' = PNone then
       Inl (Exc DataError ''XPENDING must be provided with min, max and count parameters, or none of them.'')
     else
     res_bind
      (res_except PyTypeError (
       res_bind (to_int (py P) idle) (\<lambda>n3.
       if n3 < 0 then
         Inl (Exc DataError ''XPENDING idle must be a integer >= 0'')
       else
       let pieces = pieces @ [PStr ''IDLE'', idle] in
       Inr pieces)) (
       Inr pieces))
      (\<lambda>pieces.
     res_bind
      (res_except PyTypeError (
       res_bind (to_int (py P) count') (\<lambda>n4.
       if n4 < 0 then
         Inl (Exc DataError ''XPENDING count must be a integer >= 0'')
       else
       let pieces = pieces @ [min', max', count'] in
       Inr pieces)) (
       Inr pieces))
      (\<lambda>pieces.
     let pieces = (if truthy consumername then pieces @ [consumername] else pieces) in
     Inr ([PStr ''XPENDING''] @ pieces, [(''parse_detail'', PBool True)]))))))"

section \<open>SortedSetCommands\<close>

definition zadd_cmd :: "pyval \<Rightarrow> pyval \<Rightarrow> pyval \<Rightarrow> pyval \<Rightarrow> pyval \<Rightarrow> pyval \<Rightarrow> pyval \<Rightarrow> pyval \<Rightarrow> request res" where
  "zadd_cmd name mapping nx xx ch incr gt lt =
     (if \<not> (truthy mapping) then
       Inl (Exc DataError ''ZADD requires at least one element/score pair'')
     else
     if truthy nx \<and> truthy xx then
       Inl (Exc DataError (''ZADD allows either '' @ [CHR 0x27] @ ''nx'' @ [CHR 0x27] @ '' or '' @ [CHR 0x27] @ ''xx'' @ [CHR 0x27] @ '', not both''))
     else
     if truthy gt \<and> truthy lt then
       Inl (Exc DataError (''ZADD allows either '' @ [CHR 0x27] @ ''gt'' @ [CHR 0x27] @ '' or '' @ [CHR 0x27] @ ''lt'' @ [CHR 0x27] @ '', not both''))
     else
     res_bind (if truthy incr then (res_bind (py_len mapping) (\<lambda>n1. Inr (n1 \<noteq> 1))) else Inr False) (\<lambda>c2.
     if c2 then
       Inl (Exc DataError (''ZADD option '' @ [CHR 0x27] @ ''incr'' @ [CHR 0x27] @ '' only works when passing a single element/score pair''))
     else
     if truthy nx \<and> (truthy gt \<or> truthy lt) then
       Inl (Exc DataError (''Only one of '' @ [CHR 0x27] @ ''nx'' @ [CHR 0x27] @ '', '' @ [CHR 0x27] @ ''lt'' @ [CHR 0x27] @ '', or '' @ [CHR 0x27] @ ''gr'' @ [CHR 0x27] @ '' may be defined.''))
     else
     let pieces = [] in
     let options = [] in
     let pieces = (if truthy nx then pieces @ [PBytes ''NX''] else pieces) in
     let pieces = (if truthy xx then pieces @ [PBytes ''XX''] else pieces) in
     let pieces = (if truthy ch then pieces @ [PBytes ''CH''] else pieces) in
     let (pieces, options) = (if truthy incr
        then (let pieces = pieces @ [PBytes ''INCR''] in let options = opt_set options ''as_score'' (PBool True) in (pieces, options))
        else (pieces, options)) in
     let pieces = (if truthy gt then pieces @ [PBytes ''GT''] else pieces) in
     let pieces = (if truthy lt then pieces @ [PBytes ''LT''] else pieces) in
     res_bind (items_of mapping) (\<lambda>kvs3.
     let pieces = foldl (\<lambda>pieces pair. (let pieces = pieces @ [snd pair] in let pieces = pieces @ [fst pair] in pieces)) pieces kvs3 in
     Inr ([PStr ''ZADD'', name] @ pieces, options))))"

definition zcard_cmd :: "pyval \<Rightarrow> request res" where
  "zcard_cmd name = Inr ([PStr ''ZCARD'', name], [(''keys'', PList [name])])"

definition zcount_cmd :: "pyval \<Rightarrow> pyval \<Rightarrow> pyval \<Rightarrow> request res" where
  "zcount_cmd name min' max' = Inr ([PStr ''ZCOUNT'', name, min', max'], [(''keys'', PList [name])])"

definition zdiff_cmd :: "pyval \<Rightarrow> pyval \<Rightarrow> request res" where
  "zdiff_cmd keys' withscores =
     (res_bind (py_len keys') (\<lambda>n1.
     res_bind (iterate keys') (\<lambda>xs2.
     let pieces = [PInt (int n1)] @ xs2 in
     let pieces = (if truthy withscores then pieces @ [PStr ''WITHSCORES''] else pieces) in
     Inr ([PStr ''ZDIFF''] @ pieces, [(''keys'', keys')]))))"

definition zdiffstore_cmd :: "pyval \<Rightarrow> pyval \<Rightarrow> request res" where
  "zdiffstore_cmd dest keys' =
     (res_bind (py_len keys') (\<lambda>n1.
     res_bind (iterate keys') (\<lambda>xs2.
     let pieces = [PInt (int n1)] @ xs2 in
     Inr ([PStr ''ZDIFFSTORE'', dest] @ pieces, []))))"

definition zincrby_cmd :: "pyval \<Rightarrow> pyval \<Rightarrow> pyval \<Rightarrow> request res" where
  "zincrby_cmd name amount value' = Inr ([PStr ''ZINCRBY'', name, amount, value'], [])"

definition zintercard_cmd :: "pyval \<Rightarrow> pyval \<Rightarrow> pyval \<Rightarrow> request res" where
  "zintercard_cmd numkeys keys' limit =
     (res_bind (iterate keys') (\<lambda>xs1.
     let args = [numkeys] @ xs1 @ [PStr ''LIMIT'', limit] in
     Inr ([PStr ''ZINTERCARD''] @ args, [(''keys'', keys')])))"

definition zlexcount_cmd :: "pyval \<Rightarrow> pyval \<Rightarrow> pyval \<Rightarrow> request res" where
  "zlexcount_cmd name min' max' =
     Inr ([PStr ''ZLEXCOUNT'', name, min', max'], [(''keys'', PList [name])])"

definition zpopmax_cmd :: "pyval \<Rightarrow> pyval \<Rightarrow> request res" where
  "zpopmax_cmd name count' =
     (let args = (if count' \<noteq> PNone then [count'] else []) in
     let options = [(''withscores'', PBool True)] in
     Inr ([PStr ''ZPOPMAX'', name] @ args, options))"

definition zpopmin_cmd :: "pyval \<Rightarrow> pyval \<Rightarrow> request res" where
  "zpopmin_cmd name count' =
     (let args = (if count' \<noteq> PNone then [count'] else []) in
     let options = [(''withscores'', PBool True)] in
     Inr ([PStr ''ZPOPMIN'', name] @ args, options))"

definition zrandmember_cmd :: "pyval \<Rightarrow> pyval \<Rightarrow> pyval \<Rightarrow> request res" where
  "zrandmember_cmd key count' withscores =
     (let params = [] in
     let params = (if count' \<noteq> PNone then params @ [count'] else params) in
     let params = (if truthy withscores then params @ [PStr ''WITHSCORES''] else params) in
     Inr ([PStr ''ZRANDMEMBER'', key] @ params, []))"

definition bzpopmax_cmd :: "pyval \<Rightarrow> pyval \<Rightarrow> request res" where
  "bzpopmax_cmd keys' timeout =
     (let timeout = (if timeout = PNone then PInt 0 else timeout) in
     let keys' = list_or_args keys' [] in
     let keys' = keys' @ [timeout] in
     Inr ([PStr ''BZPOPMAX''] @ keys', []))"

definition bzpopmin_cmd :: "pyval \<Rightarrow> pyval \<Rightarrow> request res" where
  "bzpopmin_cmd keys' timeout =
     (let timeout = (if timeout = PNone then PInt 0 else timeout) in
     let keys' = list_or_args keys' [] in
     let keys' = keys' @ [timeout] in
     Inr ([PStr ''BZPOPMIN''] @ keys', []))"

definition zmpop_cmd :: "cmdlib \<Rightarrow> pyval \<Rightarrow> pyval \<Rightarrow> pyval \<Rightarrow> pyval \<Rightarrow> pyval \<Rightarrow> request res" where
  "zmpop_cmd P num_keys keys' min' max' count' =
     (res_bind (list_items keys') (\<lambda>xs1.
     let args = ([num_keys] @ xs1) in
     res_bind
      (if (truthy min' \<and> truthy max') \<or> (\<not> (truthy min') \<and> \<not> (truthy max')) then
       Inl (Exc DataError [])
       else
       let args = (if truthy min' then args @ [PStr ''MIN''] else args @ [PStr ''MAX'']) in
       Inr args)
      (\<lambda>args.
     let args = (if \<not> py_eq P count' (PInt 1) then args @ [PStr ''COUNT'', count'] else args) in
     Inr ([PStr ''ZMPOP''] @ args, []))))"

definition bzmpop_cmd :: "pyval \<Rightarrow> pyval \<Rightarrow> pyval \<Rightarrow> pyval \<Rightarrow> pyval \<Rightarrow> pyval \<Rightarrow> request res" where
  "bzmpop_cmd timeout numkeys keys' min' max' count' =
     (res_bind (iterate keys') (\<lambda>xs1.
     let args = [timeout, numkeys] @ xs1 in
     res_bind
      (if (truthy min' \<and> truthy max') \<or> (\<not> (truthy min') \<and> \<not> (truthy max')) then
       Inl (Exc DataError ''Either min or max, but not both must be set'')
       else
       let args = (if truthy min' then args @ [PStr ''MIN''] else args @ [PStr ''MAX'']) in
       Inr args)
      (\<lambda>args.
     let args = args @ [PStr ''COUNT'', count'] in
     Inr ([PStr ''BZMPOP''] @ args, []))))"

definition zrange_impl_cmd :: "pyval \<Rightarrow> pyval \<Rightarrow> pyval \<Rightarrow> pyval \<Rightarrow> pyval \<Rightarrow> pyval \<Rightarrow> pyval \<Rightarrow> pyval \<Rightarrow> pyval \<Rightarrow> pyval \<Rightarrow> pyval \<Rightarrow> pyval \<Rightarrow> request res" where
  "zrange_impl_cmd command' dest name start end' desc byscore bylex withscores score_cast_func offset num =
     (if truthy byscore \<and> truthy bylex then
       Inl (Exc DataError ''``byscore`` and ``bylex`` can not be specified together.'')
     else
     if (offset \<noteq> PNone \<and> num = PNone) \<or> (num \<noteq> PNone \<and> offset = PNone) then
       Inl (Exc DataError ''``offset`` and ``num`` must both be specified.'')
     else
     if truthy bylex \<and> truthy withscores then
       Inl (Exc DataError ''``withscores`` not supported in combination with ``bylex``.'')
     else
     let pieces = [command'] in
     let pieces = (if truthy dest then pieces @ [dest] else pieces) in
     let pieces = pieces @ [name, start, end'] in
     let pieces = (if truthy byscore then pieces @ [PStr ''BYSCORE''] else pieces) in
     let pieces = (if truthy bylex then pieces @ [PStr ''BYLEX''] else pieces) in
     let pieces = (if truthy desc then pieces @ [PStr ''REV''] else pieces) in
     let pieces = (if offset \<noteq> PNone \<and> num \<noteq> PNone
        then pieces @ [PStr ''LIMIT'', offset, num]
        else pieces) in
     let pieces = (if truthy withscores then pieces @ [PStr ''WITHSCORES''] else pieces) in
     let options = [(''withscores'', withscores), (''score_cast_func'', score_cast_func)] in
     let options = opt_set options ''keys'' (PList [name]) in
     Inr (pieces, options))"

definition zrevrange_cmd :: "pyval \<Rightarrow> pyval \<Rightarrow> pyval \<Rightarrow> pyval \<Rightarrow> pyval \<Rightarrow> request res" where
  "zrevrange_cmd name start end' withscores score_cast_func =
     (let pieces = [PStr ''ZREVRANGE'', name, start, end'] in
     let pieces = (if truthy withscores then pieces @ [PBytes ''WITHSCORES''] else pieces) in
     let options = [(''withscores'', withscores), (''score_cast_func'', score_cast_func)] in
     let options = opt_set options ''keys'' name in
     Inr (pieces, options))"

definition zrangebylex_cmd :: "pyval \<Rightarrow> pyval \<Rightarrow> pyval \<Rightarrow> pyval \<Rightarrow> pyval \<Rightarrow> request res" where
  "zrangebylex_cmd name min' max' start num =
     (if (start \<noteq> PNone \<and> num = PNone) \<or> (num \<noteq> PNone \<and> start = PNone) then
       Inl (Exc DataError ''``start`` and ``num`` must both be specified'')
     else
     let pieces = [PStr ''ZRANGEBYLEX'', name, min', max'] in
     let pieces = (if start \<noteq> PNone \<and> num \<noteq> PNone
        then pieces @ [PBytes ''LIMIT'', start, num]
        else pieces) in
     Inr (pieces, [(''keys'', PList [name])]))"

definition zrevrangebylex_cmd :: "pyval \<Rightarrow> pyval \<Rightarrow> pyval \<Rightarrow> pyval \<Rightarrow> pyval \<Rightarrow> request res" where
  "zrevrangebylex_cmd name max' min' start num =
     (if (start \<noteq> PNone \<and> num = PNone) \<or> (num \<noteq> PNone \<and> start = PNone) then
       Inl (Exc DataError ''``start`` and ``num`` must both be specified'')
     else
     let pieces = [PStr ''ZREVRANGEBYLEX'', name, max', min'] in
     let pieces = (if start \<noteq> PNone \<and> num \<noteq> PNone
        then pieces @ [PStr ''LIMIT'', start, num]
        else pieces) in
     Inr (pieces, [(''keys'', PList [name])]))"

definition zrangebyscore_cmd :: "pyval \<Rightarrow> pyval \<Rightarrow> pyval \<Rightarrow> pyval \<Rightarrow> pyval \<Rightarrow> pyval \<Rightarrow> pyval \<Rightarrow> request res" where
  "zrangebyscore_cmd name min' max' start num withscores score_cast_func =
     (if (start \<noteq> PNone \<and> num = PNone) \<or> (num \<noteq> PNone \<and> start = PNone) then
       Inl (Exc DataError ''``start`` and ``num`` must both be specified'')
     else
     let pieces = [PStr ''ZRANGEBYSCORE'', name, min', max'] in
     let pieces = (if start \<noteq> PNone \<and> num \<noteq> PNone
        then pieces @ [PStr ''LIMIT'', start, num]
        else pieces) in
     let pieces = (if truthy withscores then pieces @ [PStr ''WITHSCORES''] else pieces) in
     let options = [(''withscores'', withscores), (''score_cast_func'', score_cast_func)] in
     let options = opt_set options ''keys'' (PList [name]) in
     Inr (pieces, options))"

definition zrevrangebyscore_cmd :: "pyval \<Rightarrow> pyval \<Rightarrow> pyval \<Rightarrow> pyval \<Rightarrow> pyval \<Rightarrow> pyval \<Rightarrow> pyval \<Rightarrow> request res" where
  "zrevrangebyscore_cmd name max' min' start num withscores score_cast_func =
     (if (start \<noteq> PNone \<and> num = PNone) \<or> (num \<noteq> PNone \<and> start = PNone) then
       Inl (Exc DataError ''``start`` and ``num`` must both be specified'')
     else
     let pieces = [PStr ''ZREVRANGEBYSCORE'', name, max', min'] in
     let pieces = (if start \<noteq> PNone \<and> num \<noteq> PNone
        then pieces @ [PStr ''LIMIT'', start, num]
        else pieces) in
     let pieces = (if truthy withscores then pieces @ [PStr ''WITHSCORES''] else pieces) in
     let options = [(''withscores'', withscores), (''score_cast_func'', score_cast_func)] in
     let options = opt_set options ''keys'' (PList [name]) in
     Inr (pieces, options))"

definition zrank_cmd :: "pyval \<Rightarrow> pyval \<Rightarrow> pyval \<Rightarrow> request res" where
  "zrank_cmd name value' withscore =
     (if truthy withscore then
       Inr ([PStr ''ZRANK'', name, value', PStr ''WITHSCORE''], [(''keys'', PList [name])])
     else
     Inr ([PStr ''ZRANK'', name, value'], [(''keys'', PList [name])]))"

definition zrem_cmd :: "pyval \<Rightarrow> pyval list \<Rightarrow> request res" where
  "zrem_cmd name values = Inr ([PStr ''ZREM'', name] @ values, [])"

definition zremrangebylex_cmd :: "pyval \<Rightarrow> pyval \<Rightarrow> pyval \<Rightarrow> request res" where
  "zremrangebylex_cmd name min' max' = Inr ([PStr ''ZREMRANGEBYLEX'', name, min', max'], [])"

definition zremrangebyrank_cmd :: "pyval \<Rightarrow> pyval \<Rightarrow> pyval \<Rightarrow> request res" where
  "zremrangebyrank_cmd name min' max' = Inr ([PStr ''ZREMRANGEBYRANK'', name, min', max'], [])"

definition zremrangebyscore_cmd :: "pyval \<Rightarrow> pyval \<Rightarrow> pyval \<Rightarrow> request res" where
  "zremrangebyscore_cmd name min' max' = Inr ([PStr ''ZREMRANGEBYSCORE'', name, min', max'], [])"

definition zrevrank_cmd :: "pyval \<Rightarrow> pyval \<Rightarrow> pyval \<Rightarrow> request res" where
  "zrevrank_cmd name value' withscore =
     (if truthy withscore then
       Inr ([PStr ''ZREVRANK'', name, value', PStr ''WITHSCORE''], [(''keys'', PList [name])])
     else
     Inr ([PStr ''ZREVRANK'', name, value'], [(''keys'', PList [name])]))"

definition zscore_cmd :: "pyval \<Rightarrow> pyval \<Rightarrow> request res" where
  "zscore_cmd name value' = Inr ([PStr ''ZSCORE'', name, value'], [(''keys'', PList [name])])"

definition zmscore_cmd :: "pyval \<Rightarrow> pyval \<Rightarrow> request res" where
  "zmscore_cmd key members =
     (if \<not> (truthy members) then
       Inl (Exc DataError ''ZMSCORE members must be a non-empty list'')
     else
     res_bind (list_items members) (\<lambda>xs1.
     let pieces = ([key] @ xs1) in
     Inr ([PStr ''ZMSCORE''] @ pieces, [(''keys'', PList [key])])))"

definition zaggregate_impl_cmd :: "pyval \<Rightarrow> pyval \<Rightarrow> pyval \<Rightarrow> pyval \<Rightarrow> options \<Rightarrow> request res" where
  "zaggregate_impl_cmd command' dest keys' aggregate options =
     (let pieces = [command'] in
     let pieces = (if dest \<noteq> PNone then pieces @ [dest] else pieces) in
     res_bind (py_len keys') (\<lambda>n1.
     let pieces = pieces @ [PInt (int n1)] in
     res_bind
      (if is_dict keys' then
       res_bind (items_of keys') (\<lambda>kvs4.
       res_bind (items_of keys') (\<lambda>kvs5.
       let (keys', weights) = (PList (map fst kvs4), PList (map snd kvs5)) in
       Inr (keys', weights)))
       else
       let weights = PNone in
       Inr (keys', weights))
      (\<lambda>(keys', weights).
     res_bind (iterate keys') (\<lambda>xs6.
     let pieces = pieces @ xs6 in
     res_bind
      (if truthy weights then
       let pieces = pieces @ [PBytes ''WEIGHTS''] in
       res_bind (iterate weights) (\<lambda>xs7.
       let pieces = pieces @ xs7 in
       Inr pieces)
       else
       Inr pieces)
      (\<lambda>pieces.
     res_bind
      (if truthy aggregate then
       res_bind (py_upper aggregate) (\<lambda>u8.
       if u8 \<in> set [PStr ''SUM'', PStr ''MIN'', PStr ''MAX''] then
         let pieces = pieces @ [PBytes ''AGGREGATE''] in
         let pieces = pieces @ [aggregate] in
         Inr pieces
       else
         Inl (Exc DataError ''aggregate can be sum, min or max.''))
       else
       Inr pieces)
      (\<lambda>pieces.
     let pieces = (if truthy (opt_get_or options ''withscores'' (PBool False))
        then pieces @ [PBytes ''WITHSCORES'']
        else pieces) in
     let options = opt_set options ''keys'' keys' in
     Inr (pieces, options)))))))"

definition zinter_cmd :: "pyval \<Rightarrow> pyval \<Rightarrow> pyval \<Rightarrow> request res" where
  "zinter_cmd keys' aggregate withscores =
     zaggregate_impl_cmd (PStr ''ZINTER'') PNone keys' aggregate [(''withscores'', withscores)]"

definition zinterstore_cmd :: "pyval \<Rightarrow> pyval \<Rightarrow> pyval \<Rightarrow> request res" where
  "zinterstore_cmd dest keys' aggregate =
     zaggregate_impl_cmd (PStr ''ZINTERSTORE'') dest keys' aggregate []"

definition zrange_cmd :: "pyval \<Rightarrow> pyval \<Rightarrow> pyval \<Rightarrow> pyval \<Rightarrow> pyval \<Rightarrow> pyval \<Rightarrow> pyval \<Rightarrow> pyval \<Rightarrow> pyval \<Rightarrow> pyval \<Rightarrow> request res" where
  "zrange_cmd name start end' desc withscores score_cast_func byscore bylex offset num =
     (if \<not> (truthy byscore) \<and> \<not> (truthy bylex) \<and> (offset = PNone \<and> num = PNone) \<and> truthy desc then
       zrevrange_cmd name start end' withscores score_cast_func
     else
     zrange_impl_cmd (PStr ''ZRANGE'') PNone name start end' desc byscore bylex withscores score_cast_func offset num)"

definition zrangestore_cmd :: "pyval \<Rightarrow> pyval \<Rightarrow> pyval \<Rightarrow> pyval \<Rightarrow> pyval \<Rightarrow> pyval \<Rightarrow> pyval \<Rightarrow> pyval \<Rightarrow> pyval \<Rightarrow> request res" where
  "zrangestore_cmd dest name start end' byscore bylex desc offset num =
     zrange_impl_cmd (PStr ''ZRANGESTORE'') dest name start end' desc byscore bylex (PBool False) PNone offset num"

definition zunion_cmd :: "pyval \<Rightarrow> pyval \<Rightarrow> pyval \<Rightarrow> request res" where
  "zunion_cmd keys' aggregate withscores =
     zaggregate_impl_cmd (PStr ''ZUNION'') PNone keys' aggregate [(''withscores'', withscores)]"

definition zunionstore_cmd :: "pyval \<Rightarrow> pyval \<Rightarrow> pyval \<Rightarrow> request res" where
  "zunionstore_cmd dest keys' aggregate =
     zaggregate_impl_cmd (PStr ''ZUNIONSTORE'') dest keys' aggregate []"

end
