(* ===== verification/Cmd_Extra.thy ===== *)
theory Cmd_Extra
  imports Cmd_Base
begin

text \<open>
  HyperLogLog, publishing, scripts, geographic indexes, modules, cluster administration and functions. Each definition is the method of \<open>redis/commands/core.py\<close> of the same name (\<open>_cmd\<close> appended,
  \<open>_impl_cmd\<close> for a private one): see \<open>Cmd_Base\<close>.
\<close>

section \<open>HyperlogCommands\<close>

definition pfadd_cmd :: "pyval \<Rightarrow> pyval list \<Rightarrow> request res" where
  "pfadd_cmd name values = Inr ([PStr ''PFADD'', name] @ values, [])"

definition pfcount_cmd :: "pyval list \<Rightarrow> request res" where
  "pfcount_cmd sources = Inr ([PStr ''PFCOUNT''] @ sources, [])"

definition pfmerge_cmd :: "pyval \<Rightarrow> pyval list \<Rightarrow> request res" where
  "pfmerge_cmd dest sources = Inr ([PStr ''PFMERGE'', dest] @ sources, [])"

section \<open>PubSubCommands\<close>

definition publish_cmd :: "pyval \<Rightarrow> pyval \<Rightarrow> options \<Rightarrow> request res" where
  "publish_cmd channel message kwargs = Inr ([PStr ''PUBLISH'', channel, message], kwargs)"

definition spublish_cmd :: "pyval \<Rightarrow> pyval \<Rightarrow> request res" where
  "spublish_cmd shard_channel message = Inr ([PStr ''SPUBLISH'', shard_channel, message], [])"

definition pubsub_channels_cmd :: "pyval \<Rightarrow> options \<Rightarrow> request res" where
  "pubsub_channels_cmd pattern kwargs = Inr ([PStr ''PUBSUB CHANNELS'', pattern], kwargs)"

definition pubsub_shardchannels_cmd :: "pyval \<Rightarrow> options \<Rightarrow> request res" where
  "pubsub_shardchannels_cmd pattern kwargs = Inr ([PStr ''PUBSUB SHARDCHANNELS'', pattern], kwargs)"

definition pubsub_numpat_cmd :: "options \<Rightarrow> request res" where
  "pubsub_numpat_cmd kwargs = Inr ([PStr ''PUBSUB NUMPAT''], kwargs)"

definition pubsub_numsub_cmd :: "pyval list \<Rightarrow> options \<Rightarrow> request res" where
  "pubsub_numsub_cmd args kwargs = Inr ([PStr ''PUBSUB NUMSUB''] @ args, kwargs)"

definition pubsub_shardnumsub_cmd :: "pyval list \<Rightarrow> options \<Rightarrow> request res" where
  "pubsub_shardnumsub_cmd args kwargs = Inr ([PStr ''PUBSUB SHARDNUMSUB''] @ args, kwargs)"

section \<open>ScriptCommands\<close>

definition eval_impl_cmd :: "pyval \<Rightarrow> pyval \<Rightarrow> pyval \<Rightarrow> pyval list \<Rightarrow> request res" where
  "eval_impl_cmd command' script' numkeys keys_and_args =
     Inr ([command', script', numkeys] @ keys_and_args, [])"

definition evalsha_impl_cmd :: "pyval \<Rightarrow> pyval \<Rightarrow> pyval \<Rightarrow> pyval list \<Rightarrow> request res" where
  "evalsha_impl_cmd command' sha numkeys keys_and_args =
     Inr ([command', sha, numkeys] @ keys_and_args, [])"

definition script_exists_cmd :: "pyval list \<Rightarrow> request res" where
  "script_exists_cmd args = Inr ([PStr ''SCRIPT EXISTS''] @ args, [])"

definition script_debug_cmd :: "pyval list \<Rightarrow> request res" where
  "script_debug_cmd args =
     Inl (Exc PyNotImplementedError ''SCRIPT DEBUG is intentionally not implemented in the client.'')"

definition script_flush_cmd :: "pyval \<Rightarrow> request res" where
  "script_flush_cmd sync_type =
     (if sync_type \<notin> set [PStr ''SYNC'', PStr ''ASYNC'', PNone] then
       Inl (Exc DataError ''SCRIPT FLUSH defaults to SYNC in redis > 6.2, or accepts SYNC/ASYNC. For older versions, of redis leave as None.'')
     else
     let pieces = (if sync_type = PNone then [] else [sync_type]) in
     Inr ([PStr ''SCRIPT FLUSH''] @ pieces, []))"

definition script_kill_cmd :: "request res" where
  "script_kill_cmd = Inr ([PStr ''SCRIPT KILL''], [])"

definition script_load_cmd :: "pyval \<Rightarrow> request res" where
  "script_load_cmd script' = Inr ([PStr ''SCRIPT LOAD'', script'], [])"

definition eval_cmd :: "pyval \<Rightarrow> pyval \<Rightarrow> pyval list \<Rightarrow> request res" where
  "eval_cmd script' numkeys keys_and_args = eval_impl_cmd (PStr ''EVAL'') script' numkeys keys_and_args"

definition eval_ro_cmd :: "pyval \<Rightarrow> pyval \<Rightarrow> pyval list \<Rightarrow> request res" where
  "eval_ro_cmd script' numkeys keys_and_args =
     eval_impl_cmd (PStr ''EVAL_RO'') script' numkeys keys_and_args"

definition evalsha_cmd :: "pyval \<Rightarrow> pyval \<Rightarrow> pyval list \<Rightarrow> request res" where
  "evalsha_cmd sha numkeys keys_and_args = evalsha_impl_cmd (PStr ''EVALSHA'') sha numkeys keys_and_args"

definition evalsha_ro_cmd :: "pyval \<Rightarrow> pyval \<Rightarrow> pyval list \<Rightarrow> request res" where
  "evalsha_ro_cmd sha numkeys keys_and_args =
     evalsha_impl_cmd (PStr ''EVALSHA_RO'') sha numkeys keys_and_args"

section \<open>GeoCommands\<close>

definition geoadd_cmd :: "pyval \<Rightarrow> pyval \<Rightarrow> pyval \<Rightarrow> pyval \<Rightarrow> pyval \<Rightarrow> request res" where
  "geoadd_cmd name values nx xx ch =
     (if truthy nx \<and> truthy xx then
       Inl (Exc DataError (''GEOADD allows either '' @ [CHR 0x27] @ ''nx'' @ [CHR 0x27] @ '' or '' @ [CHR 0x27] @ ''xx'' @ [CHR 0x27] @ '', not both''))
     else
     res_bind (py_len values) (\<lambda>n1.
     if n1 mod 3 \<noteq> 0 then
       Inl (Exc DataError ''GEOADD requires places with lon, lat and name values'')
     else
     let pieces = [name] in
     let pieces = (if truthy nx then pieces @ [PStr ''NX''] else pieces) in
     let pieces = (if truthy xx then pieces @ [PStr ''XX''] else pieces) in
     let pieces = (if truthy ch then pieces @ [PStr ''CH''] else pieces) in
     res_bind (iterate values) (\<lambda>xs2.
     let pieces = pieces @ xs2 in
     Inr ([PStr ''GEOADD''] @ pieces, []))))"

definition geodist_cmd :: "pyval \<Rightarrow> pyval \<Rightarrow> pyval \<Rightarrow> pyval \<Rightarrow> request res" where
  "geodist_cmd name place1 place2 unit' =
     (let pieces = [name, place1, place2] in
     res_bind
      (if truthy unit' \<and> unit' \<notin> set [PStr ''m'', PStr ''km'', PStr ''mi'', PStr ''ft''] then
       Inl (Exc DataError ''GEODIST invalid unit'')
       else
       let pieces = (if truthy unit' then pieces @ [unit'] else pieces) in
       Inr pieces)
      (\<lambda>pieces.
     Inr ([PStr ''GEODIST''] @ pieces, [(''keys'', PList [name])])))"

definition geohash_cmd :: "pyval \<Rightarrow> pyval list \<Rightarrow> request res" where
  "geohash_cmd name values = Inr ([PStr ''GEOHASH'', name] @ values, [(''keys'', PList [name])])"

definition geopos_cmd :: "pyval \<Rightarrow> pyval list \<Rightarrow> request res" where
  "geopos_cmd name values = Inr ([PStr ''GEOPOS'', name] @ values, [(''keys'', PList [name])])"

definition georadiusgeneric_impl_cmd :: "pyval \<Rightarrow> pyval list \<Rightarrow> options \<Rightarrow> request res" where
  "georadiusgeneric_impl_cmd command' args kwargs =
     (let pieces = args in
     res_bind (opt_item kwargs ''unit'') (\<lambda>x1.
     res_bind (if truthy x1 then (res_bind (opt_item kwargs ''unit'') (\<lambda>x2. Inr (x2 \<notin> set [PStr ''m'', PStr ''km'', PStr ''mi'', PStr ''ft'']))) else Inr False) (\<lambda>c3.
     res_bind
      (if c3 then
       Inl (Exc DataError ''GEORADIUS invalid unit'')
       else
       res_bind (opt_item kwargs ''unit'') (\<lambda>x4.
       if truthy x4 then
         res_bind (opt_item kwargs ''unit'') (\<lambda>x5.
         let pieces = pieces @ [x5] in
         Inr pieces)
       else
         let pieces = pieces @ [PStr ''m''] in
         Inr pieces))
      (\<lambda>pieces.
     res_bind (opt_item kwargs ''any'') (\<lambda>x6.
     res_bind (if truthy x6 then (res_bind (opt_item kwargs ''count'') (\<lambda>x7. Inr (x7 = PNone))) else Inr False) (\<lambda>c8.
     if c8 then
       Inl (Exc DataError (''``any`` can'' @ [CHR 0x27] @ ''t be provided without ``count``''))
     else
     res_bind (opt_item kwargs ''withdist'') (\<lambda>x9.
     let pieces = (if truthy x9 then pieces @ [PStr ''WITHDIST''] else pieces) in
     res_bind (opt_item kwargs ''withcoord'') (\<lambda>x10.
     let pieces = (if truthy x10 then pieces @ [PStr ''WITHCOORD''] else pieces) in
     res_bind (opt_item kwargs ''withhash'') (\<lambda>x11.
     let pieces = (if truthy x11 then pieces @ [PStr ''WITHHASH''] else pieces) in
     res_bind (opt_item kwargs ''count'') (\<lambda>x12.
     res_bind
      (if x12 \<noteq> PNone then
       res_bind (opt_item kwargs ''count'') (\<lambda>x13.
       let pieces = pieces @ [PStr ''COUNT'', x13] in
       res_bind (opt_item kwargs ''any'') (\<lambda>x14.
       let pieces = (if truthy x14 then pieces @ [PStr ''ANY''] else pieces) in
       Inr pieces))
       else
       Inr pieces)
      (\<lambda>pieces.
     res_bind (opt_item kwargs ''sort'') (\<lambda>x15.
     res_bind
      (if truthy x15 then
       res_bind (opt_item kwargs ''sort'') (\<lambda>x16.
       if x16 = PStr ''ASC'' then
         let pieces = pieces @ [PStr ''ASC''] in
         Inr pieces
       else
         res_bind (opt_item kwargs ''sort'') (\<lambda>x17.
         if x17 = PStr ''DESC'' then
           let pieces = pieces @ [PStr ''DESC''] in
           Inr pieces
         else
           Inl (Exc DataError ''GEORADIUS invalid sort'')))
       else
       Inr pieces)
      (\<lambda>pieces.
     res_bind (opt_item kwargs ''store'') (\<lambda>x18.
     res_bind (if truthy x18 then (res_bind (opt_item kwargs ''store_dist'') (\<lambda>x19. Inr (truthy x19))) else Inr False) (\<lambda>c20.
     if c20 then
       Inl (Exc DataError ''GEORADIUS store and store_dist cant be set together'')
     else
     res_bind (opt_item kwargs ''store'') (\<lambda>x21.
     res_bind
      (if truthy x21 then
       res_bind (opt_item kwargs ''store'') (\<lambda>x22.
       let pieces = pieces @ [PBytes ''STORE'', x22] in
       Inr pieces)
       else
       Inr pieces)
      (\<lambda>pieces.
     res_bind (opt_item kwargs ''store_dist'') (\<lambda>x23.
     res_bind
      (if truthy x23 then
       res_bind (opt_item kwargs ''store_dist'') (\<lambda>x24.
       let pieces = pieces @ [PBytes ''STOREDIST'', x24] in
       Inr pieces)
       else
       Inr pieces)
      (\<lambda>pieces.
     Inr ([command'] @ pieces, kwargs))))))))))))))))))))"

definition geosearchgeneric_impl_cmd :: "pyval \<Rightarrow> pyval list \<Rightarrow> options \<Rightarrow> request res" where
  "geosearchgeneric_impl_cmd command' args kwargs =
     (let pieces = args in
     res_bind (opt_item kwargs ''member'') (\<lambda>x1.
     res_bind
      (if x1 = PNone then
       res_bind (opt_item kwargs ''longitude'') (\<lambda>x2.
       res_bind (if x2 = PNone then Inr True else (res_bind (opt_item kwargs ''latitude'') (\<lambda>x3. Inr (x3 = PNone)))) (\<lambda>c4.
       if c4 then
         Inl (Exc DataError ''GEOSEARCH must have member or longitude and latitude'')
       else
       Inr ()))
       else
       Inr ())
      (\<lambda>_.
     res_bind (opt_item kwargs ''member'') (\<lambda>x5.
     res_bind
      (if truthy x5 then
       res_bind (opt_item kwargs ''longitude'') (\<lambda>x6.
       res_bind (if truthy x6 then Inr True else (res_bind (opt_item kwargs ''latitude'') (\<lambda>x7. Inr (truthy x7)))) (\<lambda>c8.
       if c8 then
         Inl (Exc DataError ''GEOSEARCH member and longitude or latitude cant be set together'')
       else
       res_bind (opt_item kwargs ''member'') (\<lambda>x9.
       let pieces = pieces @ [PBytes ''FROMMEMBER'', x9] in
       Inr pieces)))
       else
       Inr pieces)
      (\<lambda>pieces.
     res_bind (opt_item kwargs ''longitude'') (\<lambda>x10.
     res_bind (if x10 \<noteq> PNone then (res_bind (opt_item kwargs ''latitude'') (\<lambda>x11. Inr (x11 \<noteq> PNone))) else Inr False) (\<lambda>c12.
     res_bind
      (if c12 then
       res_bind (opt_item kwargs ''longitude'') (\<lambda>x13.
       res_bind (opt_item kwargs ''latitude'') (\<lambda>x14.
       let pieces = pieces @ [PBytes ''FROMLONLAT'', x13, x14] in
       Inr pieces))
       else
       Inr pieces)
      (\<lambda>pieces.
     res_bind (opt_item kwargs ''radius'') (\<lambda>x15.
     res_bind
      (if x15 = PNone then
       res_bind (opt_item kwargs ''width'') (\<lambda>x16.
       res_bind (if x16 = PNone then Inr True else (res_bind (opt_item kwargs ''height'') (\<lambda>x17. Inr (x17 = PNone)))) (\<lambda>c18.
       if c18 then
         Inl (Exc DataError ''GEOSEARCH must have radius or width and height'')
       else
       Inr ()))
       else
       Inr ())
      (\<lambda>_.
     res_bind (opt_item kwargs ''unit'') (\<lambda>x19.
     if x19 = PNone then
       Inl (Exc DataError ''GEOSEARCH must have unit'')
     else
     res_bind (opt_item kwargs ''unit'') (\<lambda>x20.
     res_bind (py_lower x20) (\<lambda>u21.
     if u21 \<notin> set [PStr ''m'', PStr ''km'', PStr ''mi'', PStr ''ft''] then
       Inl (Exc DataError ''GEOSEARCH invalid unit'')
     else
     res_bind (opt_item kwargs ''radius'') (\<lambda>x22.
     res_bind
      (if truthy x22 then
       res_bind (opt_item kwargs ''width'') (\<lambda>x23.
       res_bind (if truthy x23 then Inr True else (res_bind (opt_item kwargs ''height'') (\<lambda>x24. Inr (truthy x24)))) (\<lambda>c25.
       if c25 then
         Inl (Exc DataError ''GEOSEARCH radius and width or height cant be set together'')
       else
       res_bind (opt_item kwargs ''radius'') (\<lambda>x26.
       res_bind (opt_item kwargs ''unit'') (\<lambda>x27.
       let pieces = pieces @ [PBytes ''BYRADIUS'', x26, x27] in
       Inr pieces))))
       else
       Inr pieces)
      (\<lambda>pieces.
     res_bind (opt_item kwargs ''width'') (\<lambda>x28.
     res_bind (if truthy x28 then (res_bind (opt_item kwargs ''height'') (\<lambda>x29. Inr (truthy x29))) else Inr False) (\<lambda>c30.
     res_bind
      (if c30 then
       res_bind (opt_item kwargs ''width'') (\<lambda>x31.
       res_bind (opt_item kwargs ''height'') (\<lambda>x32.
       res_bind (opt_item kwargs ''unit'') (\<lambda>x33.
       let pieces = pieces @ [PBytes ''BYBOX'', x31, x32, x33] in
       Inr pieces)))
       else
       Inr pieces)
      (\<lambda>pieces.
     res_bind (opt_item kwargs ''sort'') (\<lambda>x34.
     res_bind
      (if truthy x34 then
       res_bind (opt_item kwargs ''sort'') (\<lambda>x35.
       res_bind (py_upper x35) (\<lambda>u36.
       if u36 = PStr ''ASC'' then
         let pieces = pieces @ [PBytes ''ASC''] in
         Inr pieces
       else
         res_bind (opt_item kwargs ''sort'') (\<lambda>x37.
         res_bind (py_upper x37) (\<lambda>u38.
         if u38 = PStr ''DESC'' then
           let pieces = pieces @ [PBytes ''DESC''] in
           Inr pieces
         else
           Inl (Exc DataError ''GEOSEARCH invalid sort'')))))
       else
       Inr pieces)
      (\<lambda>pieces.
     res_bind (opt_item kwargs ''count'') (\<lambda>x39.
     res_bind
      (if truthy x39 then
       res_bind (opt_item kwargs ''count'') (\<lambda>x40.
       let pieces = pieces @ [PBytes ''COUNT'', x40] in
       res_bind (opt_item kwargs ''any'') (\<lambda>x41.
       let pieces = (if truthy x41 then pieces @ [PBytes ''ANY''] else pieces) in
       Inr pieces))
       else
       res_bind (opt_item kwargs ''any'') (\<lambda>x42.
       if truthy x42 then
         Inl (Exc DataError (''GEOSEARCH ``any`` can'' @ [CHR 0x27] @ ''t be provided without count''))
       else
       Inr pieces))
      (\<lambda>pieces.
     res_bind (opt_item kwargs ''withdist'') (\<lambda>x43.
     let pieces = (if truthy x43 then pieces @ [PBytes ''WITHDIST''] else pieces) in
     res_bind (opt_item kwargs ''withcoord'') (\<lambda>x44.
     let pieces = (if truthy x44 then pieces @ [PBytes ''WITHCOORD''] else pieces) in
     res_bind (opt_item kwargs ''withhash'') (\<lambda>x45.
     let pieces = (if truthy x45 then pieces @ [PBytes ''WITHHASH''] else pieces) in
     res_bind (opt_item kwargs ''store_dist'') (\<lambda>x46.
     let pieces = (if truthy x46 then pieces @ [PBytes ''STOREDIST''] else pieces) in
     res_bind (if command' = PStr ''GEOSEARCH'' then (nth_item args 0) else (nth_item args 1)) (\<lambda>v49.
     let kwargs = opt_set kwargs ''keys'' (PList [v49]) in
     Inr ([command'] @ pieces, kwargs))))))))))))))))))))))))))))"

definition georadius_cmd :: "pyval \<Rightarrow> pyval \<Rightarrow> pyval \<Rightarrow> pyval \<Rightarrow> pyval \<Rightarrow> pyval \<Rightarrow> pyval \<Rightarrow> pyval \<Rightarrow> pyval \<Rightarrow> pyval \<Rightarrow> pyval \<Rightarrow> pyval \<Rightarrow> pyval \<Rightarrow> request res" where
  "georadius_cmd name longitude latitude radius unit' withdist withcoord withhash count' sort' store' store_dist any' =
     georadiusgeneric_impl_cmd (PStr ''GEORADIUS'') [name, longitude, latitude, radius] [(''unit'', unit'), (''withdist'', withdist), (''withcoord'', withcoord), (''withhash'', withhash), (''count'', count'), (''sort'', sort'), (''store'', store'), (''store_dist'', store_dist), (''any'', any')]"

definition georadiusbymember_cmd :: "pyval \<Rightarrow> pyval \<Rightarrow> pyval \<Rightarrow> pyval \<Rightarrow> pyval \<Rightarrow> pyval \<Rightarrow> pyval \<Rightarrow> pyval \<Rightarrow> pyval \<Rightarrow> pyval \<Rightarrow> pyval \<Rightarrow> pyval \<Rightarrow> request res" where
  "georadiusbymember_cmd name member radius unit' withdist withcoord withhash count' sort' store' store_dist any' =
     georadiusgeneric_impl_cmd (PStr ''GEORADIUSBYMEMBER'') [name, member, radius] [(''unit'', unit'), (''withdist'', withdist), (''withcoord'', withcoord), (''withhash'', withhash), (''count'', count'), (''sort'', sort'), (''store'', store'), (''store_dist'', store_dist), (''any'', any')]"

definition geosearch_cmd :: "pyval \<Rightarrow> pyval \<Rightarrow> pyval \<Rightarrow> pyval \<Rightarrow> pyval \<Rightarrow> pyval \<Rightarrow> pyval \<Rightarrow> pyval \<Rightarrow> pyval \<Rightarrow> pyval \<Rightarrow> pyval \<Rightarrow> pyval \<Rightarrow> pyval \<Rightarrow> pyval \<Rightarrow> request res" where
  "geosearch_cmd name member longitude latitude unit' radius width' height sort' count' any' withcoord withdist withhash =
     geosearchgeneric_impl_cmd (PStr ''GEOSEARCH'') [name] [(''member'', member), (''longitude'', longitude), (''latitude'', latitude), (''unit'', unit'), (''radius'', radius), (''width'', width'), (''height'', height), (''sort'', sort'), (''count'', count'), (''any'', any'), (''withcoord'', withcoord), (''withdist'', withdist), (''withhash'', withhash), (''store'', PNone), (''store_dist'', PNone)]"

definition geosearchstore_cmd :: "pyval \<Rightarrow> pyval \<Rightarrow> pyval \<Rightarrow> pyval \<Rightarrow> pyval \<Rightarrow> pyval \<Rightarrow> pyval \<Rightarrow> pyval \<Rightarrow> pyval \<Rightarrow> pyval \<Rightarrow> pyval \<Rightarrow> pyval \<Rightarrow> pyval \<Rightarrow> request res" where
  "geosearchstore_cmd dest name member longitude latitude unit' radius width' height sort' count' any' storedist =
     geosearchgeneric_impl_cmd (PStr ''GEOSEARCHSTORE'') [dest, name] [(''member'', member), (''longitude'', longitude), (''latitude'', latitude), (''unit'', unit'), (''radius'', radius), (''width'', width'), (''height'', height), (''sort'', sort'), (''count'', count'), (''any'', any'), (''withcoord'', PNone), (''withdist'', PNone), (''withhash'', PNone), (''store'', PNone), (''store_dist'', storedist)]"

section \<open>ModuleCommands\<close>

definition module_load_cmd :: "pyval \<Rightarrow> pyval list \<Rightarrow> request res" where
  "module_load_cmd path args = Inr ([PStr ''MODULE LOAD'', path] @ args, [])"

definition module_loadex_cmd :: "pyval \<Rightarrow> pyval \<Rightarrow> pyval \<Rightarrow> request res" where
  "module_loadex_cmd path options args =
     (let pieces = [] in
     res_bind
      (if options \<noteq> PNone then
       let pieces = pieces @ [PStr ''CONFIG''] in
       res_bind (iterate options) (\<lambda>xs1.
       let pieces = pieces @ xs1 in
       Inr pieces)
       else
       Inr pieces)
      (\<lambda>pieces.
     res_bind
      (if args \<noteq> PNone then
       let pieces = pieces @ [PStr ''ARGS''] in
       res_bind (iterate args) (\<lambda>xs2.
       let pieces = pieces @ xs2 in
       Inr pieces)
       else
       Inr pieces)
      (\<lambda>pieces.
     Inr ([PStr ''MODULE LOADEX'', path] @ pieces, []))))"

definition module_unload_cmd :: "pyval \<Rightarrow> request res" where
  "module_unload_cmd name = Inr ([PStr ''MODULE UNLOAD'', name], [])"

definition module_list_cmd :: "request res" where
  "module_list_cmd = Inr ([PStr ''MODULE LIST''], [])"

definition module_command_info_cmd :: "request res" where
  "module_command_info_cmd =
     Inl (Exc PyNotImplementedError ''COMMAND INFO is intentionally not implemented in the client.'')"

definition module_command_count_cmd :: "request res" where
  "module_command_count_cmd = Inr ([PStr ''COMMAND COUNT''], [])"

definition module_command_getkeys_cmd :: "pyval list \<Rightarrow> request res" where
  "module_command_getkeys_cmd args = Inr ([PStr ''COMMAND GETKEYS''] @ args, [])"

definition module_command_cmd :: "request res" where
  "module_command_cmd = Inr ([PStr ''COMMAND''], [])"

section \<open>ClusterCommands\<close>

definition cluster_cmd :: "cmdlib \<Rightarrow> pyval \<Rightarrow> pyval list \<Rightarrow> options \<Rightarrow> request res" where
  "cluster_cmd P cluster_arg args kwargs =
     (res_bind (py_upper cluster_arg) (\<lambda>u1.
     Inr ([PStr (''CLUSTER '' @ py_str P u1)] @ args, kwargs)))"

definition readwrite_cmd :: "options \<Rightarrow> request res" where
  "readwrite_cmd kwargs = Inr ([PStr ''READWRITE''], kwargs)"

definition readonly_cmd :: "options \<Rightarrow> request res" where
  "readonly_cmd kwargs = Inr ([PStr ''READONLY''], kwargs)"

section \<open>FunctionCommands\<close>

definition function_load_cmd :: "pyval \<Rightarrow> pyval \<Rightarrow> request res" where
  "function_load_cmd code replace =
     (let pieces = (if truthy replace then [PStr ''REPLACE''] else []) in
     let pieces = pieces @ [code] in
     Inr ([PStr ''FUNCTION LOAD''] @ pieces, []))"

definition function_delete_cmd :: "pyval \<Rightarrow> request res" where
  "function_delete_cmd library = Inr ([PStr ''FUNCTION DELETE'', library], [])"

definition function_flush_cmd :: "pyval \<Rightarrow> request res" where
  "function_flush_cmd mode' = Inr ([PStr ''FUNCTION FLUSH'', mode'], [])"

definition function_list_cmd :: "pyval \<Rightarrow> pyval \<Rightarrow> request res" where
  "function_list_cmd library withcode =
     (let args = [PStr ''LIBRARYNAME'', library] in
     let args = (if truthy withcode then args @ [PStr ''WITHCODE''] else args) in
     Inr ([PStr ''FUNCTION LIST''] @ args, []))"

definition fcall_impl_cmd :: "pyval \<Rightarrow> pyval \<Rightarrow> pyval \<Rightarrow> pyval list \<Rightarrow> request res" where
  "fcall_impl_cmd command' function' numkeys keys_and_args =
     Inr ([command', function', numkeys] @ keys_and_args, [])"

definition function_dump_cmd :: "request res" where
  "function_dump_cmd =
     (let options = [] in
     let options = opt_set options ''NEVER_DECODE'' (PList []) in
     Inr ([PStr ''FUNCTION DUMP''], options))"

definition function_restore_cmd :: "pyval \<Rightarrow> pyval \<Rightarrow> request res" where
  "function_restore_cmd payload policy = Inr ([PStr ''FUNCTION RESTORE'', payload, policy], [])"

definition function_kill_cmd :: "request res" where
  "function_kill_cmd = Inr ([PStr ''FUNCTION KILL''], [])"

definition function_stats_cmd :: "request res" where
  "function_stats_cmd = Inr ([PStr ''FUNCTION STATS''], [])"

definition fcall_cmd :: "pyval \<Rightarrow> pyval \<Rightarrow> pyval list \<Rightarrow> request res" where
  "fcall_cmd function' numkeys keys_and_args =
     fcall_impl_cmd (PStr ''FCALL'') function' numkeys keys_and_args"

definition fcall_ro_cmd :: "pyval \<Rightarrow> pyval \<Rightarrow> pyval list \<Rightarrow> request res" where
  "fcall_ro_cmd function' numkeys keys_and_args =
     fcall_impl_cmd (PStr ''FCALL_RO'') function' numkeys keys_and_args"

end
