(* ===== verification/Cmd_Stateful.thy ===== *)
theory Cmd_Stateful
  imports Cmd_Server Cmd_Keys Cmd_Collections Cmd_Sorted Cmd_Extra Connection
begin

text \<open>
  The parts of \<open>redis/commands/core.py\<close> that do more than build one request: item access, \<open>shutdown\<close>, the
  \<open>BITFIELD\<close> builder, the cursor iterators and \<open>Script\<close>.  The client's \<open>execute_command\<close>, which sends a request and
  parses its reply, is the argument \<open>X\<close> of the definitions that call it.
\<close>

type_synonym 's executor = "request \<Rightarrow> ('s, pyval) io"

definition run_cmd :: "'s executor \<Rightarrow> request res \<Rightarrow> ('s, pyval) io" where
  "run_cmd X r = io_bind (io_lift r) X"

section \<open>Items\<close>

definition key_get :: "'s executor \<Rightarrow> pyval \<Rightarrow> ('s, pyval) io" where
  "key_get X name =
     io_bind (run_cmd X (get_cmd name)) (\<lambda>value.
       if value \<noteq> PNone then io_ret value else io_raise (key_error (case name of PStr s \<Rightarrow> s | _ \<Rightarrow> type_name name)))"

definition key_set :: "'s executor \<Rightarrow> cmdlib \<Rightarrow> pyval \<Rightarrow> pyval \<Rightarrow> ('s, pyval) io" where
  "key_set X P name value' =
     run_cmd X (set_cmd P name value' PNone PNone (PBool False) (PBool False) (PBool False) (PBool False) PNone PNone)"

definition key_del :: "'s executor \<Rightarrow> pyval \<Rightarrow> ('s, pyval) io" where
  "key_del X name = run_cmd X (delete_cmd [name])"

section \<open>\<open>shutdown\<close>\<close>

definition shutdown_cmd :: "pyval \<Rightarrow> pyval \<Rightarrow> pyval \<Rightarrow> pyval \<Rightarrow> pyval \<Rightarrow> options \<Rightarrow> request res" where
  "shutdown_cmd save nosave now force abort kwargs =
     (if truthy save \<and> truthy nosave then
        Inl (Exc DataError ''SHUTDOWN save and nosave cannot both be set'')
      else
      let args = [PStr ''SHUTDOWN''] in
      let args = (if truthy save then args @ [PStr ''SAVE''] else args) in
      let args = (if truthy nosave then args @ [PStr ''NOSAVE''] else args) in
      let args = (if truthy now then args @ [PStr ''NOW''] else args) in
      let args = (if truthy force then args @ [PStr ''FORCE''] else args) in
      let args = (if truthy abort then args @ [PStr ''ABORT''] else args) in
      Inr (args, kwargs))"

text \<open>The server is expected to close the connection; any reply means that it goes on.\<close>

definition shutdown :: "'s executor \<Rightarrow> pyval \<Rightarrow> pyval \<Rightarrow> pyval \<Rightarrow> pyval \<Rightarrow> pyval \<Rightarrow> options \<Rightarrow> ('s, unit) io" where
  "shutdown X save nosave now force abort kwargs =
     io_bind (io_lift (shutdown_cmd save nosave now force abort kwargs)) (\<lambda>r.
     io_bind
       (io_try (io_bind (X r) (\<lambda>_. io_ret False))
          (\<lambda>e. if is_exc e ConnectionError then io_ret True else io_raise e))
       (\<lambda>down. if down then io_ret () else io_raise (Exc RedisError ''SHUTDOWN seems to have failed.'')))"

section \<open>The \<open>BITFIELD\<close> builder\<close>

record bitfield_op =
  bf_key :: pyval
  default_overflow :: pyval
  operations :: "pyval list list"
  last_overflow :: pyval

definition bf_overflow :: "pyval \<Rightarrow> bitfield_op \<Rightarrow> bitfield_op res" where
  "bf_overflow mode b =
     res_bind (py_upper mode) (\<lambda>mode.
       Inr (if mode \<noteq> last_overflow b
            then b\<lparr>last_overflow := mode, operations := operations b @ [[PStr ''OVERFLOW'', mode]]\<rparr>
            else b))"

definition bf_reset :: "bitfield_op \<Rightarrow> bitfield_op res" where
  "bf_reset b =
     bf_overflow (if truthy (default_overflow b) then default_overflow b else PStr ''WRAP'')
       (b\<lparr>operations := [], last_overflow := PStr ''WRAP''\<rparr>)"

definition bitfield :: "pyval \<Rightarrow> pyval \<Rightarrow> bitfield_op res" where
  "bitfield key mode =
     bf_reset \<lparr>bf_key = key, default_overflow = mode, operations = [], last_overflow = PStr ''WRAP''\<rparr>"

definition bf_incrby :: "pyval \<Rightarrow> pyval \<Rightarrow> pyval \<Rightarrow> pyval \<Rightarrow> bitfield_op \<Rightarrow> bitfield_op res" where
  "bf_incrby fmt offset incr mode b =
     res_bind (if mode \<noteq> PNone then bf_overflow mode b else Inr b) (\<lambda>b.
       Inr (b\<lparr>operations := operations b @ [[PStr ''INCRBY'', fmt, offset, incr]]\<rparr>))"

definition bf_get :: "pyval \<Rightarrow> pyval \<Rightarrow> bitfield_op \<Rightarrow> bitfield_op" where
  "bf_get fmt offset b = b\<lparr>operations := operations b @ [[PStr ''GET'', fmt, offset]]\<rparr>"

definition bf_set :: "pyval \<Rightarrow> pyval \<Rightarrow> pyval \<Rightarrow> bitfield_op \<Rightarrow> bitfield_op" where
  "bf_set fmt offset v b = b\<lparr>operations := operations b @ [[PStr ''SET'', fmt, offset, v]]\<rparr>"

definition bf_command :: "bitfield_op \<Rightarrow> pyval list" where
  "bf_command b = foldl (@) [PStr ''BITFIELD'', bf_key b] (operations b)"

text \<open>\<open>execute\<close>: the request, and the builder as it is left for the next batch.\<close>

definition bf_execute :: "bitfield_op \<Rightarrow> (request \<times> bitfield_op) res" where
  "bf_execute b = res_map (\<lambda>b'. ((bf_command b, []), b')) (bf_reset b)"

section \<open>Cursor iterators\<close>

text \<open>A generator that is run to its end: what it has yielded when it returns or raises.  \<open>None\<close> is an iteration that
  does not end: the server never gives cursor 0 back.\<close>

type_synonym 's pages = "'s \<Rightarrow> (pyval list \<times> (exc + unit) \<times> 's) option"

partial_function (option) scan_loop ::
  "cmdlib \<Rightarrow> (pyval \<Rightarrow> ('s, pyval) io) \<Rightarrow> (pyval \<Rightarrow> pyval list res) \<Rightarrow> pyval list \<Rightarrow> pyval \<Rightarrow> 's pages" where
  "scan_loop P call items acc cursor s =
     (if py_eq P cursor (PInt 0) then Some (acc, Inr (), s)
      else case call cursor s of
             None \<Rightarrow> None
           | Some (Inl e, s') \<Rightarrow> Some (acc, Inl e, s')
           | Some (Inr r, s') \<Rightarrow>
               (case res_bind (unpack2 r) (\<lambda>(c, data). res_map (\<lambda>xs. (c, xs)) (items data)) of
                  Inl e \<Rightarrow> Some (acc, Inl e, s')
                | Inr (c, xs) \<Rightarrow> scan_loop P call items (acc @ xs) c s'))"

definition scan_iter :: "'s executor \<Rightarrow> cmdlib \<Rightarrow> pyval \<Rightarrow> pyval \<Rightarrow> pyval \<Rightarrow> options \<Rightarrow> 's pages" where
  "scan_iter X P match count' type' kwargs =
     scan_loop P (\<lambda>c. run_cmd X (scan_cmd c match count' type' kwargs)) iterate [] (PStr ''0'')"

definition sscan_iter :: "'s executor \<Rightarrow> cmdlib \<Rightarrow> pyval \<Rightarrow> pyval \<Rightarrow> pyval \<Rightarrow> 's pages" where
  "sscan_iter X P name match count' =
     scan_loop P (\<lambda>c. run_cmd X (sscan_cmd name c match count')) iterate [] (PStr ''0'')"

definition hscan_items :: "pyval \<Rightarrow> pyval \<Rightarrow> pyval list res" where
  "hscan_items no_values data =
     (if truthy no_values then iterate data else res_map (map (\<lambda>(k, v). PTuple [k, v])) (items_of data))"

definition hscan_iter :: "'s executor \<Rightarrow> cmdlib \<Rightarrow> pyval \<Rightarrow> pyval \<Rightarrow> pyval \<Rightarrow> pyval \<Rightarrow> 's pages" where
  "hscan_iter X P name match count' no_values =
     scan_loop P (\<lambda>c. run_cmd X (hscan_cmd name c match count' no_values)) (hscan_items no_values) [] (PStr ''0'')"

definition zscan_iter :: "'s executor \<Rightarrow> cmdlib \<Rightarrow> pyval \<Rightarrow> pyval \<Rightarrow> pyval \<Rightarrow> pyval \<Rightarrow> 's pages" where
  "zscan_iter X P name match count' score_cast_func =
     scan_loop P (\<lambda>c. run_cmd X (zscan_cmd name c match count' score_cast_func)) iterate [] (PStr ''0'')"

section \<open>\<open>Script\<close>\<close>

text \<open>The digest is computed outside of the library, from the bytes of the script.\<close>

definition script_sha :: "(bytes \<Rightarrow> pystr) \<Rightarrow> encoder \<Rightarrow> pyval \<Rightarrow> pyval res" where
  "script_sha sha1 E text' =
     res_bind (if is_str text' then encode E text' else Inr text') (\<lambda>b.
       case b of
         PBytes s \<Rightarrow> Inr (PStr (sha1 s))
       | PMemview s \<Rightarrow> Inr (PStr (sha1 s))
       | _ \<Rightarrow> Inl (type_error b))"

text \<open>A call through a client that is not a pipeline, with the digest the object holds and afterwards holds.\<close>

definition script_call ::
  "'s executor \<Rightarrow> pyval \<Rightarrow> pyval \<Rightarrow> pyval \<Rightarrow> pyval \<Rightarrow> 's \<Rightarrow> ((exc + pyval) \<times> pyval \<times> 's) option" where
  "script_call X text' ks args sha s =
     (let ks = (if truthy ks then ks else PList []); args = (if truthy args then args else PList []) in
      case res_bind (iterate ks) (\<lambda>k. res_bind (iterate args) (\<lambda>a. res_map (\<lambda>n. (n, k @ a)) (py_len ks))) of
        Inl e \<Rightarrow> Some (Inl e, sha, s)
      | Inr (n, all) \<Rightarrow>
          (case run_cmd X (evalsha_cmd sha (PInt (int n)) all) s of
             None \<Rightarrow> None
           | Some (Inr v, s1) \<Rightarrow> Some (Inr v, sha, s1)
           | Some (Inl e, s1) \<Rightarrow>
               if is_exc e NoScriptError then
                 (case run_cmd X (script_load_cmd text') s1 of
                    None \<Rightarrow> None
                  | Some (Inl e', s2) \<Rightarrow> Some (Inl e', sha, s2)
                  | Some (Inr sha', s2) \<Rightarrow>
                      map_option (\<lambda>(r, s3). (r, sha', s3)) (run_cmd X (evalsha_cmd sha' (PInt (int n)) all) s2))
               else Some (Inl e, sha, s1)))"

end
