(* ===== verification/Cmd_Modules.thy ===== *)
theory Cmd_Modules
  imports Cmd_Base
begin

text \<open>
  The commands of the RedisJSON and RedisBloom modules (\<open>redis/commands/json\<close>, \<open>redis/commands/bf\<close>): see \<open>Cmd_Base\<close>. A value is
  encoded by the encoder of the standard library, \<open>json_dumps\<close> of \<open>cmdlib\<close>. \<open>get\<close> of \<open>JSONCommands\<close> returns \<open>None\<close>
  where its call of \<open>execute_command\<close> raises \<open>TypeError\<close>; the request is what is modelled.
\<close>

section \<open>JSONCommands\<close>

definition json_arrappend_cmd :: "cmdlib \<Rightarrow> pyval \<Rightarrow> pyval \<Rightarrow> pyval list \<Rightarrow> request res" where
  "json_arrappend_cmd P name path args =
     (let pieces = [name, PStr (py_str P path)] in
     res_bind
      (res_fold (\<lambda>pieces o'.
         res_bind (json_dumps P o') (\<lambda>j1.
         let pieces = pieces @ [j1] in
         Inr pieces))
        pieces args)
      (\<lambda>pieces.
     Inr ([PStr ''JSON.ARRAPPEND''] @ pieces, [])))"

definition json_arrindex_cmd :: "cmdlib \<Rightarrow> pyval \<Rightarrow> pyval \<Rightarrow> pyval \<Rightarrow> pyval \<Rightarrow> pyval \<Rightarrow> request res" where
  "json_arrindex_cmd P name path scalar start stop =
     (res_bind (json_dumps P scalar) (\<lambda>j1.
     let pieces = [name, PStr (py_str P path), j1] in
     let pieces = (if start \<noteq> PNone
        then (let pieces = pieces @ [start] in let pieces = (if stop \<noteq> PNone then pieces @ [stop] else pieces) in pieces)
        else pieces) in
     Inr ([PStr ''JSON.ARRINDEX''] @ pieces, [(''keys'', PList [name])])))"

definition json_arrinsert_cmd :: "cmdlib \<Rightarrow> pyval \<Rightarrow> pyval \<Rightarrow> pyval \<Rightarrow> pyval list \<Rightarrow> request res" where
  "json_arrinsert_cmd P name path index' args =
     (let pieces = [name, PStr (py_str P path), index'] in
     res_bind
      (res_fold (\<lambda>pieces o'.
         res_bind (json_dumps P o') (\<lambda>j1.
         let pieces = pieces @ [j1] in
         Inr pieces))
        pieces args)
      (\<lambda>pieces.
     Inr ([PStr ''JSON.ARRINSERT''] @ pieces, [])))"

definition json_arrlen_cmd :: "cmdlib \<Rightarrow> pyval \<Rightarrow> pyval \<Rightarrow> request res" where
  "json_arrlen_cmd P name path =
     Inr ([PStr ''JSON.ARRLEN'', name, PStr (py_str P path)], [(''keys'', PList [name])])"

definition json_arrpop_cmd :: "cmdlib \<Rightarrow> pyval \<Rightarrow> pyval \<Rightarrow> pyval \<Rightarrow> request res" where
  "json_arrpop_cmd P name path index' =
     Inr ([PStr ''JSON.ARRPOP'', name, PStr (py_str P path), index'], [])"

definition json_arrtrim_cmd :: "cmdlib \<Rightarrow> pyval \<Rightarrow> pyval \<Rightarrow> pyval \<Rightarrow> pyval \<Rightarrow> request res" where
  "json_arrtrim_cmd P name path start stop =
     Inr ([PStr ''JSON.ARRTRIM'', name, PStr (py_str P path), start, stop], [])"

definition json_type_cmd :: "cmdlib \<Rightarrow> pyval \<Rightarrow> pyval \<Rightarrow> request res" where
  "json_type_cmd P name path =
     Inr ([PStr ''JSON.TYPE'', name, PStr (py_str P path)], [(''keys'', PList [name])])"

definition json_resp_cmd :: "cmdlib \<Rightarrow> pyval \<Rightarrow> pyval \<Rightarrow> request res" where
  "json_resp_cmd P name path =
     Inr ([PStr ''JSON.RESP'', name, PStr (py_str P path)], [(''keys'', PList [name])])"

definition json_objkeys_cmd :: "cmdlib \<Rightarrow> pyval \<Rightarrow> pyval \<Rightarrow> request res" where
  "json_objkeys_cmd P name path =
     Inr ([PStr ''JSON.OBJKEYS'', name, PStr (py_str P path)], [(''keys'', PList [name])])"

definition json_objlen_cmd :: "cmdlib \<Rightarrow> pyval \<Rightarrow> pyval \<Rightarrow> request res" where
  "json_objlen_cmd P name path =
     Inr ([PStr ''JSON.OBJLEN'', name, PStr (py_str P path)], [(''keys'', PList [name])])"

definition json_numincrby_cmd :: "cmdlib \<Rightarrow> pyval \<Rightarrow> pyval \<Rightarrow> pyval \<Rightarrow> request res" where
  "json_numincrby_cmd P name path number' =
     (res_bind (json_dumps P number') (\<lambda>j1.
     Inr ([PStr ''JSON.NUMINCRBY'', name, PStr (py_str P path), j1], [])))"

definition json_nummultby_cmd :: "cmdlib \<Rightarrow> pyval \<Rightarrow> pyval \<Rightarrow> pyval \<Rightarrow> request res" where
  "json_nummultby_cmd P name path number' =
     (res_bind (json_dumps P number') (\<lambda>j1.
     Inr ([PStr ''JSON.NUMMULTBY'', name, PStr (py_str P path), j1], [])))"

definition json_clear_cmd :: "cmdlib \<Rightarrow> pyval \<Rightarrow> pyval \<Rightarrow> request res" where
  "json_clear_cmd P name path = Inr ([PStr ''JSON.CLEAR'', name, PStr (py_str P path)], [])"

definition json_delete_cmd :: "cmdlib \<Rightarrow> pyval \<Rightarrow> pyval \<Rightarrow> request res" where
  "json_delete_cmd P key path = Inr ([PStr ''JSON.DEL'', key, PStr (py_str P path)], [])"

definition json_get_cmd :: "cmdlib \<Rightarrow> pyval \<Rightarrow> pyval list \<Rightarrow> pyval \<Rightarrow> request res" where
  "json_get_cmd P name args no_escape =
     (let pieces = [name] in
     let pieces = (if truthy no_escape then pieces @ [PStr ''noescape''] else pieces) in
     let pieces = (if length args = 0
        then pieces @ [PStr ''.'']
        else foldl (\<lambda>pieces p. pieces @ [PStr (py_str P p)]) pieces args) in
     Inr ([PStr ''JSON.GET''] @ pieces, [(''keys'', PList [name])]))"

definition json_mget_cmd :: "cmdlib \<Rightarrow> pyval \<Rightarrow> pyval \<Rightarrow> request res" where
  "json_mget_cmd P keys' path =
     (let pieces = [] in
     res_bind (iterate keys') (\<lambda>xs1.
     let pieces = pieces @ xs1 in
     let pieces = pieces @ [PStr (py_str P path)] in
     Inr ([PStr ''JSON.MGET''] @ pieces, [(''keys'', keys')])))"

definition json_set_cmd :: "cmdlib \<Rightarrow> pyval \<Rightarrow> pyval \<Rightarrow> pyval \<Rightarrow> pyval \<Rightarrow> pyval \<Rightarrow> pyval \<Rightarrow> request res" where
  "json_set_cmd P name path obj' nx xx decode_keys =
     (res_bind
      (if truthy decode_keys then
       decode_dict_keys obj'
       else
       Inr obj')
      (\<lambda>obj'.
     res_bind (json_dumps P obj') (\<lambda>j2.
     let pieces = [name, PStr (py_str P path), j2] in
     res_bind
      (if truthy nx \<and> truthy xx then
       Inl (Exc PyException ''nx and xx are mutually exclusive: use one, the other or neither - but not both'')
       else
       let pieces = (if truthy nx
          then pieces @ [PStr ''NX'']
          else (if truthy xx then pieces @ [PStr ''XX''] else pieces)) in
       Inr pieces)
      (\<lambda>pieces.
     Inr ([PStr ''JSON.SET''] @ pieces, [])))))"

definition json_mset_cmd :: "cmdlib \<Rightarrow> pyval \<Rightarrow> request res" where
  "json_mset_cmd P triplets =
     (let pieces = [] in
     res_bind (iterate triplets) (\<lambda>xs1.
     res_bind
      (res_fold (\<lambda>pieces triplet.
         res_bind (getitem triplet 0) (\<lambda>x2.
         res_bind (getitem triplet 1) (\<lambda>x3.
         res_bind (getitem triplet 2) (\<lambda>x4.
         res_bind (json_dumps P x4) (\<lambda>j5.
         let pieces = pieces @ [x2, PStr (py_str P x3), j5] in
         Inr pieces)))))
        pieces xs1)
      (\<lambda>pieces.
     Inr ([PStr ''JSON.MSET''] @ pieces, []))))"

definition json_merge_cmd :: "cmdlib \<Rightarrow> pyval \<Rightarrow> pyval \<Rightarrow> pyval \<Rightarrow> pyval \<Rightarrow> request res" where
  "json_merge_cmd P name path obj' decode_keys =
     (res_bind
      (if truthy decode_keys then
       decode_dict_keys obj'
       else
       Inr obj')
      (\<lambda>obj'.
     res_bind (json_dumps P obj') (\<lambda>j2.
     let pieces = [name, PStr (py_str P path), j2] in
     Inr ([PStr ''JSON.MERGE''] @ pieces, []))))"

definition json_strlen_cmd :: "cmdlib \<Rightarrow> pyval \<Rightarrow> pyval \<Rightarrow> request res" where
  "json_strlen_cmd P name path =
     (let pieces = [name] in
     let pieces = (if path \<noteq> PNone then pieces @ [PStr (py_str P path)] else pieces) in
     Inr ([PStr ''JSON.STRLEN''] @ pieces, [(''keys'', PList [name])]))"

definition json_toggle_cmd :: "cmdlib \<Rightarrow> pyval \<Rightarrow> pyval \<Rightarrow> request res" where
  "json_toggle_cmd P name path = Inr ([PStr ''JSON.TOGGLE'', name, PStr (py_str P path)], [])"

definition json_strappend_cmd :: "cmdlib \<Rightarrow> pyval \<Rightarrow> pyval \<Rightarrow> pyval \<Rightarrow> request res" where
  "json_strappend_cmd P name value' path =
     (res_bind (json_dumps P value') (\<lambda>j1.
     let pieces = [name, PStr (py_str P path), j1] in
     Inr ([PStr ''JSON.STRAPPEND''] @ pieces, [])))"

definition json_debug_cmd :: "cmdlib \<Rightarrow> pyval \<Rightarrow> pyval \<Rightarrow> pyval \<Rightarrow> request res" where
  "json_debug_cmd P subcommand key path =
     (let valid_subcommands = [PStr ''MEMORY'', PStr ''HELP''] in
     if \<not> list_ex (py_eq P subcommand) valid_subcommands then
       Inl (Exc DataError ''The only valid subcommands are'')
     else
     let pieces = [subcommand] in
     res_bind
      (if subcommand = PStr ''MEMORY'' then
       if key = PNone then
         Inl (Exc DataError ''No key specified'')
       else
       let pieces = pieces @ [key] in
       let pieces = pieces @ [PStr (py_str P path)] in
       Inr pieces
       else
       Inr pieces)
      (\<lambda>pieces.
     Inr ([PStr ''JSON.DEBUG''] @ pieces, [])))"

section \<open>AbstractBloom\<close>

definition bloom_append_items :: "pyval list \<Rightarrow> pyval \<Rightarrow> pyval list res" where
  "bloom_append_items params items' =
     (let params = params @ [PStr ''ITEMS''] in
     res_bind (iterate items') (\<lambda>xs1.
     let params = params @ xs1 in
     Inr params))"

definition bloom_append_error :: "pyval list \<Rightarrow> pyval \<Rightarrow> pyval list" where
  "bloom_append_error params error' = (if error' \<noteq> PNone then params @ [PStr ''ERROR'', error'] else params)"

definition bloom_append_capacity :: "pyval list \<Rightarrow> pyval \<Rightarrow> pyval list" where
  "bloom_append_capacity params capacity =
     (if capacity \<noteq> PNone then params @ [PStr ''CAPACITY'', capacity] else params)"

definition bloom_append_expansion :: "pyval list \<Rightarrow> pyval \<Rightarrow> pyval list" where
  "bloom_append_expansion params expansion =
     (if expansion \<noteq> PNone then params @ [PStr ''EXPANSION'', expansion] else params)"

definition bloom_append_no_scale :: "pyval list \<Rightarrow> pyval \<Rightarrow> pyval list" where
  "bloom_append_no_scale params noScale =
     (if noScale \<noteq> PNone then params @ [PStr ''NONSCALING''] else params)"

definition bloom_append_weights :: "pyval list \<Rightarrow> pyval \<Rightarrow> pyval list res" where
  "bloom_append_weights params weights =
     (res_bind (py_len weights) (\<lambda>n1.
     if int n1 > 0 then
       let params = params @ [PStr ''WEIGHTS''] in
       res_bind (iterate weights) (\<lambda>xs2.
       let params = params @ xs2 in
       Inr params)
     else
       Inr params))"

definition bloom_append_no_create :: "pyval list \<Rightarrow> pyval \<Rightarrow> pyval list" where
  "bloom_append_no_create params noCreate =
     (if noCreate \<noteq> PNone then params @ [PStr ''NOCREATE''] else params)"

definition bloom_append_max_iterations :: "pyval list \<Rightarrow> pyval \<Rightarrow> pyval list" where
  "bloom_append_max_iterations params max_iterations =
     (if max_iterations \<noteq> PNone then params @ [PStr ''MAXITERATIONS'', max_iterations] else params)"

definition bloom_append_bucket_size :: "pyval list \<Rightarrow> pyval \<Rightarrow> pyval list" where
  "bloom_append_bucket_size params bucket_size =
     (if bucket_size \<noteq> PNone then params @ [PStr ''BUCKETSIZE'', bucket_size] else params)"

text \<open>Pairs of items and increments, by the positions of the items.\<close>

definition bloom_append_pairs :: "pyval list \<Rightarrow> pyval \<Rightarrow> pyval \<Rightarrow> pyval list res" where
  "bloom_append_pairs params items' increments =
     res_bind (py_len items') (\<lambda>n.
     res_fold (\<lambda>params i.
         res_bind (getitem items' (int i)) (\<lambda>x.
         res_bind (getitem increments (int i)) (\<lambda>y. Inr (params @ [x, y]))))
       params [0..<n])"


section \<open>BFCommands (Bloom filters)\<close>

definition bf_create_cmd :: "pyval \<Rightarrow> pyval \<Rightarrow> pyval \<Rightarrow> pyval \<Rightarrow> pyval \<Rightarrow> request res" where
  "bf_create_cmd key errorRate capacity expansion noScale =
     (let params = [key, errorRate, capacity] in
     let params = bloom_append_expansion params expansion in
     let params = bloom_append_no_scale params noScale in
     Inr ([PStr ''BF.RESERVE''] @ params, []))"

definition bf_add_cmd :: "pyval \<Rightarrow> pyval \<Rightarrow> request res" where
  "bf_add_cmd key item = Inr ([PStr ''BF.ADD'', key, item], [])"

definition bf_madd_cmd :: "pyval \<Rightarrow> pyval list \<Rightarrow> request res" where
  "bf_madd_cmd key items' = Inr ([PStr ''BF.MADD'', key] @ items', [])"

definition bf_insert_cmd :: "pyval \<Rightarrow> pyval \<Rightarrow> pyval \<Rightarrow> pyval \<Rightarrow> pyval \<Rightarrow> pyval \<Rightarrow> pyval \<Rightarrow> request res" where
  "bf_insert_cmd key items' capacity error' noCreate expansion noScale =
     (let params = [key] in
     let params = bloom_append_capacity params capacity in
     let params = bloom_append_error params error' in
     let params = bloom_append_expansion params expansion in
     let params = bloom_append_no_create params noCreate in
     let params = bloom_append_no_scale params noScale in
     res_bind (bloom_append_items params items') (\<lambda>params.
     Inr ([PStr ''BF.INSERT''] @ params, [])))"

definition bf_exists_cmd :: "pyval \<Rightarrow> pyval \<Rightarrow> request res" where
  "bf_exists_cmd key item = Inr ([PStr ''BF.EXISTS'', key, item], [])"

definition bf_mexists_cmd :: "pyval \<Rightarrow> pyval list \<Rightarrow> request res" where
  "bf_mexists_cmd key items' = Inr ([PStr ''BF.MEXISTS'', key] @ items', [])"

definition bf_scandump_cmd :: "pyval \<Rightarrow> pyval \<Rightarrow> request res" where
  "bf_scandump_cmd key iter' =
     (let params = [key, iter'] in
     let options = [] in
     let options = opt_set options ''NEVER_DECODE'' (PList []) in
     Inr ([PStr ''BF.SCANDUMP''] @ params, options))"

definition bf_loadchunk_cmd :: "pyval \<Rightarrow> pyval \<Rightarrow> pyval \<Rightarrow> request res" where
  "bf_loadchunk_cmd key iter' data' = Inr ([PStr ''BF.LOADCHUNK'', key, iter', data'], [])"

definition bf_info_cmd :: "pyval \<Rightarrow> request res" where
  "bf_info_cmd key = Inr ([PStr ''BF.INFO'', key], [])"

definition bf_card_cmd :: "pyval \<Rightarrow> request res" where
  "bf_card_cmd key = Inr ([PStr ''BF.CARD'', key], [])"

section \<open>CFCommands (cuckoo filters)\<close>

definition cf_create_cmd :: "pyval \<Rightarrow> pyval \<Rightarrow> pyval \<Rightarrow> pyval \<Rightarrow> pyval \<Rightarrow> request res" where
  "cf_create_cmd key capacity expansion bucket_size max_iterations =
     (let params = [key, capacity] in
     let params = bloom_append_expansion params expansion in
     let params = bloom_append_bucket_size params bucket_size in
     let params = bloom_append_max_iterations params max_iterations in
     Inr ([PStr ''CF.RESERVE''] @ params, []))"

definition cf_add_cmd :: "pyval \<Rightarrow> pyval \<Rightarrow> request res" where
  "cf_add_cmd key item = Inr ([PStr ''CF.ADD'', key, item], [])"

definition cf_addnx_cmd :: "pyval \<Rightarrow> pyval \<Rightarrow> request res" where
  "cf_addnx_cmd key item = Inr ([PStr ''CF.ADDNX'', key, item], [])"

definition cf_insert_cmd :: "pyval \<Rightarrow> pyval \<Rightarrow> pyval \<Rightarrow> pyval \<Rightarrow> request res" where
  "cf_insert_cmd key items' capacity nocreate =
     (let params = [key] in
     let params = bloom_append_capacity params capacity in
     let params = bloom_append_no_create params nocreate in
     res_bind (bloom_append_items params items') (\<lambda>params.
     Inr ([PStr ''CF.INSERT''] @ params, [])))"

definition cf_insertnx_cmd :: "pyval \<Rightarrow> pyval \<Rightarrow> pyval \<Rightarrow> pyval \<Rightarrow> request res" where
  "cf_insertnx_cmd key items' capacity nocreate =
     (let params = [key] in
     let params = bloom_append_capacity params capacity in
     let params = bloom_append_no_create params nocreate in
     res_bind (bloom_append_items params items') (\<lambda>params.
     Inr ([PStr ''CF.INSERTNX''] @ params, [])))"

definition cf_exists_cmd :: "pyval \<Rightarrow> pyval \<Rightarrow> request res" where
  "cf_exists_cmd key item = Inr ([PStr ''CF.EXISTS'', key, item], [])"

definition cf_mexists_cmd :: "pyval \<Rightarrow> pyval list \<Rightarrow> request res" where
  "cf_mexists_cmd key items' = Inr ([PStr ''CF.MEXISTS'', key] @ items', [])"

definition cf_delete_cmd :: "pyval \<Rightarrow> pyval \<Rightarrow> request res" where
  "cf_delete_cmd key item = Inr ([PStr ''CF.DEL'', key, item], [])"

definition cf_count_cmd :: "pyval \<Rightarrow> pyval \<Rightarrow> request res" where
  "cf_count_cmd key item = Inr ([PStr ''CF.COUNT'', key, item], [])"

definition cf_scandump_cmd :: "pyval \<Rightarrow> pyval \<Rightarrow> request res" where
  "cf_scandump_cmd key iter' = Inr ([PStr ''CF.SCANDUMP'', key, iter'], [])"

definition cf_loadchunk_cmd :: "pyval \<Rightarrow> pyval \<Rightarrow> pyval \<Rightarrow> request res" where
  "cf_loadchunk_cmd key iter' data' = Inr ([PStr ''CF.LOADCHUNK'', key, iter', data'], [])"

definition cf_info_cmd :: "pyval \<Rightarrow> request res" where
  "cf_info_cmd key = Inr ([PStr ''CF.INFO'', key], [])"

section \<open>TOPKCommands\<close>

definition topk_reserve_cmd :: "pyval \<Rightarrow> pyval \<Rightarrow> pyval \<Rightarrow> pyval \<Rightarrow> pyval \<Rightarrow> request res" where
  "topk_reserve_cmd key k width' depth' decay =
     Inr ([PStr ''TOPK.RESERVE'', key, k, width', depth', decay], [])"

definition topk_add_cmd :: "pyval \<Rightarrow> pyval list \<Rightarrow> request res" where
  "topk_add_cmd key items' = Inr ([PStr ''TOPK.ADD'', key] @ items', [])"

definition topk_incrby_cmd :: "pyval \<Rightarrow> pyval \<Rightarrow> pyval \<Rightarrow> request res" where
  "topk_incrby_cmd key items' increments =
     (let params = [key] in
     res_bind (bloom_append_pairs params items' increments) (\<lambda>params.
     Inr ([PStr ''TOPK.INCRBY''] @ params, [])))"

definition topk_query_cmd :: "pyval \<Rightarrow> pyval list \<Rightarrow> request res" where
  "topk_query_cmd key items' = Inr ([PStr ''TOPK.QUERY'', key] @ items', [])"

definition topk_count_cmd :: "pyval \<Rightarrow> pyval list \<Rightarrow> request res" where
  "topk_count_cmd key items' = Inr ([PStr ''TOPK.COUNT'', key] @ items', [])"

definition topk_list_cmd :: "pyval \<Rightarrow> pyval \<Rightarrow> request res" where
  "topk_list_cmd key withcount =
     (let params = [key] in
     let params = (if truthy withcount then params @ [PStr ''WITHCOUNT''] else params) in
     Inr ([PStr ''TOPK.LIST''] @ params, []))"

definition topk_info_cmd :: "pyval \<Rightarrow> request res" where
  "topk_info_cmd key = Inr ([PStr ''TOPK.INFO'', key], [])"

section \<open>TDigestCommands\<close>

definition tdigest_create_cmd :: "pyval \<Rightarrow> pyval \<Rightarrow> request res" where
  "tdigest_create_cmd key compression =
     Inr ([PStr ''TDIGEST.CREATE'', key, PStr ''COMPRESSION'', compression], [])"

definition tdigest_reset_cmd :: "pyval \<Rightarrow> request res" where
  "tdigest_reset_cmd key = Inr ([PStr ''TDIGEST.RESET'', key], [])"

definition tdigest_add_cmd :: "pyval \<Rightarrow> pyval \<Rightarrow> request res" where
  "tdigest_add_cmd key values =
     (res_bind (iterate values) (\<lambda>xs1.
     Inr ([PStr ''TDIGEST.ADD'', key] @ xs1, [])))"

definition tdigest_merge_cmd :: "pyval \<Rightarrow> pyval \<Rightarrow> pyval list \<Rightarrow> pyval \<Rightarrow> pyval \<Rightarrow> request res" where
  "tdigest_merge_cmd destination_key num_keys keys' compression override =
     (let params = [destination_key, num_keys] @ keys' in
     let params = (if compression \<noteq> PNone then params @ [PStr ''COMPRESSION'', compression] else params) in
     let params = (if truthy override then params @ [PStr ''OVERRIDE''] else params) in
     Inr ([PStr ''TDIGEST.MERGE''] @ params, []))"

definition tdigest_min_cmd :: "pyval \<Rightarrow> request res" where
  "tdigest_min_cmd key = Inr ([PStr ''TDIGEST.MIN'', key], [])"

definition tdigest_max_cmd :: "pyval \<Rightarrow> request res" where
  "tdigest_max_cmd key = Inr ([PStr ''TDIGEST.MAX'', key], [])"

definition tdigest_quantile_cmd :: "pyval \<Rightarrow> pyval \<Rightarrow> pyval list \<Rightarrow> request res" where
  "tdigest_quantile_cmd key quantile quantiles =
     Inr ([PStr ''TDIGEST.QUANTILE'', key, quantile] @ quantiles, [])"

definition tdigest_cdf_cmd :: "pyval \<Rightarrow> pyval \<Rightarrow> pyval list \<Rightarrow> request res" where
  "tdigest_cdf_cmd key value' values = Inr ([PStr ''TDIGEST.CDF'', key, value'] @ values, [])"

definition tdigest_info_cmd :: "pyval \<Rightarrow> request res" where
  "tdigest_info_cmd key = Inr ([PStr ''TDIGEST.INFO'', key], [])"

definition tdigest_trimmed_mean_cmd :: "pyval \<Rightarrow> pyval \<Rightarrow> pyval \<Rightarrow> request res" where
  "tdigest_trimmed_mean_cmd key low_cut_quantile high_cut_quantile =
     Inr ([PStr ''TDIGEST.TRIMMED_MEAN'', key, low_cut_quantile, high_cut_quantile], [])"

definition tdigest_rank_cmd :: "pyval \<Rightarrow> pyval \<Rightarrow> pyval list \<Rightarrow> request res" where
  "tdigest_rank_cmd key value' values = Inr ([PStr ''TDIGEST.RANK'', key, value'] @ values, [])"

definition tdigest_revrank_cmd :: "pyval \<Rightarrow> pyval \<Rightarrow> pyval list \<Rightarrow> request res" where
  "tdigest_revrank_cmd key value' values = Inr ([PStr ''TDIGEST.REVRANK'', key, value'] @ values, [])"

definition tdigest_byrank_cmd :: "pyval \<Rightarrow> pyval \<Rightarrow> pyval list \<Rightarrow> request res" where
  "tdigest_byrank_cmd key rank' ranks = Inr ([PStr ''TDIGEST.BYRANK'', key, rank'] @ ranks, [])"

definition tdigest_byrevrank_cmd :: "pyval \<Rightarrow> pyval \<Rightarrow> pyval list \<Rightarrow> request res" where
  "tdigest_byrevrank_cmd key rank' ranks = Inr ([PStr ''TDIGEST.BYREVRANK'', key, rank'] @ ranks, [])"

section \<open>CMSCommands (count-min sketches)\<close>

definition cms_initbydim_cmd :: "pyval \<Rightarrow> pyval \<Rightarrow> pyval \<Rightarrow> request res" where
  "cms_initbydim_cmd key width' depth' = Inr ([PStr ''CMS.INITBYDIM'', key, width', depth'], [])"

definition cms_initbyprob_cmd :: "pyval \<Rightarrow> pyval \<Rightarrow> pyval \<Rightarrow> request res" where
  "cms_initbyprob_cmd key error' probability =
     Inr ([PStr ''CMS.INITBYPROB'', key, error', probability], [])"

definition cms_incrby_cmd :: "pyval \<Rightarrow> pyval \<Rightarrow> pyval \<Rightarrow> request res" where
  "cms_incrby_cmd key items' increments =
     (let params = [key] in
     res_bind (bloom_append_pairs params items' increments) (\<lambda>params.
     Inr ([PStr ''CMS.INCRBY''] @ params, [])))"

definition cms_query_cmd :: "pyval \<Rightarrow> pyval list \<Rightarrow> request res" where
  "cms_query_cmd key items' = Inr ([PStr ''CMS.QUERY'', key] @ items', [])"

definition cms_merge_cmd :: "pyval \<Rightarrow> pyval \<Rightarrow> pyval \<Rightarrow> pyval \<Rightarrow> request res" where
  "cms_merge_cmd destKey numKeys srcKeys weights =
     (let params = [destKey, numKeys] in
     res_bind (iterate srcKeys) (\<lambda>xs1.
     let params = params @ xs1 in
     res_bind (bloom_append_weights params weights) (\<lambda>params.
     Inr ([PStr ''CMS.MERGE''] @ params, []))))"

definition cms_info_cmd :: "pyval \<Rightarrow> request res" where
  "cms_info_cmd key = Inr ([PStr ''CMS.INFO'', key], [])"

end
