(* ===== verification/Cmd_Timeseries.thy ===== *)
theory Cmd_Timeseries
  imports Cmd_Base
begin

text \<open>
  The commands of the RedisTimeSeries module and of vector sets (\<open>redis/commands/timeseries\<close>, \<open>redis/commands/vectorset\<close>) and of
  the sentinels (\<open>redis/commands/sentinel.py\<close>): see \<open>Cmd_Base\<close>. An \<open>_append\<close> helper changes the argument list it is given;
  here it returns the list.
\<close>

section \<open>TimeSeriesCommands\<close>

definition ts_append_uncompressed :: "pyval list \<Rightarrow> pyval \<Rightarrow> pyval list" where
  "ts_append_uncompressed params uncompressed =
     (if truthy uncompressed then params @ [PStr ''ENCODING'', PStr ''UNCOMPRESSED''] else params)"

definition ts_append_with_labels :: "pyval list \<Rightarrow> pyval \<Rightarrow> pyval \<Rightarrow> pyval list res" where
  "ts_append_with_labels params with_labels select_labels =
     (if truthy with_labels \<and> truthy select_labels then
       Inl (Exc DataError ''with_labels and select_labels cannot be provided together.'')
     else
     let params = (if truthy with_labels then params @ [PStr ''WITHLABELS''] else params) in
     if truthy select_labels then
       res_bind (iterate select_labels) (\<lambda>xs1.
       let params = params @ [PStr ''SELECTED_LABELS''] @ xs1 in
       Inr params)
     else
       Inr params)"

definition ts_append_groupby_reduce :: "pyval list \<Rightarrow> pyval \<Rightarrow> pyval \<Rightarrow> pyval list res" where
  "ts_append_groupby_reduce params groupby reduce' =
     (if groupby \<noteq> PNone \<and> reduce' \<noteq> PNone then
       res_bind (py_upper reduce') (\<lambda>u1.
       let params = params @ [PStr ''GROUPBY'', groupby, PStr ''REDUCE'', u1] in
       Inr params)
     else
       Inr params)"

definition ts_append_retention :: "pyval list \<Rightarrow> pyval \<Rightarrow> pyval list" where
  "ts_append_retention params retention =
     (if retention \<noteq> PNone then params @ [PStr ''RETENTION'', retention] else params)"

definition ts_append_labels :: "pyval list \<Rightarrow> pyval \<Rightarrow> pyval list res" where
  "ts_append_labels params labels =
     (if truthy labels then
       let params = params @ [PStr ''LABELS''] in
       res_bind (items_of labels) (\<lambda>kvs1.
       let params = foldl (\<lambda>params (k, v). params @ [k, v]) params kvs1 in
       Inr params)
     else
       Inr params)"

definition ts_append_count :: "pyval list \<Rightarrow> pyval \<Rightarrow> pyval list" where
  "ts_append_count params count' = (if count' \<noteq> PNone then params @ [PStr ''COUNT'', count'] else params)"

definition ts_append_timestamp :: "pyval list \<Rightarrow> pyval \<Rightarrow> pyval list" where
  "ts_append_timestamp params timestamp' =
     (if timestamp' \<noteq> PNone then params @ [PStr ''TIMESTAMP'', timestamp'] else params)"

definition ts_append_align :: "pyval list \<Rightarrow> pyval \<Rightarrow> pyval list" where
  "ts_append_align params align = (if align \<noteq> PNone then params @ [PStr ''ALIGN'', align] else params)"

definition ts_append_aggregation :: "pyval list \<Rightarrow> pyval \<Rightarrow> pyval \<Rightarrow> pyval list" where
  "ts_append_aggregation params aggregation_type bucket_size_msec =
     (if aggregation_type \<noteq> PNone then params @ [PStr ''AGGREGATION'', aggregation_type, bucket_size_msec] else params)"

definition ts_append_chunk_size :: "pyval list \<Rightarrow> pyval \<Rightarrow> pyval list" where
  "ts_append_chunk_size params chunk_size =
     (if chunk_size \<noteq> PNone then params @ [PStr ''CHUNK_SIZE'', chunk_size] else params)"

definition ts_append_duplicate_policy :: "pyval list \<Rightarrow> pyval \<Rightarrow> pyval list" where
  "ts_append_duplicate_policy params duplicate_policy =
     (if duplicate_policy \<noteq> PNone then params @ [PStr ''DUPLICATE_POLICY'', duplicate_policy] else params)"

definition ts_append_on_duplicate :: "pyval list \<Rightarrow> pyval \<Rightarrow> pyval list" where
  "ts_append_on_duplicate params on_duplicate =
     (if on_duplicate \<noteq> PNone then params @ [PStr ''ON_DUPLICATE'', on_duplicate] else params)"

definition ts_append_filer_by_ts :: "pyval list \<Rightarrow> pyval \<Rightarrow> pyval list res" where
  "ts_append_filer_by_ts params ts_list =
     (if ts_list \<noteq> PNone then
       res_bind (iterate ts_list) (\<lambda>xs1.
       let params = params @ [PStr ''FILTER_BY_TS''] @ xs1 in
       Inr params)
     else
       Inr params)"

definition ts_append_filer_by_value :: "pyval list \<Rightarrow> pyval \<Rightarrow> pyval \<Rightarrow> pyval list" where
  "ts_append_filer_by_value params min_value max_value =
     (if min_value \<noteq> PNone \<and> max_value \<noteq> PNone then params @ [PStr ''FILTER_BY_VALUE'', min_value, max_value] else params)"

definition ts_append_latest :: "pyval list \<Rightarrow> pyval \<Rightarrow> pyval list" where
  "ts_append_latest params latest = (if truthy latest then params @ [PStr ''LATEST''] else params)"

definition ts_append_bucket_timestamp :: "pyval list \<Rightarrow> pyval \<Rightarrow> pyval list" where
  "ts_append_bucket_timestamp params bucket_timestamp =
     (if bucket_timestamp \<noteq> PNone then params @ [PStr ''BUCKETTIMESTAMP'', bucket_timestamp] else params)"

definition ts_append_empty :: "pyval list \<Rightarrow> pyval \<Rightarrow> pyval list" where
  "ts_append_empty params empty' = (if truthy empty' then params @ [PStr ''EMPTY''] else params)"

definition ts_append_insertion_filters :: "cmdlib \<Rightarrow> pyval list \<Rightarrow> pyval \<Rightarrow> pyval \<Rightarrow> pyval list res" where
  "ts_append_insertion_filters P params ignore_max_time_diff ignore_max_val_diff =
     (if (ignore_max_time_diff = PNone) \<noteq> (ignore_max_val_diff = PNone) then
       Inl (Exc PyValueError ''Both ignore_max_time_diff and ignore_max_val_diff must be set.'')
     else
     let params = (if ignore_max_time_diff \<noteq> PNone \<and> ignore_max_val_diff \<noteq> PNone
        then params @ [PStr ''IGNORE'', PStr (py_str P ignore_max_time_diff), PStr (py_str P ignore_max_val_diff)]
        else params) in
     Inr params)"

definition ts_range_params :: "pyval \<Rightarrow> pyval \<Rightarrow> pyval \<Rightarrow> pyval \<Rightarrow> pyval \<Rightarrow> pyval \<Rightarrow> pyval \<Rightarrow> pyval \<Rightarrow> pyval \<Rightarrow> pyval \<Rightarrow> pyval \<Rightarrow> pyval \<Rightarrow> pyval \<Rightarrow> pyval list res" where
  "ts_range_params key from_time to_time count' aggregation_type bucket_size_msec filter_by_ts filter_by_min_value filter_by_max_value align latest bucket_timestamp empty' =
     (let params = [key, from_time, to_time] in
     let params = ts_append_latest params latest in
     res_bind (ts_append_filer_by_ts params filter_by_ts) (\<lambda>params.
     let params = ts_append_filer_by_value params filter_by_min_value filter_by_max_value in
     let params = ts_append_count params count' in
     let params = ts_append_align params align in
     let params = ts_append_aggregation params aggregation_type bucket_size_msec in
     let params = ts_append_bucket_timestamp params bucket_timestamp in
     let params = ts_append_empty params empty' in
     Inr params))"

definition ts_mrange_params :: "pyval \<Rightarrow> pyval \<Rightarrow> pyval \<Rightarrow> pyval \<Rightarrow> pyval \<Rightarrow> pyval \<Rightarrow> pyval \<Rightarrow> pyval \<Rightarrow> pyval \<Rightarrow> pyval \<Rightarrow> pyval \<Rightarrow> pyval \<Rightarrow> pyval \<Rightarrow> pyval \<Rightarrow> pyval \<Rightarrow> pyval \<Rightarrow> pyval \<Rightarrow> pyval list res" where
  "ts_mrange_params aggregation_type bucket_size_msec count' filters from_time to_time with_labels filter_by_ts filter_by_min_value filter_by_max_value groupby reduce' select_labels align latest bucket_timestamp empty' =
     (let params = [from_time, to_time] in
     let params = ts_append_latest params latest in
     res_bind (ts_append_filer_by_ts params filter_by_ts) (\<lambda>params.
     let params = ts_append_filer_by_value params filter_by_min_value filter_by_max_value in
     res_bind (ts_append_with_labels params with_labels select_labels) (\<lambda>params.
     let params = ts_append_count params count' in
     let params = ts_append_align params align in
     let params = ts_append_aggregation params aggregation_type bucket_size_msec in
     let params = ts_append_bucket_timestamp params bucket_timestamp in
     let params = ts_append_empty params empty' in
     let params = params @ [PStr ''FILTER''] in
     res_bind (iterate filters) (\<lambda>xs1.
     let params = params @ xs1 in
     ts_append_groupby_reduce params groupby reduce'))))"

definition ts_create_cmd :: "cmdlib \<Rightarrow> pyval \<Rightarrow> pyval \<Rightarrow> pyval \<Rightarrow> pyval \<Rightarrow> pyval \<Rightarrow> pyval \<Rightarrow> pyval \<Rightarrow> pyval \<Rightarrow> request res" where
  "ts_create_cmd P key retention_msecs uncompressed labels chunk_size duplicate_policy ignore_max_time_diff ignore_max_val_diff =
     (let params = [key] in
     let params = ts_append_retention params retention_msecs in
     let params = ts_append_uncompressed params uncompressed in
     let params = ts_append_chunk_size params chunk_size in
     let params = ts_append_duplicate_policy params duplicate_policy in
     res_bind (ts_append_labels params labels) (\<lambda>params.
     res_bind (ts_append_insertion_filters P params ignore_max_time_diff ignore_max_val_diff) (\<lambda>params.
     Inr ([PStr ''TS.CREATE''] @ params, []))))"

definition ts_alter_cmd :: "cmdlib \<Rightarrow> pyval \<Rightarrow> pyval \<Rightarrow> pyval \<Rightarrow> pyval \<Rightarrow> pyval \<Rightarrow> pyval \<Rightarrow> pyval \<Rightarrow> request res" where
  "ts_alter_cmd P key retention_msecs labels chunk_size duplicate_policy ignore_max_time_diff ignore_max_val_diff =
     (let params = [key] in
     let params = ts_append_retention params retention_msecs in
     let params = ts_append_chunk_size params chunk_size in
     let params = ts_append_duplicate_policy params duplicate_policy in
     res_bind (ts_append_labels params labels) (\<lambda>params.
     res_bind (ts_append_insertion_filters P params ignore_max_time_diff ignore_max_val_diff) (\<lambda>params.
     Inr ([PStr ''TS.ALTER''] @ params, []))))"

definition ts_add_cmd :: "cmdlib \<Rightarrow> pyval \<Rightarrow> pyval \<Rightarrow> pyval \<Rightarrow> pyval \<Rightarrow> pyval \<Rightarrow> pyval \<Rightarrow> pyval \<Rightarrow> pyval \<Rightarrow> pyval \<Rightarrow> pyval \<Rightarrow> pyval \<Rightarrow> request res" where
  "ts_add_cmd P key timestamp' value' retention_msecs uncompressed labels chunk_size duplicate_policy ignore_max_time_diff ignore_max_val_diff on_duplicate =
     (let params = [key, timestamp', value'] in
     let params = ts_append_retention params retention_msecs in
     let params = ts_append_uncompressed params uncompressed in
     let params = ts_append_chunk_size params chunk_size in
     let params = ts_append_duplicate_policy params duplicate_policy in
     res_bind (ts_append_labels params labels) (\<lambda>params.
     res_bind (ts_append_insertion_filters P params ignore_max_time_diff ignore_max_val_diff) (\<lambda>params.
     let params = ts_append_on_duplicate params on_duplicate in
     Inr ([PStr ''TS.ADD''] @ params, []))))"

definition ts_madd_cmd :: "pyval \<Rightarrow> request res" where
  "ts_madd_cmd ktv_tuples =
     (let params = [] in
     res_bind (iterate ktv_tuples) (\<lambda>xs1.
     res_bind
      (res_fold (\<lambda>params ktv.
         res_bind (iterate ktv) (\<lambda>xs2.
         let params = params @ xs2 in
         Inr params))
        params xs1)
      (\<lambda>params.
     Inr ([PStr ''TS.MADD''] @ params, []))))"

definition ts_incrby_cmd :: "cmdlib \<Rightarrow> pyval \<Rightarrow> pyval \<Rightarrow> pyval \<Rightarrow> pyval \<Rightarrow> pyval \<Rightarrow> pyval \<Rightarrow> pyval \<Rightarrow> pyval \<Rightarrow> pyval \<Rightarrow> pyval \<Rightarrow> request res" where
  "ts_incrby_cmd P key value' timestamp' retention_msecs uncompressed labels chunk_size duplicate_policy ignore_max_time_diff ignore_max_val_diff =
     (let params = [key, value'] in
     let params = ts_append_timestamp params timestamp' in
     let params = ts_append_retention params retention_msecs in
     let params = ts_append_uncompressed params uncompressed in
     let params = ts_append_chunk_size params chunk_size in
     let params = ts_append_duplicate_policy params duplicate_policy in
     res_bind (ts_append_labels params labels) (\<lambda>params.
     res_bind (ts_append_insertion_filters P params ignore_max_time_diff ignore_max_val_diff) (\<lambda>params.
     Inr ([PStr ''TS.INCRBY''] @ params, []))))"

definition ts_decrby_cmd :: "cmdlib \<Rightarrow> pyval \<Rightarrow> pyval \<Rightarrow> pyval \<Rightarrow> pyval \<Rightarrow> pyval \<Rightarrow> pyval \<Rightarrow> pyval \<Rightarrow> pyval \<Rightarrow> pyval \<Rightarrow> pyval \<Rightarrow> request res" where
  "ts_decrby_cmd P key value' timestamp' retention_msecs uncompressed labels chunk_size duplicate_policy ignore_max_time_diff ignore_max_val_diff =
     (let params = [key, value'] in
     let params = ts_append_timestamp params timestamp' in
     let params = ts_append_retention params retention_msecs in
     let params = ts_append_uncompressed params uncompressed in
     let params = ts_append_chunk_size params chunk_size in
     let params = ts_append_duplicate_policy params duplicate_policy in
     res_bind (ts_append_labels params labels) (\<lambda>params.
     res_bind (ts_append_insertion_filters P params ignore_max_time_diff ignore_max_val_diff) (\<lambda>params.
     Inr ([PStr ''TS.DECRBY''] @ params, []))))"

definition ts_delete_cmd :: "pyval \<Rightarrow> pyval \<Rightarrow> pyval \<Rightarrow> request res" where
  "ts_delete_cmd key from_time to_time = Inr ([PStr ''TS.DEL'', key, from_time, to_time], [])"

definition ts_createrule_cmd :: "pyval \<Rightarrow> pyval \<Rightarrow> pyval \<Rightarrow> pyval \<Rightarrow> pyval \<Rightarrow> request res" where
  "ts_createrule_cmd source_key dest_key aggregation_type bucket_size_msec align_timestamp =
     (let params = [source_key, dest_key] in
     let params = ts_append_aggregation params aggregation_type bucket_size_msec in
     let params = (if align_timestamp \<noteq> PNone then params @ [align_timestamp] else params) in
     Inr ([PStr ''TS.CREATERULE''] @ params, []))"

definition ts_deleterule_cmd :: "pyval \<Rightarrow> pyval \<Rightarrow> request res" where
  "ts_deleterule_cmd source_key dest_key = Inr ([PStr ''TS.DELETERULE'', source_key, dest_key], [])"

definition ts_range_cmd :: "pyval \<Rightarrow> pyval \<Rightarrow> pyval \<Rightarrow> pyval \<Rightarrow> pyval \<Rightarrow> pyval \<Rightarrow> pyval \<Rightarrow> pyval \<Rightarrow> pyval \<Rightarrow> pyval \<Rightarrow> pyval \<Rightarrow> pyval \<Rightarrow> pyval \<Rightarrow> request res" where
  "ts_range_cmd key from_time to_time count' aggregation_type bucket_size_msec filter_by_ts filter_by_min_value filter_by_max_value align latest bucket_timestamp empty' =
     (res_bind (ts_range_params key from_time to_time count' aggregation_type bucket_size_msec filter_by_ts filter_by_min_value filter_by_max_value align latest bucket_timestamp empty') (\<lambda>params.
     Inr ([PStr ''TS.RANGE''] @ params, [(''keys'', PList [key])])))"

definition ts_revrange_cmd :: "pyval \<Rightarrow> pyval \<Rightarrow> pyval \<Rightarrow> pyval \<Rightarrow> pyval \<Rightarrow> pyval \<Rightarrow> pyval \<Rightarrow> pyval \<Rightarrow> pyval \<Rightarrow> pyval \<Rightarrow> pyval \<Rightarrow> pyval \<Rightarrow> pyval \<Rightarrow> request res" where
  "ts_revrange_cmd key from_time to_time count' aggregation_type bucket_size_msec filter_by_ts filter_by_min_value filter_by_max_value align latest bucket_timestamp empty' =
     (res_bind (ts_range_params key from_time to_time count' aggregation_type bucket_size_msec filter_by_ts filter_by_min_value filter_by_max_value align latest bucket_timestamp empty') (\<lambda>params.
     Inr ([PStr ''TS.REVRANGE''] @ params, [(''keys'', PList [key])])))"

definition ts_mrange_cmd :: "pyval \<Rightarrow> pyval \<Rightarrow> pyval \<Rightarrow> pyval \<Rightarrow> pyval \<Rightarrow> pyval \<Rightarrow> pyval \<Rightarrow> pyval \<Rightarrow> pyval \<Rightarrow> pyval \<Rightarrow> pyval \<Rightarrow> pyval \<Rightarrow> pyval \<Rightarrow> pyval \<Rightarrow> pyval \<Rightarrow> pyval \<Rightarrow> pyval \<Rightarrow> request res" where
  "ts_mrange_cmd from_time to_time filters count' aggregation_type bucket_size_msec with_labels filter_by_ts filter_by_min_value filter_by_max_value groupby reduce' select_labels align latest bucket_timestamp empty' =
     (res_bind (ts_mrange_params aggregation_type bucket_size_msec count' filters from_time to_time with_labels filter_by_ts filter_by_min_value filter_by_max_value groupby reduce' select_labels align latest bucket_timestamp empty') (\<lambda>params.
     Inr ([PStr ''TS.MRANGE''] @ params, [])))"

definition ts_mrevrange_cmd :: "pyval \<Rightarrow> pyval \<Rightarrow> pyval \<Rightarrow> pyval \<Rightarrow> pyval \<Rightarrow> pyval \<Rightarrow> pyval \<Rightarrow> pyval \<Rightarrow> pyval \<Rightarrow> pyval \<Rightarrow> pyval \<Rightarrow> pyval \<Rightarrow> pyval \<Rightarrow> pyval \<Rightarrow> pyval \<Rightarrow> pyval \<Rightarrow> pyval \<Rightarrow> request res" where
  "ts_mrevrange_cmd from_time to_time filters count' aggregation_type bucket_size_msec with_labels filter_by_ts filter_by_min_value filter_by_max_value groupby reduce' select_labels align latest bucket_timestamp empty' =
     (res_bind (ts_mrange_params aggregation_type bucket_size_msec count' filters from_time to_time with_labels filter_by_ts filter_by_min_value filter_by_max_value groupby reduce' select_labels align latest bucket_timestamp empty') (\<lambda>params.
     Inr ([PStr ''TS.MREVRANGE''] @ params, [])))"

definition ts_get_cmd :: "pyval \<Rightarrow> pyval \<Rightarrow> request res" where
  "ts_get_cmd key latest =
     (let params = [key] in
     let params = ts_append_latest params latest in
     Inr ([PStr ''TS.GET''] @ params, [(''keys'', PList [key])]))"

definition ts_mget_cmd :: "pyval \<Rightarrow> pyval \<Rightarrow> pyval \<Rightarrow> pyval \<Rightarrow> request res" where
  "ts_mget_cmd filters with_labels select_labels latest =
     (let params = [] in
     let params = ts_append_latest params latest in
     res_bind (ts_append_with_labels params with_labels select_labels) (\<lambda>params.
     let params = params @ [PStr ''FILTER''] in
     res_bind (iterate filters) (\<lambda>xs1.
     let params = params @ xs1 in
     Inr ([PStr ''TS.MGET''] @ params, []))))"

definition ts_info_cmd :: "pyval \<Rightarrow> request res" where
  "ts_info_cmd key = Inr ([PStr ''TS.INFO'', key], [(''keys'', PList [key])])"

definition ts_queryindex_cmd :: "pyval \<Rightarrow> request res" where
  "ts_queryindex_cmd filters =
     (res_bind (iterate filters) (\<lambda>xs1.
     Inr ([PStr ''TS.QUERYINDEX''] @ xs1, [])))"

section \<open>VectorSetCommands\<close>

definition vset_vadd_cmd :: "cmdlib \<Rightarrow> pyval \<Rightarrow> pyval \<Rightarrow> pyval \<Rightarrow> pyval \<Rightarrow> pyval \<Rightarrow> pyval \<Rightarrow> pyval \<Rightarrow> pyval \<Rightarrow> pyval \<Rightarrow> request res" where
  "vset_vadd_cmd P key vector element reduce_dim cas quantization ef attributes numlinks =
     (if \<not> (truthy vector) \<or> \<not> (truthy element) then
       Inl (Exc DataError ''Both vector and element must be provided'')
     else
     let pieces = [] in
     let pieces = (if truthy reduce_dim then pieces @ [PStr ''REDUCE'', reduce_dim] else pieces) in
     let values_pieces = [] in
     res_bind
      (if is_bytes vector then
       let values_pieces = values_pieces @ [PStr ''FP32'', vector] in
       Inr values_pieces
       else
       res_bind (py_len vector) (\<lambda>n1.
       let values_pieces = values_pieces @ [PStr ''VALUES'', PInt (int n1)] in
       res_bind (iterate vector) (\<lambda>xs2.
       let values_pieces = values_pieces @ xs2 in
       Inr values_pieces)))
      (\<lambda>values_pieces.
     let pieces = pieces @ values_pieces in
     let pieces = pieces @ [element] in
     let pieces = (if truthy cas then pieces @ [PStr ''CAS''] else pieces) in
     res_bind
      (if truthy quantization then
       res_bind (enum_value quantization) (\<lambda>o3.
       let pieces = pieces @ [o3] in
       Inr pieces)
       else
       Inr pieces)
      (\<lambda>pieces.
     let pieces = (if truthy ef then pieces @ [PStr ''EF'', ef] else pieces) in
     res_bind
      (if truthy attributes then
       res_bind
        (if is_dict attributes then
         json_dumps P attributes
         else
         let attributes_json = attributes in
         Inr attributes_json)
        (\<lambda>attributes_json.
       let pieces = pieces @ [PStr ''SETATTR'', attributes_json] in
       Inr pieces)
       else
       Inr pieces)
      (\<lambda>pieces.
     let pieces = (if truthy numlinks then pieces @ [PStr ''M'', numlinks] else pieces) in
     Inr ([PStr ''VADD'', key] @ pieces, [])))))"

definition vset_vsim_cmd :: "pyval \<Rightarrow> pyval \<Rightarrow> pyval \<Rightarrow> pyval \<Rightarrow> pyval \<Rightarrow> pyval \<Rightarrow> pyval \<Rightarrow> pyval \<Rightarrow> pyval \<Rightarrow> request res" where
  "vset_vsim_cmd key input' with_scores count' ef filter' filter_ef truth no_thread =
     (if \<not> (truthy input') then
       Inl (Exc DataError ([CHR 0x27] @ ''input'' @ [CHR 0x27] @ '' should be provided''))
     else
     let pieces = [] in
     let options = [] in
     res_bind
      (if is_bytes input' then
       let pieces = pieces @ [PStr ''FP32'', input'] in
       Inr pieces
       else
       if is_list input' then
         res_bind (py_len input') (\<lambda>n1.
         let pieces = pieces @ [PStr ''VALUES'', PInt (int n1)] in
         res_bind (iterate input') (\<lambda>xs2.
         let pieces = pieces @ xs2 in
         Inr pieces))
       else
         let pieces = pieces @ [PStr ''ELE'', input'] in
         Inr pieces)
      (\<lambda>pieces.
     let (pieces, options) = (if truthy with_scores
        then (let pieces = pieces @ [PStr ''WITHSCORES''] in let options = opt_set options ''WITHSCORES'' (PBool True) in (pieces, options))
        else (pieces, options)) in
     let pieces = (if truthy count' then pieces @ [PStr ''COUNT'', count'] else pieces) in
     let pieces = (if truthy ef then pieces @ [PStr ''EF'', ef] else pieces) in
     let pieces = (if truthy filter' then pieces @ [PStr ''FILTER'', filter'] else pieces) in
     let pieces = (if truthy filter_ef then pieces @ [PStr ''FILTER-EF'', filter_ef] else pieces) in
     let pieces = (if truthy truth then pieces @ [PStr ''TRUTH''] else pieces) in
     let pieces = (if truthy no_thread then pieces @ [PStr ''NOTHREAD''] else pieces) in
     Inr ([PStr ''VSIM'', key] @ pieces, options)))"

definition vset_vdim_cmd :: "pyval \<Rightarrow> request res" where
  "vset_vdim_cmd key = Inr ([PStr ''VDIM'', key], [])"

definition vset_vcard_cmd :: "pyval \<Rightarrow> request res" where
  "vset_vcard_cmd key = Inr ([PStr ''VCARD'', key], [])"

definition vset_vrem_cmd :: "pyval \<Rightarrow> pyval \<Rightarrow> request res" where
  "vset_vrem_cmd key element = Inr ([PStr ''VREM'', key, element], [])"

definition vset_vlinks_cmd :: "pyval \<Rightarrow> pyval \<Rightarrow> pyval \<Rightarrow> request res" where
  "vset_vlinks_cmd key element with_scores =
     (let options = [] in
     let pieces = [] in
     let pieces = pieces @ [key, element] in
     let (pieces, options) = (if truthy with_scores
        then (let pieces = pieces @ [PStr ''WITHSCORES''] in let options = opt_set options ''WITHSCORES'' (PBool True) in (pieces, options))
        else (pieces, options)) in
     Inr ([PStr ''VLINKS''] @ pieces, options))"

definition vset_vinfo_cmd :: "pyval \<Rightarrow> request res" where
  "vset_vinfo_cmd key = Inr ([PStr ''VINFO'', key], [])"

definition vset_vsetattr_cmd :: "cmdlib \<Rightarrow> pyval \<Rightarrow> pyval \<Rightarrow> pyval \<Rightarrow> request res" where
  "vset_vsetattr_cmd P key element attributes =
     (res_bind
      (if attributes = PNone then
       let attributes_json = PStr ''{}'' in
       Inr attributes_json
       else
       if is_dict attributes then
         json_dumps P attributes
       else
         let attributes_json = attributes in
         Inr attributes_json)
      (\<lambda>attributes_json.
     Inr ([PStr ''VSETATTR'', key, element, attributes_json], [])))"

definition vset_vgetattr_cmd :: "pyval \<Rightarrow> pyval \<Rightarrow> request res" where
  "vset_vgetattr_cmd key element = Inr ([PStr ''VGETATTR'', key, element], [])"

definition vset_vrandmember_cmd :: "pyval \<Rightarrow> pyval \<Rightarrow> request res" where
  "vset_vrandmember_cmd key count' =
     (let pieces = [] in
     let pieces = pieces @ [key] in
     let pieces = (if count' \<noteq> PNone then pieces @ [count'] else pieces) in
     Inr ([PStr ''VRANDMEMBER''] @ pieces, []))"

text \<open>\<open>vemb\<close> reads two options of the client's connections: the protocol and \<open>decode_responses\<close>.\<close>

definition vset_vemb_cmd :: "cmdlib \<Rightarrow> pyval \<Rightarrow> pyval \<Rightarrow> pyval \<Rightarrow> pyval \<Rightarrow> pyval \<Rightarrow> request res" where
  "vset_vemb_cmd P protocol dec key element raw =
     (let pieces = [key, element] in
     let options = (if list_ex (py_eq P protocol) [PStr ''3'', PInt 3] then opt_set [] ''RESP3'' (PBool True) else []) in
     let (pieces, options) =
       (if truthy raw then
          (let options = opt_set options ''NEVER_DECODE'' (PBool True) in
           let options = (if truthy dec then opt_set options ''ALLOW_DECODING'' (PBool True) else options) in
           (pieces @ [PStr ''RAW''], opt_set options ''RAW'' (PBool True)))
        else (pieces, options)) in
     Inr ([PStr ''VEMB''] @ pieces, options))"


section \<open>SentinelCommands\<close>

definition sentinel_get_master_addr_by_name_cmd :: "pyval \<Rightarrow> request res" where
  "sentinel_get_master_addr_by_name_cmd service_name =
     Inr ([PStr ''SENTINEL GET-MASTER-ADDR-BY-NAME'', service_name], [])"

definition sentinel_master_cmd :: "pyval \<Rightarrow> request res" where
  "sentinel_master_cmd service_name = Inr ([PStr ''SENTINEL MASTER'', service_name], [])"

definition sentinel_masters_cmd :: "request res" where
  "sentinel_masters_cmd = Inr ([PStr ''SENTINEL MASTERS''], [])"

definition sentinel_monitor_cmd :: "pyval \<Rightarrow> pyval \<Rightarrow> pyval \<Rightarrow> pyval \<Rightarrow> request res" where
  "sentinel_monitor_cmd name ip port quorum =
     Inr ([PStr ''SENTINEL MONITOR'', name, ip, port, quorum], [])"

definition sentinel_remove_cmd :: "pyval \<Rightarrow> request res" where
  "sentinel_remove_cmd name = Inr ([PStr ''SENTINEL REMOVE'', name], [])"

definition sentinel_sentinels_cmd :: "pyval \<Rightarrow> request res" where
  "sentinel_sentinels_cmd service_name = Inr ([PStr ''SENTINEL SENTINELS'', service_name], [])"

definition sentinel_set_cmd :: "pyval \<Rightarrow> pyval \<Rightarrow> pyval \<Rightarrow> request res" where
  "sentinel_set_cmd name option' value' = Inr ([PStr ''SENTINEL SET'', name, option', value'], [])"

definition sentinel_slaves_cmd :: "pyval \<Rightarrow> request res" where
  "sentinel_slaves_cmd service_name = Inr ([PStr ''SENTINEL SLAVES'', service_name], [])"

definition sentinel_reset_cmd :: "pyval \<Rightarrow> request res" where
  "sentinel_reset_cmd pattern = Inr ([PStr ''SENTINEL RESET'', pattern], [(''once'', PBool True)])"

definition sentinel_failover_cmd :: "pyval \<Rightarrow> request res" where
  "sentinel_failover_cmd new_master_name = Inr ([PStr ''SENTINEL FAILOVER'', new_master_name], [])"

definition sentinel_ckquorum_cmd :: "pyval \<Rightarrow> request res" where
  "sentinel_ckquorum_cmd new_master_name =
     Inr ([PStr ''SENTINEL CKQUORUM'', new_master_name], [(''once'', PBool True)])"

definition sentinel_flushconfig_cmd :: "request res" where
  "sentinel_flushconfig_cmd = Inr ([PStr ''SENTINEL FLUSHCONFIG''], [])"

end
