(* ===== verification/Cmd_Spec.thy ===== *)
theory Cmd_Spec
  imports Cmd_Stateful Cmd_Modules Cmd_Timeseries
begin

text \<open>
  What the command builders promise: a command the client may cache names the keys it reads, and the server executes
  the operations of a \<open>BITFIELD\<close> builder under the overflow modes the caller asked for.
\<close>

section \<open>The overflow modes of \<open>BITFIELD\<close>\<close>

text \<open>The server reads the arguments from left to right; a mode holds until the next one.\<close>

function bf_server :: "pyval \<Rightarrow> pyval list \<Rightarrow> (pyval \<times> pyval list) list" where
  "bf_server m [] = []"
| "bf_server m (t # ts) =
     (if t = PStr ''OVERFLOW'' then (case ts of [] \<Rightarrow> [] | m' # ts' \<Rightarrow> bf_server m' ts')
      else let n = (if t = PStr ''GET'' then 2 else 3) in (m, t # take n ts) # bf_server m (drop n ts))"
  by pat_completeness auto
termination by (relation "measure (\<lambda>(_, ts). length ts)") auto

datatype bf_call =
    CallOverflow pyval
  | CallIncrby pyval pyval pyval pyval
  | CallGet pyval pyval
  | CallSet pyval pyval pyval

fun bf_run :: "bf_call \<Rightarrow> bitfield_op \<Rightarrow> bitfield_op res" where
  "bf_run (CallOverflow m) b = bf_overflow m b"
| "bf_run (CallIncrby f p i m) b = bf_incrby f p i m b"
| "bf_run (CallGet f p) b = Inr (bf_get f p b)"
| "bf_run (CallSet f p v) b = Inr (bf_set f p v b)"

text \<open>What the caller asks for: a mode applies from the call that gives it; upper and lower case do not matter.\<close>

definition mode_of :: "pyval \<Rightarrow> pyval" where
  "mode_of m = (case py_upper m of Inl _ \<Rightarrow> m | Inr m' \<Rightarrow> m')"

fun bf_intent :: "pyval \<Rightarrow> bf_call list \<Rightarrow> (pyval \<times> pyval list) list" where
  "bf_intent m [] = []"
| "bf_intent m (CallOverflow m' # cs) = bf_intent (mode_of m') cs"
| "bf_intent m (CallIncrby f p i m' # cs) =
     (let m1 = (if m' = PNone then m else mode_of m') in (m1, [PStr ''INCRBY'', f, p, i]) # bf_intent m1 cs)"
| "bf_intent m (CallGet f p # cs) = (m, [PStr ''GET'', f, p]) # bf_intent m cs"
| "bf_intent m (CallSet f p v # cs) = (m, [PStr ''SET'', f, p, v]) # bf_intent m cs"

definition start_mode :: "pyval \<Rightarrow> pyval" where
  "start_mode d = (if truthy d then mode_of d else PStr ''WRAP'')"

text \<open>The arguments after the key, and the mode the server is in after them: what the builder tracks.\<close>

definition bf_args :: "bitfield_op \<Rightarrow> pyval list" where
  "bf_args b = concat (operations b)"

lemma bf_command_args: "bf_command b = [PStr ''BITFIELD'', bf_key b] @ bf_args b"
proof -
  have "foldl (@) acc xs = acc @ concat xs" for acc :: "pyval list" and xs
    by (induction xs arbitrary: acc) auto
  then show ?thesis by (simp add: bf_command_def bf_args_def)
qed

text \<open>One operation is one group of arguments.\<close>

definition bf_op :: "pyval list \<Rightarrow> bool" where
  "bf_op xs \<longleftrightarrow> (\<exists>m. xs = [PStr ''OVERFLOW'', m]) \<or> (\<exists>f p. xs = [PStr ''GET'', f, p])
     \<or> (\<exists>f p v. xs = [PStr ''SET'', f, p, v]) \<or> (\<exists>f p i. xs = [PStr ''INCRBY'', f, p, i])"

definition bf_ops_mode :: "pyval \<Rightarrow> pyval list list \<Rightarrow> pyval" where
  "bf_ops_mode m ops = foldl (\<lambda>m xs. if xs ! 0 = PStr ''OVERFLOW'' then xs ! 1 else m) m ops"

lemma bf_ops_mode_snoc [simp]:
  "bf_ops_mode m (ops @ [xs]) = (if xs ! 0 = PStr ''OVERFLOW'' then xs ! 1 else bf_ops_mode m ops)"
  by (simp add: bf_ops_mode_def)

lemma bf_server_append:
  "list_all bf_op ops \<Longrightarrow> bf_server m (concat ops @ ts) = bf_server m (concat ops) @ bf_server (bf_ops_mode m ops) ts"
proof (induction ops arbitrary: m)
  case (Cons xs ops)
  then show ?case by (auto simp: bf_op_def bf_ops_mode_def)
qed (simp add: bf_ops_mode_def)

text \<open>The builder's invariant: its last mode is the one the server will be in.\<close>

definition bf_inv :: "bitfield_op \<Rightarrow> bool" where
  "bf_inv b \<longleftrightarrow> list_all bf_op (operations b) \<and> bf_ops_mode (PStr ''WRAP'') (operations b) = last_overflow b"

abbreviation bf_meaning :: "bitfield_op \<Rightarrow> (pyval \<times> pyval list) list" where
  "bf_meaning b \<equiv> bf_server (PStr ''WRAP'') (bf_args b)"

lemma bf_meaning_snoc:
  "bf_inv b \<Longrightarrow> bf_server (PStr ''WRAP'') (bf_args (b\<lparr>operations := operations b @ [xs]\<rparr>))
     = bf_meaning b @ bf_server (last_overflow b) xs"
  using bf_server_append [of "operations b" "PStr ''WRAP''" xs] by (simp add: bf_inv_def bf_args_def)

lemma bf_overflow_step:
  assumes "bf_inv b" "bf_overflow m b = Inr b'"
  shows "bf_inv b'" "bf_meaning b' = bf_meaning b" "last_overflow b' = mode_of m" "bf_key b' = bf_key b"
    "default_overflow b' = default_overflow b"
  using assms bf_meaning_snoc [OF assms(1)]
  by (auto simp: bf_overflow_def res_bind_Inr mode_of_def bf_inv_def bf_op_def bf_args_def split: if_splits)

lemma bf_op_step:
  assumes "bf_inv b" "bf_op xs" "xs ! 0 \<noteq> PStr ''OVERFLOW''" "b' = b\<lparr>operations := operations b @ [xs]\<rparr>"
  shows "bf_inv b'" "bf_meaning b' = bf_meaning b @ bf_server (last_overflow b) xs" "last_overflow b' = last_overflow b"
  using assms bf_meaning_snoc [OF assms(1), of xs] by (auto simp: bf_inv_def)

lemma bf_call_step:
  assumes "bf_inv b" "bf_run c b = Inr b'"
  shows "bf_inv b' \<and> bf_key b' = bf_key b \<and> default_overflow b' = default_overflow b \<and>
    (\<forall>cs. bf_meaning b' @ bf_intent (last_overflow b') cs = bf_meaning b @ bf_intent (last_overflow b) (c # cs))"
proof (cases c)
  case (CallOverflow m)
  then show ?thesis using bf_overflow_step [OF assms(1), of m b'] assms(2) by simp
next
  case (CallIncrby f p i m)
  then obtain b1 where b1: "(if m \<noteq> PNone then bf_overflow m b else Inr b) = Inr b1"
    and b': "b' = b1\<lparr>operations := operations b1 @ [[PStr ''INCRBY'', f, p, i]]\<rparr>"
    using assms(2) by (auto simp: bf_incrby_def res_bind_Inr)
  have 1: "bf_inv b1" "bf_meaning b1 = bf_meaning b" "bf_key b1 = bf_key b" "default_overflow b1 = default_overflow b"
    "last_overflow b1 = (if m = PNone then last_overflow b else mode_of m)"
    using b1 bf_overflow_step [OF assms(1), of m b1] assms(1) by (auto split: if_splits)
  show ?thesis
    using bf_op_step [OF 1(1) _ _ b'] 1 b' by (simp add: CallIncrby bf_op_def Let_def)
next
  case (CallGet f p)
  then show ?thesis using bf_op_step [OF assms(1), of "[PStr ''GET'', f, p]" b'] assms(2) by (auto simp: bf_get_def bf_op_def)
next
  case (CallSet f p v)
  then show ?thesis using bf_op_step [OF assms(1), of "[PStr ''SET'', f, p, v]" b'] assms(2) by (auto simp: bf_set_def bf_op_def)
qed

lemma bf_calls:
  "bf_inv b \<Longrightarrow> res_fold (\<lambda>b c. bf_run c b) b cs = Inr b' \<Longrightarrow>
     bf_inv b' \<and> bf_meaning b' = bf_meaning b @ bf_intent (last_overflow b) cs \<and> bf_key b' = bf_key b \<and>
     default_overflow b' = default_overflow b"
proof (induction cs arbitrary: b)
  case (Cons c cs)
  then obtain b1 where b1: "bf_run c b = Inr b1" "res_fold (\<lambda>b c. bf_run c b) b1 cs = Inr b'" by (auto simp: res_bind_Inr)
  note step = bf_call_step [OF Cons.prems(1) b1(1)]
  show ?case using Cons.IH [OF _ b1(2)] step by simp
qed simp

lemma bf_reset_fresh:
  assumes "bf_reset b = Inr b'"
  shows "bf_inv b'" "bf_meaning b' = []" "last_overflow b' = start_mode (default_overflow b)" "bf_key b' = bf_key b"
    "bitfield (bf_key b) (default_overflow b) = Inr b'" "default_overflow b' = default_overflow b"
proof -
  let ?b0 = "b\<lparr>operations := [], last_overflow := PStr ''WRAP''\<rparr>"
  have inv: "bf_inv ?b0" by (simp add: bf_inv_def bf_ops_mode_def)
  have wrap: "mode_of (PStr ''WRAP'') = PStr ''WRAP''"
    by (simp add: mode_of_def py_upper_def on_text_def upper_char_def)
  note s = bf_overflow_step [OF inv assms [unfolded bf_reset_def]]
  show "bf_inv b'" "bf_meaning b' = []" "last_overflow b' = start_mode (default_overflow b)" "bf_key b' = bf_key b"
    "default_overflow b' = default_overflow b"
    using s wrap by (auto simp: bf_args_def start_mode_def split: if_splits)
  show "bitfield (bf_key b) (default_overflow b) = Inr b'" using assms by (cases b) (auto simp: bitfield_def bf_reset_def)
qed

text \<open>
  C40: the BITFIELD builder. Whatever overflow, incrby, get and set calls are made on a new builder, execute sends one
  BITFIELD command for its key, and the server, reading it from left to right, performs exactly the operations that
  were called for, in order, each under the overflow mode the caller asked for last (the mode of an incrby holds from
  that call on, the default mode is the builder's, WRAP without one), though an OVERFLOW is sent only where the mode
  changes; the builder is then as it was when it was made, so that the next batch starts afresh.
\<close>

theorem bitfield_modes:
  assumes "bitfield key d = Inr b0" "res_fold (\<lambda>b c. bf_run c b) b0 calls = Inr b" "bf_execute b = Inr ((args, opts), b')"
  shows "take 2 args = [PStr ''BITFIELD'', key] \<and> opts = [] \<and>
    bf_server (PStr ''WRAP'') (drop 2 args) = bf_intent (start_mode d) calls \<and> b' = b0"
proof -
  note f = bf_reset_fresh [OF assms(1) [unfolded bitfield_def]]
  note c = bf_calls [OF f(1) assms(2)]
  have x: "bf_reset b = Inr b'" "args = bf_command b" "opts = []" using assms(3) by (auto simp: bf_execute_def res_map_def res_bind_Inr)
  have "bitfield key d = Inr b'" using bf_reset_fresh(5) [OF x(1)] c f by simp
  then show ?thesis using x f c assms(1) by (simp add: bf_command_args)
qed

text \<open>A builder with a default mode: the second INCRBY names its own, the GET after it runs under it as well.\<close>

theorem bitfield_modes_witness:
  "\<exists>b0 b b' args. bitfield (PStr ''k'') (PStr ''sat'') = Inr b0 \<and>
     res_fold (\<lambda>b c. bf_run c b) b0
       [CallIncrby (PStr ''u8'') (PInt 0) (PInt 1) PNone, CallIncrby (PStr ''u8'') (PInt 8) (PInt 1) (PStr ''FAIL''),
        CallGet (PStr ''u8'') (PInt 0)] = Inr b \<and>
     bf_execute b = Inr ((args, []), b') \<and>
     bf_server (PStr ''WRAP'') (drop 2 args) =
       [(PStr ''SAT'', [PStr ''INCRBY'', PStr ''u8'', PInt 0, PInt 1]),
        (PStr ''FAIL'', [PStr ''INCRBY'', PStr ''u8'', PInt 8, PInt 1]), (PStr ''FAIL'', [PStr ''GET'', PStr ''u8'', PInt 0])]"
proof -
  let ?calls = "[CallIncrby (PStr ''u8'') (PInt 0) (PInt 1) PNone, CallIncrby (PStr ''u8'') (PInt 8) (PInt 1) (PStr ''FAIL''),
        CallGet (PStr ''u8'') (PInt 0)]"
  note d = bitfield_def bf_reset_def bf_overflow_def py_upper_def on_text_def upper_char_def res_map_def bf_incrby_def bf_get_def
    bf_execute_def
  obtain b0 where b0: "bitfield (PStr ''k'') (PStr ''sat'') = Inr b0" by (simp add: d)
  obtain b where b: "res_fold (\<lambda>b c. bf_run c b) b0 ?calls = Inr b" using b0 by (simp add: d)
  obtain args b' where x: "bf_execute b = Inr ((args, []), b')" using b0 b by (auto simp: d)
  have m: "mode_of (PStr ''sat'') = PStr ''SAT''" "mode_of (PStr ''FAIL'') = PStr ''FAIL''" by code_simp+
  have "bf_server (PStr ''WRAP'') (drop 2 args) = bf_intent (start_mode (PStr ''sat'')) ?calls"
    using bitfield_modes [OF b0 b x] by simp
  then have "bf_server (PStr ''WRAP'') (drop 2 args) =
       [(PStr ''SAT'', [PStr ''INCRBY'', PStr ''u8'', PInt 0, PInt 1]),
        (PStr ''FAIL'', [PStr ''INCRBY'', PStr ''u8'', PInt 8, PInt 1]), (PStr ''FAIL'', [PStr ''GET'', PStr ''u8'', PInt 0])]"
    by (simp add: start_mode_def m Let_def)
  then show ?thesis using b0 b x by blast
qed

section \<open>The keys of cacheable commands\<close>

text \<open>The client-side cache files a reply under \<open>tuple(options["keys"])\<close> and drops it when the server invalidates one of
  them: a request can be cached safely if its \<open>keys\<close> option is there and lists arguments of the command.\<close>

definition keyed :: "request res \<Rightarrow> bool" where
  "keyed r \<longleftrightarrow>
     (case r of
        Inl _ \<Rightarrow> True
      | Inr (args, opts) \<Rightarrow>
          (case iterate (opt_get opts ''keys'') of Inl _ \<Rightarrow> False | Inr ks \<Rightarrow> set ks \<subseteq> set (drop 1 args)))"

text \<open>The requests of the methods whose commands the default cache policy allows.\<close>

inductive read_request :: "cmdlib \<Rightarrow> request res \<Rightarrow> bool" for P where
  "read_request P (bitcount_cmd key start end' mode')"
| "read_request P (bitfield_ro_cmd key encoding offset items')"
| "read_request P (bitpos_cmd P key b start end' mode')"
| "read_request P (exists_cmd names)"
| "read_request P (geodist_cmd name place1 place2 unit')"
| "read_request P (geohash_cmd name values)"
| "read_request P (geopos_cmd name values)"
| "read_request P (geosearch_cmd name member longitude latitude unit' radius width height sort' count' any' withcoord withdist withhash)"
| "read_request P (get_cmd name)"
| "read_request P (getbit_cmd name offset)"
| "read_request P (getrange_cmd key start end')"
| "read_request P (hexists_cmd name key)"
| "read_request P (hget_cmd name key)"
| "read_request P (hgetall_cmd name)"
| "read_request P (hkeys_cmd name)"
| "read_request P (hlen_cmd name)"
| "read_request P (hmget_cmd name ks args)"
| "read_request P (hstrlen_cmd name key)"
| "read_request P (hvals_cmd name)"
| "read_request P (lcs_cmd P key1 key2 len' idx minmatchlen withmatchlen)"
| "read_request P (lindex_cmd name index')"
| "read_request P (llen_cmd name)"
| "read_request P (lpos_cmd name v rank count' maxlen)"
| "read_request P (lrange_cmd name start end')"
| "read_request P (mget_cmd ks args)"
| "read_request P (scard_cmd name)"
| "read_request P (sdiff_cmd ks args)"
| "read_request P (sinter_cmd ks args)"
| "read_request P (sintercard_cmd numkeys ks limit)"
| "read_request P (sismember_cmd name v)"
| "read_request P (smembers_cmd name)"
| "read_request P (smismember_cmd name vs args)"
| "read_request P (strlen_cmd name)"
| "read_request P (substr_cmd name start end')"
| "read_request P (sunion_cmd ks args)"
| "read_request P (type_cmd name)"
| "read_request P (xlen_cmd name)"
| "read_request P (xpending_cmd name groupname)"
| "read_request P (xrange_cmd P name min' max' count')"
| "read_request P (xread_cmd P streams count' block)"
| "read_request P (xrevrange_cmd P name max' min' count')"
| "read_request P (zcard_cmd name)"
| "read_request P (zcount_cmd name min' max')"
| "read_request P (zdiff_cmd ks withscores)"
| "read_request P (zinter_cmd ks aggregate withscores)"
| "read_request P (zintercard_cmd numkeys ks limit)"
| "read_request P (zlexcount_cmd name min' max')"
| "read_request P (zmscore_cmd key members)"
| "\<not> truthy desc \<Longrightarrow> read_request P (zrange_cmd name start end' desc withscores cast byscore bylex offset num)"
| "read_request P (zrangebylex_cmd name min' max' start num)"
| "read_request P (zrangebyscore_cmd name min' max' start num withscores cast)"
| "read_request P (zrank_cmd name v withscore)"
| "read_request P (zrevrangebylex_cmd name max' min' start num)"
| "read_request P (zrevrangebyscore_cmd name max' min' start num withscores cast)"
| "read_request P (zrevrank_cmd name v withscore)"
| "read_request P (zscore_cmd name v)"
| "read_request P (zunion_cmd ks aggregate withscores)"
| "read_request P (json_arrindex_cmd P name path scalar start stop)"
| "read_request P (json_arrlen_cmd P name path)"
| "read_request P (json_get_cmd P name args no_escape)"
| "read_request P (json_mget_cmd P ks path)"
| "read_request P (json_objkeys_cmd P name path)"
| "read_request P (json_objlen_cmd P name path)"
| "read_request P (json_resp_cmd P name path)"
| "read_request P (json_strlen_cmd P name path)"
| "read_request P (json_type_cmd P name path)"
| "read_request P (ts_get_cmd key latest)"
| "read_request P (ts_info_cmd key)"
| "read_request P (ts_range_cmd key from' to' count' aggregation bucket by_ts by_min by_max align latest stamp empty')"
| "read_request P (ts_revrange_cmd key from' to' count' aggregation bucket by_ts by_min by_max align latest stamp empty')"

named_theorems keyed_intros \<open>how a request comes to be keyed\<close>

lemma keyed_raise [simp]: "keyed (Inl e)"
  by (simp add: keyed_def)

lemma keyed_Inr:
  "iterate (opt_get opts ''keys'') = Inr ks \<Longrightarrow> set ks \<subseteq> set (drop 1 args) \<Longrightarrow> keyed (Inr (args, opts))"
  by (simp add: keyed_def)

lemma keyed_bind: "(\<And>x. m = Inr x \<Longrightarrow> keyed (f x)) \<Longrightarrow> keyed (res_bind m f)"
  by (cases m) auto

lemma opt_keys [simp]:
  "opt_get ((k, v) # opts) k' = (if k = k' then v else opt_get opts k')"
  "opt_get (opt_set opts k v) k' = (if k = k' then v else opt_get opts k')"
  "opt_get [] k' = PNone"
  by (induction opts) (auto simp: opt_get_def opt_get_or_def)

text \<open>Building only adds arguments: \<open>has n K\<close> says that a list under construction has those of \<open>K\<close> after the first \<open>n\<close>.\<close>

definition has :: "nat \<Rightarrow> pyval set \<Rightarrow> pyval list res \<Rightarrow> bool" where
  "has n K m \<longleftrightarrow> (\<forall>xs. m = Inr xs \<longrightarrow> K \<subseteq> set (drop n xs))"

lemma has_intros [keyed_intros]:
  "has n K (Inl e)"
  "K \<subseteq> set (drop n xs) \<Longrightarrow> has n K (Inr xs)"
  "has n K a \<Longrightarrow> has n K b \<Longrightarrow> has n K (if c then a else b)"
  "(\<And>x. has n K (f x)) \<Longrightarrow> has n K (res_bind m f)"
  "K \<subseteq> set (drop n t) \<Longrightarrow> (\<And>xs. K \<subseteq> set (drop n xs) \<Longrightarrow> has n K (g xs)) \<Longrightarrow> has n K (let xs = t in g xs)"
  "(\<And>x y. has n K (h x y)) \<Longrightarrow> has n K (case p of (x, y) \<Rightarrow> h x y)"
  by (auto simp: has_def res_bind_Inr Let_def split: if_splits prod.splits)

lemma has_fold [keyed_intros]:
  "(\<And>xs y. K \<subseteq> set (drop n xs) \<Longrightarrow> has n K (f xs y)) \<Longrightarrow> K \<subseteq> set (drop n xs) \<Longrightarrow> has n K (res_fold f xs ys)"
proof (induction ys arbitrary: xs)
  case (Cons y ys)
  note step = Cons.prems(1) [OF Cons.prems(2), of y]
  show ?case
  proof (cases "f xs y")
    case (Inr x)
    then have "K \<subseteq> set (drop n x)" using step by (simp add: has_def)
    from Cons.IH [OF Cons.prems(1) this] Inr show ?thesis by simp
  qed (simp add: has_def)
qed (simp add: has_def)

lemma keyed_steps [keyed_intros]:
  "keyed (Inl e)"
  "keyed a \<Longrightarrow> keyed b \<Longrightarrow> keyed (if c then a else b)"
  "(\<And>x. keyed (f x)) \<Longrightarrow> keyed (res_bind m f)"
  "(\<And>v :: pyval. keyed (g v)) \<Longrightarrow> keyed (let v = t in g v)"
  "(\<And>x y. keyed (h x y)) \<Longrightarrow> keyed (case p of (x, y) \<Rightarrow> h x y)"
  by (auto intro: keyed_bind split: prod.split)

lemma keyed_grow:
  "has n K m \<Longrightarrow> (\<And>xs. K \<subseteq> set (drop n xs) \<Longrightarrow> keyed (f xs)) \<Longrightarrow> keyed (res_bind m f)"
  "K \<subseteq> set (drop n t) \<Longrightarrow> (\<And>xs. K \<subseteq> set (drop n xs) \<Longrightarrow> keyed (f xs)) \<Longrightarrow> keyed (let xs = t in f xs)"
  by (auto simp: has_def Let_def intro: keyed_bind)

lemma keyed_name [keyed_intros]:
  "{n} \<subseteq> set (drop 1 args) \<Longrightarrow> opt_get opts ''keys'' = PList [n] \<Longrightarrow> keyed (Inr (args, opts))"
  by (simp add: keyed_def)

lemma keyed_simple:
  "keyed (exists_cmd names)"
  "keyed (geohash_cmd name values)"
  "keyed (geopos_cmd name values)"
  "keyed (get_cmd name)"
  "keyed (getbit_cmd name offset)"
  "keyed (getrange_cmd key start end')"
  "keyed (hexists_cmd name key)"
  "keyed (hget_cmd name key)"
  "keyed (hgetall_cmd name)"
  "keyed (hkeys_cmd name)"
  "keyed (hlen_cmd name)"
  "keyed (hstrlen_cmd name key)"
  "keyed (hvals_cmd name)"
  "keyed (lindex_cmd name index')"
  "keyed (llen_cmd name)"
  "keyed (lrange_cmd name start end')"
  "keyed (scard_cmd name)"
  "keyed (sismember_cmd name v)"
  "keyed (smembers_cmd name)"
  "keyed (strlen_cmd name)"
  "keyed (substr_cmd name start end')"
  "keyed (type_cmd name)"
  "keyed (xlen_cmd name)"
  "keyed (xpending_cmd name groupname)"
  "keyed (zcard_cmd name)"
  "keyed (zcount_cmd name min' max')"
  "keyed (zlexcount_cmd name min' max')"
  "keyed (zscore_cmd name v)"
  by (simp_all add: keyed_def exists_cmd_def geohash_cmd_def geopos_cmd_def get_cmd_def getbit_cmd_def getrange_cmd_def hexists_cmd_def hget_cmd_def hgetall_cmd_def hkeys_cmd_def hlen_cmd_def hstrlen_cmd_def hvals_cmd_def lindex_cmd_def llen_cmd_def lrange_cmd_def scard_cmd_def sismember_cmd_def smembers_cmd_def strlen_cmd_def substr_cmd_def type_cmd_def xlen_cmd_def xpending_cmd_def zcard_cmd_def zcount_cmd_def zlexcount_cmd_def zscore_cmd_def)

lemma keyed_bit_commands:
  "keyed (bitcount_cmd key start end' mode')" "keyed (bitpos_cmd P key b start end' mode')"
  unfolding bitcount_cmd_def bitpos_cmd_def by (intro keyed_grow [where n = 0 and K = "{key}"] keyed_intros; auto)+

lemma keyed_bitfield_ro: "keyed (bitfield_ro_cmd key encoding offset items')"
  unfolding bitfield_ro_cmd_def
  by (intro keyed_grow [where n = 0 and K = "{key}"] keyed_intros) auto

lemma keyed_named:
  "keyed (geodist_cmd name place1 place2 unit')" "keyed (lpos_cmd name v rank count' maxlen)"
  unfolding geodist_cmd_def lpos_cmd_def by (intro keyed_grow [where n = 0 and K = "{name}"] keyed_intros; auto)+

lemma keyed_ranges:
  "keyed (xrange_cmd P name min' max' count')" "keyed (xrevrange_cmd P name max' min' count')"
  unfolding xrange_cmd_def xrevrange_cmd_def by (intro keyed_grow [where n = 0 and K = "{}"] keyed_intros; auto)+

lemma keyed_limits:
  "keyed (zrangebylex_cmd name min' max' start num)" "keyed (zrevrangebylex_cmd name max' min' start num)"
  "keyed (zrangebyscore_cmd name min' max' start num withscores cast)"
  "keyed (zrevrangebyscore_cmd name max' min' start num withscores cast)"
  unfolding zrangebylex_cmd_def zrevrangebylex_cmd_def zrangebyscore_cmd_def zrevrangebyscore_cmd_def
  by (simp_all add: keyed_def Let_def)

lemma keyed_zrange: "keyed (zrange_impl_cmd c PNone name start end' desc byscore bylex withscores cast offset num)"
  by (cases "truthy byscore"; cases "truthy bylex"; cases "truthy desc"; cases "truthy withscores"; cases "offset = PNone";
      cases "num = PNone"; simp add: zrange_impl_cmd_def keyed_def Let_def)

lemma keyed_list_args:
  "keyed (hmget_cmd name ks args)" "keyed (smismember_cmd name vs args)" "keyed (mget_cmd ks args)" "keyed (sdiff_cmd ks args)"
  "keyed (sinter_cmd ks args)" "keyed (sunion_cmd ks args)" "keyed (zrank_cmd name v withscore)" "keyed (zrevrank_cmd name v withscore)"
  "keyed (lcs_cmd P key1 key2 len' idx minmatchlen withmatchlen)"
  by (simp_all add: keyed_def Let_def hmget_cmd_def smismember_cmd_def mget_cmd_def sdiff_cmd_def sinter_cmd_def sunion_cmd_def
      zrank_cmd_def zrevrank_cmd_def lcs_cmd_def)

lemma keyed_card:
  "keyed (sintercard_cmd numkeys ks limit)" "keyed (zintercard_cmd numkeys ks limit)" "keyed (zdiff_cmd ks withscores)"
  "keyed (zmscore_cmd key members)"
  by (auto simp: keyed_def Let_def sintercard_cmd_def zintercard_cmd_def zdiff_cmd_def zmscore_cmd_def res_bind_def split: sum.splits)

lemma keyed_geosearch: "keyed (geosearchgeneric_impl_cmd (PStr ''GEOSEARCH'') [name] kwargs)"
proof -
  have n: "nth_item [name] 0 = Inr name" by simp
  show ?thesis unfolding geosearchgeneric_impl_cmd_def if_P [OF refl] n res_bind_simps
    by (intro keyed_grow [where n = 0 and K = "{name}"] keyed_intros) (auto intro: keyed_name)
qed

lemma keyed_xread: "keyed (xread_cmd P streams count' block)"
  unfolding xread_cmd_def
  by (intro keyed_grow [where n = 0 and K = "{}"] keyed_intros; auto simp: keyed_def Let_def)

lemma keyed_zaggregate: "keyed (zaggregate_impl_cmd c PNone ks aggregate [(''withscores'', withscores)])"
  unfolding zaggregate_impl_cmd_def
  apply simp
  apply (intro conjI impI keyed_bind keyed_steps(5))
  subgoal for n p keys' weights xs
    by (intro keyed_grow [where n = 1 and K = "set xs"] has_intros; auto simp: keyed_def)
  subgoal for n xs
    by (intro keyed_grow [where n = 1 and K = "set xs"] has_intros; auto simp: keyed_def)
  done

lemma keyed_json:
  "keyed (json_arrlen_cmd P name path)" "keyed (json_objkeys_cmd P name path)" "keyed (json_objlen_cmd P name path)"
  "keyed (json_resp_cmd P name path)" "keyed (json_strlen_cmd P name path)" "keyed (json_type_cmd P name path)"
  by (simp_all add: keyed_def Let_def json_arrlen_cmd_def json_objkeys_cmd_def json_objlen_cmd_def json_resp_cmd_def
      json_strlen_cmd_def json_type_cmd_def)

lemma keyed_json_lists:
  "keyed (json_arrindex_cmd P name path scalar start stop)" "keyed (json_get_cmd P name args no_escape)"
  "keyed (json_mget_cmd P ks path)"
proof -
  have "name \<in> set (foldl (\<lambda>pieces p. pieces @ [PStr (py_str P p)]) pieces xs)" if "name \<in> set pieces" for pieces xs
    using that by (induction xs arbitrary: pieces) auto
  then show "keyed (json_get_cmd P name args no_escape)" by (simp add: json_get_cmd_def keyed_def Let_def)
  show "keyed (json_arrindex_cmd P name path scalar start stop)" "keyed (json_mget_cmd P ks path)"
    by (auto simp: json_arrindex_cmd_def json_mget_cmd_def keyed_def Let_def res_bind_def split: sum.splits)
qed

lemma keyed_ts:
  "keyed (ts_get_cmd key latest)" "keyed (ts_info_cmd key)"
  "keyed (ts_range_cmd key from' to' count' aggregation bucket by_ts by_min by_max align latest stamp empty')"
  "keyed (ts_revrange_cmd key from' to' count' aggregation bucket by_ts by_min by_max align latest stamp empty')"
proof -
  have grow: "key \<in> set ps \<Longrightarrow> key \<in> set (ts_append_latest ps v)" "key \<in> set ps \<Longrightarrow> key \<in> set (ts_append_filer_by_value ps a b)"
    "key \<in> set ps \<Longrightarrow> key \<in> set (ts_append_count ps v)" "key \<in> set ps \<Longrightarrow> key \<in> set (ts_append_align ps v)"
    "key \<in> set ps \<Longrightarrow> key \<in> set (ts_append_aggregation ps a b)" "key \<in> set ps \<Longrightarrow> key \<in> set (ts_append_bucket_timestamp ps v)"
    "key \<in> set ps \<Longrightarrow> key \<in> set (ts_append_empty ps v)" for ps v a b
    by (simp_all add: ts_append_latest_def ts_append_filer_by_value_def ts_append_count_def ts_append_align_def
        ts_append_aggregation_def ts_append_bucket_timestamp_def ts_append_empty_def)
  have by_ts: "key \<in> set ps \<Longrightarrow> ts_append_filer_by_ts ps v = Inr ps' \<Longrightarrow> key \<in> set ps'" for ps v ps'
    by (auto simp: ts_append_filer_by_ts_def res_bind_Inr split: if_splits)
  have range: "has 0 {key} (ts_range_params key from' to' count' aggregation bucket by_ts by_min by_max align latest stamp empty')"
    unfolding has_def
  proof (intro allI impI)
    fix xs
    assume "ts_range_params key from' to' count' aggregation bucket by_ts by_min by_max align latest stamp empty' = Inr xs"
    then obtain ps where ps: "ts_append_filer_by_ts (ts_append_latest [key, from', to'] latest) by_ts = Inr ps"
      and xs: "xs = ts_append_empty (ts_append_bucket_timestamp (ts_append_aggregation (ts_append_align (ts_append_count
         (ts_append_filer_by_value ps by_min by_max) count') align) aggregation bucket) stamp) empty'"
      by (auto simp: ts_range_params_def Let_def res_bind_Inr)
    have "key \<in> set ps" by (rule by_ts [OF _ ps]) (simp add: grow)
    then show "{key} \<subseteq> set (drop 0 xs)" by (simp add: xs grow)
  qed
  show "keyed (ts_get_cmd key latest)" "keyed (ts_info_cmd key)"
    using grow(1) [of "[key]" latest] by (simp_all add: ts_get_cmd_def ts_info_cmd_def keyed_def Let_def)
  show "keyed (ts_range_cmd key from' to' count' aggregation bucket by_ts by_min by_max align latest stamp empty')"
    "keyed (ts_revrange_cmd key from' to' count' aggregation bucket by_ts by_min by_max align latest stamp empty')"
    unfolding ts_range_cmd_def ts_revrange_cmd_def by (rule keyed_grow(1) [OF range]; simp add: keyed_def)+
qed

lemmas keyed_requests = keyed_simple keyed_bit_commands keyed_bitfield_ro keyed_named keyed_ranges keyed_limits keyed_list_args
  keyed_card keyed_geosearch keyed_xread keyed_json keyed_json_lists keyed_ts



end
