(* ===== verification/Commands_Parser.thy ===== *)
theory Commands_Parser
  imports Client
begin

text \<open>
  \<open>redis/_parsers/commands.py\<close>: where the keys of a command are.  \<open>CommandsParser\<close> keeps the server's own table of its
  commands (the reply to \<open>COMMAND\<close>, a dictionary), asks for it again when it meets a command it does not know, and asks the
  server (\<open>COMMAND GETKEYS\<close>) about the commands whose keys can be anywhere.

  The table is passed in, and saved with \<open>save\<close> when it is read anew; \<open>run\<close> runs a command on the client the parser is given.  The first argument of a command, its name,
  is text; upper and lower case are those of ASCII letters.
\<close>

definition dict_del :: "(pyval \<times> pyval) list \<Rightarrow> pyval \<Rightarrow> (pyval \<times> pyval) list" where
  "dict_del d k = filter (\<lambda>(k', _). norm_key k' \<noteq> norm_key k) d"

text \<open>\<open>list(range(first, stop, step))\<close>\<close>

function count_up :: "int \<Rightarrow> int \<Rightarrow> int \<Rightarrow> int list" where
  "count_up first stop step = (if 0 < step \<and> first < stop then first # count_up (first + step) stop step else [])"
  by pat_completeness auto
termination by (relation "measure (\<lambda>(first, stop, _). nat (stop - first))") auto

declare count_up.simps [simp del]

definition py_range :: "int \<Rightarrow> int \<Rightarrow> int \<Rightarrow> int list res" where
  "py_range first stop step =
     (if step = 0 then Inl (Exc PyValueError ''range() arg 3 must not be zero'')
      else if 0 < step then Inr (count_up first stop step)
      else Inr (map uminus (count_up (- first) (- stop) (- step))))"

text \<open>An operand of integer arithmetic.\<close>

definition as_int :: "pyval \<Rightarrow> int res" where
  "as_int v = (case v of PInt n \<Rightarrow> Inr n | PBool b \<Rightarrow> Inr (if b then 1 else 0) | _ \<Rightarrow> Inl (type_error v))"

definition has_upper :: "string \<Rightarrow> bool" where
  "has_upper s \<longleftrightarrow> list_ex (\<lambda>c. CHR ''A'' \<le> c \<and> c \<le> CHR ''Z'') s"

section \<open>AbstractCommandsParser\<close>

definition get_pubsub_keys :: "pyval list \<Rightarrow> pyval list option res" where
  "get_pubsub_keys args =
     (if length args < 2 then Inr None
      else
        let args = map str_if_bytes args in
        res_bind (as_str (args ! 0)) (\<lambda>name.
          let command = upper name in
          if command = ''PUBSUB'' then
            res_bind (as_str (args ! 1)) (\<lambda>pubsub_type.
              Inr (if upper pubsub_type \<in> {''CHANNELS'', ''NUMSUB'', ''SHARDCHANNELS'', ''SHARDNUMSUB''}
                   then Some (drop 2 args) else None))
          else if command \<in> {''SUBSCRIBE'', ''PSUBSCRIBE'', ''UNSUBSCRIBE'', ''PUNSUBSCRIBE''} then Inr (Some (drop 1 args))
          else if command \<in> {''PUBLISH'', ''SPUBLISH''} then Inr (Some [args ! 1])
          else Inr None))"

definition parse_subcommand :: "pylib \<Rightarrow> pyval \<Rightarrow> (pyval \<times> pyval) list res" where
  "parse_subcommand L command =
     res_bind (res_map str_if_bytes (getitem command 0)) (\<lambda>cmd_name.
     res_bind (res_bind (getitem command 1) (py_int_value L)) (\<lambda>arity.
     res_bind (res_bind (getitem command 2) iterate) (\<lambda>flags.
     res_bind (getitem command 3) (\<lambda>first_key_pos.
     res_bind (getitem command 4) (\<lambda>last_key_pos.
     res_bind (getitem command 5) (\<lambda>step_count.
     res_bind (py_len command) (\<lambda>n.
     res_bind
       (if n > 7
        then res_bind (getitem command 7) (\<lambda>tips. res_bind (getitem command 8) (\<lambda>specs. res_bind (getitem command 9) (\<lambda>subs.
          Inr [(PStr ''tips'', tips), (PStr ''key_specifications'', specs), (PStr ''subcommands'', subs)])))
        else Inr [])
       (\<lambda>more. Inr
         ([(PStr ''name'', cmd_name), (PStr ''arity'', arity), (PStr ''flags'', PList (map str_if_bytes flags)),
           (PStr ''first_key_pos'', first_key_pos), (PStr ''last_key_pos'', last_key_pos),
           (PStr ''step_count'', step_count)] @ more)))))))))"

section \<open>CommandsParser\<close>

text \<open>The reply of \<open>COMMAND\<close>, a dictionary, with its names in lower case.\<close>

definition lower_name :: "(pyval \<times> pyval) list \<Rightarrow> string \<Rightarrow> (pyval \<times> pyval) list" where
  "lower_name commands cmd =
     (case dict_get commands (PStr cmd) of
        None \<Rightarrow> commands
      | Some v \<Rightarrow> dict_set (dict_del commands (PStr cmd)) (PStr (lower cmd)) v)"

definition lower_names :: "pyval \<Rightarrow> (pyval \<times> pyval) list res" where
  "lower_names v =
     (case v of
        PDict commands \<Rightarrow>
          res_bind (traverse (\<lambda>(k, _). as_str k) commands) (\<lambda>names.
            Inr (foldl lower_name commands (filter has_upper names)))
      | _ \<Rightarrow> Inl (type_error v))"

definition initialize_commands ::
  "(pyval list \<Rightarrow> ('s, pyval) io) \<Rightarrow> ((pyval \<times> pyval) list \<Rightarrow> ('s, unit) io) \<Rightarrow> ('s, (pyval \<times> pyval) list) io" where
  "initialize_commands run save =
     io_bind (run [PStr ''COMMAND'']) (\<lambda>v. io_bind (io_lift (lower_names v)) (\<lambda>d. io_seq (save d) (io_ret d)))"

definition get_moveable_keys ::
  "(pyval list \<Rightarrow> ('s, pyval) io) \<Rightarrow> string \<Rightarrow> pyval list \<Rightarrow> ('s, pyval) io" where
  "get_moveable_keys run name args =
     (let pieces = map PStr (str_words name) @ args in
      io_try (run (PStr ''COMMAND GETKEYS'' # pieces))
        (\<lambda>e. if is_exc e ResponseError \<and>
                (contains (exc_msg e) ''Invalid arguments'' \<or> contains (exc_msg e) ''The command has no key arguments'')
             then io_ret PNone else io_raise e))"

text \<open>\<open>f"{v.lower()}"\<close>: bytes are shown as a literal (with their printable characters).\<close>

definition lower_shown :: "pyval \<Rightarrow> string res" where
  "lower_shown v =
     (case v of PBytes b \<Rightarrow> Inr (''b'' @ [CHR 0x27] @ lower b @ [CHR 0x27]) | _ \<Rightarrow> res_map lower (as_str v))"

text \<open>A command without keys in the table may have subcommands that have some.\<close>

primrec find_subcommand :: "pylib \<Rightarrow> string \<Rightarrow> (pyval \<times> pyval) list option \<Rightarrow> pyval list \<Rightarrow> (pyval \<times> pyval) list option res" where
  "find_subcommand L subcmd_name found [] = Inr found"
| "find_subcommand L subcmd_name found (subcmd # rest) =
     res_bind (getitem subcmd 0) (\<lambda>name.
       if str_if_bytes name = PStr subcmd_name
       then res_bind (parse_subcommand L subcmd) (\<lambda>c. find_subcommand L subcmd_name (Some c) rest)
       else find_subcommand L subcmd_name found rest)"

definition keys_at :: "(pyval \<times> pyval) list \<Rightarrow> pyval list \<Rightarrow> pyval list res" where
  "keys_at command args =
     res_bind (res_bind (lookup command ''last_key_pos'') as_int) (\<lambda>last_key_pos.
     let last_key_pos = (if last_key_pos < 0 then int (length args) - \<bar>last_key_pos\<bar> else last_key_pos) in
     res_bind (res_bind (lookup command ''first_key_pos'') as_int) (\<lambda>first_key_pos.
     res_bind (res_bind (lookup command ''step_count'') as_int) (\<lambda>step_count.
     res_bind (py_range first_key_pos (last_key_pos + 1) step_count) (\<lambda>keys_pos.
       traverse (nth_item args) keys_pos))))"

definition fixed_keys :: "pylib \<Rightarrow> string \<Rightarrow> (pyval \<times> pyval) list \<Rightarrow> pyval list \<Rightarrow> pyval res" where
  "fixed_keys L cmd_name command args =
     res_bind (lookup command ''step_count'') (\<lambda>step_count.
     res_bind (lookup command ''first_key_pos'') (\<lambda>first_key_pos.
     res_bind (lookup command ''last_key_pos'') (\<lambda>last_key_pos.
       if norm_key step_count = PInt 0 \<and> norm_key first_key_pos = PInt 0 \<and> norm_key last_key_pos = PInt 0
       then res_bind
         (case dict_get command (PStr ''subcommands'') of
            None \<Rightarrow> Inr None
          | Some subs \<Rightarrow>
              res_bind (res_bind (nth_item args 1) lower_shown) (\<lambda>sub.
              res_bind (iterate subs) (find_subcommand L (cmd_name @ ''|'' @ sub) None)))
         (\<lambda>found. case found of
            None \<Rightarrow> Inr PNone
          | Some command \<Rightarrow> res_map PList (keys_at command args))
       else res_map PList (keys_at command args))))"

text \<open>The keys of the command \<open>name args\<close>; \<open>None\<close> of Python when it has none.\<close>

definition get_keys ::
  "pylib \<Rightarrow> (pyval list \<Rightarrow> ('s, pyval) io) \<Rightarrow> ((pyval \<times> pyval) list \<Rightarrow> ('s, unit) io) \<Rightarrow>
   (pyval \<times> pyval) list \<Rightarrow> string \<Rightarrow> pyval list \<Rightarrow> ('s, pyval) io" where
  "get_keys L run save commands name args =
     (if args = [] then io_ret PNone
      else
        let cmd_name = lower name in
        io_bind
          (if has_key commands cmd_name then io_ret (cmd_name, name, args, commands)
           else
             let cmd_name_split = str_words cmd_name in
             io_bind (io_lift (nth_item cmd_name_split 0)) (\<lambda>cmd_name.
               if has_key commands cmd_name
               then io_ret (cmd_name, cmd_name, map PStr (tl cmd_name_split) @ args, commands)
               else io_bind (initialize_commands run save) (\<lambda>commands.
                 if has_key commands cmd_name then io_ret (cmd_name, name, args, commands)
                 else io_raise (Exc RedisError (upper cmd_name @ '' command doesn'' @ [CHR 0x27] @ ''t exist in Redis commands'')))))
          (\<lambda>(cmd_name, name, args, commands).
             io_bind (io_lift (res_bind (lookup commands cmd_name) items_of)) (\<lambda>command.
             io_bind (io_lift (res_bind (lookup command ''flags'') iterate)) (\<lambda>flags.
             if PStr ''movablekeys'' \<in> set flags then get_moveable_keys run name args
             else
               io_lift (res_bind (lookup command ''name'') (\<lambda>cname.
                 if PStr ''pubsub'' \<in> set flags \<or> cname = PStr ''pubsub''
                 then res_map (\<lambda>ks. case ks of None \<Rightarrow> PNone | Some ks \<Rightarrow> PList ks) (get_pubsub_keys (PStr name # args))
                 else fixed_keys L cmd_name command (PStr name # args)))))))"

end
