(* ===== verification/Cluster_Nodes.thy ===== *)
theory Cluster_Nodes
  imports Commands_Parser Keyslot "HOL-Library.AList"
begin

text \<open>
  The nodes of a cluster: \<open>ClusterNode\<close>, \<open>LoadBalancer\<close> and \<open>NodesManager\<close> of \<open>redis/cluster.py\<close>, with the state of the
  cluster client of which they are a part.

  Objects that are shared are kept in stores and named by numbers: the \<open>ClusterNode\<close> objects (\<open>nodes\<close>), which the node cache, the slot
  cache and the startup nodes share; the list of the nodes of a slot (\<open>node_lists\<close>), one object for all the slots of a
  range; and the \<open>Redis\<close> clients (\<open>redises\<close>), each with the host and port it was made for.  The startup nodes are
  the dictionary object of the node cache after a successful \<open>initialize\<close> with \<open>dynamic_startup_nodes\<close>: \<open>own_startup_nodes\<close>
  is \<open>None\<close> then.  The clients run in one world, which \<open>on_redis\<close> hands to the pool of the client and takes back.

  The record \<open>cluster_class\<close> holds what the client is given: the connection class of each address, how a pool is made, name
  resolution, \<open>address_remap\<close>, random numbers, sleeping, and the options of the constructor.  Events are not modelled.
  Hosts are text; a host that is not is represented by its \<open>str()\<close>.
\<close>

datatype role = PRIMARY | REPLICA

datatype strategy = ROUND_ROBIN | ROUND_ROBIN_REPLICAS | RANDOM_REPLICA

record cnode =
  cn_host :: string
  cn_port :: int
  server_type :: "role option"
  redis_connection :: "nat option"

record ('c, 'g) cluster_class =
  x_client :: "string \<Rightarrow> int \<Rightarrow> ('c, 'g) client_class"
  x_heap :: "string \<Rightarrow> int \<Rightarrow> nat \<Rightarrow> 'c"
  x_getpid :: int
  x_max_connections :: pyval
  x_protocol :: pyval
  x_cache_config :: bool
  x_lib :: pylib
  x_shorten :: "string \<Rightarrow> string"
  x_gethostbyname :: "string \<Rightarrow> string"
  x_address_remap :: "(string \<times> int \<Rightarrow> string \<times> int) option"
  x_randbelow :: "nat \<Rightarrow> 'g \<Rightarrow> nat \<times> 'g"
  x_sleep :: "rat \<Rightarrow> 'g \<Rightarrow> 'g"
  x_encoder :: encoder
  x_from_url :: bool
  x_require_full_coverage :: bool
  x_dynamic_startup_nodes :: bool
  x_read_from_replicas :: bool
  x_strategy :: "strategy option"
  x_error_retry_attempts :: int
  x_reinitialize_steps :: int

record ('c, 'g) cluster =
  nodes :: "nat \<Rightarrow> cnode"
  next_node :: nat
  node_lists :: "nat \<Rightarrow> nat list"
  next_list :: nat
  redises :: "nat \<Rightarrow> ('c, 'g) redis"
  redis_addr :: "nat \<Rightarrow> string \<times> int"
  next_redis :: nat
  world :: 'g
  nodes_cache :: "(string \<times> nat) list"
  slots_cache :: "(int \<times> nat) list"
  own_startup_nodes :: "(string \<times> nat) list option"
  default_node :: "nat option"
  moved_exception :: "exc option"
  primary_to_idx :: "(string \<times> nat) list"
  cache_made :: bool
  reinitialize_counter :: int
  parser_commands :: "(pyval \<times> pyval) list"
  cluster_response_callbacks :: "(string \<times> cb_entry) list"

section \<open>Shared objects\<close>

definition on_redis :: "nat \<Rightarrow> (('c, 'g) redis, 'a) io \<Rightarrow> (('c, 'g, 'z) cluster_scheme, 'a) io" where
  "on_redis r m s =
     (let R = redises s r in
      case m (R\<lparr>r_pool := (r_pool R)\<lparr>shared := world s\<rparr>\<rparr>) of
        None \<Rightarrow> None
      | Some (x, R') \<Rightarrow> Some (x, s\<lparr>redises := (redises s)(r := R'), world := shared (r_pool R')\<rparr>))"

definition redis_class :: "('c, 'g) cluster_class \<Rightarrow> ('c, 'g, 'z) cluster_scheme \<Rightarrow> nat \<Rightarrow> ('c, 'g) client_class" where
  "redis_class X s r = x_client X (fst (redis_addr s r)) (snd (redis_addr s r))"

definition with_redis ::
  "('c, 'g) cluster_class \<Rightarrow> nat \<Rightarrow> (('c, 'g) client_class \<Rightarrow> (('c, 'g) redis, 'a) io) \<Rightarrow> (('c, 'g, 'z) cluster_scheme, 'a) io" where
  "with_redis X r f = io_get (\<lambda>s. on_redis r (f (redis_class X s r)))"

definition upd_node :: "nat \<Rightarrow> (cnode \<Rightarrow> cnode) \<Rightarrow> ('c, 'g, 'z) cluster_scheme \<Rightarrow> ('c, 'g, 'z) cluster_scheme" where
  "upd_node n f s = s\<lparr>nodes := (nodes s)(n := f (nodes s n))\<rparr>"

definition upd_list :: "nat \<Rightarrow> (nat list \<Rightarrow> nat list) \<Rightarrow> ('c, 'g, 'z) cluster_scheme \<Rightarrow> ('c, 'g, 'z) cluster_scheme" where
  "upd_list l f s = s\<lparr>node_lists := (node_lists s)(l := f (node_lists s l))\<rparr>"

definition new_list :: "nat list \<Rightarrow> (('c, 'g, 'z) cluster_scheme, nat) io" where
  "new_list ns s = Some (Inr (next_list s), s\<lparr>node_lists := (node_lists s)(next_list s := ns), next_list := Suc (next_list s)\<rparr>)"

text \<open>An exception becomes a value.\<close>

definition io_catch :: "('s, 'a) io \<Rightarrow> ('s, exc + 'a) io" where
  "io_catch m s = (case m s of None \<Rightarrow> None | Some (r, s') \<Rightarrow> Some (Inr r, s'))"

primrec io_traverse :: "('a \<Rightarrow> ('s, 'b) io) \<Rightarrow> 'a list \<Rightarrow> ('s, 'b list) io" where
  "io_traverse f [] = io_ret []"
| "io_traverse f (x # xs) = io_bind (f x) (\<lambda>y. io_bind (io_traverse f xs) (\<lambda>ys. io_ret (y # ys)))"

text \<open>\<open>random.choice\<close> and \<open>random.randint\<close>\<close>

definition randbelow :: "('c, 'g) cluster_class \<Rightarrow> nat \<Rightarrow> (('c, 'g, 'z) cluster_scheme, nat) io" where
  "randbelow X n s = (let (k, g) = x_randbelow X n (world s) in Some (Inr k, s\<lparr>world := g\<rparr>))"

definition random_choice :: "('c, 'g) cluster_class \<Rightarrow> 'a list \<Rightarrow> (('c, 'g, 'z) cluster_scheme, 'a) io" where
  "random_choice X xs =
     (if xs = [] then io_raise index_error
      else io_bind (randbelow X (length xs)) (\<lambda>k. io_lift (nth_item xs (int k))))"

definition randint_from_1 :: "('c, 'g) cluster_class \<Rightarrow> nat \<Rightarrow> (('c, 'g, 'z) cluster_scheme, nat) io" where
  "randint_from_1 X n =
     (if n = 0 then io_raise (Exc PyValueError ''empty range for randrange()'')
      else io_bind (randbelow X n) (\<lambda>k. io_ret (Suc k)))"

section \<open>ClusterNode\<close>

definition get_node_name :: "string \<Rightarrow> int \<Rightarrow> string" where
  "get_node_name host port = host @ '':'' @ int_repr port"

definition resolve :: "('c, 'g) cluster_class \<Rightarrow> string \<Rightarrow> string" where
  "resolve X host = (if host = ''localhost'' then x_gethostbyname X host else host)"

definition node_name :: "('c, 'g, 'z) cluster_scheme \<Rightarrow> nat \<Rightarrow> string" where
  "node_name s n = get_node_name (cn_host (nodes s n)) (cn_port (nodes s n))"

definition new_node ::
  "('c, 'g) cluster_class \<Rightarrow> string \<Rightarrow> int \<Rightarrow> role option \<Rightarrow> (('c, 'g, 'z) cluster_scheme, nat) io" where
  "new_node X host port rl s =
     Some (Inr (next_node s),
       s\<lparr>nodes := (nodes s)(next_node s :=
           \<lparr>cn_host = resolve X host, cn_port = port, server_type = rl, redis_connection = None\<rparr>),
         next_node := Suc (next_node s)\<rparr>)"

text \<open>\<open>ClusterNode.__eq__\<close>: nodes are equal when their names are.\<close>

definition node_eq :: "('c, 'g, 'z) cluster_scheme \<Rightarrow> nat \<Rightarrow> nat \<Rightarrow> bool" where
  "node_eq s a b \<longleftrightarrow> node_name s a = node_name s b"

definition is_default :: "('c, 'g, 'z) cluster_scheme \<Rightarrow> nat \<Rightarrow> bool" where
  "is_default s n \<longleftrightarrow> (case default_node s of None \<Rightarrow> False | Some d \<Rightarrow> node_eq s d n)"

definition startup_nodes :: "('c, 'g, 'z) cluster_scheme \<Rightarrow> (string \<times> nat) list" where
  "startup_nodes s = (case own_startup_nodes s of None \<Rightarrow> nodes_cache s | Some d \<Rightarrow> d)"

section \<open>LoadBalancer\<close>

text \<open>\<open>start_index\<close> is 0: the index kept for a primary is that of the next reader.\<close>

definition get_round_robin_index :: "string \<Rightarrow> nat \<Rightarrow> bool \<Rightarrow> (string \<times> nat) list \<Rightarrow> nat \<times> (string \<times> nat) list" where
  "get_round_robin_index primary list_size replicas_only idx =
     (let first = (case map_of idx primary of None \<Rightarrow> 0 | Some i \<Rightarrow> i);
          server_index = (if replicas_only \<and> first = 0 then 1 else first) in
      (server_index, AList.update primary ((server_index + 1) mod list_size) idx))"

definition get_server_index ::
  "('c, 'g) cluster_class \<Rightarrow> string \<Rightarrow> nat \<Rightarrow> strategy \<Rightarrow> (('c, 'g, 'z) cluster_scheme, nat) io" where
  "get_server_index X primary list_size strat =
     (if strat = RANDOM_REPLICA then randint_from_1 X (list_size - 1)
      else io_get (\<lambda>s.
        let (i, idx) = get_round_robin_index primary list_size (strat = ROUND_ROBIN_REPLICAS) (primary_to_idx s) in
        io_seq (io_upd (\<lambda>s. s\<lparr>primary_to_idx := idx\<rparr>)) (io_ret i)))"

section \<open>NodesManager: looking up\<close>

definition get_node ::
  "('c, 'g) cluster_class \<Rightarrow> ('c, 'g, 'z) cluster_scheme \<Rightarrow> string option \<Rightarrow> int option \<Rightarrow> string option \<Rightarrow> nat option" where
  "get_node X s host port name =
     (case (host, port) of
        (Some h, Some p) \<Rightarrow>
          if h \<noteq> [] \<and> p \<noteq> 0 then map_of (nodes_cache s) (get_node_name (resolve X h) p)
          else (case name of Some n \<Rightarrow> if n \<noteq> [] then map_of (nodes_cache s) n else None | None \<Rightarrow> None)
      | _ \<Rightarrow> (case name of Some n \<Rightarrow> if n \<noteq> [] then map_of (nodes_cache s) n else None | None \<Rightarrow> None))"

definition get_nodes_by_server_type :: "('c, 'g, 'z) cluster_scheme \<Rightarrow> role \<Rightarrow> nat list" where
  "get_nodes_by_server_type s rl = filter (\<lambda>n. server_type (nodes s n) = Some rl) (map snd (nodes_cache s))"

text \<open>The nodes of a slot; a slot is an integer (a command may carry another value in its place, which no slot is).\<close>

definition slot_list :: "('c, 'g, 'z) cluster_scheme \<Rightarrow> pyval \<Rightarrow> nat option" where
  "slot_list s slot =
     (case slot of
        PInt i \<Rightarrow> map_of (slots_cache s) i
      | PBool b \<Rightarrow> map_of (slots_cache s) (if b then 1 else 0)
      | _ \<Rightarrow> None)"

definition update_moved_exception :: "exc \<Rightarrow> (('c, 'g, 'z) cluster_scheme, unit) io" where
  "update_moved_exception e = io_upd (\<lambda>s. s\<lparr>moved_exception := Some e\<rparr>)"

text \<open>The node a MOVED error names: known, or added to the cache.\<close>

definition redirected_node :: "('c, 'g) cluster_class \<Rightarrow> string \<Rightarrow> int \<Rightarrow> (('c, 'g, 'z) cluster_scheme, nat) io" where
  "redirected_node X host port =
     io_get (\<lambda>s. case get_node X s (Some host) (Some port) None of
        Some n \<Rightarrow> io_seq (io_upd (upd_node n (server_type_update (\<lambda>_. Some PRIMARY)))) (io_ret n)
      | None \<Rightarrow>
          io_bind (new_node X host port (Some PRIMARY)) (\<lambda>n.
            io_seq (io_upd (\<lambda>s. s\<lparr>nodes_cache := AList.update (node_name s n) n (nodes_cache s)\<rparr>)) (io_ret n)))"

text \<open>\<open>ns.append(old_primary); ns.remove(n); ns[0] = n\<close>, for every slot that shares the list \<open>l\<close>.\<close>

primrec remove_first :: "('a \<Rightarrow> bool) \<Rightarrow> 'a list \<Rightarrow> 'a list" where
  "remove_first P [] = []"
| "remove_first P (x # xs) = (if P x then xs else x # remove_first P xs)"

definition failover :: "nat \<Rightarrow> nat \<Rightarrow> ('c, 'g, 'z) cluster_scheme \<Rightarrow> ('c, 'g, 'z) cluster_scheme" where
  "failover l n s =
     (let old_primary = hd (node_lists s l);
          s1 = upd_node old_primary (server_type_update (\<lambda>_. Some REPLICA)) s;
          s2 = upd_list l (\<lambda>ns. (remove_first (node_eq s n) (ns @ [old_primary]))[0 := n]) s1 in
      if is_default s2 old_primary then s2\<lparr>default_node := Some n\<rparr> else s2)"

definition update_moved_slots :: "('c, 'g) cluster_class \<Rightarrow> (('c, 'g, 'z) cluster_scheme, unit) io" where
  "update_moved_slots X =
     io_get (\<lambda>s. case moved_exception s of
        None \<Rightarrow> io_raise (attr_error PNone)
      | Some e \<Rightarrow>
          (case ask_fields (exc_msg e) of
             None \<Rightarrow> io_raise (attr_error (PExc e))
           | Some (slot_id, host, port) \<Rightarrow>
               io_bind (redirected_node X host port) (\<lambda>n.
                 io_seq
                   (io_get (\<lambda>s. case map_of (slots_cache s) slot_id of
                      None \<Rightarrow> io_raise (key_error (int_repr slot_id))
                    | Some l \<Rightarrow>
                        if list_ex (node_eq s n) (node_lists s l) then io_upd (failover l n)
                        else io_bind (new_list [n]) (\<lambda>l'.
                          io_upd (\<lambda>s. s\<lparr>slots_cache := AList.update slot_id l' (slots_cache s)\<rparr>))))
                   (io_upd (\<lambda>s. s\<lparr>moved_exception := None\<rparr>)))))"

definition slot_not_covered :: "('c, 'g) cluster_class \<Rightarrow> pyval \<Rightarrow> exc" where
  "slot_not_covered X slot =
     Exc SlotNotCoveredError
       (''Slot '' @ [CHR 0x22] @ safe_str slot @ [CHR 0x22] @ '' not covered by the cluster. '' @ [CHR 0x22] @
        ''require_full_coverage='' @ (if x_require_full_coverage X then ''True'' else ''False'') @ [CHR 0x22])"

definition get_node_from_slot ::
  "('c, 'g) cluster_class \<Rightarrow> pyval \<Rightarrow> bool \<Rightarrow> strategy option \<Rightarrow> role option \<Rightarrow> (('c, 'g, 'z) cluster_scheme, nat) io" where
  "get_node_from_slot X slot read_from_replicas strat wanted_type =
     io_seq (io_get (\<lambda>s. if moved_exception s \<noteq> None then update_moved_slots X else io_ret ()))
       (if \<not> hashable slot then io_raise (type_error slot) else
        io_get (\<lambda>s.
        case slot_list s slot of
          None \<Rightarrow> io_raise (slot_not_covered X slot)
        | Some l \<Rightarrow>
            let ns = node_lists s l in
            if ns = [] then io_raise (slot_not_covered X slot)
            else
              let strat = (if read_from_replicas \<and> strat = None then Some ROUND_ROBIN else strat) in
              io_bind
                (if length ns > 1 \<and> strat \<noteq> None
                 then get_server_index X (node_name s (hd ns)) (length ns) (the strat)
                 else if wanted_type \<in> {None, Some PRIMARY} \<or> length ns = 1 then io_ret 0
                 else randint_from_1 X (length ns - 1))
                (\<lambda>node_idx. io_lift (nth_item ns (int node_idx)))))"

end
