(* ===== verification/Cluster_Discovery.thy ===== *)
theory Cluster_Discovery
  imports Cluster_Nodes
begin

text \<open>
  How the client learns the layout of the cluster: \<open>NodesManager.initialize\<close> of \<open>redis/cluster.py\<close> and what it calls.
  Startup nodes are asked for \<open>CLUSTER SLOTS\<close> one after the other until every slot is covered; what was learnt replaces the
  caches at the end.  The local variables of \<open>initialize\<close> are the record \<open>layout\<close>.
\<close>

record layout =
  tmp_nodes_cache :: "(string \<times> nat) list"
  tmp_slots :: "(int \<times> nat) list"
  disagreements :: "string list"
  startup_nodes_reachable :: bool
  fully_covered :: bool
  last_exception :: "exc option"

definition empty_layout :: layout where
  "empty_layout = \<lparr>tmp_nodes_cache = [], tmp_slots = [], disagreements = [], startup_nodes_reachable = False,
     fully_covered = False, last_exception = None\<rparr>"

section \<open>Clients of nodes\<close>

text \<open>\<open>create_redis_node\<close>: a client with a pool of its own, which it closes unless the pool was passed to it.\<close>

definition create_redis_node ::
  "('c, 'g) cluster_class \<Rightarrow> string \<Rightarrow> int \<Rightarrow> (('c, 'g, 'z) cluster_scheme, nat) io" where
  "create_redis_node X host port =
     io_get (\<lambda>s.
       io_bind (io_lift (pool_init (x_max_connections X) (cache_made s) (x_protocol X) (world s) (x_getpid X) (x_heap X host port)))
         (\<lambda>p. io_seq
            (io_upd (\<lambda>s. s\<lparr>
               redises := (redises s)(next_redis s :=
                 \<lparr>r_pool = p, r_connection = None, single_connection_client = False, single_lock_held = False,
                  response_callbacks = init_callbacks (x_protocol X), auto_close_connection_pool = \<not> x_from_url X\<rparr>),
               redis_addr := (redis_addr s)(next_redis s := (host, port)),
               next_redis := Suc (next_redis s)\<rparr>))
            (io_ret (next_redis s))))"

definition set_connection :: "nat \<Rightarrow> nat option \<Rightarrow> (('c, 'g, 'z) cluster_scheme, unit) io" where
  "set_connection n r = io_upd (upd_node n (redis_connection_update (\<lambda>_. r)))"

primrec create_redis_connections :: "('c, 'g) cluster_class \<Rightarrow> nat list \<Rightarrow> (('c, 'g, 'z) cluster_scheme, unit) io" where
  "create_redis_connections X [] = io_ret ()"
| "create_redis_connections X (n # ns) =
     io_seq
       (io_get (\<lambda>s. if redis_connection (nodes s n) = None
          then io_bind (create_redis_node X (cn_host (nodes s n)) (cn_port (nodes s n))) (\<lambda>r. set_connection n (Some r))
          else io_ret ()))
       (create_redis_connections X ns)"

definition remap_host_port :: "('c, 'g) cluster_class \<Rightarrow> string \<Rightarrow> int \<Rightarrow> string \<times> int" where
  "remap_host_port X host port = (case x_address_remap X of None \<Rightarrow> (host, port) | Some f \<Rightarrow> f (host, port))"

section \<open>Asking a startup node\<close>

definition not_a_cluster :: exc where
  "not_a_cluster = Exc RedisClusterException ''Cluster mode is not enabled on this node''"

definition startup_connection :: "('c, 'g) cluster_class \<Rightarrow> nat \<Rightarrow> (('c, 'g, 'z) cluster_scheme, nat) io" where
  "startup_connection X startup_node =
     io_get (\<lambda>s. case redis_connection (nodes s startup_node) of
        Some r \<Rightarrow> io_ret r
      | None \<Rightarrow>
          io_bind (create_redis_node X (cn_host (nodes s startup_node)) (cn_port (nodes s startup_node))) (\<lambda>r.
            io_get (\<lambda>s. case map_of (startup_nodes s) (node_name s startup_node) of
               None \<Rightarrow> io_raise (key_error (node_name s startup_node))
             | Some n \<Rightarrow> io_seq (set_connection n (Some r)) (io_ret r))))"

definition ask_cluster_slots :: "('c, 'g) cluster_class \<Rightarrow> nat \<Rightarrow> (('c, 'g, 'z) cluster_scheme, pyval) io" where
  "ask_cluster_slots X startup_node =
     io_bind (startup_connection X startup_node) (\<lambda>r.
       io_try
         (io_bind (with_redis X r (\<lambda>C. execute_command C [PStr ''CLUSTER SLOTS''] no_opts)) (\<lambda>v.
           io_seq (with_redis X r (\<lambda>C. on_pool (pool_disconnect (cc_class C) True)))
             (io_ret (str_if_bytes v))))
         (\<lambda>e. io_raise (if is_exc e ResponseError then not_a_cluster else e)))"

text \<open>\<open>v[i] = x\<close>\<close>

definition set_at :: "pyval \<Rightarrow> nat \<Rightarrow> pyval \<Rightarrow> pyval res" where
  "set_at v i x =
     (case v of PList xs \<Rightarrow> if i < length xs then Inr (PList (xs[i := x])) else Inl index_error | _ \<Rightarrow> Inl (type_error v))"

text \<open>A single server does not know its host.\<close>

definition fix_single_host :: "nat \<Rightarrow> string \<Rightarrow> pyval \<Rightarrow> pyval res" where
  "fix_single_host n_startup host cluster_slots =
     res_bind (py_len cluster_slots) (\<lambda>n.
       if n \<noteq> 1 then Inr cluster_slots
       else
         res_bind (getitem cluster_slots 0) (\<lambda>section0.
         res_bind (getitem section0 2) (\<lambda>primary.
         res_bind (res_bind (getitem primary 0) py_len) (\<lambda>k.
           if k = 0 \<and> n_startup = 1
           then res_bind (set_at primary 0 (PStr host)) (\<lambda>primary.
             res_bind (set_at section0 2 primary) (set_at cluster_slots 0))
           else Inr cluster_slots))))"

section \<open>Reading the layout\<close>

definition get_or_create_cluster_node ::
  "('c, 'g) cluster_class \<Rightarrow> string \<Rightarrow> int \<Rightarrow> role \<Rightarrow> layout \<Rightarrow> (('c, 'g, 'z) cluster_scheme, nat \<times> layout) io" where
  "get_or_create_cluster_node X host port rl t =
     (let name = get_node_name host port in
      case map_of (tmp_nodes_cache t) name of
        Some n \<Rightarrow> io_ret (n, t)
      | None \<Rightarrow>
          io_bind
            (io_get (\<lambda>s. case map_of (nodes_cache s) name of
               None \<Rightarrow> new_node X host port (Some rl)
             | Some n \<Rightarrow> if redis_connection (nodes s n) = None then new_node X host port (Some rl) else io_ret n))
            (\<lambda>n. io_seq (io_upd (upd_node n (server_type_update (\<lambda>_. Some rl))))
              (io_get (\<lambda>s. io_ret (n, t\<lparr>tmp_nodes_cache := AList.update (node_name s n) n (tmp_nodes_cache t)\<rparr>)))))"

text \<open>Host and port of an entry of a section.\<close>

definition entry_host :: "pyval \<Rightarrow> string res" where
  "entry_host v = res_map safe_str (getitem v 0)"

definition entry_port :: "pylib \<Rightarrow> pyval \<Rightarrow> int res" where
  "entry_port L v = res_bind (getitem v 1) (to_int L)"

primrec add_replicas ::
  "('c, 'g) cluster_class \<Rightarrow> pyval list \<Rightarrow> layout \<Rightarrow> (('c, 'g, 'z) cluster_scheme, nat list \<times> layout) io" where
  "add_replicas X [] t = io_ret ([], t)"
| "add_replicas X (v # vs) t =
     io_bind (io_lift (entry_host v)) (\<lambda>host.
     io_bind (io_lift (entry_port (x_lib X) v)) (\<lambda>port.
     io_bind (get_or_create_cluster_node X (fst (remap_host_port X host port)) (snd (remap_host_port X host port)) REPLICA t) (\<lambda>(n, t).
     io_bind (add_replicas X vs t) (\<lambda>(ns, t). io_ret (n # ns, t)))))"

definition no_agreement :: "string list \<Rightarrow> exc" where
  "no_agreement ds =
     Exc RedisClusterException (''startup_nodes could not agree on a valid slots cache: '' @ join '', '' ds)"

text \<open>The slots of a section get its list; a slot that has another primary already is a disagreement.\<close>

primrec assign_slots ::
  "('c, 'g, 'z) cluster_scheme \<Rightarrow> nat \<Rightarrow> nat \<Rightarrow> int list \<Rightarrow> layout \<Rightarrow> layout res" where
  "assign_slots s nodes_for_slot target_node [] t = Inr t"
| "assign_slots s nodes_for_slot target_node (i # is) t =
     (case map_of (tmp_slots t) i of
        None \<Rightarrow> assign_slots s nodes_for_slot target_node is (t\<lparr>tmp_slots := tmp_slots t @ [(i, nodes_for_slot)]\<rparr>)
      | Some l \<Rightarrow>
          let tmp_slot = hd (node_lists s l) in
          if node_name s tmp_slot = node_name s target_node then assign_slots s nodes_for_slot target_node is t
          else
            let ds = disagreements t @ [node_name s tmp_slot @ '' vs '' @ node_name s target_node @ '' on slot: '' @ int_repr i] in
            if length ds > 5 then Inl (no_agreement ds)
            else assign_slots s nodes_for_slot target_node is (t\<lparr>disagreements := ds\<rparr>))"

definition add_section ::
  "('c, 'g) cluster_class \<Rightarrow> nat \<Rightarrow> pyval \<Rightarrow> layout \<Rightarrow> (('c, 'g, 'z) cluster_scheme, layout) io" where
  "add_section X startup_node slot t =
     io_bind (io_lift (getitem slot 2)) (\<lambda>primary_node.
     io_bind (io_lift (entry_host primary_node)) (\<lambda>host.
     io_get (\<lambda>s.
     let host = (if host = [] then cn_host (nodes s startup_node) else host) in
     io_bind (io_lift (entry_port (x_lib X) primary_node)) (\<lambda>port.
     io_bind (get_or_create_cluster_node X (fst (remap_host_port X host port)) (snd (remap_host_port X host port)) PRIMARY t)
       (\<lambda>(target_node, t).
     io_bind (io_lift (res_map (drop 3) (elements slot))) (\<lambda>replica_nodes.
     io_bind (add_replicas X replica_nodes t) (\<lambda>(replicas, t).
     io_bind (new_list (target_node # replicas)) (\<lambda>nodes_for_slot.
     io_bind (io_lift (res_bind (getitem slot 0) (to_int (x_lib X)))) (\<lambda>a.
     io_bind (io_lift (res_bind (getitem slot 1) (to_int (x_lib X)))) (\<lambda>b.
     io_get (\<lambda>s. io_lift (assign_slots s nodes_for_slot target_node [a..b] t))))))))))))"

primrec add_sections ::
  "('c, 'g) cluster_class \<Rightarrow> nat \<Rightarrow> pyval list \<Rightarrow> layout \<Rightarrow> (('c, 'g, 'z) cluster_scheme, layout) io" where
  "add_sections X startup_node [] t = io_ret t"
| "add_sections X startup_node (slot # rest) t =
     io_bind (add_section X startup_node slot t) (add_sections X startup_node rest)"

text \<open>\<open>check_slots_coverage\<close>: the \<open>k\<close> slots from \<open>i\<close> on are in the cache.\<close>

fun slots_from :: "nat \<Rightarrow> int \<Rightarrow> (int \<times> 'a) list \<Rightarrow> bool" where
  "slots_from k i cache = (if k = 0 then True else if map_of cache i = None then False else slots_from (k - 1) (i + 1) cache)"

declare slots_from.simps [simp del]

definition check_slots_coverage :: "(int \<times> 'a) list \<Rightarrow> bool" where
  "check_slots_coverage cache = slots_from REDIS_CLUSTER_HASH_SLOTS 0 cache"

primrec discover :: "('c, 'g) cluster_class \<Rightarrow> nat list \<Rightarrow> layout \<Rightarrow> (('c, 'g, 'z) cluster_scheme, layout) io" where
  "discover X [] t = io_ret t"
| "discover X (n # ns) t =
     io_bind (io_catch (ask_cluster_slots X n)) (\<lambda>r. case r of
        Inl e \<Rightarrow> if is_exc e PyException then discover X ns (t\<lparr>last_exception := Some e\<rparr>) else io_raise e
      | Inr reply \<Rightarrow>
          io_bind (io_get (\<lambda>s. io_lift (fix_single_host (length (startup_nodes s)) (cn_host (nodes s n)) reply))) (\<lambda>cluster_slots.
          io_bind (io_lift (iterate cluster_slots)) (\<lambda>slots.
          io_bind (add_sections X n slots (t\<lparr>startup_nodes_reachable := True\<rparr>)) (\<lambda>t.
            let t = t\<lparr>fully_covered := check_slots_coverage (tmp_slots t)\<rparr> in
            if fully_covered t then io_ret t else discover X ns t))))"

section \<open>initialize\<close>

definition unreachable :: "exc option \<Rightarrow> exc" where
  "unreachable e =
     Exc RedisClusterException
       (''Redis Cluster cannot be connected. Please provide at least one reachable node: '' @
        (case e of None \<Rightarrow> ''None'' | Some e \<Rightarrow> exc_msg e))"

definition uncovered :: "nat \<Rightarrow> exc" where
  "uncovered n =
     Exc RedisClusterException
       (''All slots are not covered after query all startup_nodes. '' @ nat_repr n @ '' of '' @
        nat_repr REDIS_CLUSTER_HASH_SLOTS @ '' covered...'')"

text \<open>The caches are replaced; the startup nodes keep the old dictionary until they are given the new one.\<close>

definition install_layout :: "('c, 'g) cluster_class \<Rightarrow> layout \<Rightarrow> (('c, 'g, 'z) cluster_scheme, unit) io" where
  "install_layout X t =
     io_seq (io_upd (\<lambda>s. s\<lparr>own_startup_nodes := Some (startup_nodes s), nodes_cache := tmp_nodes_cache t, slots_cache := tmp_slots t\<rparr>))
       (io_get (\<lambda>s. io_bind (io_lift (nth_item (get_nodes_by_server_type s PRIMARY) 0)) (\<lambda>n.
          io_upd (\<lambda>s. s\<lparr>default_node := Some n,
            own_startup_nodes := (if x_dynamic_startup_nodes X then None else own_startup_nodes s),
            moved_exception := None\<rparr>))))"

definition initialize :: "('c, 'g) cluster_class \<Rightarrow> (('c, 'g, 'z) cluster_scheme, unit) io" where
  "initialize X =
     io_seq (io_upd (\<lambda>s. s\<lparr>primary_to_idx := []\<rparr>))
       (io_get (\<lambda>s.
         io_bind (discover X (map snd (startup_nodes s)) empty_layout) (\<lambda>t.
           if \<not> startup_nodes_reachable t then io_raise (unreachable (last_exception t))
           else
             io_seq (io_upd (\<lambda>s. s\<lparr>cache_made := cache_made s \<or> x_cache_config X\<rparr>))
               (io_seq (create_redis_connections X (map snd (tmp_nodes_cache t)))
                 (if \<not> fully_covered t \<and> x_require_full_coverage X then io_raise (uncovered (length (tmp_slots t)))
                  else install_layout X t)))))"

section \<open>Making and closing a manager\<close>

text \<open>\<open>populate_startup_nodes\<close>\<close>

definition populate_startup_nodes :: "nat list \<Rightarrow> ('c, 'g, 'z) cluster_scheme \<Rightarrow> ('c, 'g, 'z) cluster_scheme" where
  "populate_startup_nodes ns s =
     s\<lparr>own_startup_nodes := Some (foldl (\<lambda>d n. AList.update (node_name s n) n d) (startup_nodes s) ns)\<rparr>"

definition init_manager :: "('c, 'g) cluster_class \<Rightarrow> nat list \<Rightarrow> (('c, 'g, 'z) cluster_scheme, unit) io" where
  "init_manager X startup =
     io_seq
       (io_upd (\<lambda>s. populate_startup_nodes startup
          (s\<lparr>nodes_cache := [], slots_cache := [], own_startup_nodes := Some [], default_node := None,
             moved_exception := None, primary_to_idx := []\<rparr>)))
       (initialize X)"

primrec close_nodes :: "('c, 'g) cluster_class \<Rightarrow> nat list \<Rightarrow> (('c, 'g, 'z) cluster_scheme, unit) io" where
  "close_nodes X [] = io_ret ()"
| "close_nodes X (n # ns) =
     io_seq
       (io_get (\<lambda>s. case redis_connection (nodes s n) of None \<Rightarrow> io_ret () | Some r \<Rightarrow> with_redis X r redis_close))
       (close_nodes X ns)"

definition close_manager :: "('c, 'g) cluster_class \<Rightarrow> (('c, 'g, 'z) cluster_scheme, unit) io" where
  "close_manager X =
     io_seq (io_upd (\<lambda>s. s\<lparr>default_node := None\<rparr>))
       (io_get (\<lambda>s. close_nodes X (map snd (nodes_cache s))))"

end
