(* ===== verification/Cluster_Tables.thy ===== *)
theory Cluster_Tables
  imports Cluster_Discovery Cmd_Base
begin

text \<open>
  The tables of \<open>redis/cluster.py\<close> and \<open>redis/commands/cluster.py\<close>: on which nodes a command runs, which commands only
  read, and how the replies of several nodes become one (\<open>RESULT_CALLBACKS\<close>); and the reply parsers of the cluster client.
\<close>

section \<open>Where a command runs\<close>

definition PRIMARIES :: string where "PRIMARIES = ''primaries''"
definition REPLICAS :: string where "REPLICAS = ''replicas''"
definition ALL_NODES :: string where "ALL_NODES = ''all''"
definition RANDOM :: string where "RANDOM = ''random''"
definition DEFAULT_NODE :: string where "DEFAULT_NODE = ''default-node''"
definition SLOT_ID :: string where "SLOT_ID = ''slot-id''"

definition NODE_FLAGS :: "string list" where
  "NODE_FLAGS = [PRIMARIES, REPLICAS, ALL_NODES, RANDOM, DEFAULT_NODE]"

lemmas flag_defs = PRIMARIES_def REPLICAS_def ALL_NODES_def RANDOM_def DEFAULT_NODE_def SLOT_ID_def

definition list_keys_to_dict :: "string list \<Rightarrow> 'a \<Rightarrow> (string \<times> 'a) list" where
  "list_keys_to_dict key_list callback = map (\<lambda>k. (k, callback)) key_list"

definition COMMAND_FLAGS :: "(string \<times> string) list" where
  "COMMAND_FLAGS =
     list_keys_to_dict
     [''ACL CAT'', ''ACL DELUSER'', ''ACL DRYRUN'', ''ACL GENPASS'', ''ACL GETUSER'', ''ACL HELP'', ''ACL LIST'',
      ''ACL LOG'', ''ACL LOAD'', ''ACL SAVE'', ''ACL SETUSER'', ''ACL USERS'', ''ACL WHOAMI'', ''AUTH'', ''CLIENT LIST'',
      ''CLIENT SETINFO'', ''CLIENT SETNAME'', ''CLIENT GETNAME'', ''CONFIG SET'', ''CONFIG REWRITE'', ''CONFIG RESETSTAT'',
      ''TIME'', ''PUBSUB CHANNELS'', ''PUBSUB NUMPAT'', ''PUBSUB NUMSUB'', ''PUBSUB SHARDCHANNELS'', ''PUBSUB SHARDNUMSUB'',
      ''PING'', ''INFO'', ''SHUTDOWN'', ''KEYS'', ''DBSIZE'', ''BGSAVE'', ''SLOWLOG GET'', ''SLOWLOG LEN'',
      ''SLOWLOG RESET'', ''WAIT'', ''WAITAOF'', ''SAVE'', ''MEMORY PURGE'', ''MEMORY MALLOC-STATS'', ''MEMORY STATS'',
      ''LASTSAVE'', ''CLIENT TRACKINGINFO'', ''CLIENT PAUSE'', ''CLIENT UNPAUSE'', ''CLIENT UNBLOCK'', ''CLIENT ID'',
      ''CLIENT REPLY'', ''CLIENT GETREDIR'', ''CLIENT INFO'', ''CLIENT KILL'', ''READONLY'', ''CLUSTER INFO'',
      ''CLUSTER MEET'', ''CLUSTER MYSHARDID'', ''CLUSTER NODES'', ''CLUSTER REPLICAS'', ''CLUSTER RESET'',
      ''CLUSTER SET-CONFIG-EPOCH'', ''CLUSTER SLOTS'', ''CLUSTER SHARDS'', ''CLUSTER COUNT-FAILURE-REPORTS'',
      ''CLUSTER KEYSLOT'', ''COMMAND'', ''COMMAND COUNT'', ''COMMAND LIST'', ''COMMAND GETKEYS'', ''CONFIG GET'', ''DEBUG'',
      ''RANDOMKEY'', ''READONLY'', ''READWRITE'', ''TIME'', ''TFUNCTION LOAD'', ''TFUNCTION DELETE'', ''TFUNCTION LIST'',
      ''TFCALL'', ''TFCALLASYNC'', ''LATENCY HISTORY'', ''LATENCY LATEST'', ''LATENCY RESET'', ''MODULE LIST'',
      ''MODULE LOAD'', ''MODULE UNLOAD'', ''MODULE LOADEX''] DEFAULT_NODE
     @ list_keys_to_dict
     [''FLUSHALL'', ''FLUSHDB'', ''FUNCTION DELETE'', ''FUNCTION FLUSH'', ''FUNCTION LIST'', ''FUNCTION LOAD'',
      ''FUNCTION RESTORE'', ''SCAN'', ''SCRIPT EXISTS'', ''SCRIPT FLUSH'', ''SCRIPT LOAD''] PRIMARIES
     @ list_keys_to_dict
     [''FUNCTION DUMP''] RANDOM
     @ list_keys_to_dict
     [''CLUSTER COUNTKEYSINSLOT'', ''CLUSTER DELSLOTS'', ''CLUSTER DELSLOTSRANGE'', ''CLUSTER GETKEYSINSLOT'',
      ''CLUSTER SETSLOT''] SLOT_ID"

definition SEARCH_COMMANDS :: "string list" where
  "SEARCH_COMMANDS =
     [''FT.CREATE'', ''FT.SEARCH'', ''FT.AGGREGATE'', ''FT.EXPLAIN'', ''FT.EXPLAINCLI'', ''FT,PROFILE'', ''FT.ALTER'',
      ''FT.DROPINDEX'', ''FT.ALIASADD'', ''FT.ALIASUPDATE'', ''FT.ALIASDEL'', ''FT.TAGVALS'', ''FT.SUGADD'', ''FT.SUGGET'',
      ''FT.SUGDEL'', ''FT.SUGLEN'', ''FT.SYNUPDATE'', ''FT.SYNDUMP'', ''FT.SPELLCHECK'', ''FT.DICTADD'', ''FT.DICTDEL'',
      ''FT.DICTDUMP'', ''FT.INFO'', ''FT._LIST'', ''FT.CONFIG'', ''FT.ADD'', ''FT.DEL'', ''FT.DROP'', ''FT.GET'',
      ''FT.MGET'', ''FT.SYNADD'']"

definition PIPELINE_BLOCKED_COMMANDS :: "string list" where
  "PIPELINE_BLOCKED_COMMANDS =
     [''BGREWRITEAOF'', ''BGSAVE'', ''BITOP'', ''BRPOPLPUSH'', ''CLIENT GETNAME'', ''CLIENT KILL'', ''CLIENT LIST'',
      ''CLIENT SETNAME'', ''CLIENT'', ''CONFIG GET'', ''CONFIG RESETSTAT'', ''CONFIG REWRITE'', ''CONFIG SET'', ''CONFIG'',
      ''DBSIZE'', ''ECHO'', ''EVALSHA'', ''FLUSHALL'', ''FLUSHDB'', ''INFO'', ''KEYS'', ''LASTSAVE'', ''MGET'',
      ''MGET NONATOMIC'', ''MOVE'', ''MSET'', ''MSET NONATOMIC'', ''MSETNX'', ''PFCOUNT'', ''PFMERGE'', ''PING'',
      ''PUBLISH'', ''RANDOMKEY'', ''READONLY'', ''READWRITE'', ''RENAME'', ''RENAMENX'', ''RPOPLPUSH'', ''SAVE'', ''SCAN'',
      ''SCRIPT EXISTS'', ''SCRIPT FLUSH'', ''SCRIPT KILL'', ''SCRIPT LOAD'', ''SCRIPT'', ''SDIFF'', ''SDIFFSTORE'',
      ''SENTINEL GET MASTER ADDR BY NAME'', ''SENTINEL MASTER'', ''SENTINEL MASTERS'', ''SENTINEL MONITOR'',
      ''SENTINEL REMOVE'', ''SENTINEL SENTINELS'', ''SENTINEL SET'', ''SENTINEL SLAVES'', ''SENTINEL'', ''SHUTDOWN'',
      ''SINTER'', ''SINTERSTORE'', ''SLAVEOF'', ''SLOWLOG GET'', ''SLOWLOG LEN'', ''SLOWLOG RESET'', ''SLOWLOG'', ''SMOVE'',
      ''SORT'', ''SUNION'', ''SUNIONSTORE'', ''TIME'']"

definition READ_COMMANDS :: "string list" where
  "READ_COMMANDS =
     [''BITCOUNT'', ''BITPOS'', ''EVAL_RO'', ''EVALSHA_RO'', ''EXISTS'', ''GEODIST'', ''GEOHASH'', ''GEOPOS'', ''GEORADIUS'',
      ''GEORADIUSBYMEMBER'', ''GET'', ''GETBIT'', ''GETRANGE'', ''HEXISTS'', ''HGET'', ''HGETALL'', ''HKEYS'', ''HLEN'',
      ''HMGET'', ''HSTRLEN'', ''HVALS'', ''KEYS'', ''LINDEX'', ''LLEN'', ''LRANGE'', ''MGET'', ''PTTL'', ''RANDOMKEY'',
      ''SCARD'', ''SDIFF'', ''SINTER'', ''SISMEMBER'', ''SMEMBERS'', ''SRANDMEMBER'', ''STRLEN'', ''SUNION'', ''TTL'',
      ''ZCARD'', ''ZCOUNT'', ''ZRANGE'', ''ZSCORE'']"

definition command_flag :: "string \<Rightarrow> string option" where
  "command_flag command = map_of COMMAND_FLAGS command"

section \<open>Replies of several nodes\<close>

text \<open>The replies by the name of the node, in the order the nodes answered.\<close>

type_synonym node_replies = "(string \<times> pyval) list"

definition merge_result :: "node_replies \<Rightarrow> pyval res" where
  "merge_result res =
     res_bind (traverse (\<lambda>(_, v). iterate v) res) (\<lambda>vs. res_map PList (set_of (concat vs)))"

definition parse_scan_result :: "pylib \<Rightarrow> node_replies \<Rightarrow> pyval res" where
  "parse_scan_result L res =
     res_bind (traverse (\<lambda>(node_name, response).
         res_bind (parse_scan L response) (\<lambda>cr. res_bind (unpack2 cr) (\<lambda>(cursor, r).
         res_bind (iterate r) (\<lambda>xs. Inr ((PStr node_name, cursor), xs))))) res) (\<lambda>parts.
       Inr (PTuple [PDict (map fst parts), PList (concat (map snd parts))]))"

text \<open>\<open>a + b\<close> of two counts\<close>

definition add_counts :: "pyval \<Rightarrow> pyval \<Rightarrow> pyval res" where
  "add_counts a b = (case (as_number a, as_number b) of (Some m, Some n) \<Rightarrow> Inr (PInt (m + n)) | _ \<Rightarrow> Inl (type_error b))"

definition count_channel :: "(pyval \<times> pyval) list \<Rightarrow> pyval \<Rightarrow> (pyval \<times> pyval) list res" where
  "count_channel d t =
     res_bind (unpack2 t) (\<lambda>(channel, numsubbed).
       if \<not> hashable channel then Inl (type_error channel)
       else case dict_get d channel of
         None \<Rightarrow> Inr (dict_set d channel numsubbed)
       | Some n \<Rightarrow> res_map (dict_set d channel) (add_counts n numsubbed))"

definition parse_pubsub_numsub_nodes :: "node_replies \<Rightarrow> pyval res" where
  "parse_pubsub_numsub_nodes res =
     res_bind (traverse (\<lambda>(_, v). iterate v) res) (\<lambda>vs.
     res_bind (res_fold count_channel [] (concat vs)) (\<lambda>d.
       Inr (PList (map (\<lambda>(channel, numsub). PTuple [channel, numsub]) d))))"

definition sum_replies :: "node_replies \<Rightarrow> int res" where
  "sum_replies res = py_sum (map snd res)"

definition all_replies :: "node_replies \<Rightarrow> pyval res" where
  "all_replies res = Inr (PBool (list_all (\<lambda>(_, v). truthy v) res))"

text \<open>\<open>[all(k) for k in zip(*res.values())]\<close>\<close>

fun zip_all :: "pyval list list \<Rightarrow> pyval list" where
  "zip_all [] = []"
| "zip_all [xs] = map (\<lambda>x. PBool (truthy x)) xs"
| "zip_all (xs # xss) = map (\<lambda>(x, r). PBool (truthy x \<and> truthy r)) (zip xs (zip_all xss))"

definition scripts_exist :: "node_replies \<Rightarrow> pyval res" where
  "scripts_exist res = res_bind (traverse (\<lambda>(_, v). iterate v) res) (\<lambda>vs. Inr (PList (zip_all vs)))"

definition RESULT_CALLBACKS :: "pylib \<Rightarrow> (string \<times> bool \<times> (node_replies \<Rightarrow> pyval res)) list" where
  "RESULT_CALLBACKS L =
     list_keys_to_dict [''PUBSUB NUMSUB'', ''PUBSUB SHARDNUMSUB''] (True, parse_pubsub_numsub_nodes)
     @ list_keys_to_dict [''PUBSUB NUMPAT''] (False, \<lambda>res. res_map PInt (sum_replies res))
     @ list_keys_to_dict [''KEYS'', ''PUBSUB CHANNELS'', ''PUBSUB SHARDCHANNELS''] (False, merge_result)
     @ list_keys_to_dict
         [''PING'', ''CONFIG SET'', ''CONFIG REWRITE'', ''CONFIG RESETSTAT'', ''CLIENT SETNAME'', ''BGSAVE'', ''SLOWLOG RESET'',
          ''SAVE'', ''MEMORY PURGE'', ''CLIENT PAUSE'', ''CLIENT UNPAUSE''] (False, all_replies)
     @ list_keys_to_dict [''DBSIZE'', ''WAIT''] (False, \<lambda>res. res_map PInt (sum_replies res))
     @ list_keys_to_dict [''CLIENT UNBLOCK''] (False, \<lambda>res. res_map (\<lambda>n. PInt (if n > 0 then 1 else 0)) (sum_replies res))
     @ list_keys_to_dict [''SCAN''] (True, parse_scan_result L)
     @ list_keys_to_dict [''SCRIPT LOAD''] (False, \<lambda>res. nth_item (map snd res) (-1))
     @ list_keys_to_dict [''SCRIPT EXISTS''] (False, scripts_exist)
     @ list_keys_to_dict [''SCRIPT FLUSH''] (False, all_replies)"

text \<open>\<open>_process_result\<close>: a reply parser of the table, or the reply itself when there is one only.\<close>

definition process_result :: "pylib \<Rightarrow> string \<Rightarrow> cb_opts \<Rightarrow> node_replies \<Rightarrow> pyval res" where
  "process_result L command opts res =
     (case map_of (RESULT_CALLBACKS L) (upper command) of
        Some (takes_options, f) \<Rightarrow>
          if \<not> takes_options \<and> (opt_values opts \<noteq> [] \<or> score_cast opts \<noteq> None)
          then Inl (Exc PyTypeError ''unexpected keyword argument'') else f res
      | None \<Rightarrow>
          (case res of
             [(_, v)] \<Rightarrow> Inr v
           | _ \<Rightarrow> Inr (PDict (map (\<lambda>(node_name, v). (PStr node_name, v)) res))))"

section \<open>Reply parsers of the cluster client\<close>

text \<open>\<open>fix_server(*server)\<close>: host and port; a server that does not know its host gets the one it was reached at.\<close>

definition fix_server :: "pyval \<Rightarrow> pyval \<Rightarrow> pyval res" where
  "fix_server current_host server =
     res_bind (iterate server) (\<lambda>args.
     res_bind (nth_item args 0) (\<lambda>host.
     res_bind (nth_item args 1) (\<lambda>port.
       let host = str_if_bytes host in Inr (PTuple [if truthy host then host else current_host, port]))))"

definition parse_cluster_slots :: callback where
  "parse_cluster_slots L opts resp =
     (let current_host = (case map_of (opt_values opts) ''current_host'' of None \<Rightarrow> PStr [] | Some v \<Rightarrow> v) in
      res_bind (iterate resp) (\<lambda>sections.
      dict_value (res_fold (\<lambda>slots slot.
        res_bind (elements slot) (\<lambda>xs.
        if length xs < 3 then Inl unpack_error
        else
          res_bind (fix_server current_host (xs ! 2)) (\<lambda>primary.
          res_bind (traverse (fix_server current_host) (drop 3 xs)) (\<lambda>replicas.
            set_item slots (PTuple [xs ! 0, xs ! 1], obj [(''primary'', primary), (''replicas'', PList replicas)])))))
        [] sections)))"

text \<open>\<open>for i in range(0, len(v), 2): ... v[i], v[i + 1]\<close>: an odd length is an error.\<close>

definition index_pairs :: "pyval \<Rightarrow> (pyval \<times> pyval) list res" where
  "index_pairs v =
     res_bind (py_len v) (\<lambda>_. res_bind (elements v) (\<lambda>xs. if odd (length xs) then Inl index_error else Inr (pairs xs)))"

definition parse_cluster_shard :: "pyval \<Rightarrow> pyval res" where
  "parse_cluster_shard x =
     res_bind (res_bind (getitem x 1) index_pairs) (\<lambda>slots.
     res_bind (res_bind (getitem x 3) iterate) (\<lambda>nodes.
     res_bind (traverse (\<lambda>node. dict_value (res_bind (index_pairs node) dict_of)) nodes) (\<lambda>dict_nodes.
       Inr (obj [(''slots'', PList (map (\<lambda>(a, b). PTuple [a, b]) slots)), (''nodes'', PList dict_nodes)]))))"

definition parse_cluster_shards :: "pyval \<Rightarrow> pyval res" where
  "parse_cluster_shards resp =
     res_bind (getitem resp 0) (\<lambda>first. case first of
        PDict _ \<Rightarrow> Inr resp
      | _ \<Rightarrow> res_bind (iterate resp) (\<lambda>xs. res_map PList (traverse parse_cluster_shard xs)))"

definition parse_cluster_myshardid :: "pyval \<Rightarrow> pyval res" where
  "parse_cluster_myshardid resp =
     (case resp of
        PBytes b \<Rightarrow> (case utf8_decode b of Some s \<Rightarrow> Inr (PStr s) | None \<Rightarrow> Inl (Exc PyUnicodeDecodeError ''utf-8''))
      | _ \<Rightarrow> Inl (attr_error resp))"

definition CLUSTER_COMMANDS_RESPONSE_CALLBACKS :: "(string \<times> cb_entry) list" where
  "CLUSTER_COMMANDS_RESPONSE_CALLBACKS =
     [(''CLUSTER SLOTS'', (True, parse_cluster_slots)),
      (''CLUSTER SHARDS'', (True, \<lambda>_ _. parse_cluster_shards)),
      (''CLUSTER MYSHARDID'', (True, \<lambda>_ _. parse_cluster_myshardid))]"

end
