(* ===== verification/Cluster.thy ===== *)
theory Cluster
  imports Cluster_Tables
begin

text \<open>
  \<open>RedisCluster\<close> of \<open>redis/cluster.py\<close>: choosing the nodes of a command, running it on a node through redirections and
  failures (\<open>_execute_command\<close>), and running it again when the layout of the cluster was read anew
  (\<open>_internal_execute_command\<close>).

  The name of a command is text, its further arguments are values.  The arguments are not shown in error messages.
\<close>

section \<open>Nodes\<close>

definition cluster_command :: "('c, 'g) cluster_class \<Rightarrow> nat \<Rightarrow> pyval list \<Rightarrow> (('c, 'g, 'z) cluster_scheme, pyval) io" where
  "cluster_command X r args = with_redis X r (\<lambda>C. execute_command C args no_opts)"

definition get_nodes :: "('c, 'g, 'z) cluster_scheme \<Rightarrow> nat list" where
  "get_nodes s = map snd (nodes_cache s)"

definition get_random_node :: "('c, 'g) cluster_class \<Rightarrow> (('c, 'g, 'z) cluster_scheme, nat) io" where
  "get_random_node X = io_get (\<lambda>s. random_choice X (get_nodes s))"

definition get_redis_connection :: "('c, 'g) cluster_class \<Rightarrow> nat option \<Rightarrow> (('c, 'g, 'z) cluster_scheme, nat) io" where
  "get_redis_connection X node =
     (case node of
        None \<Rightarrow> io_raise (attr_error PNone)
      | Some n \<Rightarrow>
          io_get (\<lambda>s. case redis_connection (nodes s n) of
             Some r \<Rightarrow> io_ret r
           | None \<Rightarrow> io_bind (create_redis_node X (cn_host (nodes s n)) (cn_port (nodes s n))) (\<lambda>r.
               io_seq (set_connection n (Some r)) (io_ret r))))"

definition set_default_node :: "('c, 'g) cluster_class \<Rightarrow> nat option \<Rightarrow> (('c, 'g, 'z) cluster_scheme, bool) io" where
  "set_default_node X node =
     (case node of
        None \<Rightarrow> io_ret False
      | Some n \<Rightarrow> io_get (\<lambda>s.
          if get_node X s None None (Some (node_name s n)) = None then io_ret False
          else io_seq (io_upd (\<lambda>s. s\<lparr>default_node := Some n\<rparr>)) (io_ret True)))"

definition replace_default_node :: "('c, 'g) cluster_class \<Rightarrow> nat option \<Rightarrow> (('c, 'g, 'z) cluster_scheme, unit) io" where
  "replace_default_node X target_node =
     (case target_node of
        Some n \<Rightarrow> io_upd (\<lambda>s. s\<lparr>default_node := Some n\<rparr>)
      | None \<Rightarrow>
          io_get (\<lambda>s.
            let primaries = filter (\<lambda>n. \<not> is_default s n) (get_nodes_by_server_type s PRIMARY) in
            if primaries \<noteq> [] then io_bind (random_choice X primaries) (\<lambda>n. io_upd (\<lambda>s. s\<lparr>default_node := Some n\<rparr>))
            else
              let replicas = filter (\<lambda>n. \<not> is_default s n) (get_nodes_by_server_type s REPLICA) in
              if replicas \<noteq> [] then io_bind (random_choice X replicas) (\<lambda>n. io_upd (\<lambda>s. s\<lparr>default_node := Some n\<rparr>))
              else io_ret ()))"

section \<open>Slots\<close>

definition keyslot :: "('c, 'g) cluster_class \<Rightarrow> pyval \<Rightarrow> nat res" where
  "keyslot X key =
     res_bind (encode (x_encoder X) key) (\<lambda>k. case k of
        PBytes b \<Rightarrow> Inr (key_slot b REDIS_CLUSTER_HASH_SLOTS)
      | v \<Rightarrow> Inl (attr_error v))"

definition get_node_from_key ::
  "('c, 'g) cluster_class \<Rightarrow> pyval \<Rightarrow> bool \<Rightarrow> (('c, 'g, 'z) cluster_scheme, nat option) io" where
  "get_node_from_key X key replica =
     io_bind (io_lift (keyslot X key)) (\<lambda>slot. io_get (\<lambda>s.
       case map_of (slots_cache s) (int slot) of
         None \<Rightarrow> io_raise (Exc SlotNotCoveredError (''Slot '' @ [CHR 0x22] @ nat_repr slot @ [CHR 0x22] @ '' is not covered by the cluster.''))
       | Some l \<Rightarrow>
           let ns = node_lists s l in
           if ns = []
           then io_raise (Exc SlotNotCoveredError (''Slot '' @ [CHR 0x22] @ nat_repr slot @ [CHR 0x22] @ '' is not covered by the cluster.''))
           else if replica then io_ret (if length ns < 2 then None else Some (ns ! 1))
           else io_ret (Some (hd ns))))"

definition save_commands :: "(pyval \<times> pyval) list \<Rightarrow> (('c, 'g, 'z) cluster_scheme, unit) io" where
  "save_commands commands = io_upd (\<lambda>s. s\<lparr>parser_commands := commands\<rparr>)"

definition get_command_keys ::
  "('c, 'g) cluster_class \<Rightarrow> string \<Rightarrow> pyval list \<Rightarrow> (('c, 'g, 'z) cluster_scheme, pyval) io" where
  "get_command_keys X name args =
     io_get (\<lambda>s. case default_node s of
        None \<Rightarrow> io_raise (attr_error PNone)
      | Some d \<Rightarrow>
          get_keys (x_lib X)
            (case redis_connection (nodes s d) of Some r \<Rightarrow> cluster_command X r | None \<Rightarrow> (\<lambda>_. io_raise (attr_error PNone)))
            save_commands (parser_commands s) name args)"

text \<open>\<open>xs[a:b]\<close> for \<open>0 \<le> a\<close>\<close>

definition py_slice :: "'a list \<Rightarrow> int \<Rightarrow> int \<Rightarrow> 'a list" where
  "py_slice xs a b =
     (let b = (if b < 0 then b + int (length xs) else b) in take (nat (b - a)) (drop (nat a) xs))"

text \<open>The keys of \<open>EVAL script numkeys key ...\<close>.\<close>

definition eval_keys :: "pylib \<Rightarrow> string \<Rightarrow> pyval list \<Rightarrow> pyval list res" where
  "eval_keys L name args =
     (if length args < 2 then Inl (Exc RedisClusterException ''Invalid args in command'')
      else res_bind (to_int L (args ! 1)) (\<lambda>num_actual_keys.
        Inr (py_slice (PStr name # args) 3 (3 + num_actual_keys))))"

definition random_slot :: "('c, 'g) cluster_class \<Rightarrow> (('c, 'g, 'z) cluster_scheme, pyval) io" where
  "random_slot X = io_bind (randbelow X REDIS_CLUSTER_HASH_SLOTS) (\<lambda>k. io_ret (PInt (int k)))"

definition slot_of_keys :: "('c, 'g) cluster_class \<Rightarrow> string \<Rightarrow> pyval list \<Rightarrow> pyval res" where
  "slot_of_keys X name ks =
     res_bind (traverse (keyslot X) ks) (\<lambda>slots.
       if length (remdups slots) \<noteq> 1
       then Inl (Exc RedisClusterException (name @ '' - all keys must map to the same key slot''))
       else Inr (PInt (int (hd slots))))"

definition determine_slot ::
  "('c, 'g) cluster_class \<Rightarrow> string \<Rightarrow> pyval list \<Rightarrow> (('c, 'g, 'z) cluster_scheme, pyval) io" where
  "determine_slot X name args =
     (if command_flag name = Some SLOT_ID then io_lift (nth_item args 0)
      else if upper name \<in> {''EVAL'', ''EVALSHA''}
      then io_bind (io_lift (eval_keys (x_lib X) name args)) (\<lambda>ks.
        if ks = [] then random_slot X else io_lift (slot_of_keys X name ks))
      else
        io_bind (get_command_keys X name args) (\<lambda>v.
        io_bind (io_lift (if v = PNone then Inr [] else iterate v)) (\<lambda>ks.
          if ks = []
          then (if upper name \<in> {''FCALL'', ''FCALL_RO''} then random_slot X
                else io_raise (Exc RedisClusterException ''No way to dispatch this command to Redis Cluster. Missing key.''))
          else io_lift (slot_of_keys X name ks))))"

section \<open>Target nodes\<close>

text \<open>\<open>f"{name} {arg}".upper()\<close>: an argument that is no text completes no name of the table.\<close>

definition two_words :: "string \<Rightarrow> pyval list \<Rightarrow> string option" where
  "two_words name args =
     (case args of PStr t # _ \<Rightarrow> Some (upper (name @ '' '' @ t)) | _ \<Rightarrow> None)"

definition full_name :: "string \<Rightarrow> pyval list \<Rightarrow> string" where
  "full_name name args =
     (case two_words name args of
        Some w \<Rightarrow> if command_flag w \<noteq> None then w else upper name
      | None \<Rightarrow> upper name)"

text \<open>The node of a slot that a command is sent to: a replica only for a command that reads.\<close>

definition node_for_command ::
  "('c, 'g) cluster_class \<Rightarrow> string \<Rightarrow> pyval \<Rightarrow> (('c, 'g, 'z) cluster_scheme, nat) io" where
  "node_for_command X command slot =
     get_node_from_slot X slot (x_read_from_replicas X \<and> command \<in> set READ_COMMANDS)
       (if command \<in> set READ_COMMANDS then x_strategy X else None) None"

definition determine_nodes ::
  "('c, 'g) cluster_class \<Rightarrow> string \<Rightarrow> pyval list \<Rightarrow> string option \<Rightarrow> (('c, 'g, 'z) cluster_scheme, nat option list) io" where
  "determine_nodes X name args nodes_flag =
     (let command = full_name name args;
          flag = (case nodes_flag of Some f \<Rightarrow> Some f | None \<Rightarrow> command_flag command) in
      if flag = Some RANDOM then io_bind (get_random_node X) (\<lambda>n. io_ret [Some n])
      else if flag = Some PRIMARIES then io_get (\<lambda>s. io_ret (map Some (get_nodes_by_server_type s PRIMARY)))
      else if flag = Some REPLICAS then io_get (\<lambda>s. io_ret (map Some (get_nodes_by_server_type s REPLICA)))
      else if flag = Some ALL_NODES then io_get (\<lambda>s. io_ret (map Some (get_nodes s)))
      else if flag = Some DEFAULT_NODE \<or> command \<in> set SEARCH_COMMANDS then io_get (\<lambda>s. io_ret [default_node s])
      else
        io_bind (determine_slot X name args) (\<lambda>slot.
        io_bind (node_for_command X command slot) (\<lambda>n. io_ret [Some n])))"

text \<open>What a caller may pass as \<open>target_nodes\<close>: text, a node, a list, or a dictionary (whose values count).\<close>

datatype target_nodes = Flag string | Node nat | Nodes "nat list" | Other pyval

definition is_nodes_flag :: "target_nodes \<Rightarrow> bool" where
  "is_nodes_flag t = (case t of Flag f \<Rightarrow> f \<in> set NODE_FLAGS | _ \<Rightarrow> False)"

definition parse_target_nodes :: "target_nodes \<Rightarrow> nat list res" where
  "parse_target_nodes t =
     (case t of
        Nodes ns \<Rightarrow> Inr ns
      | Node n \<Rightarrow> Inr [n]
      | _ \<Rightarrow> Inl (Exc PyTypeError ''target_nodes type can be one of the following: node_flag (PRIMARIES, REPLICAS, RANDOM, ALL_NODES),ClusterNode, list<ClusterNode>, or dict<any, ClusterNode>.''))"

section \<open>Running a command on a node\<close>

definition should_reinitialize :: "('c, 'g) cluster_class \<Rightarrow> ('c, 'g, 'z) cluster_scheme \<Rightarrow> bool" where
  "should_reinitialize X s \<longleftrightarrow>
     x_reinitialize_steps X \<noteq> 0 \<and> reinitialize_counter s mod x_reinitialize_steps X = 0"

text \<open>The local variables of \<open>_execute_command\<close>: they keep their values from one round to the next.  A connection is named
  by the client it was taken from and its number in the pool of that client.\<close>

record ('c, 'g) exec = "('c, 'g) cluster" +
  target_node :: "nat option"
  redis_node :: "nat option"
  connection :: "(nat \<times> nat) option"
  redirect_addr :: string
  asking :: bool
  moved :: bool

definition TTL :: nat where "TTL = 16"

definition disconnect_exec :: "('c, 'g) cluster_class \<Rightarrow> (('c, 'g, 'z) exec_scheme, unit) io" where
  "disconnect_exec X =
     io_get (\<lambda>s. case connection s of
        None \<Rightarrow> io_ret ()
      | Some (r, c) \<Rightarrow> with_redis X r (\<lambda>C. disconnect_connection C c))"

text \<open>\<open>redis_node.connection_pool.release(connection)\<close>: a pool ignores a connection that is not one of its own.\<close>

definition release_exec :: "('c, 'g) cluster_class \<Rightarrow> (('c, 'g, 'z) exec_scheme, unit) io" where
  "release_exec X =
     io_get (\<lambda>s. case (connection s, redis_node s) of
        (Some (r, c), Some r') \<Rightarrow>
          with_redis X r' (\<lambda>C. on_pool (if r = r' then release (cc_class C) c else checkpid))
      | _ \<Rightarrow> io_ret ())"

text \<open>Where this round goes: the node of an ASK, the owner of the slot after a MOVED, else the node of the last round.\<close>

definition choose_target :: "('c, 'g) cluster_class \<Rightarrow> string \<Rightarrow> pyval list \<Rightarrow> (('c, 'g, 'z) exec_scheme, unit) io" where
  "choose_target X name args =
     io_get (\<lambda>s.
       if asking s
       then io_upd (\<lambda>s. s\<lparr>target_node := get_node X s None None (Some (redirect_addr s))\<rparr>)
       else if moved s
       then io_bind (determine_slot X name args) (\<lambda>slot.
         io_bind (node_for_command X name slot) (\<lambda>n.
           io_upd (\<lambda>s. s\<lparr>target_node := Some n, moved := False\<rparr>)))
       else io_ret ())"

definition take_connection :: "('c, 'g) cluster_class \<Rightarrow> (('c, 'g, 'z) exec_scheme, nat \<times> nat) io" where
  "take_connection X =
     io_get (\<lambda>s. io_bind (get_redis_connection X (target_node s)) (\<lambda>r.
       io_seq (io_upd (\<lambda>s. s\<lparr>redis_node := Some r\<rparr>))
         (io_bind (with_redis X r own_or_pooled) (\<lambda>c.
           io_seq (io_upd (\<lambda>s. s\<lparr>connection := Some (r, c)\<rparr>)) (io_ret (r, c))))))"

definition run_callback :: "('c, 'g) cluster_class \<Rightarrow> string \<Rightarrow> cb_opts \<Rightarrow> pyval \<Rightarrow> (('c, 'g, 'z) cluster_scheme, pyval) io" where
  "run_callback X name opts response =
     io_get (\<lambda>s. case cb_lookup (cluster_response_callbacks s) (upper name) of
        None \<Rightarrow> io_ret response
      | Some cb \<Rightarrow> io_lift (call_callback cb (x_lib X) (pop_opts [''keys''] opts) response))"

definition attempt_command ::
  "('c, 'g) cluster_class \<Rightarrow> string \<Rightarrow> pyval list \<Rightarrow> cb_opts \<Rightarrow> (('c, 'g, 'z) exec_scheme, pyval) io" where
  "attempt_command X name args opts =
     io_seq (choose_target X name args)
       (io_bind (take_connection X) (\<lambda>(r, c).
         io_seq
           (io_get (\<lambda>s. io_when (asking s)
             (io_seq (with_redis X r (\<lambda>C. on_connection c (cc_send C [PStr ''ASKING''] no_opts)))
               (io_bind (with_redis X r (\<lambda>C. parse_response C c (PStr ''ASKING'') opts)) (\<lambda>_.
                 io_upd (\<lambda>s. s\<lparr>asking := False\<rparr>))))))
           (io_seq (with_redis X r (\<lambda>C. on_connection c (cc_send C (PStr name # args) opts)))
             (io_bind (with_redis X r (\<lambda>C. parse_response C c (PStr name) opts)) (run_callback X name opts)))))"

definition forget_startup_node :: "string \<Rightarrow> ('c, 'g, 'z) cluster_scheme \<Rightarrow> ('c, 'g, 'z) cluster_scheme" where
  "forget_startup_node name s =
     (case own_startup_nodes s of
        None \<Rightarrow> s\<lparr>nodes_cache := AList.delete name (nodes_cache s)\<rparr>
      | Some d \<Rightarrow> s\<lparr>own_startup_nodes := Some (AList.delete name d)\<rparr>)"

definition sleep_for :: "('c, 'g) cluster_class \<Rightarrow> rat \<Rightarrow> (('c, 'g, 'z) cluster_scheme, unit) io" where
  "sleep_for X t = io_upd (\<lambda>s. s\<lparr>world := x_sleep X t (world s)\<rparr>)"

definition node_failed :: "('c, 'g) cluster_class \<Rightarrow> exc \<Rightarrow> (('c, 'g, 'z) exec_scheme, unit) io" where
  "node_failed X e =
     io_seq (disconnect_exec X)
       (io_get (\<lambda>s. case target_node s of
          None \<Rightarrow> io_raise (attr_error PNone)
        | Some n \<Rightarrow>
            io_seq (io_upd (forget_startup_node (node_name s n)))
              (io_seq (set_connection n None) (io_seq (initialize X) (io_raise e)))))"

definition moved_reply :: "('c, 'g) cluster_class \<Rightarrow> exc \<Rightarrow> (('c, 'g, 'z) exec_scheme, unit) io" where
  "moved_reply X e =
     io_seq (io_upd (\<lambda>s. s\<lparr>reinitialize_counter := reinitialize_counter s + 1\<rparr>))
       (io_seq
         (io_get (\<lambda>s. if should_reinitialize X s
            then io_seq (initialize X) (io_upd (\<lambda>s. s\<lparr>reinitialize_counter := 0\<rparr>))
            else update_moved_exception e))
         (io_upd (\<lambda>s. s\<lparr>moved := True\<rparr>)))"

definition ask_reply :: "exc \<Rightarrow> (('c, 'g, 'z) exec_scheme, unit) io" where
  "ask_reply e =
     (case ask_fields (exc_msg e) of
        None \<Rightarrow> io_raise (attr_error (PExc e))
      | Some (_, host, port) \<Rightarrow> io_upd (\<lambda>s. s\<lparr>redirect_addr := get_node_name host port, asking := True\<rparr>))"

text \<open>The \<open>except\<close> clauses in their order; those that do not raise lead to the next round.  \<open>ttl\<close> is what is left.\<close>

definition handle_error :: "('c, 'g) cluster_class \<Rightarrow> nat \<Rightarrow> exc \<Rightarrow> (('c, 'g, 'z) exec_scheme, unit) io" where
  "handle_error X ttl e =
     (if is_exc e AuthenticationError then io_raise e
      else if is_exc e ConnectionError \<or> is_exc e TimeoutError then node_failed X e
      else if is_exc e MovedError then moved_reply X e
      else if is_exc e TryAgainError then io_when (2 * ttl < TTL) (sleep_for X (5 / 100))
      else if is_exc e AskError then ask_reply e
      else if is_exc e ClusterDownError then io_seq (sleep_for X (25 / 100)) (io_seq (initialize X) (io_raise e))
      else if is_exc e ResponseError then io_raise e
      else if is_exc e PyException then io_seq (disconnect_exec X) (io_raise e)
      else io_raise e)"

definition one_round ::
  "('c, 'g) cluster_class \<Rightarrow> string \<Rightarrow> pyval list \<Rightarrow> cb_opts \<Rightarrow> nat \<Rightarrow> (('c, 'g, 'z) exec_scheme, pyval option) io" where
  "one_round X name args opts ttl =
     io_finally
       (io_try (io_bind (attempt_command X name args opts) (\<lambda>v. io_ret (Some v)))
         (\<lambda>e. io_seq (handle_error X ttl e) (io_ret None)))
       (release_exec X)"

primrec rounds ::
  "('c, 'g) cluster_class \<Rightarrow> string \<Rightarrow> pyval list \<Rightarrow> cb_opts \<Rightarrow> nat \<Rightarrow> (('c, 'g, 'z) exec_scheme, pyval) io" where
  "rounds X name args opts 0 = io_raise (Exc ClusterError ''TTL exhausted.'')"
| "rounds X name args opts (Suc ttl) =
     io_bind (one_round X name args opts ttl) (\<lambda>r. case r of Some v \<Rightarrow> io_ret v | None \<Rightarrow> rounds X name args opts ttl)"

definition execute_on_node ::
  "('c, 'g) cluster_class \<Rightarrow> nat option \<Rightarrow> string \<Rightarrow> pyval list \<Rightarrow> cb_opts \<Rightarrow> (('c, 'g) cluster, pyval) io" where
  "execute_on_node X target name args opts s =
     (case rounds X name args opts TTL (cluster.extend s (exec.fields target None None [] False False)) of
        None \<Rightarrow> None
      | Some (r, s') \<Rightarrow> Some (r, cluster.truncate s'))"

section \<open>Running a command\<close>

definition ERRORS_ALLOW_RETRY :: "exc_class list" where
  "ERRORS_ALLOW_RETRY = [ConnectionError, TimeoutError, ClusterDownError]"

definition no_targets :: exc where
  "no_targets = Exc RedisClusterException ''No targets were found to execute command on''"

primrec execute_on_nodes ::
  "('c, 'g) cluster_class \<Rightarrow> nat option list \<Rightarrow> string \<Rightarrow> pyval list \<Rightarrow> cb_opts \<Rightarrow> node_replies \<Rightarrow> (('c, 'g) cluster, node_replies) io" where
  "execute_on_nodes X [] name args opts res = io_ret res"
| "execute_on_nodes X (n # ns) name args opts res =
     io_bind (execute_on_node X n name args opts) (\<lambda>v.
       case n of
         None \<Rightarrow> io_raise (attr_error PNone)
       | Some m \<Rightarrow> io_get (\<lambda>s. execute_on_nodes X ns name args opts (AList.update (node_name s m) v res)))"

text \<open>The handler of an attempt: the next attempt, after which \<open>retries\<close> are left.\<close>

definition retry_or_raise ::
  "('c, 'g) cluster_class \<Rightarrow> exc_class list \<Rightarrow> int \<Rightarrow> bool \<Rightarrow> exc \<Rightarrow> (('c, 'g) cluster, pyval) io \<Rightarrow>
   (('c, 'g) cluster, pyval) io" where
  "retry_or_raise X retryable retries default_used e again =
     (if is_exc e PyException \<and> 0 < retries \<and> exc_cls e \<in> set retryable
      then io_seq (io_when default_used (replace_default_node X None)) again
      else io_raise e)"

primrec command_attempts ::
  "('c, 'g) cluster_class \<Rightarrow> exc_class list \<Rightarrow> string \<Rightarrow> pyval list \<Rightarrow> cb_opts \<Rightarrow> nat list option \<Rightarrow> string option \<Rightarrow> nat \<Rightarrow> int \<Rightarrow> bool \<Rightarrow>
   (('c, 'g) cluster, pyval) io" where
  "command_attempts X retryable name args opts specified flag 0 retries default_used = io_ret PNone"
| "command_attempts X retryable name args opts specified flag (Suc k) retries default_used =
     io_bind
       (io_catch (case specified of
          Some ns \<Rightarrow> io_ret (map Some ns)
        | None \<Rightarrow> io_bind (determine_nodes X name args flag) (\<lambda>ns. if ns = [] then io_raise no_targets else io_ret ns)))
       (\<lambda>r. case r of
          Inl e \<Rightarrow> retry_or_raise X retryable retries default_used e
            (command_attempts X retryable name args opts specified flag k (retries - 1) default_used)
        | Inr ns \<Rightarrow> io_get (\<lambda>s.
            let default_used = (default_used \<or> specified = None \<and> length ns = 1 \<and>
                  (case hd ns of None \<Rightarrow> default_node s = None | Some n \<Rightarrow> is_default s n)) in
            io_bind (io_catch (io_bind (execute_on_nodes X ns name args opts []) (\<lambda>res.
                io_lift (process_result (x_lib X) name opts res))))
              (\<lambda>r. case r of
                 Inr v \<Rightarrow> io_ret v
               | Inl e \<Rightarrow> retry_or_raise X retryable retries default_used e
                   (command_attempts X retryable name args opts specified flag k (retries - 1) default_used))))"

text \<open>\<open>retryable\<close> is the \<open>ERRORS_ALLOW_RETRY\<close> of the object's class, which a pipeline overrides.\<close>

definition cluster_execute_command ::
  "('c, 'g) cluster_class \<Rightarrow> exc_class list \<Rightarrow> string \<Rightarrow> pyval list \<Rightarrow> cb_opts \<Rightarrow> target_nodes option \<Rightarrow>
   (('c, 'g) cluster, pyval) io" where
  "cluster_execute_command X retryable name args opts passed_targets =
     io_bind
       (io_lift (case passed_targets of
          Some t \<Rightarrow> if is_nodes_flag t then Inr None else res_map Some (parse_target_nodes t)
        | None \<Rightarrow> Inr None))
       (\<lambda>specified.
          let retry_attempts = (if specified \<noteq> None then 0 else x_error_retry_attempts X);
              flag = (case passed_targets of Some (Flag f) \<Rightarrow> Some f | _ \<Rightarrow> None) in
          command_attempts X retryable name args opts specified flag (nat (1 + retry_attempts)) retry_attempts False)"

section \<open>The client\<close>

definition set_cluster_response_callback :: "string \<Rightarrow> cb_entry \<Rightarrow> ('c, 'g, 'z) cluster_scheme \<Rightarrow> ('c, 'g, 'z) cluster_scheme" where
  "set_cluster_response_callback name cb s =
     s\<lparr>cluster_response_callbacks := cluster_response_callbacks s @ [(upper name, cb)]\<rparr>"

text \<open>\<open>RedisCluster.__init__\<close> from the startup nodes on: the manager reads the layout, then the commands are asked for.\<close>

definition init_cluster :: "('c, 'g) cluster_class \<Rightarrow> nat list \<Rightarrow> (('c, 'g) cluster, unit) io" where
  "init_cluster X startup =
     io_seq (io_upd (\<lambda>s. s\<lparr>reinitialize_counter := 0\<rparr>))
       (io_seq (init_manager X startup)
         (io_seq (io_upd (\<lambda>s. s\<lparr>cluster_response_callbacks := ci_update [] CLUSTER_COMMANDS_RESPONSE_CALLBACKS, parser_commands := []\<rparr>))
           (io_bind (initialize_commands (\<lambda>args. case args of
               PStr name # rest \<Rightarrow> cluster_execute_command X ERRORS_ALLOW_RETRY name rest no_opts None
             | _ \<Rightarrow> io_raise index_error) save_commands)
             (\<lambda>_. io_ret ()))))"

definition cluster_close :: "('c, 'g) cluster_class \<Rightarrow> (('c, 'g, 'z) cluster_scheme, unit) io" where
  "cluster_close X = close_manager X"

text \<open>\<open>on_connect\<close>, which every connection of the cluster runs: \<open>READONLY\<close> when replicas may be read.\<close>

definition cluster_on_connect ::
  "('c, 'g) cluster_class \<Rightarrow> ('s, unit) io \<Rightarrow> (string \<Rightarrow> ('s, unit) io) \<Rightarrow> ('s, pyval) io \<Rightarrow> ('s, unit) io option \<Rightarrow> ('s, unit) io" where
  "cluster_on_connect X on_connect send_command read_response user_on_connect =
     io_seq on_connect
       (io_seq
         (io_when (x_read_from_replicas X \<or> x_strategy X \<noteq> None)
           (io_seq (send_command ''READONLY'')
             (io_bind read_response (\<lambda>v.
               if str_if_bytes v \<noteq> PStr ''OK'' then io_raise (Exc ConnectionError ''READONLY command failed'') else io_ret ()))))
         (case user_on_connect of None \<Rightarrow> io_ret () | Some f \<Rightarrow> f))"

primrec disconnect_connection_pools :: "('c, 'g) cluster_class \<Rightarrow> nat list \<Rightarrow> (('c, 'g, 'z) cluster_scheme, unit) io" where
  "disconnect_connection_pools X [] = io_ret ()"
| "disconnect_connection_pools X (n # ns) =
     io_seq
       (io_get (\<lambda>s. case redis_connection (nodes s n) of
          None \<Rightarrow> io_ret ()
        | Some r \<Rightarrow> io_try (with_redis X r (\<lambda>C. on_pool (pool_disconnect (cc_class C) True)))
            (\<lambda>e. if is_exc e PyOSError then io_ret () else io_raise e)))
       (disconnect_connection_pools X ns)"

end
