(* ===== verification/Cluster_Pipeline.thy ===== *)
theory Cluster_Pipeline
  imports Cluster
begin

text \<open>
  \<open>ClusterPipeline\<close>, \<open>PipelineCommand\<close> and \<open>NodeCommands\<close> of \<open>redis/cluster.py\<close>, and the commands on keys of several slots of
  \<open>redis/commands/cluster.py\<close>, which are pipelines with one command per slot.

  A pipeline has the attributes of a cluster client (the manager, its caches and the parser are those of the client it was made
  from; \<open>reinitialize_counter\<close> is its own) and its queue.  A queued command is an object: it is named by its position.
\<close>

record pcmd =
  pc_name :: string
  pc_args :: "pyval list"
  pc_opts :: cb_opts
  pc_targets :: "target_nodes option"
  pc_position :: nat
  pc_result :: pyval

record ('c, 'g) cpipe = "('c, 'g) cluster" +
  stack :: "pcmd list"

text \<open>The commands for one node, with the connection taken for them.\<close>

record node_commands =
  nc_redis :: nat
  nc_connection :: nat
  nc_commands :: "nat list"

section \<open>The queue\<close>

definition pipeline_init :: "('c, 'g) cluster \<Rightarrow> ('c, 'g) cpipe" where
  "pipeline_init s = cluster.extend (s\<lparr>reinitialize_counter := 0\<rparr>) (cpipe.fields [])"

definition cluster_pipeline :: "pyval \<Rightarrow> pyval \<Rightarrow> ('c, 'g) cluster \<Rightarrow> ('c, 'g) cpipe res" where
  "cluster_pipeline transaction_arg shard_hint s =
     (if truthy shard_hint then Inl (Exc RedisClusterException ''shard_hint is deprecated in cluster mode'')
      else if truthy transaction_arg then Inl (Exc RedisClusterException ''transaction is deprecated in cluster mode'')
      else Inr (pipeline_init s))"

definition cpipe_execute_command ::
  "string \<Rightarrow> pyval list \<Rightarrow> cb_opts \<Rightarrow> target_nodes option \<Rightarrow> ('c, 'g) cpipe \<Rightarrow> ('c, 'g) cpipe" where
  "cpipe_execute_command name args opts targets s =
     s\<lparr>stack := stack s @ [\<lparr>pc_name = name, pc_args = args, pc_opts = opts, pc_targets = targets,
                           pc_position = length (stack s), pc_result = PNone\<rparr>]\<rparr>"

definition cpipe_reset :: "('c, 'g) cpipe \<Rightarrow> ('c, 'g) cpipe" where
  "cpipe_reset s = s\<lparr>stack := []\<rparr>"

text \<open>A method of the pipeline with the name of a blocked command.\<close>

definition blocked_method :: "string \<Rightarrow> bool" where
  "blocked_method name \<longleftrightarrow>
     name \<in> set (map (\<lambda>c. lower (map (\<lambda>x. if x = CHR '' '' then CHR ''_'' else x) c)) PIPELINE_BLOCKED_COMMANDS)"

definition blocked :: "string \<Rightarrow> exc" where
  "blocked name =
     Exc RedisClusterException
       (''ERROR: Calling pipelined function '' @ name @ '' is blocked when running redis in cluster mode...'')"

definition pipeline_delete :: "pyval list \<Rightarrow> ('c, 'g) cpipe \<Rightarrow> ('c, 'g) cpipe res" where
  "pipeline_delete names s =
     (case names of
        [k] \<Rightarrow> Inr (cpipe_execute_command ''DEL'' [k] no_opts None s)
      | _ \<Rightarrow> Inl (Exc RedisClusterException ''deleting multiple keys is not implemented in pipeline command''))"

definition pipeline_unlink :: "pyval list \<Rightarrow> ('c, 'g) cpipe \<Rightarrow> ('c, 'g) cpipe res" where
  "pipeline_unlink names s =
     (case names of
        [k] \<Rightarrow> Inr (cpipe_execute_command ''UNLINK'' [k] no_opts None s)
      | _ \<Rightarrow> Inl (Exc RedisClusterException ''unlinking multiple keys is not implemented in pipeline command''))"

definition pipeline_exists :: "pyval list \<Rightarrow> ('c, 'g) cpipe \<Rightarrow> ('c, 'g) cpipe" where
  "pipeline_exists names s = cpipe_execute_command ''EXISTS'' names no_opts None s"

section \<open>Command objects\<close>

definition upd_cmd :: "nat \<Rightarrow> (pcmd \<Rightarrow> pcmd) \<Rightarrow> ('c, 'g) cpipe \<Rightarrow> ('c, 'g) cpipe" where
  "upd_cmd i f s = s\<lparr>stack := (stack s)[i := f (stack s ! i)]\<rparr>"

definition set_result :: "nat \<Rightarrow> pyval \<Rightarrow> (('c, 'g) cpipe, unit) io" where
  "set_result i v = io_upd (upd_cmd i (pc_result_update (\<lambda>_. v)))"

definition set_results :: "nat list \<Rightarrow> pyval \<Rightarrow> (('c, 'g) cpipe, unit) io" where
  "set_results is v = io_upd (\<lambda>s. fold (\<lambda>i. upd_cmd i (pc_result_update (\<lambda>_. v))) is s)"

definition by_position :: "pcmd list \<Rightarrow> nat list" where
  "by_position cs = map pc_position (sort_key pc_position cs)"

text \<open>A method of the cluster client, called on the pipeline.\<close>

definition on_cluster :: "(('c, 'g) cluster, 'a) io \<Rightarrow> (('c, 'g) cpipe, 'a) io" where
  "on_cluster m s =
     (case m (cluster.truncate s) of
        None \<Rightarrow> None
      | Some (r, s') \<Rightarrow> Some (r, cluster.extend s' (cpipe.fields (stack s))))"

section \<open>Sending\<close>

definition node_release :: "('c, 'g) cluster_class \<Rightarrow> node_commands \<Rightarrow> (('c, 'g) cpipe, unit) io" where
  "node_release X n = with_redis X (nc_redis n) (\<lambda>C. on_pool (release (cc_class C) (nc_connection n)))"

primrec release_nodes :: "('c, 'g) cluster_class \<Rightarrow> node_commands list \<Rightarrow> (('c, 'g) cpipe, unit) io" where
  "release_nodes X [] = io_ret ()"
| "release_nodes X (n # ns) = io_seq (node_release X n) (release_nodes X ns)"

text \<open>The node of a command.  The option \<open>target_nodes\<close> is taken out of the command; a flag is passed on under the name
  \<open>node_flag\<close>, which \<open>_determine_nodes\<close> does not know, so it has no effect.\<close>

definition truthy_targets :: "target_nodes \<Rightarrow> bool" where
  "truthy_targets t =
     (case t of Flag f \<Rightarrow> f \<noteq> [] | Node _ \<Rightarrow> True | Nodes ns \<Rightarrow> ns \<noteq> [] | Other v \<Rightarrow> truthy v)"

definition command_node :: "('c, 'g) cluster_class \<Rightarrow> nat \<Rightarrow> (('c, 'g) cpipe, nat option) io" where
  "command_node X i =
     io_get (\<lambda>s.
       let c = stack s ! i in
       io_seq (io_upd (upd_cmd i (pc_targets_update (\<lambda>_. None))))
         (io_bind
           (case pc_targets c of
              Some t \<Rightarrow>
                if truthy_targets t \<and> \<not> is_nodes_flag t then io_lift (res_map (map Some) (parse_target_nodes t))
                else io_bind (determine_nodes X (pc_name c) (pc_args c) None) (\<lambda>ns. if ns = [] then io_raise no_targets else io_ret ns)
            | None \<Rightarrow> io_bind (determine_nodes X (pc_name c) (pc_args c) None) (\<lambda>ns. if ns = [] then io_raise no_targets else io_ret ns))
           (\<lambda>ns. if length ns > 1 then io_raise (Exc RedisClusterException ''Too many targets for command'')
              else io_lift (nth_item ns 0))))"

definition open_node ::
  "('c, 'g) cluster_class \<Rightarrow> nat \<Rightarrow> bool \<Rightarrow> (string \<times> node_commands) list \<Rightarrow> (('c, 'g) cpipe, node_commands) io" where
  "open_node X n default_used opened =
     io_bind (get_redis_connection X (Some n)) (\<lambda>r.
       io_try (io_bind (with_redis X r own_or_pooled) (\<lambda>c. io_ret \<lparr>nc_redis = r, nc_connection = c, nc_commands = []\<rparr>))
         (\<lambda>e. if is_exc e ConnectionError \<or> is_exc e TimeoutError
            then io_seq (release_nodes X (map snd opened))
              (io_seq (initialize X)
                (io_seq (io_when default_used (replace_default_node X None)) (io_raise e)))
            else io_raise e))"

primrec place_commands ::
  "('c, 'g) cluster_class \<Rightarrow> nat list \<Rightarrow> (string \<times> node_commands) list \<Rightarrow> bool \<Rightarrow>
   (('c, 'g) cpipe, (string \<times> node_commands) list \<times> bool) io" where
  "place_commands X [] opened default_used = io_ret (opened, default_used)"
| "place_commands X (i # is) opened default_used =
     io_bind (command_node X i) (\<lambda>node.
       io_get (\<lambda>s. case node of
          None \<Rightarrow> io_raise (attr_error PNone)
        | Some n \<Rightarrow>
            let name = node_name s n;
                default_used = (default_used \<or> is_default s n) in
            io_bind
              (case map_of opened name of Some nc \<Rightarrow> io_ret nc | None \<Rightarrow> open_node X n default_used opened)
              (\<lambda>nc. place_commands X is (AList.update name (nc\<lparr>nc_commands := nc_commands nc @ [i]\<rparr>) opened) default_used)))"

definition node_write :: "('c, 'g) cluster_class \<Rightarrow> node_commands \<Rightarrow> (('c, 'g) cpipe, unit) io" where
  "node_write X n =
     io_seq (set_results (nc_commands n) PNone)
       (io_get (\<lambda>s.
         io_try
           (io_bind (with_redis X (nc_redis n) (\<lambda>C. on_connection (nc_connection n)
               (cc_pack_commands C (map (\<lambda>i. PStr (pc_name (stack s ! i)) # pc_args (stack s ! i)) (nc_commands n)))))
             (\<lambda>packed. with_redis X (nc_redis n) (\<lambda>C. on_connection (nc_connection n) (cc_send_packed C packed))))
           (\<lambda>e. if is_exc e ConnectionError \<or> is_exc e TimeoutError
              then set_results (nc_commands n) (PExc e) else io_raise e)))"

primrec node_read :: "('c, 'g) cluster_class \<Rightarrow> node_commands \<Rightarrow> nat list \<Rightarrow> (('c, 'g) cpipe, unit) io" where
  "node_read X n [] = io_ret ()"
| "node_read X n (i # is) =
     io_get (\<lambda>s.
       if pc_result (stack s ! i) \<noteq> PNone then node_read X n is
       else
         io_bind
           (io_try
             (io_bind
               (with_redis X (nc_redis n) (\<lambda>C. parse_response C (nc_connection n) (PStr (pc_name (stack s ! i))) (pc_opts (stack s ! i))))
               (\<lambda>v. io_seq (set_result i v) (io_ret True)))
             (\<lambda>e. if is_exc e ConnectionError \<or> is_exc e TimeoutError
                then io_seq (set_results (nc_commands n) (PExc e)) (io_ret False)
                else if is_exc e RedisError then io_seq (set_result i (PExc e)) (io_ret True)
                else io_raise e))
           (\<lambda>continue. if continue then node_read X n is else io_ret ()))"

primrec write_nodes :: "('c, 'g) cluster_class \<Rightarrow> node_commands list \<Rightarrow> (('c, 'g) cpipe, unit) io" where
  "write_nodes X [] = io_ret ()"
| "write_nodes X (n # ns) = io_seq (node_write X n) (write_nodes X ns)"

primrec read_nodes :: "('c, 'g) cluster_class \<Rightarrow> node_commands list \<Rightarrow> (('c, 'g) cpipe, unit) io" where
  "read_nodes X [] = io_ret ()"
| "read_nodes X (n # ns) = io_seq (node_read X n (nc_commands n)) (read_nodes X ns)"

section \<open>The commands that failed\<close>

definition PIPELINE_ERRORS_ALLOW_RETRY :: "exc_class list" where
  "PIPELINE_ERRORS_ALLOW_RETRY = [ConnectionError, TimeoutError, MovedError, AskError, TryAgainError]"

definition to_retry :: "pcmd \<Rightarrow> bool" where
  "to_retry c = (case pc_result c of PExc e \<Rightarrow> isinstance_any e PIPELINE_ERRORS_ALLOW_RETRY | _ \<Rightarrow> False)"

primrec retry_commands :: "('c, 'g) cluster_class \<Rightarrow> nat list \<Rightarrow> (('c, 'g) cpipe, unit) io" where
  "retry_commands X [] = io_ret ()"
| "retry_commands X (i # is) =
     io_seq
       (io_get (\<lambda>s.
         let c = stack s ! i in
         io_try
           (io_bind (on_cluster (cluster_execute_command X PIPELINE_ERRORS_ALLOW_RETRY (pc_name c) (pc_args c) (pc_opts c) (pc_targets c)))
             (set_result i))
           (\<lambda>e. if is_exc e RedisError then set_result i (PExc e) else io_raise e)))
       (retry_commands X is)"

definition follow_redirections :: "('c, 'g) cluster_class \<Rightarrow> bool \<Rightarrow> (('c, 'g) cpipe, unit) io" where
  "follow_redirections X default_used =
     io_get (\<lambda>s.
       let attempt = by_position (filter to_retry (stack s)) in
       if attempt = [] then io_ret ()
       else
         io_seq (io_upd (\<lambda>s. s\<lparr>reinitialize_counter := reinitialize_counter s + 1\<rparr>))
           (io_seq
             (io_get (\<lambda>s. io_when (should_reinitialize X s)
               (io_seq (initialize X) (io_when default_used (replace_default_node X None)))))
             (retry_commands X attempt)))"

text \<open>The results in the order of the commands; the reply parsers of the cluster client run on all of them.\<close>

primrec collect_results :: "('c, 'g) cluster_class \<Rightarrow> nat list \<Rightarrow> (('c, 'g) cpipe, pyval list) io" where
  "collect_results X [] = io_ret []"
| "collect_results X (i # is) =
     io_seq
       (io_get (\<lambda>s. case cb_lookup (cluster_response_callbacks s) (upper (pc_name (stack s ! i))) of
          None \<Rightarrow> io_ret ()
        | Some cb \<Rightarrow>
            io_seq (io_upd (upd_cmd i (pc_opts_update (pop_opts [''keys'']))))
              (io_get (\<lambda>s. io_bind (io_lift (call_callback cb (x_lib X) (pc_opts (stack s ! i)) (pc_result (stack s ! i)))) (set_result i)))))
       (io_get (\<lambda>s. io_bind (collect_results X is) (\<lambda>vs. io_ret (pc_result (stack s ! i) # vs))))"

definition annotate :: "('c, 'g) cluster_class \<Rightarrow> exc \<Rightarrow> nat \<Rightarrow> pyval list \<Rightarrow> exc res" where
  "annotate X e number command =
     (if exc_msg e = [] then Inl index_error
      else Inr (Exc (exc_cls e) (''Command # '' @ nat_repr number @ '' ('' @ x_shorten X (join '' '' (map safe_str command)) @
        '') of pipeline caused error: '' @ exc_msg e)))"

primrec raise_first :: "('c, 'g) cluster_class \<Rightarrow> pcmd list \<Rightarrow> unit res" where
  "raise_first X [] = Inr ()"
| "raise_first X (c # cs) =
     (case pc_result c of
        PExc e \<Rightarrow>
          if is_exc e PyException then res_bind (annotate X e (pc_position c + 1) (PStr (pc_name c) # pc_args c)) Inl
          else raise_first X cs
      | _ \<Rightarrow> raise_first X cs)"

section \<open>execute\<close>

definition send_commands_once :: "('c, 'g) cluster_class \<Rightarrow> bool \<Rightarrow> bool \<Rightarrow> (('c, 'g) cpipe, pyval list) io" where
  "send_commands_once X raise_on_error allow_redirections =
     io_bind (io_get (\<lambda>s. place_commands X (by_position (stack s)) [] False)) (\<lambda>(opened, default_used).
       let ns = map snd opened in
       io_seq (io_finally (io_seq (write_nodes X ns) (read_nodes X ns)) (release_nodes X ns))
         (io_seq (io_when allow_redirections (follow_redirections X default_used))
           (io_bind (io_get (\<lambda>s. collect_results X (by_position (stack s)))) (\<lambda>response.
             io_seq (io_when raise_on_error (io_get (\<lambda>s. io_lift (raise_first X (stack s)))))
               (io_ret response)))))"

text \<open>\<open>retry_attempts\<close> further attempts after errors that lead to a new layout.\<close>

primrec send_cluster_commands :: "('c, 'g) cluster_class \<Rightarrow> bool \<Rightarrow> bool \<Rightarrow> nat \<Rightarrow> (('c, 'g) cpipe, pyval list) io" where
  "send_cluster_commands X raise_on_error allow_redirections 0 =
     io_get (\<lambda>s. if stack s = [] then io_ret [] else send_commands_once X raise_on_error allow_redirections)"
| "send_cluster_commands X raise_on_error allow_redirections (Suc retry_attempts) =
     io_get (\<lambda>s. if stack s = [] then io_ret []
       else io_try (send_commands_once X raise_on_error allow_redirections)
         (\<lambda>e. if isinstance_any e ERRORS_ALLOW_RETRY
            then send_cluster_commands X raise_on_error allow_redirections retry_attempts else io_raise e))"

definition cpipe_execute :: "('c, 'g) cluster_class \<Rightarrow> bool \<Rightarrow> (('c, 'g) cpipe, pyval list) io" where
  "cpipe_execute X raise_on_error =
     io_finally (send_cluster_commands X raise_on_error True (nat (x_error_retry_attempts X))) (io_upd cpipe_reset)"

section \<open>Keys of several slots\<close>

text \<open>\<open>d.setdefault(slot, []).extend(xs)\<close>\<close>

definition add_to_slot :: "(nat \<times> 'a list) list \<Rightarrow> nat \<Rightarrow> 'a list \<Rightarrow> (nat \<times> 'a list) list" where
  "add_to_slot d slot xs =
     AList.update slot ((case map_of d slot of None \<Rightarrow> [] | Some ys \<Rightarrow> ys) @ xs) d"

definition partition_keys_by_slot :: "('c, 'g) cluster_class \<Rightarrow> pyval list \<Rightarrow> (nat \<times> pyval list) list res" where
  "partition_keys_by_slot X ks =
     res_fold (\<lambda>d k. res_map (\<lambda>slot. add_to_slot d slot [k]) (keyslot X k)) [] ks"

definition partition_pairs_by_slot :: "('c, 'g) cluster_class \<Rightarrow> (pyval \<times> pyval) list \<Rightarrow> (nat \<times> pyval list) list res" where
  "partition_pairs_by_slot X mapping =
     res_fold (\<lambda>d (k, v). res_map (\<lambda>slot. add_to_slot d slot [k, v]) (keyslot X k)) [] mapping"

fun queue_by_slot ::
  "('c, 'g) cluster_class \<Rightarrow> string \<Rightarrow> (nat \<times> pyval list) list \<Rightarrow> (('c, 'g) cpipe, unit) io" where
  "queue_by_slot X name [] = io_ret ()"
| "queue_by_slot X name ((slot, args) # rest) =
     io_bind (get_node_from_slot X (PInt (int slot)) (x_read_from_replicas X \<and> name \<in> set READ_COMMANDS) None None) (\<lambda>n.
       io_seq (io_upd (cpipe_execute_command name args no_opts (Some (Nodes [n])))) (queue_by_slot X name rest))"

text \<open>A pipeline made for one call: the client keeps its own counter.\<close>

definition in_pipeline :: "(('c, 'g) cpipe, 'a) io \<Rightarrow> (('c, 'g) cluster, 'a) io" where
  "in_pipeline m s =
     (case m (pipeline_init s) of
        None \<Rightarrow> None
      | Some (r, p) \<Rightarrow> Some (r, (cluster.truncate p)\<lparr>reinitialize_counter := reinitialize_counter s\<rparr>))"

definition execute_pipeline_by_slot ::
  "('c, 'g) cluster_class \<Rightarrow> string \<Rightarrow> (nat \<times> pyval list) list \<Rightarrow> (('c, 'g) cluster, pyval list) io" where
  "execute_pipeline_by_slot X name slots_to_args =
     in_pipeline (io_seq (queue_by_slot X name slots_to_args) (cpipe_execute X True))"

definition reorder_keys_by_command :: "pyval list \<Rightarrow> (nat \<times> pyval list) list \<Rightarrow> pyval list \<Rightarrow> pyval list res" where
  "reorder_keys_by_command ks slots_to_args responses =
     res_bind (traverse (\<lambda>((_, args), response). res_map (\<lambda>vs. zip args vs) (iterate response)) (zip slots_to_args responses)) (\<lambda>kvs.
     res_bind (dict_of (concat kvs)) (\<lambda>results.
       traverse (\<lambda>k. case dict_get results k of Some v \<Rightarrow> Inr v | None \<Rightarrow> Inl (key_error (type_name k))) ks))"

definition mget_nonatomic :: "('c, 'g) cluster_class \<Rightarrow> pyval \<Rightarrow> pyval list \<Rightarrow> (('c, 'g) cluster, pyval) io" where
  "mget_nonatomic X names args =
     (let ks = list_or_args names args in
      io_bind (io_lift (partition_keys_by_slot X ks)) (\<lambda>slots_to_keys.
      io_bind (execute_pipeline_by_slot X ''MGET'' slots_to_keys) (\<lambda>res.
        io_lift (res_map PList (reorder_keys_by_command ks slots_to_keys res)))))"

definition mset_nonatomic :: "('c, 'g) cluster_class \<Rightarrow> (pyval \<times> pyval) list \<Rightarrow> (('c, 'g) cluster, pyval) io" where
  "mset_nonatomic X mapping =
     io_bind (io_lift (partition_pairs_by_slot X mapping)) (\<lambda>slots_to_pairs.
     io_bind (execute_pipeline_by_slot X ''MSET'' slots_to_pairs) (\<lambda>res. io_ret (PList res)))"

definition split_command_across_slots ::
  "('c, 'g) cluster_class \<Rightarrow> string \<Rightarrow> pyval list \<Rightarrow> (('c, 'g) cluster, pyval) io" where
  "split_command_across_slots X name ks =
     io_bind (io_lift (partition_keys_by_slot X ks)) (\<lambda>slots_to_keys.
     io_bind (execute_pipeline_by_slot X name slots_to_keys) (\<lambda>res. io_lift (res_map PInt (py_sum res))))"

definition cluster_exists :: "('c, 'g) cluster_class \<Rightarrow> pyval list \<Rightarrow> (('c, 'g) cluster, pyval) io" where
  "cluster_exists X ks = split_command_across_slots X ''EXISTS'' ks"

definition cluster_delete :: "('c, 'g) cluster_class \<Rightarrow> pyval list \<Rightarrow> (('c, 'g) cluster, pyval) io" where
  "cluster_delete X ks = split_command_across_slots X ''DEL'' ks"

definition cluster_touch :: "('c, 'g) cluster_class \<Rightarrow> pyval list \<Rightarrow> (('c, 'g) cluster, pyval) io" where
  "cluster_touch X ks = split_command_across_slots X ''TOUCH'' ks"

definition cluster_unlink :: "('c, 'g) cluster_class \<Rightarrow> pyval list \<Rightarrow> (('c, 'g) cluster, pyval) io" where
  "cluster_unlink X ks = split_command_across_slots X ''UNLINK'' ks"

end
