(* ===== verification/Cluster_Spec.thy ===== *)
theory Cluster_Spec
  imports Cluster_Pipeline Client_Spec
begin

text \<open>
  What the cluster client promises.

  Connections: running a command gives back every connection it took, on every node, through redirections, failures and
  re-reading of the layout (\<open>use_same\<close>).
\<close>

section \<open>Connections in use\<close>

definition redis_idle :: "('c, 'g) redis \<Rightarrow> bool" where
  "redis_idle R \<longleftrightarrow> pool_fresh (r_pool R) \<and> r_connection R = None"

definition used :: "('c, 'g, 'z) cluster_scheme \<Rightarrow> nat \<Rightarrow> nat set" where
  "used s r = set (in_use (r_pool (redises s r)))"

definition all_idle :: "('c, 'g, 'z) cluster_scheme \<Rightarrow> bool" where
  "all_idle s \<longleftrightarrow> (\<forall>r < next_redis s. redis_idle (redises s r))"

text \<open>Every client that was there has the same connections in use, every new one none; the rest of an extended state is
  not touched.\<close>

definition use_same :: "('c, 'g, 'z) cluster_scheme \<Rightarrow> ('c, 'g, 'z) cluster_scheme \<Rightarrow> bool" where
  "use_same s s' \<longleftrightarrow> next_redis s \<le> next_redis s' \<and>
     (\<forall>r. r < next_redis s \<longrightarrow> redis_idle (redises s r) \<longrightarrow> redis_idle (redises s' r) \<and> used s' r = used s r) \<and>
     (\<forall>r. next_redis s \<le> r \<longrightarrow> r < next_redis s' \<longrightarrow> redis_idle (redises s' r) \<and> used s' r = {})"

definition quiet :: "('c, 'g, 'z) cluster_scheme \<Rightarrow> ('c, 'g, 'z) cluster_scheme \<Rightarrow> bool" where
  "quiet s s' \<longleftrightarrow> use_same s s' \<and> cluster.more s' = cluster.more s"

lemma use_same_refl [simp]: "use_same s s"
  by (auto simp: use_same_def)

lemma use_same_old:
  "use_same s s' \<Longrightarrow> r < next_redis s \<Longrightarrow> redis_idle (redises s r) \<Longrightarrow>
     redis_idle (redises s' r) \<and> used s' r = used s r \<and> r < next_redis s'"
  by (auto simp: use_same_def)

lemma use_same_new:
  "use_same s s' \<Longrightarrow> next_redis s \<le> r \<Longrightarrow> r < next_redis s' \<Longrightarrow> redis_idle (redises s' r) \<and> used s' r = {}"
  by (auto simp: use_same_def)

lemma use_same_trans:
  assumes "use_same a b" "use_same b c"
  shows "use_same a c"
  unfolding use_same_def
proof (intro conjI allI impI)
  show "next_redis a \<le> next_redis c" using assms by (auto simp: use_same_def)
next
  fix r assume "r < next_redis a" "redis_idle (redises a r)"
  then show "redis_idle (redises c r)" "used c r = used a r"
    using use_same_old [OF assms(1)] use_same_old [OF assms(2)] by simp_all
next
  fix r assume r: "next_redis a \<le> r" "r < next_redis c"
  have "redis_idle (redises c r) \<and> used c r = {}"
  proof (cases "r < next_redis b")
    case True
    then show ?thesis using use_same_new [OF assms(1) r(1)] use_same_old [OF assms(2)] by simp
  qed (use r use_same_new [OF assms(2)] in simp)
  then show "redis_idle (redises c r)" "used c r = {}" by simp_all
qed

lemma quiet_rel: "reflp quiet" "transp quiet"
proof -
  show "reflp quiet" by (simp add: reflp_def quiet_def)
  show "transp quiet" by (rule transpI) (auto simp: quiet_def intro: use_same_trans)
qed

text \<open>A step that touches no client.\<close>

lemma quiet_frame:
  "next_redis s' = next_redis s \<Longrightarrow> redises s' = redises s \<Longrightarrow> cluster.more s' = cluster.more s \<Longrightarrow> quiet s s'"
  by (simp add: quiet_def use_same_def used_def)

lemma pool_fresh_shared [simp]: "pool_fresh (p\<lparr>shared := g\<rparr>) = pool_fresh p"
  by (simp add: pool_fresh_def pool_inv_def)

lemma redis_idle_shared [simp]: "redis_idle (R\<lparr>r_pool := (r_pool R)\<lparr>shared := g\<rparr>\<rparr>) = redis_idle R"
  by (simp add: redis_idle_def)

text \<open>A method call on a client keeps what it keeps of that client.\<close>

definition keeps_use :: "(('c, 'g) redis, 'a) io \<Rightarrow> bool" where
  "keeps_use m \<longleftrightarrow> io_pres (\<lambda>R R'. redis_idle R \<longrightarrow> redis_idle R' \<and> set (in_use (r_pool R')) = set (in_use (r_pool R))) m"

lemma with_redis_quiet:
  assumes "\<And>C. keeps_use (f C)"
  shows "io_pres quiet (with_redis X r f)"
  unfolding io_pres_def
proof (intro allI impI)
  fix s q s'
  assume run: "with_redis X r f s = Some (q, s')"
  let ?R = "redises s r"
  obtain R' where R': "f (redis_class X s r) (?R\<lparr>r_pool := (r_pool ?R)\<lparr>shared := world s\<rparr>\<rparr>) = Some (q, R')"
    and s': "s' = s\<lparr>redises := (redises s)(r := R'), world := shared (r_pool R')\<rparr>"
    using run by (auto simp: with_redis_def io_get_def on_redis_def Let_def split: option.splits)
  have "redis_idle ?R \<longrightarrow> redis_idle R' \<and> set (in_use (r_pool R')) = set (in_use (r_pool ?R))"
    using assms R' by (auto simp: keeps_use_def io_pres_def)
  then show "quiet s s'" by (auto simp: quiet_def use_same_def used_def s')
qed

lemma client_same_keeps_use: "io_pres client_same m \<Longrightarrow> keeps_use m"
  unfolding keeps_use_def io_pres_def redis_idle_def
  using client_same_fresh client_same_connection by metis

lemma execute_command_keeps_use: "keeps_use (execute_command C args opts)"
  unfolding keeps_use_def io_pres_def redis_idle_def using command_no_leak by blast

lemma pool_disconnect_keeps_use: "keeps_use (on_pool (pool_disconnect K b))"
  unfolding keeps_use_def io_pres_def
proof (intro allI impI)
  fix R q R'
  assume run: "on_pool (pool_disconnect K b) R = Some (q, R')" and idle: "redis_idle R"
  obtain p where p: "pool_disconnect K b (r_pool R) = Some (q, p)" "R' = R\<lparr>r_pool := p\<rparr>"
    using run by (auto simp: on_pool_def split: option.splits)
  have chk: "checkpid (r_pool R) = Some (Inr (), r_pool R)"
    using idle by (simp add: redis_idle_def pool_fresh_def checkpid_def)
  from p(1) have same: "pool_same (r_pool R) p"
    by (rule pool_disconnect_keeps) (use chk in auto)
  then have "pool_inv p" using pool_same_inv idle by (auto simp: redis_idle_def pool_fresh_def)
  then show "redis_idle R' \<and> set (in_use (r_pool R')) = set (in_use (r_pool R))"
    using idle same by (simp add: redis_idle_def p(2) pool_fresh_def pool_same_def)
qed

lemma checkpid_keeps_use: "keeps_use (on_pool checkpid)"
  by (auto simp: keeps_use_def io_pres_def on_pool_def checkpid_def redis_idle_def pool_fresh_def split: if_splits)

lemmas keeps_use_facts = client_same_keeps_use [OF on_connection_same] client_same_keeps_use [OF parse_response_same]
  client_same_keeps_use [OF disconnect_connection_same] execute_command_keeps_use pool_disconnect_keeps_use
  checkpid_keeps_use

section \<open>The manager\<close>

lemma kept: "io_pres R m \<Longrightarrow> m s = Some (r, s') \<Longrightarrow> R s s'"
  unfolding io_pres_def by blast

lemma io_pres_catch [io_pres_intros]: "io_pres R m \<Longrightarrow> io_pres R (io_catch m)"
  by (auto simp: io_pres_def io_catch_def split: option.splits)

lemmas quiet_intros = io_pres_intros quiet_rel with_redis_quiet keeps_use_facts quiet_frame

lemma create_redis_node_quiet: "io_pres quiet (create_redis_node X host port)"
  unfolding create_redis_node_def io_pres_def
proof (intro allI impI)
  fix s :: "('a, 'b, 'c) cluster_scheme" and q s'
  assume run: "io_get (\<lambda>s. io_bind (io_lift (pool_init (x_max_connections X) (cache_made s) (x_protocol X) (world s) (x_getpid X) (x_heap X host port)))
         (\<lambda>p. io_seq
            (io_upd (\<lambda>s. s\<lparr>
               redises := (redises s)(next_redis s :=
                 \<lparr>r_pool = p, r_connection = None, single_connection_client = False, single_lock_held = False,
                  response_callbacks = init_callbacks (x_protocol X), auto_close_connection_pool = \<not> x_from_url X\<rparr>),
               redis_addr := (redis_addr s)(next_redis s := (host, port)),
               next_redis := Suc (next_redis s)\<rparr>))
            (io_ret (next_redis s)))) s = Some (q, s')"
  let ?i = "pool_init (x_max_connections X) (cache_made s) (x_protocol X) (world s) (x_getpid X) (x_heap X host port)"
  show "quiet s s'"
  proof (cases ?i)
    case (Inl e)
    then have "s' = s" using run by (simp add: io_get_def io_raise_def)
    then show ?thesis by (simp add: quiet_def)
  next
    case (Inr p)
    have "pool_fresh p" "in_use p = []"
      using Inr pool_init_inv [OF Inr]
      by (auto simp: pool_fresh_def pool_init_def Let_def split: pyval.splits option.splits if_splits)
    then show ?thesis using run Inr
      by (auto simp: io_get_def io_seq_def io_bind_def io_upd_def io_ret_def quiet_def use_same_def used_def redis_idle_def less_Suc_eq)
  qed
qed

lemma set_connection_quiet: "io_pres quiet (set_connection n r)"
  unfolding set_connection_def upd_node_def by (intro quiet_intros) simp_all

lemma create_redis_connections_quiet: "io_pres quiet (create_redis_connections X ns)"
  by (induction ns) (auto intro!: quiet_intros create_redis_node_quiet set_connection_quiet)

lemma ask_cluster_slots_quiet: "io_pres quiet (ask_cluster_slots X n)"
  unfolding ask_cluster_slots_def startup_connection_def
  by (intro quiet_intros) (auto intro!: quiet_intros create_redis_node_quiet set_connection_quiet split: option.splits)

lemma new_node_quiet: "io_pres quiet (new_node X host port rl)"
  by (auto simp: io_pres_def new_node_def intro!: quiet_frame)

lemma new_list_quiet: "io_pres quiet (new_list ns)"
  by (auto simp: io_pres_def new_list_def intro!: quiet_frame)

lemma upd_node_quiet: "io_pres quiet (io_upd (upd_node n f))"
  by (intro quiet_intros) (simp_all add: upd_node_def)

lemma get_or_create_cluster_node_quiet: "io_pres quiet (get_or_create_cluster_node X host port rl t)"
  unfolding get_or_create_cluster_node_def Let_def
  by (auto intro!: quiet_intros new_node_quiet upd_node_quiet split: option.splits)

lemma add_replicas_quiet: "io_pres quiet (add_replicas X vs t)"
  by (induction vs arbitrary: t) (auto intro!: quiet_intros get_or_create_cluster_node_quiet split: prod.splits)

lemma add_section_quiet: "io_pres quiet (add_section X n slot t)"
  unfolding add_section_def Let_def
  by (intro quiet_intros) (auto intro!: quiet_intros get_or_create_cluster_node_quiet add_replicas_quiet new_list_quiet split: prod.splits)

lemma add_sections_quiet: "io_pres quiet (add_sections X n slots t)"
  by (induction slots arbitrary: t) (auto intro!: quiet_intros add_section_quiet)

lemma discover_quiet: "io_pres quiet (discover X ns t)"
  by (induction ns arbitrary: t)
     (auto intro!: quiet_intros ask_cluster_slots_quiet add_sections_quiet simp: Let_def split: sum.splits)

lemma install_layout_quiet: "io_pres quiet (install_layout X t)"
  unfolding install_layout_def by (intro quiet_intros) simp_all

lemma initialize_quiet: "io_pres quiet (initialize X)"
  unfolding initialize_def
  by (intro quiet_intros discover_quiet)
     (auto intro!: quiet_intros discover_quiet create_redis_connections_quiet install_layout_quiet)

section \<open>Choosing nodes\<close>

lemma randbelow_quiet: "io_pres quiet (randbelow X n)"
  by (auto simp: io_pres_def randbelow_def split: prod.splits intro!: quiet_frame)

lemma random_choice_quiet: "io_pres quiet (random_choice X xs)"
  unfolding random_choice_def by (auto intro!: quiet_intros randbelow_quiet)

lemma randint_quiet: "io_pres quiet (randint_from_1 X n)"
  unfolding randint_from_1_def by (auto intro!: quiet_intros randbelow_quiet)

lemma get_server_index_quiet: "io_pres quiet (get_server_index X p n st)"
  unfolding get_server_index_def Let_def by (auto intro!: quiet_intros randint_quiet split: prod.splits)

lemma redirected_node_quiet: "io_pres quiet (redirected_node X host port)"
  unfolding redirected_node_def by (auto intro!: quiet_intros upd_node_quiet new_node_quiet split: option.splits)

lemma failover_quiet: "quiet s (failover l n s)"
  by (rule quiet_frame) (simp_all add: failover_def upd_node_def upd_list_def Let_def)

lemma update_moved_slots_quiet: "io_pres quiet (update_moved_slots X)"
  unfolding update_moved_slots_def
  by (auto intro!: quiet_intros redirected_node_quiet failover_quiet new_list_quiet split: option.splits)

lemma get_node_from_slot_quiet: "io_pres quiet (get_node_from_slot X slot b st rl)"
  unfolding get_node_from_slot_def Let_def
  by (auto intro!: quiet_intros update_moved_slots_quiet get_server_index_quiet randint_quiet split: option.splits)

lemma node_for_command_quiet: "io_pres quiet (node_for_command X name slot)"
  unfolding node_for_command_def by (rule get_node_from_slot_quiet)

lemma get_redis_connection_quiet: "io_pres quiet (get_redis_connection X n)"
  unfolding get_redis_connection_def
  by (auto intro!: quiet_intros create_redis_node_quiet set_connection_quiet split: option.splits)

text \<open>Finding the keys of a command keeps what running a command keeps.\<close>

lemma get_moveable_keys_pres:
  "transp R \<Longrightarrow> reflp R \<Longrightarrow> (\<And>args. io_pres R (run args)) \<Longrightarrow> io_pres R (get_moveable_keys run name args)"
  unfolding get_moveable_keys_def Let_def by (auto intro!: io_pres_intros)

lemma initialize_commands_pres:
  "transp R \<Longrightarrow> reflp R \<Longrightarrow> (\<And>args. io_pres R (run args)) \<Longrightarrow> (\<And>d. io_pres R (save d)) \<Longrightarrow>
   io_pres R (initialize_commands run save)"
  unfolding initialize_commands_def by (auto intro!: io_pres_intros)

lemma get_keys_pres:
  assumes "reflp R" "transp R" "\<And>args. io_pres R (run args)" "\<And>d. io_pres R (save d)"
  shows "io_pres R (get_keys L run save commands name args)"
  unfolding get_keys_def Let_def
  using assms by (auto intro!: io_pres_intros get_moveable_keys_pres initialize_commands_pres split: prod.splits)

lemma cluster_command_quiet: "io_pres quiet (cluster_command X r args)"
  unfolding cluster_command_def by (intro quiet_intros)

lemma get_command_keys_quiet: "io_pres quiet (get_command_keys X name args)"
  unfolding get_command_keys_def save_commands_def
  by (auto intro!: quiet_intros get_keys_pres cluster_command_quiet split: option.splits)

lemma determine_slot_quiet: "io_pres quiet (determine_slot X name args)"
  unfolding determine_slot_def random_slot_def
  by (auto intro!: quiet_intros randbelow_quiet get_command_keys_quiet)

lemma determine_nodes_quiet: "io_pres quiet (determine_nodes X name args flag)"
  unfolding determine_nodes_def get_random_node_def Let_def
  by (auto intro!: quiet_intros random_choice_quiet determine_slot_quiet node_for_command_quiet)

lemma replace_default_node_quiet: "io_pres quiet (replace_default_node X n)"
  unfolding replace_default_node_def Let_def
  by (auto intro!: quiet_intros random_choice_quiet split: option.splits)

section \<open>A round of a command\<close>

text \<open>What a step of a round keeps: the use of every client, and the two variables that say which connection is held.\<close>

definition hold_same :: "('c, 'g, 'z) exec_scheme \<Rightarrow> ('c, 'g, 'z) exec_scheme \<Rightarrow> bool" where
  "hold_same s s' \<longleftrightarrow> use_same s s' \<and> connection s' = connection s \<and> redis_node s' = redis_node s"

lemma hold_same_rel: "reflp hold_same" "transp hold_same"
proof -
  show "reflp hold_same" by (simp add: reflp_def hold_same_def)
  show "transp hold_same" by (rule transpI) (auto simp: hold_same_def intro: use_same_trans)
qed

lemma quiet_hold_same: "quiet s s' \<Longrightarrow> hold_same s s'"
  by (cases s, cases s') (simp add: quiet_def hold_same_def)

lemma hold_same_frame:
  "next_redis s' = next_redis s \<Longrightarrow> redises s' = redises s \<Longrightarrow> connection s' = connection s \<Longrightarrow> redis_node s' = redis_node s
   \<Longrightarrow> hold_same s s'"
  by (simp add: hold_same_def use_same_def used_def)

lemma to_hold: "io_pres quiet m \<Longrightarrow> io_pres hold_same m"
  unfolding io_pres_def using quiet_hold_same by blast

lemmas hold_rules = hold_same_rel io_pres_bind io_pres_seq io_pres_get io_pres_upd io_pres_if io_pres_when io_pres_try
  io_pres_ret io_pres_raise io_pres_lift io_pres_finally to_hold [OF with_redis_quiet] keeps_use_facts
  to_hold [OF initialize_quiet] to_hold [OF set_connection_quiet] to_hold [OF determine_slot_quiet]
  to_hold [OF node_for_command_quiet]

lemma disconnect_exec_hold: "io_pres hold_same (disconnect_exec X)"
  unfolding disconnect_exec_def by (rule hold_rules | simp split: option.split add: hold_rules)+

lemma choose_target_hold: "io_pres hold_same (choose_target X name args)"
  unfolding choose_target_def by (rule hold_rules | rule hold_same_frame; simp)+

lemma forget_startup_node_hold: "io_pres hold_same (io_upd (forget_startup_node n))"
  by (rule io_pres_upd, rule hold_same_frame) (simp_all add: forget_startup_node_def split: option.split)

lemma sleep_for_hold: "io_pres hold_same (sleep_for X t)"
  unfolding sleep_for_def by (rule hold_rules | rule hold_same_frame; simp)+

lemma node_failed_hold: "io_pres hold_same (node_failed X e)"
  unfolding node_failed_def
  by (rule hold_rules disconnect_exec_hold forget_startup_node_hold | simp split: option.split | intro conjI allI impI)+

lemma moved_reply_hold: "io_pres hold_same (moved_reply X e)"
  unfolding moved_reply_def update_moved_exception_def
  by (rule hold_rules | rule hold_same_frame; simp)+

lemma ask_reply_hold: "io_pres hold_same (ask_reply e)"
  unfolding ask_reply_def
  by (auto split: option.splits intro!: io_pres_raise io_pres_upd hold_same_rel hold_same_frame)

lemma handle_error_hold: "io_pres hold_same (handle_error X ttl e)"
  unfolding handle_error_def
  by (rule hold_rules node_failed_hold moved_reply_hold ask_reply_hold sleep_for_hold disconnect_exec_hold)+

text \<open>\<open>holds s0 r c s\<close>: since \<open>s0\<close> the connection \<open>c\<close> was taken from the client \<open>r\<close>, and nothing else.\<close>

definition holds :: "('c, 'g, 'z) cluster_scheme \<Rightarrow> nat \<Rightarrow> nat \<Rightarrow> ('c, 'g, 'z) cluster_scheme \<Rightarrow> bool" where
  "holds s0 r c s \<longleftrightarrow> next_redis s0 \<le> next_redis s \<and>
     (\<forall>r'. r' < next_redis s0 \<longrightarrow> redis_idle (redises s0 r') \<longrightarrow>
        redis_idle (redises s r') \<and> used s r' = (if r' = r then insert c (used s0 r') else used s0 r') \<and>
        (r' = r \<longrightarrow> c \<notin> used s0 r')) \<and>
     (\<forall>r'. next_redis s0 \<le> r' \<longrightarrow> r' < next_redis s \<longrightarrow>
        redis_idle (redises s r') \<and> used s r' \<subseteq> (if r' = r then {c} else {}))"

lemma holds_use_same:
  assumes "holds s0 r c s" "use_same s s'"
  shows "holds s0 r c s'"
  unfolding holds_def
proof (intro conjI allI impI)
  show "next_redis s0 \<le> next_redis s'" using assms by (auto simp: holds_def use_same_def)
next
  fix r' assume "r' < next_redis s0" "redis_idle (redises s0 r')"
  moreover from this have "redis_idle (redises s' r') \<and> used s' r' = used s r'"
    using assms use_same_old [OF assms(2), of r'] by (simp add: holds_def)
  ultimately show "redis_idle (redises s' r')"
    "used s' r' = (if r' = r then insert c (used s0 r') else used s0 r')" "r' = r \<Longrightarrow> c \<notin> used s0 r'"
    using assms(1) by (auto simp: holds_def)
next
  fix r' assume r': "next_redis s0 \<le> r'" "r' < next_redis s'"
  have "redis_idle (redises s' r') \<and> used s' r' \<subseteq> (if r' = r then {c} else {})"
  proof (cases "r' < next_redis s")
    case True
    then have "redis_idle (redises s r') \<and> used s r' \<subseteq> (if r' = r then {c} else {})"
      using assms(1) r'(1) by (simp add: holds_def)
    then show ?thesis using use_same_old [OF assms(2) True] by simp
  qed (use use_same_new [OF assms(2)] r'(2) in simp)
  then show "redis_idle (redises s' r')" "used s' r' \<subseteq> (if r' = r then {c} else {})" by simp_all
qed

lemma with_redis_SomeE:
  assumes "with_redis X r f s = Some (q, s')"
  obtains R' where "f (redis_class X s r) ((redises s r)\<lparr>r_pool := (r_pool (redises s r))\<lparr>shared := world s\<rparr>\<rparr>) = Some (q, R')"
    "s' = s\<lparr>redises := (redises s)(r := R'), world := shared (r_pool R')\<rparr>"
  using assms by (auto simp: with_redis_def io_get_def on_redis_def Let_def split: option.splits)

lemma release_use:
  assumes "with_redis X r (\<lambda>C. on_pool (release (cc_class C) c)) s = Some (q, s')"
  shows "next_redis s' = next_redis s \<and> cluster.more s' = cluster.more s \<and> (\<forall>r'. r' \<noteq> r \<longrightarrow> redises s' r' = redises s r') \<and>
    (redis_idle (redises s r) \<longrightarrow> redis_idle (redises s' r) \<and> used s' r = used s r - {c})"
proof -
  obtain R' where R': "on_pool (release (cc_class (redis_class X s r)) c) ((redises s r)\<lparr>r_pool := (r_pool (redises s r))\<lparr>shared := world s\<rparr>\<rparr>) = Some (q, R')"
    and s': "s' = s\<lparr>redises := (redises s)(r := R'), world := shared (r_pool R')\<rparr>"
    using assms by (rule with_redis_SomeE)
  obtain p where p: "release (cc_class (redis_class X s r)) c ((r_pool (redises s r))\<lparr>shared := world s\<rparr>) = Some (q, p)"
    "R' = (redises s r)\<lparr>r_pool := p\<rparr>"
    using R' by (auto simp: on_pool_def split: option.splits)
  have "redis_idle (redises s r) \<longrightarrow> pool_fresh p \<and> set (in_use p) = used s r - {c}"
    using release_in_use [OF _ p(1)] by (simp add: redis_idle_def used_def)
  then show ?thesis by (simp add: s' p(2) redis_idle_def used_def)
qed

lemma holds_release:
  assumes "holds s0 r c s" "with_redis X r (\<lambda>C. on_pool (release (cc_class C) c)) s = Some (q, s')"
  shows "use_same s0 s' \<and> cluster.more s' = cluster.more s"
proof -
  have one: "redis_idle (redises s r') \<Longrightarrow> redis_idle (redises s' r') \<and> used s' r' = used s r' - (if r' = r then {c} else {})" for r'
    using release_use [OF assms(2)] by (cases "r' = r") (simp_all add: used_def)
  have more: "next_redis s' = next_redis s" "cluster.more s' = cluster.more s" using release_use [OF assms(2)] by simp_all
  have "use_same s0 s'" unfolding use_same_def
  proof (intro conjI allI impI)
    show "next_redis s0 \<le> next_redis s'" using assms(1) more by (simp add: holds_def)
  next
    fix r' assume "r' < next_redis s0" "redis_idle (redises s0 r')"
    then have "redis_idle (redises s r')" "used s r' = (if r' = r then insert c (used s0 r') else used s0 r')"
      "r' = r \<longrightarrow> c \<notin> used s0 r'" using assms(1) unfolding holds_def by (blast, metis, blast)
    then show "redis_idle (redises s' r')" "used s' r' = used s0 r'" using one by auto
  next
    fix r' assume "next_redis s0 \<le> r'" "r' < next_redis s'"
    then have "redis_idle (redises s r')" "used s r' \<subseteq> (if r' = r then {c} else {})"
      using assms(1) more by (simp_all add: holds_def)
    then show "redis_idle (redises s' r')" "used s' r' = {}" using one by auto
  qed
  then show ?thesis using more by simp
qed

text \<open>Taking a connection: it fails and nothing is held, or exactly the new connection is.\<close>

lemma own_or_pooled_use:
  assumes "with_redis X r own_or_pooled s = Some (q, s')"
  shows "case q of Inl e \<Rightarrow> quiet s s' | Inr c \<Rightarrow> holds s r c s'"
proof -
  let ?p = "(r_pool (redises s r))\<lparr>shared := world s\<rparr>"
  obtain R' where R': "own_or_pooled (redis_class X s r) ((redises s r)\<lparr>r_pool := ?p\<rparr>) = Some (q, R')"
    and s': "s' = s\<lparr>redises := (redises s)(r := R'), world := shared (r_pool R')\<rparr>"
    using assms by (rule with_redis_SomeE)
  have eff: "redis_idle R' \<and> (case q of
      Inr c \<Rightarrow> c \<notin> used s r \<and> set (in_use (r_pool R')) = insert c (used s r)
    | Inl e \<Rightarrow> set (in_use (r_pool R')) = used s r)" if idle: "redis_idle (redises s r)"
  proof -
    obtain p where p: "get_connection (cc_class (redis_class X s r)) ?p = Some (q, p)" "R' = (redises s r)\<lparr>r_pool := p\<rparr>"
      using R' idle by (auto simp: own_or_pooled_def io_get_def on_pool_def redis_idle_def split: option.splits)
    have "pool_inv ?p" "pool_pid ?p = getpid ?p"
      using idle by (simp_all add: redis_idle_def pool_fresh_def pool_inv_def)
    from get_connection_in_use [OF this p(1)] show ?thesis
      using idle by (auto simp: p(2) redis_idle_def pool_fresh_def used_def split: sum.splits)
  qed
  show ?thesis
  proof (cases q)
    case (Inl e)
    then show ?thesis using eff by (auto simp: quiet_def use_same_def used_def s')
  next
    case (Inr c)
    then show ?thesis using eff by (auto simp: holds_def used_def s')
  qed
qed

definition stale_ok :: "('c, 'g, 'z) exec_scheme \<Rightarrow> bool" where
  "stale_ok s \<longleftrightarrow> (case connection s of None \<Rightarrow> True | Some (r, c) \<Rightarrow> r < next_redis s \<longrightarrow> c \<notin> used s r)"

lemma holds_frame:
  "holds s0 r c s \<Longrightarrow> next_redis s' = next_redis s \<Longrightarrow> redises s' = redises s \<Longrightarrow> holds s0 r c s'"
  by (simp add: holds_def used_def)

lemma holds_start: "use_same s0 s1 \<Longrightarrow> holds s1 r c s \<Longrightarrow> holds s0 r c s"
proof -
  assume 1: "use_same s0 s1" and 2: "holds s1 r c s"
  show ?thesis unfolding holds_def
  proof (intro conjI allI impI)
    show "next_redis s0 \<le> next_redis s" using 1 2 by (simp add: use_same_def holds_def)
  next
    fix r' assume r': "r' < next_redis s0" "redis_idle (redises s0 r')"
    have b: "redis_idle (redises s1 r')" "used s1 r' = used s0 r'" "r' < next_redis s1" using use_same_old [OF 1 r'] by simp_all
    then have "redis_idle (redises s r') \<and> used s r' = (if r' = r then insert c (used s1 r') else used s1 r') \<and>
        (r' = r \<longrightarrow> c \<notin> used s1 r')" using 2 unfolding holds_def by blast
    then show "redis_idle (redises s r')" "used s r' = (if r' = r then insert c (used s0 r') else used s0 r')"
      "r' = r \<Longrightarrow> c \<notin> used s0 r'" using b(2) by (auto split: if_splits)
  next
    fix r' assume r': "next_redis s0 \<le> r'" "r' < next_redis s"
    have "redis_idle (redises s r') \<and> used s r' \<subseteq> (if r' = r then {c} else {})"
    proof (cases "r' < next_redis s1")
      case True
      then have b: "redis_idle (redises s1 r')" "used s1 r' = {}" using use_same_new [OF 1 r'(1)] by simp_all
      then have "redis_idle (redises s r') \<and> used s r' = (if r' = r then insert c (used s1 r') else used s1 r')"
        using 2 True unfolding holds_def by blast
      then show ?thesis using b(2) by (auto split: if_splits)
    next
      case False
      then show ?thesis using 2 r'(2) unfolding holds_def by (meson not_le)
    qed
    then show "redis_idle (redises s r')" "used s r' \<subseteq> (if r' = r then {c} else {})" by simp_all
  qed
qed

lemma take_connection_cases:
  assumes "take_connection X s = Some (q, s')"
  obtains (failed) e where "q = Inl e" "use_same s s'" "connection s' = connection s"
  | (taken) r c where "q = Inr (r, c)" "holds s r c s'" "connection s' = Some (r, c)" "redis_node s' = Some r"
proof -
  from assms show thesis unfolding take_connection_def io_get_def
  proof (elim io_bind_SomeE)
    fix e assume "get_redis_connection X (target_node s) s = Some (Inl e, s')" "q = Inl e"
    moreover from this have "hold_same s s'" using kept [OF to_hold [OF get_redis_connection_quiet]] by blast
    ultimately show thesis using failed by (auto simp: hold_same_def)
  next
    fix r s1 assume g: "get_redis_connection X (target_node s) s = Some (Inr r, s1)"
      and rest: "io_seq (io_upd (\<lambda>s. s\<lparr>redis_node := Some r\<rparr>))
         (io_bind (with_redis X r own_or_pooled) (\<lambda>c.
           io_seq (io_upd (\<lambda>s. s\<lparr>connection := Some (r, c)\<rparr>)) (io_ret (r, c)))) s1 = Some (q, s')"
    have h1: "hold_same s s1" by (rule kept [OF to_hold [OF get_redis_connection_quiet] g])
    let ?s2 = "s1\<lparr>redis_node := Some r\<rparr>"
    have h2: "use_same s ?s2" "connection ?s2 = connection s"
      using h1 by (simp_all add: hold_same_def use_same_def used_def)
    from rest have "io_bind (with_redis X r own_or_pooled) (\<lambda>c.
           io_seq (io_upd (\<lambda>s. s\<lparr>connection := Some (r, c)\<rparr>)) (io_ret (r, c))) ?s2 = Some (q, s')"
      by (simp add: io_seq_def io_bind_def io_upd_def)
    then show thesis
    proof (cases rule: io_bind_SomeE)
      case (raises e)
      then have "quiet ?s2 s'" using own_or_pooled_use [OF raises(1)] by simp
      then have "hold_same ?s2 s'" by (rule quiet_hold_same)
      then have "use_same ?s2 s'" "connection s' = connection ?s2" by (simp_all add: hold_same_def)
      then show thesis using failed raises(2) use_same_trans [OF h2(1)] h2(2) by simp
    next
      case (continues c s3)
      have "holds ?s2 r c s3" using own_or_pooled_use [OF continues(1)] by simp
      then have h3: "holds s r c s3" by (rule holds_start [OF h2(1)])
      have rn: "redis_node s3 = Some r"
      proof -
        have "cluster.more s3 = cluster.more ?s2" using continues(1)
          by (rule with_redis_SomeE) simp
        then show ?thesis by (cases s3, cases s1) simp
      qed
      have s': "s' = s3\<lparr>connection := Some (r, c)\<rparr>" "q = Inr (r, c)"
        using continues(2) by (auto simp: io_seq_def io_bind_def io_upd_def io_ret_def)
      show thesis
        by (rule taken) (use s' rn holds_frame [OF h3] in simp_all)
    qed
  qed
qed

text \<open>A whole attempt: nothing was taken, or the connection is still held at its end.\<close>

definition attempt_tail ::
  "('c, 'g) cluster_class \<Rightarrow> string \<Rightarrow> pyval list \<Rightarrow> cb_opts \<Rightarrow> nat \<times> nat \<Rightarrow> (('c, 'g, 'z) exec_scheme, pyval) io" where
  "attempt_tail X name args opts = (\<lambda>(r, c).
     io_seq
       (io_get (\<lambda>s. io_when (asking s)
         (io_seq (with_redis X r (\<lambda>C. on_connection c (cc_send C [PStr ''ASKING''] no_opts)))
           (io_bind (with_redis X r (\<lambda>C. parse_response C c (PStr ''ASKING'') opts)) (\<lambda>_.
             io_upd (\<lambda>s. s\<lparr>asking := False\<rparr>))))))
       (io_seq (with_redis X r (\<lambda>C. on_connection c (cc_send C (PStr name # args) opts)))
         (io_bind (with_redis X r (\<lambda>C. parse_response C c (PStr name) opts)) (run_callback X name opts))))"

lemma run_callback_hold: "io_pres hold_same (run_callback X name opts v)"
  unfolding run_callback_def by (auto intro!: io_pres_get io_pres_ret io_pres_lift hold_same_rel split: option.split)

lemma attempt_tail_hold: "io_pres hold_same (attempt_tail X name args opts rc)"
  unfolding attempt_tail_def
  by (cases rc, simp only: prod.case)
     (rule hold_rules run_callback_hold | rule hold_same_frame; simp)+

lemma attempt_cases:
  assumes "attempt_command X name args opts s = Some (q, s')"
  obtains (failed) e where "q = Inl e" "use_same s s'" "connection s' = connection s"
  | (taken) r c where "holds s r c s'" "connection s' = Some (r, c)" "redis_node s' = Some r"
proof -
  from assms have "io_bind (choose_target X name args) (\<lambda>_. io_bind (take_connection X) (attempt_tail X name args opts)) s = Some (q, s')"
    by (simp add: attempt_command_def io_seq_def [of "choose_target X name args"] attempt_tail_def)
  then show thesis
  proof (cases rule: io_bind_SomeE)
    case (raises e)
    then show thesis using failed kept [OF choose_target_hold raises(1)] by (auto simp: hold_same_def)
  next
    case (continues u s1)
    have h1: "hold_same s s1" by (rule kept [OF choose_target_hold continues(1)])
    from continues(2) show thesis
    proof (cases rule: io_bind_SomeE)
      case (raises e)
      from raises(1) show thesis
      proof (cases rule: take_connection_cases)
        case (failed e')
        then show thesis using that(1) raises(2) h1 use_same_trans by (metis hold_same_def)
      qed simp
    next
      case (continues rc s2)
      from continues(1) show thesis
      proof (cases rule: take_connection_cases)
        case (taken r c)
        have h2: "hold_same s2 s'" by (rule kept [OF attempt_tail_hold continues(2)])
        have "holds s r c s2" using holds_start taken(2) h1 by (auto simp: hold_same_def)
        then have "holds s r c s'" using holds_use_same h2 by (auto simp: hold_same_def)
        then show thesis using that(2) taken h2 by (auto simp: hold_same_def)
      qed simp
    qed
  qed
qed

lemma release_exec_stale:
  assumes "release_exec X s = Some (q, s')" "stale_ok s" "all_idle s"
  shows "quiet s s'"
proof (cases "connection s")
  case None
  then have "s' = s" using assms(1) by (simp add: release_exec_def io_get_def io_ret_def)
  then show ?thesis by (simp add: quiet_def)
next
  case (Some rc)
  obtain r c where c: "connection s = Some (r, c)" using Some by (cases rc) simp
  show ?thesis
  proof (cases "redis_node s")
    case None
    then have "s' = s" using assms(1) c by (simp add: release_exec_def io_get_def io_ret_def)
    then show ?thesis by (simp add: quiet_def)
  next
    case (Some r')
    show ?thesis
    proof (cases "r = r'")
      case True
      then have run: "with_redis X r (\<lambda>C. on_pool (release (cc_class C) c)) s = Some (q, s')"
        using assms(1) c Some by (simp add: release_exec_def io_get_def)
      show ?thesis using release_use [OF run] assms(2) c
        by (auto simp: quiet_def use_same_def used_def stale_ok_def)
    next
      case False
      then have "with_redis X r' (\<lambda>C. on_pool checkpid) s = Some (q, s')"
        using assms(1) c Some by (simp add: release_exec_def io_get_def)
      then show ?thesis using kept [OF with_redis_quiet [OF checkpid_keeps_use]] by blast
    qed
  qed
qed

lemma release_exec_held:
  assumes "release_exec X s = Some (q, s')" "holds s0 r c s" "connection s = Some (r, c)" "redis_node s = Some r"
  shows "use_same s0 s' \<and> connection s' = Some (r, c)"
proof -
  have run: "with_redis X r (\<lambda>C. on_pool (release (cc_class C) c)) s = Some (q, s')"
    using assms(1,3,4) by (simp add: release_exec_def io_get_def)
  have r: "use_same s0 s'" "cluster.more s' = cluster.more s" using holds_release [OF assms(2) run] by simp_all
  from r(2) have "connection s' = connection s" by (cases s, cases s') simp
  then show ?thesis using r(1) assms(3) by simp
qed

lemma use_same_idle: "use_same s s' \<Longrightarrow> all_idle s \<Longrightarrow> all_idle s'"
  unfolding all_idle_def use_same_def by (meson not_le)

lemma stale_ok_same:
  assumes "use_same s s'" "connection s' = connection s" "stale_ok s" "all_idle s"
  shows "stale_ok s'"
proof (cases "connection s")
  case (Some rc)
  obtain r c where rc: "connection s = Some (r, c)" using Some by (cases rc) simp
  have "c \<notin> used s' r" if r: "r < next_redis s'"
  proof (cases "r < next_redis s")
    case True
    then show ?thesis using use_same_old [OF assms(1) True] assms(3,4) rc by (simp add: all_idle_def stale_ok_def)
  qed (use use_same_new [OF assms(1) _ r] in simp)
  then show ?thesis using rc assms(2) by (simp add: stale_ok_def)
qed (use assms(2) in \<open>simp add: stale_ok_def\<close>)

lemma one_round_use:
  assumes "one_round X name args opts ttl s = Some (q, s')" "all_idle s" "stale_ok s"
  shows "use_same s s' \<and> stale_ok s'"
proof -
  let ?body = "io_try (io_bind (attempt_command X name args opts) (\<lambda>v. io_ret (Some v)))
         (\<lambda>e. io_seq (handle_error X ttl e) (io_ret None))"
  obtain q1 s2 q2 where body: "?body s = Some (q1, s2)" and fin: "release_exec X s2 = Some (q2, s')"
    using assms(1) unfolding one_round_def by (rule io_finally_SomeE)
  obtain q0 s1 where att: "attempt_command X name args opts s = Some (q0, s1)" and h: "hold_same s1 s2"
  proof -
    obtain q0 s1 where att: "attempt_command X name args opts s = Some (q0, s1)"
      using body by (auto simp: io_try_def io_bind_def split: option.splits prod.splits)
    have "hold_same s1 s2"
    proof (cases q0)
      case (Inl e)
      then have "io_seq (handle_error X ttl e) (io_ret None) s1 = Some (q1, s2)"
        using body att by (simp add: io_try_def io_bind_def)
      then show ?thesis by (rule kept [rotated]) (rule hold_rules handle_error_hold)+
    next
      case (Inr v)
      then have "s2 = s1" using body att by (simp add: io_try_def io_bind_def io_ret_def)
      then show ?thesis by (simp add: hold_same_def)
    qed
    then show thesis using that att by blast
  qed
  from att show ?thesis
  proof (cases rule: attempt_cases)
    case (failed e)
    have s2: "use_same s s2" "connection s2 = connection s"
      using failed h use_same_trans by (auto simp: hold_same_def)
    have i2: "all_idle s2" "stale_ok s2" using use_same_idle [OF s2(1) assms(2)] stale_ok_same [OF s2 assms(3,2)] by simp_all
    have q: "quiet s2 s'" by (rule release_exec_stale [OF fin i2(2,1)])
    then have "hold_same s2 s'" by (rule quiet_hold_same)
    then have "use_same s2 s'" "connection s' = connection s2" by (simp_all add: hold_same_def)
    then show ?thesis using use_same_trans [OF s2(1)] stale_ok_same i2 by blast
  next
    case (taken r c)
    have "holds s r c s2" "connection s2 = Some (r, c)" "redis_node s2 = Some r"
      using taken h holds_use_same by (auto simp: hold_same_def)
    from release_exec_held [OF fin this] have s': "use_same s s'" "connection s' = Some (r, c)" by simp_all
    have "c \<notin> used s' r" if r: "r < next_redis s'"
    proof (cases "r < next_redis s")
      case True
      then have "redis_idle (redises s r)" using assms(2) by (simp add: all_idle_def)
      then show ?thesis using use_same_old [OF s'(1) True] taken(1) True by (simp add: holds_def)
    qed (use use_same_new [OF s'(1) _ r] in simp)
    then show ?thesis using s' by (simp add: stale_ok_def)
  qed
qed

lemma rounds_use:
  "rounds X name args opts ttl s = Some (q, s') \<Longrightarrow> all_idle s \<Longrightarrow> stale_ok s \<Longrightarrow> use_same s s'"
proof (induction ttl arbitrary: s)
  case 0
  then show ?case by (simp add: io_raise_def)
next
  case (Suc ttl)
  from Suc.prems(1) show ?case unfolding rounds.simps
  proof (cases rule: io_bind_SomeE)
    case (raises e)
    then show ?thesis using one_round_use Suc.prems(2,3) by blast
  next
    case (continues v s1)
    have s1: "use_same s s1" "stale_ok s1" using one_round_use [OF continues(1) Suc.prems(2,3)] by simp_all
    show ?thesis
    proof (cases v)
      case None
      then have "use_same s1 s'" using Suc.IH continues(2) use_same_idle [OF s1(1) Suc.prems(2)] s1(2) by simp
      then show ?thesis by (rule use_same_trans [OF s1(1)])
    qed (use continues(2) s1 in \<open>simp add: io_ret_def\<close>)
  qed
qed

section \<open>Running a command\<close>

lemma exec_fields [simp]:
  "redises (cluster.extend s m) = redises s" "next_redis (cluster.extend s m) = next_redis s"
  "redises (cluster.truncate t) = redises t" "next_redis (cluster.truncate t) = next_redis t"
  by (simp_all add: cluster.defs)

lemma use_same_fields:
  "redises a = redises a' \<Longrightarrow> next_redis a = next_redis a' \<Longrightarrow> redises b = redises b' \<Longrightarrow> next_redis b = next_redis b' \<Longrightarrow>
   use_same a b \<Longrightarrow> use_same a' b'"
  by (simp add: use_same_def used_def)

definition use_kept :: "('c, 'g, 'z) cluster_scheme \<Rightarrow> ('c, 'g, 'z) cluster_scheme \<Rightarrow> bool" where
  "use_kept s s' \<longleftrightarrow> (all_idle s \<longrightarrow> use_same s s')"

lemma use_kept_rel: "reflp use_kept" "transp use_kept"
proof -
  show "reflp use_kept" by (simp add: reflp_def use_kept_def)
  show "transp use_kept"
    by (rule transpI) (auto simp: use_kept_def intro: use_same_trans use_same_idle)
qed

lemma quiet_use_kept: "quiet s s' \<Longrightarrow> use_kept s s'"
  by (simp add: quiet_def use_kept_def)

lemma to_kept: "io_pres quiet m \<Longrightarrow> io_pres use_kept m"
  unfolding io_pres_def using quiet_use_kept by blast

lemma execute_on_node_use: "io_pres use_kept (execute_on_node X n name args opts)"
  unfolding io_pres_def use_kept_def
proof (intro allI impI)
  fix s q s'
  assume run: "execute_on_node X n name args opts s = Some (q, s')" and idle: "all_idle s"
  let ?s0 = "cluster.extend s (exec.fields n None None [] False False)"
  obtain t where t: "rounds X name args opts TTL ?s0 = Some (q, t)" "s' = cluster.truncate t"
    using run by (auto simp: execute_on_node_def split: option.splits)
  have "all_idle ?s0" using idle by (simp add: all_idle_def)
  moreover have "stale_ok ?s0" by (simp add: stale_ok_def cluster.defs exec.defs)
  ultimately have "use_same ?s0 t" by (rule rounds_use [OF t(1)])
  then show "use_same s s'" by (rule use_same_fields [rotated -1]) (simp_all add: t(2))
qed

lemmas kept_rules = use_kept_rel io_pres_bind io_pres_seq io_pres_get io_pres_upd io_pres_if io_pres_when io_pres_try
  io_pres_ret io_pres_raise io_pres_lift io_pres_finally io_pres_catch

lemma execute_on_nodes_use: "io_pres use_kept (execute_on_nodes X ns name args opts res)"
  by (induction ns arbitrary: res)
     (auto intro!: kept_rules execute_on_node_use split: option.split)

lemma retry_or_raise_use: "io_pres use_kept again \<Longrightarrow> io_pres use_kept (retry_or_raise X rt k b e again)"
  unfolding retry_or_raise_def by (rule kept_rules to_kept [OF replace_default_node_quiet] | assumption)+

lemma command_attempts_use: "io_pres use_kept (command_attempts X rt name args opts sp flag k n b)"
proof (induction k arbitrary: n b)
  case 0
  then show ?case by (auto intro: kept_rules)
next
  case (Suc k)
  have r: "io_pres use_kept (retry_or_raise X rt n b e (command_attempts X rt name args opts sp flag k (n - 1) b))" for n b e
    by (rule retry_or_raise_use [OF Suc])
  have d: "io_pres use_kept (case sp of Some ns \<Rightarrow> io_ret (map Some ns)
        | None \<Rightarrow> io_bind (determine_nodes X name args flag) (\<lambda>ns. if ns = [] then io_raise no_targets else io_ret ns))"
    by (auto intro!: kept_rules to_kept [OF determine_nodes_quiet] split: option.split)
  show ?case unfolding command_attempts.simps Let_def
    by (rule kept_rules d)+ (auto intro!: kept_rules r execute_on_nodes_use split: sum.split)
qed

lemma cluster_execute_command_use: "io_pres use_kept (cluster_execute_command X rt name args opts targets)"
  unfolding cluster_execute_command_def Let_def by (rule kept_rules command_attempts_use)+

section \<open>Names of nodes\<close>

lemma node_name_frame [simp]:
  "node_name (s\<lparr>nodes_cache := c\<rparr>) = node_name s" "node_name (s\<lparr>moved_exception := m\<rparr>) = node_name s"
  "node_name (s\<lparr>slots_cache := sc\<rparr>) = node_name s" "node_name (s\<lparr>default_node := d\<rparr>) = node_name s"
  "node_name (upd_list l f s) = node_name s" "node_name (s\<lparr>node_lists := nl\<rparr>) = node_name s"
  "node_name (s\<lparr>next_list := k\<rparr>) = node_name s"
  by (simp_all add: fun_eq_iff node_name_def upd_list_def)

lemma node_name_upd [simp]:
  "node_name (upd_node n (server_type_update f) s) = node_name s"
  "node_name (upd_node n (redis_connection_update g) s) = node_name s"
  by (simp_all add: fun_eq_iff node_name_def upd_node_def)

lemma upd_node_frame [simp]:
  "next_node (upd_node n f s) = next_node s" "node_lists (upd_node n f s) = node_lists s" "next_list (upd_node n f s) = next_list s"
  "nodes_cache (upd_node n f s) = nodes_cache s" "primary_to_idx (upd_node n f s) = primary_to_idx s"
  "slots_cache (upd_node n f s) = slots_cache s" "nodes (upd_node n f s) = (nodes s)(n := f (nodes s n))"
  by (simp_all add: upd_node_def)

section \<open>No connection is lost\<close>

section \<open>A cluster whose nodes answer from a script\<close>

definition demo_cluster_class :: "(scripted_conn, unit) cluster_class" where
  "demo_cluster_class = \<lparr> x_client = (\<lambda>_ _. scripted_client plain_lib), x_heap = (\<lambda>_ _ _. ([], [])), x_getpid = 1,
     x_max_connections = PNone, x_protocol = PInt 2, x_cache_config = False, x_lib = plain_lib, x_shorten = id,
     x_gethostbyname = id, x_address_remap = None, x_randbelow = (\<lambda>_ g. (0, g)), x_sleep = (\<lambda>_ g. g),
     x_encoder = utf8_encoder False, x_from_url = False, x_require_full_coverage = False, x_dynamic_startup_nodes = True,
     x_read_from_replicas = False, x_strategy = None, x_error_retry_attempts = 3, x_reinitialize_steps = 5 \<rparr>"

lemma demo_class [simp]:
  "x_client demo_cluster_class h p = scripted_client plain_lib" "x_lib demo_cluster_class = plain_lib"
  "x_address_remap demo_cluster_class = None" "x_cache_config demo_cluster_class = False"
  "x_require_full_coverage demo_cluster_class = False" "x_gethostbyname demo_cluster_class = id"
  "x_dynamic_startup_nodes demo_cluster_class" "x_error_retry_attempts demo_cluster_class = 3"
  by (simp_all add: demo_cluster_class_def)

text \<open>A client with one connection, which is idle or taken.\<close>

definition scripted :: "scripted_conn \<Rightarrow> (scripted_conn, unit) redis" where
  "scripted x = script_left 0 x (demo_redis [])"

definition scripted_busy :: "scripted_conn \<Rightarrow> (scripted_conn, unit) redis" where
  "scripted_busy x = (scripted x)\<lparr>r_pool := (r_pool (scripted x))\<lparr>available := [], in_use := [0]\<rparr>\<rparr>"

text \<open>Nodes \<open>h:1\<close> and \<open>h:2\<close> serve the slots 0 and 1.\<close>

definition demo_cluster :: "(nat \<Rightarrow> (exc + pyval) list) \<Rightarrow> (scripted_conn, unit) cluster" where
  "demo_cluster replies = \<lparr>
     nodes = (\<lambda>n. \<lparr>cn_host = ''h'', cn_port = 1 + int n, server_type = Some (if n = 0 then PRIMARY else REPLICA), redis_connection = Some n\<rparr>),
     next_node = 2, node_lists = (\<lambda>_. [0, 1]), next_list = 1, redises = (\<lambda>n. scripted (replies n, [])),
     redis_addr = (\<lambda>n. (''h'', 1 + int n)), next_redis = 2, world = (), nodes_cache = [(''h:1'', 0), (''h:2'', 1)],
     slots_cache = [(0, 0), (1, 0)], own_startup_nodes = Some [(''h:1'', 0)], default_node = Some 0, moved_exception = None,
     primary_to_idx = [], cache_made = False, reinitialize_counter = 0, parser_commands = [], cluster_response_callbacks = [] \<rparr>"

lemma demo_names: "get_node_name ''h'' 1 = ''h:1''" "get_node_name ''h'' 2 = ''h:2''"
  by code_simp+

lemma demo_ask: "ask_fields ''1 h:2'' = Some (1, ''h'', 2)"
  by code_simp

lemmas scripted_eval = client_eval execute_command_def parse_response_def parse_reply_def no_opts_def has_opt_def supported_def
  default_supported_errors_def owns_connection_def Let_def plain_lib_def ci_get_def script_left_def scripted_def

lemma scripted_shared [simp]:
  "(scripted x)\<lparr>r_pool := (r_pool (scripted x))\<lparr>shared := ()\<rparr>\<rparr> = scripted x"
  "(scripted_busy x)\<lparr>r_pool := (r_pool (scripted_busy x))\<lparr>shared := ()\<rparr>\<rparr> = scripted_busy x"
  by (simp_all add: scripted_def scripted_busy_def)

lemma scripted_answers:
  "cb_lookup [(''SET'', ok_entry)] (upper name) = None \<Longrightarrow>
   execute_command (scripted_client plain_lib) [PStr name] no_opts (scripted (Inr v # rs, cmds))
     = Some (Inr v, scripted (rs, cmds @ [[PStr name]]))"
  by (simp add: scripted_eval)

lemma scripted_take: "own_or_pooled (scripted_client plain_lib) (scripted x) = Some (Inr 0, scripted_busy x)"
  by (simp add: scripted_eval scripted_busy_def)

lemma scripted_send:
  "on_connection 0 (cc_send (scripted_client plain_lib) args opts) (scripted_busy (rs, cmds)) = Some (Inr (), scripted_busy (rs, cmds @ [args]))"
  by (simp add: scripted_eval scripted_busy_def)

lemma scripted_receives:
  "cb_lookup [(''SET'', ok_entry)] (upper name) = None \<Longrightarrow>
   parse_response (scripted_client plain_lib) 0 (PStr name) no_opts (scripted_busy (Inr v # rs, cmds)) = Some (Inr v, scripted_busy (rs, cmds))"
  by (simp add: scripted_eval scripted_busy_def pop_opts_def)

lemma scripted_error:
  "parse_response (scripted_client plain_lib) 0 (PStr name) no_opts (scripted_busy (Inl e # rs, cmds)) = Some (Inl e, scripted_busy (rs, cmds))"
  by (simp add: scripted_eval scripted_busy_def)

lemma scripted_release:
  "on_pool (release (cc_class (scripted_client plain_lib)) 0) (scripted_busy x) = Some (Inr (), scripted x)"
  "on_pool checkpid (scripted x) = Some (Inr (), scripted x)"
  by (simp_all add: scripted_eval scripted_busy_def)

lemma scripted_close: "on_pool (pool_disconnect (cc_class (scripted_client plain_lib)) True) (scripted x) = Some (Inr (), scripted x)"
  by (simp add: scripted_eval pool_disconnect_def conns_update.simps fun_eq_iff)

lemma scripted_idle: "redis_idle (scripted x)" and scripted_unused: "in_use (r_pool (scripted x)) = []"
  by (simp_all add: redis_idle_def scripted_def script_left_def demo_redis_def pool_fresh_def pool_inv_def)

lemma demo_callbacks:
  "cb_lookup [(''SET'', ok_entry)] (upper ''CLUSTER SLOTS'') = None" "cb_lookup [(''SET'', ok_entry)] (upper ''GET'') = None"
  "cb_lookup [(''SET'', ok_entry)] (upper ''ASKING'') = None"
  by code_simp+

lemmas demo_eval = io_get_def io_seq_def io_bind_def io_upd_def io_try_def io_ret_def io_raise_def io_lift_def io_when_def
  io_finally_def io_catch_def with_redis_def on_redis_def redis_class_def Let_def demo_cluster_def demo_names demo_ask demo_callbacks
  scripted_answers scripted_take scripted_send scripted_receives scripted_error scripted_release scripted_close

text \<open>
  C10: a command of the cluster client gives back every connection it took, on every node and whatever happens to it
  (MOVED, ASK, TRYAGAIN, a node that fails, a layout that cannot be read): the pool of each client that was there has the same
  connections in use as before, and the pool of each client made meanwhile has none.
\<close>

theorem cluster_command_no_leak:
  assumes "\<forall>r < next_redis s. pool_fresh (r_pool (redises s r)) \<and> r_connection (redises s r) = None"
    and "cluster_execute_command X retryable name args opts targets s = Some (res, s')"
  shows "next_redis s \<le> next_redis s' \<and> (\<forall>r < next_redis s'. pool_fresh (r_pool (redises s' r)) \<and>
    set (in_use (r_pool (redises s' r))) = (if r < next_redis s then set (in_use (r_pool (redises s r))) else {}))"
proof -
  have idle: "all_idle s" using assms(1) by (simp add: all_idle_def redis_idle_def)
  have k: "use_same s s'" using kept [OF cluster_execute_command_use assms(2)] idle by (simp add: use_kept_def)
  have "redis_idle (redises s' r) \<and> used s' r = (if r < next_redis s then used s r else {})" if "r < next_redis s'" for r
    using k that idle unfolding use_same_def all_idle_def by (meson not_le)
  then show ?thesis using k by (auto simp: used_def redis_idle_def use_same_def)
qed

text \<open>Slot 1 is being moved: the node asked first sends the client to the other one.\<close>

lemma demo_ask_run:
  "map_option fst (cluster_execute_command demo_cluster_class ERRORS_ALLOW_RETRY ''GET'' [PStr ''k''] no_opts (Some (Node 0))
     (demo_cluster (\<lambda>n. if n = 0 then [Inl (Exc AskError ''1 h:2'')] else [Inr (PBytes ''OK''), Inr (PBytes ''v'')])))
   = Some (Inr (PBytes ''v''))"
proof -
  have ask: "is_exc (Exc AskError m) AskError" "\<not> is_exc (Exc AskError m) AuthenticationError" "\<not> is_exc (Exc AskError m) ConnectionError"
    "\<not> is_exc (Exc AskError m) TimeoutError" "\<not> is_exc (Exc AskError m) MovedError" "\<not> is_exc (Exc AskError m) TryAgainError" for m
    by (simp_all add: is_exc_def, code_simp+)
  have ttl: "rounds X name args opts TTL =
      io_bind (one_round X name args opts 15) (\<lambda>r. case r of Some v \<Rightarrow> io_ret v | None \<Rightarrow> rounds X name args opts 15)"
    "rounds X name args opts 15 =
      io_bind (one_round X name args opts 14) (\<lambda>r. case r of Some v \<Rightarrow> io_ret v | None \<Rightarrow> rounds X name args opts 14)"
    for X :: "(scripted_conn, unit) cluster_class" and name args opts
    using rounds.simps(2) [of X name args opts 15] rounds.simps(2) [of X name args opts 14] by (simp_all add: TTL_def)
  have none: "cb_lookup [] k = None" for k by (simp add: cb_lookup_def)
  have result: "process_result plain_lib ''GET'' no_opts [(''h:1'', PBytes ''v'')] = Inr (PBytes ''v'')" by code_simp
  show ?thesis
    by (simp add: cluster_execute_command_def parse_target_nodes_def is_nodes_flag_def res_map_def res_bind_def execute_on_node_def ttl one_round_def
      attempt_command_def choose_target_def take_connection_def get_redis_connection_def handle_error_def ask ask_reply_def
      run_callback_def none release_exec_def get_node_def node_name_def cluster.defs exec.defs result demo_eval)
qed

theorem cluster_command_no_leak_witness:
  "\<exists>s'. cluster_execute_command demo_cluster_class ERRORS_ALLOW_RETRY ''GET'' [PStr ''k''] no_opts (Some (Node 0))
     (demo_cluster (\<lambda>n. if n = 0 then [Inl (Exc AskError ''1 h:2'')] else [Inr (PBytes ''OK''), Inr (PBytes ''v'')]))
     = Some (Inr (PBytes ''v''), s') \<and> (\<forall>r < 2. set (in_use (r_pool (redises s' r))) = {})"
proof -
  let ?s = "demo_cluster (\<lambda>n. if n = 0 then [Inl (Exc AskError ''1 h:2'')] else [Inr (PBytes ''OK''), Inr (PBytes ''v'')])"
  obtain s' where s': "cluster_execute_command demo_cluster_class ERRORS_ALLOW_RETRY ''GET'' [PStr ''k''] no_opts (Some (Node 0)) ?s
      = Some (Inr (PBytes ''v''), s')"
    using demo_ask_run by auto
  have "\<forall>r < next_redis ?s. pool_fresh (r_pool (redises ?s r)) \<and> r_connection (redises ?s r) = None"
    using scripted_idle(1) by (simp add: demo_cluster_def redis_idle_def)
  then have "2 \<le> next_redis s' \<and> (\<forall>r < next_redis s'. pool_fresh (r_pool (redises s' r)) \<and> set (in_use (r_pool (redises s' r))) = {})"
    using cluster_command_no_leak [OF _ s'] by (simp add: demo_cluster_def scripted_unused)
  then show ?thesis using s' by auto
qed

end
