(* ===== verification/Cluster_Layout.thy ===== *)
theory Cluster_Layout
  imports Cluster_Spec
begin

text \<open>
  What \<open>NodesManager.initialize\<close> leads to.  \<open>ends\<close> is the triple of a statement; the invariant \<open>reading\<close> says that the layout read so
  far is consistent, and is kept by each step of the reading: nodes are found or made, sections added, startup nodes asked.
\<close>

section \<open>What a statement leads to\<close>

text \<open>When it starts in a state with \<open>P\<close> and returns, then with a value and in a state with \<open>Q\<close>.\<close>

definition ends :: "('s \<Rightarrow> bool) \<Rightarrow> ('s, 'a) io \<Rightarrow> ('a \<Rightarrow> 's \<Rightarrow> bool) \<Rightarrow> bool" where
  "ends P m Q \<longleftrightarrow> (\<forall>s x s'. P s \<longrightarrow> m s = Some (Inr x, s') \<longrightarrow> Q x s')"

lemma endsI: "(\<And>s x s'. P s \<Longrightarrow> m s = Some (Inr x, s') \<Longrightarrow> Q x s') \<Longrightarrow> ends P m Q"
  by (simp add: ends_def)

lemma endsD: "ends P m Q \<Longrightarrow> P s \<Longrightarrow> m s = Some (Inr x, s') \<Longrightarrow> Q x s'"
  by (simp add: ends_def)

lemma ends_weaken: "ends P m Q \<Longrightarrow> (\<And>s. P' s \<Longrightarrow> P s) \<Longrightarrow> (\<And>x s. Q x s \<Longrightarrow> Q' x s) \<Longrightarrow> ends P' m Q'"
  unfolding ends_def by blast

named_theorems ends_intros \<open>rules for what a statement leads to\<close>

lemma ends_bind [ends_intros]: "ends P m R \<Longrightarrow> (\<And>x. ends (R x) (f x) Q) \<Longrightarrow> ends P (io_bind m f) Q"
  unfolding ends_def by (blast elim!: io_bind_SomeE)

lemma ends_seq [ends_intros]: "ends P m (\<lambda>_. R) \<Longrightarrow> ends R n Q \<Longrightarrow> ends P (io_seq m n) Q"
  unfolding io_seq_def by (rule ends_bind)

lemma ends_get [ends_intros]: "(\<And>t. ends (\<lambda>s. s = t \<and> P s) (f t) Q) \<Longrightarrow> ends P (io_get f) Q"
  by (auto simp: ends_def io_get_def)

lemma ends_ret [ends_intros]: "(\<And>s. P s \<Longrightarrow> Q x s) \<Longrightarrow> ends P (io_ret x) Q"
  by (auto simp: ends_def io_defs)

lemma ends_raise [ends_intros]: "ends P (io_raise e) Q"
  by (auto simp: ends_def io_defs)

lemma ends_lift [ends_intros]: "(\<And>x s. r = Inr x \<Longrightarrow> P s \<Longrightarrow> Q x s) \<Longrightarrow> ends P (io_lift r) Q"
  by (auto simp: ends_def io_defs)

lemma ends_upd [ends_intros]: "(\<And>s. P s \<Longrightarrow> Q () (g s)) \<Longrightarrow> ends P (io_upd g) Q"
  by (auto simp: ends_def io_upd_def)

lemma ends_pres: "io_pres R m \<Longrightarrow> (\<And>s s'. P s \<Longrightarrow> R s s' \<Longrightarrow> P s') \<Longrightarrow> ends P m (\<lambda>_. P)"
  unfolding ends_def io_pres_def by blast

section \<open>Reading the layout\<close>

text \<open>What the clients' calls leave alone.\<close>

definition heap_same :: "('c, 'g, 'z) cluster_scheme \<Rightarrow> ('c, 'g, 'z) cluster_scheme \<Rightarrow> bool" where
  "heap_same s s' \<longleftrightarrow> next_node s' = next_node s \<and> node_name s' = node_name s \<and> (\<forall>n. server_type (nodes s' n) = server_type (nodes s n)) \<and>
     node_lists s' = node_lists s \<and>
     next_list s' = next_list s \<and> nodes_cache s' = nodes_cache s \<and> primary_to_idx s' = primary_to_idx s"

lemma heap_same_rel: "reflp heap_same" "transp heap_same"
  by (auto simp: reflp_def transp_def heap_same_def)

lemma heap_same_frame:
  "nodes s' = nodes s \<Longrightarrow> next_node s' = next_node s \<Longrightarrow> node_lists s' = node_lists s \<Longrightarrow> next_list s' = next_list s \<Longrightarrow>
   nodes_cache s' = nodes_cache s \<Longrightarrow> primary_to_idx s' = primary_to_idx s \<Longrightarrow> heap_same s s'"
  by (simp add: heap_same_def node_name_def fun_eq_iff)

lemma with_redis_heap: "io_pres heap_same (with_redis X r f)"
  unfolding io_pres_def by (auto elim!: with_redis_SomeE intro!: heap_same_frame)

lemma set_connection_heap: "io_pres heap_same (set_connection n r)"
  unfolding set_connection_def by (rule io_pres_upd) (simp add: heap_same_def upd_node_def node_name_def fun_eq_iff)

lemma create_redis_node_heap: "io_pres heap_same (create_redis_node X host port)"
  unfolding create_redis_node_def
  by (rule io_pres_get io_pres_bind io_pres_seq io_pres_lift io_pres_ret io_pres_upd heap_same_rel | rule heap_same_frame; simp)+

lemma ask_cluster_slots_heap: "io_pres heap_same (ask_cluster_slots X n)"
  unfolding ask_cluster_slots_def startup_connection_def
  by (auto intro!: io_pres_get io_pres_bind io_pres_seq io_pres_try io_pres_raise io_pres_ret heap_same_rel
      with_redis_heap create_redis_node_heap set_connection_heap split: option.split)

definition layout_names :: "layout \<Rightarrow> string set" where
  "layout_names t = fst ` set (tmp_nodes_cache t)"

definition nodes_ok :: "layout \<Rightarrow> nat list \<Rightarrow> ('c, 'g, 'z) cluster_scheme \<Rightarrow> bool" where
  "nodes_ok t ns s \<longleftrightarrow> (\<forall>n \<in> set ns. n < next_node s \<and> node_name s n \<in> layout_names t)"

definition layout_ok :: "layout \<Rightarrow> ('c, 'g, 'z) cluster_scheme \<Rightarrow> bool" where
  "layout_ok t s \<longleftrightarrow>
     (\<forall>(k, n) \<in> set (tmp_nodes_cache t). node_name s n = k \<and> n < next_node s) \<and> distinct (map fst (tmp_nodes_cache t)) \<and>
     (\<forall>(i, l) \<in> set (tmp_slots t). l < next_list s \<and> node_lists s l \<noteq> [] \<and> nodes_ok t (node_lists s l) s) \<and>
     (\<forall>(k, n) \<in> set (nodes_cache s). n < next_node s) \<and> primary_to_idx s = []"

definition reading :: "layout \<Rightarrow> nat list \<Rightarrow> ('c, 'g, 'z) cluster_scheme \<Rightarrow> bool" where
  "reading t ns s \<longleftrightarrow> layout_ok t s \<and> nodes_ok t ns s \<and> \<not> fully_covered t"

lemma reading_heap_same: "reading t ns s \<Longrightarrow> heap_same s s' \<Longrightarrow> reading t ns s'"
  by (simp add: reading_def layout_ok_def nodes_ok_def heap_same_def)

lemma reading_tmp:
  "reading t ns s \<Longrightarrow> map_of (tmp_nodes_cache t) k = Some n \<Longrightarrow> n < next_node s \<and> node_name s n \<in> layout_names t"
  unfolding reading_def layout_ok_def layout_names_def by (force dest!: map_of_SomeD)

lemma reading_cons: "reading t (n # ns) s \<longleftrightarrow> reading t ns s \<and> n < next_node s \<and> node_name s n \<in> layout_names t"
  by (auto simp: reading_def nodes_ok_def)

text \<open>A node put into the layout under its name.\<close>

lemma reading_add:
  assumes "reading t ns s" "n < next_node s" "t' = t\<lparr>tmp_nodes_cache := AList.update (node_name s n) n (tmp_nodes_cache t)\<rparr>"
  shows "reading t' (n # ns) s"
proof -
  have names: "layout_names t' = insert (node_name s n) (layout_names t)"
    unfolding layout_names_def assms(3) by (auto simp: dom_update [symmetric] dom_map_of_conv_image_fst [symmetric] update_conv')
  have mem: "(k, m) \<in> set (AList.update (node_name s n) n d) \<Longrightarrow> (k, m) = (node_name s n, n) \<or> (k, m) \<in> set d" for k m d
    by (induction d) (auto split: if_splits)
  have old: "nodes_ok t xs s \<Longrightarrow> nodes_ok t' xs s" for xs by (auto simp: nodes_ok_def names)
  have "layout_ok t' s" using assms old mem unfolding layout_ok_def reading_def
    by (fastforce simp: distinct_update assms(3))
  then show ?thesis using assms(1,2) old names by (auto simp: reading_def nodes_ok_def assms(3))
qed

lemma new_node_reading: "ends (reading t ns) (new_node X host port rl) (\<lambda>n s. reading t ns s \<and> n < next_node s)"
proof (rule endsI)
  fix s n s'
  assume r: "reading t ns s" and run: "new_node X host port rl s = Some (Inr n, s')"
  let ?c = "\<lparr>cn_host = resolve X host, cn_port = port, server_type = rl, redis_connection = None\<rparr>"
  have s': "s' = s\<lparr>nodes := (nodes s)(next_node s := ?c), next_node := Suc (next_node s)\<rparr>" "n = next_node s"
    using run by (auto simp: new_node_def)
  have nm: "m < next_node s \<Longrightarrow> node_name s' m = node_name s m" for m by (simp add: s' node_name_def)
  have ok: "nodes_ok t xs s \<Longrightarrow> nodes_ok t xs s'" for xs using nm by (auto simp: nodes_ok_def s'(1))
  have "layout_ok t s'" using r ok nm unfolding reading_def layout_ok_def by (fastforce simp: s'(1))
  then show "reading t ns s' \<and> n < next_node s'" using r ok by (simp add: reading_def s')
qed

lemma get_or_create_reading:
  fixes X :: "('c, 'g) cluster_class" and ns :: "nat list"
  shows "ends (reading t ns :: ('c, 'g, 'z) cluster_scheme \<Rightarrow> bool) (get_or_create_cluster_node X host port rl t) (\<lambda>(n, t') s. reading t' (n # ns) s)"
proof (cases "map_of (tmp_nodes_cache t) (get_node_name host port)")
  case (Some n)
  have "ends (reading t ns :: ('c, 'g, 'z) cluster_scheme \<Rightarrow> bool) (io_ret (n, t)) (\<lambda>(n, t') s. reading t' (n # ns) s)"
    by (rule ends_ret) (use reading_tmp [OF _ Some] in \<open>simp add: reading_cons\<close>)
  then show ?thesis by (simp add: get_or_create_cluster_node_def Let_def Some)
next
  case None
  let ?name = "get_node_name host port"
  have pick: "ends (reading t ns :: ('c, 'g, 'z) cluster_scheme \<Rightarrow> bool)
      (io_get (\<lambda>s. case map_of (nodes_cache s) ?name of
               None \<Rightarrow> new_node X host port (Some rl)
             | Some n \<Rightarrow> if redis_connection (nodes s n) = None then new_node X host port (Some rl) else io_ret n))
      (\<lambda>n s. reading t ns s \<and> n < next_node s)"
  proof (rule ends_get)
    fix u :: "('c, 'g, 'z) cluster_scheme"
    have "ends (\<lambda>s. s = u \<and> reading t ns s) (io_ret n) (\<lambda>n s. reading t ns s \<and> n < next_node s)"
      if "map_of (nodes_cache u) ?name = Some n" for n
      using that by (intro ends_ret) (auto simp: reading_def layout_ok_def dest!: map_of_SomeD)
    moreover have "ends (\<lambda>s. s = u \<and> reading t ns s) (new_node X host port (Some rl)) (\<lambda>n s. reading t ns s \<and> n < next_node s)"
      by (rule ends_weaken [OF new_node_reading]) auto
    ultimately show "ends (\<lambda>s. s = u \<and> reading t ns s) (case map_of (nodes_cache u) ?name of
               None \<Rightarrow> new_node X host port (Some rl)
             | Some n \<Rightarrow> if redis_connection (nodes u n) = None then new_node X host port (Some rl) else io_ret n)
        (\<lambda>n s. reading t ns s \<and> n < next_node s)"
      by (simp split: option.split)
  qed
  have typed: "ends (\<lambda>s. reading t ns s \<and> n < next_node s) (io_upd (upd_node n (server_type_update (\<lambda>_. Some rl))))
      (\<lambda>_ s. reading t ns s \<and> n < next_node s)" for n
    by (rule ends_upd) (simp add: reading_def layout_ok_def nodes_ok_def)
  show ?thesis unfolding get_or_create_cluster_node_def Let_def None option.case
    by (rule ends_bind [OF pick], rule ends_seq [OF typed], rule ends_get, rule ends_ret) (auto intro: reading_add)
qed

lemma reading_set: "reading t ns s \<Longrightarrow> set ms \<subseteq> set ns \<Longrightarrow> reading t ms s"
  by (auto simp: reading_def nodes_ok_def)

lemma add_replicas_reading:
  fixes X :: "('c, 'g) cluster_class" and ns :: "nat list"
  shows "ends (reading t ns :: ('c, 'g, 'z) cluster_scheme \<Rightarrow> bool) (add_replicas X vs t) (\<lambda>(ms, t') s. reading t' (ms @ ns) s)"
proof (induction vs arbitrary: t ns)
  case Nil
  show ?case by (simp add: ends_ret)
next
  case (Cons v vs)
  have rest: "ends (reading t1 (n # ns) :: ('c, 'g, 'z) cluster_scheme \<Rightarrow> bool) (io_bind (add_replicas X vs t1) (\<lambda>(ms, t2). io_ret (n # ms, t2)))
      (\<lambda>(ms, t') s. reading t' (ms @ ns) s)" for n t1
    by (rule ends_bind [OF Cons.IH]) (auto intro!: ends_ret elim: reading_set)
  show ?case unfolding add_replicas.simps
    by (rule ends_bind [where R = "\<lambda>_. reading t ns"], rule ends_lift, assumption)+
      (rule ends_bind [OF get_or_create_reading], auto intro: rest)
qed

lemma new_list_reading:
  "ends (reading t ns) (new_list ms) (\<lambda>l s. reading t ns s \<and> l < next_list s \<and> node_lists s l = ms)"
  by (rule endsI) (fastforce simp: new_list_def reading_def layout_ok_def nodes_ok_def node_name_def)

lemma assign_slots_reading:
  assumes "reading t ns s" "l < next_list s" "node_lists s l \<noteq> []" "set (node_lists s l) \<subseteq> set ns"
  shows "assign_slots s l n is t = Inr t' \<Longrightarrow> reading t' ns s"
  using assms(1)
proof (induction "is" arbitrary: t)
  case (Cons i "is")
  have new: "reading (t\<lparr>tmp_slots := tmp_slots t @ [(i, l)]\<rparr>) ns s"
    using Cons.prems(2) assms(2-4) by (auto simp: reading_def layout_ok_def nodes_ok_def layout_names_def)
  have other: "reading (t\<lparr>disagreements := ds\<rparr>) ns s" for ds
    using Cons.prems(2) by (simp add: reading_def layout_ok_def nodes_ok_def layout_names_def)
  show ?case
  proof (cases "map_of (tmp_slots t) i")
    case None
    then show ?thesis using Cons.prems(1) Cons.IH [OF _ new] by simp
  next
    case (Some k)
    show ?thesis
    proof (cases "node_name s (hd (node_lists s k)) = node_name s n")
      case True
      then show ?thesis using Some Cons.prems Cons.IH by simp
    next
      case False
      then show ?thesis using Some Cons.prems(1) Cons.IH [OF _ other] by (simp add: Let_def split: if_splits)
    qed
  qed
qed simp

text \<open>A value that is computed without the state.\<close>

lemma ends_given: "(\<And>x. ends P (f x) Q) \<Longrightarrow> ends P (io_bind (io_lift r) f) Q"
  by (rule ends_bind [where R = "\<lambda>_. P"], rule ends_lift)

lemma section_slots_reading:
  "ends (\<lambda>s. reading t (n # ms) s \<and> l < next_list s \<and> node_lists s l = n # ms)
     (io_get (\<lambda>s. io_lift (assign_slots s l n is t))) (\<lambda>t'. reading t' [])"
proof (rule endsI)
  fix s t' s'
  assume r: "reading t (n # ms) s \<and> l < next_list s \<and> node_lists s l = n # ms"
    and run: "io_get (\<lambda>s. io_lift (assign_slots s l n is t)) s = Some (Inr t', s')"
  have "assign_slots s l n is t = Inr t'" "s' = s" using run by (auto simp: io_get_def io_lift_def)
  then have "reading t' (n # ms) s" using r assign_slots_reading [of t "n # ms" s l n "is" t'] by simp
  then show "reading t' [] s'" unfolding \<open>s' = s\<close> by (rule reading_set) simp
qed

lemma section_list_reading:
  "ends (reading t (n # ms))
     (io_bind (new_list (n # ms)) (\<lambda>l. io_bind (io_lift ra) (\<lambda>a. io_bind (io_lift rb) (\<lambda>b.
        io_get (\<lambda>s. io_lift (assign_slots s l n [a..b] t))))))
     (\<lambda>t'. reading t' [])"
  by (rule ends_bind [OF new_list_reading], rule ends_given, rule ends_given, rule section_slots_reading)

lemma section_nodes_reading:
  fixes X :: "('c, 'g) cluster_class"
  shows "ends (reading t [n] :: ('c, 'g, 'z) cluster_scheme \<Rightarrow> bool)
     (io_bind (add_replicas X vs t) (\<lambda>(ms, t). io_bind (new_list (n # ms)) (\<lambda>l.
        io_bind (io_lift ra) (\<lambda>a. io_bind (io_lift rb) (\<lambda>b. io_get (\<lambda>s. io_lift (assign_slots s l n [a..b] t)))))))
     (\<lambda>t'. reading t' [])"
proof (rule ends_bind [OF add_replicas_reading])
  fix r :: "nat list \<times> layout"
  obtain ms t1 where r: "r = (ms, t1)" by fastforce
  have "reading t1 (ms @ [n]) s \<Longrightarrow> reading t1 (n # ms) s" for s :: "('c, 'g, 'z) cluster_scheme" by (erule reading_set) simp
  then show "ends (case r of (ms, t') \<Rightarrow> \<lambda>s :: ('c, 'g, 'z) cluster_scheme. reading t' (ms @ [n]) s)
      (case r of (ms, t) \<Rightarrow> io_bind (new_list (n # ms)) (\<lambda>l.
        io_bind (io_lift ra) (\<lambda>a. io_bind (io_lift rb) (\<lambda>b. io_get (\<lambda>s. io_lift (assign_slots s l n [a..b] t))))))
      (\<lambda>t'. reading t' [])"
    unfolding r split_conv by (rule ends_weaken [OF section_list_reading])
qed

lemma add_section_reading: "ends (reading t []) (add_section X sn slot t) (\<lambda>t'. reading t' [])"
  unfolding add_section_def Let_def
  by (rule ends_given, rule ends_given, rule ends_get, rule ends_given,
      rule ends_bind [OF ends_weaken [OF get_or_create_reading]], blast, assumption)
    (auto intro!: ends_given section_nodes_reading)

lemma add_sections_reading: "ends (reading t []) (add_sections X sn slots t) (\<lambda>t'. reading t' [])"
proof (induction slots arbitrary: t)
  case (Cons slot rest)
  show ?case unfolding add_sections.simps by (rule ends_bind [OF add_section_reading Cons.IH])
qed (simp add: ends_ret)


section \<open>Asking the startup nodes\<close>

lemma io_catch_pres: "io_pres R m \<Longrightarrow> io_pres R (io_catch m)"
  by (auto simp: io_pres_def io_catch_def split: option.splits)

definition discovered :: "layout \<Rightarrow> ('c, 'g, 'z) cluster_scheme \<Rightarrow> bool" where
  "discovered t s \<longleftrightarrow> layout_ok t s \<and> (fully_covered t \<longrightarrow> check_slots_coverage (tmp_slots t))"

lemma reading_flags:
  "reading (t\<lparr>last_exception := e\<rparr>) ns s = reading t ns s" "reading (t\<lparr>startup_nodes_reachable := b\<rparr>) ns s = reading t ns s"
  by (simp_all add: reading_def layout_ok_def nodes_ok_def layout_names_def)

lemma layout_ok_covered: "layout_ok (t\<lparr>fully_covered := b\<rparr>) s = layout_ok t s"
  by (simp add: layout_ok_def nodes_ok_def layout_names_def)

lemma discover_ends:
  fixes X :: "('c, 'g) cluster_class"
  shows "ends (reading t [] :: ('c, 'g, 'z) cluster_scheme \<Rightarrow> bool) (discover X ns t) discovered"
proof (induction ns arbitrary: t)
  case Nil
  show ?case unfolding discover.simps by (rule ends_ret) (simp add: reading_def discovered_def)
next
  case (Cons n ns)
  have ask: "ends (reading t [] :: ('c, 'g, 'z) cluster_scheme \<Rightarrow> bool) (io_catch (ask_cluster_slots X n)) (\<lambda>_. reading t [])"
    by (rule ends_pres [OF io_catch_pres [OF ask_cluster_slots_heap]]) (rule reading_heap_same)
  have fix_host: "ends (reading t [] :: ('c, 'g, 'z) cluster_scheme \<Rightarrow> bool) (io_get (\<lambda>s. io_lift (f s))) (\<lambda>_. reading t [])" for f
    by (rule ends_get, rule ends_lift) blast
  have sections: "ends (reading t [] :: ('c, 'g, 'z) cluster_scheme \<Rightarrow> bool)
      (add_sections X n slots (t\<lparr>startup_nodes_reachable := True\<rparr>)) (\<lambda>t'. reading t' [])" for slots
    by (rule ends_weaken [OF add_sections_reading]) (simp_all add: reading_flags)
  have rest: "ends (reading t' [] :: ('c, 'g, 'z) cluster_scheme \<Rightarrow> bool)
      (let t = t'\<lparr>fully_covered := check_slots_coverage (tmp_slots t')\<rparr> in if fully_covered t then io_ret t else discover X ns t)
      discovered" for t'
  proof (cases "check_slots_coverage (tmp_slots t')")
    case True
    then show ?thesis by (auto intro!: ends_ret simp: discovered_def layout_ok_covered reading_def)
  next
    case False
    have "t' = t'\<lparr>fully_covered := False\<rparr>" if "reading t' [] s" for s :: "('c, 'g, 'z) cluster_scheme"
      using that by (simp add: reading_def)
    with False show ?thesis by (simp, intro ends_weaken [OF Cons.IH]) auto
  qed
  show ?case unfolding discover.simps
  proof (rule ends_bind [OF ask])
    fix r
    show "ends (reading t [] :: ('c, 'g, 'z) cluster_scheme \<Rightarrow> bool) (case r of
        Inl e \<Rightarrow> if is_exc e PyException then discover X ns (t\<lparr>last_exception := Some e\<rparr>) else io_raise e
      | Inr reply \<Rightarrow>
          io_bind (io_get (\<lambda>s. io_lift (fix_single_host (length (startup_nodes s)) (cn_host (nodes s n)) reply))) (\<lambda>cluster_slots.
          io_bind (io_lift (iterate cluster_slots)) (\<lambda>slots.
          io_bind (add_sections X n slots (t\<lparr>startup_nodes_reachable := True\<rparr>)) (\<lambda>t.
            let t = t\<lparr>fully_covered := check_slots_coverage (tmp_slots t)\<rparr> in
            if fully_covered t then io_ret t else discover X ns t)))) discovered"
    proof (cases r)
      case (Inl e)
      have "ends (reading t [] :: ('c, 'g, 'z) cluster_scheme \<Rightarrow> bool) (discover X ns (t\<lparr>last_exception := Some e\<rparr>)) discovered"
        by (rule ends_weaken [OF Cons.IH]) (simp_all add: reading_flags)
      then show ?thesis by (simp add: Inl ends_raise)
    next
      case (Inr reply)
      show ?thesis unfolding Inr sum.case
        by (rule ends_bind [OF fix_host], rule ends_given, rule ends_bind [OF sections rest])
    qed
  qed
qed

section \<open>Connections for every node\<close>

definition keeps_links :: "('c, 'g, 'z) cluster_scheme \<Rightarrow> ('c, 'g, 'z) cluster_scheme \<Rightarrow> bool" where
  "keeps_links s s' \<longleftrightarrow> heap_same s s' \<and>
     (\<forall>n. redis_connection (nodes s n) \<noteq> None \<longrightarrow> redis_connection (nodes s' n) \<noteq> None)"

lemma keeps_links_rel: "reflp keeps_links" "transp keeps_links"
  using heap_same_rel by (auto simp: reflp_def transp_def keeps_links_def)

lemma create_redis_node_links: "io_pres keeps_links (create_redis_node X host port)"
  unfolding create_redis_node_def
  by (rule io_pres_get io_pres_bind io_pres_seq io_pres_lift io_pres_ret io_pres_upd keeps_links_rel
      | simp add: keeps_links_def heap_same_def node_name_def fun_eq_iff)+

lemma set_connection_links: "io_pres keeps_links (set_connection n (Some r))"
  unfolding set_connection_def by (rule io_pres_upd) (simp add: keeps_links_def heap_same_def)

lemma create_redis_connections_links: "io_pres keeps_links (create_redis_connections X ns)"
  by (induction ns) (auto intro!: io_pres_seq io_pres_get io_pres_bind io_pres_ret keeps_links_rel
      create_redis_node_links set_connection_links)

lemma create_redis_connections_all:
  "create_redis_connections X ns s = Some (Inr (), s') \<Longrightarrow> n \<in> set ns \<Longrightarrow> redis_connection (nodes s' n) \<noteq> None"
proof (induction ns arbitrary: s)
  case (Cons m ns)
  obtain s1 where first: "io_get (\<lambda>s. if redis_connection (nodes s m) = None
        then io_bind (create_redis_node X (cn_host (nodes s m)) (cn_port (nodes s m))) (\<lambda>r. set_connection m (Some r))
        else io_ret ()) s = Some (Inr (), s1)"
    and rest: "create_redis_connections X ns s1 = Some (Inr (), s')"
    using Cons.prems(1) by (auto simp: io_seq_def elim!: io_bind_SomeE)
  have "redis_connection (nodes s1 m) \<noteq> None"
    using first by (auto simp: io_get_def io_ret_def set_connection_def io_upd_def elim!: io_bind_SomeE split: if_splits)
  then show ?case using Cons.IH [OF rest] Cons.prems(2) kept [OF create_redis_connections_links rest]
    by (auto simp: keeps_links_def)
qed simp

section \<open>The layout a client ends up with\<close>

lemma slots_from_covers: "slots_from k i cache \<Longrightarrow> i \<le> j \<Longrightarrow> j < i + int k \<Longrightarrow> map_of cache j \<noteq> None"
proof (induction k i cache rule: slots_from.induct)
  case (1 k i cache)
  have k: "k \<noteq> 0" using "1.prems"(2,3) by auto
  have i: "map_of cache i \<noteq> None" and rest: "slots_from (k - 1) (i + 1) cache"
    using "1.prems"(1) k by (auto simp: slots_from.simps [of k] split: if_splits)
  show ?case
  proof (cases "j = i")
    case False
    then show ?thesis using "1.IH" [OF k i rest] "1.prems"(2,3) k by simp
  qed (use i in simp)
qed

definition layout_consistent :: "('c, 'g, 'z) cluster_scheme \<Rightarrow> bool" where
  "layout_consistent s \<longleftrightarrow>
     distinct (map fst (nodes_cache s)) \<and>
     (\<forall>(k, n) \<in> set (nodes_cache s). node_name s n = k \<and> n < next_node s \<and> redis_connection (nodes s n) \<noteq> None) \<and>
     (\<forall>(i, l) \<in> set (slots_cache s). node_lists s l \<noteq> [] \<and>
        (\<forall>n \<in> set (node_lists s l). node_name s n \<in> fst ` set (nodes_cache s))) \<and>
     (case default_node s of None \<Rightarrow> False | Some d \<Rightarrow> d \<in> set (get_nodes_by_server_type s PRIMARY)) \<and>
     moved_exception s = None \<and> primary_to_idx s = []"

lemma nth_item_mem: "nth_item xs i = Inr x \<Longrightarrow> x \<in> set xs"
  by (auto simp: nth_item_def Let_def split: if_splits)

lemma install_layout_consistent:
  assumes "layout_ok t s" "\<forall>n \<in> snd ` set (tmp_nodes_cache t). redis_connection (nodes s n) \<noteq> None"
    and run: "install_layout X t s = Some (Inr (), s')"
  shows "layout_consistent s' \<and> slots_cache s' = tmp_slots t"
proof -
  let ?s = "s\<lparr>own_startup_nodes := Some (startup_nodes s), nodes_cache := tmp_nodes_cache t, slots_cache := tmp_slots t\<rparr>"
  obtain n where n: "nth_item (get_nodes_by_server_type ?s PRIMARY) 0 = Inr n"
    and s': "s' = ?s\<lparr>default_node := Some n, own_startup_nodes := (if x_dynamic_startup_nodes X then None else own_startup_nodes ?s),
            moved_exception := None\<rparr>"
    using run by (auto simp: install_layout_def io_seq_def io_bind_def io_upd_def io_get_def io_lift_def split: sum.splits)
  have same: "nodes s' = nodes s" "next_node s' = next_node s" "node_lists s' = node_lists s" "nodes_cache s' = tmp_nodes_cache t"
    "slots_cache s' = tmp_slots t" "default_node s' = Some n" "moved_exception s' = None" "primary_to_idx s' = primary_to_idx s"
    by (simp_all add: s')
  have "n \<in> set (get_nodes_by_server_type s' PRIMARY)"
  proof -
    have "get_nodes_by_server_type s' PRIMARY = get_nodes_by_server_type ?s PRIMARY" by (simp add: get_nodes_by_server_type_def same)
    then show ?thesis using nth_item_mem [OF n] by simp
  qed
  moreover have "node_name s' = node_name s" by (simp add: same(1) node_name_def fun_eq_iff)
  moreover have "\<forall>(k, n) \<in> set (tmp_nodes_cache t). node_name s n = k \<and> n < next_node s \<and> redis_connection (nodes s n) \<noteq> None"
    using assms(1,2) by (auto simp: layout_ok_def)
  moreover have "\<forall>(i, l) \<in> set (tmp_slots t). node_lists s l \<noteq> [] \<and>
        (\<forall>n \<in> set (node_lists s l). node_name s n \<in> fst ` set (tmp_nodes_cache t))"
    using assms(1) by (auto simp: layout_ok_def nodes_ok_def layout_names_def)
  ultimately show ?thesis using assms(1) by (simp add: layout_consistent_def same layout_ok_def)
qed

text \<open>
  C12: \<open>initialize\<close> ends in an error or with a consistent layout.  Every node of the cache is there once, under its own name, and
  has a client; every slot of the cache has a list that is not empty and names only nodes of the cache; the default node is a
  primary of the cache; the round robin starts again and no MOVED error is pending; and all 16384 slots are covered when the
  client requires it.
\<close>

theorem initialize_layout:
  assumes "initialize X s = Some (Inr (), s')" "\<forall>(k, n) \<in> set (nodes_cache s). n < next_node s"
  shows "layout_consistent s' \<and>
    (x_require_full_coverage X \<longrightarrow> (\<forall>i. 0 \<le> i \<and> i < int REDIS_CLUSTER_HASH_SLOTS \<longrightarrow> map_of (slots_cache s') i \<noteq> None))"
proof -
  let ?s = "s\<lparr>primary_to_idx := []\<rparr>"
  obtain t s1 where d: "discover X (map snd (startup_nodes ?s)) empty_layout ?s = Some (Inr t, s1)"
    and rest: "(if \<not> startup_nodes_reachable t then io_raise (unreachable (last_exception t))
           else
             io_seq (io_upd (\<lambda>s. s\<lparr>cache_made := cache_made s \<or> x_cache_config X\<rparr>))
               (io_seq (create_redis_connections X (map snd (tmp_nodes_cache t)))
                 (if \<not> fully_covered t \<and> x_require_full_coverage X then io_raise (uncovered (length (tmp_slots t)))
                  else install_layout X t))) s1 = Some (Inr (), s')"
    using assms(1) unfolding initialize_def
    by (auto simp: io_seq_def io_get_def io_upd_def io_bind_def split: option.splits sum.splits)
  have "reading empty_layout [] ?s"
    using assms(2) by (simp add: reading_def layout_ok_def nodes_ok_def empty_layout_def)
  then have t: "layout_ok t s1" "fully_covered t \<Longrightarrow> check_slots_coverage (tmp_slots t)"
    using endsD [OF discover_ends _ d] by (auto simp: discovered_def)
  let ?s1 = "s1\<lparr>cache_made := cache_made s1 \<or> x_cache_config X\<rparr>"
  obtain s2 where c: "create_redis_connections X (map snd (tmp_nodes_cache t)) ?s1 = Some (Inr (), s2)"
    and i: "install_layout X t s2 = Some (Inr (), s')" and cov: "x_require_full_coverage X \<Longrightarrow> fully_covered t"
    using rest by (auto simp: io_seq_def io_upd_def io_bind_def io_raise_def split: if_splits option.splits sum.splits)
  have "heap_same s1 s2" using kept [OF create_redis_connections_links c] heap_same_frame [of ?s1 s1]
    by (simp add: keeps_links_def heap_same_def node_name_def fun_eq_iff)
  then have "layout_ok t s2" using t(1) by (simp add: layout_ok_def nodes_ok_def heap_same_def)
  then have "layout_consistent s'" "slots_cache s' = tmp_slots t"
    using install_layout_consistent [OF _ _ i] create_redis_connections_all [OF c] by auto
  then show ?thesis using t(2) cov slots_from_covers [of REDIS_CLUSTER_HASH_SLOTS 0 "tmp_slots t"]
    by (auto simp: check_slots_coverage_def)
qed

text \<open>A startup node tells that \<open>h:2\<close> is now the primary.\<close>

definition demo_slots :: pyval where
  "demo_slots = PList [PList [PInt 0, PInt 1, PList [PBytes ''h'', PInt 2], PList [PBytes ''h'', PInt 1]]]"

lemma demo_slots_reads:
  "fix_single_host (Suc 0) ''h'' demo_slots = Inr demo_slots" "str_if_bytes demo_slots = demo_slots"
  "iterate demo_slots = Inr [PList [PInt 0, PInt 1, PList [PBytes ''h'', PInt 2], PList [PBytes ''h'', PInt 1]]]"
  "safe_str (PBytes ''h'') = ''h''"
  unfolding demo_slots_def safe_str_def by code_simp+

lemma demo_uncovered: "\<not> check_slots_coverage [(0, l), (1, k)]" and demo_range: "[0..1] = [0, 1::int]"
  by (simp_all add: check_slots_coverage_def slots_from.simps REDIS_CLUSTER_HASH_SLOTS_def upto_rec1)

lemma demo_initialize:
  "\<exists>s'. initialize demo_cluster_class (demo_cluster (\<lambda>_. [Inr demo_slots])) = Some (Inr (), s')"
  by (simp add: initialize_def startup_nodes_def ask_cluster_slots_def startup_connection_def demo_slots_reads demo_uncovered demo_range
    nth_item_def add_section_def entry_host_def entry_port_def get_or_create_cluster_node_def new_list_def getitem_def
    remap_host_port_def res_map_def res_bind_def to_int_def node_name_def empty_layout_def install_layout_def
    get_nodes_by_server_type_def upd_node_def demo_eval)

theorem initialize_layout_witness:
  "\<exists>s'. initialize demo_cluster_class (demo_cluster (\<lambda>_. [Inr demo_slots])) = Some (Inr (), s') \<and> layout_consistent s'"
proof -
  let ?s = "demo_cluster (\<lambda>_. [Inr demo_slots])"
  obtain s' where s': "initialize demo_cluster_class ?s = Some (Inr (), s')" using demo_initialize by blast
  have "\<forall>(k, n) \<in> set (nodes_cache ?s). n < next_node ?s" by (simp add: demo_cluster_def)
  from initialize_layout [OF s' this] s' show ?thesis by blast
qed

end
