(* ===== verification/Cluster_Routing.thy ===== *)
theory Cluster_Routing
  imports Cluster_Spec "HOL-Library.Multiset"
begin

text \<open>
  Where commands of a slot go: what a MOVED error does to the slot (\<open>moved_list\<close>, \<open>moved_to\<close>), and how reads are spread
  over the nodes of a slot by the load balancer (\<open>cycle\<close> is the sequence of its indices).
\<close>

section \<open>MOVED\<close>

text \<open>The nodes of a slot.\<close>

definition slot_nodes :: "('c, 'g, 'z) cluster_scheme \<Rightarrow> int \<Rightarrow> nat list" where
  "slot_nodes s i = (case map_of (slots_cache s) i of None \<Rightarrow> [] | Some l \<Rightarrow> node_lists s l)"

text \<open>The caches name allocated nodes by their names, and the nodes of slot \<open>i\<close> are those of the cache.\<close>

definition known_nodes :: "('c, 'g, 'z) cluster_scheme \<Rightarrow> int \<Rightarrow> bool" where
  "known_nodes s i \<longleftrightarrow> (\<forall>(k, n) \<in> set (nodes_cache s). node_name s n = k \<and> n < next_node s) \<and>
     distinct (slot_nodes s i) \<and> (\<forall>n \<in> set (slot_nodes s i). map_of (nodes_cache s) (node_name s n) = Some n)"

lemma known_nodes_eq:
  assumes "known_nodes s i" "m \<in> set (slot_nodes s i)" "map_of (nodes_cache s) k = Some n" "node_name s m = k"
  shows "m = n"
proof -
  have "map_of (nodes_cache s) k = Some m" using assms(1,2,4) unfolding known_nodes_def by fastforce
  then show ?thesis using assms(3) by simp
qed

lemma remove_first_eq: "(\<And>x. x \<in> set xs \<Longrightarrow> P x \<longleftrightarrow> x = n) \<Longrightarrow> remove_first P xs = remove1 n xs"
  by (induction xs) auto

text \<open>The list of a slot after MOVED to \<open>n\<close>.\<close>

definition moved_list :: "nat \<Rightarrow> nat list \<Rightarrow> nat list" where
  "moved_list n ns =
     (if n \<notin> set ns then [n]
      else if n = hd ns then n # (if tl ns = [] then [] else tl (tl ns) @ [n])
      else n # remove1 n (tl ns) @ [hd ns])"

lemma failover_list:
  assumes "distinct ns" "n \<in> set ns"
  shows "(remove1 n (ns @ [hd ns]))[0 := n] = moved_list n ns"
proof -
  obtain p rs where ns: "ns = p # rs" using assms(2) by (cases ns) auto
  show ?thesis
  proof (cases "n = p")
    case True
    then show ?thesis using assms(1) by (cases rs) (simp_all add: ns moved_list_def)
  next
    case False
    then show ?thesis using assms(2) by (auto simp: ns moved_list_def remove1_append)
  qed
qed

lemma node_eq_name: "node_eq s n = (\<lambda>m. node_name s n = node_name s m)"
  by (simp add: fun_eq_iff node_eq_def)

definition moved_type :: "nat \<Rightarrow> nat list \<Rightarrow> role" where
  "moved_type n ns = (if ns \<noteq> [] \<and> n = hd ns then REPLICA else PRIMARY)"

text \<open>The node that MOVED names.\<close>

lemma redirected_node_cases:
  assumes "redirected_node X host port s = Some (q, s')" "host \<noteq> []" "port \<noteq> 0" "known_nodes s i"
    "name = get_node_name (resolve X host) port"
  obtains (known) n where "q = Inr n" "map_of (nodes_cache s) name = Some n"
      "s' = upd_node n (server_type_update (\<lambda>_. Some PRIMARY)) s" "node_name s n = name"
  | (made) n where "q = Inr n" "map_of (nodes_cache s) name = None" "n = next_node s"
      "s' = s\<lparr>nodes := (nodes s)(n := \<lparr>cn_host = resolve X host, cn_port = port, server_type = Some PRIMARY, redis_connection = None\<rparr>),
              next_node := Suc n, nodes_cache := AList.update name n (nodes_cache s)\<rparr>"
proof (cases "map_of (nodes_cache s) name")
  case None
  then show thesis using made assms
    by (simp add: redirected_node_def io_get_def get_node_def new_node_def io_bind_def io_seq_def io_upd_def io_ret_def node_name_def)
next
  case (Some n)
  then have n: "node_name s n = name" using assms(4) map_of_SomeD [OF Some] by (auto simp: known_nodes_def)
  have "q = Inr n" "s' = upd_node n (server_type_update (\<lambda>_. Some PRIMARY)) s"
    using Some assms by (auto simp: redirected_node_def io_get_def get_node_def io_bind_def io_seq_def io_upd_def io_ret_def)
  then show thesis using known Some n by blast
qed

lemma redirected_node_returns: "\<exists>n s'. redirected_node X host port s = Some (Inr n, s')"
  by (simp add: redirected_node_def io_get_def new_node_def io_bind_def io_seq_def io_upd_def io_ret_def split: option.split)

text \<open>How the state is after a MOVED error was taken in: \<open>n\<close> is the node it names, \<open>ns\<close> what the slot had.\<close>

definition moved_to :: "string \<Rightarrow> nat \<Rightarrow> int \<Rightarrow> nat list \<Rightarrow> ('c, 'g, 'z) cluster_scheme \<Rightarrow> bool" where
  "moved_to name n i ns s \<longleftrightarrow> node_name s n = name \<and> map_of (nodes_cache s) name = Some n \<and> moved_exception s = None \<and>
     slot_nodes s i = moved_list n ns \<and> server_type (nodes s n) = Some (moved_type n ns)"

lemma update_moved_slots_moves:
  assumes e: "moved_exception s = Some e" "ask_fields (exc_msg e) = Some (i, host, port)" "host \<noteq> []" "port \<noteq> 0"
    and covered: "map_of (slots_cache s) i = Some l" and known: "known_nodes s i"
  shows "\<exists>n s'. update_moved_slots X s = Some (Inr (), s') \<and> moved_to (get_node_name (resolve X host) port) n i (slot_nodes s i) s'"
proof -
  let ?name = "get_node_name (resolve X host) port" and ?ns = "slot_nodes s i"
  have ns: "?ns = node_lists s l" using covered by (simp add: slot_nodes_def)
  have names: "m < next_node s" "node_name s m \<in> dom (map_of (nodes_cache s))" if "m \<in> set ?ns" for m
  proof -
    have m: "map_of (nodes_cache s) (node_name s m) = Some m" using that known by (simp add: known_nodes_def)
    then show "node_name s m \<in> dom (map_of (nodes_cache s))" by blast
    show "m < next_node s" using map_of_SomeD [OF m] known by (fastforce simp: known_nodes_def)
  qed
  obtain n s1 where r: "redirected_node X host port s = Some (Inr n, s1)" using redirected_node_returns by blast
  have s1: "node_name s1 n = ?name" "map_of (nodes_cache s1) ?name = Some n" "slots_cache s1 = slots_cache s"
      "node_lists s1 = node_lists s" "server_type (nodes s1 n) = Some PRIMARY" "next_list s1 = next_list s"
    and eq: "\<And>m. m \<in> set ?ns \<Longrightarrow> node_eq s1 n m \<longleftrightarrow> m = n"
  proof -
    have "node_name s1 n = ?name \<and> map_of (nodes_cache s1) ?name = Some n \<and> slots_cache s1 = slots_cache s \<and>
      node_lists s1 = node_lists s \<and> server_type (nodes s1 n) = Some PRIMARY \<and> next_list s1 = next_list s \<and>
      (\<forall>m \<in> set ?ns. node_eq s1 n m \<longleftrightarrow> m = n)"
      using r e(3,4) known refl
    proof (cases rule: redirected_node_cases)
      case (known n')
      have "node_eq s1 n m \<longleftrightarrow> m = n" if "m \<in> set ?ns" for m
        using known that known_nodes_eq [OF assms(6) that known(2)] by (auto simp: node_eq_def)
      then show ?thesis using known by (simp add: upd_node_def node_name_def)
    next
      case (made n')
      have other: "node_name s1 m = node_name s m" "m \<noteq> n" if "m \<in> set ?ns" for m
        using names(1) [OF that] made by (simp_all add: node_name_def)
      have "node_name s m \<noteq> ?name" if "m \<in> set ?ns" for m
        using names(2) [OF that] made(2) by (metis domIff)
      moreover have "node_name s1 n = ?name" using made by (simp add: node_name_def)
      ultimately have "\<not> node_eq s1 n m" if "m \<in> set ?ns" for m
        using that other(1) [OF that] by (metis node_eq_def)
      moreover have "node_name s1 n = ?name" using made by (simp add: node_name_def)
      ultimately show ?thesis using made other(2) by (auto simp: update_conv')
    qed
    then show "node_name s1 n = ?name" "map_of (nodes_cache s1) ?name = Some n" "slots_cache s1 = slots_cache s"
      "node_lists s1 = node_lists s" "server_type (nodes s1 n) = Some PRIMARY" "next_list s1 = next_list s"
      "\<And>m. m \<in> set ?ns \<Longrightarrow> node_eq s1 n m \<longleftrightarrow> m = n" by blast+
  qed
  have mem: "list_ex (node_eq s1 n) (node_lists s1 l) \<longleftrightarrow> n \<in> set ?ns"
    using eq s1(4) ns by (auto simp: list_ex_iff)
  show ?thesis
  proof (cases "n \<in> set ?ns")
    case True
    let ?p = "hd ?ns"
    have p: "?p \<in> set ?ns" using True by (cases ?ns) auto
    let ?t = "upd_list l (\<lambda>ns. (remove_first (node_eq s1 n) (ns @ [?p]))[0 := n]) (upd_node ?p (server_type_update (\<lambda>_. Some REPLICA)) s1)"
    have list: "(remove_first (node_eq s1 n) (?ns @ [?p]))[0 := n] = moved_list n ?ns"
    proof -
      have "remove_first (node_eq s1 n) (?ns @ [?p]) = remove1 n (?ns @ [?p])"
        by (rule remove_first_eq) (use eq p in auto)
      moreover have "distinct ?ns" using known by (simp add: known_nodes_def)
      ultimately show ?thesis using failover_list [OF _ True] by simp
    qed
    define s2 where "s2 = failover l n s1"
    have s2: "s2 = (if is_default ?t ?p then ?t\<lparr>default_node := Some n\<rparr> else ?t)"
      unfolding s2_def failover_def Let_def using s1(4) ns by simp
    have f: "node_name s2 = node_name s1" "nodes_cache s2 = nodes_cache s1" "slots_cache s2 = slots_cache s1"
      "node_lists s2 l = moved_list n ?ns" "nodes s2 = (nodes s1)(?p := (nodes s1 ?p)\<lparr>server_type := Some REPLICA\<rparr>)"
      unfolding s2 using list s1(4) ns by (auto simp: upd_list_def upd_node_def node_name_def fun_eq_iff)
    have "update_moved_slots X s = Some (Inr (), s2\<lparr>moved_exception := None\<rparr>)"
      using e covered r mem True s1(3)
      by (simp add: update_moved_slots_def io_get_def io_bind_def io_seq_def io_upd_def s2_def)
    moreover have "server_type (nodes s2 n) = Some (moved_type n ?ns)"
      using s1(5) True by (auto simp: f(5) moved_type_def)
    ultimately show ?thesis using f s1 covered by (auto simp: moved_to_def slot_nodes_def)
  next
    case False
    let ?t = "s1\<lparr>node_lists := (node_lists s1)(next_list s1 := [n]), next_list := Suc (next_list s1),
        slots_cache := AList.update i (next_list s1) (slots_cache s1), moved_exception := None\<rparr>"
    have "update_moved_slots X s = Some (Inr (), ?t)"
      using e covered r mem False s1(3)
      by (simp add: update_moved_slots_def io_get_def io_bind_def io_seq_def io_upd_def new_list_def)
    moreover have "node_name ?t n = ?name" using s1(1) by (simp add: node_name_def)
    moreover have "moved_type n ?ns = PRIMARY" using False by (auto simp: moved_type_def)
    ultimately show ?thesis using s1 False by (auto simp: moved_to_def slot_nodes_def moved_list_def update_conv')
  qed
qed

text \<open>
  C19: a MOVED error redirects the slot.  The next command for the slot goes to the node the error names, which is then in the node
  cache under its name and first in the slot's list; the replicas of the shard are kept when it was one of them (the old primary
  becomes a replica), and are forgotten when it was not.  But when the node already was the slot's primary, as it is for a write
  that was sent to a replica, it is marked a replica and the first replica of the slot is lost (\<open>moved_list\<close>, \<open>moved_type\<close>).
\<close>

theorem moved_redirects_slot:
  assumes "moved_exception s = Some e" "ask_fields (exc_msg e) = Some (i, host, port)" "host \<noteq> []" "port \<noteq> 0"
    and "map_of (slots_cache s) i = Some l" and "known_nodes s i"
  shows "\<exists>n s'. get_node_from_slot X (PInt i) False None None s = Some (Inr n, s') \<and>
    moved_to (get_node_name (resolve X host) port) n i (slot_nodes s i) s'"
proof -
  let ?name = "get_node_name (resolve X host) port"
  obtain n s' where u: "update_moved_slots X s = Some (Inr (), s')" and m: "moved_to ?name n i (slot_nodes s i) s'"
    using update_moved_slots_moves [OF assms] by blast
  have hd: "slot_nodes s' i \<noteq> []" "hd (slot_nodes s' i) = n"
    using m by (auto simp: moved_to_def moved_list_def)
  obtain l' where l': "map_of (slots_cache s') i = Some l'" "node_lists s' l' = slot_nodes s' i"
    using hd(1) by (auto simp: slot_nodes_def split: option.splits)
  have "get_node_from_slot X (PInt i) False None None s = Some (Inr n, s')"
    using assms(1) u l' hd by (simp add: get_node_from_slot_def io_seq_def io_bind_def io_get_def slot_list_def Let_def
      io_ret_def io_lift_def)
  then show ?thesis using m by blast
qed

theorem moved_redirects_slot_witness:
  "\<exists>n s'. get_node_from_slot demo_cluster_class (PInt 1) False None None
       ((demo_cluster (\<lambda>_. []))\<lparr>moved_exception := Some (Exc MovedError ''1 h:2'')\<rparr>) = Some (Inr n, s')
     \<and> moved_to ''h:2'' n 1 [0, 1] s'"
proof -
  let ?s = "(demo_cluster (\<lambda>_. []))\<lparr>moved_exception := Some (Exc MovedError ''1 h:2'')\<rparr>"
  have "known_nodes ?s 1" "slot_nodes ?s 1 = [0, 1]"
    by (simp_all add: known_nodes_def slot_nodes_def demo_cluster_def node_name_def demo_names)
  moreover have "moved_exception ?s = Some (Exc MovedError ''1 h:2'')" "map_of (slots_cache ?s) 1 = Some 0"
    by (simp_all add: demo_cluster_def)
  ultimately show ?thesis
    using moved_redirects_slot [of ?s "Exc MovedError ''1 h:2''" 1 "''h''" 2 0 demo_cluster_class] demo_ask demo_names
    by (simp add: resolve_def)
qed

section \<open>Round robin\<close>

text \<open>The index after \<open>i\<close> in a cycle over \<open>lo, ..., n - 1\<close>.\<close>

definition cycle :: "nat \<Rightarrow> nat \<Rightarrow> nat \<Rightarrow> nat \<Rightarrow> nat" where
  "cycle lo n i j = lo + (i - lo + j) mod (n - lo)"

lemma add_mod_inject:
  fixes a :: nat
  assumes "(a + x) mod m = (a + y) mod m" "x < m" "y < m"
  shows "x = y"
proof -
  have "(int a + int x) mod int m = (int a + int y) mod int m"
    using assms(1) by (metis of_nat_add of_nat_mod)
  then have "int m dvd int x - int y" by (simp add: mod_eq_dvd_iff)
  then show ?thesis using assms(2,3) zdvd_imp_le [of "int m" "\<bar>int x - int y\<bar>"] by (cases "x = y") auto
qed

lemma cycle_perm:
  assumes "lo \<le> i" "i < n"
  shows "mset (map (cycle lo n i) [0..<n - lo]) = mset [lo..<n]"
proof -
  let ?m = "n - lo"
  have inj: "inj_on (cycle lo n i) {0..<?m}"
  proof (rule inj_onI)
    fix x y assume "x \<in> {0..<?m}" "y \<in> {0..<?m}" "cycle lo n i x = cycle lo n i y"
    then have "(i - lo + x) mod ?m = (i - lo + y) mod ?m" "x < ?m" "y < ?m" by (simp_all add: cycle_def)
    then show "x = y" by (rule add_mod_inject)
  qed
  have sub: "cycle lo n i ` {0..<?m} \<subseteq> {lo..<n}"
  proof (intro image_subsetI)
    fix j
    have "(i - lo + j) mod ?m < ?m" using assms by simp
    then show "cycle lo n i j \<in> {lo..<n}" by (simp add: cycle_def)
  qed
  have "cycle lo n i ` {0..<?m} = {lo..<n}"
    by (rule card_subset_eq) (use sub inj in \<open>simp_all add: card_image\<close>)
  moreover have "distinct (map (cycle lo n i) [0..<?m])" using inj by (simp add: distinct_map)
  ultimately show ?thesis by (intro set_eq_iff_mset_eq_distinct [THEN iffD1]) auto
qed

text \<open>The indices of \<open>k\<close> calls in a row, when the first is \<open>i\<close> or later.\<close>

lemma cycle_0: "lo \<le> i \<Longrightarrow> i < n \<Longrightarrow> cycle lo n i 0 = i"
  by (simp add: cycle_def)

lemma cycle_Suc:
  assumes "lo \<le> i" "i < n"
  shows "cycle lo n i (Suc j) = cycle lo n (if i + 1 < n then i + 1 else lo) j"
proof (cases "i + 1 < n")
  case False
  then have "i - lo + Suc j = j + (n - lo)" using assms by simp
  then have "(i - lo + Suc j) mod (n - lo) = j mod (n - lo)" by (metis mod_add_self2)
  then show ?thesis using False by (simp add: cycle_def)
qed (use assms in \<open>simp add: cycle_def Suc_diff_le\<close>)

definition next_index :: "nat \<Rightarrow> string \<Rightarrow> (string \<times> nat) list \<Rightarrow> nat" where
  "next_index lo p idx = max lo (case map_of idx p of None \<Rightarrow> 0 | Some i \<Rightarrow> i)"

lemma map_of_update [simp]: "map_of (AList.update k v al) = (map_of al)(k \<mapsto> v)"
  by (rule ext) (simp add: update_conv')

lemma get_round_robin_next:
  assumes "1 < n" "lo = (if replicas_only then 1 else 0)" "next_index lo p idx < n"
    "get_round_robin_index p n replicas_only idx = (i, idx')"
  shows "i = next_index lo p idx" "next_index lo p idx' = (if i + 1 < n then i + 1 else lo)"
proof -
  have i: "i = next_index lo p idx" and idx': "idx' = AList.update p ((i + 1) mod n) idx"
    using assms(2,4) by (auto simp: get_round_robin_index_def next_index_def Let_def split: if_splits option.splits)
  show "i = next_index lo p idx" by (rule i)
  have "i < n" using i assms(3) by simp
  then have "(i + 1) mod n = (if i + 1 < n then i + 1 else 0)" by (simp add: le_Suc_eq not_less)
  then show "next_index lo p idx' = (if i + 1 < n then i + 1 else lo)"
    using idx' i by (auto simp: next_index_def max_def)
qed

text \<open>A slot whose nodes are known, with no MOVED error pending.\<close>

definition slot_is :: "('c, 'g, 'z) cluster_scheme \<Rightarrow> pyval \<Rightarrow> nat list \<Rightarrow> bool" where
  "slot_is s slot ns \<longleftrightarrow> hashable slot \<and> moved_exception s = None \<and> map_option (node_lists s) (slot_list s slot) = Some ns"

definition reads :: "strategy \<Rightarrow> nat" where
  "reads st = (if st = ROUND_ROBIN_REPLICAS then 1 else 0)"

lemma get_node_from_slot_round_robin:
  assumes "slot_is s slot ns" "1 < length ns" "st \<noteq> RANDOM_REPLICA"
    "next_index (reads st) (node_name s (hd ns)) (primary_to_idx s) = i" "i < length ns"
  shows "\<exists>idx. get_node_from_slot X slot rf (Some st) rl s = Some (Inr (ns ! i), s\<lparr>primary_to_idx := idx\<rparr>)
    \<and> next_index (reads st) (node_name s (hd ns)) idx = (if i + 1 < length ns then i + 1 else reads st)"
proof -
  obtain l where l: "slot_list s slot = Some l" "node_lists s l = ns" using assms(1) by (auto simp: slot_is_def)
  obtain i' idx where g: "get_round_robin_index (node_name s (hd ns)) (length ns) (st = ROUND_ROBIN_REPLICAS) (primary_to_idx s) = (i', idx)"
    by fastforce
  have lo: "reads st = (if st = ROUND_ROBIN_REPLICAS then 1 else 0)" by (simp add: reads_def)
  have i': "i' = i" "next_index (reads st) (node_name s (hd ns)) idx = (if i + 1 < length ns then i + 1 else reads st)"
    using get_round_robin_next [OF assms(2) lo _ g] assms(4,5) by simp_all
  have "ns \<noteq> []" using assms(2) by auto
  then have "get_node_from_slot X slot rf (Some st) rl s = Some (Inr (ns ! i), s\<lparr>primary_to_idx := idx\<rparr>)"
    using assms l g i' by (simp add: get_node_from_slot_def slot_is_def io_seq_def io_get_def io_bind_def io_ret_def Let_def
      get_server_index_def io_upd_def io_lift_def)
  then show ?thesis using i'(2) by blast
qed

lemma round_robin_run:
  assumes "slot_is s slot ns" "1 < length ns" "st \<noteq> RANDOM_REPLICA"
    "next_index (reads st) (node_name s (hd ns)) (primary_to_idx s) = i" "i < length ns"
  shows "\<exists>s'. io_replicate k (get_node_from_slot X slot rf (Some st) rl) s
      = Some (Inr (map (\<lambda>j. ns ! cycle (reads st) (length ns) i j) [0..<k]), s')"
  using assms
proof (induction k arbitrary: s i)
  case 0
  then show ?case by (simp add: io_ret_def)
next
  case (Suc k)
  let ?lo = "reads st" and ?n = "length ns"
  let ?i' = "if i + 1 < ?n then i + 1 else ?lo"
  have lo: "?lo \<le> i" using Suc.prems(4) by (auto simp: next_index_def)
  obtain idx where run: "get_node_from_slot X slot rf (Some st) rl s = Some (Inr (ns ! i), s\<lparr>primary_to_idx := idx\<rparr>)"
    and idx: "next_index ?lo (node_name s (hd ns)) idx = ?i'"
    using get_node_from_slot_round_robin [OF Suc.prems] by blast
  let ?s = "s\<lparr>primary_to_idx := idx\<rparr>"
  have "slot_is ?s slot ns" using Suc.prems(1) by (cases slot) (simp_all add: slot_is_def slot_list_def)
  moreover have "next_index ?lo (node_name ?s (hd ns)) (primary_to_idx ?s) = ?i'" using idx by (simp add: node_name_def)
  moreover have "?i' < ?n" using Suc.prems(2) by (auto simp: reads_def)
  ultimately obtain s' where "io_replicate k (get_node_from_slot X slot rf (Some st) rl) ?s
      = Some (Inr (map (\<lambda>j. ns ! cycle ?lo ?n ?i' j) [0..<k]), s')"
    using Suc.IH [of ?s ?i'] Suc.prems(2,3) by blast
  moreover have "map (\<lambda>j. ns ! cycle ?lo ?n i j) [0..<Suc k] = ns ! i # map (\<lambda>j. ns ! cycle ?lo ?n ?i' j) [0..<k]"
    using cycle_0 [OF lo Suc.prems(5)] cycle_Suc [OF lo Suc.prems(5)]
    by (simp only: map_upt_Suc)
  ultimately show ?case using run by (simp add: io_bind_def io_ret_def)
qed

text \<open>
  C31: reading is spread evenly.  For a slot with several nodes and no MOVED error pending, as many reads in a row as the slot has nodes go to each of
  them once under \<open>ROUND_ROBIN\<close>; under \<open>ROUND_ROBIN_REPLICAS\<close> as many as it has replicas go to each replica once, and none to
  the primary.
\<close>

theorem slot_reads_fair:
  assumes "slot_is s slot ns" "1 < length ns" "st \<noteq> RANDOM_REPLICA"
    and "next_index (reads st) (node_name s (hd ns)) (primary_to_idx s) < length ns"
  shows "\<exists>vs s'. io_replicate (length ns - reads st) (get_node_from_slot X slot rf (Some st) rl) s = Some (Inr vs, s')
    \<and> mset vs = mset (drop (reads st) ns)"
proof -
  let ?lo = "reads st" and ?n = "length ns"
  let ?i = "next_index ?lo (node_name s (hd ns)) (primary_to_idx s)"
  have lo: "?lo \<le> ?i" by (simp add: next_index_def)
  obtain s' where run: "io_replicate (?n - ?lo) (get_node_from_slot X slot rf (Some st) rl) s
      = Some (Inr (map (\<lambda>j. ns ! cycle ?lo ?n ?i j) [0..<?n - ?lo]), s')"
    using round_robin_run [OF assms(1-3) refl assms(4)] by blast
  have "mset (map (\<lambda>j. ns ! cycle ?lo ?n ?i j) [0..<?n - ?lo]) = mset (map ((!) ns) (map (cycle ?lo ?n ?i) [0..<?n - ?lo]))"
    by (simp add: comp_def)
  also have "\<dots> = image_mset ((!) ns) (mset [?lo..<?n])"
    using cycle_perm [OF lo assms(4)] by (metis mset_map)
  also have "\<dots> = mset (map ((!) ns) [?lo..<?n])" by simp
  also have "map ((!) ns) [?lo..<?n] = drop ?lo ns"
    by (rule nth_equalityI) auto
  finally show ?thesis using run by blast
qed

theorem slot_reads_fair_witness:
  "\<exists>vs s'. io_replicate 2 (get_node_from_slot demo_cluster_class (PInt 0) True (Some ROUND_ROBIN) None) (demo_cluster (\<lambda>_. []))
       = Some (Inr vs, s') \<and> mset vs = mset [0, 1]"
proof -
  let ?s = "demo_cluster (\<lambda>_. [])"
  have "slot_is ?s (PInt 0) [0, 1]" "next_index (reads ROUND_ROBIN) (node_name ?s (hd [0, 1])) (primary_to_idx ?s) < length [0, 1::nat]"
    by (simp_all add: slot_is_def slot_list_def next_index_def reads_def demo_cluster_def)
  from slot_reads_fair [OF this(1) _ _ this(2)] show ?thesis
    by (simp add: reads_def numeral_2_eq_2)
qed

end
