(* ===== verification/Cluster_Keys.thy ===== *)
theory Cluster_Keys
  imports Cluster_Spec
begin

text \<open>
  Commands on keys of several slots: the keys are grouped by slot, and the replies of \<open>MGET\<close> are put back in the order of the keys.
\<close>

section \<open>Grouping\<close>

definition slot_keys :: "('c, 'g) cluster_class \<Rightarrow> pyval list \<Rightarrow> nat \<Rightarrow> pyval list" where
  "slot_keys X ks slot = filter (\<lambda>k. keyslot X k = Inr slot) ks"

text \<open>The groups: every slot of a key once, with its keys in their order.\<close>

definition grouped :: "('c, 'g) cluster_class \<Rightarrow> pyval list \<Rightarrow> (nat \<times> pyval list) list \<Rightarrow> bool" where
  "grouped X ks parts \<longleftrightarrow> distinct (map fst parts) \<and> (\<forall>(slot, args) \<in> set parts. args = slot_keys X ks slot) \<and>
     (\<forall>k \<in> set ks. \<exists>slot. keyslot X k = Inr slot \<and> slot \<in> fst ` set parts)"

lemma slot_keys_snoc: "slot_keys X (ks @ [k]) slot = slot_keys X ks slot @ (if keyslot X k = Inr slot then [k] else [])"
  by (simp add: slot_keys_def)

lemma grouped_lookup:
  assumes "grouped X ks parts"
  shows "(case map_of parts slot of None \<Rightarrow> [] | Some ys \<Rightarrow> ys) = slot_keys X ks slot"
proof (cases "map_of parts slot")
  case None
  then have "slot \<notin> fst ` set parts" by (simp add: map_of_eq_None_iff)
  then have "\<forall>k \<in> set ks. keyslot X k \<noteq> Inr slot"
    using assms unfolding grouped_def by (metis Inr_inject)
  then have "slot_keys X ks slot = []" by (simp add: slot_keys_def filter_empty_conv)
  then show ?thesis using None by simp
next
  case (Some ys)
  then show ?thesis using assms map_of_SomeD [OF Some] by (auto simp: grouped_def)
qed

lemma update_mem: "distinct (map fst d) \<Longrightarrow> (j, y) \<in> set (AList.update i x d) \<Longrightarrow> j = i \<and> y = x \<or> j \<noteq> i \<and> (j, y) \<in> set d"
  by (induction d) (force split: if_splits)+

lemma grouped_add:
  assumes "grouped X ks parts" "keyslot X k = Inr slot"
  shows "grouped X (ks @ [k]) (add_to_slot parts slot [k])"
proof -
  have d: "distinct (map fst parts)" using assms(1) by (simp add: grouped_def)
  have eq: "add_to_slot parts slot [k] = AList.update slot (slot_keys X ks slot @ [k]) parts"
    by (simp add: add_to_slot_def grouped_lookup [OF assms(1)])
  have slots: "fst ` set (add_to_slot parts slot [k]) = insert slot (fst ` set parts)"
    unfolding eq by (simp add: dom_update)
  have old: "args = slot_keys X ks i" if "(i, args) \<in> set parts" for i args
    using assms(1) that unfolding grouped_def by blast
  have "args = slot_keys X (ks @ [k]) i" if "(i, args) \<in> set (add_to_slot parts slot [k])" for i args
    using update_mem [OF d that [unfolded eq]] old [of i args] assms(2) by (auto simp: slot_keys_snoc)
  moreover have "\<exists>i. keyslot X j = Inr i \<and> i \<in> fst ` set (add_to_slot parts slot [k])" if "j \<in> set (ks @ [k])" for j
  proof (cases "j = k")
    case True
    then show ?thesis using assms(2) slots by simp
  next
    case False
    then have "j \<in> set ks" using that by simp
    then show ?thesis using assms(1) unfolding slots grouped_def by blast
  qed
  moreover have "distinct (map fst (add_to_slot parts slot [k]))" unfolding eq using d by (rule distinct_update)
  ultimately show ?thesis unfolding grouped_def by blast
qed

lemma res_fold_append: "res_fold f s (xs @ ys) = res_bind (res_fold f s xs) (\<lambda>s. res_fold f s ys)"
  by (induction xs arbitrary: s) (auto simp: res_bind_def split: sum.splits)

lemma partition_grouped:
  "partition_keys_by_slot X ks = Inr parts \<Longrightarrow> grouped X ks parts"
proof (induction ks arbitrary: parts rule: rev_induct)
  case Nil
  then show ?case by (simp add: partition_keys_by_slot_def grouped_def)
next
  case (snoc k ks)
  obtain parts' slot where "partition_keys_by_slot X ks = Inr parts'" "keyslot X k = Inr slot" "parts = add_to_slot parts' slot [k]"
    using snoc.prems by (auto simp: partition_keys_by_slot_def res_fold_append res_bind_Inr res_map_def)
  then show ?case using snoc.IH grouped_add by blast
qed

section \<open>Putting the replies together\<close>

lemma text_key: "is_text k \<Longrightarrow> hashable k \<and> norm_key k = k"
  by (cases k) (simp_all add: is_text_def)

lemma dict_of_replies:
  assumes "list_all is_text ks"
  shows "\<exists>d. dict_of (map (\<lambda>k. (k, f k)) ks) = Inr d \<and> (\<forall>k \<in> set ks. dict_get d k = Some (f k))"
  using assms
proof (induction ks rule: rev_induct)
  case Nil
  show ?case by (simp add: dict_of_def)
next
  case (snoc k ks)
  then obtain d where d: "dict_of (map (\<lambda>k. (k, f k)) ks) = Inr d" "\<forall>j \<in> set ks. dict_get d j = Some (f j)" by auto
  have k: "is_text k" "list_all is_text ks" using snoc.prems by auto
  have "dict_of (map (\<lambda>k. (k, f k)) (ks @ [k])) = Inr (dict_set d k (f k))"
    using d(1) text_key [OF k(1)] by (simp add: dict_of_def res_fold_append set_item_def)
  moreover have "\<forall>j \<in> set (ks @ [k]). dict_get (dict_set d k (f k)) j = Some (f j)"
    using d(2) text_key [OF k(1)] text_key k(2) by (auto simp: dict_get_set list_all_iff)
  ultimately show ?case by blast
qed

text \<open>
  C28: reading keys of several slots gives what reading them one by one would.  The keys are grouped by slot, each slot once with its keys in
  their order (so one \<open>MGET\<close> per slot is enough); and when the reply for each slot holds the value of each of its keys, the reply of \<open>mget_nonatomic\<close> holds the value of
  each key at its place, also when a key is asked for twice.
\<close>

theorem mget_by_slot:
  assumes "partition_keys_by_slot X ks = Inr parts" "list_all is_text ks"
  shows "grouped X ks parts \<and>
    reorder_keys_by_command ks parts (map (\<lambda>(_, args). PList (map value_of args)) parts) = Inr (map value_of ks)"
proof
  show g: "grouped X ks parts" using assms(1) by (rule partition_grouped)
  let ?args = "concat (map snd parts)"
  have mem: "set ?args = set ks"
  proof -
    have part: "args = slot_keys X ks slot" if "(slot, args) \<in> set parts" for slot args using g that by (auto simp: grouped_def)
    have "k \<in> set ?args" if k: "k \<in> set ks" for k
    proof -
      obtain slot args where "keyslot X k = Inr slot" "(slot, args) \<in> set parts" using g k by (fastforce simp: grouped_def)
      then show ?thesis using k part by (force simp: slot_keys_def)
    qed
    then show ?thesis using part by (force simp: slot_keys_def)
  qed
  have pair: "traverse (\<lambda>((_, args), response). res_map (\<lambda>vs. zip args vs) (iterate response))
      (zip ps (map (\<lambda>(_, args). PList (map value_of args)) ps)) = Inr (map (\<lambda>(_, args). map (\<lambda>k. (k, value_of k)) args) ps)"
    for ps :: "(nat \<times> pyval list) list"
    by (induction ps) (auto simp: zip_map2 zip_same_conv_map)
  have kvs: "concat (map (\<lambda>(_, args). map (\<lambda>k. (k, value_of k)) args) parts) = map (\<lambda>k. (k, value_of k)) ?args"
    by (simp add: map_concat comp_def case_prod_unfold)
  have "list_all is_text ?args" using assms(2) mem by (simp only: list_all_iff)
  then obtain d where d: "dict_of (map (\<lambda>k. (k, value_of k)) ?args) = Inr d" "\<forall>k \<in> set ks. dict_get d k = Some (value_of k)"
    using dict_of_replies mem by metis
  have "traverse (\<lambda>k. case dict_get d k of Some v \<Rightarrow> Inr v | None \<Rightarrow> Inl (key_error (type_name k))) ks = Inr (map value_of ks)"
    by (rule traverse_pure) (simp add: d(2))
  then show "reorder_keys_by_command ks parts (map (\<lambda>(_, args). PList (map value_of args)) parts) = Inr (map value_of ks)"
    unfolding reorder_keys_by_command_def pair by (simp add: kvs d(1))
qed

theorem mget_by_slot_witness:
  "\<exists>parts. partition_keys_by_slot demo_cluster_class [PStr ''a'', PStr ''b'', PStr ''{a}c'', PStr ''a''] = Inr parts \<and>
     reorder_keys_by_command [PStr ''a'', PStr ''b'', PStr ''{a}c'', PStr ''a''] parts (map (\<lambda>(_, args). PList (map id args)) parts)
       = Inr [PStr ''a'', PStr ''b'', PStr ''{a}c'', PStr ''a'']"
proof -
  let ?ks = "[PStr ''a'', PStr ''b'', PStr ''{a}c'', PStr ''a'']"
  obtain parts where parts: "partition_keys_by_slot demo_cluster_class ?ks = Inr parts"
    by (simp add: partition_keys_by_slot_def keyslot_def demo_cluster_class_def utf8_encoder_def res_bind_def)
  have "list_all is_text ?ks" by (simp add: is_text_def)
  from mget_by_slot [OF parts this, of id] parts show ?thesis by (simp add: list.map_id)
qed

end
