(* ===== verification/Cluster_Commands.thy ===== *)
theory Cluster_Commands
  imports Cluster_Pipeline Cmd_Stateful
begin

text \<open>
  \<open>redis/commands/cluster.py\<close> but for the commands on several slots: the management commands as they are in cluster mode, \<open>stralgo\<close> and the
  iteration over the keys of all nodes.  A request carries the nodes it is for (\<open>target_nodes\<close>) besides arguments and options; \<open>None\<close> is
  \<open>target_nodes=None\<close> or no such argument, which \<open>execute_command\<close> treats alike.
\<close>

type_synonym cluster_request = "request \<times> target_nodes option"

section \<open>Management commands\<close>

definition slaveof_cl :: "cluster_request res" where
  "slaveof_cl =
     Inl (Exc RedisClusterException ''SLAVEOF is not supported in cluster mode'')"

definition replicaof_cl :: "cluster_request res" where
  "replicaof_cl =
     Inl (Exc RedisClusterException ''REPLICAOF is not supported in cluster mode'')"

definition swapdb_cl :: "cluster_request res" where
  "swapdb_cl =
     Inl (Exc RedisClusterException ''SWAPDB is not supported in cluster mode'')"

definition cluster_myid_cl :: "target_nodes \<Rightarrow> cluster_request res" where
  "cluster_myid_cl tn =
     Inr (([PStr ''CLUSTER MYID''], []), Some tn)"

definition cluster_addslots_cl :: "target_nodes \<Rightarrow> pyval list \<Rightarrow> cluster_request res" where
  "cluster_addslots_cl tn slots =
     Inr (([PStr ''CLUSTER ADDSLOTS''] @ slots, []), Some tn)"

definition cluster_addslotsrange_cl :: "target_nodes \<Rightarrow> pyval list \<Rightarrow> cluster_request res" where
  "cluster_addslotsrange_cl tn slots =
     Inr (([PStr ''CLUSTER ADDSLOTSRANGE''] @ slots, []), Some tn)"

definition cluster_countkeysinslot_cl :: "pyval \<Rightarrow> cluster_request res" where
  "cluster_countkeysinslot_cl slot_id =
     Inr (([PStr ''CLUSTER COUNTKEYSINSLOT''] @ [slot_id], []), None)"

definition cluster_count_failure_report_cl :: "pyval \<Rightarrow> cluster_request res" where
  "cluster_count_failure_report_cl node_id =
     Inr (([PStr ''CLUSTER COUNT-FAILURE-REPORTS''] @ [node_id], []), None)"

definition cluster_delslotsrange_cl :: "pyval list \<Rightarrow> cluster_request res" where
  "cluster_delslotsrange_cl slots =
     Inr (([PStr ''CLUSTER DELSLOTSRANGE''] @ slots, []), None)"

definition cluster_failover_cl :: "target_nodes \<Rightarrow> pyval \<Rightarrow> cluster_request res" where
  "cluster_failover_cl tn option' =
     (if truthy option' then
        res_bind (py_upper option') (\<lambda>u.
          if u \<notin> set [PStr ''FORCE'', PStr ''TAKEOVER''] then Inl (Exc RedisError ''Invalid option for CLUSTER FAILOVER command'')
          else Inr (([PStr ''CLUSTER FAILOVER'', option'], []), Some tn))
      else Inr (([PStr ''CLUSTER FAILOVER''], []), Some tn))"

definition cluster_info_cl :: "target_nodes option \<Rightarrow> cluster_request res" where
  "cluster_info_cl tn =
     Inr (([PStr ''CLUSTER INFO''], []), tn)"

definition cluster_keyslot_cl :: "pyval \<Rightarrow> cluster_request res" where
  "cluster_keyslot_cl key =
     Inr (([PStr ''CLUSTER KEYSLOT''] @ [key], []), None)"

definition cluster_meet_cl :: "pyval \<Rightarrow> pyval \<Rightarrow> target_nodes option \<Rightarrow> cluster_request res" where
  "cluster_meet_cl host port tn =
     Inr (([PStr ''CLUSTER MEET''] @ [host, port], []), tn)"

definition cluster_nodes_cl :: "cluster_request res" where
  "cluster_nodes_cl =
     Inr (([PStr ''CLUSTER NODES''], []), None)"

definition cluster_replicate_cl :: "target_nodes option \<Rightarrow> pyval \<Rightarrow> cluster_request res" where
  "cluster_replicate_cl tn node_id =
     Inr (([PStr ''CLUSTER REPLICATE''] @ [node_id], []), tn)"

definition cluster_reset_cl :: "pyval \<Rightarrow> target_nodes option \<Rightarrow> cluster_request res" where
  "cluster_reset_cl soft tn =
     Inr (([PStr ''CLUSTER RESET'', PBytes (if truthy soft then ''SOFT'' else ''HARD'')], []), tn)"

definition cluster_save_config_cl :: "target_nodes option \<Rightarrow> cluster_request res" where
  "cluster_save_config_cl tn =
     Inr (([PStr ''CLUSTER SAVECONFIG''], []), tn)"

definition cluster_get_keys_in_slot_cl :: "pyval \<Rightarrow> pyval \<Rightarrow> cluster_request res" where
  "cluster_get_keys_in_slot_cl slot num_keys =
     Inr (([PStr ''CLUSTER GETKEYSINSLOT''] @ [slot, num_keys], []), None)"

definition cluster_set_config_epoch_cl :: "pyval \<Rightarrow> target_nodes option \<Rightarrow> cluster_request res" where
  "cluster_set_config_epoch_cl epoch tn =
     Inr (([PStr ''CLUSTER SET-CONFIG-EPOCH''] @ [epoch], []), tn)"

definition cluster_setslot_cl :: "target_nodes \<Rightarrow> pyval \<Rightarrow> pyval \<Rightarrow> pyval \<Rightarrow> cluster_request res" where
  "cluster_setslot_cl tn node_id slot_id state =
     res_bind (py_upper state) (\<lambda>u.
        if u \<in> set [PStr ''IMPORTING'', PStr ''NODE'', PStr ''MIGRATING'']
        then Inr (([PStr ''CLUSTER SETSLOT'', slot_id, state, node_id], []), Some tn)
        else if u = PStr ''STABLE''
        then Inl (Exc RedisError (''For '' @ [CHR 0x22] @ ''stable'' @ [CHR 0x22] @ '' state please use cluster_setslot_stable''))
        else Inl (Exc RedisError ''Invalid slot state''))"

definition cluster_setslot_stable_cl :: "pyval \<Rightarrow> cluster_request res" where
  "cluster_setslot_stable_cl slot_id =
     Inr (([PStr ''CLUSTER SETSLOT''] @ [slot_id, PStr ''STABLE''], []), None)"

definition cluster_replicas_cl :: "pyval \<Rightarrow> target_nodes option \<Rightarrow> cluster_request res" where
  "cluster_replicas_cl node_id tn =
     Inr (([PStr ''CLUSTER REPLICAS''] @ [node_id], []), tn)"

definition cluster_slots_cl :: "target_nodes option \<Rightarrow> cluster_request res" where
  "cluster_slots_cl tn =
     Inr (([PStr ''CLUSTER SLOTS''], []), tn)"

definition cluster_shards_cl :: "target_nodes option \<Rightarrow> cluster_request res" where
  "cluster_shards_cl tn =
     Inr (([PStr ''CLUSTER SHARDS''], []), tn)"

definition cluster_myshardid_cl :: "target_nodes option \<Rightarrow> cluster_request res" where
  "cluster_myshardid_cl tn =
     Inr (([PStr ''CLUSTER MYSHARDID''], []), tn)"

definition cluster_links_cl :: "target_nodes \<Rightarrow> cluster_request res" where
  "cluster_links_cl tn =
     Inr (([PStr ''CLUSTER LINKS''], []), Some tn)"

definition cluster_flushslots_cl :: "cluster_request res" where
  "cluster_flushslots_cl =
     Inl (Exc PyNotImplementedError ''CLUSTER FLUSHSLOTS is intentionally not implemented in the client.'')"

definition cluster_bumpepoch_cl :: "cluster_request res" where
  "cluster_bumpepoch_cl =
     Inl (Exc PyNotImplementedError ''CLUSTER BUMPEPOCH is intentionally not implemented in the client.'')"

text \<open>Methods that do more than one request, or change the client.  \<open>X\<close> is the client's \<open>execute_command\<close>; \<open>readonly\<close> and
  \<open>readwrite\<close> also give the new value of \<open>read_from_replicas\<close>.\<close>

definition cluster_delslots_cl :: "(cluster_request \<Rightarrow> ('s, pyval) io) \<Rightarrow> pyval list \<Rightarrow> ('s, pyval list) io" where
  "cluster_delslots_cl X slots = io_traverse (\<lambda>slot. X (([PStr ''CLUSTER DELSLOTS'', slot], []), None)) slots"

definition readonly_cl :: "target_nodes option \<Rightarrow> bool \<Rightarrow> cluster_request \<times> bool" where
  "readonly_cl tn read_from_replicas =
     ((([PStr ''READONLY''], []), tn),
      if tn = Some (Flag ''replicas'') \<or> tn = Some (Flag ''all'') then True else read_from_replicas)"

definition readwrite_cl :: "target_nodes option \<Rightarrow> bool \<Rightarrow> cluster_request \<times> bool" where
  "readwrite_cl tn read_from_replicas = ((([PStr ''READWRITE''], []), tn), False)"

section \<open>Data access\<close>

definition stralgo_cl ::
  "cmdlib \<Rightarrow> pyval \<Rightarrow> pyval \<Rightarrow> pyval \<Rightarrow> pyval \<Rightarrow> pyval \<Rightarrow> pyval \<Rightarrow> pyval \<Rightarrow> pyval \<Rightarrow> options \<Rightarrow> target_nodes option \<Rightarrow> cluster_request res" where
  "stralgo_cl P algo value1 value2 specific_argument len idx minmatchlen withmatchlen kwargs tn =
     (let tn = (if specific_argument = PStr ''strings'' \<and> tn = None then Some (Flag ''default-node'') else tn) in
      res_map (\<lambda>r. (r, tn)) (stralgo_cmd P algo value1 value2 specific_argument len idx minmatchlen withmatchlen kwargs))"

text \<open>\<open>scan_iter\<close>: the first request goes to all nodes, the next ones to each node whose cursor is not 0 yet, round after round.
  The reply parser of \<open>SCAN\<close> in cluster mode gives a dictionary from node names to cursors, and the keys of all.
  \<open>call c (Some name)\<close> is \<open>scan\<close> for the node that had the name when the iteration began.\<close>

type_synonym 's scan_call = "pyval \<Rightarrow> string option \<Rightarrow> ('s, pyval) io"

definition scan_page :: "pyval \<Rightarrow> (pyval \<times> pyval list) res" where
  "scan_page r = res_bind (unpack2 r) (\<lambda>(cursors, data). res_map (\<lambda>xs. (cursors, xs)) (iterate data))"

primrec scan_nodes ::
  "'s scan_call \<Rightarrow> (pyval \<times> pyval) list \<Rightarrow> (pyval \<times> pyval) list \<Rightarrow> pyval list \<Rightarrow> 's \<Rightarrow>
   (pyval list \<times> (exc + (pyval \<times> pyval) list) \<times> 's) option" where
  "scan_nodes call [] cursors acc s = Some (acc, Inr cursors, s)"
| "scan_nodes call (kv # rest) cursors acc s =
     (case fst kv of
        PStr name \<Rightarrow>
          (case call (snd kv) (Some name) s of
             None \<Rightarrow> None
           | Some (Inl e, s') \<Rightarrow> Some (acc, Inl e, s')
           | Some (Inr r, s') \<Rightarrow>
               (case scan_page r of
                  Inl e \<Rightarrow> Some (acc, Inl e, s')
                | Inr (cur, xs) \<Rightarrow>
                    (case getkey cur name of
                       Inl e \<Rightarrow> Some (acc @ xs, Inl e, s')
                     | Inr c \<Rightarrow> scan_nodes call rest (dict_set cursors (PStr name) c) (acc @ xs) s')))
      | v \<Rightarrow> Some (acc, Inl (type_error v), s))"

definition unfinished :: "cmdlib \<Rightarrow> (pyval \<times> pyval) list \<Rightarrow> (pyval \<times> pyval) list" where
  "unfinished P cursors = filter (\<lambda>(_, c). \<not> py_eq P c (PInt 0)) cursors"

partial_function (option) scan_rounds ::
  "cmdlib \<Rightarrow> 's scan_call \<Rightarrow> (pyval \<times> pyval) list \<Rightarrow> pyval list \<Rightarrow> 's pages" where
  "scan_rounds P call cursors acc s =
     (if cursors = [] then Some (acc, Inr (), s)
      else case scan_nodes call cursors cursors acc s of
             None \<Rightarrow> None
           | Some (acc', Inl e, s') \<Rightarrow> Some (acc', Inl e, s')
           | Some (acc', Inr cursors', s') \<Rightarrow> scan_rounds P call (unfinished P cursors') acc' s')"

definition cluster_scan_iter :: "cmdlib \<Rightarrow> 's scan_call \<Rightarrow> 's pages" where
  "cluster_scan_iter P call s =
     (case call (PInt 0) None s of
        None \<Rightarrow> None
      | Some (Inl e, s') \<Rightarrow> Some ([], Inl e, s')
      | Some (Inr r, s') \<Rightarrow>
          (case scan_page r of
             Inl e \<Rightarrow> Some ([], Inl e, s')
           | Inr (c, xs) \<Rightarrow>
               (case items_of c of
                  Inl e \<Rightarrow> Some (xs, Inl e, s')
                | Inr cursors \<Rightarrow> scan_rounds P call (unfinished P cursors) xs s')))"

end
