(* ===== verification/Sentinel.thy ===== *)
theory Sentinel
  imports Client "HOL-Library.AList"
begin

text \<open>
  \<open>redis/sentinel.py\<close>: the manager that asks sentinels for the address of a service (\<open>Sentinel\<close>), and a connection pool
  whose connections ask the manager where to connect to (\<open>SentinelConnectionPool\<close>, its proxy, \<open>SentinelManagedConnection\<close>).

  A managed connection is the address (the attributes \<open>host\<close> and \<open>port\<close>) with the connection it derives from, whose class is
  \<open>z_conn\<close>; that class never assigns the two attributes.  The state holds one pool, with the attributes of its proxy, and the
  manager's list of sentinels: numbers, each with its client.  Reading (\<open>cc_read\<close>) is \<open>read_response\<close> of the class derived from with
  \<open>disconnect_on_error=False\<close>, the default of the managed connection.  The pool of the service and the pools of the sentinels' clients
  run in one world, the \<open>shared\<close> part of the pool.  The weak reference of the proxy is alive while the pool is used.
  \<open>repr\<close> of a name and of an error, which only word a message, are fields of the class, and so is \<open>random\<close>.
\<close>

type_synonym address = "pyval \<times> pyval"

record ('c, 'd, 'g) sentinel_class =
  z_conn :: "('c, 'g) client_class"
  z_connected :: "'c \<Rightarrow> bool"
  z_default_address :: address
  z_client :: "nat \<Rightarrow> ('d, 'g) client_class"
  z_min_other_sentinels :: int
  z_force_master_ip :: pyval
  z_randbelow :: "nat \<Rightarrow> 'g \<Rightarrow> nat \<times> 'g"
  z_repr :: "pyval \<Rightarrow> string"
  z_error_text :: "nat \<Rightarrow> exc \<Rightarrow> string"

record ('c, 'd, 'g) sentinel_pool =
  sp_pool :: "(address \<times> 'c, 'g) pool"
  is_master :: bool
  check_connection :: bool
  service_name :: pyval
  master_address :: "address option"
  slave_rr_counter :: "nat option"
  sentinels :: "nat list"
  sentinel_client :: "nat \<Rightarrow> ('d, 'g) redis"

section \<open>Calls on the parts\<close>

definition on_spool :: "((address \<times> 'c, 'g) pool, 'a) io \<Rightarrow> (('c, 'd, 'g) sentinel_pool, 'a) io" where
  "on_spool m s = (case m (sp_pool s) of None \<Rightarrow> None | Some (r, p) \<Rightarrow> Some (r, s\<lparr>sp_pool := p\<rparr>))"

text \<open>A method of the class a managed connection derives from.\<close>

definition inherited :: "('c \<times> 'g, 'a) io \<Rightarrow> ((address \<times> 'c) \<times> 'g, 'a) io" where
  "inherited m x =
     (case x of ((a, c), g) \<Rightarrow>
        (case m (c, g) of None \<Rightarrow> None | Some (r, (c', g')) \<Rightarrow> Some (r, ((a, c'), g'))))"

definition on_managed :: "nat \<Rightarrow> ('c \<times> 'g, 'a) io \<Rightarrow> (('c, 'd, 'g) sentinel_pool, 'a) io" where
  "on_managed i m = on_spool (on_conn i (inherited m))"

definition managed_disconnect :: "('c, 'd, 'g) sentinel_class \<Rightarrow> (address \<times> 'c) \<times> 'g \<Rightarrow> (address \<times> 'c) \<times> 'g" where
  "managed_disconnect Z x =
     (case x of ((a, c), g) \<Rightarrow> let (c', g') = co_disconnect (cc_class (z_conn Z)) (c, g) in ((a, c'), g'))"

definition disconnect_managed :: "('c, 'd, 'g) sentinel_class \<Rightarrow> nat \<Rightarrow> (('c, 'd, 'g) sentinel_pool, unit) io" where
  "disconnect_managed Z i = io_upd (\<lambda>s. s\<lparr>sp_pool := conn_update i (managed_disconnect Z) (sp_pool s)\<rparr>)"

text \<open>A managed connection as the pool's own methods see it; connecting it needs the pool, see \<open>managed_connect\<close>.\<close>

definition managed_class :: "('c, 'd, 'g) sentinel_class \<Rightarrow> (address \<times> 'c, 'g) conn_class" where
  "managed_class Z =
     (let K = cc_class (z_conn Z) in
      \<lparr> co_new = (\<lambda>g pid. case co_new K g pid of (Inl e, g') \<Rightarrow> (Inl e, g') | (Inr c, g') \<Rightarrow> (Inr (z_default_address Z, c), g')),
        co_pid = (\<lambda>(a, c). co_pid K c),
        co_connect = io_raise (attr_error PNone), co_can_read = inherited (co_can_read K), co_disconnect = managed_disconnect Z,
        co_re_auth = inherited (co_re_auth K), co_set_retry = (\<lambda>r (a, c). (a, co_set_retry K r c)),
        co_kwargs_retry = co_kwargs_retry K, co_auth = (\<lambda>t. inherited (co_auth K t)), co_set_token = (\<lambda>t (a, c). (a, co_set_token K t c)) \<rparr>)"

text \<open>A command of the client of sentinel \<open>k\<close>.\<close>

definition ask_sentinel :: "('c, 'd, 'g) sentinel_class \<Rightarrow> nat \<Rightarrow> pyval list \<Rightarrow> (('c, 'd, 'g) sentinel_pool, pyval) io" where
  "ask_sentinel Z k args s =
     (let R = sentinel_client s k in
      case execute_command (z_client Z k) args no_opts (R\<lparr>r_pool := (r_pool R)\<lparr>shared := shared (sp_pool s)\<rparr>\<rparr>) of
        None \<Rightarrow> None
      | Some (x, R') \<Rightarrow>
          Some (x, s\<lparr>sentinel_client := (sentinel_client s)(k := R'), sp_pool := (sp_pool s)\<lparr>shared := shared (r_pool R')\<rparr>\<rparr>))"

definition sp_randbelow :: "('c, 'd, 'g) sentinel_class \<Rightarrow> nat \<Rightarrow> (('c, 'd, 'g) sentinel_pool, nat) io" where
  "sp_randbelow Z n s =
     (let (k, g) = z_randbelow Z n (shared (sp_pool s)) in Some (Inr k, s\<lparr>sp_pool := (sp_pool s)\<lparr>shared := g\<rparr>\<rparr>))"

section \<open>Sentinel\<close>

primrec tell_sentinels :: "('c, 'd, 'g) sentinel_class \<Rightarrow> nat list \<Rightarrow> pyval list \<Rightarrow> (('c, 'd, 'g) sentinel_pool, unit) io" where
  "tell_sentinels Z [] args = io_ret ()"
| "tell_sentinels Z (k # ks) args = io_seq (io_bind (ask_sentinel Z k args) (\<lambda>_. io_ret ())) (tell_sentinels Z ks args)"

text \<open>\<open>Sentinel.execute_command\<close>: the replies are not returned.\<close>

definition sentinel_execute_command ::
  "('c, 'd, 'g) sentinel_class \<Rightarrow> pyval list \<Rightarrow> bool \<Rightarrow> (('c, 'd, 'g) sentinel_pool, pyval) io" where
  "sentinel_execute_command Z args once =
     io_get (\<lambda>s.
       io_seq
         (if once
          then (if sentinels s = [] then io_raise index_error
                else io_bind (sp_randbelow Z (length (sentinels s))) (\<lambda>i.
                  io_bind (io_lift (nth_item (sentinels s) (int i))) (\<lambda>k. tell_sentinels Z [k] args)))
          else tell_sentinels Z (sentinels s) args)
         (io_ret (PBool True)))"

definition num_less :: "pyval \<Rightarrow> int \<Rightarrow> bool res" where
  "num_less v n = (case v of PInt i \<Rightarrow> Inr (i < n) | PBool b \<Rightarrow> Inr ((if b then 1 else 0) < n) | _ \<Rightarrow> Inl (type_error v))"

definition check_master_state :: "('c, 'd, 'g) sentinel_class \<Rightarrow> pyval \<Rightarrow> bool res" where
  "check_master_state Z state =
     res_bind (getkey state ''is_master'') (\<lambda>m.
       if \<not> truthy m then Inr False
       else res_bind (getkey state ''is_sdown'') (\<lambda>sd.
         if truthy sd then Inr False
         else res_bind (getkey state ''is_odown'') (\<lambda>od.
           if truthy od then Inr False
           else res_bind (res_bind (getkey state ''num-other-sentinels'') (\<lambda>n. num_less n (z_min_other_sentinels Z)))
             (\<lambda>few. Inr (\<not> few)))))"

text \<open>\<open>masters.get(service_name)\<close>, when the master is usable.\<close>

definition master_of_reply :: "('c, 'd, 'g) sentinel_class \<Rightarrow> pyval \<Rightarrow> pyval \<Rightarrow> pyval option res" where
  "master_of_reply Z service masters =
     res_bind (items_of masters) (\<lambda>d.
       if \<not> hashable service then Inl (type_error service) else
       case dict_get d service of
         None \<Rightarrow> Inr None
       | Some state \<Rightarrow>
           if \<not> truthy state then Inr None
           else res_map (\<lambda>ok. if ok then Some state else None) (check_master_state Z state))"

definition address_of_state :: "('c, 'd, 'g) sentinel_class \<Rightarrow> pyval \<Rightarrow> address res" where
  "address_of_state Z state =
     res_bind (if z_force_master_ip Z \<noteq> PNone then Inr (z_force_master_ip Z) else getkey state ''ip'') (\<lambda>ip.
       res_map (\<lambda>port. (ip, port)) (getkey state ''port''))"

definition no_master :: "('c, 'd, 'g) sentinel_class \<Rightarrow> pyval \<Rightarrow> string list \<Rightarrow> exc" where
  "no_master Z service errors =
     Exc MasterNotFoundError (''No master found for '' @ z_repr Z service @ (if errors = [] then [] else '' : '' @ join '', '' errors))"

text \<open>The sentinel that answered is exchanged with the first one, before the address is read from its reply.\<close>

definition promote_sentinel :: "nat \<Rightarrow> ('c, 'd, 'g) sentinel_pool \<Rightarrow> ('c, 'd, 'g) sentinel_pool" where
  "promote_sentinel i s = s\<lparr>sentinels := (sentinels s)[i := hd (sentinels s), 0 := sentinels s ! i]\<rparr>"

primrec discover_master_from ::
  "('c, 'd, 'g) sentinel_class \<Rightarrow> pyval \<Rightarrow> nat \<Rightarrow> nat list \<Rightarrow> string list \<Rightarrow> (('c, 'd, 'g) sentinel_pool, address) io" where
  "discover_master_from Z service i [] errors = io_raise (no_master Z service errors)"
| "discover_master_from Z service i (k # ks) errors =
     io_bind
       (io_try (io_bind (ask_sentinel Z k [PStr ''SENTINEL MASTERS'']) (\<lambda>v. io_ret (Inr v)))
         (\<lambda>e. if is_exc e ConnectionError \<or> is_exc e TimeoutError then io_ret (Inl e) else io_raise e))
       (\<lambda>r. case r of
          Inl e \<Rightarrow> discover_master_from Z service (Suc i) ks (errors @ [z_error_text Z k e])
        | Inr masters \<Rightarrow>
            io_bind (io_lift (master_of_reply Z service masters)) (\<lambda>st. case st of
               None \<Rightarrow> discover_master_from Z service (Suc i) ks errors
             | Some state \<Rightarrow> io_seq (io_upd (promote_sentinel i)) (io_lift (address_of_state Z state))))"

definition discover_master :: "('c, 'd, 'g) sentinel_class \<Rightarrow> pyval \<Rightarrow> (('c, 'd, 'g) sentinel_pool, address) io" where
  "discover_master Z service = io_get (\<lambda>s. discover_master_from Z service 0 (sentinels s) [])"

primrec filter_slaves :: "pyval list \<Rightarrow> address list res" where
  "filter_slaves [] = Inr []"
| "filter_slaves (v # vs) =
     res_bind (getkey v ''is_odown'') (\<lambda>od.
     res_bind (if truthy od then Inr True else res_map truthy (getkey v ''is_sdown'')) (\<lambda>down.
       if down then filter_slaves vs
       else res_bind (getkey v ''ip'') (\<lambda>ip. res_bind (getkey v ''port'') (\<lambda>port. res_map (Cons (ip, port)) (filter_slaves vs)))))"

primrec discover_slaves_from ::
  "('c, 'd, 'g) sentinel_class \<Rightarrow> pyval \<Rightarrow> nat list \<Rightarrow> (('c, 'd, 'g) sentinel_pool, address list) io" where
  "discover_slaves_from Z service [] = io_ret []"
| "discover_slaves_from Z service (k # ks) =
     io_bind
       (io_try (io_bind (ask_sentinel Z k [PStr ''SENTINEL SLAVES'', service]) (\<lambda>v. io_ret (Some v)))
         (\<lambda>e. if is_exc e ConnectionError \<or> is_exc e ResponseError \<or> is_exc e TimeoutError then io_ret None else io_raise e))
       (\<lambda>r. case r of
          None \<Rightarrow> discover_slaves_from Z service ks
        | Some v \<Rightarrow>
            io_bind (io_lift (res_bind (iterate v) filter_slaves)) (\<lambda>slaves.
              if slaves \<noteq> [] then io_ret slaves else discover_slaves_from Z service ks))"

definition discover_slaves :: "('c, 'd, 'g) sentinel_class \<Rightarrow> pyval \<Rightarrow> (('c, 'd, 'g) sentinel_pool, address list) io" where
  "discover_slaves Z service = io_get (\<lambda>s. discover_slaves_from Z service (sentinels s))"

text \<open>\<open>master_for\<close> and \<open>slave_for\<close>: the arguments of the pool.\<close>

definition service_kwargs :: "bool \<Rightarrow> (string \<times> pyval) list \<Rightarrow> (string \<times> pyval) list \<Rightarrow> (string \<times> pyval) list" where
  "service_kwargs master connection_kwargs kwargs =
     foldl (\<lambda>d (k, v). AList.update k v d) connection_kwargs (AList.update ''is_master'' (PBool master) kwargs)"

section \<open>The pool\<close>

definition sp_reset :: "('c, 'd, 'g) sentinel_pool \<Rightarrow> ('c, 'd, 'g) sentinel_pool" where
  "sp_reset s = s\<lparr>sp_pool := pool_reset (sp_pool s), master_address := None, slave_rr_counter := None\<rparr>"

definition sp_checkpid :: "(('c, 'd, 'g) sentinel_pool, unit) io" where
  "sp_checkpid s =
     (if pool_pid (sp_pool s) \<noteq> getpid (sp_pool s)
      then if \<not> fork_lock_free (sp_pool s) then Some (Inl (Exc ChildDeadlockedError []), s)
           else Some (Inr (), sp_reset s)
      else Some (Inr (), s))"

definition sp_disconnect :: "('c, 'd, 'g) sentinel_class \<Rightarrow> bool \<Rightarrow> (('c, 'd, 'g) sentinel_pool, unit) io" where
  "sp_disconnect Z inuse_connections =
     io_seq sp_checkpid (io_upd (\<lambda>s. s\<lparr>sp_pool :=
       conns_update (if inuse_connections then available (sp_pool s) @ in_use (sp_pool s) else available (sp_pool s))
         (managed_disconnect Z) (sp_pool s)\<rparr>))"

definition get_master_address :: "('c, 'd, 'g) sentinel_class \<Rightarrow> (('c, 'd, 'g) sentinel_pool, address) io" where
  "get_master_address Z =
     io_get (\<lambda>s. io_bind (discover_master Z (service_name s)) (\<lambda>a.
       io_get (\<lambda>s.
         io_seq
           (io_when (is_master s \<and> master_address s \<noteq> Some a)
             (io_seq (io_upd (\<lambda>s. s\<lparr>master_address := Some a\<rparr>)) (sp_disconnect Z False)))
           (io_ret a))))"

section \<open>Connecting\<close>

definition managed_read :: "('c, 'd, 'g) sentinel_class \<Rightarrow> nat \<Rightarrow> ('c \<times> 'g, pyval) io \<Rightarrow> (('c, 'd, 'g) sentinel_pool, pyval) io" where
  "managed_read Z i read =
     io_try (on_managed i read)
       (\<lambda>e. io_get (\<lambda>s.
          if is_exc e ReadOnlyError \<and> is_master s
          then io_seq (disconnect_managed Z i) (io_raise (Exc ConnectionError ''The previous master is now a slave''))
          else io_raise e))"

definition connect_to :: "('c, 'd, 'g) sentinel_class \<Rightarrow> nat \<Rightarrow> address \<Rightarrow> (('c, 'd, 'g) sentinel_pool, unit) io" where
  "connect_to Z i a =
     io_seq (io_upd (\<lambda>s. s\<lparr>sp_pool := conn_update i (\<lambda>((_, c), g). ((a, c), g)) (sp_pool s)\<rparr>))
       (io_seq (on_managed i (co_connect (cc_class (z_conn Z))))
         (io_get (\<lambda>s. io_when (check_connection s)
           (io_seq (on_managed i (cc_send (z_conn Z) [PStr ''PING''] no_opts))
             (io_bind (managed_read Z i (cc_read (z_conn Z) False)) (\<lambda>v.
               if str_if_bytes v \<noteq> PStr ''PONG'' then io_raise (Exc ConnectionError ''PING failed'') else io_ret ()))))))"

definition no_slave :: "('c, 'd, 'g) sentinel_class \<Rightarrow> pyval \<Rightarrow> exc" where
  "no_slave Z service = Exc SlaveNotFoundError (''No slave found for '' @ z_repr Z service)"

text \<open>What is tried last: the master.\<close>

definition try_master :: "('c, 'd, 'g) sentinel_class \<Rightarrow> nat \<Rightarrow> (('c, 'd, 'g) sentinel_pool, unit) io" where
  "try_master Z i =
     io_get (\<lambda>s.
     io_bind
       (io_try (io_bind (get_master_address Z) (\<lambda>a. io_ret (Some a)))
         (\<lambda>e. if is_exc e MasterNotFoundError then io_ret None else io_raise e))
       (\<lambda>r. case r of
          None \<Rightarrow> io_raise (no_slave Z (service_name s))
        | Some a \<Rightarrow> io_try (connect_to Z i a)
            (\<lambda>e. io_raise (if is_exc e ConnectionError then no_slave Z (service_name s) else e))))"

text \<open>The loop over \<open>rotate_slaves\<close>: \<open>n\<close> slaves are left to try.\<close>

primrec try_slaves :: "('c, 'd, 'g) sentinel_class \<Rightarrow> nat \<Rightarrow> address list \<Rightarrow> nat \<Rightarrow> (('c, 'd, 'g) sentinel_pool, unit) io" where
  "try_slaves Z i slaves 0 = try_master Z i"
| "try_slaves Z i slaves (Suc n) =
     io_get (\<lambda>s.
       let k = ((case slave_rr_counter s of None \<Rightarrow> 0 | Some k \<Rightarrow> k) + 1) mod length slaves in
       io_seq (io_upd (\<lambda>s. s\<lparr>slave_rr_counter := Some k\<rparr>))
         (io_try (connect_to Z i (slaves ! k))
           (\<lambda>e. if is_exc e ConnectionError then try_slaves Z i slaves n else io_raise e)))"

definition connect_slave :: "('c, 'd, 'g) sentinel_class \<Rightarrow> nat \<Rightarrow> (('c, 'd, 'g) sentinel_pool, unit) io" where
  "connect_slave Z i =
     io_get (\<lambda>s. io_bind (discover_slaves Z (service_name s)) (\<lambda>slaves.
       if slaves = [] then try_master Z i
       else
         io_seq
           (io_get (\<lambda>s. io_when (slave_rr_counter s = None)
             (io_bind (sp_randbelow Z (length slaves)) (\<lambda>k. io_upd (\<lambda>s. s\<lparr>slave_rr_counter := Some k\<rparr>)))))
           (try_slaves Z i slaves (length slaves))))"

definition connect_retry :: "('c, 'd, 'g) sentinel_class \<Rightarrow> nat \<Rightarrow> (('c, 'd, 'g) sentinel_pool, unit) io" where
  "connect_retry Z i =
     io_get (\<lambda>s.
       if z_connected Z (snd (objs (sp_pool s) i)) then io_ret ()
       else if is_master s then io_bind (get_master_address Z) (connect_to Z i)
       else connect_slave Z i)"

definition managed_get :: "nat \<Rightarrow> ('c \<times> 'g \<Rightarrow> 'a \<times> 'c \<times> 'g) \<Rightarrow> ('c, 'd, 'g) sentinel_pool \<Rightarrow> 'a \<times> ('c, 'd, 'g) sentinel_pool" where
  "managed_get i f s =
     (let p = sp_pool s; (x, c, g) = f (snd (objs p i), shared p) in
      (x, s\<lparr>sp_pool := p\<lparr>objs := (objs p)(i := (fst (objs p i), c)), shared := g\<rparr>\<rparr>))"

text \<open>\<open>connect\<close>: \<open>self.retry.call_with_retry(self._connect_retry, lambda error: None)\<close>\<close>

definition managed_connect :: "('c, 'd, 'g) sentinel_class \<Rightarrow> nat \<Rightarrow> (('c, 'd, 'g) sentinel_pool, unit) io" where
  "managed_connect Z i s =
     (let C = z_conn Z in
      case call_with_retry (connect_retry Z i) (\<lambda>_. io_ret ()) (managed_get i (cc_random C))
          (\<lambda>t s. snd (managed_get i (\<lambda>cg. ((), cc_sleep C t cg)) s)) (cc_retry C (snd (objs (sp_pool s) i))) s of
        None \<Rightarrow> None
      | Some (r, rt, s') \<Rightarrow> Some (r, snd (managed_get i (\<lambda>(c, g). ((), cc_put_retry C rt c, g)) s')))"

section \<open>Taking and giving back\<close>

definition sp_owns_connection :: "('c, 'd, 'g) sentinel_class \<Rightarrow> ('c, 'd, 'g) sentinel_pool \<Rightarrow> nat \<Rightarrow> bool" where
  "sp_owns_connection Z s i \<longleftrightarrow>
     (\<not> is_master s \<or> master_address s = Some (fst (objs (sp_pool s) i))) \<and> owns_connection (managed_class Z) (sp_pool s) i"

definition sp_put :: "('c, 'd, 'g) sentinel_class \<Rightarrow> nat \<Rightarrow> (('c, 'd, 'g) sentinel_pool, unit) io" where
  "sp_put Z i s =
     (if i \<notin> set (in_use (sp_pool s)) then Some (Inr (), s)
      else let s1 = s\<lparr>sp_pool := (sp_pool s)\<lparr>in_use := removeAll i (in_use (sp_pool s))\<rparr>\<rparr> in
        if sp_owns_connection Z s1 i
        then on_managed i (co_re_auth (cc_class (z_conn Z)))
               (s1\<lparr>sp_pool := (sp_pool s1)\<lparr>available := available (sp_pool s1) @ [i]\<rparr>\<rparr>)
        else disconnect_managed Z i s1)"

definition sp_release :: "('c, 'd, 'g) sentinel_class \<Rightarrow> nat \<Rightarrow> (('c, 'd, 'g) sentinel_pool, unit) io" where
  "sp_release Z i = io_seq sp_checkpid (sp_put Z i)"

definition sp_ensure_ready :: "('c, 'd, 'g) sentinel_class \<Rightarrow> bool \<Rightarrow> nat \<Rightarrow> (('c, 'd, 'g) sentinel_pool, unit) io" where
  "sp_ensure_ready Z no_cache i =
     (let K = cc_class (z_conn Z) in
      io_seq (managed_connect Z i)
        (io_try
          (io_bind (on_managed i (co_can_read K)) (\<lambda>b.
             if b \<and> no_cache then io_raise (Exc ConnectionError ''Connection has data'') else io_ret ()))
          (\<lambda>e.
             if is_exc e ConnectionError \<or> is_exc e TimeoutError \<or> is_exc e PyOSError
             then io_seq (disconnect_managed Z i)
                    (io_seq (managed_connect Z i)
                      (io_bind (on_managed i (co_can_read K)) (\<lambda>b.
                         if b then io_raise (Exc ConnectionError ''Connection not ready'') else io_ret ())))
             else io_raise e)))"

definition sp_get_connection :: "('c, 'd, 'g) sentinel_class \<Rightarrow> (('c, 'd, 'g) sentinel_pool, nat) io" where
  "sp_get_connection Z =
     io_seq sp_checkpid (io_bind (on_spool (pool_take (managed_class Z))) (\<lambda>i.
       io_seq
         (io_get (\<lambda>s. io_try (sp_ensure_ready Z (\<not> has_cache (sp_pool s)) i)
            (\<lambda>e. io_seq (sp_release Z i) (io_raise e))))
         (io_ret i)))"

end
