(* ===== verification/Sentinel_Spec.thy ===== *)
theory Sentinel_Spec
  imports Sentinel "HOL-Library.Multiset"
begin

text \<open>
  What the sentinel client promises.

  The pool of a master: an idle connection that is connected is connected to the address the pool has for the master
  (\<open>at_master\<close>), after any sequence of calls.  The locale \<open>sentinel_connections\<close> states the one law of the connection class this rests on;
  the TCP connection of the model satisfies it.  Discovery: the address is that of a master some sentinel vouches for.
\<close>

section \<open>Idle connections\<close>

definition at_master :: "('c, 'd, 'g) sentinel_class \<Rightarrow> ('c, 'd, 'g) sentinel_pool \<Rightarrow> bool" where
  "at_master Z s \<longleftrightarrow> (is_master s \<and> pool_pid (sp_pool s) = getpid (sp_pool s) \<longrightarrow>
     (\<forall>i \<in> set (available (sp_pool s)). z_connected Z (snd (objs (sp_pool s) i)) \<longrightarrow> master_address s = Some (fst (objs (sp_pool s) i))))"

definition sp_inv :: "('c, 'd, 'g) sentinel_class \<Rightarrow> ('c, 'd, 'g) sentinel_pool \<Rightarrow> bool" where
  "sp_inv Z s \<longleftrightarrow> pool_inv (sp_pool s) \<and> at_master Z s"

text \<open>What the work on connection \<open>i\<close> keeps.\<close>

definition calm :: "('c, 'd, 'g) sentinel_class \<Rightarrow> nat \<Rightarrow> ('c, 'd, 'g) sentinel_pool \<Rightarrow> ('c, 'd, 'g) sentinel_pool \<Rightarrow> bool" where
  "calm Z i s s' \<longleftrightarrow> is_master s' = is_master s \<and> (pool_inv (sp_pool s) \<longrightarrow> pool_inv (sp_pool s')) \<and>
     (available (sp_pool s') = available (sp_pool s) \<and> in_use (sp_pool s') = in_use (sp_pool s) \<or>
      available (sp_pool s') = [] \<and> in_use (sp_pool s') = []) \<and>
     (i \<notin> set (available (sp_pool s)) \<longrightarrow> at_master Z s \<longrightarrow> at_master Z s')"

lemma calm_rel: "reflp (calm Z i)" "transp (calm Z i)"
proof -
  show "reflp (calm Z i)" by (simp add: reflp_def calm_def)
  show "transp (calm Z i)"
  proof (rule transpI)
    fix a b c assume ab: "calm Z i a b" and bc: "calm Z i b c"
    have "i \<notin> set (available (sp_pool a)) \<Longrightarrow> i \<notin> set (available (sp_pool b))" using ab by (auto simp: calm_def)
    then show "calm Z i a c" using ab bc unfolding calm_def by metis
  qed
qed

lemma calm_same:
  assumes "is_master s' = is_master s" "master_address s' = master_address s" "pool_same (sp_pool s) (sp_pool s')"
    "\<forall>j. j \<noteq> i \<longrightarrow> objs (sp_pool s') j = objs (sp_pool s) j"
  shows "calm Z i s s'"
proof -
  have "at_master Z s \<Longrightarrow> i \<notin> set (available (sp_pool s)) \<Longrightarrow> at_master Z s'"
    using assms unfolding at_master_def pool_same_def by metis
  then show ?thesis using assms pool_same_inv by (auto simp: calm_def pool_same_def)
qed

lemma on_managed_calm: "io_pres (calm Z i) (on_managed i m)"
  unfolding io_pres_def on_managed_def on_spool_def
  by (auto split: option.splits dest!: on_conn_same intro!: calm_same)

lemma conn_update_calm: "calm Z i s (s\<lparr>sp_pool := conn_update i f (sp_pool s)\<rparr>)"
  by (rule calm_same) (auto simp: pool_same_def conn_update_def split: prod.splits)

lemma managed_get_calm: "calm Z i s (snd (managed_get i f s))"
  by (rule calm_same) (auto simp: managed_get_def pool_same_def Let_def split: prod.splits)

lemma ask_sentinel_calm: "io_pres (calm Z i) (ask_sentinel Z k args)"
  unfolding io_pres_def ask_sentinel_def
  by (auto simp: Let_def pool_same_def split: option.splits intro!: calm_same)

lemma randbelow_calm: "io_pres (calm Z i) (sp_randbelow Z n)"
  unfolding io_pres_def sp_randbelow_def
  by (auto simp: Let_def pool_same_def split: prod.splits intro!: calm_same)

lemma sp_checkpid_calm: "io_pres (calm Z i) sp_checkpid"
  unfolding io_pres_def sp_checkpid_def
  using calm_rel(1) by (auto simp: sp_reset_def pool_reset_def calm_def at_master_def pool_inv_def reflp_def split: if_splits)

lemmas calm_rules = calm_rel io_pres_bind io_pres_seq io_pres_get io_pres_upd io_pres_when io_pres_try io_pres_ret io_pres_raise
  io_pres_lift io_pres_if on_managed_calm ask_sentinel_calm randbelow_calm

lemma discover_master_calm: "io_pres (calm Z i) (discover_master Z service)"
proof -
  have p: "calm Z i s (promote_sentinel n s)" for n s
    by (rule calm_same) (simp_all add: promote_sentinel_def)
  have "io_pres (calm Z i) (discover_master_from Z service n ks errors)" for n ks errors
    by (induction ks arbitrary: n errors) (auto intro!: calm_rules p split: sum.split option.split)
  then show ?thesis unfolding discover_master_def by (intro io_pres_get)
qed

lemma discover_slaves_calm: "io_pres (calm Z i) (discover_slaves Z service)"
proof -
  have "io_pres (calm Z i) (discover_slaves_from Z service ks)" for ks
    by (induction ks) (auto intro!: calm_rules split: option.split)
  then show ?thesis unfolding discover_slaves_def by (intro io_pres_get)
qed

section \<open>The law of the connection class\<close>

locale sentinel_connections =
  fixes Z :: "('c, 'd, 'g) sentinel_class"
  assumes closes: "\<not> z_connected Z (fst (co_disconnect (cc_class (z_conn Z)) (c, g)))"
begin

lemma disconnect_closes: "\<not> z_connected Z (snd (fst (managed_disconnect Z x)))"
  using closes by (auto simp: managed_disconnect_def split: prod.splits) (metis fst_conv)

lemma conn_update_closes:
  "\<not> z_connected Z (snd (objs (conn_update j (managed_disconnect Z) p) j))"
  using disconnect_closes [of "(objs p j, shared p)"] by (auto simp: conn_update_def split: prod.splits)

lemma conns_update_closes:
  "j \<in> set js \<or> \<not> z_connected Z (snd (objs p j)) \<Longrightarrow> \<not> z_connected Z (snd (objs (conns_update js (managed_disconnect Z) p) j))"
proof (induction js arbitrary: p)
  case (Cons k js)
  have "j = k \<or> objs (conn_update k (managed_disconnect Z) p) j = objs p j"
    by (auto simp: conn_update_def split: prod.splits)
  then have "j \<in> set js \<or> \<not> z_connected Z (snd (objs (conn_update k (managed_disconnect Z) p) j))"
    using Cons.prems conn_update_closes [of k p] by auto
  then show ?case using Cons.IH by simp
qed simp

lemma disconnect_idle:
  assumes "sp_disconnect Z b s = Some (r, s')"
  shows "is_master s' = is_master s \<and> (pool_inv (sp_pool s) \<longrightarrow> pool_inv (sp_pool s')) \<and>
    (available (sp_pool s') = available (sp_pool s) \<and> in_use (sp_pool s') = in_use (sp_pool s) \<or>
     available (sp_pool s') = [] \<and> in_use (sp_pool s') = []) \<and> at_master Z s'"
proof -
  let ?upd = "\<lambda>s. s\<lparr>sp_pool :=
       conns_update (if b then available (sp_pool s) @ in_use (sp_pool s) else available (sp_pool s)) (managed_disconnect Z) (sp_pool s)\<rparr>"
  have upd: "pool_same (sp_pool t) (sp_pool (?upd t)) \<and> at_master Z (?upd t)" for t :: "('c, 'd, 'g) sentinel_pool"
  proof -
    have same: "pool_same (sp_pool t) (sp_pool (?upd t))" by (simp add: conns_update_same)
    moreover have "\<not> z_connected Z (snd (objs (sp_pool (?upd t)) j))" if "j \<in> set (available (sp_pool t))" for j
      using that conns_update_closes [of j "if b then available (sp_pool t) @ in_use (sp_pool t) else available (sp_pool t)" "sp_pool t"] by simp
    ultimately show ?thesis unfolding at_master_def by (simp add: pool_same_def)
  qed
  consider (deadlock) e where "r = Inl e" "s' = s" "pool_pid (sp_pool s) \<noteq> getpid (sp_pool s)"
    | (reset) "s' = ?upd (sp_reset s)" | (same) "s' = ?upd s"
    using assms by (auto simp: sp_disconnect_def io_seq_def io_bind_def io_upd_def sp_checkpid_def split: if_splits)
  then show ?thesis
  proof cases
    case deadlock
    then show ?thesis by (simp add: at_master_def)
  next
    case reset
    then show ?thesis using upd [of "sp_reset s"] pool_same_inv [of "sp_pool (sp_reset s)" "sp_pool s'"]
      by (auto simp: sp_reset_def pool_reset_def pool_same_def pool_inv_def)
  next
    case same
    then show ?thesis using upd [of s] pool_same_inv [of "sp_pool s" "sp_pool s'"] by (auto simp: pool_same_def)
  qed
qed

lemma get_master_address_calm: "io_pres (calm Z i) (get_master_address Z)"
proof -
  have "calm Z i s s'"
    if "(io_seq (io_upd (\<lambda>s. s\<lparr>master_address := Some a\<rparr>)) (sp_disconnect Z False)) s = Some (r, s')" for s s' a r
    using disconnect_idle [of False "s\<lparr>master_address := Some a\<rparr>" r s'] that
    by (auto simp: io_seq_def io_bind_def io_upd_def calm_def)
  then have moved_to: "io_pres (calm Z i) (io_seq (io_upd (\<lambda>s. s\<lparr>master_address := Some a\<rparr>)) (sp_disconnect Z False))" for a
    unfolding io_pres_def by blast
  have "io_pres (calm Z i) (io_seq (io_when b (io_seq (io_upd (\<lambda>s. s\<lparr>master_address := Some a\<rparr>)) (sp_disconnect Z False))) (io_ret a))" for a b
    by (rule io_pres_seq, rule calm_rel, rule io_pres_when, rule calm_rel, rule moved_to, rule io_pres_ret, rule calm_rel)
  then show ?thesis unfolding get_master_address_def
    by (intro io_pres_get io_pres_bind calm_rel discover_master_calm)
qed

lemma connect_to_calm: "io_pres (calm Z i) (connect_to Z i a)"
  unfolding connect_to_def managed_read_def disconnect_managed_def
  by (intro calm_rules conn_update_calm)

lemma managed_connect_calm: "io_pres (calm Z i) (managed_connect Z i)"
proof -
  have m: "io_pres (calm Z i) (try_master Z i)"
    unfolding try_master_def by (auto intro!: calm_rules get_master_address_calm connect_to_calm split: option.split)
  have rr: "calm Z i s (s\<lparr>slave_rr_counter := k\<rparr>)" for s k
    by (rule calm_same) simp_all
  have "io_pres (calm Z i) (try_slaves Z i slaves n)" for slaves n
    by (induction n) (auto simp: Let_def intro!: calm_rules m connect_to_calm rr)
  then have "io_pres (calm Z i) (connect_slave Z i)"
    unfolding connect_slave_def by (auto intro!: calm_rules m discover_slaves_calm rr)
  then have r: "io_pres (calm Z i) (connect_retry Z i)"
    unfolding connect_retry_def by (intro calm_rules get_master_address_calm connect_to_calm)
  show ?thesis unfolding io_pres_def managed_connect_def Let_def
  proof (intro allI impI)
    fix s q s'
    let ?C = "z_conn Z"
    let ?loop = "call_with_retry (connect_retry Z i) (\<lambda>_. io_ret ()) (managed_get i (cc_random ?C))
          (\<lambda>t s. snd (managed_get i (\<lambda>cg. ((), cc_sleep ?C t cg)) s)) (cc_retry ?C (snd (objs (sp_pool s) i))) s"
    assume "(case ?loop of None \<Rightarrow> None | Some (r, rt, s') \<Rightarrow> Some (r, snd (managed_get i (\<lambda>(c, g). ((), cc_put_retry ?C rt c, g)) s')))
      = Some (q, s')"
    then obtain rt t where t: "?loop = Some (q, rt, t)" "s' = snd (managed_get i (\<lambda>(c, g). ((), cc_put_retry ?C rt c, g)) t)"
      by (auto split: option.splits)
    have "keeps (calm Z i) (connect_retry Z i) (\<lambda>_. io_ret ()) (managed_get i (cc_random ?C))
          (\<lambda>t s. snd (managed_get i (\<lambda>cg. ((), cc_sleep ?C t cg)) s))"
      using r by (simp add: keeps_def calm_rel managed_get_calm io_pres_ret)
    then have "calm Z i s t" using t(1) by (rule call_with_retry_keeps)
    then show "calm Z i s s'" unfolding t(2) by (rule transpD [OF calm_rel(2) _ managed_get_calm])
  qed
qed

lemma ensure_ready_calm: "io_pres (calm Z i) (sp_ensure_ready Z b i)"
  unfolding sp_ensure_ready_def disconnect_managed_def Let_def
  by (intro calm_rules managed_connect_calm conn_update_calm)

lemma calm_inv: "calm Z i s s' \<Longrightarrow> sp_inv Z s \<Longrightarrow> i \<notin> set (available (sp_pool s)) \<Longrightarrow> sp_inv Z s' \<and> i \<notin> set (available (sp_pool s'))"
  by (auto simp: calm_def sp_inv_def)

lemma sp_put_inv:
  assumes "sp_put Z i s = Some (r, s')" "sp_inv Z s"
  shows "sp_inv Z s'"
proof (cases "i \<in> set (in_use (sp_pool s))")
  case False
  then show ?thesis using assms by (simp add: sp_put_def)
next
  case True
  let ?s1 = "s\<lparr>sp_pool := (sp_pool s)\<lparr>in_use := removeAll i (in_use (sp_pool s))\<rparr>\<rparr>"
  let ?s2 = "?s1\<lparr>sp_pool := (sp_pool ?s1)\<lparr>available := available (sp_pool ?s1) @ [i]\<rparr>\<rparr>"
  have idle: "i \<notin> set (available (sp_pool s))" and inv: "pool_inv (sp_pool s)" "at_master Z s"
    using assms(2) True by (auto simp: sp_inv_def pool_inv_def)
  have len: "length (removeAll i (in_use (sp_pool s))) < length (in_use (sp_pool s))"
    using True by (rule length_removeAll_less)
  have s1: "sp_inv Z ?s1" using inv len by (auto simp: sp_inv_def pool_inv_def at_master_def distinct_removeAll)
  show ?thesis
  proof (cases "sp_owns_connection Z ?s1 i")
    case True
    have s2: "pool_inv (sp_pool ?s2)" "at_master Z ?s2"
      using inv len idle \<open>i \<in> set (in_use (sp_pool s))\<close> True
      by (auto simp: pool_inv_def at_master_def sp_owns_connection_def distinct_removeAll)
    have run: "on_managed i (co_re_auth (cc_class (z_conn Z))) ?s2 = Some (r, s')"
      using assms(1) True \<open>i \<in> set (in_use (sp_pool s))\<close> by (simp add: sp_put_def Let_def)
    then have "pool_same (sp_pool ?s2) (sp_pool s')" "\<forall>j. fst (objs (sp_pool s') j) = fst (objs (sp_pool ?s2) j)"
      "\<forall>j. j \<noteq> i \<longrightarrow> objs (sp_pool s') j = objs (sp_pool ?s2) j" "is_master s' = is_master ?s2" "master_address s' = master_address ?s2"
      by (auto simp: on_managed_def on_spool_def on_conn_def inherited_def pool_same_def split: option.splits prod.splits)
    then show ?thesis using s2 True pool_same_inv [of "sp_pool ?s2" "sp_pool s'"]
      unfolding sp_inv_def at_master_def sp_owns_connection_def by (auto simp: pool_same_def)
  next
    case False
    then have "s' = ?s1\<lparr>sp_pool := conn_update i (managed_disconnect Z) (sp_pool ?s1)\<rparr>"
      using assms(1) \<open>i \<in> set (in_use (sp_pool s))\<close> by (simp add: sp_put_def Let_def disconnect_managed_def io_upd_def)
    then have "calm Z i ?s1 s'" using conn_update_calm [of Z i ?s1 "managed_disconnect Z"] by simp
    then show ?thesis using calm_inv s1 idle by simp
  qed
qed

lemma sp_checkpid_inv: "sp_checkpid s = Some (r, s') \<Longrightarrow> sp_inv Z s \<Longrightarrow> sp_inv Z s'"
  by (auto simp: sp_checkpid_def sp_reset_def pool_reset_def sp_inv_def at_master_def pool_inv_def split: if_splits)

lemma sp_release_inv: "sp_release Z i s = Some (r, s') \<Longrightarrow> sp_inv Z s \<Longrightarrow> sp_inv Z s'"
  unfolding sp_release_def io_seq_def by (auto elim!: io_bind_SomeE dest: sp_checkpid_inv sp_put_inv)

lemma sp_take_inv:
  assumes "on_spool (pool_take (managed_class Z)) s = Some (r, s')" "sp_inv Z s"
  shows "sp_inv Z s' \<and> (\<forall>i. r = Inr i \<longrightarrow> i \<notin> set (available (sp_pool s')))"
proof -
  obtain p where p: "pool_take (managed_class Z) (sp_pool s) = Some (r, p)" "s' = s\<lparr>sp_pool := p\<rparr>"
    using assms(1) by (auto simp: on_spool_def split: option.splits)
  have inv: "pool_inv (sp_pool s)" "at_master Z s" using assms(2) by (simp_all add: sp_inv_def)
  have "pool_inv p" using pool_take_inv p(1) inv(1) by blast
  moreover have "at_master Z s' \<and> (\<forall>i. r = Inr i \<longrightarrow> i \<notin> set (available p))"
    using p(1)
  proof (cases rule: pool_take_cases)
    case (reused c)
    have "c \<notin> set (butlast (available (sp_pool s)))" and sub: "set (butlast (available (sp_pool s))) \<subseteq> set (available (sp_pool s))"
      using inv(1) reused(1,2) by (auto simp: pool_inv_def append_butlast_last_id dest: in_set_butlastD)
        (metis append_butlast_last_id distinct_append not_distinct_conv_prefix distinct_butlast)
    then show ?thesis using reused inv(2) p(2) by (auto simp: at_master_def)
  qed (use inv(2) p(2) in \<open>auto simp: at_master_def\<close>)
  ultimately show ?thesis using p(2) by (simp add: sp_inv_def)
qed

lemma sp_get_connection_inv:
  assumes "sp_get_connection Z s = Some (r, s')" "sp_inv Z s"
  shows "sp_inv Z s'"
proof -
  have ready: "sp_inv Z b" if run: "io_get (\<lambda>s. io_try (sp_ensure_ready Z (\<not> has_cache (sp_pool s)) i)
            (\<lambda>e. io_seq (sp_release Z i) (io_raise e))) a = Some (q, b)"
      and a: "sp_inv Z a" "i \<notin> set (available (sp_pool a))" for a b q i
  proof -
    obtain x c where c: "sp_ensure_ready Z (\<not> has_cache (sp_pool a)) i a = Some (x, c)"
      and rest: "case x of Inl e \<Rightarrow> io_seq (sp_release Z i) (io_raise e) c = Some (q, b) | Inr _ \<Rightarrow> c = b"
    proof (cases "sp_ensure_ready Z (\<not> has_cache (sp_pool a)) i a")
      case (Some y)
      obtain x c where y: "y = (x, c)" by fastforce
      show thesis using run that Some y by (cases x) (auto simp: io_get_def io_try_def)
    qed (use run in \<open>simp add: io_get_def io_try_def\<close>)
    have "calm Z i a c" using ensure_ready_calm c unfolding io_pres_def by blast
    then have "sp_inv Z c" using calm_inv a by blast
    then show ?thesis using rest sp_release_inv
      by (cases x) (auto simp: io_seq_def io_raise_def elim!: io_bind_SomeE)
  qed
  show ?thesis using assms unfolding sp_get_connection_def io_seq_def
    by (auto simp: io_ret_def elim!: io_bind_SomeE dest!: sp_checkpid_inv sp_take_inv ready [unfolded io_seq_def])
qed

end

section \<open>Runs\<close>

text \<open>What may happen to a pool: calls on it, work on connections in use, other users of the manager, and forks (a new process
  has another number than the one that made the pool).\<close>

inductive sentinel_step :: "('c, 'd, 'g) sentinel_class \<Rightarrow> ('c, 'd, 'g) sentinel_pool \<Rightarrow> ('c, 'd, 'g) sentinel_pool \<Rightarrow> bool" for Z where
  step_get: "sp_get_connection Z s = Some (r, s') \<Longrightarrow> sentinel_step Z s s'"
| step_release: "sp_release Z i s = Some (r, s') \<Longrightarrow> sentinel_step Z s s'"
| step_disconnect: "sp_disconnect Z b s = Some (r, s') \<Longrightarrow> sentinel_step Z s s'"
| step_use: "i \<in> set (in_use (sp_pool s)) \<Longrightarrow> on_managed i m s = Some (r :: exc + pyval, s') \<Longrightarrow> sentinel_step Z s s'"
| step_read: "i \<in> set (in_use (sp_pool s)) \<Longrightarrow> managed_read Z i m s = Some (r, s') \<Longrightarrow> sentinel_step Z s s'"
| step_connect: "i \<in> set (in_use (sp_pool s)) \<Longrightarrow> managed_connect Z i s = Some (r, s') \<Longrightarrow> sentinel_step Z s s'"
| step_master: "discover_master Z service s = Some (a, s') \<Longrightarrow> sentinel_step Z s s'"
| step_slaves: "discover_slaves Z service s = Some (l, s') \<Longrightarrow> sentinel_step Z s s'"
| step_fork: "n \<noteq> pool_pid (sp_pool s) \<Longrightarrow> sentinel_step Z s (s\<lparr>sp_pool := (sp_pool s)\<lparr>getpid := n, fork_lock_free := b\<rparr>\<rparr>)"

context sentinel_connections
begin

lemma sentinel_step_inv: "sentinel_step Z s s' \<Longrightarrow> sp_inv Z s \<Longrightarrow> sp_inv Z s'"
proof (induction rule: sentinel_step.induct)
  case (step_disconnect b s r s')
  then show ?case using disconnect_idle by (auto simp: sp_inv_def)
next
  case (step_use i s m r s')
  then have "calm Z i s s'" "i \<notin> set (available (sp_pool s))"
    using on_managed_calm [of Z i m] unfolding io_pres_def by (blast, auto simp: sp_inv_def pool_inv_def)
  then show ?case using calm_inv step_use by blast
next
  case (step_read i s m r s')
  have "io_pres (calm Z i) (managed_read Z i m)"
    unfolding managed_read_def disconnect_managed_def by (intro calm_rules conn_update_calm)
  then have "calm Z i s s'" "i \<notin> set (available (sp_pool s))"
    using step_read unfolding io_pres_def by (blast, auto simp: sp_inv_def pool_inv_def)
  then show ?case using calm_inv step_read by blast
next
  case (step_connect i s r s')
  then have "calm Z i s s'" "i \<notin> set (available (sp_pool s))"
    using managed_connect_calm [of i] unfolding io_pres_def by (blast, auto simp: sp_inv_def pool_inv_def)
  then show ?case using calm_inv step_connect by blast
next
  case (step_master service s a s')
  obtain i where i: "i \<notin> set (available (sp_pool s))" using infinite_UNIV_nat by (metis List.finite_set ex_new_if_finite)
  have "calm Z i s s'" using discover_master_calm step_master(1) unfolding io_pres_def by blast
  then show ?case using calm_inv i step_master(2) by blast
next
  case (step_slaves service s l s')
  obtain i where i: "i \<notin> set (available (sp_pool s))" using infinite_UNIV_nat by (metis List.finite_set ex_new_if_finite)
  have "calm Z i s s'" using discover_slaves_calm step_slaves(1) unfolding io_pres_def by blast
  then show ?case using calm_inv i step_slaves(2) by blast
next
  case (step_fork n s b)
  then show ?case by (simp add: sp_inv_def at_master_def pool_inv_def)
qed (auto intro: sp_get_connection_inv sp_release_inv)

lemma sentinel_run_inv: "(sentinel_step Z)\<^sup>*\<^sup>* s s' \<Longrightarrow> sp_inv Z s \<Longrightarrow> sp_inv Z s'"
  by (induction rule: rtranclp_induct) (auto intro: sentinel_step_inv)

end

section \<open>The TCP connection\<close>

definition tcp_client ::
  "unit conn_env \<Rightarrow> conn_args \<Rightarrow> (nat \<Rightarrow> (exc + dial_attempt list) list \<times> send_event list) \<Rightarrow> pylib \<Rightarrow>
    (conn, nat \<times> retry option) client_class" where
  "tcp_client env args net lib =
     \<lparr> cc_class = tcp_class env args net,
        cc_send = (\<lambda>xs _. (\<lambda>(c, g). map_option (map_prod id (\<lambda>c'. (c', g))) (conn_send_command env xs True c))),
        cc_read = (\<lambda>dd. (\<lambda>(c, g). map_option (map_prod id (\<lambda>c'. (c', g))) (conn_read_response env dd False False c))),
        cc_pack_commands = (\<lambda>cmds. (\<lambda>(c, g). Some (pack_commands (e_encoder env) (c_buffer_cutoff c) cmds, (c, g)))),
        cc_send_packed = (\<lambda>xs. (\<lambda>(c, g). map_option (map_prod id (\<lambda>c'. (c', g))) (conn_send_packed_command env xs True c))),
        cc_retry = c_retry, cc_put_retry = (\<lambda>r c. c\<lparr>c_retry := r\<rparr>), cc_retry_on_error = (\<lambda>_. a_retry_on_error args),
        cc_random = (\<lambda>(c, g). let (x, c') = conn_random env c in (x, c', g)), cc_sleep = (\<lambda>t (c, g). (conn_sleep t c, g)),
        cc_lib = lib, cc_shorten = id \<rparr>"

definition tcp_sentinel ::
  "unit conn_env \<Rightarrow> conn_args \<Rightarrow> (nat \<Rightarrow> (exc + dial_attempt list) list \<times> send_event list) \<Rightarrow> pylib \<Rightarrow>
    (conn, 'd, nat \<times> retry option) sentinel_class \<Rightarrow> (conn, 'd, nat \<times> retry option) sentinel_class" where
  "tcp_sentinel env args net lib Z = Z\<lparr>z_conn := tcp_client env args net lib, z_connected := (\<lambda>c. c_sock c \<noteq> None)\<rparr>"

interpretation tcp_managed: sentinel_connections "tcp_sentinel env args net lib Z" for env args net lib Z
  by unfold_locales (auto simp: tcp_sentinel_def tcp_client_def tcp_class_def conn_disconnect_def Let_def split: option.splits)

section \<open>Properties\<close>

text \<open>
  C26: the pool of a master keeps no connection to an old master.  After any sequence of calls, work on the connections in use, failovers the
  sentinels report, and forks, every idle connection of a pool made for the master of a service, if it is connected at all, is connected
  to the address the pool last learned for the master.
\<close>

theorem idle_connections_at_master:
  assumes "(sentinel_step (tcp_sentinel env args net lib Z))\<^sup>*\<^sup>* s\<^sub>0 s" "pool_inv (sp_pool s\<^sub>0)" "available (sp_pool s\<^sub>0) = []"
    and "is_master s" "pool_pid (sp_pool s) = getpid (sp_pool s)" "i \<in> set (available (sp_pool s))"
    and "c_sock (snd (objs (sp_pool s) i)) \<noteq> None"
  shows "master_address s = Some (fst (objs (sp_pool s) i))"
proof -
  have "sp_inv (tcp_sentinel env args net lib Z) s\<^sub>0" using assms(2,3) by (simp add: sp_inv_def at_master_def)
  then have "at_master (tcp_sentinel env args net lib Z) s"
    using tcp_managed.sentinel_run_inv [OF assms(1)] by (simp add: sp_inv_def)
  then show ?thesis using assms(4-) by (simp add: at_master_def tcp_sentinel_def)
qed

text \<open>A sentinel that always gives the same reply, and a pool for the master of the service \<open>m\<close>.\<close>

definition steady_client :: "pyval \<Rightarrow> (unit, 'g) client_class" where
  "steady_client v = \<lparr> cc_class = \<lparr> co_new = (\<lambda>g pid. (Inr (), g)), co_pid = (\<lambda>_. 1), co_connect = io_ret (), co_can_read = io_ret False,
       co_disconnect = id, co_re_auth = io_ret (), co_set_retry = (\<lambda>_. id), co_kwargs_retry = (\<lambda>_. id),
       co_auth = (\<lambda>_. io_ret ()), co_set_token = (\<lambda>_. id) \<rparr>,
     cc_send = (\<lambda>_ _. io_ret ()), cc_read = (\<lambda>_. io_ret v), cc_pack_commands = (\<lambda>_. io_ret []), cc_send_packed = (\<lambda>_. io_ret ()),
     cc_retry = (\<lambda>_. new_retry NoBackoff 0), cc_put_retry = (\<lambda>_. id), cc_retry_on_error = (\<lambda>_. []),
     cc_random = (\<lambda>s. (0, s)), cc_sleep = (\<lambda>_. id),
     cc_lib = \<lparr> to_float = (\<lambda>_. Inr PNone), trunc_float = (\<lambda>_. Inr 0), from_timestamp = (\<lambda>_. Inr PNone) \<rparr>, cc_shorten = id \<rparr>"

definition demo_masters :: pyval where
  "demo_masters = PDict [(PStr ''m'', obj [(''is_master'', PBool True), (''is_sdown'', PBool False), (''is_odown'', PBool False),
     (''num-other-sentinels'', PInt 2), (''ip'', PStr ''h''), (''port'', PInt 5)])]"

definition demo_sentinel :: "(conn, unit, nat \<times> retry option) sentinel_class" where
  "demo_sentinel = tcp_sentinel demo_env (demo_args (PInt 0) (PInt 2)) (\<lambda>_. ([Inr [AttemptOk [RecvTimeout]]], []))
     \<lparr> to_float = (\<lambda>_. Inr PNone), trunc_float = (\<lambda>_. Inr 0), from_timestamp = (\<lambda>_. Inr PNone) \<rparr>
     \<lparr> z_conn = tcp_client demo_env (demo_args (PInt 0) (PInt 2)) (\<lambda>_. ([], []))
          \<lparr> to_float = (\<lambda>_. Inr PNone), trunc_float = (\<lambda>_. Inr 0), from_timestamp = (\<lambda>_. Inr PNone) \<rparr>,
       z_connected = (\<lambda>_. False), z_default_address = (PStr ''localhost'', PInt 6379), z_client = (\<lambda>_. steady_client demo_masters),
       z_min_other_sentinels = 1, z_force_master_ip = PNone, z_randbelow = (\<lambda>_ g. (0, g)), z_repr = (\<lambda>_. []), z_error_text = (\<lambda>_ _. []) \<rparr>"

definition demo_spool :: "(conn, unit, nat \<times> retry option) sentinel_pool" where
  "demo_spool = \<lparr>
     sp_pool = \<lparr> created = 0, available = [], in_use = [], pool_pid = 1, max_connections = 2, has_cache = False,
        objs = (\<lambda>_. ((PNone, PNone), demo_conn [])), next_obj = 0, shared = (0, None), getpid = 1, fork_lock_free = True \<rparr>,
     is_master = True, check_connection = False, service_name = PStr ''m'', master_address = None, slave_rr_counter = None,
     sentinels = [0],
     sentinel_client = (\<lambda>_. \<lparr> r_pool = \<lparr> created = 1, available = [0], in_use = [], pool_pid = 1, max_connections = 2, has_cache = False,
         objs = (\<lambda>_. ()), next_obj = 1, shared = (0, None), getpid = 1, fork_lock_free = True \<rparr>,
       r_connection = None, single_connection_client = False, single_lock_held = False, response_callbacks = [],
       auto_close_connection_pool = True \<rparr>) \<rparr>"

lemma demo_master_reply:
  "master_of_reply demo_sentinel (PStr ''m'') demo_masters
     = Inr (Some (obj [(''is_master'', PBool True), (''is_sdown'', PBool False), (''is_odown'', PBool False),
         (''num-other-sentinels'', PInt 2), (''ip'', PStr ''h''), (''port'', PInt 5)]))"
  "address_of_state demo_sentinel (obj [(''is_master'', PBool True), (''is_sdown'', PBool False), (''is_odown'', PBool False),
         (''num-other-sentinels'', PInt 2), (''ip'', PStr ''h''), (''port'', PInt 5)]) = Inr (PStr ''h'', PInt 5)"
  by (simp_all add: master_of_reply_def demo_masters_def check_master_state_def address_of_state_def getkey_def obj_def num_less_def
      demo_sentinel_def tcp_sentinel_def)

lemma demo_ask_sentinel:
  assumes "sentinel_client s = sentinel_client demo_spool"
  shows "\<exists>cl. ask_sentinel demo_sentinel 0 [PStr ''SENTINEL MASTERS''] s = Some (Inr demo_masters, s\<lparr>sentinel_client := cl\<rparr>)"
  using assms by (simp add: ask_sentinel_def demo_sentinel_def tcp_sentinel_def demo_spool_def execute_command_def own_or_pooled_def on_pool_def get_connection_def
    release_def checkpid_def pool_take_def pool_put_def ensure_ready_def on_conn_def io_seq_def io_bind_def io_get_def io_try_def io_when_def
    io_finally_def io_upd_def io_ret_def io_raise_def io_lift_def acquire_single_def release_single_def client_retry_def call_with_retry_def
    retry_loop.simps send_command_parse_response_def on_connection_def conn_get_def parse_response_def parse_reply_def steady_client_def
    new_retry_def NoBackoff_def no_opts_def has_opt_def ci_get_def cb_lookup_def owns_connection_def Let_def) blast

lemma demo_chain:
  "(case conn_init (demo_args (PInt 0) (PInt 2)) 1 [Inr [AttemptOk [RecvTimeout]]] [] of Inl e \<Rightarrow> None | Inr c0 \<Rightarrow>
    (case conn_connect demo_env c0 of None \<Rightarrow> None | Some (Inl e, c) \<Rightarrow> None | Some (Inr u, c1) \<Rightarrow>
    (case conn_can_read demo_env (Some 0) (c1\<lparr>c_retry := (c_retry c0)\<lparr>r_backoff := backoff_reset (r_backoff (c_retry c0))\<rparr>\<rparr>) of
      None \<Rightarrow> None | Some (Inl e, c) \<Rightarrow> None | Some (Inr b, c2) \<Rightarrow>
    (case re_auth demo_env c2 of None \<Rightarrow> None | Some (Inl e, c) \<Rightarrow> None | Some (Inr u, c3) \<Rightarrow> Some (b, c_sock c0 = None, c_sock c3 \<noteq> None, c_pid c2)))))
   = Some (False, True, True, 1)"
  by code_simp


text \<open>The pool with its connection in use, before and after it is connected.\<close>

definition demo_taken :: "conn \<Rightarrow> (conn, unit, nat \<times> retry option) sentinel_pool" where
  "demo_taken c = demo_spool\<lparr>sp_pool := (sp_pool demo_spool)\<lparr>created := 1, shared := (1, None), in_use := [0], next_obj := 1,
      objs := (objs (sp_pool demo_spool))(0 := ((PStr ''localhost'', PInt 6379), c))\<rparr>\<rparr>"

definition demo_found :: "(nat \<Rightarrow> (unit, nat \<times> retry option) redis) \<Rightarrow> conn \<Rightarrow> (conn, unit, nat \<times> retry option) sentinel_pool" where
  "demo_found cl c = (demo_taken c)\<lparr>sentinel_client := cl, sentinels := [0], master_address := Some (PStr ''h'', PInt 5)\<rparr>"

definition demo_held :: "(nat \<Rightarrow> (unit, nat \<times> retry option) redis) \<Rightarrow> conn \<Rightarrow> (conn, unit, nat \<times> retry option) sentinel_pool" where
  "demo_held cl c = (demo_found cl c)\<lparr>sp_pool := (sp_pool (demo_found cl c))\<lparr>objs := (objs (sp_pool (demo_found cl c)))(0 := ((PStr ''h'', PInt 5), c))\<rparr>\<rparr>"

lemmas demo_states = demo_held_def demo_found_def demo_taken_def

lemmas demo_tcp = demo_sentinel_def tcp_sentinel_def tcp_client_def tcp_class_def

lemma demo_take:
  assumes "conn_init (demo_args (PInt 0) (PInt 2)) 1 [Inr [AttemptOk [RecvTimeout]]] [] = Inr c"
  shows "on_spool (pool_take (managed_class demo_sentinel)) demo_spool = Some (Inr 0, demo_taken c)"
proof -
  have "co_new (managed_class demo_sentinel) (0, None) 1 = (Inr ((PStr ''localhost'', PInt 6379), c), (Suc 0, None))"
    using assms by (simp add: managed_class_def Let_def demo_tcp)
  then show ?thesis by (simp add: on_spool_def pool_take_def make_connection_def demo_taken_def demo_spool_def Let_def)
qed

lemma demo_master: "\<exists>cl. get_master_address demo_sentinel (demo_taken c) = Some (Inr (PStr ''h'', PInt 5), demo_found cl c)"
proof -
  obtain cl where "ask_sentinel demo_sentinel 0 [PStr ''SENTINEL MASTERS''] (demo_taken c) = Some (Inr demo_masters, (demo_taken c)\<lparr>sentinel_client := cl\<rparr>)"
    using demo_ask_sentinel [of "demo_taken c"] by (auto simp: demo_taken_def)
  then have "get_master_address demo_sentinel (demo_taken c) = Some (Inr (PStr ''h'', PInt 5), demo_found cl c)"
    using demo_master_reply
    by (simp add: get_master_address_def discover_master_def demo_found_def demo_taken_def demo_spool_def io_seq_def io_bind_def io_get_def
      io_try_def io_when_def io_upd_def io_ret_def io_lift_def promote_sentinel_def sp_disconnect_def sp_checkpid_def)
  then show ?thesis by blast
qed

lemma demo_on:
  "on_managed 0 m (demo_held cl c) =
     (case m (c, (1, None)) of None \<Rightarrow> None | Some (r, c', g) \<Rightarrow> Some (r, (demo_held cl c')\<lparr>sp_pool := (sp_pool (demo_held cl c'))\<lparr>shared := g\<rparr>\<rparr>))"
  by (auto simp: on_managed_def on_spool_def on_conn_def inherited_def demo_states split: option.splits)

lemma demo_dial:
  assumes "conn_connect demo_env c = Some (Inr (), c')"
  shows "connect_to demo_sentinel 0 (PStr ''h'', PInt 5) (demo_found cl c) = Some (Inr (), demo_held cl c')"
proof -
  have "(demo_found cl c)\<lparr>sp_pool := conn_update 0 (\<lambda>((_, c), g). (((PStr ''h'', PInt 5), c), g)) (sp_pool (demo_found cl c))\<rparr> = demo_held cl c"
    by (simp add: conn_update_def demo_states)
  moreover have "\<not> check_connection (demo_held cl c')" by (simp add: demo_states demo_spool_def)
  moreover have "co_connect (cc_class (z_conn demo_sentinel)) (c, (1, None)) = Some (Inr (), (c', (1, None)))"
    using assms by (simp add: demo_tcp)
  ultimately show ?thesis
    by (simp add: connect_to_def io_seq_def io_bind_def io_upd_def io_get_def io_when_def io_ret_def demo_on) (simp add: demo_states)
qed

lemma demo_connects:
  assumes "conn_connect demo_env c = Some (Inr (), c')" "c_sock c = None"
  shows "\<exists>cl. managed_connect demo_sentinel 0 (demo_taken c)
    = Some (Inr (), demo_held cl (c'\<lparr>c_retry := (c_retry c)\<lparr>r_backoff := backoff_reset (r_backoff (c_retry c))\<rparr>\<rparr>))"
proof -
  obtain cl where m: "get_master_address demo_sentinel (demo_taken c) = Some (Inr (PStr ''h'', PInt 5), demo_found cl c)"
    using demo_master by blast
  have "\<not> z_connected demo_sentinel (snd (objs (sp_pool (demo_taken c)) 0))" "is_master (demo_taken c)"
    using assms(2) by (simp_all add: demo_tcp demo_taken_def demo_spool_def)
  then have r: "connect_retry demo_sentinel 0 (demo_taken c) = Some (Inr (), demo_held cl c')"
    using m demo_dial [OF assms(1)] by (simp add: connect_retry_def io_get_def io_bind_def)
  have "cc_retry (z_conn demo_sentinel) (snd (objs (sp_pool (demo_taken c)) 0)) = c_retry c"
    by (simp add: demo_tcp demo_taken_def)
  then show ?thesis
    using r by (intro exI [of _ cl], simp add: managed_connect_def Let_def call_with_retry_def retry_loop.simps managed_get_def)
      (simp add: demo_states demo_tcp)
qed

lemma demo_sentinel_run:
  "\<exists>s' s. sp_get_connection demo_sentinel demo_spool = Some (Inr 0, s') \<and> sp_release demo_sentinel 0 s' = Some (Inr (), s) \<and>
     is_master s \<and> pool_pid (sp_pool s) = getpid (sp_pool s) \<and> 0 \<in> set (available (sp_pool s)) \<and> c_sock (snd (objs (sp_pool s) 0)) \<noteq> None"
proof -
  obtain c0 where c0: "conn_init (demo_args (PInt 0) (PInt 2)) 1 [Inr [AttemptOk [RecvTimeout]]] [] = Inr c0"
    using demo_chain by (auto split: sum.splits)
  let ?rt = "(c_retry c0)\<lparr>r_backoff := backoff_reset (r_backoff (c_retry c0))\<rparr>"
  obtain c1 c2 c3 where c: "conn_connect demo_env c0 = Some (Inr (), c1)" "conn_can_read demo_env (Some 0) (c1\<lparr>c_retry := ?rt\<rparr>) = Some (Inr False, c2)"
    "re_auth demo_env c2 = Some (Inr (), c3)" "c_sock c0 = None" "c_sock c3 \<noteq> None" "c_pid c2 = 1"
    using demo_chain unfolding c0 by (auto split: option.splits sum.splits)
  obtain cl where connect: "managed_connect demo_sentinel 0 (demo_taken c0) = Some (Inr (), demo_held cl (c1\<lparr>c_retry := ?rt\<rparr>))"
    using demo_connects [OF c(1,4)] by blast
  have read: "on_managed 0 (co_can_read (cc_class (z_conn demo_sentinel))) (demo_held cl (c1\<lparr>c_retry := ?rt\<rparr>)) = Some (Inr False, demo_held cl c2)"
    using c(2) by (simp add: demo_on demo_tcp) (simp add: demo_states)
  have get: "sp_get_connection demo_sentinel demo_spool = Some (Inr 0, demo_held cl c2)"
    using demo_take [OF c0] connect read
    by (simp add: sp_get_connection_def sp_checkpid_def io_seq_def io_bind_def io_get_def io_try_def io_ret_def sp_ensure_ready_def Let_def)
      (simp add: demo_spool_def)
  define s where "s = (demo_held cl c3)\<lparr>sp_pool := (sp_pool (demo_held cl c3))\<lparr>in_use := [], available := [0]\<rparr>\<rparr>"
  have "sp_release demo_sentinel 0 (demo_held cl c2) = Some (Inr (), s)"
    using c(3,6) by (simp add: sp_release_def sp_checkpid_def io_seq_def io_bind_def sp_put_def Let_def sp_owns_connection_def owns_connection_def
      managed_class_def on_managed_def on_spool_def on_conn_def inherited_def s_def demo_states demo_spool_def demo_tcp)
  moreover have "is_master s" "pool_pid (sp_pool s) = getpid (sp_pool s)" "0 \<in> set (available (sp_pool s))"
      "c_sock (snd (objs (sp_pool s) 0)) \<noteq> None"
    using c(5) by (simp_all add: s_def demo_states demo_spool_def)
  ultimately show ?thesis using get by blast
qed

theorem idle_connections_at_master_witness:
  "\<exists>s' s. sp_get_connection demo_sentinel demo_spool = Some (Inr 0, s') \<and> sp_release demo_sentinel 0 s' = Some (Inr (), s) \<and>
     master_address s = Some (fst (objs (sp_pool s) 0))"
proof -
  obtain s' s where run: "sp_get_connection demo_sentinel demo_spool = Some (Inr 0, s')" "sp_release demo_sentinel 0 s' = Some (Inr (), s)"
    and s: "is_master s" "pool_pid (sp_pool s) = getpid (sp_pool s)" "0 \<in> set (available (sp_pool s))" "c_sock (snd (objs (sp_pool s) 0)) \<noteq> None"
    using demo_sentinel_run by blast
  have "(sentinel_step demo_sentinel)\<^sup>*\<^sup>* demo_spool s"
    using step_get [OF run(1)] step_release [OF run(2)] by (meson converse_rtranclp_into_rtranclp r_into_rtranclp)
  moreover have "pool_inv (sp_pool demo_spool)" "available (sp_pool demo_spool) = []" by (simp_all add: demo_spool_def pool_inv_def)
  ultimately have "master_address s = Some (fst (objs (sp_pool s) 0))"
    using s unfolding demo_sentinel_def by (intro idle_connections_at_master)
  then show ?thesis using run by blast
qed

section \<open>Discovery\<close>

text \<open>A reply by which a sentinel vouches for the master at address \<open>a\<close>.\<close>

definition vouches :: "('c, 'd, 'g) sentinel_class \<Rightarrow> pyval \<Rightarrow> pyval \<Rightarrow> address \<Rightarrow> bool" where
  "vouches Z service masters a \<longleftrightarrow> (\<exists>d state m sd od n port. masters = PDict d \<and> dict_get d service = Some state \<and>
     getkey state ''is_master'' = Inr m \<and> truthy m \<and> getkey state ''is_sdown'' = Inr sd \<and> \<not> truthy sd \<and>
     getkey state ''is_odown'' = Inr od \<and> \<not> truthy od \<and>
     getkey state ''num-other-sentinels'' = Inr n \<and> num_less n (z_min_other_sentinels Z) = Inr False \<and>
     getkey state ''port'' = Inr port \<and> snd a = port \<and>
     (if z_force_master_ip Z \<noteq> PNone then fst a = z_force_master_ip Z else getkey state ''ip'' = Inr (fst a)))"

lemma master_of_reply_vouches:
  assumes "master_of_reply Z service masters = Inr (Some state)" "address_of_state Z state = Inr a"
  shows "vouches Z service masters a"
  using assms unfolding vouches_def
  by (cases masters) (auto simp: master_of_reply_def check_master_state_def address_of_state_def items_of_def res_map_def res_bind_Inr
      split: if_splits option.splits)

lemma ask_sentinel_order: "ask_sentinel Z k args s = Some (r, s') \<Longrightarrow> sentinels s' = sentinels s"
  by (auto simp: ask_sentinel_def Let_def split: option.splits)

lemma promote_sentinel_order:
  assumes "sentinels s = before @ k # ks"
  shows "hd (sentinels (promote_sentinel (length before) s)) = k \<and> mset (sentinels (promote_sentinel (length before) s)) = mset (sentinels s)"
proof -
  let ?xs = "sentinels s" and ?i = "length before"
  have i: "?i < length ?xs" "?xs ! ?i = k" "?xs \<noteq> []" using assms by simp_all
  have "hd (ys[0 := x]) = x" if "ys \<noteq> []" for ys and x :: nat using that by (cases ys) simp_all
  then have "hd (?xs[?i := hd ?xs, 0 := ?xs ! ?i]) = k" using i by simp
  moreover have "mset (?xs[?i := ?xs ! 0, 0 := ?xs ! ?i]) = mset ?xs" using i by (intro mset_swap) auto
  ultimately show ?thesis using i by (simp add: promote_sentinel_def hd_conv_nth)
qed

lemma discover_master_from_vouched:
  "discover_master_from Z service (length before) ks errors s = Some (Inr a, s') \<Longrightarrow> sentinels s = before @ ks \<Longrightarrow>
   \<exists>k t masters t'. k \<in> set ks \<and> ask_sentinel Z k [PStr ''SENTINEL MASTERS''] t = Some (Inr masters, t') \<and> vouches Z service masters a
     \<and> hd (sentinels s') = k \<and> mset (sentinels s') = mset (sentinels s)"
proof (induction ks arbitrary: before errors s)
  case Nil
  then show ?case by (simp add: io_raise_def)
next
  case (Cons k ks)
  obtain r t where ask: "ask_sentinel Z k [PStr ''SENTINEL MASTERS''] s = Some (r, t)" and t: "sentinels t = before @ k # ks"
    using Cons.prems ask_sentinel_order by (fastforce simp: io_bind_def io_try_def split: option.splits)
  have next': "\<exists>j u masters u'. j \<in> set (k # ks) \<and> ask_sentinel Z j [PStr ''SENTINEL MASTERS''] u = Some (Inr masters, u') \<and>
      vouches Z service masters a \<and> hd (sentinels s') = j \<and> mset (sentinels s') = mset (sentinels s)"
    if "discover_master_from Z service (Suc (length before)) ks errs t = Some (Inr a, s')" for errs
    using Cons.IH [of "before @ [k]" errs t] that t Cons.prems(2) by auto
  show ?case
  proof (cases r)
    case (Inl e)
    then have "\<exists>errs. discover_master_from Z service (Suc (length before)) ks errs t = Some (Inr a, s')"
      using Cons.prems(1) ask by (auto simp: io_bind_def io_try_def io_ret_def io_raise_def split: if_splits)
    then show ?thesis using next' by blast
  next
    case (Inr masters)
    then have run: "io_bind (io_lift (master_of_reply Z service masters)) (\<lambda>st. case st of
               None \<Rightarrow> discover_master_from Z service (Suc (length before)) ks errors
             | Some state \<Rightarrow> io_seq (io_upd (promote_sentinel (length before))) (io_lift (address_of_state Z state))) t = Some (Inr a, s')"
      using Cons.prems(1) ask by (simp add: io_bind_def io_try_def io_ret_def)
    then consider (pass) "discover_master_from Z service (Suc (length before)) ks errors t = Some (Inr a, s')"
      | (found) state where "master_of_reply Z service masters = Inr (Some state)" "address_of_state Z state = Inr a"
          "s' = promote_sentinel (length before) t"
      by (auto simp: io_bind_def io_lift_def io_seq_def io_upd_def split: sum.splits option.splits)
    then show ?thesis
    proof cases
      case found
      then have "vouches Z service masters a" by (intro master_of_reply_vouches)
      moreover have "sentinels t = sentinels s" using t Cons.prems(2) by simp
      ultimately show ?thesis using ask Inr promote_sentinel_order [OF t] found(3) by (metis list.set_intros(1))
    qed (rule next')
  qed
qed

text \<open>
  C30: discovery gives the address of a master that some sentinel vouches for.  The sentinel answered that it knows the service, that its
  master is a master and neither subjectively nor objectively down, and that it sees at least \<open>min_other_sentinels\<close> other sentinels; the address is the one it
  told, with the forced host if there is one.  That sentinel is then asked first; no sentinel is forgotten or asked twice.
\<close>

theorem discover_master_vouched:
  assumes "discover_master Z service s = Some (Inr a, s')"
  shows "\<exists>k t masters t'. k \<in> set (sentinels s) \<and> ask_sentinel Z k [PStr ''SENTINEL MASTERS''] t = Some (Inr masters, t') \<and>
    vouches Z service masters a \<and> hd (sentinels s') = k \<and> mset (sentinels s') = mset (sentinels s)"
  using discover_master_from_vouched [of Z service "[]" "sentinels s" "[]" s a s'] assms
  by (simp add: discover_master_def io_get_def)

theorem discover_master_vouched_witness:
  "\<exists>a s'. discover_master demo_sentinel (PStr ''m'') demo_spool = Some (Inr a, s') \<and>
     (\<exists>masters. vouches demo_sentinel (PStr ''m'') masters a) \<and> hd (sentinels s') = 0"
proof -
  obtain cl where "ask_sentinel demo_sentinel 0 [PStr ''SENTINEL MASTERS''] demo_spool = Some (Inr demo_masters, demo_spool\<lparr>sentinel_client := cl\<rparr>)"
    using demo_ask_sentinel [of demo_spool] by auto
  then have "discover_master demo_sentinel (PStr ''m'') demo_spool
      = Some (Inr (PStr ''h'', PInt 5), promote_sentinel 0 (demo_spool\<lparr>sentinel_client := cl\<rparr>))"
    using demo_master_reply
    by (simp add: discover_master_def io_get_def io_bind_def io_try_def io_ret_def io_lift_def io_seq_def io_upd_def)
      (simp add: demo_spool_def io_bind_def io_try_def io_ret_def io_lift_def io_seq_def io_upd_def)
  from discover_master_vouched [OF this] this show ?thesis by (fastforce simp: demo_spool_def)
qed

section \<open>Connections that are lost\<close>

text \<open>A connection whose address is not that of the master is dropped when it is given back, and still counts as created.\<close>

lemma foreign_address_counts:
  assumes "pool_inv (sp_pool s)" "pool_pid (sp_pool s) = getpid (sp_pool s)" "is_master s" "i \<in> set (in_use (sp_pool s))"
    and "master_address s \<noteq> Some (fst (objs (sp_pool s) i))" "sp_release Z i s = Some (r, s')"
  shows "created (sp_pool s') = created (sp_pool s) \<and> i \<notin> set (available (sp_pool s') @ in_use (sp_pool s'))"
  using assms
  by (auto simp: sp_release_def io_seq_def io_bind_def sp_checkpid_def sp_put_def Let_def sp_owns_connection_def disconnect_managed_def
      io_upd_def conn_update_def pool_inv_def split: prod.splits)

end
