(* ===== verification/Spec2Isabelle.thy ===== *)
theory Spec2Isabelle
  imports Keyslot Resp_Types Cache_Proxy Callbacks_Spec Redis_Lock PubSub_Spec Cmd_Spec Cluster_Layout Cluster_Routing Cluster_Keys Cluster_Commands Sentinel_Spec
begin

text \<open>
  redis-py, the Python client of Redis: a model of its blocking (synchronous) core and the theorems that make the
  core correct.

  The program in layers, bottom up.  A connection (\<open>redis/connection.py\<close>) writes commands packed in the RESP protocol
  to a socket and reads replies through a parser (\<open>redis/_parsers/\<close>) from a buffer over the socket; it reconnects and
  authenticates itself, and retries (\<open>redis/retry.py\<close>, \<open>redis/backoff.py\<close>).  A pool hands connections to threads.  The
  client (\<open>redis/client.py\<close>) takes a connection from the pool for each command, sends, parses the reply by a callback table
  (\<open>redis/_parsers/helpers.py\<close>) and gives the connection back; a pipeline keeps one connection for a queue of commands.
  A caching connection answers reads from a local cache (\<open>redis/cache.py\<close>).  A lock (\<open>redis/lock.py\<close>) is a key of the server.

  How the code is translated.  Bytes and text are \<^typ>\<open>string\<close> (text as its UTF-8 bytes), Python values are the datatype
  \<open>pyval\<close>, exceptions the datatype \<open>exc\<close> over the class hierarchy of \<open>exceptions.py\<close>.  A call that works on a state
  of type \<open>'s\<close> is a function \<open>('s, 'a) io\<close>, that is \<open>'s \<Rightarrow> ((exc + 'a) \<times> 's) option\<close>: \<open>Inl\<close> is an exception, with the state it leaves;
  \<open>None\<close> is a call that never returns, or that waits for a peer that never sends.  Pure code that may raise
  is \<open>'a res = exc + 'a\<close>.  Dictionaries are association lists in insertion order, mutable objects are records; where
  several objects share one, the shared part is a component of the state.

  Theories, and what their lemmas show.

  \<^item> \<open>Prelude\<close>: byte strings, decimal numerals, UTF-8 (well-formedness table and \<open>errors="replace"\<close>).
    \<open>Exceptions\<close>: \<open>exceptions.py\<close> and the table that maps an error reply to a class (\<open>BaseParser.parse_error\<close>).
    \<open>Values\<close>: \<open>pyval\<close>, the \<open>Encoder\<close>, \<open>str_if_bytes\<close>.  \<open>Pyops\<close>: loops, subscripts, conversions of Python values.
  \<^item> \<open>Byte_Source\<close> (the interface of a byte reader as a locale), \<open>Socket_Buffer\<close> (\<open>SocketBuffer\<close>, which interprets
    it), \<open>Resp\<close> (\<open>_RESP2Parser\<close>, \<open>_RESP3Parser\<close>, written over the interface), \<open>Resp_Spec\<close> (C1 to C4): both parsers invert
    the encoding of every reply however the bytes are cut up, keep what they read on a timeout, and resume.
  \<^item> \<open>Serializer\<close> (C5, C6): \<open>PythonRespSerializer\<close>, its chunks, round trip.  \<open>Keyslot\<close> (C7): \<open>crc.py\<close>.
  \<^item> \<open>Cache\<close> (C8 to C12): \<open>DefaultCache\<close> with its LRU policy, bounds and invalidation.  \<open>Cache_Proxy\<close> (C25 to C27):
    \<open>CacheProxyConnection\<close> over the modelled connection.
  \<^item> \<open>Retry\<close> (C13 to C15): every backoff strategy, \<open>Retry.call_with_retry\<close> with bounds, outcome and termination.
  \<^item> \<open>Connection\<close>, \<open>Connection_Spec\<close> (C16 to C19), \<open>Connection_Frame\<close>: \<open>AbstractConnection\<close> and the TCP \<open>Connection\<close>: dialling,
    the handshake, health checks, sending, reading, re-authentication; an operation that fails leaves the socket closed or the
    reply stream in step.  \<open>Connection_Frame\<close> is a locale of relations every operation keeps.
  \<^item> \<open>Pool\<close> (C20 to C22), \<open>Blocking_Pool\<close> (C23, C24): \<open>ConnectionPool\<close>, \<open>BlockingConnectionPool\<close> with clients that
    interleave and forks, as step relations; no connection has two users.
  \<^item> \<open>Callbacks\<close>, \<open>Callbacks_Spec\<close> (C28 to C31): \<open>_parsers/helpers.py\<close> in full, its three tables.
  \<^item> \<open>Redis_Lock\<close> (C32, C33): \<open>Lock\<close> with its Lua scripts; mutual exclusion, termination of \<open>acquire\<close>.
  \<^item> \<open>Client\<close>, \<open>Client_Spec\<close> (C34 to C36): \<open>Redis.execute_command\<close>, \<open>Redis.transaction\<close>, \<open>Pipeline\<close>; connections are
    given back on every path, a transaction stays in step with the server.

  Bounds and fuel.  Loops over data are structural or have a measure.  Loops of the code that may not end (the receive
  loop, retries without limit, \<open>Lock.acquire\<close>, \<open>Redis.transaction\<close>) are \<open>partial_function (option)\<close>; where they do end this is a
  theorem (C13 to C15, C33).  The only fuel is the nesting depth of connection health checks inside retries and of
  replies: \<open>Resp_Spec\<close> proves the parsers need no more than the depth of the reply, \<open>Connection\<close> takes the recursion limit as
  a parameter of the calls.  Six generations of base classes cover the exception hierarchy.

  Given from outside (fields of records, not definitions): the socket's events, the clock, \<open>random()\<close>, \<open>float()\<close> and
  \<open>datetime\<close> conversions, the token generator of locks, the user's callbacks, the server behind a lock.

  Not modelled, and why.  Hiredis parsers and serializer, OpenSSL/OCSP: third-party code.  TLS and Unix-domain connections:
  they differ in how the socket is opened.  \<open>asyncio/\<close>: the same logic over coroutines.
  \<open>cluster.py\<close>, \<open>sentinel.py\<close>, the command builders (\<open>commands/\<close>), publish/subscribe and monitor: not yet.  Rounding of
  floats (times are rationals), Unicode digits in \<open>int()\<close>, the backoff copy of a nested retry, garbage collection.
\<close>

end
